(* ===== verification/GoPrelude.thy ===== *)
theory GoPrelude
  imports Main "HOL-Library.AList" "HOL-Library.Multiset" "HOL-Library.List_Lexorder" "HOL-Library.Char_ord"
begin

text \<open>
  What the model uses of the Go language and its standard library: 32-bit integers with their
  wrap-around, maps as association lists, slices as lists, \<^verbatim>\<open>sort.Sort\<close>, \<^verbatim>\<open>strings.Index\<close>,
  \<^verbatim>\<open>strconv.Atoi\<close>, and the lemmas the components share about them.

  A Go map is an association list with distinct keys; its order is the order in which the runtime
  enumerates it. The theorems quantify over the list, hence over every enumeration order. Reading
  a missing key gives the zero value of the value type; a pointer that may be nil is an option.
\<close>

named_theorems go_simps \<open>unfoldings of the model's small accessors\<close>
named_theorems i32_simps \<open>removal of the 32-bit wrap-around inside the range\<close>
named_theorems map_simps \<open>reads of updated Go maps\<close>

subsection \<open>32-bit integers\<close>

type_synonym int32 = int

text \<open>The value of an \<^verbatim>\<open>int32\<close> expression: two's complement wrap-around.\<close>

definition i32 :: "int \<Rightarrow> int32" where
  "i32 x = (x + 2147483648) mod 4294967296 - 2147483648"

definition in32 :: "int \<Rightarrow> bool" where
  "in32 x \<longleftrightarrow> - 2147483648 \<le> x \<and> x < 2147483648"

lemma i32_id [i32_simps]: "- 2147483648 \<le> x \<Longrightarrow> x < 2147483648 \<Longrightarrow> i32 x = x"
  unfolding i32_def by (subst mod_pos_pos_trivial) auto

lemma i32_in32: "in32 (i32 x)"
proof -
  have "0 \<le> (x + 2147483648) mod 4294967296" "(x + 2147483648) mod 4294967296 < 4294967296"
    by simp_all
  then show ?thesis by (simp add: i32_def in32_def)
qed

lemma i32_bounds: "- 2147483648 \<le> i32 x" "i32 x < 2147483648"
  using i32_in32 [of x] by (simp_all add: in32_def)

lemma i32_i32 [simp]: "i32 (i32 x) = i32 x"
  by (rule i32_id) (rule i32_bounds)+

lemma i32_0 [simp]: "i32 0 = 0"
  by (simp add: i32_def)

lemma i32_add_left [simp]: "i32 (i32 x + y) = i32 (x + y)"
  unfolding i32_def by (simp add: mod_simps algebra_simps)

text \<open>\<^verbatim>\<open>k8s.io/utils/integer\<close>'s \<^verbatim>\<open>Int32Min\<close> and \<^verbatim>\<open>Int32Max\<close> are minimum and maximum.\<close>

abbreviation Int32Min :: "int32 \<Rightarrow> int32 \<Rightarrow> int32" where "Int32Min \<equiv> min"
abbreviation Int32Max :: "int32 \<Rightarrow> int32 \<Rightarrow> int32" where "Int32Max \<equiv> max"

subsection \<open>Maps\<close>

type_synonym ('k, 'v) gomap = "('k \<times> 'v) list"

text \<open>\<open>mget d m k\<close> is \<^verbatim>\<open>m[k]\<close> with zero value \<open>d\<close>; \<open>mput k v m\<close> is \<^verbatim>\<open>m[k] = v\<close>.\<close>

definition mget :: "'v \<Rightarrow> ('k, 'v) gomap \<Rightarrow> 'k \<Rightarrow> 'v" where
  "mget d m k = (case map_of m k of None \<Rightarrow> d | Some v \<Rightarrow> v)"

abbreviation mput :: "'k \<Rightarrow> 'v \<Rightarrow> ('k, 'v) gomap \<Rightarrow> ('k, 'v) gomap" where
  "mput \<equiv> AList.update"

abbreviation mdel :: "'k \<Rightarrow> ('k, 'v) gomap \<Rightarrow> ('k, 'v) gomap" where
  "mdel \<equiv> AList.delete"

abbreviation mkeys :: "('k, 'v) gomap \<Rightarrow> 'k list" where
  "mkeys m \<equiv> map fst m"

abbreviation mhas :: "('k, 'v) gomap \<Rightarrow> 'k \<Rightarrow> bool" where
  "mhas m k \<equiv> map_of m k \<noteq> None"

abbreviation wf_map :: "('k, 'v) gomap \<Rightarrow> bool" where
  "wf_map m \<equiv> distinct (mkeys m)"

lemma mget_Nil [simp]: "mget d [] k = d"
  by (simp add: mget_def)

lemma mget_Cons [simp]: "mget d ((a, v) # m) k = (if k = a then v else mget d m k)"
  by (simp add: mget_def)

lemma mget_mput [simp, map_simps]: "mget d (mput k v m) j = (if j = k then v else mget d m j)"
  by (simp add: mget_def update_conv)

lemma mget_notin: "k \<notin> set (mkeys m) \<Longrightarrow> mget d m k = d"
  by (simp add: mget_def map_of_eq_None_iff[THEN iffD2])

lemma mget_in: "(k, v) \<in> set m \<Longrightarrow> wf_map m \<Longrightarrow> mget d m k = v"
  by (simp add: mget_def)

lemma wf_mput [simp]: "wf_map m \<Longrightarrow> wf_map (mput k v m)"
  by (rule distinct_update)

lemma mkeys_mput [simp]: "fst ` set (mput k v m) = insert k (fst ` set m)"
  by (induction m) auto

lemma mhas_iff: "mhas m k \<longleftrightarrow> k \<in> set (mkeys m)"
  by (simp add: map_of_eq_None_iff)

subsection \<open>Sums over maps\<close>

text \<open>The mathematical sum of the values, and how one write changes it.\<close>

definition msum :: "('k, int) gomap \<Rightarrow> int" where
  "msum m = sum_list (map snd m)"

lemma msum_Nil [simp]: "msum [] = 0"
  by (simp add: msum_def)

lemma msum_Cons [simp]: "msum ((k, v) # m) = v + msum m"
  by (simp add: msum_def)

lemma msum_mput: "wf_map m \<Longrightarrow> msum (mput k v m) = msum m - mget 0 m k + v"
proof (induction m)
  case Nil
  then show ?case by simp
next
  case (Cons p m)
  obtain a b where p: "p = (a, b)" by (cases p)
  show ?case
  proof (cases "k = a")
    case True
    with Cons p show ?thesis by simp
  next
    case False
    with Cons p show ?thesis by auto
  qed
qed

lemma msum_nonneg: "(\<And>k. 0 \<le> mget 0 m k) \<Longrightarrow> wf_map m \<Longrightarrow> 0 \<le> msum m"
proof (induction m)
  case Nil
  then show ?case by simp
next
  case (Cons p m)
  obtain a b where p: "p = (a, b)" by (cases p)
  have b: "0 \<le> b" using Cons.prems(1) [of a] p by simp
  have "0 \<le> mget 0 m k" for k
    using Cons.prems(1) [of k] Cons.prems(2) p by (cases "k = a") (auto simp: mget_notin)
  then have "0 \<le> msum m" using Cons p by (auto intro: Cons.IH)
  with b p show ?case by simp
qed

lemma mget_le_msum: "(\<And>k. 0 \<le> mget 0 m k) \<Longrightarrow> wf_map m \<Longrightarrow> mget 0 m k \<le> msum m"
proof -
  assume nn: "\<And>k. 0 \<le> mget 0 m k" and wf: "wf_map m"
  have "0 \<le> msum (mput k 0 m)"
    by (rule msum_nonneg) (auto simp: nn wf)
  then show "mget 0 m k \<le> msum m" by (simp add: msum_mput wf)
qed

lemma msum_mono:
  assumes "wf_map m" "wf_map m'" "\<And>k. mget 0 m k \<le> mget 0 m' k" "\<And>k. 0 \<le> mget 0 m' k"
  shows "msum m \<le> msum m'"
  using assms
proof (induction m arbitrary: m')
  case Nil
  then show ?case by (simp add: msum_nonneg)
next
  case (Cons p m)
  obtain a b where p: "p = (a, b)" by (cases p)
  have "msum m \<le> msum (mput a 0 m')"
  proof (rule Cons.IH)
    show "mget 0 m k \<le> mget 0 (mput a 0 m') k" for k
      using Cons.prems(1) Cons.prems(3) [of k] p by (auto simp: mget_notin)
    show "0 \<le> mget 0 (mput a 0 m') k" for k using Cons.prems(4) [of k] by simp
  qed (use Cons.prems p in auto)
  moreover have "b \<le> mget 0 m' a" using Cons.prems(3) [of a] p by simp
  ultimately show ?case using Cons.prems(2) p by (simp add: msum_mput)
qed

text \<open>
  A map of counts: distinct keys, no negative value and a sum that is an \<^verbatim>\<open>int32\<close>. The loops of the
  program that move counts between versions stay inside this predicate.
\<close>

definition wf_counts :: "('k, int32) gomap \<Rightarrow> bool" where
  "wf_counts m \<longleftrightarrow> wf_map m \<and> list_all (\<lambda>p. 0 \<le> snd p) m \<and> msum m < 2147483648"

lemma nonneg_mget: "list_all (\<lambda>p. 0 \<le> snd p) m \<Longrightarrow> (0 :: int) \<le> mget 0 m k"
  by (induction m) auto

lemma wf_counts_get:
  assumes "wf_counts m"
  shows "0 \<le> mget 0 m k" "mget 0 m k \<le> msum m" "mget 0 m k < 2147483648"
proof -
  have nn: "0 \<le> mget 0 m j" for j using assms by (simp add: wf_counts_def nonneg_mget)
  then show "0 \<le> mget 0 m k" .
  show l: "mget 0 m k \<le> msum m" using assms by (intro mget_le_msum [OF nn]) (simp add: wf_counts_def)
  with assms show "mget 0 m k < 2147483648" by (simp add: wf_counts_def)
qed

lemma wf_countsD:
  assumes "wf_counts m"
  shows "wf_map m" "0 \<le> msum m" "msum m < 2147483648"
  using assms wf_counts_get [OF assms] by (auto simp: wf_counts_def intro!: msum_nonneg)

lemma wf_counts_mput:
  assumes "wf_counts m" "0 \<le> v" "msum m - mget 0 m k + v < 2147483648"
  shows "wf_counts (mput k v m)"
proof -
  have "list_all (\<lambda>p. 0 \<le> snd p) m \<Longrightarrow> list_all (\<lambda>p. 0 \<le> snd p) (mput k v m)"
    using assms(2) by (induction m) auto
  with assms show ?thesis by (simp add: wf_counts_def msum_mput)
qed

lemma wf_counts_decrease:
  assumes "wf_counts m" "0 \<le> v" "v \<le> mget 0 m k"
  shows "wf_counts (mput k v m)"
  using assms wf_countsD(3) [OF assms(1)] by (intro wf_counts_mput) auto

lemma wf_counts_mono:
  assumes "wf_counts m" "wf_counts m'" "\<And>k. mget 0 m k \<le> mget 0 m' k"
  shows "msum m \<le> msum m'"
  using assms by (intro msum_mono) (auto simp: wf_countsD wf_counts_get)

text \<open>A 32-bit sum of non-negative numbers that fits is the mathematical sum.\<close>

lemma fold_i32_sum:
  assumes "\<And>x. x \<in> set xs \<Longrightarrow> 0 \<le> f x" "0 \<le> s" "s + sum_list (map f xs) < 2147483648"
  shows "fold (\<lambda>x t. i32 (t + f x)) xs s = s + sum_list (map f xs)"
  using assms
proof (induction xs arbitrary: s)
  case Nil
  then show ?case by simp
next
  case (Cons x xs)
  have x: "0 \<le> f x" using Cons.prems(1) by simp
  have "0 \<le> sum_list (map f xs)" using Cons.prems(1) by (intro sum_list_nonneg) auto
  then have "i32 (s + f x) = s + f x" using Cons.prems(2,3) x by (intro i32_id) simp_all
  moreover have "fold (\<lambda>x t. i32 (t + f x)) xs (s + f x) = s + f x + sum_list (map f xs)"
    using Cons.prems x by (intro Cons.IH) auto
  ultimately show ?case by simp
qed

subsection \<open>Sorting\<close>

text \<open>
  \<^verbatim>\<open>sort.Sort\<close>, \<^verbatim>\<open>sort.Stable\<close> and \<^verbatim>\<open>sort.SliceStable\<close> on the short slices of this program run
  \<^verbatim>\<open>insertionSort\<close>: element \<open>i\<close> is swapped to the left while it is less than its neighbour. The
  sorted prefix is kept reversed. The component theorems use the \<open>sorter\<close> laws only, which
  every sorting routine has.
\<close>

fun insertion_step :: "('a \<Rightarrow> 'a \<Rightarrow> bool) \<Rightarrow> 'a \<Rightarrow> 'a list \<Rightarrow> 'a list" where
  "insertion_step lt x [] = [x]"
| "insertion_step lt x (y # ys) =
     (if lt x y then y # insertion_step lt x ys else x # y # ys)"

definition go_sort :: "('a \<Rightarrow> 'a \<Rightarrow> bool) \<Rightarrow> 'a list \<Rightarrow> 'a list" where
  "go_sort lt xs = rev (fold (insertion_step lt) xs [])"

locale sorter =
  fixes sort :: "('a \<Rightarrow> 'a \<Rightarrow> bool) \<Rightarrow> 'a list \<Rightarrow> 'a list"
  assumes mset_sort: "mset (sort lt xs) = mset xs"
begin

lemma set_sort: "set (sort lt xs) = set xs"
  using mset_sort [of lt xs] by (metis set_mset_mset)

lemma length_sort: "length (sort lt xs) = length xs"
  using mset_sort [of lt xs] by (metis size_mset)

lemma distinct_sort: "distinct (sort lt xs) = distinct xs"
  using mset_sort [of lt xs] by (metis mset_eq_imp_distinct_iff)

lemmas sort_laws = mset_sort set_sort length_sort distinct_sort

end

lemma mset_insertion_step: "mset (insertion_step lt x ys) = add_mset x (mset ys)"
  by (induction ys) auto

lemma mset_fold_insertion_step:
  "mset (fold (insertion_step lt) xs acc) = mset xs + mset acc"
  by (induction xs arbitrary: acc) (auto simp: mset_insertion_step)

interpretation gs: sorter go_sort
  by unfold_locales (simp add: go_sort_def mset_fold_insertion_step)

text \<open>
  When \<open>lt\<close> is a strict weak order on the elements (irreflexive, transitive, and
  incomparability is transitive), the result is sorted: no element is less than an earlier one.
\<close>

definition strict_weak_on :: "'a set \<Rightarrow> ('a \<Rightarrow> 'a \<Rightarrow> bool) \<Rightarrow> bool" where
  "strict_weak_on A lt \<longleftrightarrow> (\<forall>x\<in>A. \<not> lt x x) \<and>
     (\<forall>x\<in>A. \<forall>y\<in>A. \<forall>z\<in>A. lt x y \<longrightarrow> lt y z \<longrightarrow> lt x z) \<and>
     (\<forall>x\<in>A. \<forall>y\<in>A. \<forall>z\<in>A. \<not> lt x y \<longrightarrow> \<not> lt y z \<longrightarrow> \<not> lt x z)"

lemma set_insertion_step: "set (insertion_step lt x ys) = insert x (set ys)"
  by (metis mset_insertion_step set_mset_add_mset_insert set_mset_mset)

lemma insertion_step_sorted:
  assumes sw: "strict_weak_on A lt" and x: "x \<in> A"
  shows "set ys \<subseteq> A \<Longrightarrow> sorted_wrt (\<lambda>a b. \<not> lt a b) ys \<Longrightarrow>
    sorted_wrt (\<lambda>a b. \<not> lt a b) (insertion_step lt x ys)"
proof (induction ys)
  case Nil
  then show ?case by simp
next
  case (Cons y ys)
  have yA: "y \<in> A" using Cons.prems by simp
  show ?case
  proof (cases "lt x y")
    case True
    have "\<not> lt y x" using sw True x yA unfolding strict_weak_on_def by blast
    then show ?thesis using Cons True by (auto simp: set_insertion_step)
  next
    case False
    have "\<not> lt x z" if "z \<in> set ys" for z
    proof -
      from Cons.prems that have "\<not> lt y z" "z \<in> A" by auto
      with False x yA sw show ?thesis unfolding strict_weak_on_def by blast
    qed
    then show ?thesis using Cons.prems False by simp
  qed
qed

lemma go_sort_sorted:
  assumes "strict_weak_on (set xs) lt"
  shows "sorted_wrt (\<lambda>a b. \<not> lt b a) (go_sort lt xs)"
proof -
  have "sorted_wrt (\<lambda>a b. \<not> lt a b) (fold (insertion_step lt) ys acc)"
    if "set ys \<subseteq> set xs" "set acc \<subseteq> set xs" "sorted_wrt (\<lambda>a b. \<not> lt a b) acc" for ys acc
    using that
  proof (induction ys arbitrary: acc)
    case (Cons y ys)
    then show ?case
      using insertion_step_sorted [OF assms, of y acc] by (auto simp: set_insertion_step)
  qed simp
  from this [of xs "[]"] show ?thesis by (simp add: go_sort_def sorted_wrt_rev)
qed

subsection \<open>Strings\<close>

text \<open>\<^verbatim>\<open>strings.Index\<close> of a one-character separator; \<open>None\<close> is Go's \<open>-1\<close>.\<close>

fun str_index :: "char \<Rightarrow> string \<Rightarrow> nat option" where
  "str_index c [] = None"
| "str_index c (x # xs) = (if x = c then Some 0 else map_option Suc (str_index c xs))"

definition digit_val :: "char \<Rightarrow> int option" where
  "digit_val c = (let n = of_char c :: nat in if 48 \<le> n \<and> n \<le> 57 then Some (int n - 48) else None)"

fun digits_val :: "int \<Rightarrow> string \<Rightarrow> int option" where
  "digits_val acc [] = Some acc"
| "digits_val acc (c # cs) =
     (case digit_val c of None \<Rightarrow> None | Some d \<Rightarrow> digits_val (10 * acc + d) cs)"

text \<open>\<^verbatim>\<open>strconv.Atoi\<close>: an optional sign and at least one decimal digit, in the range of int64.\<close>

definition atoi :: "string \<Rightarrow> int option" where
  "atoi s =
     (let neg = (case s of [] \<Rightarrow> False | c # _ \<Rightarrow> c = CHR ''-'');
          body = (case s of [] \<Rightarrow> [] | c # cs \<Rightarrow> if c = CHR ''-'' \<or> c = CHR ''+'' then cs else s)
      in if body = [] then None
         else case digits_val 0 body of
           None \<Rightarrow> None
         | Some n \<Rightarrow> (let v = (if neg then - n else n) in
             if - 9223372036854775808 \<le> v \<and> v \<le> 9223372036854775807 then Some v else None))"

lemma str_index_less: "str_index c s = Some i \<Longrightarrow> i < length s \<and> s ! i = c"
  by (induction s arbitrary: i) (auto split: if_splits)

end
