(* ===== verification/Float64.thy ===== *)
theory Float64
  imports GoPrelude "HOL-Library.Log_Nat"
begin

text \<open>
  Go's \<^verbatim>\<open>float64\<close>: IEEE 754 binary64 with round-to-nearest, ties to even. A value is a rational
  number; every arithmetic operation of the source is the exact operation followed by \<open>f64\<close>, the
  rounding to 53 significant bits (fewer below the normal range). The program's values stay far
  below the overflow threshold and the one division by zero it can make (\<open>isForward\<close>) is written
  out where it happens, so infinities and NaN are not values of the type. The operations are those
  of amd64, where no multiplication and addition are fused.

  The components use three laws of the rounding only: it is monotone, idempotent, and exact on
  the integers up to \<open>2^53\<close>. They are the assumptions of the locale \<open>rounding\<close>.
\<close>

type_synonym float64 = rat

subsection \<open>Round half to even\<close>

definition rhe :: "rat \<Rightarrow> int" where
  "rhe x = (let n = \<lfloor>x\<rfloor>; d = x - of_int n in
     if d < 1 / 2 then n else if 1 / 2 < d then n + 1 else if even n then n else n + 1)"

lemma rhe_of_int [simp]: "rhe (of_int n) = n"
  by (simp add: rhe_def)

lemma rhe_bounds: "\<lfloor>x\<rfloor> \<le> rhe x" "rhe x \<le> \<lfloor>x\<rfloor> + 1"
  by (simp_all add: rhe_def Let_def)

lemma rhe_mono: "x \<le> y \<Longrightarrow> rhe x \<le> rhe y"
proof (cases "\<lfloor>x\<rfloor> = \<lfloor>y\<rfloor>")
  case True
  assume "x \<le> y"
  with True show ?thesis by (auto simp: rhe_def Let_def)
next
  case False
  assume "x \<le> y"
  then have "\<lfloor>x\<rfloor> \<le> \<lfloor>y\<rfloor>" by (rule floor_mono)
  with False have "\<lfloor>x\<rfloor> + 1 \<le> \<lfloor>y\<rfloor>" by simp
  with rhe_bounds(2) [of x] rhe_bounds(1) [of y] show ?thesis by linarith
qed

lemma rhe_error: "\<bar>of_int (rhe x) - x\<bar> \<le> 1 / 2"
proof -
  have "of_int \<lfloor>x\<rfloor> \<le> x" "x < of_int \<lfloor>x\<rfloor> + 1" by linarith+
  then show ?thesis by (auto simp: rhe_def Let_def abs_le_iff)
qed

lemma rhe_uminus: "rhe (- x) = - rhe x"
proof (cases "x = of_int \<lfloor>x\<rfloor>")
  case True
  then obtain n :: int where n: "x = of_int n" by blast
  then have "- x = of_int (- n)" by simp
  then have "rhe (- x) = - n" by (simp only: rhe_of_int)
  with n show ?thesis by simp
next
  case False
  let ?n = "\<lfloor>x\<rfloor>"
  have b: "of_int ?n < x" "x < of_int ?n + 1"
    using False by (linarith, linarith)
  then have f: "\<lfloor>- x\<rfloor> = - ?n - 1" by (intro floor_unique) auto
  have d: "- x - of_int (- ?n - 1) = 1 - (x - of_int ?n)" by simp
  show ?thesis
    unfolding rhe_def Let_def f d by auto
qed

subsection \<open>The binary exponent\<close>

text \<open>\<open>ilog2 x\<close> is \<open>\<lfloor>log 2 x\<rfloor>\<close> for positive \<open>x\<close>, by integer arithmetic.\<close>

definition ilog2 :: "rat \<Rightarrow> int" where
  "ilog2 x = (if 1 \<le> x then bitlen \<lfloor>x\<rfloor> - 1 else - bitlen (\<lceil>1 / x\<rceil> - 1))"

lemma bitlen_pos: "0 < n \<Longrightarrow> 0 < bitlen n"
  using bitlen_nonneg [of n] bitlen_eq_zero_iff [of n] by linarith

lemma ilog2_ge1:
  assumes "1 \<le> x"
  shows "2 powi ilog2 x \<le> x \<and> x < 2 powi (ilog2 x + 1)"
proof -
  let ?n = "\<lfloor>x\<rfloor>"
  have n: "0 < ?n" using assms by linarith
  have b: "0 < bitlen ?n" using n by (rule bitlen_pos)
  from bitlen_bounds [OF n]
  have lo: "2 ^ nat (bitlen ?n - 1) \<le> ?n" and hi: "?n < 2 ^ nat (bitlen ?n)" by auto
  have e1: "(2 :: rat) powi (bitlen ?n - 1) = of_int (2 ^ nat (bitlen ?n - 1))"
    using b by (simp add: power_int_def)
  have e2: "(2 :: rat) powi (bitlen ?n) = of_int (2 ^ nat (bitlen ?n))"
    using b by (simp add: power_int_def)
  have "(of_int (2 ^ nat (bitlen ?n - 1)) :: rat) \<le> of_int ?n" using lo by (simp only: of_int_le_iff)
  also have "\<dots> \<le> x" by simp
  finally have 1: "2 powi (bitlen ?n - 1) \<le> x" using e1 by simp
  have "x < of_int ?n + 1" by linarith
  also have "\<dots> = of_int (?n + 1)" by simp
  also have "\<dots> \<le> of_int (2 ^ nat (bitlen ?n))" using hi by (simp only: of_int_le_iff)
  finally have 2: "x < 2 powi (bitlen ?n)" using e2 by simp
  from 1 2 assms show ?thesis by (simp add: ilog2_def)
qed

lemma ilog2_lt1:
  assumes "0 < x" "x < 1"
  shows "2 powi ilog2 x \<le> x \<and> x < 2 powi (ilog2 x + 1)"
proof -
  let ?y = "1 / x" let ?m = "\<lceil>1 / x\<rceil> - 1"
  have y: "1 < ?y" using assms by simp
  have m: "0 < ?m" using y by linarith
  have b: "0 < bitlen ?m" using m by (rule bitlen_pos)
  from bitlen_bounds [OF m]
  have lo: "2 ^ nat (bitlen ?m - 1) \<le> ?m" and hi: "?m < 2 ^ nat (bitlen ?m)" by auto
  have "?y \<le> of_int (?m + 1)" by simp
  also have "\<dots> \<le> of_int (2 ^ nat (bitlen ?m))" using hi by (simp only: of_int_le_iff)
  finally have 1: "?y \<le> 2 powi (bitlen ?m)" using b by (simp add: power_int_def)
  have "(of_int (2 ^ nat (bitlen ?m - 1)) :: rat) \<le> of_int ?m" using lo by (simp only: of_int_le_iff)
  also have "\<dots> < ?y" by linarith
  finally have 2: "2 powi (bitlen ?m - 1) < ?y" using b by (simp add: power_int_def)
  have p: "(0 :: rat) < 2 powi (bitlen ?m)" "(0 :: rat) < 2 powi (bitlen ?m - 1)" by simp_all
  have "1 / 2 powi (bitlen ?m) \<le> x"
    using 1 p assms by (simp add: field_simps)
  moreover have "x < 1 / 2 powi (bitlen ?m - 1)"
    using 2 p assms by (simp add: field_simps)
  moreover have "(2 :: rat) powi (- bitlen ?m) = 1 / 2 powi (bitlen ?m)"
    by (simp add: power_int_minus divide_inverse)
  moreover have "(2 :: rat) powi (- bitlen ?m + 1) = 1 / 2 powi (bitlen ?m - 1)"
    by (metis (no_types) add.commute add_diff_cancel_left' diff_0 diff_minus_eq_add divide_inverse
        minus_diff_eq mult_1 power_int_minus)
  ultimately show ?thesis using assms by (simp add: ilog2_def)
qed

lemma ilog2_bounds: "0 < x \<Longrightarrow> 2 powi ilog2 x \<le> x \<and> x < 2 powi (ilog2 x + 1)"
  using ilog2_ge1 ilog2_lt1 by (cases "1 \<le> x") auto

lemma ilog2_le: "0 < x \<Longrightarrow> x < 2 powi (k + 1) \<Longrightarrow> ilog2 x \<le> k"
proof (rule ccontr)
  assume x: "0 < x" "x < 2 powi (k + 1)" and "\<not> ilog2 x \<le> k"
  then have "(2 :: rat) powi (k + 1) \<le> 2 powi ilog2 x" by (intro power_int_increasing) auto
  with ilog2_bounds [OF x(1)] x(2) show False by simp
qed

lemma ilog2_ge: "0 < x \<Longrightarrow> 2 powi k \<le> x \<Longrightarrow> k \<le> ilog2 x"
proof (rule ccontr)
  assume x: "0 < x" "2 powi k \<le> x" and "\<not> k \<le> ilog2 x"
  then have "(2 :: rat) powi (ilog2 x + 1) \<le> 2 powi k" by (intro power_int_increasing) auto
  with ilog2_bounds [OF x(1)] x(2) show False by simp
qed

lemma ilog2_mono: "0 < x \<Longrightarrow> x \<le> y \<Longrightarrow> ilog2 x \<le> ilog2 y"
  using ilog2_bounds [of x] by (intro ilog2_ge) auto


subsection \<open>Rounding to binary64\<close>

text \<open>The exponent of the last significant bit, and rounding to a multiple of \<open>2^e\<close>.\<close>

definition f64_exp :: "rat \<Rightarrow> int" where
  "f64_exp x = max (- 1074) (ilog2 \<bar>x\<bar> - 52)"

definition grid :: "int \<Rightarrow> rat \<Rightarrow> rat" where
  "grid e x = of_int (rhe (x / 2 powi e)) * 2 powi e"

definition f64 :: "rat \<Rightarrow> float64" where
  "f64 x = (if x = 0 then 0 else grid (f64_exp x) x)"

lemma grid_mono: "x \<le> y \<Longrightarrow> grid e x \<le> grid e y"
  unfolding grid_def by (intro mult_right_mono) (simp_all add: rhe_mono divide_right_mono)

lemma grid_fix: "grid e (of_int m * 2 powi e) = of_int m * 2 powi e"
  by (simp add: grid_def)

lemma grid_uminus: "grid e (- x) = - grid e x"
  by (simp add: grid_def rhe_uminus)

lemma grid_error: "\<bar>grid e x - x\<bar> \<le> 2 powi e / 2"
proof -
  have p: "(0 :: rat) < 2 powi e" by simp
  have "grid e x - x = (of_int (rhe (x / 2 powi e)) - x / 2 powi e) * 2 powi e"
    by (simp add: grid_def algebra_simps)
  then have "\<bar>grid e x - x\<bar> = \<bar>of_int (rhe (x / 2 powi e)) - x / 2 powi e\<bar> * 2 powi e"
    by (simp add: abs_mult)
  also have "\<dots> \<le> 1 / 2 * 2 powi e"
    using rhe_error p by (intro mult_right_mono) auto
  finally show ?thesis by simp
qed

lemma f64_0 [simp]: "f64 0 = 0"
  by (simp add: f64_def)

lemma f64_uminus: "f64 (- x) = - f64 x"
  by (simp add: f64_def f64_exp_def grid_uminus)

text \<open>A multiple of \<open>2^e\<close> with at most 53 significant bits is a binary64 value.\<close>

lemma powi_split:
  assumes "f \<le> (e :: int)"
  shows "(2 :: rat) powi e = of_int (2 ^ nat (e - f)) * 2 powi f"
proof -
  have "(2 :: rat) powi e = 2 powi ((e - f) + f)" by simp
  also have "\<dots> = 2 powi (e - f) * 2 powi f" by (rule power_int_add) simp
  also have "(2 :: rat) powi (e - f) = of_int (2 ^ nat (e - f))"
    using assms by (simp add: power_int_def)
  finally show ?thesis .
qed

lemma f64_rep:
  assumes m: "\<bar>m\<bar> \<le> 2 ^ 53" and e: "- 1074 \<le> e"
  shows "f64 (of_int m * 2 powi e) = of_int m * 2 powi e"
proof (cases "m = 0")
  case True
  then show ?thesis by simp
next
  case False
  let ?v = "of_int m * 2 powi e :: rat" let ?L = "ilog2 \<bar>?v\<bar>"
  have pe: "(0 :: rat) < 2 powi e" by simp
  have v: "0 < \<bar>?v\<bar>" using False by simp
  have m': "\<bar>of_int m :: rat\<bar> \<le> 2 ^ 53" using m by (metis of_int_abs of_int_le_numeral_power_cancel_iff)
  have av: "\<bar>?v\<bar> = \<bar>of_int m\<bar> * 2 powi e" using pe by (simp add: abs_mult)
  have le: "\<bar>?v\<bar> \<le> 2 powi (e + 53)"
    using mult_right_mono [OF m', of "2 powi e"] pe av by (simp add: power_int_add mult.commute)
  have L: "?L \<le> e + 53"
  proof (rule ilog2_le [OF v])
    have "(2 :: rat) powi (e + 53) < 2 powi (e + 53 + 1)" by (intro power_int_strict_increasing) auto
    with le show "\<bar>?v\<bar> < 2 powi (e + 53 + 1)" by simp
  qed
  have "\<exists>n :: int. ?v = of_int n * 2 powi f64_exp ?v"
  proof (cases "?L \<le> e + 52")
    case True
    then have "f64_exp ?v \<le> e" using e by (simp add: f64_exp_def)
    from powi_split [OF this] have "?v = of_int (m * 2 ^ nat (e - f64_exp ?v)) * 2 powi f64_exp ?v"
      by simp
    then show ?thesis by blast
  next
    case False
    with L have Leq: "?L = e + 53" by simp
    from ilog2_bounds [OF v] have "2 powi (e + 53) \<le> \<bar>?v\<bar>" by (simp add: Leq)
    with le have veq: "\<bar>?v\<bar> = 2 powi (e + 53)" by simp
    have f: "f64_exp ?v = e + 1" using e by (simp add: f64_exp_def Leq)
    from powi_split [of "e + 1" "e + 53"] have "\<bar>?v\<bar> = of_int (2 ^ 52) * 2 powi (e + 1)"
      by (simp add: veq)
    then have "?v = of_int (2 ^ 52) * 2 powi (e + 1) \<or> ?v = of_int (- (2 ^ 52)) * 2 powi (e + 1)"
      by (cases "0 \<le> ?v") (auto simp: abs_if split: if_splits)
    then show ?thesis unfolding f by blast
  qed
  then obtain n :: int where n: "?v = of_int n * 2 powi f64_exp ?v" by blast
  have "f64 ?v = grid (f64_exp ?v) ?v" using v by (simp add: f64_def)
  also have "\<dots> = ?v" using n grid_fix [of "f64_exp ?v" n] by metis
  finally show ?thesis .
qed

lemma f64_of_int: "\<bar>n\<bar> \<le> 2 ^ 53 \<Longrightarrow> f64 (of_int n) = of_int n"
  using f64_rep [of n 0] by simp

lemma f64_idem: "f64 (f64 x) = f64 x"
proof (cases "x = 0")
  case True
  then show ?thesis by simp
next
  case False
  let ?e = "f64_exp x"
  have p: "(0 :: rat) < 2 powi ?e" by simp
  have "\<bar>x\<bar> < 2 powi (ilog2 \<bar>x\<bar> + 1)" using ilog2_bounds [of "\<bar>x\<bar>"] False by simp
  also have "\<dots> \<le> 2 powi (?e + 53)" by (intro power_int_increasing) (auto simp: f64_exp_def)
  finally have ax: "\<bar>x / 2 powi ?e\<bar> \<le> 2 ^ 53"
    using p by (simp add: power_int_add field_simps abs_mult)
  have "x / 2 powi ?e \<le> of_int (2 ^ 53)" "of_int (- (2 ^ 53)) \<le> x / 2 powi ?e"
    using abs_le_D1 [OF ax] abs_le_D2 [OF ax] by simp_all
  then have "rhe (x / 2 powi ?e) \<le> rhe (of_int (2 ^ 53))"
    "rhe (of_int (- (2 ^ 53))) \<le> rhe (x / 2 powi ?e)"
    by (simp_all only: rhe_mono)
  then have up: "rhe (x / 2 powi ?e) \<le> 2 ^ 53" and lo: "- (2 ^ 53) \<le> rhe (x / 2 powi ?e)"
    by (simp_all only: rhe_of_int)
  have "f64 (of_int (rhe (x / 2 powi ?e)) * 2 powi ?e) = of_int (rhe (x / 2 powi ?e)) * 2 powi ?e"
    using up lo by (intro f64_rep) (auto simp: f64_exp_def)
  with False show ?thesis by (simp add: f64_def [of x] grid_def)
qed

lemma f64_nonneg: "0 \<le> x \<Longrightarrow> 0 \<le> f64 x"
  using grid_mono [of 0 x "f64_exp x"] grid_fix [of "f64_exp x" 0] by (simp add: f64_def)

lemma f64_mono_pos:
  assumes x: "0 < x" and xy: "x \<le> y"
  shows "f64 x \<le> f64 y"
proof (cases "f64_exp x = f64_exp y")
  case True
  with x xy show ?thesis by (simp add: f64_def grid_mono)
next
  case False
  have y: "0 < y" using x xy by simp
  let ?L = "ilog2 y" let ?P = "2 powi ?L :: rat"
  have L: "ilog2 x \<le> ?L" by (rule ilog2_mono [OF x xy])
  with False x y have ey: "f64_exp y = ?L - 52" and lt: "ilog2 x < ?L" and ex: "f64_exp x \<le> ?L"
    by (auto simp: f64_exp_def max_def split: if_splits)
  have "x < 2 powi (ilog2 x + 1)" using ilog2_bounds [OF x] by simp
  also have "\<dots> \<le> ?P" using lt by (intro power_int_increasing) auto
  finally have xP: "x \<le> ?P" by simp
  have Py: "?P \<le> y" using ilog2_bounds [OF y] by simp
  have "grid (f64_exp x) x \<le> grid (f64_exp x) ?P" by (rule grid_mono [OF xP])
  also have "\<dots> = ?P" using grid_fix powi_split [OF ex] by metis
  also have "?P = grid (f64_exp y) ?P"
    using grid_fix powi_split [of "f64_exp y" ?L] ey by (metis diff_le_eq le_add_same_cancel1 zero_le_numeral)
  also have "\<dots> \<le> grid (f64_exp y) y" by (rule grid_mono [OF Py])
  finally show ?thesis using x y by (simp add: f64_def)
qed

lemma f64_mono: "x \<le> y \<Longrightarrow> f64 x \<le> f64 y"
proof -
  assume xy: "x \<le> y"
  consider "0 < x" | "x \<le> 0" "0 \<le> y" | "y < 0" by linarith
  then show ?thesis
  proof cases
    case 1
    then show ?thesis using xy by (rule f64_mono_pos)
  next
    case 2
    then have "0 \<le> f64 (- x)" "0 \<le> f64 y" by (simp_all add: f64_nonneg)
    then show ?thesis by (simp add: f64_uminus)
  next
    case 3
    then have "f64 (- y) \<le> f64 (- x)" using xy by (intro f64_mono_pos) auto
    then show ?thesis by (simp add: f64_uminus)
  qed
qed


lemma f64_error:
  assumes "2 powi (- 1022) \<le> \<bar>x\<bar>"
  shows "\<bar>f64 x - x\<bar> \<le> \<bar>x\<bar> / 2 ^ 53"
proof -
  have x: "0 < \<bar>x\<bar>"
    using assms by (rule less_le_trans [rotated]) simp
  have "- 1022 \<le> ilog2 \<bar>x\<bar>" by (rule ilog2_ge [OF x assms])
  then have e: "f64_exp x = ilog2 \<bar>x\<bar> - 52" by (simp add: f64_exp_def)
  have "\<bar>f64 x - x\<bar> \<le> 2 powi f64_exp x / 2" using x grid_error [of "f64_exp x" x] by (simp add: f64_def)
  also have "(2 :: rat) powi f64_exp x / 2 = 2 powi ilog2 \<bar>x\<bar> / 2 ^ 53"
    by (simp add: e power_int_diff)
  also have "\<dots> \<le> \<bar>x\<bar> / 2 ^ 53"
    using ilog2_bounds [OF x] by (intro divide_right_mono) auto
  finally show ?thesis .
qed

subsection \<open>The interface the components use\<close>

locale rounding =
  fixes rnd :: "rat \<Rightarrow> rat"
  assumes rnd_mono: "x \<le> y \<Longrightarrow> rnd x \<le> rnd y"
    and rnd_idem: "rnd (rnd x) = rnd x"
    and rnd_int: "\<bar>n\<bar> \<le> 2 ^ 53 \<Longrightarrow> rnd (of_int n) = of_int n"
begin

lemma rnd_zero: "rnd 0 = 0"
  using rnd_int [of 0] by simp

lemma rnd_nonneg: "0 \<le> x \<Longrightarrow> 0 \<le> rnd x"
  using rnd_mono [of 0 x] by (simp add: rnd_zero)

lemma rnd_nonpos: "x \<le> 0 \<Longrightarrow> rnd x \<le> 0"
  using rnd_mono [of x 0] by (simp add: rnd_zero)

lemma rnd_le_int: "x \<le> of_int n \<Longrightarrow> \<bar>n\<bar> \<le> 2 ^ 53 \<Longrightarrow> rnd x \<le> of_int n"
  using rnd_mono [of x "of_int n"] by (simp add: rnd_int)

lemma rnd_ge_int: "of_int n \<le> x \<Longrightarrow> \<bar>n\<bar> \<le> 2 ^ 53 \<Longrightarrow> of_int n \<le> rnd x"
  using rnd_mono [of "of_int n" x] by (simp add: rnd_int)

lemma rnd_numeral: "numeral k \<le> (2 :: int) ^ 53 \<Longrightarrow> rnd (numeral k) = numeral k"
  using rnd_int [of "numeral k"] by simp

lemma rnd_le_rep: "x \<le> y \<Longrightarrow> rnd y = y \<Longrightarrow> rnd x \<le> y"
  using rnd_mono [of x y] by simp

lemma rnd_ge_rep: "y \<le> x \<Longrightarrow> rnd y = y \<Longrightarrow> y \<le> rnd x"
  using rnd_mono [of y x] by simp

text \<open>A rounded difference has the sign of the exact one on representable operands.\<close>

lemma rnd_diff_less0: "rnd (x - y) < 0 \<Longrightarrow> x < y"
  using rnd_nonneg [of "x - y"] by (cases "x < y") auto

lemma rnd_lt_rep: "rnd x < y \<Longrightarrow> rnd y = y \<Longrightarrow> x < y"
  using rnd_mono [of y x] by (cases "x < y") auto

lemmas rnd_laws = rnd_mono rnd_idem rnd_int rnd_zero rnd_nonneg rnd_nonpos

end

interpretation fl: rounding f64
  by unfold_locales (simp_all add: f64_mono f64_idem f64_of_int)

lemma f64_numeral [simp]: "numeral k \<le> (9007199254740992 :: int) \<Longrightarrow> f64 (numeral k) = numeral k"
  using fl.rnd_numeral [of k] by simp

lemma f64_neg_numeral [simp]:
  "numeral k \<le> (9007199254740992 :: int) \<Longrightarrow> f64 (- numeral k) = - numeral k"
  by (simp add: f64_uminus)

lemma f64_1 [simp]: "f64 1 = 1"
  using f64_of_int [of 1] by simp

subsection \<open>Conversions\<close>

text \<open>
  \<^verbatim>\<open>utils.FloatRound(f, 6)\<close> prints with six decimals and parses the result; \<^verbatim>\<open>floatRound\<close> of
  \<^verbatim>\<open>pkg/rollalgorithm/util.go\<close> is that call. Both steps round correctly.
\<close>

definition FloatRound :: "float64 \<Rightarrow> nat \<Rightarrow> float64" where
  "FloatRound f n = f64 (of_int (rhe (f * 10 ^ n)) / 10 ^ n)"

definition floatRound :: "float64 \<Rightarrow> float64" where
  "floatRound src = FloatRound src 6"

text \<open>\<open>f2i32\<close> is the conversion \<^verbatim>\<open>int32(f)\<close>: truncation, and on amd64 \<open>-2^31\<close> out of range.\<close>

definition trunc :: "rat \<Rightarrow> int" where
  "trunc x = (if 0 \<le> x then \<lfloor>x\<rfloor> else \<lceil>x\<rceil>)"

definition f2i32 :: "float64 \<Rightarrow> int32" where
  "f2i32 x = (if in32 (trunc x) then trunc x else - 2147483648)"

lemma floatRound_mono: "x \<le> y \<Longrightarrow> floatRound x \<le> floatRound y"
  unfolding floatRound_def FloatRound_def
  by (intro f64_mono divide_right_mono) (simp_all add: rhe_mono)

lemma floatRound_idem_f64: "f64 (floatRound x) = floatRound x"
  by (simp add: floatRound_def FloatRound_def f64_idem)

lemma floatRound_int: "\<bar>n\<bar> \<le> 2 ^ 53 \<Longrightarrow> floatRound (of_int n) = of_int n"
proof -
  assume n: "\<bar>n\<bar> \<le> 2 ^ 53"
  have "(of_int n * 10 ^ 6 :: rat) = of_int (n * 10 ^ 6)" by simp
  then have "rhe (of_int n * 10 ^ 6) = n * 10 ^ 6" by (simp only: rhe_of_int)
  then show ?thesis using n by (simp add: floatRound_def FloatRound_def f64_of_int)
qed

lemma floatRound_0 [simp]: "floatRound 0 = 0"
  using floatRound_int [of 0] by simp

lemma floatRound_numeral [simp]:
  "numeral k \<le> (9007199254740992 :: int) \<Longrightarrow> floatRound (numeral k) = numeral k"
  using floatRound_int [of "numeral k"] by simp

lemma floatRound_1 [simp]: "floatRound 1 = 1"
  using floatRound_int [of 1] by simp

lemma floatRound_nonneg: "0 \<le> x \<Longrightarrow> 0 \<le> floatRound x"
  using floatRound_mono [of 0 x] by simp

lemma floatRound_le_100: "x \<le> 100 \<Longrightarrow> floatRound x \<le> 100"
  using floatRound_mono [of x 100] floatRound_int [of 100] by simp

lemma trunc_mono: "x \<le> y \<Longrightarrow> trunc x \<le> trunc y"
proof -
  assume xy: "x \<le> y"
  show ?thesis
  proof (cases "0 \<le> x \<or> y < 0")
    case True
    with xy show ?thesis by (auto simp: trunc_def intro: floor_mono ceiling_mono)
  next
    case False
    then have "\<lceil>x\<rceil> \<le> 0" "0 \<le> \<lfloor>y\<rfloor>" by (auto simp: ceiling_le_iff)
    then have "\<lceil>x\<rceil> \<le> \<lfloor>y\<rfloor>" by linarith
    with False show ?thesis by (simp add: trunc_def not_le not_less)
  qed
qed

lemma trunc_of_int [simp]: "trunc (of_int n) = n"
  by (simp add: trunc_def)

lemma f2i32_of_int: "in32 n \<Longrightarrow> f2i32 (of_int n) = n"
  by (simp add: f2i32_def)

lemma f2i32_between:
  assumes "of_int a \<le> x" "x \<le> of_int b" "in32 a" "in32 b"
  shows "a \<le> f2i32 x \<and> f2i32 x \<le> b"
proof -
  have "a \<le> trunc x" "trunc x \<le> b"
    using trunc_mono [OF assms(1)] trunc_mono [OF assms(2)] by simp_all
  with assms(3,4) show ?thesis by (auto simp: f2i32_def in32_def)
qed

end
