(* ===== verification/RollTypes.thy ===== *)
theory RollTypes
  imports Float64
begin

text \<open>
  \<^verbatim>\<open>pkg/rollalgorithm/type.go\<close> and \<^verbatim>\<open>util.go\<close>: the schedule plan, the version status a shard
  reports, the package's settings, and the resolution of the rolling strategy
  (\<open>maxSurge\<close>, \<open>maxUnavailable\<close>) into replica counts.

  The Kubernetes types \<^verbatim>\<open>IntOrString\<close> and \<^verbatim>\<open>DeploymentStrategy\<close> are data here; the Kubernetes
  functions on them are fields of \<open>roll_env\<close>, parameters of the model. \<open>intstr_value env p total up\<close>
  is \<^verbatim>\<open>GetValueFromIntOrPercent(ValueOrDefault(p, FromInt(0)), total, up)\<close>.
\<close>

subsection \<open>Data\<close>

record IntOrString =
  ios_Type :: int
  ios_IntVal :: int32
  ios_StrVal :: string

definition FromString :: "string \<Rightarrow> IntOrString" where
  "FromString s = \<lparr>ios_Type = 1, ios_IntVal = 0, ios_StrVal = s\<rparr>"

definition FromInt :: "int \<Rightarrow> IntOrString" where
  "FromInt n = \<lparr>ios_Type = 0, ios_IntVal = n, ios_StrVal = []\<rparr>"

record RollingUpdateDeployment =
  ru_MaxUnavailable :: "IntOrString option"
  ru_MaxSurge :: "IntOrString option"

record DeploymentStrategy =
  ds_Type :: string
  ds_RollingUpdate :: "RollingUpdateDeployment option"

text \<open>The errors of the package, and the nil dereference that panics.\<close>

datatype roll_error =
    ErrNilParam
  | ErrInvalidValue string
  | ErrInvalidType
  | ErrFromLibrary string
  | ErrNilArgs
  | ErrNilCreateNode
  | ErrIllegalReplicas
  | ErrNotGroupNode
  | NilDereference
  | SliceBounds
  | TypeAssertion

text \<open>The package variables set by flags, a feature gate, and the Kubernetes functions.\<close>

record roll_env =
  defaultRollingStrategy :: string
  scaleOutWithLatestVersionCount :: bool
  maxUnavailableOldFirstStrategy :: int
  EnableMissingColumn :: bool
  intstr_value :: "IntOrString option \<Rightarrow> int \<Rightarrow> bool \<Rightarrow> string + int"
  intstr_json :: "IntOrString \<Rightarrow> string"

definition RollingStrategyOldFirst :: string where "RollingStrategyOldFirst = ''oldFirst''"
definition RollingStrategyLatestFirst :: string where "RollingStrategyLatestFirst = ''latestFirst''"
definition RollingStrategyLessFirst :: string where "RollingStrategyLessFirst = ''lessFirst''"

lemmas rolling_strategy_defs [go_simps] =
  RollingStrategyOldFirst_def RollingStrategyLatestFirst_def RollingStrategyLessFirst_def

type_synonym CarryStrategyType = string

definition CeilCarryStrategyType :: CarryStrategyType where "CeilCarryStrategyType = ''Ceil''"
definition FloorCarryStrategyType :: CarryStrategyType where "FloorCarryStrategyType = ''Floor''"

record SchedulePlan =
  sp_Replicas :: "int32 option"
  sp_DependencyLevel :: "int32 option"
  sp_Strategy :: DeploymentStrategy
  sp_RollingStrategy :: string
  sp_LatestVersionRatio :: "int32 option"
  sp_PaddedLatestVersionRatio :: "int32 option"
  sp_LatestVersionCarryStrategy :: CarryStrategyType
  sp_Paused :: bool
  sp_VersionHoldMatrix :: "(string, int32) gomap"
  sp_VersionHoldMatrixPercent :: "(string, float64) gomap"
  sp_VersionDependencyMatrix :: "(string, int32) gomap"
  sp_VersionDependencyMatrixPercent :: "(string, float64) gomap"
  sp_SubrsCanRollback :: bool
  sp_SubrsPaused :: bool

record ResourceVersionStatus =
  rvs_CPU :: int32
  rvs_ResourceVersion :: string
  rvs_Replicas :: int32
  rvs_AvailableReplicas :: int32

record VersionStatus =
  vs_Version :: string
  vs_Replicas :: int32
  vs_ReadyReplicas :: int32
  vs_DataReadyReplicas :: int32
  vs_Signature :: string
  vs_ResourceVersionStatus :: "(string, ResourceVersionStatus) gomap"

text \<open>The zero value of a \<open>SchedulePlan\<close>, from which composite literals are built.\<close>

definition zero_plan :: SchedulePlan where
  "zero_plan = \<lparr>sp_Replicas = None, sp_DependencyLevel = None,
     sp_Strategy = \<lparr>ds_Type = [], ds_RollingUpdate = None\<rparr>, sp_RollingStrategy = [],
     sp_LatestVersionRatio = None, sp_PaddedLatestVersionRatio = None,
     sp_LatestVersionCarryStrategy = [], sp_Paused = False, sp_VersionHoldMatrix = [],
     sp_VersionHoldMatrixPercent = [], sp_VersionDependencyMatrix = [],
     sp_VersionDependencyMatrixPercent = [], sp_SubrsCanRollback = False, sp_SubrsPaused = False\<rparr>"

subsection \<open>Accessors\<close>

definition plan_getLatestVersionRatio :: "SchedulePlan \<Rightarrow> int32" where
  "plan_getLatestVersionRatio p = (case sp_LatestVersionRatio p of None \<Rightarrow> 0 | Some r \<Rightarrow> r)"

definition plan_getPaddLatestVersionRatio :: "SchedulePlan \<Rightarrow> int32" where
  "plan_getPaddLatestVersionRatio p =
     (case sp_PaddedLatestVersionRatio p of None \<Rightarrow> 0 | Some r \<Rightarrow> r)"

definition plan_GetReplicas :: "SchedulePlan \<Rightarrow> int32" where
  "plan_GetReplicas p = (case sp_Replicas p of None \<Rightarrow> 0 | Some r \<Rightarrow> r)"

definition plan_GetLatestVersionRatio :: "SchedulePlan \<Rightarrow> int32" where
  "plan_GetLatestVersionRatio p = (case sp_LatestVersionRatio p of None \<Rightarrow> 0 | Some r \<Rightarrow> r)"

definition isZero :: "float64 \<Rightarrow> bool" where
  "isZero src \<longleftrightarrow> src < f64 (1 / 10 ^ 6)"

definition IsRecreate :: "DeploymentStrategy \<Rightarrow> bool" where
  "IsRecreate strategy \<longleftrightarrow> ds_Type strategy = ''Recreate''"

definition getTotalCount :: "(string, int32) gomap \<Rightarrow> int32" where
  "getTotalCount matrix = fold (\<lambda>(_, v) s. i32 (s + v)) matrix 0"

definition Default25IntOrString :: IntOrString where
  "Default25IntOrString = FromString ''25%''"

definition Default10IntOrString :: IntOrString where
  "Default10IntOrString = FromString ''10%''"

definition DefaultLatestVersionRatio :: int32 where
  "DefaultLatestVersionRatio = 100"

subsection \<open>Resolving the rolling strategy\<close>

definition ResolveFenceposts ::
    "roll_env \<Rightarrow> IntOrString option \<Rightarrow> IntOrString option \<Rightarrow> int32 \<Rightarrow> string + int32 \<times> int32" where
  "ResolveFenceposts env maxSurge maxUnavailable desired =
     (case intstr_value env maxSurge desired True of
        Inl e \<Rightarrow> Inl e
      | Inr surge \<Rightarrow>
          (case intstr_value env maxUnavailable desired False of
             Inl e \<Rightarrow> Inl e
           | Inr unavailable \<Rightarrow>
               (let surge = (if surge = 0 \<and> unavailable = 0 then 1 else surge)
                in Inr (i32 surge, i32 unavailable))))"

text \<open>The two counts the callers keep when they drop the error: the zero values.\<close>

definition fenceposts_or_zero :: "string + int32 \<times> int32 \<Rightarrow> int32 \<times> int32" where
  "fenceposts_or_zero r = (case r of Inl _ \<Rightarrow> (0, 0) | Inr p \<Rightarrow> p)"

record schedule_strategy =
  ss_maxSurge :: int32
  ss_maxUnavailable :: int32
  ss_minAvailable :: int32
  ss_maxSurgePercent :: int32
  ss_maxUnavailablePercent :: int32
  ss_minAvailablePercent :: int32

definition zero_strategy :: schedule_strategy where
  "zero_strategy = \<lparr>ss_maxSurge = 0, ss_maxUnavailable = 0, ss_minAvailable = 0,
     ss_maxSurgePercent = 0, ss_maxUnavailablePercent = 0, ss_minAvailablePercent = 0\<rparr>"

definition ParseScheduleStrategy :: "roll_env \<Rightarrow> SchedulePlan \<Rightarrow> schedule_strategy" where
  "ParseScheduleStrategy env plan =
     (case sp_Replicas plan of
        None \<Rightarrow> zero_strategy
      | Some replicas \<Rightarrow>
          if IsRecreate (sp_Strategy plan) \<or> replicas = 0 then zero_strategy
          else
            (let rollingUpdate = ds_RollingUpdate (sp_Strategy plan);
                 maxUnavailableIntOrString = (case rollingUpdate of
                     None \<Rightarrow> Default25IntOrString
                   | Some ru \<Rightarrow> (case ru_MaxUnavailable ru of None \<Rightarrow> Default25IntOrString | Some v \<Rightarrow> v));
                 maxSurgeIntOrString = (case rollingUpdate of
                     None \<Rightarrow> Default10IntOrString
                   | Some ru \<Rightarrow> (case ru_MaxSurge ru of None \<Rightarrow> Default10IntOrString | Some v \<Rightarrow> v));
                 (maxSurge, maxUnavailable) = fenceposts_or_zero (ResolveFenceposts env
                     (Some maxSurgeIntOrString) (Some maxUnavailableIntOrString) replicas);
                 maxUnavailable = (if maxUnavailable > replicas then replicas else maxUnavailable);
                 minAvailable = i32 (replicas - maxUnavailable);
                 (maxSurgePercent, maxUnavailablePercent) = fenceposts_or_zero (ResolveFenceposts env
                     (Some maxSurgeIntOrString) (Some maxUnavailableIntOrString) 100);
                 maxUnavailablePercent = (if maxUnavailablePercent > 100 then 100 else maxUnavailablePercent)
             in \<lparr>ss_maxSurge = maxSurge, ss_maxUnavailable = maxUnavailable,
                  ss_minAvailable = minAvailable, ss_maxSurgePercent = maxSurgePercent,
                  ss_maxUnavailablePercent = maxUnavailablePercent,
                  ss_minAvailablePercent = i32 (100 - maxUnavailablePercent)\<rparr>))"

text \<open>
  \<open>FixStrategy\<close> writes through the \<open>RollingUpdate\<close> pointer of the strategy; the model returns the
  result and the strategy after the call. A nil \<open>RollingUpdate\<close> panics.
\<close>

definition FixStrategy ::
    "roll_env \<Rightarrow> int32 \<Rightarrow> IntOrString option \<Rightarrow> DeploymentStrategy \<Rightarrow>
     roll_error + bool \<times> DeploymentStrategy" where
  "FixStrategy env replicas defaultMaxUnavailable strategy =
     (case intstr_value env defaultMaxUnavailable replicas False of
        Inl _ \<Rightarrow> Inr (False, strategy)
      | Inr defaultUnavailable \<Rightarrow>
          (case ds_RollingUpdate strategy of
             None \<Rightarrow> Inl NilDereference
           | Some ru \<Rightarrow>
               (case intstr_value env (ru_MaxUnavailable ru) replicas False of
                  Inl _ \<Rightarrow> Inr (False, strategy)
                | Inr unavailable \<Rightarrow>
                    if defaultUnavailable > 0 \<and> defaultUnavailable \<noteq> unavailable
                    then Inr (True, strategy\<lparr>ds_RollingUpdate :=
                           Some (ru\<lparr>ru_MaxUnavailable := defaultMaxUnavailable\<rparr>)\<rparr>)
                    else Inr (False, strategy))))"

definition GetIntOrPercentValue :: "IntOrString \<Rightarrow> roll_error + int \<times> bool" where
  "GetIntOrPercentValue intOrStr =
     (if ios_Type intOrStr = 0 then Inr (ios_IntVal intOrStr, False)
      else if ios_Type intOrStr = 1 then
        (case atoi (filter (\<lambda>c. c \<noteq> CHR ''%'') (ios_StrVal intOrStr)) of
           None \<Rightarrow> Inl (ErrInvalidValue (ios_StrVal intOrStr))
         | Some v \<Rightarrow> Inr (v, True))
      else Inl ErrInvalidType)"

definition subIntOrStrPercent :: "IntOrString \<Rightarrow> IntOrString \<Rightarrow> int32" where
  "subIntOrStrPercent a b =
     (case GetIntOrPercentValue a of
        Inr (percentA, True) \<Rightarrow>
          (case GetIntOrPercentValue b of
             Inr (percentB, True) \<Rightarrow> Int32Max 0 (i32 (percentA - percentB))
           | _ \<Rightarrow> 0)
      | _ \<Rightarrow> 0)"

definition ComputeLatestReplicas :: "int32 \<Rightarrow> int32 \<Rightarrow> CarryStrategyType \<Rightarrow> int32" where
  "ComputeLatestReplicas ratio replicas strategy =
     (let q = f64 (f64 (of_int replicas * of_int ratio) / 100) in
      if strategy = FloorCarryStrategyType then
        (let latestReplicas = f2i32 (of_int \<lfloor>q\<rfloor>) in
         if latestReplicas = 0 \<and> ratio > 0 then 1 else latestReplicas)
      else f2i32 (of_int \<lceil>q\<rceil>))"

subsection \<open>Correctness of the resolution\<close>

lemma getTotalCount_msum:
  assumes nn: "\<And>k. 0 \<le> mget 0 m k" and wf: "wf_map m" and b: "msum m < 2147483648"
  shows "getTotalCount m = msum m"
proof -
  have "0 \<le> snd p" if "p \<in> set m" for p
    using nn [of "fst p"] mget_in [of "fst p" "snd p" m 0] that wf by simp
  then show ?thesis
    using fold_i32_sum [of m snd 0] b by (simp add: getTotalCount_def msum_def case_prod_beta')
qed

text \<open>
  The float computation of \<open>ComputeLatestReplicas\<close> makes no rounding error: a quotient that is
  not an integer is at least \<open>1/100\<close> away from one.
\<close>

lemma quotient_100:
  assumes n: "0 \<le> n" "n \<le> 214748364700"
  shows "\<lfloor>f64 (of_int n / 100)\<rfloor> = n div 100 \<and> \<lceil>f64 (of_int n / 100)\<rceil> = (n + 99) div 100"
proof (cases "n mod 100 = 0")
  case True
  then obtain k where k: "n = 100 * k" by (metis mod_0_imp_dvd dvdE)
  have "(of_int n / 100 :: rat) = of_int k" by (simp add: k)
  moreover have "\<bar>k\<bar> \<le> 2 ^ 53" using n k by simp
  ultimately have "f64 (of_int n / 100) = of_int k" by (simp add: f64_of_int)
  moreover have "n div 100 = k" "(n + 99) div 100 = k" using k by simp_all
  ultimately show ?thesis by simp
next
  case False
  let ?k = "n div 100" let ?x = "of_int n / 100 :: rat"
  have nk: "n = 100 * ?k + n mod 100" by simp
  have r: "1 \<le> n mod 100" "n mod 100 \<le> 99" using False by presburger+
  have n1: "1 \<le> n" using False n by (cases "n = 0") auto
  have "(of_int n :: rat) = 100 * of_int ?k + of_int (n mod 100)"
    by (metis nk of_int_add of_int_mult of_int_numeral)
  then have x: "of_int ?k + 1 / 100 \<le> ?x" "?x \<le> of_int ?k + 99 / 100"
    using r by (simp_all add: field_simps)
  have small: "(2 :: rat) powi (- 1022) \<le> 2 powi (- 7)" by (intro power_int_increasing) auto
  have "(2 :: rat) powi (- 7) \<le> ?x" using n1 by (simp add: power_int_def field_simps)
  with small have "\<bar>f64 ?x - ?x\<bar> \<le> \<bar>?x\<bar> / 2 ^ 53"
    using n by (intro f64_error) auto
  also have "\<dots> < 1 / 100"
  proof -
    have "\<bar>?x\<bar> \<le> 2147483647" using n by (simp add: field_simps)
    then show ?thesis by (simp add: field_simps)
  qed
  finally have e: "\<bar>f64 ?x - ?x\<bar> < 1 / 100" .
  have lo: "of_int ?k < f64 ?x" and hi: "f64 ?x < of_int (?k + 1)"
    using abs_less_iff [THEN iffD1, OF e] x by (linarith, simp)
  have "\<lfloor>f64 ?x\<rfloor> = ?k" using lo hi by (intro floor_unique) auto
  moreover have "\<lceil>f64 ?x\<rceil> = ?k + 1" using lo hi by (intro ceiling_unique) auto
  moreover have "(n + 99) div 100 = ?k + 1" using nk r by linarith
  ultimately show ?thesis by simp
qed

lemma latest_product:
  assumes "0 \<le> ratio" "ratio \<le> 100" "0 \<le> replicas" "replicas < 2147483648"
  shows "0 \<le> replicas * ratio" "replicas * ratio \<le> 100 * replicas"
    "f64 (of_int replicas * of_int ratio) = of_int (replicas * ratio)"
proof -
  show 1: "0 \<le> replicas * ratio" using assms by simp
  show 2: "replicas * ratio \<le> 100 * replicas"
    using mult_left_mono [of ratio 100 replicas] assms by simp
  have "f64 (of_int (replicas * ratio)) = of_int (replicas * ratio)"
    using 1 2 assms by (intro f64_of_int) auto
  then show "f64 (of_int replicas * of_int ratio) = of_int (replicas * ratio)" by simp
qed

lemma ComputeLatestReplicas_int:
  assumes "0 \<le> ratio" "ratio \<le> 100" "0 \<le> replicas" "replicas < 2147483648"
  shows "ComputeLatestReplicas ratio replicas strategy =
    (if strategy = FloorCarryStrategyType
     then (if replicas * ratio div 100 = 0 \<and> ratio > 0 then 1 else replicas * ratio div 100)
     else (replicas * ratio + 99) div 100)"
proof -
  let ?n = "replicas * ratio"
  note p = latest_product [OF assms]
  have "?n \<le> 214748364700" using p(2) assms by linarith
  from quotient_100 [OF p(1) this]
  have q: "\<lfloor>f64 (of_int ?n / 100)\<rfloor> = ?n div 100" "\<lceil>f64 (of_int ?n / 100)\<rceil> = (?n + 99) div 100"
    by simp_all
  have r: "0 \<le> ?n div 100" "?n div 100 \<le> replicas" "(?n + 99) div 100 \<le> replicas" "0 \<le> (?n + 99) div 100"
    using p(1,2) by linarith+
  have "in32 (?n div 100)" "in32 ((?n + 99) div 100)" using r assms by (simp_all add: in32_def)
  then show ?thesis
    unfolding ComputeLatestReplicas_def Let_def p(3) q by (simp add: f2i32_of_int)
qed

lemma ComputeLatestReplicas_range:
  assumes "0 \<le> ratio" "ratio \<le> 100" "0 < replicas" "replicas < 2147483648"
  shows "0 \<le> ComputeLatestReplicas ratio replicas strategy"
    "ComputeLatestReplicas ratio replicas strategy \<le> replicas"
proof -
  have "0 \<le> replicas * ratio" "replicas * ratio \<le> 100 * replicas"
    using latest_product [of ratio replicas] assms by auto
  then have "0 \<le> replicas * ratio div 100" "replicas * ratio div 100 \<le> replicas"
    "0 \<le> (replicas * ratio + 99) div 100" "(replicas * ratio + 99) div 100 \<le> replicas" by linarith+
  with assms show "0 \<le> ComputeLatestReplicas ratio replicas strategy"
    "ComputeLatestReplicas ratio replicas strategy \<le> replicas"
    by (auto simp: ComputeLatestReplicas_int)
qed

text \<open>
  C39. \<open>ComputeLatestReplicas\<close> rounds \<open>replicas * ratio / 100\<close> exactly: up under the default carry
  strategy; down under \<open>Floor\<close>, but to at least one when the ratio is positive. The floating-point
  evaluation never shows in the result.
\<close>

theorem ComputeLatestReplicas_exact:
  assumes "0 \<le> ratio" "ratio \<le> 100" "0 \<le> replicas" "replicas < 2147483648"
  shows "ComputeLatestReplicas ratio replicas strategy =
    (if strategy = FloorCarryStrategyType
     then (if replicas * ratio div 100 = 0 \<and> ratio > 0 then 1 else replicas * ratio div 100)
     else (replicas * ratio + 99) div 100)"
  using assms by (rule ComputeLatestReplicas_int)

theorem ComputeLatestReplicas_exact_witness:
  "ComputeLatestReplicas 25 10 FloorCarryStrategyType = 2 \<and>
   ComputeLatestReplicas 25 10 CeilCarryStrategyType = 3 \<and>
   ComputeLatestReplicas 1 10 FloorCarryStrategyType = 1"
  by (simp add: ComputeLatestReplicas_exact FloorCarryStrategyType_def CeilCarryStrategyType_def)

text \<open>
  What is assumed of the library at a resolution point: a value it returns is a non-negative
  32-bit count. It is so for the percentages and the non-negative numbers that the API validates.
\<close>

definition values_ok :: "roll_env \<Rightarrow> IntOrString option \<Rightarrow> int32 \<Rightarrow> bool" where
  "values_ok env p tot \<longleftrightarrow>
     (\<forall>up. case intstr_value env p tot up of Inl _ \<Rightarrow> True | Inr v \<Rightarrow> 0 \<le> v \<and> v < 2147483648)"

definition plan_maxUnavailable :: "SchedulePlan \<Rightarrow> IntOrString" where
  "plan_maxUnavailable plan = (case ds_RollingUpdate (sp_Strategy plan) of
     None \<Rightarrow> Default25IntOrString
   | Some ru \<Rightarrow> (case ru_MaxUnavailable ru of None \<Rightarrow> Default25IntOrString | Some v \<Rightarrow> v))"

definition plan_maxSurge :: "SchedulePlan \<Rightarrow> IntOrString" where
  "plan_maxSurge plan = (case ds_RollingUpdate (sp_Strategy plan) of
     None \<Rightarrow> Default10IntOrString
   | Some ru \<Rightarrow> (case ru_MaxSurge ru of None \<Rightarrow> Default10IntOrString | Some v \<Rightarrow> v))"

definition plan_ok :: "roll_env \<Rightarrow> SchedulePlan \<Rightarrow> bool" where
  "plan_ok env plan \<longleftrightarrow> 0 \<le> plan_GetReplicas plan \<and> plan_GetReplicas plan < 2147483648 \<and>
     (\<forall>tot \<in> {plan_GetReplicas plan, 100}.
        values_ok env (Some (plan_maxSurge plan)) tot \<and> values_ok env (Some (plan_maxUnavailable plan)) tot)"

lemma values_okD:
  "values_ok env p tot \<Longrightarrow> intstr_value env p tot up = Inr v \<Longrightarrow> 0 \<le> v \<and> v < 2147483648"
  unfolding values_ok_def by (drule spec [of _ up]) simp

lemma ResolveFenceposts_range:
  assumes "values_ok env s tot" "values_ok env u tot"
    and "fenceposts_or_zero (ResolveFenceposts env s u tot) = (a, b)"
  shows "0 \<le> a \<and> a < 2147483648 \<and> 0 \<le> b \<and> b < 2147483648"
proof (cases "ResolveFenceposts env s u tot")
  case (Inl e)
  with assms(3) show ?thesis by (simp add: fenceposts_or_zero_def)
next
  case (Inr p)
  then obtain x y where xy: "intstr_value env s tot True = Inr x" "intstr_value env u tot False = Inr y"
    and p: "p = (i32 (if x = 0 \<and> y = 0 then 1 else x), i32 y)"
    by (auto simp: ResolveFenceposts_def Let_def split: sum.splits)
  have "0 \<le> x" "x < 2147483648" "0 \<le> y" "y < 2147483648"
    using values_okD [OF assms(1) xy(1)] values_okD [OF assms(2) xy(2)] by auto
  then have "i32 x = x" "i32 y = y" "i32 1 = 1" by (simp_all add: i32_id)
  with assms(3) Inr p \<open>0 \<le> x\<close> \<open>x < 2147483648\<close> \<open>0 \<le> y\<close> \<open>y < 2147483648\<close> show ?thesis
    by (auto simp: fenceposts_or_zero_def split: if_splits)
qed

lemma ResolveFenceposts_progress:
  assumes "values_ok env s tot" "values_ok env u tot"
    and "ResolveFenceposts env s u tot = Inr (a, b)"
  shows "a \<noteq> 0 \<or> b \<noteq> 0"
proof -
  from assms(3) obtain x y where xy: "intstr_value env s tot True = Inr x"
      "intstr_value env u tot False = Inr y"
    and ab: "a = i32 (if x = 0 \<and> y = 0 then 1 else x)" "b = i32 y"
    by (auto simp: ResolveFenceposts_def Let_def split: sum.splits)
  have "0 \<le> x" "x < 2147483648" "0 \<le> y" "y < 2147483648"
    using values_okD [OF assms(1) xy(1)] values_okD [OF assms(2) xy(2)] by auto
  then have "i32 x = x" "i32 y = y" "i32 1 = 1" by (simp_all add: i32_id)
  with ab show ?thesis by (auto split: if_splits)
qed

lemma ParseScheduleStrategy_range:
  assumes ok: "plan_ok env plan" and r: "sp_Replicas plan = Some replicas"
    and st: "st = ParseScheduleStrategy env plan"
  shows "0 \<le> ss_maxSurge st" "0 \<le> ss_maxUnavailable st" "0 \<le> ss_minAvailable st"
    "ss_maxSurge st < 2147483648" "ss_maxUnavailable st \<le> replicas" "ss_minAvailable st \<le> replicas"
    "\<not> IsRecreate (sp_Strategy plan) \<Longrightarrow> ss_minAvailable st + ss_maxUnavailable st = replicas"
    "0 \<le> ss_maxSurgePercent st" "0 \<le> ss_maxUnavailablePercent st" "ss_maxUnavailablePercent st \<le> 100"
    "ss_maxSurgePercent st < 2147483648"
proof -
  let ?res = "\<lambda>t. fenceposts_or_zero (ResolveFenceposts env (Some (plan_maxSurge plan))
                 (Some (plan_maxUnavailable plan)) t)"
  have rep: "0 \<le> replicas" "replicas < 2147483648" "plan_GetReplicas plan = replicas"
    using ok r by (simp_all add: plan_ok_def plan_GetReplicas_def)
  obtain s u where su: "?res replicas = (s, u)" by (cases "?res replicas")
  obtain sp up where sup: "?res 100 = (sp, up)" by (cases "?res 100")
  have b: "0 \<le> s" "s < 2147483648" "0 \<le> u" "u < 2147483648"
    "0 \<le> sp" "sp < 2147483648" "0 \<le> up" "up < 2147483648"
    using ResolveFenceposts_range [OF _ _ su] ResolveFenceposts_range [OF _ _ sup] ok rep
    by (auto simp: plan_ok_def)
  have eq: "st = (if IsRecreate (sp_Strategy plan) \<or> replicas = 0 then zero_strategy
     else \<lparr>ss_maxSurge = s, ss_maxUnavailable = min u replicas,
       ss_minAvailable = i32 (replicas - min u replicas), ss_maxSurgePercent = sp,
       ss_maxUnavailablePercent = min up 100, ss_minAvailablePercent = i32 (100 - min up 100)\<rparr>)"
    using su [unfolded plan_maxSurge_def plan_maxUnavailable_def]
      sup [unfolded plan_maxSurge_def plan_maxUnavailable_def]
    by (simp add: st ParseScheduleStrategy_def r Let_def min_def)
  have m: "i32 (replicas - min u replicas) = replicas - min u replicas"
    using rep b by (intro i32_id) auto
  show "0 \<le> ss_maxSurge st" "0 \<le> ss_maxUnavailable st" "0 \<le> ss_minAvailable st"
    "ss_maxSurge st < 2147483648" "ss_maxUnavailable st \<le> replicas" "ss_minAvailable st \<le> replicas"
    "\<not> IsRecreate (sp_Strategy plan) \<Longrightarrow> ss_minAvailable st + ss_maxUnavailable st = replicas"
    "0 \<le> ss_maxSurgePercent st" "0 \<le> ss_maxUnavailablePercent st" "ss_maxUnavailablePercent st \<le> 100"
    "ss_maxSurgePercent st < 2147483648"
    using rep b m by (auto simp: eq zero_strategy_def)
qed

text \<open>
  An environment for the witnesses: the default flags, and for the library functions the documented
  behaviour (a number is itself, a percentage is taken of the total and rounded up or down).
\<close>

definition sample_env :: roll_env where
  "sample_env = \<lparr>defaultRollingStrategy = RollingStrategyLessFirst, scaleOutWithLatestVersionCount = False,
     maxUnavailableOldFirstStrategy = 30, EnableMissingColumn = False,
     intstr_value = (\<lambda>p tot up. case p of
         None \<Rightarrow> Inr 0
       | Some v \<Rightarrow> if ios_Type v = 0 then Inr (ios_IntVal v)
           else (case atoi (filter (\<lambda>c. c \<noteq> CHR ''%'') (ios_StrVal v)) of
                   None \<Rightarrow> Inl ''invalid value''
                 | Some n \<Rightarrow> Inr (if up then (n * tot + 99) div 100 else n * tot div 100))),
     intstr_json = (\<lambda>v. ios_StrVal v)\<rparr>"

definition sample_plan :: SchedulePlan where
  "sample_plan = zero_plan\<lparr>sp_Replicas := Some 4, sp_LatestVersionRatio := Some 50\<rparr>"

lemma sample_plan_ok: "plan_ok sample_env sample_plan"
  by (simp add: plan_ok_def sample_plan_def zero_plan_def plan_GetReplicas_def values_ok_def sample_env_def
      plan_maxSurge_def plan_maxUnavailable_def Default10IntOrString_def Default25IntOrString_def
      FromString_def atoi_def digit_val_def)

text \<open>
  The parsed strategy always splits the replicas: unless the strategy is \<open>Recreate\<close> (where all
  counts are zero) the minimum available plus the maximum unavailable is the number of replicas,
  each between 0 and that number, and the percentages are between 0 and 100.
\<close>

theorem ParseScheduleStrategy_splits:
  assumes "plan_ok env plan" "sp_Replicas plan = Some replicas" "st = ParseScheduleStrategy env plan"
  shows "0 \<le> ss_minAvailable st \<and> ss_minAvailable st \<le> replicas \<and>
    0 \<le> ss_maxUnavailable st \<and> ss_maxUnavailable st \<le> replicas \<and> 0 \<le> ss_maxSurge st \<and>
    0 \<le> ss_maxUnavailablePercent st \<and> ss_maxUnavailablePercent st \<le> 100 \<and>
    (if IsRecreate (sp_Strategy plan) then st = zero_strategy
     else ss_minAvailable st + ss_maxUnavailable st = replicas)"
  using ParseScheduleStrategy_range [OF assms] assms(2,3) by (auto simp: ParseScheduleStrategy_def)

theorem ParseScheduleStrategy_splits_witness:
  "ss_minAvailable (ParseScheduleStrategy sample_env sample_plan) +
   ss_maxUnavailable (ParseScheduleStrategy sample_env sample_plan) = 4"
  using ParseScheduleStrategy_splits [OF sample_plan_ok _ refl]
  by (simp add: sample_plan_def zero_plan_def IsRecreate_def)

text \<open>
  A resolved strategy always lets the rollout move: the surge and the unavailable count are
  never both zero.
\<close>

theorem ResolveFenceposts_not_both_zero:
  assumes "values_ok env s tot" "values_ok env u tot"
    and "ResolveFenceposts env s u tot = Inr (a, b)"
  shows "\<not> (a = 0 \<and> b = 0)"
  using ResolveFenceposts_progress [OF assms] by simp

theorem ResolveFenceposts_not_both_zero_witness:
  "ResolveFenceposts sample_env (Some (FromInt 0)) (Some (FromInt 0)) 3 = Inr (1, 0) \<and>
   \<not> ((1 :: int) = 0 \<and> (0 :: int) = 0)"
proof -
  have e: "ResolveFenceposts sample_env (Some (FromInt 0)) (Some (FromInt 0)) 3 = Inr (1, 0)"
    by (simp add: ResolveFenceposts_def sample_env_def FromInt_def i32_def)
  have "\<not> ((1 :: int) = 0 \<and> (0 :: int) = 0)"
    by (rule ResolveFenceposts_not_both_zero [OF _ _ e]) (simp_all add: values_ok_def sample_env_def FromInt_def)
  with e show ?thesis by simp
qed

end
