(* ===== verification/HoldMatrix.thy ===== *)
theory HoldMatrix
  imports RollTypes
begin

text \<open>
  \<^verbatim>\<open>pkg/rollalgorithm/hold_matrix.go\<close> and \<^verbatim>\<open>dependency.go\<close>: for every version of a shard group,
  the percentage of each shard that must be held while the group rolls to the target version.

  \<open>Shard\<close> is the interface of \<^verbatim>\<open>shard_scheduler.go\<close> as the record of its getters' results.
  The version status map holds no nil pointers (every writer stores an allocated status); a lookup
  of a missing version is \<open>None\<close>.
\<close>

subsection \<open>Shards and versions\<close>

record Shard =
  sh_Replicas :: int32
  sh_LatestVersionRatio :: "string \<Rightarrow> int32"
  sh_RawReplicas :: int32
  sh_DependencyLevel :: int32
  sh_CPU :: int32
  sh_Name :: string
  sh_CarbonRoleName :: string
  sh_VersionStatus :: "(string, VersionStatus) gomap"
  sh_ResourceVersionStatus :: "(string, ResourceVersionStatus) gomap option"

definition getVersionReadyReplicas :: "VersionStatus option \<Rightarrow> int32" where
  "getVersionReadyReplicas vs = (case vs of None \<Rightarrow> 0 | Some s \<Rightarrow> vs_ReadyReplicas s)"

definition getVersionAllReplicas :: "VersionStatus option \<Rightarrow> int32" where
  "getVersionAllReplicas vs = (case vs of None \<Rightarrow> 0 | Some s \<Rightarrow> vs_Replicas s)"

definition getCurReplicas :: "Shard \<Rightarrow> int32" where
  "getCurReplicas shard =
     fold (\<lambda>(_, sv) cur. i32 (cur + getVersionAllReplicas (Some sv))) (sh_VersionStatus shard) 0"

definition getTargetReplicas :: "Shard \<Rightarrow> int32" where
  "getTargetReplicas shard = sh_Replicas shard"

definition getMinTargetReplicas :: "Shard list \<Rightarrow> int32" where
  "getMinTargetReplicas shards =
     fold (\<lambda>s minReplicas. let replicas = getTargetReplicas s in
             if replicas < minReplicas \<or> minReplicas = 0 then replicas else minReplicas) shards 0"

definition getCompactReplicas :: "Shard \<Rightarrow> int32" where
  "getCompactReplicas shard = Int32Min (getCurReplicas shard) (getTargetReplicas shard)"

definition inNewShard :: "Shard \<Rightarrow> string list \<Rightarrow> bool" where
  "inNewShard shard newShards \<longleftrightarrow> sh_Name shard \<in> set newShards"

definition shouldIgnoreNewShard :: "Shard \<Rightarrow> string list \<Rightarrow> bool" where
  "shouldIgnoreNewShard shard newShards \<longleftrightarrow>
     sh_Name shard \<in> set newShards \<and>
     (\<forall>(_, sv) \<in> set (sh_VersionStatus shard). vs_ReadyReplicas sv = 0)"

subsection \<open>The order of versions\<close>

definition getRollingStrategy ::
    "roll_env \<Rightarrow> string \<Rightarrow> (string, float64) gomap \<Rightarrow> float64 \<Rightarrow> string" where
  "getRollingStrategy env strategy available maxUnavailable =
     (let totalAvailable = fold (\<lambda>(_, v) t. f64 (t + v)) available 0 in
      if (totalAvailable < f64 (f64 (100 - maxUnavailable) - 1)
            \<or> maxUnavailable > of_int (maxUnavailableOldFirstStrategy env)) \<and>
         (strategy = RollingStrategyOldFirst
            \<or> (defaultRollingStrategy env = RollingStrategyOldFirst \<and> strategy = []))
      then RollingStrategyLatestFirst
      else if strategy = [] then defaultRollingStrategy env else strategy)"

text \<open>
  The last part of both \<open>Less\<close> methods: the numbers before the first \<open>-\<close> are compared when both
  versions have one, else the strings.
\<close>

definition generation_less :: "string \<Rightarrow> string \<Rightarrow> bool" where
  "generation_less v w =
     (case (str_index CHR ''-'' v, str_index CHR ''-'' w) of
        (Some index1, Some index2) \<Rightarrow>
          (case (atoi (take index1 v), atoi (take index2 w)) of
             (Some iGeneration, Some jGeneration) \<Rightarrow> iGeneration < jGeneration
           | _ \<Rightarrow> v < w)
      | _ \<Rightarrow> v < w)"

definition ByAvailable_Less ::
    "string \<Rightarrow> (string, float64) gomap option \<Rightarrow> string \<Rightarrow> string \<Rightarrow> bool" where
  "ByAvailable_Less latest available v w =
     (if v = latest then False
      else if w = latest then True
      else case available of
        None \<Rightarrow> generation_less v w
      | Some av \<Rightarrow>
          (let availableI = mget 0 av v; availableJ = mget 0 av w in
           if availableJ \<noteq> availableI then availableJ < availableI else generation_less v w))"

definition ByGeneration_Less :: "string \<Rightarrow> string \<Rightarrow> string \<Rightarrow> bool" where
  "ByGeneration_Less latest v w =
     (if v = latest then False
      else if w = latest then True
      else generation_less v w)"

definition sortVersions ::
    "roll_env \<Rightarrow> string list \<Rightarrow> string \<Rightarrow> (string, float64) gomap \<Rightarrow> float64 \<Rightarrow> string \<Rightarrow> string list" where
  "sortVersions env versions latest available maxUnavailable strategy =
     (let strategy = getRollingStrategy env strategy available maxUnavailable in
      if strategy = RollingStrategyOldFirst then
        go_sort (\<lambda>v w. ByGeneration_Less latest w v) versions
      else if strategy = RollingStrategyLatestFirst then
        go_sort (ByGeneration_Less latest) versions
      else go_sort (ByAvailable_Less latest (Some available)) versions)"

lemma sortVersions_laws [simp]:
  "mset (sortVersions env vs l av mu st) = mset vs"
  "set (sortVersions env vs l av mu st) = set vs"
  "distinct (sortVersions env vs l av mu st) = distinct vs"
  "length (sortVersions env vs l av mu st) = length vs"
  by (simp_all add: sortVersions_def Let_def gs.sort_laws)

subsection \<open>The matrix of version percentages\<close>

text \<open>
  \<open>init_row\<close> is the body of the first loop of \<open>initShardMatrix\<close> over the versions of one shard:
  it keeps the smaller of the shard's percentage and what earlier shards gave.
\<close>

definition version_ratio :: "int32 \<Rightarrow> int32 \<Rightarrow> float64" where
  "version_ratio versionReplicas replicas = f64 (f64 (of_int versionReplicas * 100) / of_int replicas)"

definition init_cell ::
    "(VersionStatus option \<Rightarrow> int32) \<Rightarrow> Shard \<Rightarrow> int32 \<Rightarrow> string list \<Rightarrow> string \<times> VersionStatus \<Rightarrow>
     (string, float64) gomap \<Rightarrow> (string, float64) gomap" where
  "init_cell fGetVersionReplicas shard replicas newShards = (\<lambda>(shardGroupVersion, svDetails) m.
     let versionReplicas = fGetVersionReplicas (Some svDetails) in
     if vs_Replicas svDetails = 0 \<and> inNewShard shard newShards then m
     else (let put = mput shardGroupVersion (floatRound (version_ratio versionReplicas replicas)) m in
           case map_of m shardGroupVersion of
             None \<Rightarrow> put
           | Some val \<Rightarrow> if val \<ge> version_ratio versionReplicas replicas then put else m))"

definition init_row ::
    "(VersionStatus option \<Rightarrow> int32) \<Rightarrow> (Shard \<Rightarrow> int32) \<Rightarrow> string list \<Rightarrow> Shard \<Rightarrow>
     (string, float64) gomap \<Rightarrow> (string, float64) gomap" where
  "init_row fGetVersionReplicas fGetShardReplicas newShards shard m =
     (let replicas = fGetShardReplicas shard in
      if replicas = 0 then m
      else fold (init_cell fGetVersionReplicas shard replicas newShards) (sh_VersionStatus shard) m)"

text \<open>The second loop sets a version to zero that some old shard with replicas does not have.\<close>

definition lacks_version :: "(Shard \<Rightarrow> int32) \<Rightarrow> string list \<Rightarrow> Shard list \<Rightarrow> string \<Rightarrow> bool" where
  "lacks_version fGetShardReplicas newShards shards key \<longleftrightarrow>
     (\<exists>shard \<in> set shards. map_of (sh_VersionStatus shard) key = None \<and>
        fGetShardReplicas shard \<noteq> 0 \<and> \<not> inNewShard shard newShards)"

definition initShardMatrix ::
    "Shard list \<Rightarrow> (VersionStatus option \<Rightarrow> int32) \<Rightarrow> (Shard \<Rightarrow> int32) \<Rightarrow> string list \<Rightarrow>
     (string, float64) gomap" where
  "initShardMatrix shards fGetVersionReplicas fGetShardReplicas newShards =
     (let availableMatrix = fold (init_row fGetVersionReplicas fGetShardReplicas newShards) shards [];
          availableMatrix = map (\<lambda>(key, v).
            (key, if lacks_version fGetShardReplicas newShards shards key then 0 else v)) availableMatrix
      in map (\<lambda>(key, v). (key, if v > 100 then 100 else v)) availableMatrix)"

definition getTotalRatio :: "(string, float64) gomap \<Rightarrow> float64" where
  "getTotalRatio matrix = fold (\<lambda>(_, ratio) t. f64 (t + ratio)) matrix 0"

subsection \<open>The target ratio\<close>

definition borderTargetRatio :: "float64 \<Rightarrow> float64 \<Rightarrow> float64 \<Rightarrow> bool \<Rightarrow> float64" where
  "borderTargetRatio targetRatio latestRatio curLatestRatio forward =
     (let targetRatio = (if (forward \<and> targetRatio > latestRatio) \<or> (\<not> forward \<and> targetRatio < latestRatio)
                         then latestRatio else targetRatio);
          targetRatio = (if (forward \<and> targetRatio < curLatestRatio) \<or> (\<not> forward \<and> targetRatio > curLatestRatio)
                         then curLatestRatio else targetRatio)
      in floatRound targetRatio)"

definition calculateTargetRatio ::
    "int32 \<Rightarrow> float64 \<Rightarrow> (string, float64) gomap \<Rightarrow> string \<Rightarrow> float64 \<Rightarrow> float64 \<Rightarrow>
     float64 \<times> bool \<times> float64 \<times> float64" where
  "calculateTargetRatio latestPercent curLatestRatio holdMatrix targetShardGroupVersion stepRatio extraRatio =
     (let latestRatio = floatRound (of_int latestPercent);
          availableLatestRatio = mget 0 holdMatrix targetShardGroupVersion;
          availableOldRatio = f64 (getTotalRatio holdMatrix - availableLatestRatio);
          targetRatio = f64 (f64 (availableLatestRatio + stepRatio) + extraRatio);
          forward = \<not> curLatestRatio > latestRatio;
          targetRatio = (if curLatestRatio > latestRatio
                         then f64 (100 - f64 (availableOldRatio + stepRatio)) else targetRatio)
      in (borderTargetRatio targetRatio latestRatio curLatestRatio forward, forward, latestRatio, curLatestRatio))"

fun extra_ratio_loop :: "Shard list \<Rightarrow> float64 \<Rightarrow> float64" where
  "extra_ratio_loop [] minExtraRatio = minExtraRatio"
| "extra_ratio_loop (shard # shards) minExtraRatio =
     (let replicas = getTargetReplicas shard; cur = getCurReplicas shard in
      if replicas \<le> cur then 0
      else (let extraRatio = f64 (f64 (100 * of_int (i32 (replicas - cur))) / of_int replicas) in
            if extraRatio \<le> 0 then 0
            else extra_ratio_loop shards
              (if extraRatio > 0 \<and> (extraRatio < minExtraRatio \<or> minExtraRatio \<le> 0)
               then extraRatio else minExtraRatio)))"

definition getExtraRatio :: "roll_env \<Rightarrow> Shard list \<Rightarrow> float64" where
  "getExtraRatio env shards =
     (if \<not> scaleOutWithLatestVersionCount env then 0 else extra_ratio_loop shards 0)"

definition getMaxStepRatio :: "Shard list \<Rightarrow> float64" where
  "getMaxStepRatio shards =
     (let minReplicas = fold (\<lambda>shard minReplicas. let replicas = getTargetReplicas shard in
             if minReplicas = 0 \<or> (replicas \<noteq> 0 \<and> replicas < minReplicas) then replicas else minReplicas)
           shards 0
      in if minReplicas = 0 then 0 else f64 (100 / of_int minReplicas))"

definition paddTargetRatio ::
    "float64 \<Rightarrow> float64 \<Rightarrow> float64 \<Rightarrow> float64 \<Rightarrow> bool \<Rightarrow> (string, float64) gomap \<Rightarrow> string list \<Rightarrow> string \<Rightarrow> float64" where
  "paddTargetRatio targetRatio maxRatio stepRatio latestAvailable forward holdMatrix newShards
       targetShardGroupVersion =
     (let oldVersionRatio = fold (\<lambda>(k, v) t. if k \<noteq> targetShardGroupVersion then f64 (t + v) else t)
            holdMatrix 0 in
      if f64 (oldVersionRatio + targetRatio) < maxRatio \<and> forward then
        if newShards \<noteq> [] then targetRatio
        else (let maxGap = (if 25 > stepRatio then stepRatio else 25);
                  gap = f64 (f64 (maxRatio - oldVersionRatio) - targetRatio);
                  gap = (if gap > maxGap then maxGap else gap)
              in f64 (targetRatio + gap))
      else targetRatio)"

subsection \<open>Hold counts and the adjustment of the hold matrix\<close>

definition calculateHoldCount :: "int32 \<Rightarrow> float64 \<Rightarrow> int32" where
  "calculateHoldCount replicas percent =
     f2i32 (f64 (f64 (of_int \<lfloor>f64 (f64 (percent * of_int replicas) - 1 / 2)\<rfloor> / 100) + f64 (7 / 10)))"

definition transferHoldMatrix :: "(string, float64) gomap \<Rightarrow> int32 \<Rightarrow> (string, int32) gomap" where
  "transferHoldMatrix holdMatrixPercent replicas =
     map (\<lambda>(key, val). (key, calculateHoldCount replicas val)) holdMatrixPercent"

definition getTotalHoldReplicas :: "(string, float64) gomap \<Rightarrow> int32 \<Rightarrow> int32" where
  "getTotalHoldReplicas holdMatrix replicas =
     fold (\<lambda>(_, count) t. i32 (t + count)) (transferHoldMatrix holdMatrix replicas) 0"

definition onlyOneVersion :: "(string, float64) gomap \<Rightarrow> string \<Rightarrow> bool" where
  "onlyOneVersion matrix targetShardGroupVersion \<longleftrightarrow>
     mget 0 matrix targetShardGroupVersion = 100 \<and> length matrix = 1"

definition supplementHoldPercent ::
    "float64 \<Rightarrow> string \<Rightarrow> (string, float64) gomap \<Rightarrow> (string, float64) gomap \<Rightarrow>
     float64 \<times> (string, float64) gomap" where
  "supplementHoldPercent needExtraHold key holdMatrix curMatrix =
     (let hold = mget 0 holdMatrix key; cur = mget 0 curMatrix key in
      if hold < cur then
        (let extraHold = f64 (cur - hold);
             (extraHold, needExtraHold) =
               (if needExtraHold < extraHold then (needExtraHold, 0)
                else (extraHold, f64 (needExtraHold - extraHold)))
         in (needExtraHold, mput key (f64 (hold + extraHold)) holdMatrix))
      else (needExtraHold, holdMatrix))"

text \<open>The first loop of \<open>adjustHoldMatrix\<close>, over the keys from the last to the first.\<close>

fun trim_hold ::
    "string \<Rightarrow> bool \<Rightarrow> float64 \<Rightarrow> string list \<Rightarrow> (string, float64) gomap \<Rightarrow> float64 \<Rightarrow>
     (string, float64) gomap \<times> float64" where
  "trim_hold target forward maxRatio [] hold allRatio = (hold, allRatio)"
| "trim_hold target forward maxRatio (key # keys) hold allRatio =
     (if key = target \<and> forward then trim_hold target forward maxRatio keys hold allRatio
      else if f64 (allRatio - maxRatio) < 0 then (hold, allRatio)
      else if f64 (f64 (allRatio - mget 0 hold key) - maxRatio) < 0 then
        (mput key (floatRound (f64 (mget 0 hold key - f64 (allRatio - maxRatio)))) hold, allRatio)
      else trim_hold target forward maxRatio keys (mput key 0 hold) (f64 (allRatio - mget 0 hold key)))"

text \<open>The second loop, over the keys from the first to the last.\<close>

fun extend_hold ::
    "string \<Rightarrow> (string, float64) gomap \<Rightarrow> int32 \<Rightarrow> string list \<Rightarrow> (string, float64) gomap \<Rightarrow> float64 \<Rightarrow>
     (string, float64) gomap" where
  "extend_hold target curMatrix minReplicas [] hold needExtraHold = hold"
| "extend_hold target curMatrix minReplicas (key # keys) hold needExtraHold =
     (if needExtraHold \<le> 0 then hold
      else (let minTotalHoldReplicas = getTotalHoldReplicas hold minReplicas in
        if minTotalHoldReplicas \<ge> minReplicas then hold
        else (let maxStep = f64 (100 / of_int minReplicas);
                  maxExtraHold = f64 (maxStep * of_int (i32 (minReplicas - minTotalHoldReplicas)));
                  needExtraHold = (if needExtraHold > maxExtraHold then maxExtraHold else needExtraHold)
              in if key = target then extend_hold target curMatrix minReplicas keys hold needExtraHold
                 else (case supplementHoldPercent needExtraHold key hold curMatrix of
                    (needExtraHold, hold) \<Rightarrow> extend_hold target curMatrix minReplicas keys hold needExtraHold))))"

definition adjustHoldMatrix ::
    "roll_env \<Rightarrow> (string, float64) gomap \<Rightarrow> (string, float64) gomap \<Rightarrow> string \<Rightarrow> float64 \<Rightarrow> float64 \<Rightarrow> float64 \<Rightarrow>
     bool \<Rightarrow> string \<Rightarrow> int32 \<Rightarrow> (string, float64) gomap" where
  "adjustHoldMatrix env holdMatrix curMatrix targetShardGroupVersion targetRatio maxRatio stepRatio
       forward strategy minReplicas =
     (let availMatrix = holdMatrix;
          holdMatrix = mput targetShardGroupVersion targetRatio holdMatrix;
          maxRatio = (if targetRatio = 100 then 100 else maxRatio);
          allRatio = fold (\<lambda>(_, val) t. f64 (t + val)) holdMatrix 0;
          keys = sortVersions env (mkeys holdMatrix) targetShardGroupVersion availMatrix stepRatio strategy;
          (holdMatrix, allRatio) = trim_hold targetShardGroupVersion forward maxRatio (rev keys) holdMatrix allRatio;
          minTotalHoldReplicas = getTotalHoldReplicas holdMatrix minReplicas
      in if allRatio < maxRatio \<and> minTotalHoldReplicas < minReplicas
         then extend_hold targetShardGroupVersion curMatrix minReplicas keys holdMatrix (f64 (maxRatio - allRatio))
         else holdMatrix)"

definition calculateHoldMatrix ::
    "roll_env \<Rightarrow> Shard list \<Rightarrow> int32 \<Rightarrow> string \<Rightarrow> string \<Rightarrow> int32 \<Rightarrow> int32 \<Rightarrow> string list \<Rightarrow>
     (string, float64) gomap \<times> int32 \<times> int32" where
  "calculateHoldMatrix env shards latestPercent strategy targetShardGroupVersion maxUnavailable maxSurge newShards =
     (let surge = (maxUnavailable = 0 \<and> maxSurge \<noteq> 0);
          stepRatio = (if surge then of_int maxSurge else of_int maxUnavailable);
          maxRatio = (if surge then f64 (100 + stepRatio) else 100);
          minReplicas = getMinTargetReplicas shards;
          holdMatrix = initShardMatrix shards getVersionReadyReplicas getCompactReplicas newShards;
          grayHoldMatrix = initShardMatrix shards getVersionAllReplicas getCompactReplicas newShards;
          curMatrix = initShardMatrix shards getVersionAllReplicas getCurReplicas newShards;
          latestAvailable = mget 0 holdMatrix targetShardGroupVersion
      in if onlyOneVersion curMatrix targetShardGroupVersion then (holdMatrix, latestPercent, latestPercent)
         else
          (let extraRatio = getExtraRatio env shards;
               (targetRatio, forward, latestRatio, curLatestRatio) =
                  calculateTargetRatio latestPercent (mget 0 curMatrix targetShardGroupVersion) holdMatrix
                    targetShardGroupVersion stepRatio extraRatio;
               targetPercent = f2i32 (of_int \<lceil>targetRatio\<rceil>);
               holdMatrix = adjustHoldMatrix env holdMatrix grayHoldMatrix targetShardGroupVersion targetRatio
                  maxRatio stepRatio forward strategy minReplicas;
               paddedTargetPercent =
                 (if length shards > 1 \<and> EnableMissingColumn env then
                    (let padded = paddTargetRatio targetRatio maxRatio (getMaxStepRatio shards) latestAvailable
                                    forward curMatrix newShards targetShardGroupVersion;
                         padded = borderTargetRatio padded latestRatio curLatestRatio forward
                     in f2i32 (of_int \<lceil>padded\<rceil>))
                  else 0)
           in (holdMatrix, targetPercent, paddedTargetPercent)))"

definition isLatestRowComplete :: "Shard list \<Rightarrow> string \<Rightarrow> bool" where
  "isLatestRowComplete shards targetShardGroupVersion \<longleftrightarrow>
     (\<forall>shard \<in> set shards. case map_of (sh_VersionStatus shard) targetShardGroupVersion of
        None \<Rightarrow> False | Some s \<Rightarrow> vs_DataReadyReplicas s \<noteq> 0)"

subsection \<open>Dependencies between shards\<close>

definition getDependencyShards :: "Shard \<Rightarrow> Shard list \<Rightarrow> Shard list" where
  "getDependencyShards shard grp =
     filter (\<lambda>g. sh_DependencyLevel shard > sh_DependencyLevel g \<and> sh_Name shard \<noteq> sh_Name g \<and>
                 sh_Replicas g > 0) grp"

definition calculateDependencyMatrix :: "Shard \<Rightarrow> Shard list \<Rightarrow> (string, float64) gomap" where
  "calculateDependencyMatrix shard grp =
     (let dependencyShards = getDependencyShards shard grp; replicas = sh_Replicas shard in
      if replicas = 0 \<or> dependencyShards = [] then []
      else initShardMatrix dependencyShards getVersionReadyReplicas getCompactReplicas [])"

definition needDependency :: "Shard list \<Rightarrow> bool" where
  "needDependency grp \<longleftrightarrow> (\<exists>g \<in> set grp. sh_DependencyLevel g \<noteq> 0)"


section \<open>Properties\<close>

subsection \<open>Sorting versions\<close>

text \<open>
  The target version is the greatest element of both orders, so \<open>latestFirst\<close> and \<open>lessFirst\<close>
  put it last and \<open>oldFirst\<close> puts it first, whatever the order does with the other versions.
\<close>

lemma insertion_step_top:
  assumes "\<And>x. lt x t \<longleftrightarrow> x \<noteq> t" "\<And>x. \<not> lt t x"
  shows "(ys \<noteq> [] \<longrightarrow> t \<in> set ys \<longrightarrow> hd ys = t) \<Longrightarrow>
    t \<in> set (insertion_step lt x ys) \<Longrightarrow> hd (insertion_step lt x ys) = t"
  using assms by (cases ys) (auto simp: set_insertion_step)

lemma fold_insertion_top:
  assumes "\<And>x. lt x t \<longleftrightarrow> x \<noteq> t" "\<And>x. \<not> lt t x"
  shows "(t \<in> set acc \<longrightarrow> hd acc = t) \<Longrightarrow> t \<in> set xs \<union> set acc \<Longrightarrow>
    hd (fold (insertion_step lt) xs acc) = t"
proof (induction xs arbitrary: acc)
  case Nil
  then show ?case by simp
next
  case (Cons x xs)
  have "hd (insertion_step lt x acc) = t" if "t \<in> set (insertion_step lt x acc)"
    using insertion_step_top [of lt t acc x] assms Cons.prems(1) that by blast
  moreover have "t \<in> set xs \<union> set (insertion_step lt x acc)"
    using Cons.prems(2) by (auto simp: set_insertion_step)
  ultimately show ?case using Cons.IH [of "insertion_step lt x acc"] by simp
qed

lemma go_sort_top:
  assumes "\<And>x. lt x t \<longleftrightarrow> x \<noteq> t" "\<And>x. \<not> lt t x" "t \<in> set xs"
  shows "last (go_sort lt xs) = t"
proof -
  have "fold (insertion_step lt) xs [] \<noteq> []"
    using assms(3) mset_fold_insertion_step [of lt xs "[]"] by auto
  then show ?thesis
    using fold_insertion_top [of lt t "[]" xs] assms by (simp add: go_sort_def last_rev)
qed

lemma insertion_step_bottom:
  assumes "\<And>x. lt t x \<longleftrightarrow> x \<noteq> t" "\<And>x. \<not> lt x t"
  shows "(t \<in> set ys \<longrightarrow> last ys = t) \<Longrightarrow> t \<in> set (insertion_step lt x ys) \<Longrightarrow>
    last (insertion_step lt x ys) = t"
proof (induction ys)
  case Nil
  then show ?case by simp
next
  case (Cons y ys)
  have ne: "insertion_step lt x ys \<noteq> []" by (cases ys) auto
  show ?case
  proof (cases "lt x y")
    case True
    then have "y \<noteq> t" using assms(2) by blast
    with True ne Cons show ?thesis by (auto split: if_splits)
  next
    case False
    with assms Cons.prems show ?thesis by (auto split: if_splits)
  qed
qed

lemma go_sort_bottom:
  assumes lt: "\<And>x. lt t x \<longleftrightarrow> x \<noteq> t" "\<And>x. \<not> lt x t" and t: "t \<in> set xs"
  shows "hd (go_sort lt xs) = t"
proof -
  have "last (fold (insertion_step lt) ys acc) = t"
    if "t \<in> set acc \<longrightarrow> last acc = t" "t \<in> set ys \<union> set acc" for ys acc
    using that
  proof (induction ys arbitrary: acc)
    case (Cons y ys)
    have "last (insertion_step lt y acc) = t" if "t \<in> set (insertion_step lt y acc)"
      using insertion_step_bottom [of lt t acc y] lt Cons.prems(1) that by blast
    moreover have "t \<in> set ys \<union> set (insertion_step lt y acc)"
      using Cons.prems(2) by (auto simp: set_insertion_step)
    ultimately show ?case using Cons.IH [of "insertion_step lt y acc"] by simp
  qed simp
  moreover have "fold (insertion_step lt) xs [] \<noteq> []"
    using t mset_fold_insertion_step [of lt xs "[]"] by auto
  ultimately show ?thesis using t by (simp add: go_sort_def hd_rev)
qed

lemma sortVersions_last:
  assumes "latest \<in> set versions"
    and "getRollingStrategy env strategy available maxUnavailable \<noteq> RollingStrategyOldFirst"
  shows "last (sortVersions env versions latest available maxUnavailable strategy) = latest"
  using assms unfolding sortVersions_def Let_def
  by (auto intro!: go_sort_top simp: ByGeneration_Less_def ByAvailable_Less_def)

lemma sortVersions_first:
  assumes "latest \<in> set versions"
    and "getRollingStrategy env strategy available maxUnavailable = RollingStrategyOldFirst"
  shows "hd (sortVersions env versions latest available maxUnavailable strategy) = latest"
  using assms unfolding sortVersions_def Let_def
  by (auto intro!: go_sort_bottom simp: ByGeneration_Less_def)


subsection \<open>The matrix is a lower bound of every column\<close>

text \<open>A shard whose counts are counts: non-negative, and their total is an int32.\<close>

definition status_total :: "Shard \<Rightarrow> int" where
  "status_total shard = sum_list (map (\<lambda>p. vs_Replicas (snd p)) (sh_VersionStatus shard))"

definition shard_ok :: "Shard \<Rightarrow> bool" where
  "shard_ok shard \<longleftrightarrow> 0 \<le> sh_Replicas shard \<and> sh_Replicas shard < 2147483648 \<and>
     wf_map (sh_VersionStatus shard) \<and>
     list_all (\<lambda>p. 0 \<le> vs_ReadyReplicas (snd p) \<and> vs_ReadyReplicas (snd p) \<le> vs_Replicas (snd p))
       (sh_VersionStatus shard) \<and> status_total shard < 2147483648"

lemma shard_okD:
  assumes "shard_ok shard" "p \<in> set (sh_VersionStatus shard)"
  shows "0 \<le> vs_ReadyReplicas (snd p)" "vs_ReadyReplicas (snd p) \<le> vs_Replicas (snd p)"
  using assms by (auto simp: shard_ok_def list_all_iff)

lemma getCurReplicas_total:
  assumes "shard_ok shard"
  shows "getCurReplicas shard = status_total shard" "0 \<le> getCurReplicas shard"
proof -
  have nn: "0 \<le> vs_Replicas (snd p)" if "p \<in> set (sh_VersionStatus shard)" for p
    using shard_okD [OF assms that] by linarith
  then show eq: "getCurReplicas shard = status_total shard"
    using fold_i32_sum [of "sh_VersionStatus shard" "\<lambda>p. vs_Replicas (snd p)" 0] assms
    by (simp add: getCurReplicas_def getVersionAllReplicas_def shard_ok_def status_total_def case_prod_beta')
  show "0 \<le> getCurReplicas shard"
    unfolding eq status_total_def using nn by (intro sum_list_nonneg) fastforce
qed

lemma getCompactReplicas_nonneg: "shard_ok shard \<Longrightarrow> 0 \<le> getCompactReplicas shard"
  using getCurReplicas_total(2) [of shard]
  by (simp add: getCompactReplicas_def getTargetReplicas_def shard_ok_def)

text \<open>Rounding to six decimals is idempotent below 100.\<close>

lemma floatRound_idem_small:
  assumes "0 \<le> x" "floatRound x < 100"
  shows "floatRound (floatRound x) = floatRound x"
proof -
  let ?n = "rhe (x * 10 ^ 6)" let ?y = "of_int ?n / 10 ^ 6 :: rat"
  have fr: "floatRound x = f64 ?y" by (simp add: floatRound_def FloatRound_def)
  have n0: "0 \<le> ?n" using rhe_mono [of 0 "x * 10 ^ 6"] rhe_of_int [of 0] assms by simp
  have y: "?y < 100" using fl.rnd_lt_rep [of ?y 100] assms(2) fr by simp
  have "rhe (f64 ?y * 10 ^ 6) = ?n"
  proof (cases "?n = 0")
    case True
    then show ?thesis using rhe_of_int [of 0] by simp
  next
    case False
    have "(2 :: rat) powi (- 1022) \<le> 2 powi (- 20)" by (intro power_int_increasing) auto
    also have "(2 :: rat) powi (- 20) \<le> 1 / 10 ^ 6" by (simp add: power_int_def power_one_over)
    also have "1 / 10 ^ 6 \<le> \<bar>?y\<bar>" using n0 False by (simp add: divide_le_cancel)
    finally have "\<bar>f64 ?y - ?y\<bar> \<le> \<bar>?y\<bar> / 2 ^ 53" by (rule f64_error)
    also have "\<dots> \<le> 100 / 2 ^ 53" using y n0 by (intro divide_right_mono) auto
    finally have "\<bar>f64 ?y * 10 ^ 6 - of_int ?n\<bar> \<le> 1 / 4"
      by (simp add: abs_le_iff field_simps)
    then have "\<bar>of_int (rhe (f64 ?y * 10 ^ 6)) - (of_int ?n :: rat)\<bar> < 1"
      using rhe_error [of "f64 ?y * 10 ^ 6"] by linarith
    then show ?thesis by linarith
  qed
  then show ?thesis unfolding fr by (simp add: floatRound_def FloatRound_def)
qed

definition cells_ok :: "(string, float64) gomap \<Rightarrow> bool" where
  "cells_ok m \<longleftrightarrow> wf_map m \<and> (\<forall>k v. map_of m k = Some v \<longrightarrow> 0 \<le> v \<and> (floatRound v = v \<or> 100 \<le> v))"

definition cell_le :: "(string, float64) gomap \<Rightarrow> string \<Rightarrow> rat \<Rightarrow> bool" where
  "cell_le m k b \<longleftrightarrow> (\<exists>v. map_of m k = Some v \<and> min v 100 \<le> b)"

lemma version_ratio_nonneg: "0 \<le> vr \<Longrightarrow> 0 \<le> r \<Longrightarrow> 0 \<le> version_ratio vr r"
  unfolding version_ratio_def by (intro f64_nonneg divide_nonneg_nonneg) auto

lemma cells_ok_put: "cells_ok m \<Longrightarrow> 0 \<le> x \<Longrightarrow> cells_ok (mput k (floatRound x) m)"
  unfolding cells_ok_def
  by (auto simp: update_conv floatRound_nonneg split: if_splits)
     (metis floatRound_idem_small not_le)

lemma init_cell_step:
  assumes ok: "cells_ok m" and nn: "0 \<le> fv (Some sv)" "0 \<le> r"
    and m'_def: "m' = init_cell fv shard r newShards (k, sv) m"
  shows "cells_ok m'" "cell_le m j b \<Longrightarrow> cell_le m' j b"
    "\<not> inNewShard shard newShards \<Longrightarrow> cell_le m' k (floatRound (version_ratio (fv (Some sv)) r))"
proof -
  let ?q = "version_ratio (fv (Some sv)) r"
  have q: "0 \<le> ?q" by (rule version_ratio_nonneg [OF nn])
  show "cells_ok m'"
    using ok cells_ok_put [OF ok q] by (simp add: m'_def init_cell_def Let_def split: option.split)
  have old: "min (floatRound ?q) 100 \<le> min v 100" if "map_of m k = Some v" "?q \<le> v" for v
    using ok that floatRound_mono [of ?q v] unfolding cells_ok_def by fastforce
  show "cell_le m' j b" if "cell_le m j b"
    using that old by (fastforce simp: m'_def init_cell_def Let_def cell_le_def update_conv split: option.split)
  have new: "min v 100 \<le> floatRound ?q" if "map_of m k = Some v" "\<not> ?q \<le> v" for v
  proof (cases "floatRound v = v")
    case True
    then show ?thesis using floatRound_mono [of v ?q] that by (simp add: min_le_iff_disj)
  next
    case False
    then have "100 \<le> v" using ok that(1) unfolding cells_ok_def by blast
    then have "floatRound 100 \<le> floatRound ?q" using that by (intro floatRound_mono) auto
    then show ?thesis by (simp add: min_le_iff_disj)
  qed
  show "cell_le m' k (floatRound ?q)" if "\<not> inNewShard shard newShards"
    using that new by (auto simp: m'_def init_cell_def Let_def cell_le_def update_conv split: option.split)
qed

lemma init_cells_fold:
  assumes "cells_ok m" "\<And>p. p \<in> set ps \<Longrightarrow> 0 \<le> fv (Some (snd p))" "0 \<le> r"
    and m'_def: "m' = fold (init_cell fv shard r newShards) ps m"
  shows "cells_ok m' \<and> (\<forall>j b. cell_le m j b \<longrightarrow> cell_le m' j b) \<and>
    (\<not> inNewShard shard newShards \<longrightarrow> (\<forall>(k, sv) \<in> set ps.
       cell_le m' k (floatRound (version_ratio (fv (Some sv)) r))))"
  using assms(1,2) unfolding m'_def
proof (induction ps arbitrary: m)
  case Nil
  then show ?case by simp
next
  case (Cons p ps)
  obtain k sv where p: "p = (k, sv)" by (cases p)
  have nn: "0 \<le> fv (Some sv)" using Cons.prems(2) [of p] p by simp
  note st = init_cell_step [where fv = fv and sv = sv and k = k and shard = shard and newShards = newShards,
      OF Cons.prems(1) nn assms(3) refl]
  from Cons.IH [OF st(1)] Cons.prems(2) st(2,3) show ?case unfolding p by auto
qed


lemma init_row_step:
  assumes ok: "cells_ok m" and nn: "\<And>p. p \<in> set (sh_VersionStatus shard) \<Longrightarrow> 0 \<le> fv (Some (snd p))"
    and r: "0 \<le> fs shard" and m': "m' = init_row fv fs newShards shard m"
  shows "cells_ok m'" "cell_le m j b \<Longrightarrow> cell_le m' j b"
    "fs shard \<noteq> 0 \<Longrightarrow> \<not> inNewShard shard newShards \<Longrightarrow> (k, sv) \<in> set (sh_VersionStatus shard) \<Longrightarrow>
       cell_le m' k (floatRound (version_ratio (fv (Some sv)) (fs shard)))"
  using init_cells_fold [where fv = fv and r = "fs shard" and ps = "sh_VersionStatus shard" and shard = shard and newShards = newShards,
      OF ok nn r refl] ok
  by (auto simp: m' init_row_def Let_def split: if_splits)

text \<open>The counts that the two accessors give on the shards are non-negative.\<close>

definition columns_ok ::
    "(VersionStatus option \<Rightarrow> int32) \<Rightarrow> (Shard \<Rightarrow> int32) \<Rightarrow> Shard list \<Rightarrow> bool" where
  "columns_ok fv fs shards \<longleftrightarrow> fv None = 0 \<and> (\<forall>shard \<in> set shards. 0 \<le> fs shard \<and>
     wf_map (sh_VersionStatus shard) \<and> (\<forall>p \<in> set (sh_VersionStatus shard). 0 \<le> fv (Some (snd p))))"

lemma columns_ok_ready:
  "\<forall>shard \<in> set shards. shard_ok shard \<Longrightarrow> columns_ok getVersionReadyReplicas getCompactReplicas shards"
  by (auto simp: columns_ok_def getVersionReadyReplicas_def getCompactReplicas_nonneg shard_ok_def
      list_all_iff)

lemma columns_ok_all:
  assumes "\<forall>shard \<in> set shards. shard_ok shard"
  shows "columns_ok getVersionAllReplicas getCompactReplicas shards"
    "columns_ok getVersionAllReplicas getCurReplicas shards"
  using assms
  by (auto simp: columns_ok_def getVersionAllReplicas_def getCompactReplicas_nonneg
      getCurReplicas_total(2) shard_ok_def list_all_iff intro: order_trans)

lemma init_rows_fold:
  assumes "columns_ok fv fs shards" "cells_ok m"
  shows "cells_ok (fold (init_row fv fs newShards) shards m) \<and>
    (\<forall>j b. cell_le m j b \<longrightarrow> cell_le (fold (init_row fv fs newShards) shards m) j b) \<and>
    (\<forall>shard \<in> set shards. fs shard \<noteq> 0 \<longrightarrow> \<not> inNewShard shard newShards \<longrightarrow>
       (\<forall>(k, sv) \<in> set (sh_VersionStatus shard).
          cell_le (fold (init_row fv fs newShards) shards m) k
            (floatRound (version_ratio (fv (Some sv)) (fs shard)))))"
  using assms
proof (induction shards arbitrary: m)
  case Nil
  then show ?case by simp
next
  case (Cons shard shards)
  have c: "columns_ok fv fs shards" and nn: "\<And>p. p \<in> set (sh_VersionStatus shard) \<Longrightarrow> 0 \<le> fv (Some (snd p))"
    and r: "0 \<le> fs shard" using Cons.prems(1) by (simp_all add: columns_ok_def)
  note st = init_row_step [where fv = fv and fs = fs and shard = shard and newShards = newShards,
      OF Cons.prems(2) nn r refl]
  show ?case using Cons.IH [OF c st(1)] st(2,3) by fastforce
qed

lemma map_of_map_snd: "map_of (map (\<lambda>(k, v). (k, g k v)) m) k = map_option (g k) (map_of m k)"
  by (induction m) auto

lemma initShardMatrix_map_of:
  "map_of (initShardMatrix shards fv fs newShards) k =
     map_option (\<lambda>v. if lacks_version fs newShards shards k then 0 else min v 100)
       (map_of (fold (init_row fv fs newShards) shards []) k)"
  unfolding initShardMatrix_def Let_def map_of_map_snd
  by (cases "map_of (fold (init_row fv fs newShards) shards []) k") (auto simp: min_def)

lemma cells_ok_Nil: "cells_ok []"
  by (simp add: cells_ok_def)

lemma initShardMatrix_range_aux:
  assumes "columns_ok fv fs shards"
  shows "wf_map (initShardMatrix shards fv fs newShards)"
    "0 \<le> mget 0 (initShardMatrix shards fv fs newShards) key"
    "mget 0 (initShardMatrix shards fv fs newShards) key \<le> 100"
proof -
  let ?m = "fold (init_row fv fs newShards) shards []"
  have ok: "cells_ok ?m" using init_rows_fold [OF assms cells_ok_Nil] by blast
  have "mkeys (initShardMatrix shards fv fs newShards) = mkeys ?m"
    by (simp add: initShardMatrix_def Let_def comp_def case_prod_beta')
  then show "wf_map (initShardMatrix shards fv fs newShards)" using ok by (simp add: cells_ok_def)
  show "0 \<le> mget 0 (initShardMatrix shards fv fs newShards) key"
    "mget 0 (initShardMatrix shards fv fs newShards) key \<le> 100"
    using ok unfolding mget_def initShardMatrix_map_of cells_ok_def
    by (cases "map_of ?m key"; simp; blast)+
qed

lemma initShardMatrix_column:
  assumes c: "columns_ok fv fs shards" and sh: "shard \<in> set shards" "fs shard \<noteq> 0"
    and old: "\<not> inNewShard shard newShards"
  shows "mget 0 (initShardMatrix shards fv fs newShards) key
    \<le> floatRound (version_ratio (fv (map_of (sh_VersionStatus shard) key)) (fs shard))"
proof (cases "map_of (sh_VersionStatus shard) key")
  case None
  then have "lacks_version fs newShards shards key"
    using sh old unfolding lacks_version_def by blast
  then have "mget 0 (initShardMatrix shards fv fs newShards) key = 0"
    unfolding mget_def initShardMatrix_map_of by (simp split: option.split)
  with None c show ?thesis by (simp add: columns_ok_def version_ratio_def)
next
  case (Some sv)
  then have "(key, sv) \<in> set (sh_VersionStatus shard)" by (rule map_of_SomeD)
  then have "cell_le (fold (init_row fv fs newShards) shards []) key
      (floatRound (version_ratio (fv (Some sv)) (fs shard)))"
    using init_rows_fold [OF c cells_ok_Nil] sh old by blast
  then obtain v where v: "map_of (fold (init_row fv fs newShards) shards []) key = Some v"
    and le: "min v 100 \<le> floatRound (version_ratio (fv (Some sv)) (fs shard))"
    by (auto simp: cell_le_def)
  have "0 \<le> floatRound (version_ratio (fv (Some sv)) (fs shard))"
    using c sh(1) \<open>(key, sv) \<in> _\<close> unfolding columns_ok_def
    by (intro floatRound_nonneg version_ratio_nonneg) force+
  with Some v le show ?thesis unfolding mget_def initShardMatrix_map_of by simp
qed


subsection \<open>The target ratio stays between the current ratio and the requested one\<close>

lemma borderTargetRatio_forward:
  "floatRound cur \<le> borderTargetRatio t latest cur True"
  "borderTargetRatio t latest cur True \<le> floatRound (max latest cur)"
  unfolding borderTargetRatio_def Let_def by (auto intro!: floatRound_mono)

lemma borderTargetRatio_backward:
  "borderTargetRatio t latest cur False \<le> floatRound cur"
  "floatRound (min latest cur) \<le> borderTargetRatio t latest cur False"
  unfolding borderTargetRatio_def Let_def by (auto intro!: floatRound_mono)

lemma f64_borderTargetRatio: "f64 (borderTargetRatio t latest cur fw) = borderTargetRatio t latest cur fw"
  by (simp add: borderTargetRatio_def Let_def floatRound_idem_f64)

subsection \<open>Hold counts\<close>

lemma f64_dyadic:
  "f64 (- 1 / 64) = - 1 / 64" "f64 (3 / 4) = 3 / 4" "f64 (1 / 2) = 1 / 2"
  using f64_rep [of "- 1" "- 6"] f64_rep [of 3 "- 2"] f64_rep [of 1 "- 1"]
  by (simp_all add: power_int_def power_one_over)

lemma f64_seven_tenths: "1 / 2 \<le> f64 (7 / 10)" "f64 (7 / 10) \<le> 3 / 4"
  using fl.rnd_ge_rep [of "1 / 2" "7 / 10"] fl.rnd_le_rep [of "7 / 10" "3 / 4"] f64_dyadic by simp_all

lemma calculateHoldCount_range:
  assumes p: "0 \<le> percent" "percent \<le> 100" and r: "0 \<le> replicas" "replicas < 2147483648"
  shows "0 \<le> calculateHoldCount replicas percent \<and> calculateHoldCount replicas percent \<le> replicas"
proof -
  let ?a = "f64 (percent * of_int replicas)" let ?b = "f64 (?a - 1 / 2)"
  let ?c = "f64 (of_int \<lfloor>?b\<rfloor> / 100)" let ?d = "f64 (?c + f64 (7 / 10))"
  have a0: "0 \<le> ?a" using p r by (intro f64_nonneg) simp
  have "percent * of_int replicas \<le> of_int (100 * replicas)"
    using mult_right_mono [OF p(2), of "of_int replicas"] r by simp
  then have a1: "?a \<le> of_int (100 * replicas)" using r by (intro fl.rnd_le_int) auto
  have b0: "of_int (- 1) \<le> ?b" using a0 by (intro fl.rnd_ge_int) auto
  have "f64 (of_int (200 * replicas - 1) * 2 powi (- 1)) = of_int (200 * replicas - 1) * 2 powi (- 1)"
    using r by (intro f64_rep) auto
  then have "f64 (of_int (100 * replicas) - 1 / 2) = of_int (100 * replicas) - 1 / 2"
    by (simp add: power_int_def field_simps)
  with a1 have "?b \<le> of_int (100 * replicas) - 1 / 2" by (intro fl.rnd_le_rep) auto
  then have fb: "\<lfloor>?b\<rfloor> \<le> 100 * replicas" "- 1 \<le> \<lfloor>?b\<rfloor>" using b0 by linarith+
  have "(of_int \<lfloor>?b\<rfloor> :: rat) \<le> of_int (100 * replicas)" using fb(1) by (simp only: of_int_le_iff)
  then have c1: "?c \<le> of_int replicas" using r by (intro fl.rnd_le_int) auto
  have "(of_int (- 1) :: rat) \<le> of_int \<lfloor>?b\<rfloor>" using fb(2) by (simp only: of_int_le_iff)
  then have c0: "- 1 / 64 \<le> ?c" using f64_dyadic(1) by (intro fl.rnd_ge_rep) auto
  have "f64 (of_int (4 * replicas + 3) * 2 powi (- 2)) = of_int (4 * replicas + 3) * 2 powi (- 2)"
    using r by (intro f64_rep) auto
  then have "f64 (of_int replicas + 3 / 4) = of_int replicas + 3 / 4"
    by (simp add: power_int_def field_simps)
  then have d1: "?d \<le> of_int replicas + 3 / 4" using c1 f64_seven_tenths by (intro fl.rnd_le_rep) auto
  have d0: "0 \<le> ?d" using c0 f64_seven_tenths by (intro f64_nonneg) auto
  have "trunc ?d = \<lfloor>?d\<rfloor>" using d0 by (simp add: trunc_def)
  moreover have "0 \<le> \<lfloor>?d\<rfloor>" "\<lfloor>?d\<rfloor> \<le> replicas" using d0 d1 by linarith+
  ultimately have "in32 (trunc ?d)" "0 \<le> trunc ?d" "trunc ?d \<le> replicas"
    using r unfolding in32_def by linarith+
  then show ?thesis by (simp add: calculateHoldCount_def f2i32_def)
qed

subsection \<open>Adjusting the hold matrix\<close>

definition percents_ok :: "(string, float64) gomap \<Rightarrow> bool" where
  "percents_ok m \<longleftrightarrow> (\<forall>k. 0 \<le> mget 0 m k \<and> f64 (mget 0 m k) = mget 0 m k)"

lemma trim_hold_spec:
  assumes "f64 maxRatio = maxRatio" "percents_ok hold"
    and "trim_hold target forward maxRatio keys hold allRatio = (hold', allRatio')"
  shows "percents_ok hold' \<and> (\<forall>k. mget 0 hold' k \<le> max (mget 0 hold k) (floatRound (mget 0 hold k))) \<and>
    (forward \<longrightarrow> mget 0 hold' target = mget 0 hold target) \<and>
    (set keys \<subseteq> set (mkeys hold) \<longrightarrow> set (mkeys hold') = set (mkeys hold)) \<and> (wf_map hold \<longrightarrow> wf_map hold')"
  using assms
proof (induction target forward maxRatio keys hold allRatio rule: trim_hold.induct)
  case (1 target forward maxRatio hold allRatio)
  then show ?case by auto
next
  case (2 target forward maxRatio key keys hold allRatio)
  let ?h = "mget 0 hold key" let ?over = "f64 (allRatio - maxRatio)"
  have h: "0 \<le> ?h" "f64 ?h = ?h" using "2.prems"(2) by (auto simp: percents_ok_def)
  consider "key = target \<and> forward" | "\<not> (key = target \<and> forward)" "?over < 0"
    | "\<not> (key = target \<and> forward)" "\<not> ?over < 0" "f64 (f64 (allRatio - ?h) - maxRatio) < 0"
    | "\<not> (key = target \<and> forward)" "\<not> ?over < 0" "\<not> f64 (f64 (allRatio - ?h) - maxRatio) < 0"
    by blast
  then show ?case
  proof cases
    case 1
    then show ?thesis using "2.IH"(1) "2.prems" by auto
  next
    case 2
    then show ?thesis using "2.prems" by auto
  next
    case 3
    let ?v = "f64 (?h - ?over)"
    have hold': "hold' = mput key (floatRound ?v) hold" using 3 "2.prems"(3) by auto
    have "allRatio - ?h < maxRatio"
      using fl.rnd_lt_rep [OF fl.rnd_diff_less0 [OF 3(3)] "2.prems"(1)] .
    then have "?over \<le> ?h" using h(2) by (intro fl.rnd_le_rep) auto
    then have v0: "0 \<le> floatRound ?v" by (intro floatRound_nonneg f64_nonneg) simp
    have "?v \<le> ?h" using 3(2) h(2) by (intro fl.rnd_le_rep) auto
    then have "floatRound ?v \<le> floatRound ?h" by (rule floatRound_mono)
    then have "mget 0 hold' k \<le> max (mget 0 hold k) (floatRound (mget 0 hold k))" for k
      by (simp add: hold' le_max_iff_disj)
    moreover have "percents_ok hold'"
      using v0 "2.prems"(2) by (simp add: hold' percents_ok_def floatRound_idem_f64)
    moreover have "set (key # keys) \<subseteq> set (mkeys hold) \<longrightarrow> set (mkeys hold') = set (mkeys hold)"
      by (auto simp: hold')
    ultimately show ?thesis using 3(1) wf_mput by (auto simp: hold')
  next
    case 4
    let ?hold0 = "mput key 0 hold"
    have "percents_ok ?hold0" using "2.prems"(2) by (simp add: percents_ok_def)
    from "2.IH"(2) [OF 4(1,2,3) "2.prems"(1) this] "2.prems"(3) 4
    have IH: "percents_ok hold'" "\<And>k. mget 0 hold' k \<le> max (mget 0 ?hold0 k) (floatRound (mget 0 ?hold0 k))"
      "forward \<Longrightarrow> mget 0 hold' target = mget 0 ?hold0 target"
      "set keys \<subseteq> set (mkeys ?hold0) \<Longrightarrow> set (mkeys hold') = set (mkeys ?hold0)"
      "wf_map ?hold0 \<Longrightarrow> wf_map hold'" by auto
    have "mget 0 hold' k \<le> max (mget 0 hold k) (floatRound (mget 0 hold k))" for k
      using IH(2) [of k] h(1) by (cases "k = key") (auto simp: le_max_iff_disj)
    moreover have "set (key # keys) \<subseteq> set (mkeys hold) \<longrightarrow> set (mkeys hold') = set (mkeys hold)"
      using IH(4) by auto
    ultimately show ?thesis using IH(1,3,5) 4(1) wf_mput by auto
  qed
qed

lemma extend_hold_target: "mget 0 (extend_hold target cur minR keys hold need) target = mget 0 hold target"
proof (induction keys arbitrary: hold need)
  case (Cons key keys)
  have "mget 0 h' target = mget 0 hold target"
    if "key \<noteq> target" "supplementHoldPercent n key hold cur = (n', h')" for n n' h'
    using that by (auto simp: supplementHoldPercent_def Let_def split: if_splits)
  with Cons show ?case by (auto simp: Let_def split: prod.split)
qed simp

lemma adjustHoldMatrix_forward_aux:
  assumes "f64 maxRatio = maxRatio" "percents_ok hold" "0 \<le> targetRatio" "f64 targetRatio = targetRatio"
  shows "mget 0 (adjustHoldMatrix env hold cur target targetRatio maxRatio step True strategy minR) target
    = targetRatio"
proof -
  let ?hold = "mput target targetRatio hold"
  let ?max = "if targetRatio = 100 then 100 else maxRatio"
  let ?keys = "sortVersions env (mkeys ?hold) target hold step strategy"
  let ?all = "fold (\<lambda>(_, val) t. f64 (t + val)) ?hold 0"
  obtain h a where t: "trim_hold target True ?max (rev ?keys) ?hold ?all = (h, a)"
    by (cases "trim_hold target True ?max (rev ?keys) ?hold ?all")
  have "f64 ?max = ?max" using assms(1) by simp
  moreover have "percents_ok ?hold" using assms(2-4) by (auto simp: percents_ok_def)
  ultimately have "mget 0 h target = targetRatio" using trim_hold_spec [OF _ _ t] by simp
  then show ?thesis
    using t by (simp add: adjustHoldMatrix_def Let_def extend_hold_target)
qed


subsection \<open>The order by generation\<close>

definition generation :: "string \<Rightarrow> int option" where
  "generation v = (case str_index CHR ''-'' v of None \<Rightarrow> None | Some i \<Rightarrow> atoi (take i v))"

lemma generation_less_generations:
  "generation v = Some a \<Longrightarrow> generation w = Some b \<Longrightarrow> generation_less v w \<longleftrightarrow> a < b"
  by (auto simp: generation_def generation_less_def split: option.splits)

lemma ByGeneration_strict_weak:
  assumes "\<And>v. v \<in> A \<Longrightarrow> v = latest \<or> generation v \<noteq> None"
  shows "strict_weak_on A (ByGeneration_Less latest)"
proof -
  have g: "ByGeneration_Less latest v w \<longleftrightarrow> v \<noteq> latest \<and> (w = latest \<or> the (generation v) < the (generation w))"
    if "v \<in> A" "w \<in> A" for v w
    using assms [OF that(1)] assms [OF that(2)]
    by (auto simp: ByGeneration_Less_def generation_less_generations)
  show ?thesis unfolding strict_weak_on_def by (auto simp: g)
qed

section \<open>The properties of the component\<close>

definition sample_shard :: Shard where
  "sample_shard = \<lparr>sh_Replicas = 4, sh_LatestVersionRatio = (\<lambda>_. 0), sh_RawReplicas = 4,
     sh_DependencyLevel = 0, sh_CPU = 1, sh_Name = ''s0'', sh_CarbonRoleName = ''s0'',
     sh_VersionStatus =
       [(''1-a'', \<lparr>vs_Version = ''1-a'', vs_Replicas = 3, vs_ReadyReplicas = 3, vs_DataReadyReplicas = 3,
           vs_Signature = [], vs_ResourceVersionStatus = []\<rparr>),
        (''2-b'', \<lparr>vs_Version = ''2-b'', vs_Replicas = 1, vs_ReadyReplicas = 0, vs_DataReadyReplicas = 0,
           vs_Signature = [], vs_ResourceVersionStatus = []\<rparr>)],
     sh_ResourceVersionStatus = None\<rparr>"

lemma sample_shard_ok: "shard_ok sample_shard"
  by (simp add: shard_ok_def sample_shard_def status_total_def)

lemma sample_shard_compact: "getCompactReplicas sample_shard = 4"
  using getCurReplicas_total(1) [OF sample_shard_ok]
  by (simp add: getCompactReplicas_def getTargetReplicas_def sample_shard_def status_total_def)

text \<open>
  The hold matrix of a group is a lower bound in every column: for each shard that is not
  newly added and has replicas, no version's percentage exceeds the percentage of that version
  that is ready in the shard (to six decimals); in particular a version absent from the shard has
  percentage zero.
\<close>

theorem initShardMatrix_lower_bound:
  assumes "\<forall>shard \<in> set shards. shard_ok shard"
    and "shard \<in> set shards" "getCompactReplicas shard \<noteq> 0" "\<not> inNewShard shard newShards"
  shows "mget 0 (initShardMatrix shards getVersionReadyReplicas getCompactReplicas newShards) version
    \<le> floatRound (version_ratio (getVersionReadyReplicas (map_of (sh_VersionStatus shard) version))
                    (getCompactReplicas shard))"
  using initShardMatrix_column [OF columns_ok_ready [OF assms(1)] assms(2-4)] .

theorem initShardMatrix_lower_bound_witness:
  "mget 0 (initShardMatrix [sample_shard] getVersionReadyReplicas getCompactReplicas []) ''2-b'' \<le> 0"
proof -
  have "mget 0 (initShardMatrix [sample_shard] getVersionReadyReplicas getCompactReplicas []) ''2-b''
    \<le> floatRound (version_ratio (getVersionReadyReplicas (map_of (sh_VersionStatus sample_shard) ''2-b''))
                    (getCompactReplicas sample_shard))"
    by (rule initShardMatrix_lower_bound)
       (simp_all add: sample_shard_ok sample_shard_compact inNewShard_def)
  then show ?thesis by (simp add: sample_shard_def getVersionReadyReplicas_def version_ratio_def)
qed

text \<open>
  Every percentage of the hold matrix, the gray matrix and the current matrix is between 0
  and 100, also when a shard is being scaled in.
\<close>

theorem initShardMatrix_within:
  assumes "\<forall>shard \<in> set shards. shard_ok shard"
  shows "0 \<le> mget 0 (initShardMatrix shards getVersionReadyReplicas getCompactReplicas newShards) v \<and>
    mget 0 (initShardMatrix shards getVersionReadyReplicas getCompactReplicas newShards) v \<le> 100 \<and>
    0 \<le> mget 0 (initShardMatrix shards getVersionAllReplicas getCurReplicas newShards) v \<and>
    mget 0 (initShardMatrix shards getVersionAllReplicas getCurReplicas newShards) v \<le> 100"
  using initShardMatrix_range_aux [OF columns_ok_ready [OF assms]]
    initShardMatrix_range_aux [OF columns_ok_all(2) [OF assms]] by simp

theorem initShardMatrix_within_witness:
  "mget 0 (initShardMatrix [sample_shard] getVersionReadyReplicas getCompactReplicas []) ''1-a'' \<le> 100"
  using initShardMatrix_within [of "[sample_shard]" "[]" "''1-a''"] sample_shard_ok by simp

text \<open>
  The target ratio never overshoots: rolling forward it is at least the ratio the latest
  version already has and at most the requested ratio; rolling back it is at most the ratio the
  latest version has and at least the requested one (all to six decimals). It rolls forward exactly
  when the latest version does not yet exceed the request.
\<close>

theorem calculateTargetRatio_bounded:
  "case calculateTargetRatio latestPercent cur holdMatrix target step extra of
     (t, forward, latestRatio, curLatestRatio) \<Rightarrow>
       curLatestRatio = cur \<and> (forward \<longleftrightarrow> cur \<le> latestRatio) \<and>
       (if forward then floatRound cur \<le> t \<and> t \<le> floatRound latestRatio
        else t \<le> floatRound cur \<and> floatRound latestRatio \<le> t)"
  unfolding calculateTargetRatio_def Let_def
  using borderTargetRatio_forward(1) borderTargetRatio_forward(2) [of _ "floatRound (of_int latestPercent)" cur]
    borderTargetRatio_backward(1) borderTargetRatio_backward(2) [of "floatRound (of_int latestPercent)" cur]
  by (auto simp: max_def min_def split: if_splits)

text \<open>
  A hold count is a count of replicas: for a percentage between 0 and 100 the rounded number
  of replicas to hold is between 0 and the number of replicas.
\<close>

theorem calculateHoldCount_bounds:
  assumes "0 \<le> percent" "percent \<le> 100" "0 \<le> replicas" "replicas < 2147483648"
  shows "0 \<le> calculateHoldCount replicas percent \<and> calculateHoldCount replicas percent \<le> replicas"
  using assms by (rule calculateHoldCount_range)

theorem calculateHoldCount_bounds_witness:
  "0 \<le> calculateHoldCount 7 50 \<and> calculateHoldCount 7 50 \<le> 7"
  by (rule calculateHoldCount_bounds) simp_all

text \<open>
  While rolling forward, the adjusted matrix holds the latest version at exactly the target
  ratio: neither the trimming of the total to the maximum nor the refill of old versions moves it.
\<close>

theorem adjustHoldMatrix_forward_target:
  assumes "f64 maxRatio = maxRatio" "percents_ok hold" "0 \<le> targetRatio" "f64 targetRatio = targetRatio"
  shows "mget 0 (adjustHoldMatrix env hold cur target targetRatio maxRatio step True strategy minR) target
    = targetRatio"
  using assms by (rule adjustHoldMatrix_forward_aux)

theorem adjustHoldMatrix_forward_target_witness:
  "mget 0 (adjustHoldMatrix sample_env [(''1-a'', 75)] [(''1-a'', 75)] ''2-b'' 50 100 25 True [] 4) ''2-b'' = 50"
  by (rule adjustHoldMatrix_forward_target) (simp_all add: percents_ok_def)

text \<open>
  Trimming the hold matrix to the maximal total only lowers percentages (to six decimals),
  never below zero, and adds no version.
\<close>

theorem trim_hold_safe:
  assumes "f64 maxRatio = maxRatio" "percents_ok hold" "set keys \<subseteq> set (mkeys hold)"
    and "trim_hold target forward maxRatio keys hold allRatio = (hold', allRatio')"
  shows "0 \<le> mget 0 hold' v \<and> mget 0 hold' v \<le> max (mget 0 hold v) (floatRound (mget 0 hold v)) \<and>
    set (mkeys hold') = set (mkeys hold)"
  using trim_hold_spec [OF assms(1,2,4)] assms(3) by (auto simp: percents_ok_def)

theorem trim_hold_safe_witness:
  "trim_hold ''2-b'' True 100 [''1-a''] [(''1-a'', 75), (''2-b'', 50)] 125 =
     ([(''1-a'', 50), (''2-b'', 50)], 125) \<and>
   (0 :: rat) \<le> mget 0 [(''1-a'', 50), (''2-b'', 50)] ''1-a''"
proof -
  have e: "trim_hold ''2-b'' True 100 [''1-a''] [(''1-a'', 75), (''2-b'', 50)] 125 =
     ([(''1-a'', 50), (''2-b'', 50)], 125)" by simp
  have "(0 :: rat) \<le> mget 0 [(''1-a'', 50), (''2-b'', 50)] ''1-a''"
    using trim_hold_safe [OF _ _ _ e, of "''1-a''"] by (simp add: percents_ok_def)
  with e show ?thesis by simp
qed

text \<open>
  Sorting the versions loses and repeats none, and the latest version comes last, or first
  under the strategy \<open>oldFirst\<close>. The loops that take replicas from the end of the list rely on it.
\<close>

theorem sortVersions_places_latest:
  assumes "latest \<in> set versions"
  shows "mset (sortVersions env versions latest available maxUnavailable strategy) = mset versions \<and>
    (if getRollingStrategy env strategy available maxUnavailable = RollingStrategyOldFirst
     then hd (sortVersions env versions latest available maxUnavailable strategy) = latest
     else last (sortVersions env versions latest available maxUnavailable strategy) = latest)"
  using sortVersions_last [OF assms] sortVersions_first [OF assms] by auto

theorem sortVersions_places_latest_witness:
  "mset (sortVersions sample_env [''2-b'', ''1-a''] ''2-b'' [] 10 RollingStrategyLatestFirst) = {#''2-b'', ''1-a''#}"
  using sortVersions_places_latest [of "''2-b''" "[''2-b'', ''1-a'']" sample_env "[]" 10 RollingStrategyLatestFirst]
  by (simp add: add_mset_commute)

text \<open>
  On versions that carry a generation number (besides the latest one) the result is ordered by
  generation: an earlier version never has a larger generation than a later one.
\<close>

theorem sortVersions_by_generation:
  assumes "\<forall>v \<in> set versions. v = latest \<or> generation v \<noteq> None"
    and "getRollingStrategy env strategy available maxUnavailable = RollingStrategyLatestFirst"
  shows "sorted_wrt (\<lambda>v w. \<not> ByGeneration_Less latest w v)
    (sortVersions env versions latest available maxUnavailable strategy)"
proof -
  have "strict_weak_on (set versions) (ByGeneration_Less latest)"
    using assms(1) by (intro ByGeneration_strict_weak) blast
  then show ?thesis
    using assms(2) go_sort_sorted by (simp add: sortVersions_def rolling_strategy_defs)
qed

theorem sortVersions_by_generation_witness:
  "sorted_wrt (\<lambda>v w. \<not> ByGeneration_Less ''3-c'' w v)
    (sortVersions sample_env [''2-b'', ''1-a''] ''3-c'' [] 10 RollingStrategyLatestFirst)"
  by (rule sortVersions_by_generation)
     (simp_all add: generation_def atoi_def digit_val_def getRollingStrategy_def rolling_strategy_defs)

text \<open>
  A defect of the order: when versions with and without a generation number are mixed it is
  cyclic, so it is no strict weak order and the outcome of sorting depends on the input order.
\<close>

theorem ByGeneration_Less_cyclic:
  "ByGeneration_Less ''11-c'' ''9-b'' ''10-a'' \<and> ByGeneration_Less ''11-c'' ''10-a'' ''9'' \<and>
   ByGeneration_Less ''11-c'' ''9'' ''9-b''"
  by (simp add: ByGeneration_Less_def generation_less_def atoi_def digit_val_def less_char_def)

end
