(* ===== verification/ShardScheduler.thy ===== *)
theory ShardScheduler
  imports HoldMatrix
begin

text \<open>
  \<^verbatim>\<open>pkg/rollalgorithm/shard_scheduler.go\<close>: how many replicas of each version one shard should run
  next. \<open>ShardScheduleParams\<close> embeds \<open>ShardInternalArgs\<close> and \<open>ShardRuntimeArgs\<close>; the records
  extend each other the same way, so that the promoted fields keep their names.

  \<^verbatim>\<open>calculateVersionTargetMatrix\<close> takes the map \<^verbatim>\<open>params.VersionCountMap\<close> as the target matrix it
  writes, without copying it: every later read of \<^verbatim>\<open>VersionCountMap\<close> sees the writes. The model
  has one map \<open>matrix\<close> for both. Logging is left out.
\<close>

subsection \<open>Parameters\<close>

record ShardInternalArgs =
  args_name :: string
  Desired :: int32
  maxSurge :: int32
  minAvailable :: int32
  maxUnavailable :: int32
  maxSurgePercent :: int32
  minAvailablePercent :: int32
  maxUnavailablePercent :: int32
  latestVersionRatio :: int32
  paddedLatestVersionRatio :: int32
  maxReplicas :: int32
  targetLatestReplicas :: int32
  paddedLatestReplicas :: int32
  targetOldReplicas :: int32
  versionHoldingMap :: "(string, int32) gomap"
  versionHoldMatrixPercent :: "(string, float64) gomap"
  scacleUp :: bool
  scacleDown :: bool
  scacleOut :: bool
  scacleIn :: bool
  CurLatestReplicas :: int32
  CurOldReplicas :: int32
  CurTotalReplicas :: int32
  VersionReadyCountMap :: "(string, int32) gomap"
  VersionCountMap :: "(string, int32) gomap"
  VersionReadyPercentMap :: "(string, float64) gomap"
  VersionSortKeys :: "string list"
  GroupVersionSortKeys :: "string list"
  minAvailableCPU :: int32
  maxUnavailableCPU :: int32
  curTotalCPUCount :: int32
  curTotalAvailableCPUCount :: int32
  curLatestCPUCount :: int32
  curLatestAvailableCPUCount :: int32
  curOldCPUCount :: int32
  curOldAvailableCPUCount :: int32
  replicaCPU :: int32
  desireCPUCount :: int32
  desireAvailableCPUCount :: int32
  resourceVersionStatus :: "(string, ResourceVersionStatus) gomap option"

record ShardRuntimeArgs = ShardInternalArgs +
  Releasing :: bool
  ScheduleID :: string
  LatestVersion :: string
  LatestGroupVersion :: string
  LatestResourceVersion :: string
  RollingStrategy :: string
  RestartAfterResourceChange :: "bool option"
  EnsureAvailableCPUCores :: bool
  GroupVersionToVersionMap :: "(string, string) gomap"

record ShardScheduleParams = ShardRuntimeArgs +
  Plan :: SchedulePlan
  Metas :: "(string, string) gomap"
  LatestRowComplete :: bool

subsection \<open>Group versions\<close>

definition groupVersionToVersion :: "string \<Rightarrow> (string, string) gomap \<Rightarrow> string" where
  "groupVersionToVersion groupVersion m =
     (case map_of m groupVersion of None \<Rightarrow> groupVersion | Some version \<Rightarrow> version)"

fun versionToGroupVersion :: "string \<Rightarrow> (string, string) gomap \<Rightarrow> string" where
  "versionToGroupVersion version [] = version"
| "versionToGroupVersion version ((groupVersion, v) # m) =
     (if version = v then (if groupVersion = [] then version else groupVersion)
      else versionToGroupVersion version m)"

subsection \<open>Accessors\<close>

definition isOneTargetVersion :: "ShardScheduleParams \<Rightarrow> bool" where
  "isOneTargetVersion args \<longleftrightarrow>
     length (VersionCountMap args) = 1 \<and> mhas (VersionCountMap args) (LatestVersion args)"

definition getHoldCount :: "ShardScheduleParams \<Rightarrow> string \<Rightarrow> int32" where
  "getHoldCount args version = mget 0 (versionHoldingMap args) version"

definition getLatestVersionHoldCount :: "ShardScheduleParams \<Rightarrow> int32" where
  "getLatestVersionHoldCount args = getHoldCount args (LatestVersion args)"

text \<open>The sum over the versions other than the latest, in the three maps.\<close>

definition old_total :: "string \<Rightarrow> (string, int32) gomap \<Rightarrow> int32" where
  "old_total latest m = fold (\<lambda>(version, count) t. if version = latest then t else i32 (t + count)) m 0"

definition getOldHoldCount :: "ShardScheduleParams \<Rightarrow> int32" where
  "getOldHoldCount args = old_total (LatestVersion args) (versionHoldingMap args)"

definition getLatestReadyCount :: "ShardScheduleParams \<Rightarrow> int32" where
  "getLatestReadyCount args = mget 0 (VersionReadyCountMap args) (LatestVersion args)"

definition getOldReadyCount :: "ShardScheduleParams \<Rightarrow> int32" where
  "getOldReadyCount args = old_total (LatestVersion args) (VersionReadyCountMap args)"

definition getLatestCount :: "ShardScheduleParams \<Rightarrow> int32" where
  "getLatestCount args = mget 0 (VersionCountMap args) (LatestVersion args)"

definition getOldCount :: "ShardScheduleParams \<Rightarrow> int32" where
  "getOldCount args = old_total (LatestVersion args) (VersionCountMap args)"

text \<open>
  With no replicas at all the quotient is not a number and its conversion gives \<open>-2^31\<close> on amd64.
\<close>

definition isForward :: "ShardScheduleParams \<Rightarrow> bool" where
  "isForward args =
     (let latestCount = mget 0 (VersionCountMap args) (LatestVersion args);
          currentRatio = (if CurTotalReplicas args = 0 then - 2147483648
            else f2i32 (floatRound (f64 (f64 (100 * of_int latestCount) / of_int (CurTotalReplicas args)))))
      in latestVersionRatio args \<ge> currentRatio \<or> paddedLatestVersionRatio args \<ge> currentRatio)"

definition getLatestVersionRatio :: "int32 option \<Rightarrow> int32" where
  "getLatestVersionRatio ratio =
     (case ratio of None \<Rightarrow> DefaultLatestVersionRatio | Some r \<Rightarrow> if r > 100 then 100 else r)"

definition getPaddedLatestVersionRatio :: "int32 option \<Rightarrow> int32" where
  "getPaddedLatestVersionRatio ratio =
     (case ratio of None \<Rightarrow> 0 | Some r \<Rightarrow> if r > 100 then 100 else r)"

subsection \<open>Initialisation\<close>

text \<open>The loops over the status of the shard, whose map has no nil entries: a version without a status has no key.\<close>

definition init_counts :: "string \<times> VersionStatus \<Rightarrow> ShardScheduleParams \<Rightarrow> ShardScheduleParams" where
  "init_counts = (\<lambda>(groupVersion, versionStatus) args.
     let version = groupVersionToVersion groupVersion (GroupVersionToVersionMap args);
         n = getVersionAllReplicas (Some versionStatus);
         args = (if version = LatestVersion args then args\<lparr>CurLatestReplicas := n\<rparr>
                 else args\<lparr>CurOldReplicas := i32 (CurOldReplicas args + n)\<rparr>)
     in args\<lparr>CurTotalReplicas := i32 (CurTotalReplicas args + n),
             VersionReadyCountMap := mput version (getVersionReadyReplicas (Some versionStatus)) (VersionReadyCountMap args),
             VersionCountMap := mput version n (VersionCountMap args)\<rparr>)"

definition init_percents :: "string \<times> VersionStatus \<Rightarrow> ShardScheduleParams \<Rightarrow> ShardScheduleParams" where
  "init_percents = (\<lambda>(groupVersion, versionStatus) args.
     if CurTotalReplicas args \<noteq> 0 then
       (let version = groupVersionToVersion groupVersion (GroupVersionToVersionMap args)
        in args\<lparr>VersionReadyPercentMap := mput version
             (f64 (f64 (of_int (getVersionReadyReplicas (Some versionStatus)) * 100) / of_int (CurTotalReplicas args)))
             (VersionReadyPercentMap args)\<rparr>)
     else args)"

definition init_sort_keys :: "roll_env \<Rightarrow> Shard \<Rightarrow> ShardScheduleParams \<Rightarrow> ShardScheduleParams" where
  "init_sort_keys env shard args =
     (let gmap = GroupVersionToVersionMap args;
          latestGroupVersion = versionToGroupVersion (LatestVersion args) gmap;
          groupKeys = sortVersions env (mkeys gmap) latestGroupVersion (VersionReadyPercentMap args)
            (of_int (maxUnavailablePercent args)) RollingStrategyLatestFirst;
          keys = map (\<lambda>g. groupVersionToVersion g gmap) groupKeys;
          keys = (if keys = [] then
              sortVersions env
                (LatestVersion args #
                 filter (\<lambda>v. v \<noteq> LatestVersion args)
                   (map (\<lambda>g. groupVersionToVersion g gmap) (mkeys (sh_VersionStatus shard))))
                (LatestVersion args) (VersionReadyPercentMap args) (of_int (maxUnavailablePercent args))
                RollingStrategyLatestFirst
            else keys)
      in args\<lparr>GroupVersionSortKeys := groupKeys, VersionSortKeys := keys\<rparr>)"

definition initScheduleArgs :: "roll_env \<Rightarrow> Shard option \<Rightarrow> ShardScheduleParams \<Rightarrow> ShardScheduleParams" where
  "initScheduleArgs env sh args =
     (case sh of None \<Rightarrow> args | Some shard \<Rightarrow>
       (let args = args\<lparr>args_name := sh_Name shard, VersionSortKeys := [], GroupVersionSortKeys := [],
                         VersionReadyCountMap := [], VersionReadyPercentMap := [], VersionCountMap := []\<rparr>
        in if Releasing args then
             args\<lparr>Desired := 0, maxSurge := 0, minAvailable := 0,
                  latestVersionRatio := DefaultLatestVersionRatio, maxReplicas := 0,
                  targetLatestReplicas := 0, targetOldReplicas := 0\<rparr>
           else
            (let st = ParseScheduleStrategy env (Plan args);
                 args = args\<lparr>Desired := sh_Replicas shard, maxSurge := ss_maxSurge st,
                   maxUnavailable := ss_maxUnavailable st, minAvailable := ss_minAvailable st,
                   maxSurgePercent := ss_maxSurgePercent st,
                   maxUnavailablePercent := ss_maxUnavailablePercent st,
                   minAvailablePercent := ss_minAvailablePercent st,
                   latestVersionRatio := getLatestVersionRatio (sp_LatestVersionRatio (Plan args)),
                   paddedLatestVersionRatio :=
                     getPaddedLatestVersionRatio (sp_PaddedLatestVersionRatio (Plan args))\<rparr>;
                 args = args\<lparr>maxReplicas := (if minAvailable args < Desired args then Desired args
                                             else i32 (Desired args + maxSurge args))\<rparr>;
                 args = init_sort_keys env shard args;
                 args = fold init_counts (sh_VersionStatus shard) args
             in fold init_percents (sh_VersionStatus shard) args)))"

definition zero_params :: ShardScheduleParams where
  "zero_params =
     \<lparr>args_name = [], Desired = 0, maxSurge = 0, minAvailable = 0, maxUnavailable = 0, maxSurgePercent = 0,
      minAvailablePercent = 0, maxUnavailablePercent = 0, latestVersionRatio = 0,
      paddedLatestVersionRatio = 0, maxReplicas = 0, targetLatestReplicas = 0, paddedLatestReplicas = 0,
      targetOldReplicas = 0, versionHoldingMap = [], versionHoldMatrixPercent = [], scacleUp = False,
      scacleDown = False, scacleOut = False, scacleIn = False, CurLatestReplicas = 0, CurOldReplicas = 0,
      CurTotalReplicas = 0, VersionReadyCountMap = [], VersionCountMap = [], VersionReadyPercentMap = [],
      VersionSortKeys = [], GroupVersionSortKeys = [], minAvailableCPU = 0, maxUnavailableCPU = 0,
      curTotalCPUCount = 0, curTotalAvailableCPUCount = 0, curLatestCPUCount = 0,
      curLatestAvailableCPUCount = 0, curOldCPUCount = 0, curOldAvailableCPUCount = 0, replicaCPU = 0,
      desireCPUCount = 0, desireAvailableCPUCount = 0, resourceVersionStatus = None,
      Releasing = False, ScheduleID = [], LatestVersion = [], LatestGroupVersion = [],
      LatestResourceVersion = [], RollingStrategy = [], RestartAfterResourceChange = None,
      EnsureAvailableCPUCores = False, GroupVersionToVersionMap = [], Plan = zero_plan, Metas = [],
      LatestRowComplete = False\<rparr>"

definition NewShardScheduleParams ::
    "roll_env \<Rightarrow> Shard option \<Rightarrow> SchedulePlan \<Rightarrow> bool \<Rightarrow> string \<Rightarrow> string \<Rightarrow> string \<Rightarrow>
     (string, string) gomap \<Rightarrow> (string, string) gomap \<Rightarrow> ShardScheduleParams" where
  "NewShardScheduleParams env shard plan releasing scheduleID latestVersion rollingStrategy gmap metas =
     initScheduleArgs env shard
       (zero_params\<lparr>Releasing := releasing, ScheduleID := scheduleID, LatestVersion := latestVersion,
          LatestGroupVersion := versionToGroupVersion latestVersion gmap,
          GroupVersionToVersionMap := gmap, RollingStrategy := rollingStrategy,
          Plan := plan, Metas := metas\<rparr>)"

subsection \<open>Targets of the latest version and of the old ones\<close>

definition initTarget :: "ShardScheduleParams \<Rightarrow> ShardScheduleParams" where
  "initTarget args =
     (let targetLatest = ComputeLatestReplicas (latestVersionRatio args) (maxReplicas args)
            (sp_LatestVersionCarryStrategy (Plan args))
      in args\<lparr>targetLatestReplicas := targetLatest,
              targetOldReplicas := i32 (maxReplicas args - targetLatest),
              paddedLatestReplicas := ComputeLatestReplicas (paddedLatestVersionRatio args) (maxReplicas args)
                (sp_LatestVersionCarryStrategy (Plan args))\<rparr>)"

text \<open>The forward branch of \<^verbatim>\<open>calcTarget\<close>: the target of the latest version in the sliding window.\<close>

definition forward_target :: "ShardScheduleParams \<Rightarrow> int32" where
  "forward_target args =
     (let extraCount = Int32Max (i32 (maxReplicas args - CurTotalReplicas args)) (i32 (maxReplicas args - Desired args));
          extraCount = (if extraCount < 0 then 0 else extraCount);
          threshHold = Int32Max (i32 (getLatestReadyCount args + maxUnavailable args + extraCount)) (getLatestCount args);
          target = Int32Min (targetLatestReplicas args) threshHold
      in if paddedLatestReplicas args > target \<and> getLatestCount args > target \<and>
            paddedLatestReplicas args \<ge> getLatestCount args
         then getLatestCount args else target)"

definition calcTarget :: "ShardScheduleParams \<Rightarrow> ShardScheduleParams" where
  "calcTarget args =
     (if length (VersionSortKeys args) = 1 then
        args\<lparr>targetLatestReplicas := Desired args, targetOldReplicas := i32 (Desired args - Desired args)\<rparr>
      else if latestVersionRatio args = 0 then
        args\<lparr>targetLatestReplicas := 0, targetOldReplicas := i32 (Desired args - 0)\<rparr>
      else
       (let args = initTarget args in
        if isForward args then
          args\<lparr>targetLatestReplicas := forward_target args,
               targetOldReplicas := i32 (maxReplicas args - forward_target args)\<rparr>
        else
         (let threshHold = Int32Max (i32 (getOldReadyCount args + maxUnavailable args)) (getOldCount args);
              targetOld = Int32Min (targetOldReplicas args) threshHold
          in args\<lparr>targetOldReplicas := targetOld,
                  targetLatestReplicas := i32 (maxReplicas args - targetOld)\<rparr>)))"

subsection \<open>Held replicas\<close>

definition getRollingsetHoldingMap ::
    "roll_env \<Rightarrow> ShardScheduleParams \<Rightarrow> Shard \<Rightarrow> (string, int32) gomap \<times> ShardScheduleParams" where
  "getRollingsetHoldingMap env args shard =
     (let latestGroupVersion = versionToGroupVersion (LatestVersion args) (GroupVersionToVersionMap args);
          holdMatrixPercent = fst (calculateHoldMatrix env [shard] (latestVersionRatio args) (RollingStrategy args)
            latestGroupVersion (maxUnavailablePercent args) (maxSurgePercent args) [])
      in (transferHoldMatrix holdMatrixPercent (Desired args),
          args\<lparr>versionHoldMatrixPercent := holdMatrixPercent\<rparr>))"

text \<open>
  \<^verbatim>\<open>filterVersionHoldingMap\<close> in parts: the cut of the latest hold, the count that has to be held, the
  loop that caps holds by the existing replicas, and the two loops that trim the old versions.
\<close>

definition cut_latest_hold :: "ShardScheduleParams \<Rightarrow> (string, int32) gomap \<Rightarrow> (string, int32) gomap" where
  "cut_latest_hold args hold =
     (let latest = LatestVersion args;
          latestHold = mget 0 hold latest;
          latestReady = mget 0 (VersionReadyCountMap args) latest;
          cut = (targetLatestReplicas args \<ge> CurLatestReplicas args \<and> latestHold > latestReady);
          hold = (if cut then mput latest latestReady hold else hold);
          latestHold = (if cut then latestReady else latestHold)
      in if latestHold > latestReady \<and> latestHold > targetLatestReplicas args
         then mput latest (Int32Min latestHold (Int32Max (targetLatestReplicas args) latestReady)) hold
         else hold)"

definition need_hold :: "ShardScheduleParams \<Rightarrow> (string, int32) gomap \<Rightarrow> int32" where
  "need_hold args hold =
     (let window = i32 (targetLatestReplicas args - mget 0 hold (LatestVersion args)) in
      if minAvailable args = Desired args then i32 (minAvailable args + 1)
      else if window < maxUnavailable args then i32 (minAvailable args + i32 (maxUnavailable args - window))
      else minAvailable args)"

definition cap_hold :: "ShardScheduleParams \<Rightarrow> string \<Rightarrow> (string, int32) gomap \<Rightarrow> (string, int32) gomap" where
  "cap_hold args version hold =
     (let versionCount = mget 0 (VersionCountMap args) version in
      case map_of hold version of
        None \<Rightarrow> hold
      | Some groupHold \<Rightarrow> if groupHold > versionCount then mput version versionCount hold else hold)"

primrec trim_not_ready ::
    "ShardScheduleParams \<Rightarrow> int32 \<Rightarrow> string list \<Rightarrow> (string, int32) gomap \<Rightarrow> int32 \<Rightarrow> (string, int32) gomap \<times> int32" where
  "trim_not_ready args need [] hold tot = (hold, tot)"
| "trim_not_ready args need (version # vs) hold tot =
     (if \<not> tot > need then (hold, tot)
      else if version = LatestVersion args then trim_not_ready args need vs hold tot
      else (let count = mget 0 (VersionCountMap args) version;
                readyCount = mget 0 (VersionReadyCountMap args) version;
                notReadyCount = Int32Max 0 (i32 (count - readyCount));
                groupHold = mget 0 hold version;
                overSize = Int32Min notReadyCount (i32 (tot - need));
                overSize = Int32Min groupHold overSize
            in trim_not_ready args need vs (mput version (i32 (groupHold - overSize)) hold) (i32 (tot - overSize))))"

primrec trim_old_hold ::
    "ShardScheduleParams \<Rightarrow> int32 \<Rightarrow> string list \<Rightarrow> (string, int32) gomap \<Rightarrow> int32 \<Rightarrow> (string, int32) gomap \<times> int32" where
  "trim_old_hold args need [] hold tot = (hold, tot)"
| "trim_old_hold args need (version # vs) hold tot =
     (if \<not> tot > need then (hold, tot)
      else if version = LatestVersion args then trim_old_hold args need vs hold tot
      else (let groupHold = mget 0 hold version;
                overSize = Int32Min groupHold (i32 (tot - need))
            in trim_old_hold args need vs (mput version (i32 (groupHold - overSize)) hold) (i32 (tot - overSize))))"

definition trim_latest_hold ::
    "ShardScheduleParams \<Rightarrow> int32 \<Rightarrow> (string, int32) gomap \<times> int32 \<Rightarrow> (string, int32) gomap" where
  "trim_latest_hold args need = (\<lambda>(hold, tot).
     if tot > need then
       (let groupHold = mget 0 hold (LatestVersion args);
            overSize = Int32Min groupHold (i32 (tot - need))
        in mput (LatestVersion args) (i32 (groupHold - overSize)) hold)
     else hold)"

definition filterVersionHoldingMap ::
    "roll_env \<Rightarrow> ShardScheduleParams \<Rightarrow> (string, int32) gomap \<Rightarrow> (string, int32) gomap" where
  "filterVersionHoldingMap env args hold =
     (let hold = cut_latest_hold args hold;
          needHoldCount = need_hold args hold
      in if getTotalCount hold \<le> needHoldCount then hold
         else (let keys = sortVersions env (VersionSortKeys args) (LatestVersion args) (VersionReadyPercentMap args)
                     (of_int (maxUnavailablePercent args)) RollingStrategyLatestFirst;
                   hold = fold (cap_hold args) keys hold;
                   totalHoldCount = getTotalCount hold
               in if totalHoldCount > needHoldCount then
                    (let (hold, tot) = trim_not_ready args needHoldCount (rev keys) hold totalHoldCount
                     in trim_latest_hold args needHoldCount (trim_old_hold args needHoldCount (rev keys) hold tot))
                  else hold))"

text \<open>The loop of \<^verbatim>\<open>completeAvailableHold\<close> over the old versions.\<close>

primrec complete_old_hold ::
    "ShardScheduleParams \<Rightarrow> string list \<Rightarrow> (string, int32) gomap \<Rightarrow> int32 \<Rightarrow> (string, int32) gomap" where
  "complete_old_hold args [] hold extraHoldCount = hold"
| "complete_old_hold args (version # vs) hold extraHoldCount =
     (if version = LatestVersion args then complete_old_hold args vs hold extraHoldCount
      else (let groupHold = mget 0 hold version;
                completeVersionCount = mget 0 (VersionReadyCountMap args) version
            in if groupHold \<ge> completeVersionCount then complete_old_hold args vs hold extraHoldCount
               else (let extraCount = Int32Min extraHoldCount (i32 (completeVersionCount - groupHold)) in
                     if extraCount \<le> 0 then complete_old_hold args vs hold extraHoldCount
                     else (let hold = mput version (i32 (groupHold + extraCount)) hold;
                               extraHoldCount = i32 (extraHoldCount - extraCount)
                           in if extraHoldCount \<le> 0 then hold
                              else complete_old_hold args vs hold extraHoldCount))))"

definition completeAvailableHold ::
    "ShardScheduleParams \<Rightarrow> (string, int32) gomap \<Rightarrow> (string, int32) gomap" where
  "completeAvailableHold args hold =
     (let needHoldCount = minAvailable args;
          totalHoldCount = getTotalCount hold
      in if needHoldCount > totalHoldCount then
          (let extraHoldCount = i32 (needHoldCount - totalHoldCount);
               latestHold = mget 0 hold (LatestVersion args);
               latestCompleteCount = mget 0 (VersionReadyCountMap args) (LatestVersion args);
               extraCount = i32 (latestCompleteCount - latestHold);
               targetExtra = i32 (targetLatestReplicas args - latestHold);
               extraCount = (if targetExtra \<ge> 0 \<and> extraCount > targetExtra then targetExtra else extraCount)
           in if extraCount > 0 then
               (let hold = mput (LatestVersion args) (i32 (latestHold + extraCount)) hold;
                    extraHoldCount = i32 (extraHoldCount - extraCount)
                in if extraHoldCount \<le> 0 then hold
                   else complete_old_hold args (VersionSortKeys args) hold extraHoldCount)
              else complete_old_hold args (VersionSortKeys args) hold extraHoldCount)
         else hold)"

text \<open>
  \<^verbatim>\<open>calcHold\<close>: the holds of the plan, or those computed from the shard, under the names of the versions;
  then they are cut and completed.
\<close>

definition initial_hold ::
    "roll_env \<Rightarrow> ShardScheduleParams \<Rightarrow> Shard \<Rightarrow> (string, int32) gomap \<times> ShardScheduleParams" where
  "initial_hold env args shard =
     (let holdMatrix = sp_VersionHoldMatrix (Plan args);
          args = args\<lparr>versionHoldMatrixPercent := sp_VersionHoldMatrixPercent (Plan args)\<rparr>;
          (holdMatrix, args) = (if holdMatrix = [] then getRollingsetHoldingMap env args shard else (holdMatrix, args))
      in (fold (\<lambda>(groupVersion, holdCount). mput
            (groupVersionToVersion groupVersion (GroupVersionToVersionMap args)) holdCount) holdMatrix [], args))"

definition calcHold :: "roll_env \<Rightarrow> ShardScheduleParams \<Rightarrow> Shard \<Rightarrow> ShardScheduleParams" where
  "calcHold env args shard =
     (let (hold, args) = initial_hold env args shard;
          hold = filterVersionHoldingMap env args hold;
          hold = completeAvailableHold args hold
      in args\<lparr>versionHoldingMap := hold\<rparr>)"

subsection \<open>Scaling the versions in and out\<close>

text \<open>
  The argument \<open>m\<close> is \<^verbatim>\<open>versionTargetMatrix\<close>, which is the map \<^verbatim>\<open>params.VersionCountMap\<close>: both the
  reads of the current counts and the writes of the targets go to it.
\<close>

type_synonym matrix = "(string, int32) gomap"

definition calaulateOversize :: "ShardScheduleParams \<Rightarrow> int32 \<times> int32" where
  "calaulateOversize params =
     (i32 (CurLatestReplicas params - targetLatestReplicas params),
      i32 (CurOldReplicas params - targetOldReplicas params))"

definition versionScacleIn :: "ShardScheduleParams \<Rightarrow> string \<Rightarrow> int32 \<Rightarrow> matrix \<Rightarrow> int32 \<times> matrix" where
  "versionScacleIn params version oversize m =
     (let versionHoldCount = getHoldCount params version;
          versionCurCount = mget 0 m version;
          redudant = Int32Min oversize (Int32Max 0 (i32 (versionCurCount - versionHoldCount)))
      in (redudant, mput version (i32 (versionCurCount - redudant)) m))"

definition latestVersionScaleIn :: "ShardScheduleParams \<Rightarrow> int32 \<Rightarrow> int32 \<Rightarrow> matrix \<Rightarrow> int32 \<times> matrix" where
  "latestVersionScaleIn params oversize redudantCount m =
     (if oversize \<le> 0 then (redudantCount, m)
      else (let (redudant, m) = versionScacleIn params (LatestVersion params) oversize m
            in (i32 (redudantCount + redudant), m)))"

fun old_scale_in ::
    "ShardScheduleParams \<Rightarrow> string list \<Rightarrow> int32 \<Rightarrow> int32 \<Rightarrow> matrix \<Rightarrow> int32 \<times> matrix" where
  "old_scale_in params [] oversize redudantCount m = (redudantCount, m)"
| "old_scale_in params (version # vs) oversize redudantCount m =
     (if \<not> oversize \<ge> 0 then (redudantCount, m)
      else if version = LatestVersion params then old_scale_in params vs oversize redudantCount m
      else (let (redudant, m) = versionScacleIn params version oversize m
            in old_scale_in params vs (i32 (oversize - redudant)) (i32 (redudantCount + redudant)) m))"

definition oldVersionScaleIn :: "ShardScheduleParams \<Rightarrow> int32 \<Rightarrow> matrix \<Rightarrow> int32 \<times> matrix" where
  "oldVersionScaleIn params oversize m =
     (if oversize \<le> 0 then (0, m) else old_scale_in params (rev (VersionSortKeys params)) oversize 0 m)"

definition versionScacleOut :: "string \<Rightarrow> int32 \<Rightarrow> int32 \<Rightarrow> matrix \<Rightarrow> int32 \<times> matrix" where
  "versionScacleOut version lackCount totalSupplement m =
     (let supplement = Int32Min lackCount totalSupplement
      in (i32 (totalSupplement - supplement), mput version (i32 (mget 0 m version + supplement)) m))"

definition latestVersionScaleOut :: "ShardScheduleParams \<Rightarrow> int32 \<Rightarrow> int32 \<Rightarrow> matrix \<Rightarrow> int32 \<times> matrix" where
  "latestVersionScaleOut params lack supplement m =
     (if lack \<le> 0 \<or> supplement \<le> 0 then (supplement, m)
      else versionScacleOut (LatestVersion params) lack supplement m)"

text \<open>
  The loop of \<^verbatim>\<open>oldVersionScaleOut\<close> that fills the held versions; the flag is the early return.
\<close>

fun fill_holds ::
    "ShardScheduleParams \<Rightarrow> string list \<Rightarrow> int32 \<Rightarrow> matrix \<Rightarrow> bool \<times> int32 \<times> matrix" where
  "fill_holds params [] supplement m = (False, supplement, m)"
| "fill_holds params (version # vs) supplement m =
     (if version = LatestVersion params then fill_holds params vs supplement m
      else if mget 0 m version < mget 0 (versionHoldingMap params) version then
       (let versionLack = i32 (mget 0 (versionHoldingMap params) version - mget 0 m version);
            (supplement, m) = versionScacleOut version versionLack supplement m
        in if supplement \<le> 0 then (True, supplement, m) else fill_holds params vs supplement m)
      else fill_holds params vs supplement m)"

definition oldVersionScaleOut :: "ShardScheduleParams \<Rightarrow> int32 \<Rightarrow> int32 \<Rightarrow> matrix \<Rightarrow> int32 \<times> matrix" where
  "oldVersionScaleOut params lack supplement m =
     (if lack \<le> 0 \<or> supplement \<le> 0 then (supplement, m)
      else (let (returned, supplement, m) = fill_holds params (VersionSortKeys params) supplement m in
        if returned then (supplement, m)
        else (let version = (case find (\<lambda>v. v \<noteq> LatestVersion params) (VersionSortKeys params) of
                  None \<Rightarrow> [] | Some v \<Rightarrow> v)
              in if version = LatestVersion params then (supplement, m)
                 else versionScacleOut version lack supplement m)))"

definition calculateVersionTargetMatrix :: "ShardScheduleParams \<Rightarrow> matrix" where
  "calculateVersionTargetMatrix params =
     (let m = VersionCountMap params;
          (latestVersionOversize, oldVersionOversize) = calaulateOversize params;
          (redudantCount, m) = oldVersionScaleIn params oldVersionOversize m;
          (redudantCount, m) = latestVersionScaleIn params latestVersionOversize redudantCount m;
          extraCount = i32 (maxReplicas params - CurTotalReplicas params);
          supplement = i32 (redudantCount + extraCount);
          (supplement, m) = latestVersionScaleOut params (i32 (- latestVersionOversize)) supplement m;
          (supplement, m) = oldVersionScaleOut params (i32 (- oldVersionOversize)) supplement m
      in m)"

text \<open>The loop of \<^verbatim>\<open>paddLatestVersion\<close>, over the versions from the last to the first.\<close>

primrec padd_loop :: "ShardScheduleParams \<Rightarrow> string list \<Rightarrow> int32 \<Rightarrow> matrix \<Rightarrow> matrix" where
  "padd_loop params [] gap m = m"
| "padd_loop params (version # vs) gap m =
     (if gap \<le> 0 then m
      else if version = LatestVersion params then padd_loop params vs gap m
      else (let gmap = GroupVersionToVersionMap params;
                percent = mget 0 (versionHoldMatrixPercent params) (versionToGroupVersion version gmap);
                shardVersion = groupVersionToVersion version gmap;
                versionedCount = mget 0 m shardVersion
            in if isZero percent \<and> gap > 0 \<and> versionedCount > 0 then
                 (let paddCount = Int32Min versionedCount gap;
                      m = mput shardVersion (i32 (versionedCount - paddCount)) m;
                      m = mput (LatestVersion params) (i32 (mget 0 m (LatestVersion params) + paddCount)) m
                  in padd_loop params vs (i32 (gap - paddCount)) m)
               else padd_loop params vs gap m))"

definition paddLatestVersion :: "ShardScheduleParams \<Rightarrow> matrix \<Rightarrow> matrix" where
  "paddLatestVersion params m =
     (if paddedLatestReplicas params > targetLatestReplicas params \<and>
         plan_getPaddLatestVersionRatio (Plan params) > plan_getLatestVersionRatio (Plan params)
      then padd_loop params (rev (VersionSortKeys params))
             (i32 (paddedLatestReplicas params - targetLatestReplicas params)) m
      else m)"

definition calcDependencyMatrix :: "ShardScheduleParams \<Rightarrow> matrix \<Rightarrow> matrix option" where
  "calcDependencyMatrix args targetMap =
     (if sp_VersionDependencyMatrixPercent (Plan args) = [] then None
      else Some (fold (\<lambda>(groupVersion, percent) m.
        let version = groupVersionToVersion groupVersion (GroupVersionToVersionMap args);
            count = mget 0 targetMap version;
            dependency = f2i32 (of_int \<lceil>f64 (f64 (of_int (Desired args) * percent) / 100)\<rceil>);
            dependency = (if dependency > count then count else dependency)
        in mput version dependency m) (sp_VersionDependencyMatrixPercent (Plan args)) []))"

definition Schedule :: "roll_env \<Rightarrow> Shard \<Rightarrow> ShardScheduleParams option \<Rightarrow> roll_error + matrix \<times> matrix option" where
  "Schedule env shard p =
     (case p of
        None \<Rightarrow> Inl ErrNilParam
      | Some params \<Rightarrow>
          if isOneTargetVersion params then
            (let m = [(LatestVersion params, Desired params)] in Inr (m, calcDependencyMatrix params m))
          else
            (let params = initTarget params;
                 params = calcHold env params shard;
                 params = calcTarget params;
                 m = paddLatestVersion params (calculateVersionTargetMatrix params)
             in Inr (m, calcDependencyMatrix params m)))"

subsection \<open>CPU bookkeeping\<close>

text \<open>
  \<^verbatim>\<open>completeCPUCount\<close> and \<^verbatim>\<open>calcResourceVersionHold\<close>. In the loop of the latter the inner
  \<^verbatim>\<open>scacleReplica :=\<close> declares a new variable, so the outer one stays 0 in what follows.
\<close>

definition cpu_cell :: "string \<times> ResourceVersionStatus \<Rightarrow> ShardScheduleParams \<Rightarrow> ShardScheduleParams" where
  "cpu_cell = (\<lambda>(resourceVersion, status) args.
     let cur = rvs_Replicas status * rvs_CPU status;
         avail = rvs_AvailableReplicas status * rvs_CPU status;
         args = (if resourceVersion = LatestResourceVersion args then
             args\<lparr>curLatestCPUCount := i32 (curLatestCPUCount args + cur),
                  curLatestAvailableCPUCount := i32 (curLatestAvailableCPUCount args + avail)\<rparr>
           else args);
         args = args\<lparr>curTotalCPUCount := i32 (curTotalCPUCount args + cur),
                     curTotalAvailableCPUCount := i32 (curTotalAvailableCPUCount args + avail)\<rparr>;
         args = (if replicaCPU args > rvs_CPU status then args\<lparr>scacleUp := True\<rparr> else args)
     in if replicaCPU args < rvs_CPU status then args\<lparr>scacleDown := True\<rparr> else args)"

definition completeCPUCount :: "roll_env \<Rightarrow> Shard \<Rightarrow> ShardScheduleParams \<Rightarrow> roll_error + ShardScheduleParams" where
  "completeCPUCount env shard args =
     (if \<not> EnsureAvailableCPUCores args then Inr args
      else (let args = args\<lparr>resourceVersionStatus := sh_ResourceVersionStatus shard\<rparr> in
        case resourceVersionStatus args of
          None \<Rightarrow> Inr args
        | Some rvs \<Rightarrow>
           (let args = args\<lparr>replicaCPU := sh_CPU shard\<rparr>;
                args = fold cpu_cell rvs args;
                curTotal = fold (\<lambda>(_, status) t. i32 (t + rvs_Replicas status)) rvs 0;
                args = (if sh_Replicas shard > curTotal then args\<lparr>scacleOut := True\<rparr>
                        else if sh_Replicas shard < curTotal then args\<lparr>scacleIn := True\<rparr> else args);
                args = args\<lparr>desireCPUCount := i32 (sh_Replicas shard * sh_CPU shard)\<rparr>
            in case ds_RollingUpdate (sp_Strategy (Plan args)) of
                 None \<Rightarrow> Inl NilDereference
               | Some ru \<Rightarrow>
                  (let unavailable = (case intstr_value env (ru_MaxUnavailable ru) (desireCPUCount args) False of
                         Inl _ \<Rightarrow> 0 | Inr v \<Rightarrow> v)
                   in Inr (args\<lparr>desireAvailableCPUCount := i32 (desireCPUCount args - i32 unavailable)\<rparr>)))))"

fun hold_resource_versions ::
    "ShardScheduleParams \<Rightarrow> int32 \<Rightarrow> (string, ResourceVersionStatus) gomap \<Rightarrow> int32 \<Rightarrow> matrix \<Rightarrow> matrix" where
  "hold_resource_versions args overCPU [] needCPU m = m"
| "hold_resource_versions args overCPU ((resourceVersion, status) # rvs) needCPU m =
     (if resourceVersion = LatestResourceVersion args then hold_resource_versions args overCPU rvs needCPU m
      else (let scacleReplica = 0;
                needCPU = i32 (needCPU - (rvs_AvailableReplicas status - scacleReplica) * replicaCPU args);
                needCPU = i32 (needCPU - (- scacleReplica) * rvs_CPU status);
                m = mput resourceVersion (i32 (rvs_AvailableReplicas status - scacleReplica)) m
            in if needCPU \<le> 0 \<or> overCPU \<le> 0 then m
               else hold_resource_versions args overCPU rvs needCPU m))"

definition calcResourceVersionHold :: "ShardScheduleParams \<Rightarrow> matrix option" where
  "calcResourceVersionHold args =
     (case resourceVersionStatus args of
        None \<Rightarrow> None
      | Some rvs \<Rightarrow>
          if \<not> EnsureAvailableCPUCores args then None
          else if \<not> ((scacleUp args \<and> scacleIn args) \<or> (scacleDown args \<and> scacleOut args)) then None
          else (let needCPU = i32 (desireAvailableCPUCount args - curLatestAvailableCPUCount args) in
                if needCPU \<le> 0 then None
                else Some (hold_resource_versions args
                  (i32 (curTotalAvailableCPUCount args - desireAvailableCPUCount args)) rvs needCPU [])))"

end
