(* ===== verification/GroupScheduler.thy ===== *)
theory GroupScheduler
  imports ShardScheduler
begin

text \<open>
  \<^verbatim>\<open>pkg/rollalgorithm/group_scheduler.go\<close>: the scheduler of a group of shards. It turns the state of all
  shards into one target percentage and one hold matrix in percent, and those into a plan for every
  shard. \<^verbatim>\<open>FixStrategy\<close> writes through the pointer \<^verbatim>\<open>strategy.RollingUpdate\<close>, which the copy of the
  strategy shares with \<^verbatim>\<open>params.TargetShardStrategys\<close>: the loop threads that map. The strategies of
  different shards are different objects. A nil \<^verbatim>\<open>RollingUpdate\<close> or \<^verbatim>\<open>MaxUnavailable\<close> panics.
\<close>

record GroupScheduleParams =
  gp_Name :: string
  gp_NewShards :: "string list"
  gp_Metas :: "(string, string) gomap"
  gp_TargetShardStrategys :: "(string, DeploymentStrategy option) gomap"
  gp_DefaultStrategy :: DeploymentStrategy
  gp_LatestPercent :: int32
  gp_MaxSurge :: int32
  gp_MaxUnavailable :: int32
  gp_ShardGroupVersion :: string
  gp_RollingStrategy :: string
  gp_Paused :: bool
  gp_ShardStatus :: "Shard list"

definition fixLatestVersionRatio :: "int32 \<Rightarrow> int32 \<Rightarrow> string \<Rightarrow> Shard \<Rightarrow> int32" where
  "fixLatestVersionRatio roleTargetPercent targetPercent latestVersion shard =
     (let specLatestVersionRatio = sh_LatestVersionRatio shard latestVersion in
      if roleTargetPercent < specLatestVersionRatio \<and> targetPercent \<ge> specLatestVersionRatio
      then specLatestVersionRatio else roleTargetPercent)"

text \<open>The comparison of two \<^verbatim>\<open>maxUnavailable\<close> values: their JSON texts as strings.\<close>

definition exceeds_default :: "roll_env \<Rightarrow> IntOrString \<Rightarrow> IntOrString \<Rightarrow> bool" where
  "exceeds_default env unavail defaultUnavail \<longleftrightarrow>
     intstr_json env unavail > intstr_json env defaultUnavail"

text \<open>The strategy of one shard and the gap by which its \<^verbatim>\<open>maxUnavailable\<close> exceeds the default.\<close>

definition shard_strategy ::
    "roll_env \<Rightarrow> DeploymentStrategy \<Rightarrow> Shard \<Rightarrow> DeploymentStrategy option \<Rightarrow> roll_error + DeploymentStrategy \<times> int32" where
  "shard_strategy env defaultStrategy shard target =
     (case target of
        None \<Rightarrow> Inr (defaultStrategy, 0)
      | Some strategy \<Rightarrow>
          (case (map_option ru_MaxUnavailable (ds_RollingUpdate strategy),
                 map_option ru_MaxUnavailable (ds_RollingUpdate defaultStrategy)) of
             (Some (Some unavail), Some (Some defaultUnavail)) \<Rightarrow>
               if exceeds_default env unavail defaultUnavail then
                 (case FixStrategy env (sh_Replicas shard) (Some defaultUnavail) strategy of
                    Inl e \<Rightarrow> Inl e
                  | Inr (_, strategy) \<Rightarrow>
                      (case map_option ru_MaxUnavailable (ds_RollingUpdate strategy) of
                         Some (Some u) \<Rightarrow> Inr (strategy, subIntOrStrPercent u defaultUnavail)
                       | _ \<Rightarrow> Inl NilDereference))
               else Inr (strategy, 0)
           | _ \<Rightarrow> Inl NilDereference))"

text \<open>The plan of one shard.\<close>

definition shard_plan ::
    "roll_env \<Rightarrow> GroupScheduleParams \<Rightarrow> (string, float64) gomap \<Rightarrow> int32 \<Rightarrow> int32 \<Rightarrow> bool \<Rightarrow> Shard \<Rightarrow>
     DeploymentStrategy \<Rightarrow> int32 \<Rightarrow> SchedulePlan" where
  "shard_plan env params holdMatrixPercent targetPercent paddedTargetPercent needDep shard strategy maxUnavailableGap =
     (let carry = (if gp_TargetShardStrategys params \<noteq> [] then FloorCarryStrategyType else []);
          roleTargetPercent = i32 (targetPercent + maxUnavailableGap);
          roleTargetPercent = (if roleTargetPercent > 100 then 100 else roleTargetPercent);
          roleTargetPercent = fixLatestVersionRatio roleTargetPercent (gp_LatestPercent params)
            (gp_ShardGroupVersion params) shard;
          plan = zero_plan\<lparr>sp_Replicas := Some (sh_Replicas shard), sp_LatestVersionRatio := Some roleTargetPercent,
            sp_PaddedLatestVersionRatio := Some paddedTargetPercent, sp_Strategy := strategy,
            sp_Paused := gp_Paused params,
            sp_VersionHoldMatrix := transferHoldMatrix holdMatrixPercent (sh_Replicas shard),
            sp_VersionHoldMatrixPercent := holdMatrixPercent, sp_RollingStrategy := gp_RollingStrategy params\<rparr>;
          carry = (if ss_maxUnavailable (ParseScheduleStrategy env plan) = 0 then CeilCarryStrategyType else carry);
          plan = plan\<lparr>sp_Replicas := Some (sh_RawReplicas shard), sp_LatestVersionCarryStrategy := carry\<rparr>
      in if needDep then plan\<lparr>sp_VersionDependencyMatrixPercent :=
             calculateDependencyMatrix shard (gp_ShardStatus params)\<rparr>
         else plan)"

primrec group_loop ::
    "roll_env \<Rightarrow> GroupScheduleParams \<Rightarrow> (string, float64) gomap \<Rightarrow> int32 \<Rightarrow> int32 \<Rightarrow> bool \<Rightarrow> bool \<Rightarrow> Shard list \<Rightarrow>
     (string, DeploymentStrategy option) gomap \<Rightarrow> (string, ShardScheduleParams) gomap \<Rightarrow>
     roll_error + (string, ShardScheduleParams) gomap" where
  "group_loop env params percent target padded needDep rowComplete [] strategies out = Inr out"
| "group_loop env params percent target padded needDep rowComplete (shard # shards) strategies out =
     (case shard_strategy env (gp_DefaultStrategy params) shard (mget None strategies (sh_Name shard)) of
        Inl e \<Rightarrow> Inl e
      | Inr (strategy, gap) \<Rightarrow>
          group_loop env params percent target padded needDep rowComplete shards
            (if mget None strategies (sh_Name shard) = None then strategies
             else mput (sh_Name shard) (Some strategy) strategies)
            (mput (sh_Name shard)
               (zero_params\<lparr>Plan := shard_plan env params percent target padded needDep shard strategy gap,
                            LatestRowComplete := rowComplete\<rparr>) out))"

definition Group_Schedule ::
    "roll_env \<Rightarrow> GroupScheduleParams option \<Rightarrow> roll_error + (string, ShardScheduleParams) gomap \<times> int32" where
  "Group_Schedule env p =
     (case p of
        None \<Rightarrow> Inl ErrNilParam
      | Some params \<Rightarrow>
         (let (holdMatrixPercent, targetPercent, paddedTargetPercent) =
                calculateHoldMatrix env (gp_ShardStatus params) (gp_LatestPercent params) (gp_RollingStrategy params)
                  (gp_ShardGroupVersion params) (gp_MaxUnavailable params) (gp_MaxSurge params) (gp_NewShards params);
              needDep = needDependency (gp_ShardStatus params);
              latestRowComplete = isLatestRowComplete (gp_ShardStatus params) (gp_ShardGroupVersion params)
          in case group_loop env params holdMatrixPercent targetPercent paddedTargetPercent needDep latestRowComplete
                    (gp_ShardStatus params) (gp_TargetShardStrategys params) [] of
               Inl e \<Rightarrow> Inl e
             | Inr out \<Rightarrow> Inr (out, targetPercent)))"

subsection \<open>Every shard gets a plan\<close>

text \<open>A plan of the group for one of its shards.\<close>

definition plan_of_group :: "GroupScheduleParams \<Rightarrow> Shard \<Rightarrow> ShardScheduleParams \<Rightarrow> bool" where
  "plan_of_group params shard p \<longleftrightarrow>
     sp_Replicas (Plan p) = Some (sh_RawReplicas shard) \<and>
     (\<exists>ratio. sp_LatestVersionRatio (Plan p) = Some ratio \<and> ratio \<le> max 100 (gp_LatestPercent params)) \<and>
     sp_VersionHoldMatrix (Plan p) = transferHoldMatrix (sp_VersionHoldMatrixPercent (Plan p)) (sh_Replicas shard)"

lemma shard_plan_of_group:
  "plan_of_group params shard (zero_params\<lparr>Plan := shard_plan env params percent target padded needDep shard strategy gap,
     LatestRowComplete := rowComplete\<rparr>)"
  by (simp add: plan_of_group_def shard_plan_def Let_def fixLatestVersionRatio_def max_def)

lemma group_loop_plans:
  assumes "group_loop env params percent target padded needDep rowComplete shards strategies out = Inr out'"
    and "\<And>name p. (name, p) \<in> set out \<Longrightarrow> \<exists>shard \<in> S. sh_Name shard = name \<and> plan_of_group params shard p"
    and "set shards \<subseteq> S"
  shows "set (mkeys out') = set (mkeys out) \<union> sh_Name ` set shards \<and>
    (\<forall>(name, p) \<in> set out'. \<exists>shard \<in> S. sh_Name shard = name \<and> plan_of_group params shard p)"
  using assms
proof (induction shards arbitrary: strategies out)
  case Nil
  then show ?case by auto
next
  case (Cons shard shards)
  obtain st gap where s: "shard_strategy env (gp_DefaultStrategy params) shard (mget None strategies (sh_Name shard)) =
      Inr (st, gap)" using Cons.prems(1) by (auto split: sum.splits)
  define p where "p = zero_params\<lparr>Plan := shard_plan env params percent target padded needDep shard st gap,
    LatestRowComplete := rowComplete\<rparr>"
  obtain st' where r: "group_loop env params percent target padded needDep rowComplete shards st'
      (mput (sh_Name shard) p out) = Inr out'" using Cons.prems(1) s by (simp add: p_def)
  have new: "\<exists>shard \<in> S. sh_Name shard = name \<and> plan_of_group params shard q"
    if "(name, q) \<in> set (mput (sh_Name shard) p out)" for name q
  proof -
    have "(name, q) = (sh_Name shard, p) \<or> (name, q) \<in> set out"
      using that by (induction out) (auto split: if_splits)
    then show ?thesis
      using Cons.prems(2) [of name q] Cons.prems(3) shard_plan_of_group by (auto simp: p_def)
  qed
  show ?case using Cons.IH [OF r new] Cons.prems(3) by auto
qed

lemma Group_Schedule_returns:
  assumes "gp_TargetShardStrategys params = []"
  shows "\<exists>out percent. Group_Schedule env (Some params) = Inr (out, percent)"
proof -
  have "\<exists>out'. group_loop env params h t q n c shards [] out = Inr out'" for h t q n c shards out
    by (induction shards arbitrary: out) (auto simp: shard_strategy_def)
  then show ?thesis
    using assms by (auto simp: Group_Schedule_def Let_def split: prod.splits sum.splits) (metis sum.distinct(1))
qed

subsection \<open>Properties\<close>

text \<open>
  When the group schedule returns, it has a plan for every shard and for no other: the plan asks
  for the shard's raw replicas, its target ratio is at most 100 percent (or the percentage asked for
  the group), and its hold matrix is the group's, in replicas of the shard.
\<close>

theorem Group_Schedule_plans_every_shard:
  assumes "Group_Schedule env (Some params) = Inr (out, percent)"
  shows "set (mkeys out) = sh_Name ` set (gp_ShardStatus params) \<and>
    (\<forall>name p. (name, p) \<in> set out \<longrightarrow>
      (\<exists>shard \<in> set (gp_ShardStatus params). sh_Name shard = name \<and> plan_of_group params shard p))"
proof -
  obtain h t q where "group_loop env params h t q (needDependency (gp_ShardStatus params))
      (isLatestRowComplete (gp_ShardStatus params) (gp_ShardGroupVersion params))
      (gp_ShardStatus params) (gp_TargetShardStrategys params) [] = Inr out"
    using assms by (auto simp: Group_Schedule_def Let_def split: prod.splits sum.splits)
  from group_loop_plans [OF this _ order_refl] show ?thesis by auto
qed

text \<open>
  With the default strategy for every shard the group schedule always returns: nothing can fail
  when no shard has a strategy of its own. Without parameters it returns the error.
\<close>

theorem Group_Schedule_total:
  assumes "gp_TargetShardStrategys params = []"
  shows "(\<exists>out percent. Group_Schedule env (Some params) = Inr (out, percent)) \<and>
    Group_Schedule env None = Inl ErrNilParam"
  using Group_Schedule_returns [OF assms] by (simp add: Group_Schedule_def)

definition sample_group :: GroupScheduleParams where
  "sample_group = \<lparr>gp_Name = ''g'', gp_NewShards = [], gp_Metas = [], gp_TargetShardStrategys = [],
     gp_DefaultStrategy = \<lparr>ds_Type = ''RollingUpdate'', ds_RollingUpdate = None\<rparr>, gp_LatestPercent = 100,
     gp_MaxSurge = 0, gp_MaxUnavailable = 25, gp_ShardGroupVersion = ''2-b'', gp_RollingStrategy = [],
     gp_Paused = False, gp_ShardStatus = [sample_shard]\<rparr>"

theorem Group_Schedule_total_witness:
  "\<exists>out percent. Group_Schedule sample_env (Some sample_group) = Inr (out, percent)"
  using Group_Schedule_total [of sample_group sample_env] by (simp add: sample_group_def)

theorem Group_Schedule_plans_every_shard_witness:
  "\<exists>out percent. Group_Schedule sample_env (Some sample_group) = Inr (out, percent) \<and> set (mkeys out) = {''s0''}"
proof -
  obtain out percent where "Group_Schedule sample_env (Some sample_group) = Inr (out, percent)"
    using Group_Schedule_returns [of sample_group sample_env] by (auto simp: sample_group_def)
  with Group_Schedule_plans_every_shard [OF this] show ?thesis by (simp add: sample_group_def sample_shard_def)
qed

text \<open>
  The guard that is to catch a \<^verbatim>\<open>maxUnavailable\<close> above the default compares JSON texts: 100 percent
  does not count as more than 25 percent, and 9 percent counts as more than 10 percent.
\<close>

theorem exceeds_default_lexicographic:
  assumes "\<And>s. intstr_json env (FromString s) = CHR 0x22 # s @ [CHR 0x22]"
  shows "\<not> exceeds_default env (FromString ''100%'') (FromString ''25%'') \<and>
    exceeds_default env (FromString ''9%'') (FromString ''10%'')"
  by (simp add: exceeds_default_def assms less_char_def)

theorem exceeds_default_lexicographic_witness:
  "\<not> exceeds_default (sample_env\<lparr>intstr_json := \<lambda>v. CHR 0x22 # ios_StrVal v @ [CHR 0x22]\<rparr>)
     (FromString ''100%'') (FromString ''25%'')"
  using exceeds_default_lexicographic [of "sample_env\<lparr>intstr_json := \<lambda>v. CHR 0x22 # ios_StrVal v @ [CHR 0x22]\<rparr>"]
  by (simp add: FromString_def)

end
