(* ===== verification/NodeSet.thy ===== *)
theory NodeSet
  imports ShardScheduler
begin

text \<open>
  \<^verbatim>\<open>pkg/rollalgorithm/nodeset_scheduler.go\<close>: from the targets of a shard to the nodes to create, to
  update in place and to delete.

  The interface \<^verbatim>\<open>Node\<close> (with \<^verbatim>\<open>GroupNode\<close> and \<^verbatim>\<open>NodeUpdateScore\<close>, which a node may implement too) is
  a record of its methods over an arbitrary type \<open>'n\<close> of node objects and \<open>'p\<close> of version plans. Nodes
  are pointers that several slices share, so a node set is a list of addresses and the objects live in
  a heap. A panic (an index out of range, a nil dereference, a failed type assertion) is an error value.
\<close>

subsection \<open>Nodes and the heap\<close>

record ('n, 'p) NodeMethods =
  GetName :: "'n \<Rightarrow> string"
  GetVersion :: "'n \<Rightarrow> string"
  GetVersionPlan :: "'n \<Rightarrow> 'p option"
  GetScore :: "'n \<Rightarrow> int"
  GetDeletionCost :: "'n \<Rightarrow> int"
  IsReady :: "'n \<Rightarrow> bool"
  IsEmpty :: "'n \<Rightarrow> bool"
  IsRelease :: "'n \<Rightarrow> bool"
  SetVersion :: "string \<Rightarrow> 'p option \<Rightarrow> 'n \<Rightarrow> 'n"
  Stop :: "'n \<Rightarrow> 'n"
  isGroupNode :: "'n \<Rightarrow> bool"
  GetGroupVersion :: "'n \<Rightarrow> string"
  GetDependencyReady :: "'n \<Rightarrow> bool"
  SetDependencyReady :: "bool \<Rightarrow> 'n \<Rightarrow> 'n"
  isNodeUpdateScore :: "'n \<Rightarrow> bool"
  GetUpdateScore :: "'n \<Rightarrow> int"

type_synonym addr = nat
type_synonym NodeSet = "addr list"
type_synonym NodeMap = "(string, NodeSet) gomap"

record 'n heap =
  cells :: "addr \<Rightarrow> 'n"
  fresh :: addr

abbreviation modify :: "addr \<Rightarrow> ('n \<Rightarrow> 'n) \<Rightarrow> 'n heap \<Rightarrow> 'n heap" where
  "modify a f h \<equiv> h\<lparr>cells := (cells h)(a := f (cells h a))\<rparr>"

record ('n, 'p) RollingUpdateArgs =
  ru_Nodes :: NodeSet
  ru_CreateNode :: "(nat \<Rightarrow> 'n option) option"
  ru_Replicas :: "int32 option"
  ru_LatestVersionRatio :: "int32 option"
  ru_args_MaxUnavailable :: "IntOrString option"
  ru_args_MaxSurge :: "IntOrString option"
  ru_LatestVersion :: string
  ru_LatestVersionPlan :: "'p option"
  ru_RollingStrategy :: string
  ru_Release :: bool
  ru_GroupVersionMap :: "(string, string) gomap"
  ru_VersionHoldMatrixPercent :: "(string, float64) gomap"
  ru_PaddedLatestVersionRatio :: "int32 option"
  ru_VersionDependencyMatrixPercent :: "(string, float64) gomap"
  ru_LatestVersionCarryStrategy :: CarryStrategyType
  ru_ExtraNodes :: NodeSet
  ru_DisableReplaceEmpty :: bool

subsection \<open>Orders\<close>

definition NodeSet_Less :: "('n, 'p) NodeMethods \<Rightarrow> 'n heap \<Rightarrow> addr \<Rightarrow> addr \<Rightarrow> bool" where
  "NodeSet_Less ms h i j =
     (let a = cells h i; b = cells h j in
      if GetScore ms a = GetScore ms b then
        (if GetDeletionCost ms a = GetDeletionCost ms b then GetName ms a > GetName ms b
         else GetDeletionCost ms a < GetDeletionCost ms b)
      else GetScore ms a < GetScore ms b)"

definition lessForUpdate :: "('n, 'p) NodeMethods \<Rightarrow> 'n heap \<Rightarrow> addr \<Rightarrow> addr \<Rightarrow> bool" where
  "lessForUpdate ms h i j =
     (let n1 = cells h i; n2 = cells h j;
          byScore = (\<lambda>iScore jScore.
            if iScore = jScore then
              (if GetDeletionCost ms n1 = GetDeletionCost ms n2 then GetName ms n1 < GetName ms n2
               else GetDeletionCost ms n1 > GetDeletionCost ms n2)
            else iScore > jScore)
      in if isNodeUpdateScore ms n1 \<and> isNodeUpdateScore ms n2
         then byScore (GetUpdateScore ms n1) (GetUpdateScore ms n2)
         else if IsEmpty ms n1 \<noteq> IsEmpty ms n2 then IsEmpty ms n2
         else byScore (GetScore ms n1) (GetScore ms n2))"

definition isGroupNodeSet :: "('n, 'p) NodeMethods \<Rightarrow> 'n heap \<Rightarrow> NodeSet \<Rightarrow> bool" where
  "isGroupNodeSet ms h ns = (case ns of [] \<Rightarrow> False | a # _ \<Rightarrow> isGroupNode ms (cells h a))"

subsection \<open>Arguments\<close>

definition checkRollingUpdateArgs ::
    "('n, 'p) RollingUpdateArgs option \<Rightarrow> roll_error + ('n, 'p) RollingUpdateArgs" where
  "checkRollingUpdateArgs p =
     (case p of
        None \<Rightarrow> Inl ErrNilArgs
      | Some args \<Rightarrow>
          if ru_CreateNode args = None then Inl ErrNilCreateNode
          else if (case ru_Replicas args of None \<Rightarrow> False | Some r \<Rightarrow> r < 0) then Inl ErrIllegalReplicas
          else Inr (args\<lparr>
            ru_LatestVersionRatio := (case ru_LatestVersionRatio args of
                None \<Rightarrow> Some DefaultLatestVersionRatio | Some r \<Rightarrow> Some r),
            ru_args_MaxUnavailable := (case ru_args_MaxUnavailable args of
                None \<Rightarrow> Some Default25IntOrString | Some r \<Rightarrow> Some r),
            ru_args_MaxSurge := (case ru_args_MaxSurge args of
                None \<Rightarrow> Some Default10IntOrString | Some r \<Rightarrow> Some r)\<rparr>))"

definition collectReleaseNode :: "('n, 'p) NodeMethods \<Rightarrow> 'n heap \<Rightarrow> NodeSet \<Rightarrow> NodeSet \<times> NodeSet" where
  "collectReleaseNode ms h ns =
     (filter (\<lambda>a. IsRelease ms (cells h a)) ns, filter (\<lambda>a. \<not> IsRelease ms (cells h a)) ns)"

text \<open>
  \<^verbatim>\<open>RollingUpdateArgs\<close> as a \<^verbatim>\<open>Shard\<close>: its version status counts the nodes. It is computed once; the
  nodes do not change between the calls the schedulers make of it.
\<close>

definition status_cell ::
    "('n, 'p) NodeMethods \<Rightarrow> bool \<Rightarrow> 'n \<Rightarrow> (string, VersionStatus) gomap \<Rightarrow> roll_error + (string, VersionStatus) gomap" where
  "status_cell ms grp n m =
     (if grp \<and> \<not> isGroupNode ms n then Inl TypeAssertion
      else (let version = (if grp then GetGroupVersion ms n else GetVersion ms n);
                st = (case map_of m version of
                    None \<Rightarrow> \<lparr>vs_Version = version, vs_Replicas = 0, vs_ReadyReplicas = 0, vs_DataReadyReplicas = 0,
                             vs_Signature = [], vs_ResourceVersionStatus = []\<rparr>
                  | Some s \<Rightarrow> s);
                st = st\<lparr>vs_Replicas := i32 (vs_Replicas st + 1)\<rparr>;
                st = (if IsReady ms n then st\<lparr>vs_ReadyReplicas := i32 (vs_ReadyReplicas st + 1)\<rparr> else st)
            in Inr (mput version st m)))"

fun status_loop ::
    "('n, 'p) NodeMethods \<Rightarrow> bool \<Rightarrow> 'n list \<Rightarrow> (string, VersionStatus) gomap \<Rightarrow> roll_error + (string, VersionStatus) gomap" where
  "status_loop ms grp [] m = Inr m"
| "status_loop ms grp (n # ns) m =
     (case status_cell ms grp n m of Inl e \<Rightarrow> Inl e | Inr m \<Rightarrow> status_loop ms grp ns m)"

definition GetVersionStatus ::
    "('n, 'p) NodeMethods \<Rightarrow> 'n heap \<Rightarrow> NodeSet \<Rightarrow> roll_error + (string, VersionStatus) gomap" where
  "GetVersionStatus ms h ns = status_loop ms (isGroupNodeSet ms h ns) (map (cells h) ns) []"

definition args_shard ::
    "('n, 'p) NodeMethods \<Rightarrow> 'n heap \<Rightarrow> ('n, 'p) RollingUpdateArgs \<Rightarrow> int32 \<Rightarrow> roll_error + Shard" where
  "args_shard ms h args replicas =
     (case GetVersionStatus ms h (ru_Nodes args) of
        Inl e \<Rightarrow> Inl e
      | Inr st \<Rightarrow> Inr \<lparr>sh_Replicas = replicas,
          sh_LatestVersionRatio = (\<lambda>version. if ru_LatestVersion args = version
             then (case ru_LatestVersionRatio args of None \<Rightarrow> 0 | Some r \<Rightarrow> r) else 0),
          sh_RawReplicas = replicas, sh_DependencyLevel = 0, sh_CPU = 0, sh_Name = [],
          sh_CarbonRoleName = [], sh_VersionStatus = st, sh_ResourceVersionStatus = None\<rparr>)"

definition initShardParams :: "('n, 'p) RollingUpdateArgs \<Rightarrow> int32 \<Rightarrow> ShardScheduleParams" where
  "initShardParams args replicas =
     zero_params\<lparr>
       Plan := zero_plan\<lparr>sp_Replicas := Some replicas,
         sp_Strategy := \<lparr>ds_Type = ''RollingUpdate'', ds_RollingUpdate =
           Some \<lparr>ru_MaxUnavailable = ru_args_MaxUnavailable args, ru_MaxSurge = ru_args_MaxSurge args\<rparr>\<rparr>,
         sp_PaddedLatestVersionRatio := ru_PaddedLatestVersionRatio args,
         sp_VersionHoldMatrix := transferHoldMatrix (ru_VersionHoldMatrixPercent args) replicas,
         sp_VersionHoldMatrixPercent := ru_VersionHoldMatrixPercent args,
         sp_LatestVersionRatio := ru_LatestVersionRatio args,
         sp_LatestVersionCarryStrategy := ru_LatestVersionCarryStrategy args,
         sp_VersionDependencyMatrixPercent := ru_VersionDependencyMatrixPercent args\<rparr>,
       Releasing := ru_Release args, LatestVersion := ru_LatestVersion args,
       GroupVersionToVersionMap := ru_GroupVersionMap args, RollingStrategy := ru_RollingStrategy args\<rparr>"

text \<open>The scheduler a \<^verbatim>\<open>NodeSetUpdater\<close> holds is a parameter, as \<^verbatim>\<open>NewNodeSetUpdater\<close> has it.\<close>

type_synonym shard_scheduler = "Shard \<Rightarrow> ShardScheduleParams option \<Rightarrow> roll_error + matrix \<times> matrix option"

definition calcTargetMatrix ::
    "roll_env \<Rightarrow> shard_scheduler \<Rightarrow> ('n, 'p) NodeMethods \<Rightarrow> 'n heap \<Rightarrow> ('n, 'p) RollingUpdateArgs \<Rightarrow>
     roll_error + matrix \<times> matrix option" where
  "calcTargetMatrix env scheduler ms h args =
     (case ru_Replicas args of
        None \<Rightarrow> Inl NilDereference
      | Some replicas \<Rightarrow>
          (case args_shard ms h args replicas of
             Inl e \<Rightarrow> Inl e
           | Inr shard \<Rightarrow>
               scheduler shard (Some (initScheduleArgs env (Some shard) (initShardParams args replicas)))))"

definition initNodesVersionMap :: "('n, 'p) NodeMethods \<Rightarrow> 'n heap \<Rightarrow> NodeSet \<Rightarrow> NodeMap" where
  "initNodesVersionMap ms h ns =
     fold (\<lambda>a m. mput (GetVersion ms (cells h a)) (mget [] m (GetVersion ms (cells h a)) @ [a]) m) ns []"

definition initVersionToPlan ::
    "('n, 'p) NodeMethods \<Rightarrow> 'n heap \<Rightarrow> ('n, 'p) RollingUpdateArgs \<Rightarrow> (string, 'p option) gomap" where
  "initVersionToPlan ms h args =
     mput (ru_LatestVersion args) (ru_LatestVersionPlan args)
       (fold (\<lambda>a. mput (GetVersion ms (cells h a)) (GetVersionPlan ms (cells h a))) (ru_Nodes args) [])"

subsection \<open>Splitting the nodes\<close>

fun collect_redundant ::
    "matrix \<Rightarrow> NodeMap \<Rightarrow> NodeSet \<Rightarrow> NodeSet \<Rightarrow> NodeMap \<Rightarrow> roll_error + NodeSet \<times> NodeSet \<times> NodeMap" where
  "collect_redundant target [] redundant active vm = Inr (redundant, active, vm)"
| "collect_redundant target ((version, ns) # es) redundant active vm =
     (let count = mget 0 target version in
      if count < int (length ns) then
        (if count < 0 then Inl SliceBounds
         else collect_redundant target es (redundant @ drop (nat count) ns) (active @ take (nat count) ns)
                (mput version (take (nat count) ns) vm))
      else collect_redundant target es redundant (active @ ns) vm)"

definition collectRedundantNode :: "NodeMap \<Rightarrow> matrix \<Rightarrow> roll_error + NodeSet \<times> NodeSet \<times> NodeMap" where
  "collectRedundantNode vm target = collect_redundant target vm [] [] vm"

text \<open>The loop of \<^verbatim>\<open>supplyNode\<close> over the target matrix; \<open>redundant\<close> is already sorted.\<close>

primrec supply_loop ::
    "NodeMap \<Rightarrow> matrix \<Rightarrow> NodeSet \<Rightarrow> (string, int) gomap \<Rightarrow> NodeMap \<Rightarrow>
     roll_error + (string, int) gomap \<times> NodeMap \<times> NodeSet" where
  "supply_loop vm [] redundant create update = Inr (create, update, redundant)"
| "supply_loop vm (e # es) redundant create update =
     (let (version, n) = e;
          count = (case map_of vm version of None \<Rightarrow> n | Some ns \<Rightarrow> i32 (n - i32 (int (length ns))));
          updateCount = Int32Min count (i32 (int (length redundant)))
      in if updateCount < 0 then Inl SliceBounds
         else (let update = mput version (mget [] update version @ take (nat updateCount) redundant) update;
                   redundant = drop (nat updateCount) redundant;
                   count = i32 (count - updateCount);
                   create = (if count > 0 then mput version count create else create)
               in supply_loop vm es redundant create update))"

definition supplyNode ::
    "('n, 'p) NodeMethods \<Rightarrow> 'n heap \<Rightarrow> NodeMap \<Rightarrow> matrix \<Rightarrow> NodeSet \<Rightarrow>
     roll_error + (string, int) gomap \<times> NodeMap \<times> NodeSet" where
  "supplyNode ms h vm target redundant =
     supply_loop vm target (go_sort (lessForUpdate ms h) redundant) [] []"

primrec replace_loop ::
    "('n, 'p) NodeMethods \<Rightarrow> 'n heap \<Rightarrow> NodeSet \<Rightarrow> NodeMap \<Rightarrow> NodeSet \<Rightarrow> NodeSet \<Rightarrow> NodeMap \<times> NodeSet \<times> NodeSet" where
  "replace_loop ms h [] update deleted redundant = (update, deleted, redundant)"
| "replace_loop ms h (a # active) update deleted redundant =
     (case redundant of
        [] \<Rightarrow> (update, deleted, redundant)
      | r # rest \<Rightarrow>
          if IsEmpty ms (cells h r) then (update, deleted, redundant)
          else if IsEmpty ms (cells h a) then
            (let version = GetVersion ms (cells h a)
             in replace_loop ms h active (mput version (mget [] update version @ [r]) update) (deleted @ [a]) rest)
          else replace_loop ms h active update deleted redundant)"

definition replaceEmptyNode ::
    "('n, 'p) NodeMethods \<Rightarrow> 'n heap \<Rightarrow> NodeMap \<Rightarrow> NodeSet \<Rightarrow> NodeSet \<Rightarrow> NodeSet \<Rightarrow> NodeMap \<times> NodeSet \<times> NodeSet" where
  "replaceEmptyNode ms h update deleted active redundant =
     replace_loop ms h (go_sort (NodeSet_Less ms h) active) update deleted redundant"

text \<open>
  \<^verbatim>\<open>rollingUpdateNodeSet\<close> returns the counts to create, the nodes to update and those to delete; the map of
  the kept nodes, which the caller shares, is the last component.
\<close>

definition rollingUpdateNodeSet ::
    "('n, 'p) NodeMethods \<Rightarrow> 'n heap \<Rightarrow> NodeMap \<Rightarrow> matrix \<Rightarrow> NodeSet \<Rightarrow> bool \<Rightarrow>
     roll_error + (string, int) gomap \<times> NodeMap \<times> NodeSet \<times> NodeMap" where
  "rollingUpdateNodeSet ms h vm target extra disableReplaceEmpty =
     (case collectRedundantNode vm target of
        Inl e \<Rightarrow> Inl e
      | Inr (redundant, active, vm) \<Rightarrow>
          (case supplyNode ms h vm target (redundant @ extra) of
             Inl e \<Rightarrow> Inl e
           | Inr (create, update, redundant) \<Rightarrow>
               (let (update, deleted, redundant) =
                      (if \<not> disableReplaceEmpty then replaceEmptyNode ms h update [] active redundant
                       else (update, [], redundant))
                in Inr (create, update, deleted @ redundant, vm))))"

definition hasDependency :: "matrix option \<Rightarrow> bool" where
  "hasDependency dependency = (case dependency of None \<Rightarrow> False | Some d \<Rightarrow> d \<noteq> [])"

definition checkGroupNode :: "('n, 'p) NodeMethods \<Rightarrow> 'n heap \<Rightarrow> bool \<Rightarrow> NodeMap \<Rightarrow> roll_error + unit" where
  "checkGroupNode ms h hasDependcy vm =
     (if hasDependcy then
        (case concat (map snd vm) of
           [] \<Rightarrow> Inr ()
         | a # _ \<Rightarrow> if isGroupNode ms (cells h a) then Inr () else Inl ErrNotGroupNode)
      else Inr ())"

subsection \<open>Writing the nodes\<close>

definition setGroupNodeDependencyReady :: "('n, 'p) NodeMethods \<Rightarrow> bool \<Rightarrow> addr \<Rightarrow> 'n heap \<Rightarrow> 'n heap" where
  "setGroupNodeDependencyReady ms ready a h =
     (if isGroupNode ms (cells h a) then modify a (SetDependencyReady ms ready) h else h)"

primrec create_loop ::
    "('n, 'p) NodeMethods \<Rightarrow> (nat \<Rightarrow> 'n option) \<Rightarrow> string \<Rightarrow> 'p option \<Rightarrow> bool \<Rightarrow> nat \<Rightarrow> NodeMap \<Rightarrow> 'n heap \<Rightarrow>
     roll_error + NodeMap \<times> 'n heap" where
  "create_loop ms create version plan ready 0 m h = Inr (m, h)"
| "create_loop ms create version plan ready (Suc num) m h =
     (case create (fresh h) of
        None \<Rightarrow> Inl NilDereference
      | Some n \<Rightarrow>
          (let a = fresh h;
               h = h\<lparr>cells := (cells h)(a := SetVersion ms version plan n), fresh := Suc a\<rparr>;
               h = setGroupNodeDependencyReady ms ready a h
           in create_loop ms create version plan ready num (mput version (mget [] m version @ [a]) m) h))"

fun syncCreateNodes ::
    "('n, 'p) NodeMethods \<Rightarrow> (nat \<Rightarrow> 'n option) \<Rightarrow> (string, 'p option) gomap \<Rightarrow> bool \<Rightarrow> (string, int) gomap \<Rightarrow>
     NodeMap \<Rightarrow> 'n heap \<Rightarrow> roll_error + NodeMap \<times> 'n heap" where
  "syncCreateNodes ms create plans hasDependcy [] m h = Inr (m, h)"
| "syncCreateNodes ms create plans hasDependcy ((version, num) # es) m h =
     (case create_loop ms create version (mget None plans version) (\<not> hasDependcy) (nat num) m h of
        Inl e \<Rightarrow> Inl e
      | Inr (m, h) \<Rightarrow> syncCreateNodes ms create plans hasDependcy es m h)"

definition syncUpdateNodes ::
    "('n, 'p) NodeMethods \<Rightarrow> (string, 'p option) gomap \<Rightarrow> bool \<Rightarrow> NodeMap \<Rightarrow> 'n heap \<Rightarrow> 'n heap" where
  "syncUpdateNodes ms plans hasDependcy update h =
     fold (\<lambda>(version, ns) h. fold (\<lambda>a h. setGroupNodeDependencyReady ms (\<not> hasDependcy) a
        (modify a (SetVersion ms version (mget None plans version)) h)) ns h) update h"

definition syncDeleteNodes :: "('n, 'p) NodeMethods \<Rightarrow> NodeSet \<Rightarrow> 'n heap \<Rightarrow> 'n heap" where
  "syncDeleteNodes ms ns h = fold (\<lambda>a. modify a (Stop ms)) ns h"

text \<open>\<^verbatim>\<open>fixDependency\<close>: the loop over the nodes of one version, then the one over the versions.\<close>

primrec fix_nodes ::
    "('n, 'p) NodeMethods \<Rightarrow> string \<Rightarrow> NodeSet \<Rightarrow> int \<Rightarrow> NodeMap \<Rightarrow> 'n heap \<Rightarrow> NodeMap \<times> 'n heap" where
  "fix_nodes ms version [] gap update h = (update, h)"
| "fix_nodes ms version (a # ns) gap update h =
     (if \<not> GetDependencyReady ms (cells h a) then
        (let h = setGroupNodeDependencyReady ms True a h;
             update = mput version (mget [] update version @ [a]) update
         in if gap - 1 \<le> 0 then (update, h) else fix_nodes ms version ns (gap - 1) update h)
      else if gap \<le> 0 then (update, h) else fix_nodes ms version ns gap update h)"

fun fixDependency ::
    "('n, 'p) NodeMethods \<Rightarrow> NodeMap \<Rightarrow> matrix \<Rightarrow> NodeMap \<Rightarrow> 'n heap \<Rightarrow> roll_error + NodeMap \<times> 'n heap" where
  "fixDependency ms vm [] update h = Inr (update, h)"
| "fixDependency ms vm ((version, need) # es) update h =
     (let ns = mget [] vm version in
      if \<exists>a \<in> set ns. \<not> isGroupNode ms (cells h a) then Inl NilDereference
      else (let nowReady = int (length (filter (\<lambda>a. GetDependencyReady ms (cells h a)) ns));
                gap = need - nowReady;
                (update, h) = (if gap > 0 then fix_nodes ms version ns gap update h else (update, h))
            in fixDependency ms vm es update h))"

subsection \<open>Schedule\<close>

definition NodeSet_Schedule ::
    "roll_env \<Rightarrow> shard_scheduler \<Rightarrow> ('n, 'p) NodeMethods \<Rightarrow> 'n heap \<Rightarrow> ('n, 'p) RollingUpdateArgs option \<Rightarrow>
     roll_error + (NodeMap \<times> NodeMap \<times> NodeSet) \<times> 'n heap" where
  "NodeSet_Schedule env scheduler ms h p =
     (case checkRollingUpdateArgs p of
        Inl e \<Rightarrow> Inl e
      | Inr args \<Rightarrow>
         (let (releaseNodes, ns) = collectReleaseNode ms h (ru_Nodes args);
              args = args\<lparr>ru_Nodes := ns\<rparr>
          in case calcTargetMatrix env scheduler ms h args of
               Inl e \<Rightarrow> Inl e
             | Inr (target, dependency) \<Rightarrow>
                (let args = args\<lparr>ru_Nodes := go_sort (\<lambda>a b. NodeSet_Less ms h b a) (ru_Nodes args)\<rparr>;
                     vm = initNodesVersionMap ms h (ru_Nodes args);
                     hasDependcy = hasDependency dependency
                 in case checkGroupNode ms h hasDependcy vm of
                      Inl e \<Rightarrow> Inl e
                    | Inr _ \<Rightarrow>
                      (case rollingUpdateNodeSet ms h vm target (ru_ExtraNodes args) (ru_DisableReplaceEmpty args) of
                         Inl e \<Rightarrow> Inl e
                       | Inr (createNum, update, deleted, vm) \<Rightarrow>
                        (let plans = initVersionToPlan ms h args in
                         case syncCreateNodes ms (the (ru_CreateNode args)) plans hasDependcy createNum [] h of
                           Inl e \<Rightarrow> Inl e
                         | Inr (created, h) \<Rightarrow>
                            (let h = syncUpdateNodes ms plans hasDependcy update h;
                                 h = syncDeleteNodes ms deleted h
                             in case (case dependency of
                                        Some d \<Rightarrow> if hasDependcy then fixDependency ms vm d update h else Inr (update, h)
                                      | None \<Rightarrow> Inr (update, h)) of
                                  Inl e \<Rightarrow> Inl e
                                | Inr (update, h) \<Rightarrow> Inr ((created, update, deleted @ releaseNodes), h)))))))"

end
