(* ===== verification/NodeSetSafety.thy ===== *)
theory NodeSetSafety
  imports NodeSet
begin

text \<open>
  What the node set updater guarantees: no node is lost or used twice, every version ends with
  exactly its target, the best nodes are kept, and the slices are never cut out of range.
\<close>

subsection \<open>Maps of nodes\<close>

definition node_total :: "NodeMap \<Rightarrow> addr multiset" where
  "node_total m = mset (concat (map snd m))"

lemma node_total_simps [simp]: "node_total [] = {#}" "node_total (p # m) = mset (snd p) + node_total m"
  by (simp_all add: node_total_def)

lemma node_total_append: "node_total (mput k (mget [] m k @ xs) m) = node_total m + mset xs"
  by (induction m) auto

lemma node_total_mem: "a \<in># node_total m \<longleftrightarrow> (\<exists>p \<in> set m. a \<in> set (snd p))"
  by (auto simp: node_total_def)

text \<open>A map of nodes by version, as \<^verbatim>\<open>initNodesVersionMap\<close> builds it.\<close>

definition vm_ok :: "('n, 'p) NodeMethods \<Rightarrow> 'n heap \<Rightarrow> NodeMap \<Rightarrow> bool" where
  "vm_ok ms h vm \<longleftrightarrow> wf_map vm \<and> list_all (\<lambda>(v, ns). list_all (\<lambda>a. GetVersion ms (cells h a) = v) ns) vm"

lemma vm_ok_append: "vm_ok ms h m \<Longrightarrow> vm_ok ms h (mput (GetVersion ms (cells h a)) (mget [] m (GetVersion ms (cells h a)) @ [a]) m)"
proof -
  have "list_all (\<lambda>(v, ns). list_all (\<lambda>a. GetVersion ms (cells h a) = v) ns) m \<Longrightarrow>
      list_all (\<lambda>(v, ns). list_all (\<lambda>a. GetVersion ms (cells h a) = v) ns)
        (mput (GetVersion ms (cells h a)) (mget [] m (GetVersion ms (cells h a)) @ [a]) m)"
    by (induction m) auto
  then show "vm_ok ms h m \<Longrightarrow> ?thesis" by (simp add: vm_ok_def)
qed

lemma initNodesVersionMap_spec:
  "vm_ok ms h (initNodesVersionMap ms h ns)"
  "node_total (initNodesVersionMap ms h ns) = mset ns"
  "mget [] (initNodesVersionMap ms h ns) v = filter (\<lambda>a. GetVersion ms (cells h a) = v) ns"
proof -
  let ?f = "\<lambda>a m. mput (GetVersion ms (cells h a)) (mget [] m (GetVersion ms (cells h a)) @ [a]) m"
  have "vm_ok ms h m \<Longrightarrow> vm_ok ms h (fold ?f ns m) \<and> node_total (fold ?f ns m) = node_total m + mset ns \<and>
      mget [] (fold ?f ns m) v = mget [] m v @ filter (\<lambda>a. GetVersion ms (cells h a) = v) ns" for m
    by (induction ns arbitrary: m) (auto simp: vm_ok_append node_total_append)
  from this [of "[]"] show "vm_ok ms h (initNodesVersionMap ms h ns)"
    "node_total (initNodesVersionMap ms h ns) = mset ns"
    "mget [] (initNodesVersionMap ms h ns) v = filter (\<lambda>a. GetVersion ms (cells h a) = v) ns"
    by (auto simp: initNodesVersionMap_def vm_ok_def)
qed

subsection \<open>Redundant nodes\<close>

abbreviation quota :: "matrix \<Rightarrow> string \<Rightarrow> nat" where
  "quota target v \<equiv> nat (mget 0 target v)"

lemma mget_take_map: "mget [] (map (\<lambda>(v, ns). (v, take (f v) ns)) vm) v = take (f v) (mget [] vm v)"
  by (induction vm) auto

lemma mput_same: "wf_map vm \<Longrightarrow> (v, ns) \<in> set vm \<Longrightarrow> mput v ns vm = vm"
proof (induction vm)
  case (Cons p vm)
  then show ?case by (cases p) (auto simp: rev_image_eqI)
qed simp

lemma mput_map_key:
  "wf_map vm \<Longrightarrow> v \<in> set (mkeys vm) \<Longrightarrow> mput v x vm = map (\<lambda>(w, ns). (w, if w = v then x else ns)) vm"
proof (induction vm)
  case (Cons p vm)
  obtain w ns where p: "p = (w, ns)" by (cases p)
  have "v = w \<Longrightarrow> map (\<lambda>(w, ns). (w, if w = v then x else ns)) vm = vm"
    using Cons.prems(1) p by (intro map_idI) (auto simp: rev_image_eqI)
  with Cons p show ?case by auto
qed simp

lemma collect_redundant_closed:
  assumes "\<And>v. 0 \<le> mget 0 target v" "wf_map vm" "set es \<subseteq> set vm" "distinct (mkeys es)"
  shows "collect_redundant target es redundant active vm =
    Inr (redundant @ concat (map (\<lambda>(v, ns). drop (quota target v) ns) es),
         active @ concat (map (\<lambda>(v, ns). take (quota target v) ns) es),
         map (\<lambda>(v, ns). (v, if v \<in> set (mkeys es) then take (quota target v) ns else ns)) vm)"
  using assms(2-4)
proof (induction es arbitrary: redundant active vm)
  case Nil
  then show ?case by (simp add: case_prod_beta)
next
  case (Cons p es)
  obtain v ns where p: "p = (v, ns)" by (cases p)
  have mem: "(v, ns) \<in> set vm" "v \<in> set (mkeys vm)" using Cons.prems(2) p by (auto simp: rev_image_eqI)
  have q: "0 \<le> mget 0 target v" by (rule assms(1))
  have uniq: "(v, xs) \<in> set vm \<Longrightarrow> xs = ns" for xs using mem(1) Cons.prems(1) by (metis eq_key_imp_eq_value)
  show ?case
  proof (cases "mget 0 target v < int (length ns)")
    case True
    define vm1 where "vm1 = mput v (take (quota target v) ns) vm"
    have e: "vm1 = map (\<lambda>(w, xs). (w, if w = v then take (quota target v) ns else xs)) vm"
      using mput_map_key [OF Cons.prems(1) mem(2)] by (simp add: vm1_def)
    have sub: "set es \<subseteq> set vm1"
    proof
      fix x assume x: "x \<in> set es"
      then have "fst x \<noteq> v" "x \<in> set vm" using Cons.prems p by auto
      then show "x \<in> set vm1" unfolding e by (force simp: image_iff case_prod_beta)
    qed
    have w1: "wf_map vm1" using Cons.prems(1) by (simp add: vm1_def)
    have "collect_redundant target (p # es) redundant active vm =
        collect_redundant target es (redundant @ drop (quota target v) ns) (active @ take (quota target v) ns) vm1"
      using True q p by (simp add: Let_def vm1_def)
    also have "\<dots> = Inr (redundant @ concat (map (\<lambda>(v, ns). drop (quota target v) ns) (p # es)),
         active @ concat (map (\<lambda>(v, ns). take (quota target v) ns) (p # es)),
         map (\<lambda>(v, ns). (v, if v \<in> set (mkeys es) then take (quota target v) ns else ns)) vm1)"
      using Cons.IH [OF w1 sub] Cons.prems(3) p by simp
    also have "map (\<lambda>(v, ns). (v, if v \<in> set (mkeys es) then take (quota target v) ns else ns)) vm1 =
        map (\<lambda>(v, ns). (v, if v \<in> set (mkeys (p # es)) then take (quota target v) ns else ns)) vm"
      unfolding e map_map using Cons.prems(3) p uniq by (intro map_cong refl) (force simp: comp_def)
    finally show ?thesis .
  next
    case False
    then have t: "take (quota target v) ns = ns" "drop (quota target v) ns = []" using q by auto
    have "collect_redundant target (p # es) redundant active vm = collect_redundant target es redundant (active @ ns) vm"
      using False p by (simp add: Let_def)
    also have "\<dots> = Inr (redundant @ concat (map (\<lambda>(v, ns). drop (quota target v) ns) (p # es)),
         active @ concat (map (\<lambda>(v, ns). take (quota target v) ns) (p # es)),
         map (\<lambda>(v, ns). (v, if v \<in> set (mkeys es) then take (quota target v) ns else ns)) vm)"
      using Cons.IH [OF Cons.prems(1)] Cons.prems(2,3) p t by simp
    also have "map (\<lambda>(v, ns). (v, if v \<in> set (mkeys es) then take (quota target v) ns else ns)) vm =
        map (\<lambda>(v, ns). (v, if v \<in> set (mkeys (p # es)) then take (quota target v) ns else ns)) vm"
      using p t(1) uniq by (intro map_cong refl) force
    finally show ?thesis .
  qed
qed

lemma collectRedundantNode_closed:
  assumes "\<And>v. 0 \<le> mget 0 target v" "wf_map vm"
  shows "collectRedundantNode vm target =
    Inr (concat (map (\<lambda>(v, ns). drop (quota target v) ns) vm),
         concat (map (\<lambda>(v, ns). take (quota target v) ns) vm),
         map (\<lambda>(v, ns). (v, take (quota target v) ns)) vm)"
proof -
  have "map (\<lambda>(v, ns). (v, if v \<in> set (mkeys vm) then take (quota target v) ns else ns)) vm =
      map (\<lambda>(v, ns). (v, take (quota target v) ns)) vm" by (auto simp: rev_image_eqI)
  then show ?thesis
    unfolding collectRedundantNode_def using collect_redundant_closed [OF assms order_refl assms(2)] by simp
qed

subsection \<open>Supplied nodes\<close>

text \<open>One step of \<^verbatim>\<open>supplyNode\<close> for a version that still lacks \<open>lack\<close> nodes.\<close>

lemma supply_step:
  assumes "int (length (mget [] vm v)) \<le> n" "n < 2147483648" "int (length red) < 2147483648"
  defines "lack \<equiv> n - int (length (mget [] vm v))"
  defines "k \<equiv> min lack (int (length red))"
  shows "supply_loop vm ((v, n) # es) red create update =
    supply_loop vm es (drop (nat k) red) (if lack - k > 0 then mput v (lack - k) create else create)
      (mput v (mget [] update v @ take (nat k) red) update)"
proof -
  have l: "(case map_of vm v of None \<Rightarrow> n | Some ns \<Rightarrow> i32 (n - i32 (int (length ns)))) = lack"
    using assms(1,2) by (auto simp: lack_def mget_def i32_id split: option.splits)
  have r: "i32 (int (length red)) = int (length red)" using assms(3) by (intro i32_id) auto
  have "0 \<le> k" "k \<le> lack" "lack < 2147483648" using assms(1,2) by (auto simp: k_def lack_def)
  then have "i32 (lack - k) = lack - k" by (intro i32_id) auto
  with \<open>0 \<le> k\<close> show ?thesis
    by (simp only: supply_loop.simps split_conv Let_def l r k_def [symmetric]) simp
qed

lemma supply_loop_spec:
  assumes "distinct (mkeys es)" "\<And>v n. (v, n) \<in> set es \<Longrightarrow> int (length (mget [] vm v)) \<le> n \<and> n < 2147483648"
    and "int (length red) < 2147483648" "\<And>v. v \<in> set (mkeys es) \<Longrightarrow> mget 0 create v = 0"
  shows "\<exists>create' update' red'. supply_loop vm es red create update = Inr (create', update', red') \<and>
    node_total update' + mset red' = node_total update + mset red \<and>
    (\<forall>v. v \<notin> set (mkeys es) \<longrightarrow> mget [] update' v = mget [] update v \<and> mget 0 create' v = mget 0 create v) \<and>
    (\<forall>(v, n) \<in> set es. 0 \<le> mget 0 create' v \<and> (red' \<noteq> [] \<longrightarrow> mget 0 create' v = 0) \<and>
      int (length (mget [] update' v)) + mget 0 create' v
        = int (length (mget [] update v)) + (n - int (length (mget [] vm v)))) \<and>
    (\<exists>k. red' = drop k red)"
  using assms
proof (induction es arbitrary: red create update)
  case Nil
  then show ?case by (auto intro: exI [of _ 0])
next
  case (Cons p es)
  obtain v n where p: "p = (v, n)" by (cases p)
  define lack where "lack = n - int (length (mget [] vm v))"
  define k where "k = min lack (int (length red))"
  define red1 where "red1 = drop (nat k) red"
  define create1 where "create1 = (if lack - k > 0 then mput v (lack - k) create else create)"
  define update1 where "update1 = mput v (mget [] update v @ take (nat k) red) update"
  have vn: "int (length (mget [] vm v)) \<le> n" "n < 2147483648" using Cons.prems(2) [of v n] p by auto
  then have k: "0 \<le> k" "k \<le> lack" "nat k \<le> length red" by (auto simp: k_def lack_def)
  have st: "supply_loop vm (p # es) red create update = supply_loop vm es red1 create1 update1"
    unfolding p red1_def create1_def update1_def k_def lack_def by (rule supply_step [OF vn Cons.prems(3)])
  have vnin: "v \<notin> set (mkeys es)" using Cons.prems(1) p by simp
  have "\<exists>create' update' red'. supply_loop vm es red1 create1 update1 = Inr (create', update', red') \<and>
    node_total update' + mset red' = node_total update1 + mset red1 \<and>
    (\<forall>v. v \<notin> set (mkeys es) \<longrightarrow> mget [] update' v = mget [] update1 v \<and> mget 0 create' v = mget 0 create1 v) \<and>
    (\<forall>(v, n) \<in> set es. 0 \<le> mget 0 create' v \<and> (red' \<noteq> [] \<longrightarrow> mget 0 create' v = 0) \<and>
      int (length (mget [] update' v)) + mget 0 create' v
        = int (length (mget [] update1 v)) + (n - int (length (mget [] vm v)))) \<and>
    (\<exists>k. red' = drop k red1)"
  proof (rule Cons.IH)
    show "distinct (mkeys es)" using Cons.prems(1) by simp
    show "int (length (mget [] vm w)) \<le> m \<and> m < 2147483648" if "(w, m) \<in> set es" for w m
      using Cons.prems(2) [of w m] that by simp
    show "int (length red1) < 2147483648" using Cons.prems(3) by (simp add: red1_def)
    show "mget 0 create1 w = 0" if "w \<in> set (mkeys es)" for w
      using Cons.prems(4) [of w] that vnin by (auto simp: create1_def)
  qed
  then obtain create' update' red' where r: "supply_loop vm es red1 create1 update1 = Inr (create', update', red')"
    "node_total update' + mset red' = node_total update1 + mset red1"
    "\<And>v. v \<notin> set (mkeys es) \<Longrightarrow> mget [] update' v = mget [] update1 v \<and> mget 0 create' v = mget 0 create1 v"
    "\<And>v n. (v, n) \<in> set es \<Longrightarrow> 0 \<le> mget 0 create' v \<and> (red' \<noteq> [] \<longrightarrow> mget 0 create' v = 0) \<and>
      int (length (mget [] update' v)) + mget 0 create' v
        = int (length (mget [] update1 v)) + (n - int (length (mget [] vm v)))"
    "\<exists>k. red' = drop k red1" by blast
  have "node_total update1 + mset red1 = node_total update + mset red"
    by (simp add: update1_def red1_def node_total_append flip: mset_append)
  moreover have c0: "mget 0 create v = 0" using Cons.prems(4) [of v] p by simp
  have "0 \<le> mget 0 create' v \<and> (red' \<noteq> [] \<longrightarrow> mget 0 create' v = 0) \<and>
      int (length (mget [] update' v)) + mget 0 create' v = int (length (mget [] update v)) + lack"
    using r(3) [OF vnin] k c0 r(5) by (auto simp: create1_def update1_def red1_def k_def)
  moreover have "0 \<le> mget 0 create' w \<and> (red' \<noteq> [] \<longrightarrow> mget 0 create' w = 0) \<and>
      int (length (mget [] update' w)) + mget 0 create' w
        = int (length (mget [] update w)) + (m - int (length (mget [] vm w)))" if "(w, m) \<in> set es" for w m
  proof -
    have "w \<noteq> v" using that vnin by (auto simp: rev_image_eqI)
    then show ?thesis using r(4) [OF that] by (simp add: update1_def)
  qed
  moreover have "mget [] update' w = mget [] update w \<and> mget 0 create' w = mget 0 create w"
    if "w \<notin> set (mkeys (p # es))" for w
    using r(3) [of w] that p by (simp add: update1_def create1_def)
  moreover have "\<exists>j. red' = drop j red" using r(5) by (auto simp: red1_def)
  ultimately show ?case
    unfolding st r(1) using r(2) p by (simp add: lack_def split: prod.splits) blast
qed

subsection \<open>Replaced nodes\<close>

lemma replace_loop_spec:
  "\<exists>update' rep red'. replace_loop ms h active update deleted red = (update', deleted @ rep, red') \<and>
    mset rep \<subseteq># mset active \<and> (\<forall>a \<in> set rep. IsEmpty ms (cells h a)) \<and>
    node_total update' + mset red' = node_total update + mset red \<and>
    (\<forall>v. length (mget [] update' v) =
      length (mget [] update v) + length (filter (\<lambda>a. GetVersion ms (cells h a) = v) rep))"
proof (induction active arbitrary: update deleted red)
  case Nil
  then show ?case by (intro exI [of _ update] exI [of _ "[]"] exI [of _ red]) auto
next
  case (Cons a active)
  consider "red = []" | r rest where "red = r # rest" "IsEmpty ms (cells h r)"
    | r rest where "red = r # rest" "\<not> IsEmpty ms (cells h r)" "IsEmpty ms (cells h a)"
    | r rest where "red = r # rest" "\<not> IsEmpty ms (cells h r)" "\<not> IsEmpty ms (cells h a)"
    by (cases red) auto
  then show ?case
  proof cases
    case 1
    then show ?thesis by (intro exI [of _ update] exI [of _ "[]"] exI [of _ red]) auto
  next
    case 2
    then show ?thesis by (intro exI [of _ update] exI [of _ "[]"] exI [of _ red]) auto
  next
    case 3
    let ?v = "GetVersion ms (cells h a)"
    let ?u = "mput ?v (mget [] update ?v @ [r]) update"
    obtain update' rep red' where ih: "replace_loop ms h active ?u (deleted @ [a]) rest = (update', (deleted @ [a]) @ rep, red')"
      "mset rep \<subseteq># mset active" "\<forall>a \<in> set rep. IsEmpty ms (cells h a)"
      "node_total update' + mset red' = node_total ?u + mset rest"
      "\<forall>v. length (mget [] update' v) =
        length (mget [] ?u v) + length (filter (\<lambda>a. GetVersion ms (cells h a) = v) rep)"
      using Cons.IH by blast
    have "node_total ?u + mset rest = node_total update + mset red"
      using 3(1) by (simp add: node_total_append)
    then show ?thesis
      using ih 3 by (intro exI [of _ update'] exI [of _ "a # rep"] exI [of _ red']) (auto simp: Let_def)
  next
    case 4
    obtain update' rep red' where ih: "replace_loop ms h active update deleted red = (update', deleted @ rep, red')"
      "mset rep \<subseteq># mset active" "\<forall>a \<in> set rep. IsEmpty ms (cells h a)"
      "node_total update' + mset red' = node_total update + mset red"
      "\<forall>v. length (mget [] update' v) =
        length (mget [] update v) + length (filter (\<lambda>a. GetVersion ms (cells h a) = v) rep)"
      using Cons.IH by blast
    then show ?thesis
      using 4 by (intro exI [of _ update'] exI [of _ rep] exI [of _ red']) (auto intro: subset_mset.order_trans)
  qed
qed

subsection \<open>The update of a node set\<close>

text \<open>What \<^verbatim>\<open>rollingUpdateNodeSet\<close> promises, for the nodes \<open>rep\<close> it replaces because they are empty.\<close>

definition update_contract ::
    "('n, 'p) NodeMethods \<Rightarrow> 'n heap \<Rightarrow> NodeMap \<Rightarrow> matrix \<Rightarrow> NodeSet \<Rightarrow> bool \<Rightarrow> NodeSet \<Rightarrow>
     (string, int) gomap \<times> NodeMap \<times> NodeSet \<times> NodeMap \<Rightarrow> bool" where
  "update_contract ms h vm target extra disable rep = (\<lambda>(create, update, deleted, kept).
     node_total kept + node_total update + mset deleted = node_total vm + mset extra + mset rep \<and>
     mset rep \<subseteq># node_total kept \<and> mset rep \<subseteq># mset deleted \<and>
     (\<forall>a \<in> set rep. IsEmpty ms (cells h a)) \<and> (disable \<longrightarrow> rep = []) \<and>
     vm_ok ms h kept \<and> node_total kept \<subseteq># node_total vm \<and>
     (\<forall>v. mget [] kept v = take (quota target v) (mget [] vm v)) \<and>
     (\<forall>v. 0 \<le> mget 0 create v \<and> int (length (mget [] kept v)) + int (length (mget [] update v)) + mget 0 create v
        = mget 0 target v + int (length (filter (\<lambda>a. GetVersion ms (cells h a) = v) rep))) \<and>
     ((\<exists>v. 0 < mget 0 create v) \<longrightarrow> mset deleted = mset rep))"

definition targets_wf :: "matrix \<Rightarrow> bool" where
  "targets_wf target \<longleftrightarrow> wf_map target \<and> list_all (\<lambda>p. 0 \<le> snd p \<and> snd p < 2147483648) target"

lemma targets_wf_mget: "targets_wf target \<Longrightarrow> 0 \<le> mget 0 target v"
  by (rule nonneg_mget) (auto simp: targets_wf_def list_all_iff)

lemma take_drop_total:
  "node_total (map (\<lambda>(v, ns). (v, take (f v) ns)) vm) + mset (concat (map (\<lambda>(v, ns). drop (f v) ns) vm)) = node_total vm"
proof (induction vm)
  case (Cons p vm)
  obtain v ns where p: "p = (v, ns)" by (cases p)
  have "mset (take (f v) ns) + mset (drop (f v) ns) = mset ns" by (simp flip: mset_append)
  with Cons p show ?case by (simp add: ac_simps flip: Cons)
qed simp

lemma vm_ok_take: "vm_ok ms h vm \<Longrightarrow> vm_ok ms h (map (\<lambda>(v, ns). (v, take (f v) ns)) vm)"
  by (auto simp: vm_ok_def list_all_iff case_prod_unfold comp_def dest!: in_set_takeD)

text \<open>In a map of nodes by version, the nodes of a version are what is found under it.\<close>

lemma vm_ok_version: "vm_ok ms h m \<Longrightarrow> filter_mset (\<lambda>a. GetVersion ms (cells h a) = v) (node_total m) = mset (mget [] m v)"
proof (induction m)
  case (Cons p m)
  obtain w ns where p: "p = (w, ns)" by (cases p)
  have ns: "\<forall>a \<in> set ns. GetVersion ms (cells h a) = w" using Cons.prems p by (simp add: vm_ok_def list_all_iff)
  have ih: "filter_mset (\<lambda>a. GetVersion ms (cells h a) = v) (node_total m) = mset (mget [] m v)"
    using Cons by (simp add: vm_ok_def)
  have w: "w \<notin> set (mkeys m)" using Cons.prems p by (simp add: vm_ok_def)
  show ?case
  proof (cases "w = v")
    case True
    then have "mget [] m v = []" using w by (simp add: mget_notin)
    moreover have "filter (\<lambda>a. GetVersion ms (cells h a) = v) ns = ns" using ns True by (simp add: filter_id_conv)
    ultimately show ?thesis using ih p True by (simp flip: mset_filter)
  next
    case False
    then have "filter (\<lambda>a. GetVersion ms (cells h a) = v) ns = []" using ns by (simp add: filter_empty_conv)
    then show ?thesis using ih p False by (simp flip: mset_filter)
  qed
qed simp

lemma rollingUpdateNodeSet_spec:
  assumes vm: "vm_ok ms h vm" and target: "targets_wf target"
    and size: "int (size (node_total vm) + length extra) < 2147483648"
  shows "\<exists>out rep. rollingUpdateNodeSet ms h vm target extra disable = Inr out \<and>
    update_contract ms h vm target extra disable rep out"
proof -
  define kept where "kept = map (\<lambda>(v, ns). (v, take (quota target v) ns)) vm"
  define red where "red = concat (map (\<lambda>(v, ns). drop (quota target v) ns) vm)"
  define active where "active = concat (map (\<lambda>(v, ns). take (quota target v) ns) vm)"
  have nn: "0 \<le> mget 0 target v" for v using target by (rule targets_wf_mget)
  have wv: "wf_map vm" using vm by (simp add: vm_ok_def)
  have c: "collectRedundantNode vm target = Inr (red, active, kept)"
    using collectRedundantNode_closed [OF nn wv] by (simp add: red_def active_def kept_def)
  have tot: "node_total kept + mset red = node_total vm" by (simp add: kept_def red_def take_drop_total)
  have kok: "vm_ok ms h kept" unfolding kept_def by (rule vm_ok_take [OF vm])
  have sub: "node_total kept \<subseteq># node_total vm" by (metis tot mset_subset_eq_add_left)
  have act: "mset active = node_total kept"
    by (simp add: active_def kept_def node_total_def comp_def case_prod_unfold)
  have kv: "mget [] kept v = take (quota target v) (mget [] vm v)" for v
    unfolding kept_def by (rule mget_take_map)
  have kl: "int (length (mget [] kept v)) \<le> mget 0 target v" for v using kv [of v] nn [of v] by auto
  define red1 where "red1 = go_sort (lessForUpdate ms h) (red @ extra)"
  have red1: "mset red1 = mset (red @ extra)" by (simp add: red1_def gs.sort_laws)
  have "size (node_total kept) + length red = size (node_total vm)" by (simp flip: tot)
  then have len: "int (length red1) < 2147483648" using size by (simp add: red1_def gs.sort_laws)
  have tv: "int (length (mget [] kept v)) \<le> n \<and> n < 2147483648" if "(v, n) \<in> set target" for v n
    using kl [of v] that target mget_in [OF that] by (auto simp: targets_wf_def list_all_iff)
  obtain create update red2 where s: "supplyNode ms h kept target (red @ extra) = Inr (create, update, red2)"
    "node_total update + mset red2 = mset red1"
    "\<And>v. v \<notin> set (mkeys target) \<Longrightarrow> mget [] update v = [] \<and> mget 0 create v = 0"
    "\<And>v n. (v, n) \<in> set target \<Longrightarrow> 0 \<le> mget 0 create v \<and> (red2 \<noteq> [] \<longrightarrow> mget 0 create v = 0) \<and>
      int (length (mget [] update v)) + mget 0 create v = n - int (length (mget [] kept v))"
    using supply_loop_spec [of target kept red1 "[]" "[]"] tv len target
    by (auto simp: supplyNode_def red1_def targets_wf_def split: prod.splits) blast
  have cnt: "0 \<le> mget 0 create v \<and> (red2 \<noteq> [] \<longrightarrow> mget 0 create v = 0) \<and>
      int (length (mget [] kept v)) + int (length (mget [] update v)) + mget 0 create v = mget 0 target v" for v
  proof (cases "v \<in> set (mkeys target)")
    case True
    then obtain n where "(v, n) \<in> set target" by auto
    then show ?thesis using s(4) [of v n] mget_in [of v n target] target by (auto simp: targets_wf_def)
  next
    case False
    then have "mget 0 target v = 0" by (rule mget_notin)
    then show ?thesis using s(3) [OF False] kl [of v] by auto
  qed
  have cre: "red2 = []" if "0 < mget 0 create v" for v using cnt [of v] that by auto
  show ?thesis
  proof (cases disable)
    case True
    have "rollingUpdateNodeSet ms h vm target extra disable = Inr (create, update, red2, kept)"
      by (simp add: rollingUpdateNodeSet_def c s(1) True)
    moreover have "update_contract ms h vm target extra disable [] (create, update, red2, kept)"
      using s(2) red1 cnt kv cre kok sub by (auto simp: update_contract_def ac_simps simp flip: tot)
    ultimately show ?thesis by blast
  next
    case False
    obtain update' rep red' where
      r: "replace_loop ms h (go_sort (NodeSet_Less ms h) active) update [] red2 = (update', [] @ rep, red')"
      "mset rep \<subseteq># mset active" "\<forall>a \<in> set rep. IsEmpty ms (cells h a)"
      "node_total update' + mset red' = node_total update + mset red2"
      "\<forall>v. length (mget [] update' v) =
        length (mget [] update v) + length (filter (\<lambda>a. GetVersion ms (cells h a) = v) rep)"
      using replace_loop_spec [of ms h "go_sort (NodeSet_Less ms h) active" update "[]" red2]
      by (auto simp: gs.sort_laws)
    have "rollingUpdateNodeSet ms h vm target extra disable = Inr (create, update', rep @ red', kept)"
      using r(1) by (simp add: rollingUpdateNodeSet_def c s(1) False replaceEmptyNode_def)
    moreover have "red2 = [] \<Longrightarrow> red' = []" using r(1) by (cases "go_sort (NodeSet_Less ms h) active") auto
    then have "update_contract ms h vm target extra disable rep (create, update', rep @ red', kept)"
      using r(2-5) s(2) red1 cnt kv act False cre kok sub
      by (auto simp: update_contract_def ac_simps simp flip: tot)
    ultimately show ?thesis by blast
  qed
qed

text \<open>The counts to create are a map: every version is written at most once.\<close>

lemma supply_loop_create_wf:
  "supply_loop vm es red create update = Inr (create', update', red') \<Longrightarrow> wf_map create \<Longrightarrow> wf_map create'"
proof (induction es arbitrary: red create update)
  case (Cons e es)
  obtain v n where e: "e = (v, n)" by (cases e)
  from Cons.prems(1) obtain red1 c1 u1 where "supply_loop vm es red1 c1 u1 = Inr (create', update', red')"
    and "c1 = create \<or> (\<exists>x. c1 = mput v x create)"
    by (simp only: supply_loop.simps e split_conv Let_def split: if_splits) (blast+)
  then show ?case using Cons.IH Cons.prems(2) wf_mput by metis
qed simp

lemma rollingUpdateNodeSet_create_wf:
  "rollingUpdateNodeSet ms h vm target extra disable = Inr (create, update, deleted, kept) \<Longrightarrow> wf_map create"
  by (auto simp: rollingUpdateNodeSet_def supplyNode_def Let_def split: sum.splits prod.splits if_splits
      dest: supply_loop_create_wf)

end
