(* ===== verification/ShardSafety.thy ===== *)
theory ShardSafety
  imports ShardScheduler
begin

text \<open>
  What the shard scheduler guarantees: the loops that cut and complete the holds, the loops that
  scale versions in and out, and the composition \<open>Schedule\<close>. The loops all move counts inside maps
  of counts (\<open>wf_counts\<close>); each has one lemma with everything the callers need, proved by induction
  on its recursion.
\<close>

lemma getTotalCount_counts: "wf_counts m \<Longrightarrow> getTotalCount m = msum m"
  by (rule getTotalCount_msum) (simp_all add: wf_countsD wf_counts_get)

lemma old_total_counts:
  assumes "wf_counts m"
  shows "old_total latest m = msum m - mget 0 m latest"
proof -
  have "fold (\<lambda>(v, c) t. if v = latest then t else i32 (t + c)) m s = s + (msum m - mget 0 m latest)"
    if "wf_map m" "list_all (\<lambda>p. 0 \<le> snd p) m" "0 \<le> s" "s + (msum m - mget 0 m latest) < 2147483648" for s
    using that
  proof (induction m arbitrary: s)
    case (Cons p m)
    obtain v c where p: "p = (v, c)" by (cases p)
    have nn: "0 \<le> mget 0 m k" for k using Cons.prems(2) by (simp add: nonneg_mget)
    have le: "mget 0 m latest \<le> msum m" using Cons.prems(1) nn by (intro mget_le_msum) auto
    show ?case
    proof (cases "v = latest")
      case True
      then have "mget 0 m latest = 0" using Cons.prems(1) p by (simp add: mget_notin)
      with Cons True p show ?thesis by auto
    next
      case False
      then have e: "i32 (s + c) = s + c" using Cons.prems p le by (intro i32_id) auto
      then show ?thesis using Cons.prems p False by (simp add: Cons.IH)
    qed
  qed simp
  from this [of 0] show ?thesis
    using assms wf_countsD [OF assms] wf_counts_get(1) [OF assms, of latest]
    by (simp add: old_total_def wf_counts_def)
qed

subsection \<open>Cutting the holds\<close>

lemma cut_latest_hold_spec:
  assumes "wf_counts hold" "0 \<le> mget 0 (VersionReadyCountMap args) (LatestVersion args)"
  shows "wf_counts (cut_latest_hold args hold) \<and>
    (\<forall>v. mget 0 (cut_latest_hold args hold) v \<le> mget 0 hold v \<and>
      min (mget 0 hold v) (mget 0 (VersionReadyCountMap args) v) \<le> mget 0 (cut_latest_hold args hold) v)"
  using assms wf_counts_get [OF assms(1), of "LatestVersion args"]
  by (auto simp: cut_latest_hold_def Let_def intro!: wf_counts_decrease)

lemma mkeys_cut: "set (mkeys (cut_latest_hold args hold)) \<subseteq> insert (LatestVersion args) (set (mkeys hold))"
  by (auto simp: cut_latest_hold_def Let_def split: if_splits)

lemma cap_hold_spec:
  assumes "wf_counts hold" "0 \<le> mget 0 (VersionCountMap args) version"
  shows "wf_counts (cap_hold args version hold) \<and>
    (\<forall>v. mget 0 (cap_hold args version hold) v =
      (if v = version then min (mget 0 hold v) (mget 0 (VersionCountMap args) v) else mget 0 hold v)) \<and>
    set (mkeys (cap_hold args version hold)) = set (mkeys hold)"
proof (cases "map_of hold version")
  case None
  then show ?thesis using assms by (auto simp: cap_hold_def mget_def)
next
  case (Some g)
  then have "mget 0 hold version = g" "version \<in> fst ` set hold"
    by (auto simp: mget_def dest: map_of_SomeD intro: rev_image_eqI)
  then show ?thesis using assms Some by (auto simp: cap_hold_def Let_def intro!: wf_counts_decrease)
qed

lemma fold_cap_hold_spec:
  assumes "wf_counts hold" "\<And>v. 0 \<le> mget 0 (VersionCountMap args) v"
  shows "wf_counts (fold (cap_hold args) vs hold) \<and>
    (\<forall>v. mget 0 (fold (cap_hold args) vs hold) v =
      (if v \<in> set vs then min (mget 0 hold v) (mget 0 (VersionCountMap args) v) else mget 0 hold v)) \<and>
    set (mkeys (fold (cap_hold args) vs hold)) = set (mkeys hold)"
  using assms(1)
proof (induction vs arbitrary: hold)
  case (Cons w vs)
  note c = cap_hold_spec [OF Cons.prems assms(2)]
  with Cons.IH [of "cap_hold args w hold"] show ?case by auto
qed simp

text \<open>
  One step of a trimming loop: some of the surplus over \<open>need\<close> is taken from one old version.
\<close>

lemma trim_step:
  assumes "wf_counts hold" "tot = msum hold" "need < tot" "0 \<le> need" "0 \<le> d" "d \<le> mget 0 hold v" "d \<le> tot - need"
  shows "i32 (mget 0 hold v - d) = mget 0 hold v - d" "i32 (tot - d) = tot - d" "i32 (tot - need) = tot - need"
    "wf_counts (mput v (mget 0 hold v - d) hold)" "tot - d = msum (mput v (mget 0 hold v - d) hold)"
    "need \<le> tot - d"
  using assms wf_counts_get [OF assms(1), of v] wf_countsD [OF assms(1)]
  by (auto simp: msum_mput intro!: i32_id wf_counts_decrease)

lemma trim_not_ready_spec:
  assumes "wf_counts hold" "tot = msum hold" "0 \<le> need" "need \<le> tot"
    and "trim_not_ready args need vs hold tot = (hold', tot')"
  shows "wf_counts hold' \<and> tot' = msum hold' \<and> need \<le> tot' \<and> (\<forall>v. mget 0 hold' v \<le> mget 0 hold v) \<and>
    set (mkeys hold') \<subseteq> set (mkeys hold) \<union> set vs"
  using assms
proof (induction vs arbitrary: hold tot)
  case Nil
  then show ?case by auto
next
  case (Cons v vs)
  consider "\<not> need < tot" | "need < tot" "v = LatestVersion args" | "need < tot" "v \<noteq> LatestVersion args" by blast
  then show ?case
  proof cases
    case 1
    with Cons.prems show ?thesis by auto
  next
    case 2
    then show ?thesis using Cons.IH [OF Cons.prems(1-4)] Cons.prems(5) by auto
  next
    case 3
    define d where "d = min (mget 0 hold v)
      (min (max 0 (i32 (mget 0 (VersionCountMap args) v - mget 0 (VersionReadyCountMap args) v))) (tot - need))"
    define h where "h = mput v (mget 0 hold v - d) hold"
    have d: "0 \<le> d" "d \<le> mget 0 hold v" "d \<le> tot - need"
      using wf_counts_get [OF Cons.prems(1), of v] 3(1) by (auto simp: d_def)
    note t = trim_step [OF Cons.prems(1,2) 3(1) Cons.prems(3) d, folded h_def]
    have "trim_not_ready args need vs h (tot - d) = (hold', tot')"
      using 3 Cons.prems(5) t(1,2,3) by (simp add: Let_def h_def d_def)
    note ih = Cons.IH [OF t(4,5) Cons.prems(3) t(6) this]
    have "mget 0 h w \<le> mget 0 hold w" for w using d(1) by (simp add: h_def)
    then show ?thesis using ih by (auto simp: h_def intro: order_trans)
  qed
qed

lemma trim_old_hold_spec:
  assumes "wf_counts hold" "tot = msum hold" "0 \<le> need" "need \<le> tot"
    and "trim_old_hold args need vs hold tot = (hold', tot')"
  shows "wf_counts hold' \<and> tot' = msum hold' \<and> need \<le> tot' \<and> (\<forall>v. mget 0 hold' v \<le> mget 0 hold v) \<and>
    set (mkeys hold') \<subseteq> set (mkeys hold) \<union> set vs \<and>
    (tot' = need \<or> (\<forall>v \<in> set vs. v \<noteq> LatestVersion args \<longrightarrow> mget 0 hold' v = 0))"
  using assms
proof (induction vs arbitrary: hold tot)
  case Nil
  then show ?case by auto
next
  case (Cons v vs)
  consider "\<not> need < tot" | "need < tot" "v = LatestVersion args" | "need < tot" "v \<noteq> LatestVersion args" by blast
  then show ?case
  proof cases
    case 1
    with Cons.prems show ?thesis by auto
  next
    case 2
    then show ?thesis using Cons.IH [OF Cons.prems(1-4)] Cons.prems(5) by auto
  next
    case 3
    define d where "d = min (mget 0 hold v) (tot - need)"
    define h where "h = mput v (mget 0 hold v - d) hold"
    have d: "0 \<le> d" "d \<le> mget 0 hold v" "d \<le> tot - need"
      using wf_counts_get [OF Cons.prems(1), of v] 3(1) by (auto simp: d_def)
    note t = trim_step [OF Cons.prems(1,2) 3(1) Cons.prems(3) d, folded h_def]
    have r: "trim_old_hold args need vs h (tot - d) = (hold', tot')"
      using 3 Cons.prems(5) t(1,2,3) by (simp add: Let_def h_def d_def)
    note ih = Cons.IH [OF t(4,5) Cons.prems(3) t(6) r]
    have le: "mget 0 h w \<le> mget 0 hold w" for w using d(1) by (simp add: h_def)
    have "tot' = need \<or> mget 0 hold' v = 0"
    proof (cases "d = mget 0 hold v")
      case True
      then have "mget 0 hold' v \<le> 0" using ih by (auto simp: h_def dest: spec [of _ v])
      then show ?thesis using ih wf_counts_get(1) [of hold' v] by force
    next
      case False
      then have "tot - d = need" by (auto simp: d_def min_def split: if_splits)
      then show ?thesis using r by (cases vs) auto
    qed
    then show ?thesis using ih le by (auto simp: h_def intro: order_trans)
  qed
qed

lemma msum_only:
  assumes "wf_counts m" "\<And>v. v \<in> set (mkeys m) \<Longrightarrow> v \<noteq> l \<Longrightarrow> mget 0 m v = 0"
  shows "msum m = mget 0 m l"
proof -
  have z: "mget 0 (mput l 0 m) v = 0" for v using assms(2) [of v] by (cases "v \<in> set (mkeys m)") (auto simp: mget_notin)
  have w: "wf_counts (mput l 0 m)"
    using wf_counts_get [OF assms(1), of l] by (intro wf_counts_decrease assms(1)) auto
  have "msum (mput l 0 m) \<le> 0" 
    using wf_counts_mono [OF w, of "[]"] z by (simp add: wf_counts_def del: mget_mput)
  then have "msum (mput l 0 m) = 0" using wf_countsD(2) [OF w] by simp
  then show ?thesis using assms(1) by (simp add: msum_mput wf_countsD)
qed

lemma trim_latest_hold_spec:
  assumes "wf_counts hold" "tot = msum hold" "0 \<le> need" "need \<le> tot"
    and "tot = need \<or> (\<forall>v \<in> set (mkeys hold). v \<noteq> LatestVersion args \<longrightarrow> mget 0 hold v = 0)"
  defines "hold' \<equiv> trim_latest_hold args need (hold, tot)"
  shows "wf_counts hold' \<and> msum hold' = need \<and> (\<forall>v. mget 0 hold' v \<le> mget 0 hold v)"
proof (cases "need < tot")
  case False
  then show ?thesis using assms by (auto simp: trim_latest_hold_def)
next
  case True
  let ?l = "LatestVersion args"
  have "tot = mget 0 hold ?l" using msum_only [OF assms(1), of ?l] assms(2,5) True by auto
  then have d: "0 \<le> tot - need" "tot - need \<le> mget 0 hold ?l" "tot - need \<le> tot - need"
    "min (mget 0 hold ?l) (tot - need) = tot - need" using True assms(3) by auto
  note t = trim_step [OF assms(1,2) True assms(3) d(1-3)]
  have "hold' = mput ?l (mget 0 hold ?l - (tot - need)) hold"
    using True t(1,3) d(4) by (simp add: hold'_def trim_latest_hold_def Let_def)
  then show ?thesis using t(4,5) d(1) by auto
qed

text \<open>The held counts and the count to hold stay in the range of \<^verbatim>\<open>int32\<close>.\<close>

definition hold_inputs_ok :: "ShardScheduleParams \<Rightarrow> matrix \<Rightarrow> bool" where
  "hold_inputs_ok args hold \<longleftrightarrow> wf_counts hold \<and> wf_counts (VersionReadyCountMap args) \<and>
     wf_counts (VersionCountMap args) \<and> 0 \<le> minAvailable args \<and> 0 \<le> maxUnavailable args \<and>
     0 \<le> targetLatestReplicas args \<and> targetLatestReplicas args < 2147483648 \<and>
     minAvailable args + maxUnavailable args + msum hold < 2147483647 \<and>
     msum hold + msum (VersionReadyCountMap args) < 2147483648"

lemma need_hold_ge:
  assumes "hold_inputs_ok args hold" "wf_counts h" "\<And>v. mget 0 h v \<le> mget 0 hold v"
  shows "minAvailable args \<le> need_hold args h"
proof -
  let ?l = "LatestVersion args"
  note a = assms(1) [unfolded hold_inputs_ok_def]
  have hl: "0 \<le> mget 0 h ?l" "mget 0 h ?l \<le> msum hold"
    using wf_counts_get [OF assms(2), of ?l] assms(3) [of ?l] a wf_counts_get(2) [of hold ?l] by auto
  have m: "0 \<le> msum hold" using a by (simp add: wf_countsD)
  have w: "i32 (targetLatestReplicas args - mget 0 h ?l) = targetLatestReplicas args - mget 0 h ?l"
    using a hl by (intro i32_id) auto
  show ?thesis
    using a hl m by (auto simp: need_hold_def w Let_def i32_id)
qed

lemma filterVersionHoldingMap_spec:
  fixes env :: roll_env
  assumes "hold_inputs_ok args hold" "set (mkeys hold) \<subseteq> set (VersionSortKeys args)"
    and "LatestVersion args \<in> set (VersionSortKeys args)"
  defines "h1 \<equiv> cut_latest_hold args hold" and "h' \<equiv> filterVersionHoldingMap env args hold"
  defines "need \<equiv> need_hold args h1"
  shows "wf_counts h' \<and> (\<forall>v. mget 0 h' v \<le> mget 0 hold v) \<and>
    msum h' = min need (if msum h1 \<le> need then msum h1 else msum (fold (cap_hold args) (VersionSortKeys args) h1))"
proof -
  note a = assms(1) [unfolded hold_inputs_ok_def]
  have c: "wf_counts h1" "\<And>v. mget 0 h1 v \<le> mget 0 hold v"
    using cut_latest_hold_spec [of hold args] a by (auto simp: h1_def wf_counts_get)
  have need0: "0 \<le> need" using need_hold_ge [OF assms(1) c] a by (simp add: need_def)
  have k1: "set (mkeys h1) \<subseteq> set (VersionSortKeys args)" 
    unfolding h1_def by (rule order_trans [OF mkeys_cut]) (use assms(2,3) in auto)
  show ?thesis
  proof (cases "msum h1 \<le> need")
    case True
    then have "h' = h1"
      by (simp add: h'_def filterVersionHoldingMap_def Let_def h1_def [symmetric] need_def [symmetric]
          getTotalCount_counts [OF c(1)])
    with c True show ?thesis by simp
  next
    case False
    define keys where "keys = sortVersions env (VersionSortKeys args) (LatestVersion args) (VersionReadyPercentMap args)
      (of_int (maxUnavailablePercent args)) RollingStrategyLatestFirst"
    have sk: "set keys = set (VersionSortKeys args)" by (simp add: keys_def)
    define h2 where "h2 = fold (cap_hold args) keys h1"
    have cnt: "0 \<le> mget 0 (VersionCountMap args) v" for v using a by (simp add: wf_counts_get)
    note f = fold_cap_hold_spec [OF c(1) cnt]
    have p2: "wf_counts h2" "set (mkeys h2) = set (mkeys h1)" "\<And>v. mget 0 h2 v \<le> mget 0 h1 v"
      using f [of keys] by (auto simp: h2_def)
    have le: "mget 0 h2 v \<le> mget 0 hold v" for v using p2(3) [of v] c(2) [of v] by simp
    have same: "msum h2 = msum (fold (cap_hold args) (VersionSortKeys args) h1)"
      using f [of keys] f [of "VersionSortKeys args"] sk
      by (intro antisym wf_counts_mono) (auto simp: h2_def)
    have h': "h' = (if msum h2 > need then
        (let (hold, tot) = trim_not_ready args need (rev keys) h2 (msum h2)
         in trim_latest_hold args need (trim_old_hold args need (rev keys) hold tot)) else h2)"
      using False by (simp add: h'_def filterVersionHoldingMap_def Let_def h1_def [symmetric] need_def [symmetric]
          getTotalCount_counts [OF c(1)] getTotalCount_counts [OF p2(1)] keys_def [symmetric] h2_def [symmetric])
    show ?thesis
    proof (cases "msum h2 > need")
      case False
      with h' p2(1) le same \<open>\<not> msum h1 \<le> need\<close> show ?thesis by simp
    next
      case True
      obtain h3 t3 where t3: "trim_not_ready args need (rev keys) h2 (msum h2) = (h3, t3)"
        by (cases "trim_not_ready args need (rev keys) h2 (msum h2)")
      obtain h4 t4 where t4: "trim_old_hold args need (rev keys) h3 t3 = (h4, t4)"
        by (cases "trim_old_hold args need (rev keys) h3 t3")
      note n3 = trim_not_ready_spec [OF p2(1) refl need0 less_imp_le [OF True] t3]
      then have p3: "wf_counts h3" "t3 = msum h3" "need \<le> t3" "\<And>v. mget 0 h3 v \<le> mget 0 h2 v" by auto
      have k3: "set (mkeys h3) \<subseteq> set keys" using n3 p2(2) k1 sk by (auto simp del: set_map)
      have p4: "wf_counts h4" "t4 = msum h4" "need \<le> t4" "\<And>v. mget 0 h4 v \<le> mget 0 h3 v"
        "t4 = need \<or> (\<forall>v \<in> set (mkeys h4). v \<noteq> LatestVersion args \<longrightarrow> mget 0 h4 v = 0)"
        using trim_old_hold_spec [OF p3(1,2) need0 p3(3) t4] k3 by (auto simp del: set_map)
      have "h' = trim_latest_hold args need (h4, t4)" using h' True t3 t4 by simp
      then have p5: "wf_counts h'" "msum h' = need" "\<And>v. mget 0 h' v \<le> mget 0 h4 v"
        using trim_latest_hold_spec [OF p4(1,2) need0 p4(3,5)] by simp_all
      have "mget 0 h' v \<le> mget 0 hold v" for v using le [of v] p4(4) [of v] p3(4) [of v] p5(3) [of v] by linarith
      then show ?thesis using p5(1,2) True same \<open>\<not> msum h1 \<le> need\<close> by auto
    qed
  qed
qed

subsection \<open>Completing the holds\<close>

lemma hold_step:
  assumes "wf_counts hold" "0 \<le> d" "d \<le> extra" "msum hold + extra < 2147483648"
  shows "i32 (mget 0 hold v + d) = mget 0 hold v + d"
    "wf_counts (mput v (mget 0 hold v + d) hold)" "msum (mput v (mget 0 hold v + d) hold) = msum hold + d"
  using assms wf_counts_get [OF assms(1), of v] wf_countsD [OF assms(1)]
  by (auto simp: msum_mput intro!: i32_id wf_counts_mput)

lemma complete_old_hold_spec:
  fixes vs :: "string list"
  assumes "wf_counts hold" "wf_counts (VersionReadyCountMap args)" "0 < extra" "msum hold + extra < 2147483648"
  defines "r \<equiv> VersionReadyCountMap args" and "h' \<equiv> complete_old_hold args vs hold extra"
  shows "wf_counts h' \<and> msum h' \<le> msum hold + extra \<and>
    (\<forall>v. mget 0 hold v \<le> mget 0 h' v \<and> mget 0 h' v \<le> max (mget 0 hold v) (mget 0 r v)) \<and>
    mget 0 h' (LatestVersion args) = mget 0 hold (LatestVersion args) \<and>
    (msum h' = msum hold + extra \<or> (\<forall>v \<in> set vs. v \<noteq> LatestVersion args \<longrightarrow> mget 0 r v \<le> mget 0 h' v))"
  using assms(1,3,4) unfolding h'_def
proof (induction vs arbitrary: hold extra)
  case Nil
  then show ?case by auto
next
  case (Cons v vs)
  let ?h = "mget 0 hold v" let ?r = "mget 0 r v"
  note bh = wf_counts_get [OF Cons.prems(1), of v] and br = wf_counts_get [OF assms(2), of v, folded r_def]
  consider "v = LatestVersion args" | "v \<noteq> LatestVersion args" "?r \<le> ?h" | "v \<noteq> LatestVersion args" "?h < ?r"
    by linarith
  then show ?case
  proof cases
    case 1
    then show ?thesis using Cons.IH [OF Cons.prems] by simp
  next
    case 2
    then have "complete_old_hold args (v # vs) hold extra = complete_old_hold args vs hold extra"
      by (simp add: r_def)
    moreover have "?h \<le> x \<Longrightarrow> ?r \<le> x" for x using 2(2) by simp
    ultimately show ?thesis using Cons.IH [OF Cons.prems] by simp
  next
    case 3
    define d where "d = min extra (?r - ?h)"
    have i: "i32 (?r - ?h) = ?r - ?h" using bh br by (intro i32_id) auto
    have d: "0 < d" "d \<le> extra" "d \<le> ?r - ?h" using 3(2) Cons.prems(2) by (auto simp: d_def)
    define h where "h = mput v (?h + d) hold"
    note st = hold_step [OF Cons.prems(1) less_imp_le [OF d(1)] d(2) Cons.prems(3), of v, folded h_def]
    have ie: "i32 (extra - d) = extra - d"
      using d(1,2) Cons.prems(3) wf_countsD [OF Cons.prems(1)] by (intro i32_id) auto
    have u: "complete_old_hold args (v # vs) hold extra =
        (if extra - d \<le> 0 then h else complete_old_hold args vs h (extra - d))"
      using 3 d(1) i st(1) ie by (simp add: r_def [symmetric] Let_def d_def [symmetric] h_def)
    have g: "mget 0 h w = (if w = v then ?h + d else mget 0 hold w)" for w by (simp add: h_def)
    have bd: "mget 0 hold w \<le> mget 0 h w \<and> mget 0 h w \<le> max (mget 0 hold w) (mget 0 r w)" for w
      using d g [of w] by (cases "w = v"; simp; linarith)
    have lt: "mget 0 h (LatestVersion args) = mget 0 hold (LatestVersion args)" using g 3(1) by simp
    show ?thesis
    proof (cases "extra - d \<le> 0")
      case True
      then have "extra = d" using d(2) by simp
      then show ?thesis using u st(2,3) bd lt by auto
    next
      case False
      then have hv: "mget 0 h v = ?r" using g [of v] d(3) by (simp add: d_def min_def split: if_splits)
      let ?h' = "complete_old_hold args vs h (extra - d)"
      have ih: "wf_counts ?h'" "msum ?h' \<le> msum hold + extra"
        "\<And>w. mget 0 h w \<le> mget 0 ?h' w" "\<And>w. mget 0 ?h' w \<le> max (mget 0 h w) (mget 0 r w)"
        "mget 0 ?h' (LatestVersion args) = mget 0 h (LatestVersion args)"
        "msum ?h' = msum hold + extra \<or> (\<forall>w \<in> set vs. w \<noteq> LatestVersion args \<longrightarrow> mget 0 r w \<le> mget 0 ?h' w)"
        using Cons.IH [OF st(2), of "extra - d"] False st(3) Cons.prems(3) by auto
      have "mget 0 hold w \<le> mget 0 ?h' w \<and> mget 0 ?h' w \<le> max (mget 0 hold w) (mget 0 r w)" for w
        using bd [of w] ih(3,4) [of w] by linarith
      moreover have "?r \<le> mget 0 ?h' v" using ih(3) [of v] hv by simp
      ultimately show ?thesis using u False ih(1,2,5,6) lt by auto
    qed
  qed
qed

lemma completeAvailableHold_spec:
  assumes "hold_inputs_ok args hold"
  defines "r \<equiv> VersionReadyCountMap args" and "l \<equiv> LatestVersion args" and "h' \<equiv> completeAvailableHold args hold"
  shows "wf_counts h' \<and> (\<forall>v. mget 0 hold v \<le> mget 0 h' v \<and> mget 0 h' v \<le> max (mget 0 hold v) (mget 0 r v)) \<and>
    (minAvailable args \<le> msum h' \<or> min (mget 0 r l) (targetLatestReplicas args) \<le> mget 0 h' l \<and>
      (\<forall>v \<in> set (VersionSortKeys args). v \<noteq> l \<longrightarrow> mget 0 r v \<le> mget 0 h' v))"
proof -
  note a = assms(1) [unfolded hold_inputs_ok_def, folded r_def]
  then have w: "wf_counts hold" and wr: "wf_counts r" by auto
  let ?hl = "mget 0 hold l" let ?rl = "mget 0 r l" let ?t = "targetLatestReplicas args"
  note b = wf_counts_get [OF w, of l] wf_counts_get [OF wr, of l] wf_countsD [OF w]
  define e where "e = minAvailable args - msum hold"
  define x where "x = (if 0 \<le> ?t - ?hl \<and> ?rl - ?hl > ?t - ?hl then ?t - ?hl else ?rl - ?hl)"
  have i: "i32 (?rl - ?hl) = ?rl - ?hl" "i32 (?t - ?hl) = ?t - ?hl"
    using a b by (auto intro!: i32_id)
  have ie: "0 < e \<Longrightarrow> i32 e = e" using a b by (intro i32_id) (auto simp: e_def)
  have u: "h' = (if 0 < e then
      (if 0 < x then (let h = mput l (i32 (?hl + x)) hold in
         if i32 (e - x) \<le> 0 then h else complete_old_hold args (VersionSortKeys args) h (i32 (e - x)))
       else complete_old_hold args (VersionSortKeys args) hold e) else hold)"
    using i ie by (auto simp: h'_def completeAvailableHold_def Let_def getTotalCount_counts [OF w] e_def x_def
        l_def [symmetric] r_def [symmetric])
  have ml: "min ?rl ?t \<le> ?hl + max 0 x" by (auto simp: x_def)
  consider "e \<le> 0" | "0 < e" "x \<le> 0" | "0 < e" "0 < x" by linarith
  then show ?thesis
  proof cases
    case 1
    then show ?thesis using u w by (simp add: e_def)
  next
    case 2
    have "h' = complete_old_hold args (VersionSortKeys args) hold e" using u 2 by simp
    moreover have "msum hold + e < 2147483648" "msum hold + e = minAvailable args"
      using a b by (auto simp: e_def)
    ultimately show ?thesis
      using complete_old_hold_spec [OF w, of args e "VersionSortKeys args"] wr 2 ml by (auto simp: r_def l_def)
  next
    case 3
    have xr: "x \<le> ?rl - ?hl" by (simp add: x_def)
    have "msum hold + x < 2147483648" using a b xr by auto
    note st = hold_step [OF w less_imp_le [OF 3(2)] order_refl this, of l]
    define h where "h = mput l (?hl + x) hold"
    have ix: "i32 (e - x) = e - x" using a b xr 3 by (intro i32_id) (auto simp: e_def)
    have h: "h' = (if e - x \<le> 0 then h else complete_old_hold args (VersionSortKeys args) h (e - x))"
      using u 3 st(1) ix by (simp add: h_def Let_def)
    have wh: "wf_counts h" "msum h = msum hold + x" using st by (auto simp: h_def)
    have bd: "mget 0 hold v \<le> mget 0 h v \<and> mget 0 h v \<le> max (mget 0 hold v) (mget 0 r v)" for v
      using 3(2) xr by (simp add: h_def)
    have hl: "mget 0 h l = ?hl + x" by (simp add: h_def)
    show ?thesis
    proof (cases "e - x \<le> 0")
      case True
      then show ?thesis using h wh bd by (simp add: e_def)
    next
      case False
      have fit: "msum h + (e - x) < 2147483648" "msum h + (e - x) = minAvailable args"
        using wh(2) a b by (auto simp: e_def)
      have c: "wf_counts h'" "\<And>v. mget 0 h v \<le> mget 0 h' v" "\<And>v. mget 0 h' v \<le> max (mget 0 h v) (mget 0 r v)"
        "mget 0 h' l = mget 0 h l"
        "msum h' = minAvailable args \<or> (\<forall>v \<in> set (VersionSortKeys args). v \<noteq> l \<longrightarrow> mget 0 r v \<le> mget 0 h' v)"
        using complete_old_hold_spec [OF wh(1), of args "e - x" "VersionSortKeys args"] False fit h wr
        by (auto simp: r_def l_def)
      have "mget 0 hold v \<le> mget 0 h' v \<and> mget 0 h' v \<le> max (mget 0 hold v) (mget 0 r v)" for v
        using bd [of v] c(2,3) [of v] by linarith
      then show ?thesis using c(1,4,5) hl ml 3(2) by auto
    qed
  qed
qed

subsection \<open>Scaling in\<close>

lemma versionScacleIn_spec:
  assumes "wf_counts m" "0 \<le> oversize" "0 \<le> getHoldCount params version" "getHoldCount params version < 2147483648"
    and "versionScacleIn params version oversize m = (redudant, m')"
  shows "wf_counts m' \<and> redudant = min oversize (max 0 (mget 0 m version - getHoldCount params version)) \<and>
    msum m' = msum m - redudant \<and>
    (\<forall>v. mget 0 m' v = (if v = version then mget 0 m v - redudant else mget 0 m v))"
proof -
  let ?c = "mget 0 m version" let ?h = "getHoldCount params version"
  have c: "0 \<le> ?c" "?c < 2147483648" using wf_counts_get [OF assms(1)] by auto
  have d: "i32 (?c - ?h) = ?c - ?h" using assms(3,4) c by (intro i32_id) auto
  let ?r = "min oversize (max 0 (?c - ?h))"
  have r: "0 \<le> ?r" "?r \<le> ?c" using assms(2,3) c by auto
  have e: "i32 (?c - ?r) = ?c - ?r" using r c by (intro i32_id) auto
  have "redudant = ?r" "m' = mput version (?c - ?r) m"
    using assms(5) by (auto simp: versionScacleIn_def Let_def d e)
  then show ?thesis
    using assms(1) r c by (auto simp: msum_mput wf_countsD intro: wf_counts_decrease)
qed

text \<open>What scaling in can take from the old versions of a list.\<close>

definition spare :: "ShardScheduleParams \<Rightarrow> string list \<Rightarrow> matrix \<Rightarrow> int" where
  "spare params vs m = sum_list (map (\<lambda>v. if v = LatestVersion params then 0
     else max 0 (mget 0 m v - getHoldCount params v)) vs)"

lemma spare_nonneg: "0 \<le> spare params vs m"
  unfolding spare_def by (rule sum_list_nonneg) auto

lemma spare_cong: "(\<And>v. v \<in> set vs \<Longrightarrow> mget 0 m v = mget 0 m' v) \<Longrightarrow> spare params vs m = spare params vs m'"
  unfolding spare_def by (intro arg_cong [of _ _ sum_list] map_cong) auto

definition holds_ok :: "ShardScheduleParams \<Rightarrow> bool" where
  "holds_ok params \<longleftrightarrow> wf_counts (versionHoldingMap params)"

lemma holds_okD: "holds_ok params \<Longrightarrow> 0 \<le> getHoldCount params v \<and> getHoldCount params v < 2147483648"
  by (auto simp: holds_ok_def getHoldCount_def wf_counts_get)

lemma old_scale_in_spec:
  assumes "holds_ok params" "wf_counts m" "0 \<le> oversize" "oversize < 2147483648" "distinct vs" "0 \<le> red"
    and "red + msum m < 2147483648" "old_scale_in params vs oversize red m = (red', m')"
  shows "wf_counts m' \<and> red' = red + min oversize (spare params vs m) \<and> msum m' = msum m - (red' - red) \<and>
    (\<forall>v. mget 0 m' v \<le> mget 0 m v \<and> min (mget 0 m v) (getHoldCount params v) \<le> mget 0 m' v) \<and>
    mget 0 m' (LatestVersion params) = mget 0 m (LatestVersion params)"
  using assms
proof (induction params vs oversize red m arbitrary: red' m' rule: old_scale_in.induct)
  case (1 params oversize redudantCount m)
  then show ?case by (simp add: spare_def)
next
  case (2 params version vs oversize red m)
  show ?case
  proof (cases "version = LatestVersion params")
    case True
    with 2 show ?thesis by (simp add: spare_def)
  next
    case False
    obtain r m1 where s: "versionScacleIn params version oversize m = (r, m1)"
      by (cases "versionScacleIn params version oversize m")
    note hd = holds_okD [OF "2.prems"(1), of version]
    note sp = versionScacleIn_spec [OF "2.prems"(2,3) _ _ s]
    let ?x = "max 0 (mget 0 m version - getHoldCount params version)"
    have r: "r = min oversize ?x" and w1: "wf_counts m1" and s1: "msum m1 = msum m - r"
      and g1: "\<And>v. mget 0 m1 v = (if v = version then mget 0 m v - r else mget 0 m v)"
      using sp hd by auto
    have r0: "0 \<le> r" "r \<le> oversize" "r \<le> msum m"
      using r "2.prems"(3) hd wf_counts_get [OF "2.prems"(2), of version] by auto
    have i1: "i32 (oversize - r) = oversize - r" "i32 (red + r) = red + r"
      using r0 "2.prems"(4,6,7) by (auto intro!: i32_id)
    have sp1: "spare params vs m1 = spare params vs m"
      using "2.prems"(5) by (intro spare_cong) (auto simp: g1)
    have sp2: "spare params (version # vs) m = ?x + spare params vs m"
      using False by (simp add: spare_def)
    have ih: "wf_counts m' \<and> red' = red + r + min (oversize - r) (spare params vs m1) \<and>
        msum m' = msum m1 - (red' - (red + r)) \<and>
        (\<forall>v. mget 0 m' v \<le> mget 0 m1 v \<and> min (mget 0 m1 v) (getHoldCount params v) \<le> mget 0 m' v) \<and>
        mget 0 m' (LatestVersion params) = mget 0 m1 (LatestVersion params)"
      using "2.IH"(2) [of "(r, m1)" r m1] False s "2.prems" i1 r0 w1 s1 by auto
    have "mget 0 m' v \<le> mget 0 m v \<and> min (mget 0 m v) (getHoldCount params v) \<le> mget 0 m' v" for v
    proof -
      have "mget 0 m' v \<le> mget 0 m1 v" "min (mget 0 m1 v) (getHoldCount params v) \<le> mget 0 m' v"
        using ih by auto
      moreover have "r \<le> ?x" using r by simp
      ultimately show ?thesis using g1 [of v] r0(1) by (intro conjI; cases "v = version"; simp; linarith)
    qed
    moreover have "min oversize (?x + spare params vs m) = r + min (oversize - r) (spare params vs m)"
      using r spare_nonneg [of params vs m] by auto
    ultimately show ?thesis using ih s1 sp1 sp2 g1 False by auto
  qed
qed

lemma oldVersionScaleIn_spec:
  assumes "holds_ok params" "wf_counts m" "oversize < 2147483648" "distinct (VersionSortKeys params)"
    and "oldVersionScaleIn params oversize m = (red, m')"
  shows "wf_counts m' \<and> red = min (max 0 oversize) (spare params (VersionSortKeys params) m) \<and>
    msum m' = msum m - red \<and>
    (\<forall>v. mget 0 m' v \<le> mget 0 m v \<and> min (mget 0 m v) (getHoldCount params v) \<le> mget 0 m' v) \<and>
    mget 0 m' (LatestVersion params) = mget 0 m (LatestVersion params)"
proof (cases "oversize \<le> 0")
  case True
  then show ?thesis
    using assms spare_nonneg [of params "VersionSortKeys params" m] by (auto simp: oldVersionScaleIn_def)
next
  case False
  have rev: "spare params (rev vs) m = spare params vs m" for vs
    by (simp add: spare_def rev_map [symmetric] sum_list_rev)
  have "old_scale_in params (rev (VersionSortKeys params)) oversize 0 m = (red, m')"
    using assms(5) False by (simp add: oldVersionScaleIn_def)
  from old_scale_in_spec [OF assms(1,2) _ assms(3) _ _ _ this] show ?thesis
    using False assms(4) wf_countsD [OF assms(2)] by (auto simp: rev max_def)
qed

lemma latestVersionScaleIn_spec:
  assumes "holds_ok params" "wf_counts m" "0 \<le> red" "red + msum m < 2147483648"
    and "latestVersionScaleIn params oversize red m = (red', m')"
  shows "wf_counts m' \<and>
    red' = red + min (max 0 oversize) (max 0 (mget 0 m (LatestVersion params) - getLatestVersionHoldCount params)) \<and>
    msum m' = msum m - (red' - red) \<and>
    (\<forall>v. mget 0 m' v = (if v = LatestVersion params then mget 0 m v - (red' - red) else mget 0 m v))"
proof (cases "oversize \<le> 0")
  case True
  then show ?thesis using assms by (auto simp: latestVersionScaleIn_def)
next
  case False
  let ?l = "LatestVersion params"
  obtain r m1 where s: "versionScacleIn params ?l oversize m = (r, m1)"
    by (cases "versionScacleIn params ?l oversize m")
  have sp: "wf_counts m1 \<and> r = min oversize (max 0 (mget 0 m ?l - getHoldCount params ?l)) \<and>
      msum m1 = msum m - r \<and> (\<forall>v. mget 0 m1 v = (if v = ?l then mget 0 m v - r else mget 0 m v))"
    using versionScacleIn_spec [OF assms(2) _ _ _ s] False holds_okD [OF assms(1), of ?l] by auto
  then have "0 \<le> r" "r \<le> msum m"
    using False wf_counts_get [OF assms(2), of ?l] holds_okD [OF assms(1), of ?l] by auto
  then have "i32 (red + r) = red + r" using assms(3,4) by (intro i32_id) auto
  with assms(5) False s have "red' = red + r" "m' = m1" by (auto simp: latestVersionScaleIn_def)
  then show ?thesis using sp False by (auto simp: getLatestVersionHoldCount_def)
qed

subsection \<open>Scaling out\<close>

lemma versionScacleOut_spec:
  assumes "wf_counts m" "0 \<le> lack" "0 \<le> s" "msum m + s < 2147483648"
    and "versionScacleOut version lack s m = (s', m')"
  shows "wf_counts m' \<and> s' = s - min lack s \<and> msum m' + s' = msum m + s \<and>
    (\<forall>v. mget 0 m' v = (if v = version then mget 0 m v + min lack s else mget 0 m v))"
proof -
  note g = wf_counts_get [OF assms(1), of version]
  have "i32 (s - min lack s) = s - min lack s" "i32 (mget 0 m version + min lack s) = mget 0 m version + min lack s"
    using assms(2-4) g by (auto intro!: i32_id)
  then have e: "s' = s - min lack s" "m' = mput version (mget 0 m version + min lack s) m"
    using assms(5) by (auto simp: versionScacleOut_def Let_def)
  have "wf_counts m'" unfolding e(2) using assms(1-4) g by (intro wf_counts_mput) auto
  then show ?thesis using e assms(1) by (auto simp: msum_mput wf_countsD)
qed

lemma fill_holds_spec:
  assumes "holds_ok params" "wf_counts m" "0 < s" "msum m + s < 2147483648"
    and "fill_holds params vs s m = (ret, s', m')"
  shows "wf_counts m' \<and> 0 \<le> s' \<and> msum m' + s' = msum m + s \<and> (ret \<longleftrightarrow> s' = 0) \<and>
    (\<forall>v. mget 0 m v \<le> mget 0 m' v) \<and> mget 0 m' (LatestVersion params) = mget 0 m (LatestVersion params) \<and>
    (\<not> ret \<longrightarrow> (\<forall>v \<in> set vs. v \<noteq> LatestVersion params \<longrightarrow> getHoldCount params v \<le> mget 0 m' v))"
  using assms
proof (induction params vs s m arbitrary: ret s' m' rule: fill_holds.induct)
  case (1 params s m)
  then show ?case by auto
next
  case (2 params version vs s m)
  let ?h = "getHoldCount params version" let ?c = "mget 0 m version"
  consider "version = LatestVersion params" | "version \<noteq> LatestVersion params" "\<not> ?c < ?h"
    | "version \<noteq> LatestVersion params" "?c < ?h" by blast
  then show ?case
  proof cases
    case 1
    then show ?thesis using "2.IH"(1) "2.prems" by auto
  next
    case 2
    have f: "fill_holds params vs s m = (ret, s', m')"
      using 2 "2.prems"(5) by (simp add: getHoldCount_def)
    have "mget 0 m version \<le> mget 0 m' version \<Longrightarrow> ?h \<le> mget 0 m' version" using 2(2) by simp
    then show ?thesis using "2.IH"(3) [OF 2(1)] 2 "2.prems"(1-4) f by (auto simp: getHoldCount_def)
  next
    case 3
    have hc: "i32 (?h - ?c) = ?h - ?c"
      using holds_okD [OF "2.prems"(1), of version] wf_counts_get [OF "2.prems"(2), of version]
      by (intro i32_id) auto
    obtain s1 m1 where o: "versionScacleOut version (?h - ?c) s m = (s1, m1)"
      by (cases "versionScacleOut version (?h - ?c) s m")
    have sp: "wf_counts m1" "s1 = s - min (?h - ?c) s" "msum m1 + s1 = msum m + s"
      "\<And>v. mget 0 m1 v = (if v = version then mget 0 m v + min (?h - ?c) s else mget 0 m v)"
      using versionScacleOut_spec [OF "2.prems"(2) _ _ "2.prems"(4) o] 3 "2.prems"(3) by auto
    have up: "mget 0 m v \<le> mget 0 m1 v" for v using sp(4) [of v] 3 "2.prems"(3) by auto
    have l1: "mget 0 m1 (LatestVersion params) = mget 0 m (LatestVersion params)" using sp(4) 3(1) by simp
    show ?thesis
    proof (cases "s1 \<le> 0")
      case True
      then have "ret" "s' = s1" "m' = m1" "s1 = 0"
        using 3 "2.prems"(5) o hc sp(2) by (auto simp: getHoldCount_def)
      then show ?thesis using sp(1,3) up l1 by auto
    next
      case False
      then have f: "fill_holds params vs s1 m1 = (ret, s', m')"
        using 3 "2.prems"(5) o hc by (simp add: getHoldCount_def)
      have v1: "?h \<le> mget 0 m1 version" using sp(2,4) False by (auto simp: min_def split: if_splits)
      have ih: "wf_counts m' \<and> 0 \<le> s' \<and> msum m' + s' = msum m1 + s1 \<and> (ret \<longleftrightarrow> s' = 0) \<and>
          (\<forall>v. mget 0 m1 v \<le> mget 0 m' v) \<and> mget 0 m' (LatestVersion params) = mget 0 m1 (LatestVersion params) \<and>
          (\<not> ret \<longrightarrow> (\<forall>v \<in> set vs. v \<noteq> LatestVersion params \<longrightarrow> getHoldCount params v \<le> mget 0 m' v))"
        using "2.IH"(2) [OF 3(1), unfolded getHoldCount_def [symmetric], OF 3(2) refl, of "(s1, m1)" s1 m1]
          o hc False f "2.prems"(1,4) sp(1,3) by auto
      then have "?h \<le> mget 0 m' version" using v1 order_trans by blast
      moreover have "mget 0 m v \<le> mget 0 m' v" for v using ih up order_trans by blast
      ultimately show ?thesis using ih sp(3) l1 by auto
    qed
  qed
qed

lemma oldVersionScaleOut_spec:
  assumes "holds_ok params" "wf_counts m" "lack < 2147483648" "msum m + max 0 s < 2147483648"
    and "oldVersionScaleOut params lack s m = (s', m')"
  shows "wf_counts m' \<and> msum m' \<le> msum m + max 0 s \<and> (\<forall>v. mget 0 m v \<le> mget 0 m' v) \<and>
    mget 0 m' (LatestVersion params) = mget 0 m (LatestVersion params) \<and>
    (set (VersionSortKeys params) - {LatestVersion params} \<noteq> {} \<longrightarrow>
      msum m + min (max 0 lack) (max 0 s) \<le> msum m')"
proof (cases "lack \<le> 0 \<or> s \<le> 0")
  case True
  then show ?thesis using assms by (auto simp: oldVersionScaleOut_def)
next
  case False
  obtain ret s1 m1 where f: "fill_holds params (VersionSortKeys params) s m = (ret, s1, m1)"
    by (cases "fill_holds params (VersionSortKeys params) s m") auto
  have sp: "wf_counts m1" "0 \<le> s1" "msum m1 + s1 = msum m + s" "ret \<longleftrightarrow> s1 = 0"
    "\<And>v. mget 0 m v \<le> mget 0 m1 v" "mget 0 m1 (LatestVersion params) = mget 0 m (LatestVersion params)"
    using fill_holds_spec [OF assms(1,2) _ _ f] False assms(4) by auto
  show ?thesis
  proof (cases ret)
    case True
    then show ?thesis using sp f assms(5) False by (auto simp: oldVersionScaleOut_def)
  next
    case nret: False
    let ?f = "find (\<lambda>v. v \<noteq> LatestVersion params) (VersionSortKeys params)"
    let ?v = "case ?f of None \<Rightarrow> [] | Some v \<Rightarrow> v"
    show ?thesis
    proof (cases "?v = LatestVersion params")
      case True
      then have "?f = None \<or> ?f = Some (LatestVersion params)" by (auto split: option.splits)
      then have "?f = None" by (auto simp: find_Some_iff)
      then have "set (VersionSortKeys params) - {LatestVersion params} = {}" by (auto simp: find_None_iff)
      moreover have "m' = m1" using True nret f assms(5) False by (auto simp: oldVersionScaleOut_def)
      ultimately show ?thesis using sp False by auto
    next
      case vne: False
      then have o: "versionScacleOut ?v lack s1 m1 = (s', m')"
        using nret f assms(5) False by (simp add: oldVersionScaleOut_def)
      have sp2: "wf_counts m'" "s' = s1 - min lack s1" "msum m' + s' = msum m1 + s1"
        "\<And>v. mget 0 m' v = (if v = ?v then mget 0 m1 v + min lack s1 else mget 0 m1 v)"
        using versionScacleOut_spec [OF sp(1) _ sp(2) _ o] False assms(4) sp(3) by auto
      have "mget 0 m v \<le> mget 0 m' v" for v
        using sp(5) [of v] sp2(4) [of v] False sp(2) by (auto intro: order_trans)
      moreover have "mget 0 m' (LatestVersion params) = mget 0 m (LatestVersion params)"
        using sp(6) sp2(4) vne by auto
      moreover have "msum m \<le> msum m1" by (rule wf_counts_mono [OF assms(2) sp(1,5)])
      then have "msum m + min lack s \<le> msum m'" "msum m' \<le> msum m + s"
        using sp(2,3) sp2(2,3) by linarith+
      ultimately show ?thesis using sp2(1) False by auto
    qed
  qed
qed

lemma latestVersionScaleOut_spec:
  assumes "wf_counts m" "msum m + max 0 s < 2147483648"
    and "latestVersionScaleOut params lack s m = (s', m')"
  shows "wf_counts m' \<and> msum m' + max 0 s' = msum m + max 0 s \<and> msum m \<le> msum m' \<and>
    s' = s - min (max 0 lack) (max 0 s) \<and>
    (\<forall>v. mget 0 m' v = (if v = LatestVersion params then mget 0 m v + min (max 0 lack) (max 0 s) else mget 0 m v))"
proof (cases "lack \<le> 0 \<or> s \<le> 0")
  case True
  then show ?thesis using assms by (auto simp: latestVersionScaleOut_def)
next
  case False
  then have "versionScacleOut (LatestVersion params) lack s m = (s', m')"
    using assms(3) by (simp add: latestVersionScaleOut_def)
  from versionScacleOut_spec [OF assms(1) _ _ _ this] show ?thesis using False assms(2) by auto
qed

subsection \<open>The target matrix\<close>

text \<open>
  \<open>counts_ok\<close>: the counts of the parameters are those of the map \<^verbatim>\<open>VersionCountMap\<close>, as
  \<^verbatim>\<open>initScheduleArgs\<close> sets them. \<open>targets_ok\<close>: the two targets fit in the replicas allowed, as
  \<^verbatim>\<open>calcTarget\<close> leaves them.
\<close>

definition counts_ok :: "ShardScheduleParams \<Rightarrow> bool" where
  "counts_ok params \<longleftrightarrow> wf_counts (VersionCountMap params) \<and> distinct (VersionSortKeys params) \<and>
     CurTotalReplicas params = msum (VersionCountMap params) \<and>
     CurLatestReplicas params = mget 0 (VersionCountMap params) (LatestVersion params) \<and>
     CurOldReplicas params = msum (VersionCountMap params) - mget 0 (VersionCountMap params) (LatestVersion params)"

definition targets_ok :: "ShardScheduleParams \<Rightarrow> bool" where
  "targets_ok params \<longleftrightarrow> 0 \<le> targetLatestReplicas params \<and> 0 \<le> targetOldReplicas params \<and>
     targetLatestReplicas params + targetOldReplicas params \<le> maxReplicas params \<and>
     maxReplicas params < 2147483648"

text \<open>What each side can give up, and what is then left to hand out.\<close>

definition old_reclaim :: "ShardScheduleParams \<Rightarrow> int" where
  "old_reclaim params = min (max 0 (CurOldReplicas params - targetOldReplicas params))
     (spare params (VersionSortKeys params) (VersionCountMap params))"

definition latest_reclaim :: "ShardScheduleParams \<Rightarrow> int" where
  "latest_reclaim params = min (max 0 (CurLatestReplicas params - targetLatestReplicas params))
     (max 0 (CurLatestReplicas params - getLatestVersionHoldCount params))"

definition handout :: "ShardScheduleParams \<Rightarrow> int" where
  "handout params = old_reclaim params + latest_reclaim params + maxReplicas params - CurTotalReplicas params"

lemma target_matrix_spec:
  assumes "counts_ok params" "targets_ok params" "holds_ok params"
  defines "m \<equiv> VersionCountMap params" and "m' \<equiv> calculateVersionTargetMatrix params"
  defines "l \<equiv> LatestVersion params"
  defines "gain \<equiv> min (max 0 (targetLatestReplicas params - CurLatestReplicas params)) (max 0 (handout params))"
  shows "wf_counts m' \<and> msum m' \<le> max (maxReplicas params) (CurTotalReplicas params) \<and>
    (\<forall>v. min (mget 0 m v) (getHoldCount params v) \<le> mget 0 m' v) \<and>
    mget 0 m' l = CurLatestReplicas params - latest_reclaim params + gain \<and>
    (set (VersionSortKeys params) - {l} \<noteq> {} \<longrightarrow>
      CurTotalReplicas params - old_reclaim params - latest_reclaim params + gain
        + min (max 0 (targetOldReplicas params - CurOldReplicas params)) (max 0 (handout params - gain)) \<le> msum m') \<and>
    msum m' \<le> max (maxReplicas params) (CurTotalReplicas params - old_reclaim params - latest_reclaim params)"
proof -
  let ?xl = "CurLatestReplicas params - targetLatestReplicas params"
  let ?xo = "CurOldReplicas params - targetOldReplicas params"
  have w: "wf_counts m" and t: "CurTotalReplicas params = msum m" and cl: "CurLatestReplicas params = mget 0 m l"
    and co: "CurOldReplicas params = msum m - mget 0 m l" and dk: "distinct (VersionSortKeys params)"
    using assms(1) by (auto simp: counts_ok_def m_def l_def)
  note g = wf_counts_get [OF w, of l] wf_countsD [OF w]
  note tg = assms(2) [unfolded targets_ok_def]
  have ov: "calaulateOversize params = (?xl, ?xo)"
    using tg g t cl co by (auto simp: calaulateOversize_def intro!: i32_id)
  have neg: "i32 (- ?xl) = - ?xl" "i32 (- ?xo) = - ?xo" "?xo < 2147483648"
    using tg g t cl co by (auto intro!: i32_id)
  obtain r1 m1 where s1: "oldVersionScaleIn params ?xo m = (r1, m1)" by (cases "oldVersionScaleIn params ?xo m")
  have p1: "wf_counts m1" "r1 = old_reclaim params" "msum m1 = msum m - r1" "mget 0 m1 l = mget 0 m l"
    "\<And>v. min (mget 0 m v) (getHoldCount params v) \<le> mget 0 m1 v"
    using oldVersionScaleIn_spec [OF assms(3) w neg(3) dk s1]
    by (auto simp: old_reclaim_def m_def l_def)
  have r1: "0 \<le> r1" using p1(2) spare_nonneg by (simp add: old_reclaim_def)
  obtain r2 m2 where s2: "latestVersionScaleIn params ?xl r1 m1 = (r2, m2)"
    by (cases "latestVersionScaleIn params ?xl r1 m1")
  have p2: "wf_counts m2" "r2 = r1 + latest_reclaim params" "msum m2 = msum m1 - latest_reclaim params"
    "\<And>v. mget 0 m2 v = (if v = l then mget 0 m1 v - latest_reclaim params else mget 0 m1 v)"
    using latestVersionScaleIn_spec [OF assms(3) p1(1) r1 _ s2] p1(3,4) g cl
    by (auto simp: latest_reclaim_def l_def)
  have lr: "0 \<le> latest_reclaim params" "latest_reclaim params \<le> max 0 (mget 0 m l - getHoldCount params l)"
    by (auto simp: latest_reclaim_def getLatestVersionHoldCount_def cl l_def)
  have ie: "i32 (maxReplicas params - CurTotalReplicas params) = maxReplicas params - CurTotalReplicas params"
    using tg g t by (intro i32_id) auto
  have ms2: "0 \<le> msum m2" using wf_countsD(2) [OF p2(1)] .
  have sup: "i32 (r2 + (maxReplicas params - CurTotalReplicas params)) = handout params"
  proof -
    have "r2 + (maxReplicas params - CurTotalReplicas params) = handout params"
      using p1(2) p2(2) by (simp add: handout_def)
    moreover have "- 2147483648 \<le> handout params" "handout params < 2147483648"
      using p1(2,3) p2(2,3) r1 lr(1) ms2 t tg g by (auto simp: handout_def)
    ultimately show ?thesis by (simp add: i32_id)
  qed
  have fit: "msum m2 + max 0 (handout params) < 2147483648"
    using p1(2,3) p2(2,3) t tg g lr(1) r1 by (auto simp: handout_def max_def)
  obtain s3 m3 where o3: "latestVersionScaleOut params (- ?xl) (handout params) m2 = (s3, m3)"
    by (cases "latestVersionScaleOut params (- ?xl) (handout params) m2")
  have p3: "wf_counts m3" "msum m3 + max 0 s3 = msum m2 + max 0 (handout params)" "msum m2 \<le> msum m3"
    "s3 = handout params - gain"
    "\<And>v. mget 0 m3 v = (if v = l then mget 0 m2 v + gain else mget 0 m2 v)"
    using latestVersionScaleOut_spec [OF p2(1) fit o3] by (auto simp: gain_def l_def)
  have gn: "0 \<le> gain" by (simp add: gain_def)
  obtain s4 m4 where o4: "oldVersionScaleOut params (- ?xo) s3 m3 = (s4, m4)"
    by (cases "oldVersionScaleOut params (- ?xo) s3 m3")
  have fit3: "msum m3 + max 0 s3 < 2147483648" using p3(2) fit by simp
  have xo: "- ?xo < 2147483648" using tg g co by auto
  have p4: "wf_counts m4" "msum m4 \<le> msum m3 + max 0 s3" "\<And>v. mget 0 m3 v \<le> mget 0 m4 v"
    "mget 0 m4 l = mget 0 m3 l"
    "set (VersionSortKeys params) - {l} \<noteq> {} \<longrightarrow> msum m3 + min (max 0 (- ?xo)) (max 0 s3) \<le> msum m4"
    using oldVersionScaleOut_spec [OF assms(3) p3(1) xo fit3 o4] by (auto simp: l_def)
  have e: "m' = m4"
    using s1 s2 o3 o4 ie sup neg(1,2)
    by (simp add: m'_def calculateVersionTargetMatrix_def ov m_def [symmetric] Let_def)
  have "min (mget 0 m v) (getHoldCount params v) \<le> mget 0 m4 v" for v
  proof -
    have "min (mget 0 m v) (getHoldCount params v) \<le> mget 0 m2 v"
      using p1(4) p1(5) [of v] p2(4) [of v] lr(2) by (cases "v = l"; simp; linarith)
    moreover have "mget 0 m2 v \<le> mget 0 m4 v" using p3(5) [of v] p4(3) [of v] gn by (auto split: if_splits)
    ultimately show ?thesis by linarith
  qed
  moreover have "msum m4 \<le> max (maxReplicas params) (CurTotalReplicas params)"
    using p4(2) p3(2) p2(3) p1(2,3) lr(1) r1 t by (auto simp: handout_def max_def split: if_splits)
  moreover have "msum m4 \<le> max (maxReplicas params) (CurTotalReplicas params - old_reclaim params - latest_reclaim params)"
    using p4(2) p3(2) p2(3) p1(2,3) t by (auto simp: handout_def max_def split: if_splits)
  moreover have "mget 0 m4 l = CurLatestReplicas params - latest_reclaim params + gain"
    using p4(4) p3(5) p2(4) p1(4) cl by simp
  moreover have "msum m3 = CurTotalReplicas params - old_reclaim params - latest_reclaim params + gain"
    using p3(2,4) p2(3) p1(2,3) t by (auto simp: gain_def max_def min_def split: if_splits)
  ultimately show ?thesis using e p4(1,5) p3(4) by simp
qed

subsection \<open>Targets\<close>

text \<open>
  The parameters of a shard that is not being released, as \<^verbatim>\<open>NewShardScheduleParams\<close> makes them:
  ratios are percentages, the replicas allowed are at least the replicas desired, and the sums the
  code forms stay in the range of \<^verbatim>\<open>int32\<close>.
\<close>

definition inputs_ok :: "ShardScheduleParams \<Rightarrow> bool" where
  "inputs_ok params \<longleftrightarrow> counts_ok params \<and> wf_counts (VersionReadyCountMap params) \<and>
     0 \<le> latestVersionRatio params \<and> latestVersionRatio params \<le> 100 \<and>
     0 \<le> paddedLatestVersionRatio params \<and> paddedLatestVersionRatio params \<le> 100 \<and>
     0 \<le> Desired params \<and> Desired params \<le> maxReplicas params \<and> 0 < maxReplicas params \<and>
     0 \<le> minAvailable params \<and> 0 \<le> maxUnavailable params \<and>
     msum (VersionReadyCountMap params) + maxUnavailable params + maxReplicas params < 2147483648"

lemma initTarget_spec:
  assumes "inputs_ok params"
  shows "0 \<le> targetLatestReplicas (initTarget params)" "targetLatestReplicas (initTarget params) \<le> maxReplicas params"
    "targetOldReplicas (initTarget params) = maxReplicas params - targetLatestReplicas (initTarget params)"
    "paddedLatestReplicas (initTarget params) \<le> maxReplicas params" "maxReplicas params < 2147483648"
proof -
  note a = assms [unfolded inputs_ok_def]
  show m: "maxReplicas params < 2147483648" using a wf_countsD(2) [of "VersionReadyCountMap params"] by auto
  note c = ComputeLatestReplicas_range [where replicas = "maxReplicas params"]
  show t: "0 \<le> targetLatestReplicas (initTarget params)" "targetLatestReplicas (initTarget params) \<le> maxReplicas params"
    "paddedLatestReplicas (initTarget params) \<le> maxReplicas params"
    using a m by (auto simp: initTarget_def Let_def intro!: c)
  show "targetOldReplicas (initTarget params) = maxReplicas params - targetLatestReplicas (initTarget params)"
    using t(1,2) m by (auto simp: initTarget_def Let_def intro!: i32_id)
qed

lemma initTarget_fields [simp]:
  "VersionCountMap (initTarget p) = VersionCountMap p" "VersionReadyCountMap (initTarget p) = VersionReadyCountMap p"
  "LatestVersion (initTarget p) = LatestVersion p" "Desired (initTarget p) = Desired p"
  "maxReplicas (initTarget p) = maxReplicas p" "CurTotalReplicas (initTarget p) = CurTotalReplicas p"
  "maxUnavailable (initTarget p) = maxUnavailable p" "VersionSortKeys (initTarget p) = VersionSortKeys p"
  "minAvailable (initTarget p) = minAvailable p" "Plan (initTarget p) = Plan p"
  "versionHoldingMap (initTarget p) = versionHoldingMap p"
  "CurLatestReplicas (initTarget p) = CurLatestReplicas p" "CurOldReplicas (initTarget p) = CurOldReplicas p"
  by (simp_all add: initTarget_def Let_def)

lemma calcTarget_fields [simp]:
  "VersionCountMap (calcTarget p) = VersionCountMap p" "LatestVersion (calcTarget p) = LatestVersion p"
  "VersionSortKeys (calcTarget p) = VersionSortKeys p" "versionHoldingMap (calcTarget p) = versionHoldingMap p"
  "maxReplicas (calcTarget p) = maxReplicas p" "CurTotalReplicas (calcTarget p) = CurTotalReplicas p"
  "CurLatestReplicas (calcTarget p) = CurLatestReplicas p" "CurOldReplicas (calcTarget p) = CurOldReplicas p"
  "Plan (calcTarget p) = Plan p" "Desired (calcTarget p) = Desired p"
  by (simp_all add: calcTarget_def Let_def)

text \<open>The size of the window in which the latest version may run ahead of its ready replicas.\<close>

definition surge_room :: "ShardScheduleParams \<Rightarrow> int" where
  "surge_room params = max 0 (max (maxReplicas params - CurTotalReplicas params) (maxReplicas params - Desired params))"

lemma forward_target_spec:
  assumes "inputs_ok params"
  defines "p \<equiv> initTarget params"
  shows "0 \<le> forward_target p \<and> forward_target p \<le> maxReplicas params \<and>
    forward_target p \<le> max (getLatestCount params) (getLatestReadyCount params + maxUnavailable params + surge_room params)"
proof -
  note a = assms(1) [unfolded inputs_ok_def counts_ok_def] and t = initTarget_spec [OF assms(1), folded p_def]
  have c: "0 \<le> getLatestCount params" "getLatestCount p = getLatestCount params"
    using a by (auto simp: getLatestCount_def wf_counts_get p_def)
  have r: "0 \<le> getLatestReadyCount params" "getLatestReadyCount params \<le> msum (VersionReadyCountMap params)"
    "getLatestReadyCount p = getLatestReadyCount params"
    using a by (auto simp: getLatestReadyCount_def wf_counts_get p_def)
  have tot: "0 \<le> CurTotalReplicas params" "CurTotalReplicas params < 2147483648" using a by (auto simp: wf_countsD)
  have i: "i32 (maxReplicas params - CurTotalReplicas params) = maxReplicas params - CurTotalReplicas params"
    "i32 (maxReplicas params - Desired params) = maxReplicas params - Desired params"
    using a t tot by (auto intro!: i32_id)
  have s: "0 \<le> surge_room params" "surge_room params \<le> maxReplicas params"
    using a tot by (auto simp: surge_room_def)
  have j: "i32 (getLatestReadyCount params + maxUnavailable params + surge_room params) =
      getLatestReadyCount params + maxUnavailable params + surge_room params"
    using a r s by (intro i32_id) auto
  have e: "(if max (maxReplicas params - CurTotalReplicas params) (maxReplicas params - Desired params) < 0 then 0
      else max (maxReplicas params - CurTotalReplicas params) (maxReplicas params - Desired params)) = surge_room params"
    by (simp add: surge_room_def max_def)
  define th where "th = max (getLatestReadyCount params + maxUnavailable params + surge_room params) (getLatestCount params)"
  have "forward_target p =
      (let x = min (targetLatestReplicas p) th in
       if paddedLatestReplicas p > x \<and> getLatestCount params > x \<and> paddedLatestReplicas p \<ge> getLatestCount params
       then getLatestCount params else x)"
    unfolding p_def
    by (simp only: forward_target_def Let_def initTarget_fields i e j c(2) [unfolded p_def] r(3) [unfolded p_def] th_def)
  then show ?thesis using t c(1) by (auto simp: th_def Let_def split: if_splits)
qed

lemma calcTarget_spec:
  assumes "inputs_ok params"
  defines "p \<equiv> calcTarget params"
  shows "targets_ok p \<and>
    (length (VersionSortKeys params) \<noteq> 1 \<longrightarrow> latestVersionRatio params \<noteq> 0 \<longrightarrow>
      targetLatestReplicas p + targetOldReplicas p = maxReplicas params)"
proof -
  note a = assms(1) [unfolded inputs_ok_def counts_ok_def] and t = initTarget_spec [OF assms(1)]
    and f = forward_target_spec [OF assms(1)]
  let ?q = "initTarget params"
  have d: "i32 (Desired params) = Desired params" using a t by (intro i32_id) auto
  have fo: "i32 (maxReplicas params - forward_target ?q) = maxReplicas params - forward_target ?q"
    using f t by (intro i32_id) auto
  have "0 \<le> getOldCount ?q"
    using a wf_counts_get(2) [of "VersionCountMap params" "LatestVersion params"]
    by (simp add: getOldCount_def old_total_counts)
  then have "0 \<le> min (targetOldReplicas ?q) (max x (getOldCount ?q))"
    "min (targetOldReplicas ?q) (max x (getOldCount ?q)) \<le> maxReplicas params" for x using t by auto
  moreover have "i32 (maxReplicas params - y) = maxReplicas params - y" if "0 \<le> y" "y \<le> maxReplicas params" for y
    using t that by (intro i32_id) auto
  ultimately show ?thesis
    using a f fo t by (auto simp: p_def calcTarget_def targets_ok_def Let_def d)
qed

subsection \<open>Padding the latest version\<close>

lemma padd_loop_spec:
  fixes params :: ShardScheduleParams
  assumes "wf_counts m" "gap < 2147483648"
  defines "l \<equiv> LatestVersion params"
  shows "wf_counts (padd_loop params vs gap m) \<and> msum (padd_loop params vs gap m) = msum m \<and>
    mget 0 m l \<le> mget 0 (padd_loop params vs gap m) l \<and> mget 0 (padd_loop params vs gap m) l \<le> mget 0 m l + max 0 gap \<and>
    (\<forall>v. v \<noteq> l \<longrightarrow> mget 0 (padd_loop params vs gap m) v \<le> mget 0 m v)"
  using assms(1,2)
proof (induction vs arbitrary: gap m)
  case Nil
  then show ?case by simp
next
  case (Cons version vs)
  let ?sv = "groupVersionToVersion version (GroupVersionToVersionMap params)"
  let ?pc = "mget 0 (versionHoldMatrixPercent params) (versionToGroupVersion version (GroupVersionToVersionMap params))"
  show ?case
  proof (cases "gap \<le> 0 \<or> version = l \<or> \<not> (isZero ?pc \<and> mget 0 m ?sv > 0)")
    case True
    then have "padd_loop params (version # vs) gap m = m \<or>
        padd_loop params (version # vs) gap m = padd_loop params vs gap m"
      by (auto simp: l_def Let_def)
    then show ?thesis using Cons.IH [OF Cons.prems] Cons.prems by (elim disjE) simp_all
  next
    case False
    define d where "d = min (mget 0 m ?sv) gap"
    have d: "0 < d" "d \<le> mget 0 m ?sv" "d \<le> gap" using False by (auto simp: d_def)
    define m1 where "m1 = mput ?sv (mget 0 m ?sv - d) m"
    define m2 where "m2 = mput l (mget 0 m1 l + d) m1"
    note b = wf_counts_get [OF Cons.prems(1), of ?sv] wf_countsD [OF Cons.prems(1)]
    have w1: "wf_counts m1" "msum m1 = msum m - d"
      using Cons.prems(1) d by (auto simp: m1_def msum_mput wf_countsD intro!: wf_counts_decrease)
    note b1 = wf_counts_get [OF w1(1), of l]
    have w2: "wf_counts m2" "msum m2 = msum m"
      using w1 b b1 d by (auto simp: m2_def msum_mput wf_countsD intro!: wf_counts_mput)
    have i: "i32 (mget 0 m ?sv - d) = mget 0 m ?sv - d" "i32 (mget 0 m1 l + d) = mget 0 m1 l + d" "i32 (gap - d) = gap - d"
      using b b1 w1(2) d Cons.prems(2) by (auto intro!: i32_id)
    have u: "padd_loop params (version # vs) gap m = padd_loop params vs (gap - d) m2"
      using False i by (simp add: l_def [symmetric] Let_def d_def [symmetric] m1_def [symmetric] m2_def
          del: mget_mput)
    have "mget 0 m l \<le> mget 0 m2 l" "mget 0 m2 l \<le> mget 0 m l + d" "v \<noteq> l \<Longrightarrow> mget 0 m2 v \<le> mget 0 m v" for v
      using d by (auto simp: m1_def m2_def)
    then show ?thesis using Cons.IH [OF w2(1), of "gap - d"] Cons.prems(2) d w2(2) u by (auto intro: order_trans)
  qed
qed

lemma paddLatestVersion_spec:
  assumes "wf_counts m" "0 \<le> targetLatestReplicas params" "paddedLatestReplicas params < 2147483648"
  defines "l \<equiv> LatestVersion params" and "m' \<equiv> paddLatestVersion params m"
  shows "wf_counts m' \<and> msum m' = msum m \<and> mget 0 m l \<le> mget 0 m' l \<and>
    mget 0 m' l \<le> mget 0 m l + max 0 (paddedLatestReplicas params - targetLatestReplicas params) \<and>
    (\<forall>v. v \<noteq> l \<longrightarrow> mget 0 m' v \<le> mget 0 m v)"
proof (cases "paddedLatestReplicas params > targetLatestReplicas params")
  case False
  then show ?thesis using assms by (simp add: paddLatestVersion_def)
next
  case True
  then have "i32 (paddedLatestReplicas params - targetLatestReplicas params) =
      paddedLatestReplicas params - targetLatestReplicas params"
    using assms(2,3) by (intro i32_id) auto
  then show ?thesis
    using padd_loop_spec [OF assms(1), of "paddedLatestReplicas params - targetLatestReplicas params" params
        "rev (VersionSortKeys params)"] assms True
    by (auto simp: paddLatestVersion_def)
qed

subsection \<open>Dependencies\<close>

lemma dependency_fold:
  assumes "\<And>v. v \<in> set (mkeys m) \<Longrightarrow> mget 0 m v \<le> mget 0 t v"
    and "v \<in> set (mkeys (fold (\<lambda>(g, p) m. mput (f g) (min (c g p) (mget 0 t (f g))) m) ps m))"
  shows "mget 0 (fold (\<lambda>(g, p) m. mput (f g) (min (c g p) (mget 0 t (f g))) m) ps m) v \<le> (mget 0 t v :: int)"
  using assms
proof (induction ps arbitrary: m)
  case (Cons q ps)
  obtain g p where q: "q = (g, p)" by (cases q)
  show ?case
    using Cons.prems q by (simp only: q fold_simps split_conv) (rule Cons.IH, auto split: if_splits)
qed simp

lemma calcDependencyMatrix_le:
  assumes "calcDependencyMatrix args t = Some d" "v \<in> set (mkeys d)"
  shows "mget 0 d v \<le> mget 0 t v"
proof -
  let ?f = "\<lambda>g. groupVersionToVersion g (GroupVersionToVersionMap args)"
  let ?c = "\<lambda>g p. f2i32 (of_int \<lceil>f64 (f64 (of_int (Desired args) * p) / 100)\<rceil>)"
  have e: "(if ?c g p > n then n else ?c g p) = min (?c g p) n" for g p n by (simp add: min_def)
  have "d = fold (\<lambda>(g, p) m. mput (?f g) (min (?c g p) (mget 0 t (?f g))) m)
      (sp_VersionDependencyMatrixPercent (Plan args)) []"
    using assms(1) by (simp add: calcDependencyMatrix_def Let_def e split: if_splits)
  then show ?thesis using assms(2) dependency_fold [of "[]" t v ?f ?c] by auto
qed

subsection \<open>The composition\<close>

text \<open>The parameters after \<^verbatim>\<open>initTarget\<close>, \<^verbatim>\<open>calcHold\<close> and \<^verbatim>\<open>calcTarget\<close>.\<close>

definition prepared :: "roll_env \<Rightarrow> Shard \<Rightarrow> ShardScheduleParams \<Rightarrow> ShardScheduleParams" where
  "prepared env shard params = calcTarget (calcHold env (initTarget params) shard)"

lemma Schedule_prepared:
  "\<not> isOneTargetVersion params \<Longrightarrow> Schedule env shard (Some params) =
     (let p = prepared env shard params; m = paddLatestVersion p (calculateVersionTargetMatrix p)
      in Inr (m, calcDependencyMatrix p m))"
  by (simp add: Schedule_def prepared_def Let_def)

lemma initial_hold_params:
  "\<exists>x. snd (initial_hold env args shard) = args\<lparr>versionHoldMatrixPercent := x\<rparr>"
  by (auto simp: initial_hold_def getRollingsetHoldingMap_def Let_def)

text \<open>What the holds of the shard must satisfy before they are cut and completed.\<close>

definition start_ok :: "roll_env \<Rightarrow> Shard \<Rightarrow> ShardScheduleParams \<Rightarrow> bool" where
  "start_ok env shard params \<longleftrightarrow>
     (let hold = fst (initial_hold env (initTarget params) shard) in
      wf_counts hold \<and> set (mkeys hold) \<subseteq> set (VersionSortKeys params) \<and>
      LatestVersion params \<in> set (VersionSortKeys params) \<and>
      minAvailable params + maxUnavailable params + msum hold < 2147483647 \<and>
      msum hold + msum (VersionReadyCountMap params) < 2147483648)"

lemma prepared_spec:
  assumes "inputs_ok params" "start_ok env shard params"
  defines "p \<equiv> prepared env shard params" and "h0 \<equiv> fst (initial_hold env (initTarget params) shard)"
    and "r \<equiv> VersionReadyCountMap params" and "l \<equiv> LatestVersion params"
  shows "counts_ok p \<and> targets_ok p \<and> holds_ok p \<and> paddedLatestReplicas p < 2147483648 \<and>
    VersionCountMap p = VersionCountMap params \<and> LatestVersion p = l \<and> Plan p = Plan params \<and>
    maxReplicas p = maxReplicas params \<and> CurTotalReplicas p = CurTotalReplicas params"
    and "\<And>v. getHoldCount p v \<le> max (mget 0 h0 v) (mget 0 r v)"
    and "minAvailable params \<le> msum (versionHoldingMap p) \<or>
      min (mget 0 r l) (targetLatestReplicas (initTarget params)) \<le> getHoldCount p l \<and>
      (\<forall>v \<in> set (VersionSortKeys params). v \<noteq> l \<longrightarrow> mget 0 r v \<le> getHoldCount p v)"
proof -
  note a = assms(1) [unfolded inputs_ok_def] and t = initTarget_spec [OF assms(1)]
    and st = assms(2) [unfolded start_ok_def Let_def, folded h0_def]
  obtain x where x: "snd (initial_hold env (initTarget params) shard) = (initTarget params)\<lparr>versionHoldMatrixPercent := x\<rparr>"
    using initial_hold_params by blast
  define q where "q = (initTarget params)\<lparr>versionHoldMatrixPercent := x\<rparr>"
  define h1 where "h1 = filterVersionHoldingMap env q h0"
  define h2 where "h2 = completeAvailableHold q h1"
  have ih: "initial_hold env (initTarget params) shard = (h0, q)" using x by (simp add: h0_def q_def prod_eq_iff)
  have pe: "p = calcTarget (q\<lparr>versionHoldingMap := h2\<rparr>)"
    by (simp add: p_def prepared_def calcHold_def ih h1_def h2_def Let_def)
  have ok0: "hold_inputs_ok q h0"
    using st a t by (auto simp: hold_inputs_ok_def q_def counts_ok_def)
  have f: "wf_counts h1" "\<And>v. mget 0 h1 v \<le> mget 0 h0 v"
    using filterVersionHoldingMap_spec [OF ok0, of env] st by (auto simp: h1_def q_def)
  have "msum h1 \<le> msum h0" using f st by (intro wf_counts_mono) auto
  then have ok1: "hold_inputs_ok q h1" using ok0 f(1) by (auto simp: hold_inputs_ok_def)
  note c = completeAvailableHold_spec [OF ok1, folded h2_def]
  have iq: "inputs_ok (q\<lparr>versionHoldingMap := h2\<rparr>)"
    using assms(1) by (simp add: inputs_ok_def counts_ok_def q_def initTarget_def Let_def)
  have "paddedLatestReplicas p = paddedLatestReplicas (initTarget params)"
    by (simp add: pe calcTarget_def initTarget_def Let_def q_def)
  then show "counts_ok p \<and> targets_ok p \<and> holds_ok p \<and> paddedLatestReplicas p < 2147483648 \<and>
    VersionCountMap p = VersionCountMap params \<and> LatestVersion p = l \<and> Plan p = Plan params \<and>
    maxReplicas p = maxReplicas params \<and> CurTotalReplicas p = CurTotalReplicas params"
    using calcTarget_spec [OF iq] c a t by (simp add: pe holds_ok_def counts_ok_def q_def l_def)
  have vh: "versionHoldingMap p = h2" by (simp add: pe)
  then have hc: "getHoldCount p v = mget 0 h2 v" for v by (simp add: getHoldCount_def)
  show "getHoldCount p v \<le> max (mget 0 h0 v) (mget 0 r v)" for v
  proof -
    have "mget 0 h2 v \<le> max (mget 0 h1 v) (mget 0 r v)" using c by (simp add: q_def r_def)
    then show ?thesis using f(2) [of v] hc [of v] by linarith
  qed
  show "minAvailable params \<le> msum (versionHoldingMap p) \<or>
      min (mget 0 r l) (targetLatestReplicas (initTarget params)) \<le> getHoldCount p l \<and>
      (\<forall>v \<in> set (VersionSortKeys params). v \<noteq> l \<longrightarrow> mget 0 r v \<le> getHoldCount p v)"
    using c by (simp add: hc vh q_def r_def l_def)
qed

text \<open>
  The ready replicas that a target matrix keeps, when each version gives up its replicas that are
  not ready first.
\<close>

definition available :: "matrix \<Rightarrow> matrix \<Rightarrow> int" where
  "available m ready = msum (map (\<lambda>(v, n). (v, min (mget 0 m v) n)) ready)"

lemma available_ge:
  assumes "wf_counts h" "wf_counts ready" "\<And>v. mget 0 h v \<le> mget 0 ready v" "\<And>v. mget 0 h v \<le> mget 0 m v"
    and "\<And>v. 0 \<le> mget 0 m v"
  shows "msum h \<le> available m ready"
proof -
  have g: "mget 0 (map (\<lambda>(v, n). (v, min (mget 0 m v) n)) xs) v =
      (if v \<in> fst ` set xs then min (mget 0 m v) (mget 0 xs v) else 0)" for xs v
    by (induction xs) (auto simp: rev_image_eqI)
  have wf: "wf_map (map (\<lambda>(v, n). (v, min (mget 0 m v) n)) ready)"
    using assms(2) by (simp add: wf_counts_def comp_def case_prod_beta)
  have z: "v \<notin> fst ` set ready \<Longrightarrow> mget 0 h v \<le> 0" for v
    using assms(3) [of v] mget_notin [of v ready 0] by simp
  show ?thesis
    unfolding available_def
    by (rule msum_mono) (use assms wf z in \<open>auto simp: g wf_countsD wf_counts_get\<close>)
qed

subsection \<open>A shard in the middle of a rolling update\<close>

text \<open>
  Four replicas are desired, at most one of them unavailable; three are ready on version \<open>1-a\<close> and the
  one of the latest version \<open>2-b\<close> is not ready yet.
\<close>

definition sample_args :: ShardScheduleParams where
  "sample_args = zero_params\<lparr>Desired := 4, maxReplicas := 4, minAvailable := 3, maxUnavailable := 1,
     latestVersionRatio := 100, VersionCountMap := [(''1-a'', 3), (''2-b'', 1)],
     VersionReadyCountMap := [(''1-a'', 3), (''2-b'', 0)], LatestVersion := ''2-b'',
     VersionSortKeys := [''1-a'', ''2-b''], CurLatestReplicas := 1, CurOldReplicas := 3, CurTotalReplicas := 4,
     versionHoldingMap := [(''1-a'', 2)], targetLatestReplicas := 2, targetOldReplicas := 2,
     paddedLatestReplicas := 0, Plan := zero_plan\<lparr>sp_VersionHoldMatrix := [(''1-a'', 2)]\<rparr>\<rparr>"

lemma sample_args_simps [simp]:
  "Desired sample_args = 4" "maxReplicas sample_args = 4" "minAvailable sample_args = 3" "maxUnavailable sample_args = 1"
  "latestVersionRatio sample_args = 100" "VersionCountMap sample_args = [(''1-a'', 3), (''2-b'', 1)]"
  "VersionReadyCountMap sample_args = [(''1-a'', 3), (''2-b'', 0)]" "LatestVersion sample_args = ''2-b''"
  "VersionSortKeys sample_args = [''1-a'', ''2-b'']" "CurLatestReplicas sample_args = 1"
  "CurOldReplicas sample_args = 3" "CurTotalReplicas sample_args = 4"
  "versionHoldingMap sample_args = [(''1-a'', 2)]" "targetLatestReplicas sample_args = 2"
  "targetOldReplicas sample_args = 2" "paddedLatestVersionRatio sample_args = 0" "paddedLatestReplicas sample_args = 0"
  "Plan sample_args = zero_plan\<lparr>sp_VersionHoldMatrix := [(''1-a'', 2)]\<rparr>"
  by (simp_all add: sample_args_def zero_params_def)

lemma sample_args_ok:
  "counts_ok sample_args" "targets_ok sample_args" "holds_ok sample_args" "inputs_ok sample_args"
  "start_ok sample_env sample_shard sample_args" "\<not> isOneTargetVersion sample_args"
  "fst (initial_hold sample_env (initTarget sample_args) sample_shard) = [(''1-a'', 2)]"
proof -
  show c: "counts_ok sample_args" by (simp add: counts_ok_def wf_counts_def)
  show "targets_ok sample_args" by (simp add: targets_ok_def)
  show "holds_ok sample_args" by (simp add: holds_ok_def wf_counts_def)
  show "inputs_ok sample_args" using c by (simp add: inputs_ok_def wf_counts_def)
  have "GroupVersionToVersionMap (initTarget sample_args) = []"
    by (simp add: initTarget_def Let_def sample_args_def zero_params_def)
  then show h: "fst (initial_hold sample_env (initTarget sample_args) sample_shard) = [(''1-a'', 2)]"
    by (simp add: initial_hold_def Let_def groupVersionToVersion_def)
  then show "start_ok sample_env sample_shard sample_args" by (simp add: start_ok_def Let_def wf_counts_def)
  show "\<not> isOneTargetVersion sample_args" by (simp add: isOneTargetVersion_def)
qed

subsection \<open>Properties\<close>

text \<open>
  C5. For a shard with several versions \<open>Schedule\<close> returns targets. No target is negative, their
  sum is at most the replicas allowed (or the replicas there already were), and no version is asked
  to keep more dependency replicas than its target.
\<close>

theorem Schedule_within_replicas:
  assumes "inputs_ok params" "start_ok env shard params" "\<not> isOneTargetVersion params"
  shows "\<exists>m d. Schedule env shard (Some params) = Inr (m, d) \<and> wf_counts m \<and>
    msum m \<le> max (maxReplicas params) (CurTotalReplicas params) \<and>
    (\<forall>dm v. d = Some dm \<longrightarrow> v \<in> set (mkeys dm) \<longrightarrow> mget 0 dm v \<le> mget 0 m v)"
proof -
  let ?p = "prepared env shard params"
  note p = prepared_spec(1) [OF assms(1,2)]
  have t: "wf_counts (calculateVersionTargetMatrix ?p)"
    "msum (calculateVersionTargetMatrix ?p) \<le> max (maxReplicas params) (CurTotalReplicas params)"
    using target_matrix_spec [of ?p] p by auto
  have "0 \<le> targetLatestReplicas ?p" using p by (auto simp: targets_ok_def)
  with paddLatestVersion_spec [OF t(1)] p t(2) show ?thesis
    using calcDependencyMatrix_le by (simp add: Schedule_prepared [OF assms(3)] Let_def)
qed

theorem Schedule_within_replicas_witness:
  "\<exists>m d. Schedule sample_env sample_shard (Some sample_args) = Inr (m, d) \<and> wf_counts m \<and> msum m \<le> 4"
  using Schedule_within_replicas [OF sample_args_ok(4,5,6)] by auto

text \<open>
  C1. A rolling update with more than one version and no padding (the padded ratio is at most the ratio of the latest version) keeps replicas available: when the holds given for the shard
  are at most the ready replicas, the ready replicas at most the replicas, and the versions with ready replicas among the sorted ones, the targets that \<open>Schedule\<close> returns keep at least
  the smaller of \<open>minAvailable\<close> and the number of ready replicas less the surplus of the latest version, that is, its ready replicas above the target of the
  latest version, which a rollback may take at once.
\<close>

theorem Schedule_keeps_available:
  assumes ok: "inputs_ok params" "start_ok env shard params" "\<not> isOneTargetVersion params"
    and nopad: "plan_getPaddLatestVersionRatio (Plan params) \<le> plan_getLatestVersionRatio (Plan params)"
    and hr: "\<forall>v. mget 0 (fst (initial_hold env (initTarget params) shard)) v \<le> mget 0 (VersionReadyCountMap params) v"
    and rc: "\<forall>v. mget 0 (VersionReadyCountMap params) v \<le> mget 0 (VersionCountMap params) v"
    and rk: "set (mkeys (VersionReadyCountMap params)) \<subseteq> set (VersionSortKeys params)"
  defines "r \<equiv> VersionReadyCountMap params" and "l \<equiv> LatestVersion params"
  shows "\<exists>m d. Schedule env shard (Some params) = Inr (m, d) \<and>
    min (minAvailable params)
      (msum r - max 0 (mget 0 r l - targetLatestReplicas (initTarget params))) \<le> available m r"
proof -
  let ?p = "prepared env shard params" let ?t = "targetLatestReplicas (initTarget params)"
  note p = prepared_spec(1) [OF ok(1,2), folded l_def] and p2 = prepared_spec(2) [OF ok(1,2), folded r_def]
    and p3 = prepared_spec(3) [OF ok(1,2), folded r_def l_def]
  define m where "m = calculateVersionTargetMatrix ?p"
  have t: "wf_counts m" "\<And>v. min (mget 0 (VersionCountMap params) v) (getHoldCount ?p v) \<le> mget 0 m v"
    using target_matrix_spec [of ?p] p by (auto simp: m_def)
  have w: "wf_counts r" "wf_counts (versionHoldingMap ?p)"
    using ok(1) p by (auto simp: inputs_ok_def r_def holds_ok_def)
  have hr': "getHoldCount ?p v \<le> mget 0 r v" for v using p2 [of v] hr r_def by (auto dest: spec [of _ v])
  have hm: "getHoldCount ?p v \<le> mget 0 m v" for v
    using hr' [of v] rc t(2) [of v] by (auto simp: r_def dest: spec [of _ v])
  have nn: "0 \<le> mget 0 m v" for v using t(1) by (simp add: wf_counts_get)
  have t0: "0 \<le> ?t" using initTarget_spec(1) [OF ok(1)] .
  have "min (minAvailable params) (msum r - max 0 (mget 0 r l - ?t)) \<le> available m r"
  proof (cases "minAvailable params \<le> msum (versionHoldingMap ?p)")
    case True
    with available_ge [OF w(2,1), of m] hr' hm nn show ?thesis by (simp add: getHoldCount_def)
  next
    case False
    define h where "h = mput l (min (mget 0 r l) ?t) r"
    have wh: "wf_counts h" "msum h = msum r - max 0 (mget 0 r l - ?t)"
      using w(1) t0 wf_counts_get [OF w(1), of l]
      by (auto simp: h_def msum_mput wf_countsD intro!: wf_counts_decrease)
    have le: "mget 0 h v \<le> getHoldCount ?p v" if "v \<in> set (VersionSortKeys params)" for v
      using p3 False that by (auto simp: h_def)
    have "mget 0 h v \<le> mget 0 m v" for v
    proof (cases "v \<in> set (VersionSortKeys params)")
      case True
      then show ?thesis using le hm [of v] by force
    next
      case False
      then have "mget 0 r v = 0" using rk by (intro mget_notin) (auto simp: r_def)
      then show ?thesis using nn [of v] t0 by (auto simp: h_def)
    qed
    moreover have "mget 0 h v \<le> mget 0 r v" for v by (simp add: h_def)
    ultimately have "msum h \<le> available m r" using nn by (intro available_ge wh(1) w(1))
    then show ?thesis using wh(2) by simp
  qed
  moreover have "paddLatestVersion ?p m = m" using nopad p by (simp add: paddLatestVersion_def)
  ultimately show ?thesis using ok(3) by (simp add: Schedule_prepared m_def Let_def)
qed

theorem Schedule_keeps_available_witness:
  "\<exists>m d. Schedule sample_env sample_shard (Some sample_args) = Inr (m, d) \<and>
     3 \<le> available m [(''1-a'', 3), (''2-b'', 0)]"
proof -
  have "0 \<le> targetLatestReplicas (initTarget sample_args)" using initTarget_spec(1) [OF sample_args_ok(4)] .
  then show ?thesis
    using Schedule_keeps_available [OF sample_args_ok(4,5,6)] sample_args_ok(7)
    by (simp add: plan_getPaddLatestVersionRatio_def plan_getLatestVersionRatio_def zero_plan_def max_def)
qed

text \<open>
  C20. The target matrix never takes a held replica: every version keeps at least the smaller of its
  replicas and its hold. The total stays within the replicas allowed, or does not grow beyond what
  there was.
\<close>

theorem calculateVersionTargetMatrix_keeps_holds:
  assumes "counts_ok params" "targets_ok params" "holds_ok params"
  shows "min (mget 0 (VersionCountMap params) v) (getHoldCount params v) \<le> mget 0 (calculateVersionTargetMatrix params) v \<and>
    0 \<le> mget 0 (calculateVersionTargetMatrix params) v \<and>
    msum (calculateVersionTargetMatrix params) \<le> max (maxReplicas params) (CurTotalReplicas params)"
  using target_matrix_spec [OF assms] by (simp add: wf_counts_get)

theorem calculateVersionTargetMatrix_keeps_holds_witness:
  "2 \<le> mget 0 (calculateVersionTargetMatrix sample_args) ''1-a'' \<and> msum (calculateVersionTargetMatrix sample_args) \<le> 4"
  using calculateVersionTargetMatrix_keeps_holds [OF sample_args_ok(1,2,3), of "''1-a''"] by (simp add: getHoldCount_def)

text \<open>
  C21. Where no hold stands in the way the targets are reached in one step, whether the shard grows or shrinks: if the targets of the latest and of the old versions make up the
  replicas allowed, there is an old version, the hold of the latest version is at most its target, and the old versions have as many replicas beyond their holds as they have
  too many, then the latest version gets exactly its target and the total is exactly the replicas allowed.
\<close>

theorem calculateVersionTargetMatrix_reaches_target:
  assumes ok: "counts_ok params" "targets_ok params" "holds_ok params"
    and full: "targetLatestReplicas params + targetOldReplicas params = maxReplicas params"
    and old: "set (VersionSortKeys params) - {LatestVersion params} \<noteq> {}"
    and latest: "getLatestVersionHoldCount params \<le> targetLatestReplicas params"
    and room: "CurOldReplicas params - targetOldReplicas params
      \<le> spare params (VersionSortKeys params) (VersionCountMap params)"
  shows "mget 0 (calculateVersionTargetMatrix params) (LatestVersion params) = targetLatestReplicas params \<and>
    msum (calculateVersionTargetMatrix params) = maxReplicas params"
proof -
  have cur: "CurTotalReplicas params = CurLatestReplicas params + CurOldReplicas params" "0 \<le> CurLatestReplicas params"
    using ok(1) by (auto simp: counts_ok_def wf_counts_get)
  have o: "old_reclaim params = max 0 (CurOldReplicas params - targetOldReplicas params)"
    using room spare_nonneg by (auto simp: old_reclaim_def)
  have la: "latest_reclaim params = max 0 (CurLatestReplicas params - targetLatestReplicas params)"
    using latest by (auto simp: latest_reclaim_def)
  define gain where "gain = min (max 0 (targetLatestReplicas params - CurLatestReplicas params)) (max 0 (handout params))"
  have h: "handout params = max 0 (targetLatestReplicas params - CurLatestReplicas params)
      + max 0 (targetOldReplicas params - CurOldReplicas params)"
    unfolding handout_def o la cur(1) full [symmetric] by linarith
  then have g: "gain = max 0 (targetLatestReplicas params - CurLatestReplicas params)" by (simp add: gain_def)
  note sp = target_matrix_spec [OF ok, folded gain_def]
  have "mget 0 (calculateVersionTargetMatrix params) (LatestVersion params) =
      CurLatestReplicas params - latest_reclaim params + gain" using sp by blast
  then have "mget 0 (calculateVersionTargetMatrix params) (LatestVersion params) = targetLatestReplicas params"
    unfolding la g by linarith
  moreover have "CurTotalReplicas params - old_reclaim params - latest_reclaim params + gain
      + min (max 0 (targetOldReplicas params - CurOldReplicas params)) (max 0 (handout params - gain))
      \<le> msum (calculateVersionTargetMatrix params)" using sp old by blast
  then have "maxReplicas params \<le> msum (calculateVersionTargetMatrix params)"
    unfolding o la g h cur(1) full [symmetric] by linarith
  moreover have "msum (calculateVersionTargetMatrix params)
      \<le> max (maxReplicas params) (CurTotalReplicas params - old_reclaim params - latest_reclaim params)" using sp by blast
  moreover have "CurTotalReplicas params - old_reclaim params - latest_reclaim params \<le> maxReplicas params"
    unfolding o la cur(1) full [symmetric] by linarith
  ultimately show ?thesis by (auto simp: max_def split: if_splits)
qed

theorem calculateVersionTargetMatrix_reaches_target_witness:
  "mget 0 (calculateVersionTargetMatrix sample_args) ''2-b'' = 2 \<and> msum (calculateVersionTargetMatrix sample_args) = 4"
  using calculateVersionTargetMatrix_reaches_target [OF sample_args_ok(1,2,3)]
  by (simp add: getLatestVersionHoldCount_def getHoldCount_def spare_def)

text \<open>
  Scaling the old versions in reclaims exactly as much as it can: the smaller of the surplus and
  what the old versions have beyond their holds. The latest version is not touched.
\<close>

theorem oldVersionScaleIn_exact:
  assumes "holds_ok params" "wf_counts m" "oversize < 2147483648" "distinct (VersionSortKeys params)"
  shows "fst (oldVersionScaleIn params oversize m) = min (max 0 oversize) (spare params (VersionSortKeys params) m) \<and>
    msum (snd (oldVersionScaleIn params oversize m)) = msum m - fst (oldVersionScaleIn params oversize m) \<and>
    mget 0 (snd (oldVersionScaleIn params oversize m)) (LatestVersion params) = mget 0 m (LatestVersion params)"
  using oldVersionScaleIn_spec [OF assms] by (metis prod.collapse)

theorem oldVersionScaleIn_exact_witness:
  "fst (oldVersionScaleIn sample_args 2 [(''1-a'', 3), (''2-b'', 1)]) = 1"
  using oldVersionScaleIn_exact [OF sample_args_ok(3), of "[(''1-a'', 3), (''2-b'', 1)]" 2]
  by (simp add: wf_counts_def spare_def getHoldCount_def)

text \<open>
  Cutting the holds never raises one, and leaves exactly the count that has to be held, or all
  the holds there are after they have been capped by the existing replicas.
\<close>

theorem filterVersionHoldingMap_exact:
  assumes "hold_inputs_ok args hold" "set (mkeys hold) \<subseteq> set (VersionSortKeys args)"
    and "LatestVersion args \<in> set (VersionSortKeys args)"
  shows "mget 0 (filterVersionHoldingMap env args hold) v \<le> mget 0 hold v \<and>
    msum (filterVersionHoldingMap env args hold) =
      (let h = cut_latest_hold args hold in
       min (need_hold args h) (if msum h \<le> need_hold args h then msum h
         else msum (fold (cap_hold args) (VersionSortKeys args) h)))"
  using filterVersionHoldingMap_spec [OF assms, of env] by (simp add: Let_def)

theorem filterVersionHoldingMap_exact_witness:
  "msum (filterVersionHoldingMap sample_env sample_args [(''1-a'', 9)]) = 3"
  using filterVersionHoldingMap_exact [of sample_args "[(''1-a'', 9)]" sample_env "''1-a''"]
  by (simp add: hold_inputs_ok_def wf_counts_def cut_latest_hold_def need_hold_def cap_hold_def Let_def i32_id)

text \<open>
  Completing the holds only raises them, never beyond the ready replicas, and reaches
  \<open>minAvailable\<close> unless every ready replica is held (of the latest version, up to its target).
\<close>

theorem completeAvailableHold_complete:
  assumes "hold_inputs_ok args hold"
  shows "(\<forall>v. mget 0 hold v \<le> mget 0 (completeAvailableHold args hold) v \<and>
      mget 0 (completeAvailableHold args hold) v \<le> max (mget 0 hold v) (mget 0 (VersionReadyCountMap args) v)) \<and>
    (minAvailable args \<le> msum (completeAvailableHold args hold) \<or>
      min (mget 0 (VersionReadyCountMap args) (LatestVersion args)) (targetLatestReplicas args)
        \<le> mget 0 (completeAvailableHold args hold) (LatestVersion args) \<and>
      (\<forall>v \<in> set (VersionSortKeys args). v \<noteq> LatestVersion args \<longrightarrow>
        mget 0 (VersionReadyCountMap args) v \<le> mget 0 (completeAvailableHold args hold) v))"
  using completeAvailableHold_spec [OF assms] by blast

theorem completeAvailableHold_complete_witness:
  "mget 0 (completeAvailableHold sample_args [(''1-a'', 1)]) ''1-a'' \<le> 3"
  using completeAvailableHold_complete [of sample_args "[(''1-a'', 1)]"]
  by (auto simp: hold_inputs_ok_def wf_counts_def dest!: spec [of _ "''1-a''"])

text \<open>
  The targets of a rolling update are bounded by the sliding window: going forward, the latest
  version is never asked for more than its present replicas, or its ready replicas plus
  \<open>maxUnavailable\<close> plus the room of the surge; the two targets always share the replicas allowed.
\<close>

theorem calcTarget_window:
  assumes "inputs_ok params" "length (VersionSortKeys params) \<noteq> 1" "latestVersionRatio params \<noteq> 0"
  shows "0 \<le> targetLatestReplicas (calcTarget params) \<and> 0 \<le> targetOldReplicas (calcTarget params) \<and>
    targetLatestReplicas (calcTarget params) + targetOldReplicas (calcTarget params) = maxReplicas params \<and>
    (isForward (initTarget params) \<longrightarrow> targetLatestReplicas (calcTarget params)
      \<le> max (getLatestCount params) (getLatestReadyCount params + maxUnavailable params + surge_room params))"
  using calcTarget_spec [OF assms(1)] forward_target_spec [OF assms(1)] assms(2,3)
  by (auto simp: targets_ok_def calcTarget_def Let_def)

theorem calcTarget_window_witness:
  "targetLatestReplicas (calcTarget sample_args) + targetOldReplicas (calcTarget sample_args) = 4"
  using calcTarget_window [OF sample_args_ok(4)] by simp

text \<open>
  Padding the latest version moves replicas and creates none: the total stays the same, only the
  latest version grows, by at most the missing padding.
\<close>

theorem paddLatestVersion_conserves:
  assumes "wf_counts m" "0 \<le> targetLatestReplicas params" "paddedLatestReplicas params < 2147483648"
  shows "msum (paddLatestVersion params m) = msum m \<and> wf_counts (paddLatestVersion params m) \<and>
    mget 0 m (LatestVersion params) \<le> mget 0 (paddLatestVersion params m) (LatestVersion params) \<and>
    mget 0 (paddLatestVersion params m) (LatestVersion params)
      \<le> mget 0 m (LatestVersion params) + max 0 (paddedLatestReplicas params - targetLatestReplicas params) \<and>
    (\<forall>v. v \<noteq> LatestVersion params \<longrightarrow> mget 0 (paddLatestVersion params m) v \<le> mget 0 m v)"
  using paddLatestVersion_spec [OF assms] by blast

theorem paddLatestVersion_conserves_witness:
  "msum (paddLatestVersion (sample_args\<lparr>paddedLatestReplicas := 3\<rparr>) [(''1-a'', 2), (''2-b'', 2)]) = 4"
  using paddLatestVersion_conserves [of "[(''1-a'', 2), (''2-b'', 2)]" "sample_args\<lparr>paddedLatestReplicas := 3\<rparr>"]
  by (simp add: wf_counts_def)

end
