(* ===== verification/NodeSetRun.thy ===== *)
theory NodeSetRun
  imports NodeSetSafety ShardSafety
begin

text \<open>
  The node set updater as a whole: which nodes a scale-in keeps, what \<open>Schedule\<close> delivers for the
  targets its shard scheduler returns, and what the node objects look like afterwards. The shard
  scheduler and the node objects are interfaces; their laws are the locales \<open>shard_scheduling\<close> and
  \<open>group_nodes\<close>.
\<close>

subsection \<open>The order of the nodes\<close>

text \<open>The rank of a node: its score, then its deletion cost, then its name (an earlier name is better).\<close>

lemma NodeSet_Less_strict_weak: "strict_weak_on A (NodeSet_Less ms h)"
  unfolding strict_weak_on_def NodeSet_Less_def Let_def by (auto split: if_splits)

lemma strict_weak_on_converse: "strict_weak_on A lt \<Longrightarrow> strict_weak_on A (\<lambda>a b. lt b a)"
  unfolding strict_weak_on_def by blast

lemma kept_are_best:
  assumes "sorted_wrt (\<lambda>a b. \<not> lt a b) ns" "a \<in> set (take k (filter P ns))" "b \<in> set (drop k (filter P ns))"
  shows "\<not> lt a b"
proof -
  have "sorted_wrt (\<lambda>a b. \<not> lt a b) (take k (filter P ns) @ drop k (filter P ns))"
    using assms(1) by (simp add: sorted_wrt_filter)
  then show ?thesis using assms(2,3) by (simp only: sorted_wrt_append) blast
qed

subsection \<open>Created nodes\<close>

lemma create_loop_spec:
  assumes "\<forall>i. create i \<noteq> None"
  shows "\<exists>m' h'. create_loop ms create version plan ready num m h = Inr (m', h') \<and>
    (\<forall>v. length (mget [] m' v) = length (mget [] m v) + (if v = version then num else 0)) \<and>
    fresh h \<le> fresh h' \<and> (\<forall>a < fresh h. cells h' a = cells h a)"
proof (induction num arbitrary: m h)
  case 0
  then show ?case by auto
next
  case (Suc num)
  obtain n where n: "create (fresh h) = Some n" using assms by auto
  define h1 where "h1 = setGroupNodeDependencyReady ms ready (fresh h)
    (h\<lparr>cells := (cells h)(fresh h := SetVersion ms version plan n), fresh := Suc (fresh h)\<rparr>)"
  have h1: "fresh h1 = Suc (fresh h)" "\<And>a. a < fresh h \<Longrightarrow> cells h1 a = cells h a"
    by (auto simp: h1_def setGroupNodeDependencyReady_def)
  obtain m' h' where r: "create_loop ms create version plan ready num
      (mput version (mget [] m version @ [fresh h]) m) h1 = Inr (m', h')"
    "\<forall>v. length (mget [] m' v) =
      length (mget [] (mput version (mget [] m version @ [fresh h]) m) v) + (if v = version then num else 0)"
    "fresh h1 \<le> fresh h'" "\<forall>a < fresh h1. cells h' a = cells h1 a" using Suc.IH by blast
  have "create_loop ms create version plan ready (Suc num) m h = Inr (m', h')"
    using n r(1) by (simp add: Let_def h1_def)
  then show ?case using r(2-4) h1 by auto
qed

lemma syncCreateNodes_spec:
  assumes "\<forall>i. create i \<noteq> None" "distinct (mkeys es)"
  shows "\<exists>m' h'. syncCreateNodes ms create plans dep es m h = Inr (m', h') \<and>
    (\<forall>v. length (mget [] m' v) = length (mget [] m v) + nat (mget 0 es v)) \<and>
    (\<forall>a < fresh h. cells h' a = cells h a)"
  using assms(2)
proof (induction es arbitrary: m h)
  case Nil
  then show ?case by auto
next
  case (Cons p es)
  obtain v num where p: "p = (v, num)" by (cases p)
  obtain m1 h1 where c: "create_loop ms create v (mget None plans v) (\<not> dep) (nat num) m h = Inr (m1, h1)"
    "\<forall>w. length (mget [] m1 w) = length (mget [] m w) + (if w = v then nat num else 0)"
    "fresh h \<le> fresh h1" "\<forall>a < fresh h. cells h1 a = cells h a"
    using create_loop_spec [OF assms(1)] by blast
  obtain m' h' where r: "syncCreateNodes ms create plans dep es m1 h1 = Inr (m', h')"
    "\<forall>v. length (mget [] m' v) = length (mget [] m1 v) + nat (mget 0 es v)"
    "\<forall>a < fresh h1. cells h' a = cells h1 a"
    using Cons.IH [of m1 h1] Cons.prems by auto
  have "mget 0 es v = 0" using Cons.prems p by (simp add: mget_notin)
  then show ?case using c r p by auto
qed

subsection \<open>The shard scheduler as an interface\<close>

text \<open>
  What the node set updater needs of a shard scheduler: for a shard and parameters it accepts it
  returns targets that are counts, and no dependency counts where the plan has no dependencies.
\<close>

locale shard_scheduling =
  fixes scheduler :: shard_scheduler and accepts :: "Shard \<Rightarrow> ShardScheduleParams \<Rightarrow> bool"
  assumes targets: "accepts shard params \<Longrightarrow> \<exists>m d. scheduler shard (Some params) = Inr (m, d) \<and> targets_wf m \<and>
    (sp_VersionDependencyMatrixPercent (Plan params) = [] \<longrightarrow> d = None)"
begin

lemma delivers:
  fixes env :: roll_env and h :: "'n heap" and args :: "('n, 'p) RollingUpdateArgs"
  assumes check: "checkRollingUpdateArgs (Some args) = Inr a"
    and create: "ru_CreateNode args = Some create" "\<forall>i. create i \<noteq> None"
    and replicas: "ru_Replicas args = Some r"
    and nodep: "sp_VersionDependencyMatrixPercent (Plan (initScheduleArgs env (Some shard) (initShardParams live r))) = []"
    and live: "live = a\<lparr>ru_Nodes := filter (\<lambda>x. \<not> IsRelease ms (cells h x)) (ru_Nodes args)\<rparr>"
    and shard: "args_shard ms h live r = Inr shard"
    and ok: "accepts shard (initScheduleArgs env (Some shard) (initShardParams live r))"
    and size: "int (length (ru_Nodes live) + length (ru_ExtraNodes args)) < 2147483648"
  defines "ranked \<equiv> go_sort (\<lambda>x y. NodeSet_Less ms h y x) (ru_Nodes live)"
  shows "\<exists>target created update deleted kept num rep h'.
    NodeSet_Schedule env scheduler ms h (Some args) =
      Inr ((created, update, deleted @ filter (\<lambda>x. IsRelease ms (cells h x)) (ru_Nodes args)), h') \<and>
    calcTargetMatrix env scheduler ms h live = Inr (target, None) \<and>
    update_contract ms h (initNodesVersionMap ms h ranked) target (ru_ExtraNodes args)
      (ru_DisableReplaceEmpty args) rep (num, update, deleted, kept) \<and>
    (\<forall>v. int (length (mget [] created v)) = mget 0 num v)"
proof -
  have aeq: "ru_CreateNode a = Some create" "ru_Replicas a = Some r" "ru_ExtraNodes a = ru_ExtraNodes args"
    "ru_DisableReplaceEmpty a = ru_DisableReplaceEmpty args" "ru_Nodes a = ru_Nodes args"
    using check create replicas by (auto simp: checkRollingUpdateArgs_def split: if_splits)
  obtain target where t: "calcTargetMatrix env scheduler ms h live = Inr (target, None)" "targets_wf target"
    using targets [OF ok] nodep shard replicas aeq by (auto simp: calcTargetMatrix_def live)
  let ?vm = "initNodesVersionMap ms h ranked"
  have "size (node_total ?vm) = length (ru_Nodes live)"
    by (simp add: initNodesVersionMap_spec(2) ranked_def gs.sort_laws)
  then obtain num update deleted kept rep where u:
    "rollingUpdateNodeSet ms h ?vm target (ru_ExtraNodes args) (ru_DisableReplaceEmpty args) = Inr (num, update, deleted, kept)"
    "update_contract ms h ?vm target (ru_ExtraNodes args) (ru_DisableReplaceEmpty args) rep (num, update, deleted, kept)"
    using rollingUpdateNodeSet_spec [OF initNodesVersionMap_spec(1) t(2), where extra = "ru_ExtraNodes args"] size
    by (metis prod_cases4)
  have nk: "distinct (mkeys num)" by (rule rollingUpdateNodeSet_create_wf [OF u(1)])
  let ?plans = "initVersionToPlan ms h (live\<lparr>ru_Nodes := ranked\<rparr>)"
  obtain created h1 where c: "syncCreateNodes ms create ?plans False num [] h = Inr (created, h1)"
    "\<forall>v. length (mget [] created v) = nat (mget 0 num v)"
    using syncCreateNodes_spec [OF create(2) nk, of ms ?plans False "[]" h] by auto
  have "NodeSet_Schedule env scheduler ms h (Some args) =
      Inr ((created, update, deleted @ filter (\<lambda>x. IsRelease ms (cells h x)) (ru_Nodes args)),
        syncDeleteNodes ms deleted (syncUpdateNodes ms ?plans False update h1))"
    using t(1) u(1) c(1) aeq
    by (simp add: NodeSet_Schedule_def check collectReleaseNode_def live ranked_def hasDependency_def
        checkGroupNode_def Let_def)
  moreover have "int (length (mget [] created v)) = mget 0 num v" for v
    using c(2) u(2) by (simp add: update_contract_def)
  ultimately show ?thesis using t(1) u(2) by blast
qed

end

text \<open>
  The in-place shard scheduler accepts a shard with one version, or parameters as \<open>Schedule\<close>'s
  correctness asks for them.
\<close>

definition schedulable :: "roll_env \<Rightarrow> Shard \<Rightarrow> ShardScheduleParams \<Rightarrow> bool" where
  "schedulable env shard params \<longleftrightarrow>
     (if isOneTargetVersion params then 0 \<le> Desired params \<and> Desired params < 2147483648
      else inputs_ok params \<and> start_ok env shard params)"

lemma wf_counts_targets: "wf_counts m \<Longrightarrow> targets_wf m"
proof -
  assume w: "wf_counts m"
  have "snd p < 2147483648" if "p \<in> set m" for p
    using wf_counts_get(3) [OF w, of "fst p"] mget_in [of "fst p" "snd p" m 0] that w by (simp add: wf_counts_def)
  with w show ?thesis by (auto simp: wf_counts_def targets_wf_def list_all_iff)
qed

lemma Schedule_targets:
  assumes "schedulable env shard params"
  shows "\<exists>m d. Schedule env shard (Some params) = Inr (m, d) \<and> targets_wf m \<and>
    (sp_VersionDependencyMatrixPercent (Plan params) = [] \<longrightarrow> d = None)"
proof (cases "isOneTargetVersion params")
  case True
  then have "Schedule env shard (Some params) = Inr ([(LatestVersion params, Desired params)],
      calcDependencyMatrix params [(LatestVersion params, Desired params)])" by (simp add: Schedule_def Let_def)
  then show ?thesis using assms True by (simp add: schedulable_def targets_wf_def calcDependencyMatrix_def)
next
  case False
  then have ok: "inputs_ok params" "start_ok env shard params" using assms by (auto simp: schedulable_def)
  let ?p = "prepared env shard params"
  note p = prepared_spec(1) [OF ok]
  have "wf_counts (calculateVersionTargetMatrix ?p)" using target_matrix_spec [of ?p] p by blast
  then have "wf_counts (paddLatestVersion ?p (calculateVersionTargetMatrix ?p))"
    using paddLatestVersion_spec p by (auto simp: targets_ok_def)
  then show ?thesis using p False
    by (simp add: Schedule_prepared Let_def wf_counts_targets calcDependencyMatrix_def)
qed

interpretation ip: shard_scheduling "Schedule env" "schedulable env" for env
  by unfold_locales (rule Schedule_targets)

subsection \<open>The node objects as an interface\<close>

text \<open>What \<^verbatim>\<open>syncUpdateNodes\<close> and \<^verbatim>\<open>fixDependency\<close> rely on of the objects behind \<^verbatim>\<open>Node\<close> and \<^verbatim>\<open>GroupNode\<close>.\<close>

locale group_nodes =
  fixes ms :: "('n, 'p) NodeMethods" and settable :: "'p option \<Rightarrow> 'n \<Rightarrow> bool"
  assumes version_set: "settable p n \<Longrightarrow> GetVersion ms (SetVersion ms v p n) = v"
    and version_dependency: "GetVersion ms (SetDependencyReady ms b n) = GetVersion ms n"
    and dependency_set: "GetDependencyReady ms (SetDependencyReady ms b n) = b"
    and group_dependency: "isGroupNode ms (SetDependencyReady ms b n) = isGroupNode ms n"
begin

lemma set_ready_version: "GetVersion ms (cells (setGroupNodeDependencyReady ms b a h) x) = GetVersion ms (cells h x)"
  by (simp add: setGroupNodeDependencyReady_def version_dependency)

definition ready_count :: "'n heap \<Rightarrow> NodeSet \<Rightarrow> int" where
  "ready_count h ns = int (length (filter (\<lambda>a. GetDependencyReady ms (cells h a)) ns))"

lemma fix_nodes_frame:
  "fix_nodes ms version ns gap update h = (update', h') \<Longrightarrow>
    (a \<notin> set ns \<longrightarrow> cells h' a = cells h a) \<and> isGroupNode ms (cells h' a) = isGroupNode ms (cells h a) \<and>
    (GetDependencyReady ms (cells h a) \<longrightarrow> GetDependencyReady ms (cells h' a))"
proof (induction ns arbitrary: gap update h)
  case (Cons x ns)
  let ?h = "setGroupNodeDependencyReady ms True x h"
  have h: "(a \<noteq> x \<longrightarrow> cells ?h a = cells h a) \<and> isGroupNode ms (cells ?h a) = isGroupNode ms (cells h a) \<and>
      (GetDependencyReady ms (cells h a) \<longrightarrow> GetDependencyReady ms (cells ?h a))"
    by (simp add: setGroupNodeDependencyReady_def group_dependency dependency_set)
  show ?case
  proof (cases "GetDependencyReady ms (cells h x)")
    case True
    then show ?thesis using Cons by (auto split: if_splits)
  next
    case False
    then consider "h' = ?h" | u where "fix_nodes ms version ns (gap - 1) u ?h = (update', h')"
      using Cons.prems by (auto simp: Let_def split: if_splits)
    then show ?thesis
    proof cases
      case 1
      then show ?thesis using h by auto
    next
      case 2
      then show ?thesis using Cons.IH [OF 2] h by auto
    qed
  qed
qed simp

lemma ready_count_set:
  "isGroupNode ms (cells h x) \<Longrightarrow> x \<notin> set ns \<Longrightarrow>
    ready_count (setGroupNodeDependencyReady ms True x h) (x # ns) = 1 + ready_count h ns"
  unfolding ready_count_def setGroupNodeDependencyReady_def
  by (simp add: dependency_set) (rule arg_cong [of _ _ length], rule filter_cong, auto)

lemma fix_nodes_count:
  assumes "distinct ns" "0 < gap" "\<forall>a \<in> set ns. isGroupNode ms (cells h a)"
    and "fix_nodes ms version ns gap update h = (update', h')"
  shows "ready_count h' ns = min (int (length ns)) (ready_count h ns + gap)"
  using assms
proof (induction ns arbitrary: gap update h)
  case Nil
  then show ?case by (simp add: ready_count_def)
next
  case (Cons x ns)
  have le: "ready_count h ns \<le> int (length ns)" for h by (simp add: ready_count_def)
  show ?case
  proof (cases "GetDependencyReady ms (cells h x)")
    case True
    then have f: "fix_nodes ms version ns gap update h = (update', h')" using Cons.prems(2,4) by simp
    have "cells h' x = cells h x" using fix_nodes_frame [OF f, of x] Cons.prems(1) by simp
    then show ?thesis using Cons.IH [OF _ Cons.prems(2) _ f] Cons.prems(1,3) True by (simp add: ready_count_def)
  next
    case False
    let ?h = "setGroupNodeDependencyReady ms True x h"
    have hx: "cells ?h y = cells h y" if "y \<in> set ns" for y
      using that Cons.prems(1) by (auto simp: setGroupNodeDependencyReady_def)
    then have same: "ready_count ?h ns = ready_count h ns" by (auto simp: ready_count_def cong: filter_cong)
    have one: "ready_count ?h (x # ns) = 1 + ready_count h ns" "ready_count h (x # ns) = ready_count h ns"
      using ready_count_set Cons.prems(1,3) False by (auto simp: ready_count_def)
    show ?thesis
    proof (cases "gap - 1 \<le> 0")
      case True
      then have "h' = ?h" using Cons.prems(4) False by (simp add: Let_def)
      then show ?thesis using one le [of h] True Cons.prems(2) by simp
    next
      case gap: False
      then obtain u where f: "fix_nodes ms version ns (gap - 1) u ?h = (update', h')"
        using Cons.prems(4) False by (simp add: Let_def)
      have "cells h' x = cells ?h x" using fix_nodes_frame [OF f, of x] Cons.prems(1) by simp
      then have "ready_count h' (x # ns) = 1 + ready_count h' ns"
        using Cons.prems(3) by (simp add: ready_count_def setGroupNodeDependencyReady_def dependency_set)
      then show ?thesis
        using Cons.IH [OF _ _ _ f] Cons.prems(1,3) gap hx same one(2) by auto
    qed
  qed
qed

lemma ready_count_mono:
  "(\<And>a. GetDependencyReady ms (cells h a) \<longrightarrow> GetDependencyReady ms (cells h' a)) \<Longrightarrow>
    ready_count h ns \<le> ready_count h' ns"
  unfolding ready_count_def by (induction ns) auto

lemma fixDependency_ready:
  assumes "\<And>v. distinct (mget [] vm v)" "\<And>v a. a \<in> set (mget [] vm v) \<Longrightarrow> isGroupNode ms (cells h a)"
  shows "\<exists>update' h'. fixDependency ms vm dep update h = Inr (update', h') \<and>
    (\<forall>(v, c) \<in> set dep. min (int (length (mget [] vm v))) c \<le> ready_count h' (mget [] vm v)) \<and>
    (\<forall>a. GetDependencyReady ms (cells h a) \<longrightarrow> GetDependencyReady ms (cells h' a))"
  using assms(2)
proof (induction dep arbitrary: update h)
  case Nil
  then show ?case by auto
next
  case (Cons e dep)
  obtain v c where e: "e = (v, c)" by (cases e)
  let ?ns = "mget [] vm v"
  let ?gap = "c - ready_count h ?ns"
  define r where "r = (if ?gap > 0 then fix_nodes ms v ?ns ?gap update h else (update, h))"
  obtain u1 h1 where r1: "r = (u1, h1)" by (cases r)
  have grp: "\<not> (\<exists>a \<in> set ?ns. \<not> isGroupNode ms (cells h a))" using Cons.prems by blast
  have st: "fixDependency ms vm (e # dep) update h = fixDependency ms vm dep u1 h1"
    using grp r1 by (simp add: e Let_def r_def ready_count_def [symmetric])
  have fr: "isGroupNode ms (cells h1 a) = isGroupNode ms (cells h a) \<and>
      (GetDependencyReady ms (cells h a) \<longrightarrow> GetDependencyReady ms (cells h1 a))" for a
  proof (cases "?gap > 0")
    case True
    then have "fix_nodes ms v ?ns ?gap update h = (u1, h1)" using r1 by (simp add: r_def)
    from fix_nodes_frame [OF this, of a] show ?thesis by blast
  next
    case False
    then show ?thesis using r1 by (simp add: r_def)
  qed
  have cnt: "min (int (length ?ns)) c \<le> ready_count h1 ?ns"
  proof (cases "?gap > 0")
    case True
    then have "fix_nodes ms v ?ns ?gap update h = (u1, h1)" using r1 by (simp add: r_def)
    from fix_nodes_count [OF assms(1) True _ this] show ?thesis using grp by auto
  next
    case False
    then show ?thesis using r1 by (simp add: r_def)
  qed
  obtain u' h' where ih: "fixDependency ms vm dep u1 h1 = Inr (u', h')"
    "\<forall>(w, k) \<in> set dep. min (int (length (mget [] vm w))) k \<le> ready_count h' (mget [] vm w)"
    "\<forall>a. GetDependencyReady ms (cells h1 a) \<longrightarrow> GetDependencyReady ms (cells h' a)"
    using Cons.IH [of h1 u1] Cons.prems fr by blast
  have "ready_count h1 ?ns \<le> ready_count h' ?ns" using ih(3) by (intro ready_count_mono) blast
  then show ?case using st ih cnt fr e by auto
qed

definition write_node :: "string \<Rightarrow> 'p option \<Rightarrow> bool \<Rightarrow> addr \<Rightarrow> 'n heap \<Rightarrow> 'n heap" where
  "write_node v plan ready a h = setGroupNodeDependencyReady ms ready a (modify a (SetVersion ms v plan) h)"

lemma write_node_cells:
  "settable plan (cells h a) \<Longrightarrow> GetVersion ms (cells (write_node v plan ready a h) a) = v"
  "x \<noteq> a \<Longrightarrow> cells (write_node v plan ready a h) x = cells h x"
  by (auto simp: write_node_def setGroupNodeDependencyReady_def version_set version_dependency)

lemma write_nodes_cells:
  "distinct ns \<Longrightarrow> (x \<in> set ns \<longrightarrow> settable plan (cells h x) \<longrightarrow> GetVersion ms (cells (fold (write_node v plan ready) ns h) x) = v) \<and>
   (x \<notin> set ns \<longrightarrow> cells (fold (write_node v plan ready) ns h) x = cells h x)"
proof (induction ns arbitrary: h)
  case (Cons a ns)
  show ?case
    using Cons.IH [of "write_node v plan ready a h"] Cons.prems
    by (cases "x = a"; cases "x \<in> set ns") (auto simp: write_node_cells)
qed simp

lemma syncUpdateNodes_versions:
  assumes "distinct (concat (map snd update))" "(v, ns) \<in> set update" "a \<in> set ns" "settable (mget None plans v) (cells h a)"
  shows "GetVersion ms (cells (syncUpdateNodes ms plans dep update h) a) = v"
proof -
  let ?w = "\<lambda>(v, ns) h. fold (write_node v (mget None plans v) (\<not> dep)) ns h"
  have e: "syncUpdateNodes ms plans dep update h = fold ?w update h" for update h
    by (simp add: syncUpdateNodes_def write_node_def [abs_def])
  have frame: "x \<notin> set (concat (map snd update)) \<Longrightarrow> distinct (concat (map snd update)) \<Longrightarrow> cells (fold ?w update h) x = cells h x" for x update h
  proof (induction update arbitrary: h)
    case (Cons p update)
    then show ?case using write_nodes_cells [of "snd p" x _ _ "fst p"] by (cases p) auto
  qed simp
  show ?thesis
    using assms unfolding e
  proof (induction update arbitrary: h)
    case (Cons p update)
    show ?case
    proof (cases "p = (v, ns)")
      case True
      have "a \<notin> set (concat (map snd update))" using Cons.prems(1,3) True by auto
      then show ?thesis using True frame write_nodes_cells [of ns a _ h v] Cons.prems by simp
    next
      case False
      obtain v' ns' where p: "p = (v', ns')" by (cases p)
      have "(v, ns) \<in> set update" using Cons.prems(2) False by auto
      then have "a \<in> set (concat (map snd update))" using Cons.prems(3) by force
      then have "a \<notin> set ns'" using Cons.prems(1) p by auto
      then have "cells (fold (write_node v' (mget None plans v') (\<not> dep)) ns' h) a = cells h a"
        using write_nodes_cells [of ns' a] Cons.prems(1) p by simp
      then show ?thesis using Cons.IH Cons.prems False p by auto
    qed
  qed simp
qed

end

subsection \<open>Properties\<close>

text \<open>
  C22. The split of a node set never cuts a slice out of range and loses no node: the nodes kept,
  updated and deleted are exactly the nodes there were (the empty ones that are replaced are counted
  twice, as kept and as deleted). Every version ends with its target: kept, updated and new nodes
  less the replaced ones. New nodes are only created when no redundant node is left.
\<close>

theorem rollingUpdateNodeSet_conserves:
  assumes "vm_ok ms h vm" "targets_wf target" "int (size (node_total vm) + length extra) < 2147483648"
  shows "\<exists>create update deleted kept rep.
    rollingUpdateNodeSet ms h vm target extra disable = Inr (create, update, deleted, kept) \<and>
    node_total kept + node_total update + mset deleted = node_total vm + mset extra + mset rep \<and>
    mset rep \<subseteq># node_total kept \<and> mset rep \<subseteq># mset deleted \<and> (\<forall>a \<in> set rep. IsEmpty ms (cells h a)) \<and>
    (\<forall>v. int (length (mget [] kept v)) + int (length (mget [] update v)) + mget 0 create v
        = mget 0 target v + int (length (filter (\<lambda>a. GetVersion ms (cells h a) = v) rep))) \<and>
    ((\<exists>v. 0 < mget 0 create v) \<longrightarrow> mset deleted = mset rep)"
proof -
  obtain create update deleted kept rep where
    "rollingUpdateNodeSet ms h vm target extra disable = Inr (create, update, deleted, kept)"
    "update_contract ms h vm target extra disable rep (create, update, deleted, kept)"
    using rollingUpdateNodeSet_spec [OF assms, of disable] by (metis prod_cases4)
  then show ?thesis unfolding update_contract_def prod.case by blast
qed

text \<open>Two nodes for the witnesses: a node object with only the fields the schedulers read.\<close>

record plain_node =
  pn_name :: string
  pn_version :: string
  pn_ready :: bool

definition plain_methods :: "(plain_node, unit) NodeMethods" where
  "plain_methods = \<lparr>GetName = pn_name, GetVersion = pn_version, GetVersionPlan = (\<lambda>_. None), GetScore = (\<lambda>n. if pn_ready n then 1 else 0),
     GetDeletionCost = (\<lambda>_. 0), IsReady = pn_ready, IsEmpty = (\<lambda>_. False), IsRelease = (\<lambda>_. False),
     SetVersion = (\<lambda>v _ n. n\<lparr>pn_version := v\<rparr>), Stop = (\<lambda>n. n), isGroupNode = (\<lambda>_. False), GetGroupVersion = pn_version,
     GetDependencyReady = (\<lambda>_. False), SetDependencyReady = (\<lambda>_ n. n), isNodeUpdateScore = (\<lambda>_. False), GetUpdateScore = (\<lambda>_. 0)\<rparr>"

definition plain_heap :: "plain_node heap" where
  "plain_heap = \<lparr>cells = (\<lambda>a. \<lparr>pn_name = (if a = 0 then ''a'' else ''b''), pn_version = ''1-v'', pn_ready = (a = 1)\<rparr>), fresh = 2\<rparr>"

theorem rollingUpdateNodeSet_conserves_witness:
  "\<exists>create update deleted kept rep.
    rollingUpdateNodeSet plain_methods plain_heap [(''1-v'', [1, 0])] [(''1-v'', 1)] [] True =
      Inr (create, update, deleted, kept) \<and>
    node_total kept + node_total update + mset deleted = {#0, 1#} + mset rep"
proof -
  have v: "vm_ok plain_methods plain_heap [(''1-v'', [1, 0])]"
    by (simp add: vm_ok_def plain_methods_def plain_heap_def)
  have t: "targets_wf [(''1-v'', 1)]" by (simp add: targets_wf_def)
  have n: "int (size (node_total [(''1-v'', [1, 0])]) + length ([] :: addr list)) < 2147483648" by simp
  obtain c u d k r where e: "rollingUpdateNodeSet plain_methods plain_heap [(''1-v'', [1, 0])] [(''1-v'', 1)] [] True =
      Inr (c, u, d, k)"
    "node_total k + node_total u + mset d = node_total [(''1-v'', [1, 0])] + mset [] + mset r"
    using rollingUpdateNodeSet_conserves [OF v t n, of True] by blast
  from e(2) have "node_total k + node_total u + mset d = {#0, 1#} + mset r" by simp
  with e(1) show ?thesis by blast
qed

text \<open>
  A scale-in keeps the best nodes: of the nodes of a version, ranked as \<open>Schedule\<close> ranks them, no
  kept node is less than one that is given up (by score, then deletion cost, then name).
\<close>

theorem scale_in_keeps_best:
  assumes "a \<in> set (take k (mget [] (initNodesVersionMap ms h (go_sort (\<lambda>x y. NodeSet_Less ms h y x) nodes)) v))"
    and "b \<in> set (drop k (mget [] (initNodesVersionMap ms h (go_sort (\<lambda>x y. NodeSet_Less ms h y x) nodes)) v))"
  shows "\<not> NodeSet_Less ms h a b \<and> GetScore ms (cells h b) \<le> GetScore ms (cells h a)"
proof -
  have "sorted_wrt (\<lambda>a b. \<not> NodeSet_Less ms h a b) (go_sort (\<lambda>x y. NodeSet_Less ms h y x) nodes)"
    by (rule go_sort_sorted) (rule strict_weak_on_converse, rule NodeSet_Less_strict_weak)
  then have "\<not> NodeSet_Less ms h a b"
    by (rule kept_are_best [where P = "\<lambda>x. GetVersion ms (cells h x) = v" and k = k])
      (use assms in \<open>simp_all only: initNodesVersionMap_spec(3)\<close>)
  then show ?thesis by (auto simp: NodeSet_Less_def Let_def split: if_splits)
qed

theorem scale_in_keeps_best_witness: "\<not> NodeSet_Less plain_methods plain_heap 1 0"
  using scale_in_keeps_best [of 1 1 plain_methods plain_heap "[0, 1]" "''1-v''" 0]
  by (simp add: initNodesVersionMap_spec(3) go_sort_def NodeSet_Less_def plain_methods_def plain_heap_def)

lemma initScheduleArgs_Plan: "Plan (initScheduleArgs env sh p) = Plan p"
proof -
  have c: "Plan (fold init_counts xs q) = Plan q" for xs q
    by (induction xs arbitrary: q) (auto simp: init_counts_def Let_def)
  have r: "Plan (fold init_percents xs q) = Plan q" for xs q
    by (induction xs arbitrary: q) (auto simp: init_percents_def Let_def)
  show ?thesis by (simp add: initScheduleArgs_def init_sort_keys_def Let_def c r split: option.splits)
qed

text \<open>
  What the contract of the update means where every node is given once: the nodes that are neither updated nor deleted are those kept and not replaced, so for every version they,
  the updated nodes and the nodes to create make up the target.
\<close>

lemma update_contract_counts:
  assumes u: "update_contract ms h vm target extra disable rep (num, update, deleted, kept)"
    and vm: "node_total vm = mset nodes" and d: "distinct (nodes @ extra)"
  defines "moved \<equiv> concat (map snd update) @ deleted"
  shows "distinct moved \<and> set moved \<subseteq> set nodes \<union> set extra \<and> set extra \<subseteq> set moved \<and>
    (\<forall>v. int (length (filter (\<lambda>x. GetVersion ms (cells h x) = v \<and> x \<notin> set moved) nodes)) + int (length (mget [] update v)) + mget 0 num v = mget 0 target v)"
proof -
  have c: "node_total kept + node_total update + mset deleted = mset (nodes @ extra) + mset rep"
    "mset rep \<subseteq># node_total kept" "vm_ok ms h kept" "node_total kept \<subseteq># mset nodes"
    and cnt: "\<And>v. int (length (mget [] kept v)) + int (length (mget [] update v)) + mget 0 num v
        = mget 0 target v + int (length (filter (\<lambda>a. GetVersion ms (cells h a) = v) rep))"
    using u vm by (auto simp: update_contract_def)
  obtain stay where stay: "node_total kept = stay + mset rep" using c(2) by (metis add.commute subset_mset.add_diff_inverse)
  obtain sl where sl: "mset sl = stay" using ex_mset by blast
  have part: "mset (sl @ moved) = mset (nodes @ extra)" using c(1) stay sl by (simp add: moved_def node_total_def ac_simps)
  have sets: "set sl \<union> set moved = set nodes \<union> set extra" using mset_eq_setD [OF part] by simp
  have dis: "distinct (sl @ moved)" using d mset_eq_imp_distinct_iff [OF part] by blast
  have sub: "set sl \<subseteq> set nodes" using c(4) stay sl by (metis mset_subset_eq_add_left set_mset_mono set_mset_mset subset_mset.order_trans)
  have "distinct moved" "set moved \<subseteq> set nodes \<union> set extra" "set extra \<subseteq> set moved" using dis sets sub d by auto
  moreover have "int (length (filter (\<lambda>x. GetVersion ms (cells h x) = v \<and> x \<notin> set moved) nodes)) + int (length (mget [] update v)) + mget 0 num v = mget 0 target v" for v
  proof -
    have "set (filter (\<lambda>x. x \<notin> set moved) nodes) = set sl" using dis sets sub by auto
    moreover have "distinct (filter (\<lambda>x. x \<notin> set moved) nodes)" "distinct sl" using d dis by auto
    ultimately have "mset (filter (\<lambda>x. x \<notin> set moved) nodes) = stay" using set_eq_iff_mset_eq_distinct sl by metis
    then have "filter_mset (\<lambda>x. GetVersion ms (cells h x) = v) stay = mset (filter (\<lambda>x. GetVersion ms (cells h x) = v \<and> x \<notin> set moved) nodes)"
      by (auto simp: conj_commute simp flip: mset_filter)
    moreover have "mset (mget [] kept v) = filter_mset (\<lambda>x. GetVersion ms (cells h x) = v) stay + mset (filter (\<lambda>x. GetVersion ms (cells h x) = v) rep)"
      using vm_ok_version [OF c(3), of v] stay by simp
    ultimately have "length (mget [] kept v) = length (filter (\<lambda>x. GetVersion ms (cells h x) = v \<and> x \<notin> set moved) nodes) +
        length (filter (\<lambda>x. GetVersion ms (cells h x) = v) rep)"
      by (simp flip: size_mset)
    then show ?thesis using cnt [of v] by simp
  qed
  ultimately show ?thesis by blast
qed

text \<open>
  C3. The default node set updater delivers what the shard scheduler asks for. For arguments that pass the check, with a node factory that always answers, a number of replicas, no
  version dependencies, a status the scheduler accepts, no node given twice and fewer than 2^31 of them, \<open>Schedule\<close> returns the nodes to create, to update and to delete, and: the
  nodes being released are deleted; apart from these no node is both updated and deleted or listed twice, only live and extra nodes are listed, and every extra node is; and for every
  version the live nodes of that version that are neither updated nor deleted, the nodes updated to it and the nodes created for it are together exactly the target the shard scheduler
  set for it.
\<close>

theorem NodeSet_Schedule_delivers:
  fixes args :: "('n, 'p) RollingUpdateArgs"
  assumes "checkRollingUpdateArgs (Some args) = Inr a"
    and "ru_CreateNode args = Some create" "\<forall>i. create i \<noteq> None" "ru_Replicas args = Some r"
    and "ru_VersionDependencyMatrixPercent args = []"
    and live: "live = a\<lparr>ru_Nodes := filter (\<lambda>x. \<not> IsRelease ms (cells h x)) (ru_Nodes args)\<rparr>"
    and shard: "args_shard ms h live r = Inr shard"
    and ok: "schedulable env shard (initScheduleArgs env (Some shard) (initShardParams live r))"
    and size: "int (length (ru_Nodes live) + length (ru_ExtraNodes args)) < 2147483648"
    and once: "distinct (ru_Nodes args @ ru_ExtraNodes args)"
  shows "\<exists>target created update deleted h'.
    NodeSet_Schedule env (Schedule env) ms h (Some args) =
      Inr ((created, update, deleted @ filter (\<lambda>x. IsRelease ms (cells h x)) (ru_Nodes args)), h') \<and>
    calcTargetMatrix env (Schedule env) ms h live = Inr (target, None) \<and>
    distinct (concat (map snd update) @ deleted) \<and>
    set (concat (map snd update) @ deleted) \<subseteq> set (ru_Nodes live) \<union> set (ru_ExtraNodes args) \<and>
    set (ru_ExtraNodes args) \<subseteq> set (concat (map snd update) @ deleted) \<and>
    (\<forall>v. int (length (filter (\<lambda>x. GetVersion ms (cells h x) = v \<and> x \<notin> set (concat (map snd update) @ deleted)) (ru_Nodes live))) +
        int (length (mget [] update v)) + int (length (mget [] created v)) = mget 0 target v)"
proof -
  have "ru_VersionDependencyMatrixPercent a = []"
    using assms(1,5) by (auto simp: checkRollingUpdateArgs_def split: if_splits option.splits)
  then have nodep: "sp_VersionDependencyMatrixPercent
      (Plan (initScheduleArgs env (Some shard) (initShardParams live r))) = []"
    by (simp add: initScheduleArgs_Plan initShardParams_def live)
  let ?vm = "initNodesVersionMap ms h (go_sort (\<lambda>x y. NodeSet_Less ms h y x) (ru_Nodes live))"
  obtain target created update deleted kept num rep h' where d:
    "NodeSet_Schedule env (Schedule env) ms h (Some args) =
      Inr ((created, update, deleted @ filter (\<lambda>x. IsRelease ms (cells h x)) (ru_Nodes args)), h')"
    "calcTargetMatrix env (Schedule env) ms h live = Inr (target, None)"
    "update_contract ms h ?vm target (ru_ExtraNodes args) (ru_DisableReplaceEmpty args) rep (num, update, deleted, kept)"
    "\<forall>v. int (length (mget [] created v)) = mget 0 num v"
    using ip.delivers [OF assms(1-4) nodep live shard ok size] by blast
  have vm: "node_total ?vm = mset (ru_Nodes live)" by (simp add: initNodesVersionMap_spec(2) gs.sort_laws)
  have "distinct (ru_Nodes live @ ru_ExtraNodes args)" using once by (auto simp: live)
  then show ?thesis using update_contract_counts [OF d(3) vm] d(1,2,4)
    by (intro exI [of _ target] exI [of _ created] exI [of _ update] exI [of _ deleted] exI [of _ h']) simp
qed

text \<open>Two nodes of the only version, of three replicas.\<close>

definition plain_args :: "(plain_node, unit) RollingUpdateArgs" where
  "plain_args = \<lparr>ru_Nodes = [0, 1],
     ru_CreateNode = Some (\<lambda>_. Some \<lparr>pn_name = ''c'', pn_version = [], pn_ready = False\<rparr>),
     ru_Replicas = Some 3, ru_LatestVersionRatio = Some 100, ru_args_MaxUnavailable = Some (FromInt 1),
     ru_args_MaxSurge = Some (FromInt 0), ru_LatestVersion = ''1-v'', ru_LatestVersionPlan = None,
     ru_RollingStrategy = [], ru_Release = False, ru_GroupVersionMap = [], ru_VersionHoldMatrixPercent = [],
     ru_PaddedLatestVersionRatio = None, ru_VersionDependencyMatrixPercent = [],
     ru_LatestVersionCarryStrategy = CeilCarryStrategyType, ru_ExtraNodes = [], ru_DisableReplaceEmpty = True\<rparr>"

definition plain_shard :: Shard where
  "plain_shard = \<lparr>sh_Replicas = 3, sh_LatestVersionRatio = (\<lambda>version. if ''1-v'' = version then 100 else 0),
     sh_RawReplicas = 3, sh_DependencyLevel = 0, sh_CPU = 0, sh_Name = [], sh_CarbonRoleName = [],
     sh_VersionStatus = [(''1-v'', \<lparr>vs_Version = ''1-v'', vs_Replicas = 2, vs_ReadyReplicas = 1,
       vs_DataReadyReplicas = 0, vs_Signature = [], vs_ResourceVersionStatus = []\<rparr>)],
     sh_ResourceVersionStatus = None\<rparr>"

lemma plain_shard_args: "args_shard plain_methods plain_heap plain_args 3 = Inr plain_shard"
  by (simp add: args_shard_def plain_args_def GetVersionStatus_def isGroupNodeSet_def status_cell_def Let_def
      plain_methods_def plain_heap_def plain_shard_def i32_id cong: if_cong)

lemma plain_schedulable:
  "schedulable sample_env plain_shard (initScheduleArgs sample_env (Some plain_shard) (initShardParams plain_args 3))"
  by (simp add: schedulable_def isOneTargetVersion_def initScheduleArgs_def initShardParams_def plain_args_def
      init_sort_keys_def init_counts_def init_percents_def groupVersionToVersion_def plain_shard_def Let_def
      zero_params_def i32_id getVersionAllReplicas_def)

lemma plain_target:
  "Schedule sample_env plain_shard (Some (initScheduleArgs sample_env (Some plain_shard) (initShardParams plain_args 3))) = Inr ([(''1-v'', 3)], None)"
  by (simp add: Schedule_def calcDependencyMatrix_def isOneTargetVersion_def initScheduleArgs_def initShardParams_def plain_args_def
      init_sort_keys_def init_counts_def init_percents_def groupVersionToVersion_def plain_shard_def Let_def zero_params_def i32_id getVersionAllReplicas_def)

theorem NodeSet_Schedule_delivers_witness:
  "\<exists>created update deleted h'. NodeSet_Schedule sample_env (Schedule sample_env) plain_methods plain_heap (Some plain_args) =
     Inr ((created, update, deleted), h') \<and>
     length (filter (\<lambda>x. x \<notin> set (concat (map snd update) @ deleted)) [0, 1]) + length (mget [] update ''1-v'') + length (mget [] created ''1-v'') = 3"
proof -
  have c: "checkRollingUpdateArgs (Some plain_args) = Inr plain_args"
    by (simp add: checkRollingUpdateArgs_def plain_args_def)
  have f: "plain_args = plain_args\<lparr>ru_Nodes :=
      filter (\<lambda>x. \<not> IsRelease plain_methods (cells plain_heap x)) (ru_Nodes plain_args)\<rparr>"
    by (simp add: plain_args_def plain_methods_def)
  have p: "ru_CreateNode plain_args = Some (\<lambda>_. Some \<lparr>pn_name = ''c'', pn_version = [], pn_ready = False\<rparr>)" "ru_Replicas plain_args = Some 3"
    "ru_VersionDependencyMatrixPercent plain_args = []" "int (length (ru_Nodes plain_args) + length (ru_ExtraNodes plain_args)) < 2147483648"
    "distinct (ru_Nodes plain_args @ ru_ExtraNodes plain_args)"
    by (simp_all add: plain_args_def)
  have n: "ru_Nodes plain_args = [0, 1]" "\<And>x. GetVersion plain_methods (cells plain_heap x) = ''1-v''" "\<And>x. \<not> IsRelease plain_methods x"
    by (simp_all add: plain_args_def plain_methods_def plain_heap_def)
  have "calcTargetMatrix sample_env (Schedule sample_env) plain_methods plain_heap plain_args = Inr ([(''1-v'', 3)], None)"
    using plain_shard_args plain_target p(2) by (simp add: calcTargetMatrix_def)
  then obtain created update deleted h' where
    o: "NodeSet_Schedule sample_env (Schedule sample_env) plain_methods plain_heap (Some plain_args) = Inr ((created, update, deleted), h')"
    and v: "\<And>v. int (length (filter (\<lambda>x. ''1-v'' = v \<and> x \<notin> set (concat (map snd update) @ deleted)) [0, 1])) +
        int (length (mget [] update v)) + int (length (mget [] created v)) = mget 0 [(''1-v'', 3)] v"
    using NodeSet_Schedule_delivers [OF c p(1) _ p(2,3) f plain_shard_args plain_schedulable p(4,5)] n by auto
  have "length (filter (\<lambda>x. x \<notin> set (concat (map snd update) @ deleted)) [0, 1]) + length (mget [] update ''1-v'') + length (mget [] created ''1-v'') = 3"
    using v [of "''1-v''"] by simp
  with o show ?thesis by blast
qed

text \<open>
  The argument check lets a nil number of replicas pass, and the scheduler then dereferences it:
  the only outcome is a panic.
\<close>

theorem NodeSet_Schedule_nil_replicas:
  assumes "ru_CreateNode args \<noteq> None" "ru_Replicas args = None"
  shows "NodeSet_Schedule env scheduler ms h (Some args) = Inl NilDereference"
  using assms
  by (simp add: NodeSet_Schedule_def checkRollingUpdateArgs_def collectReleaseNode_def calcTargetMatrix_def Let_def)

theorem NodeSet_Schedule_nil_replicas_witness:
  "NodeSet_Schedule sample_env (Schedule sample_env) plain_methods plain_heap (Some (plain_args\<lparr>ru_Replicas := None\<rparr>)) =
     Inl NilDereference"
  using NodeSet_Schedule_nil_replicas [of "plain_args\<lparr>ru_Replicas := None\<rparr>" sample_env "Schedule sample_env"
      plain_methods plain_heap] by (simp add: plain_args_def)

end
