(* ===== verification/GoStrings.thy ===== *)
theory GoStrings
  imports GoPrelude "HOL-Library.AList_Mapping"
begin

text \<open>
  What the worker model uses of \<^verbatim>\<open>strconv\<close> and \<^verbatim>\<open>strings\<close>: \<^verbatim>\<open>FormatInt\<close> (the inverse of \<^verbatim>\<open>ParseInt\<close>, which is
  \<open>atoi\<close>), \<^verbatim>\<open>HasSuffix\<close>, \<^verbatim>\<open>TrimSuffix\<close> and \<^verbatim>\<open>Contains\<close>; and string maps that may be nil.
\<close>

subsection \<open>Decimal numbers\<close>

fun digits_of :: "nat \<Rightarrow> string" where
  "digits_of n = (if n < 10 then [char_of (48 + n)] else digits_of (n div 10) @ [char_of (48 + n mod 10)])"

declare digits_of.simps [simp del]

definition FormatInt :: "int \<Rightarrow> string" where
  "FormatInt n = (if n < 0 then CHR ''-'' # digits_of (nat (- n)) else digits_of (nat n))"

abbreviation ParseInt :: "string \<Rightarrow> int option" where
  "ParseInt \<equiv> atoi"

lemma digit_val_char_of: "d < 10 \<Longrightarrow> digit_val (char_of (48 + d :: nat)) = Some (int d)"
  by (simp add: digit_val_def)

lemma digits_val_snoc:
  "digits_val acc (cs @ [c]) =
     (case digits_val acc cs of None \<Rightarrow> None
      | Some n \<Rightarrow> (case digit_val c of None \<Rightarrow> None | Some d \<Rightarrow> Some (10 * n + d)))"
  by (induction acc cs rule: digits_val.induct) (auto split: option.split)

lemma digits_val_digits_of: "digits_val 0 (digits_of n) = Some (int n)"
proof (induction n rule: digits_of.induct)
  case (1 n)
  show ?case
  proof (cases "n < 10")
    case True
    then show ?thesis using digit_val_char_of [of n] by (simp add: digits_of.simps [of n])
  next
    case False
    have "10 * int (n div 10) + int (n mod 10) = int n" by presburger
    moreover have "n mod 10 < 10" by simp
    ultimately show ?thesis using 1 False digit_val_char_of [of "n mod 10"]
      by (simp add: digits_of.simps [of n] digits_val_snoc)
  qed
qed

lemma digit_char_not_sign:
  assumes "d < 10"
  shows "char_of (48 + d :: nat) \<noteq> CHR ''-''" "char_of (48 + d :: nat) \<noteq> CHR ''+''"
proof -
  have "digit_val (CHR ''-'') = None" "digit_val (CHR ''+'') = None" by (simp_all add: digit_val_def)
  then show "char_of (48 + d :: nat) \<noteq> CHR ''-''" "char_of (48 + d :: nat) \<noteq> CHR ''+''"
    using digit_val_char_of [OF assms] by force+
qed

lemma digits_of_head: "\<exists>d cs. d < 10 \<and> digits_of n = char_of (48 + d :: nat) # cs"
proof (induction n rule: digits_of.induct)
  case (1 n)
  then show ?case by (cases "n < 10") (auto simp: digits_of.simps [of n])
qed

theorem ParseInt_FormatInt:
  assumes "- 9223372036854775808 \<le> n" "n \<le> 9223372036854775807"
  shows "ParseInt (FormatInt n) = Some n"
proof (cases "n < 0")
  case True
  obtain d cs where "digits_of (nat (- n)) = char_of (48 + d :: nat) # cs" using digits_of_head by blast
  then show ?thesis using True assms digits_val_digits_of [of "nat (- n)"]
    by (simp add: FormatInt_def atoi_def)
next
  case False
  obtain d cs where d: "d < 10" "digits_of (nat n) = char_of (48 + d :: nat) # cs" using digits_of_head by blast
  then show ?thesis using False assms digits_val_digits_of [of "nat n"] digit_char_not_sign [OF d(1)]
    by (simp add: FormatInt_def atoi_def)
qed

subsection \<open>Suffixes and substrings\<close>

definition HasSuffix :: "string \<Rightarrow> string \<Rightarrow> bool" where
  "HasSuffix s suf \<longleftrightarrow> length suf \<le> length s \<and> drop (length s - length suf) s = suf"

definition TrimSuffix :: "string \<Rightarrow> string \<Rightarrow> string" where
  "TrimSuffix s suf = (if HasSuffix s suf then take (length s - length suf) s else s)"

lemma HasSuffix_append [simp]: "HasSuffix (s @ suf) suf"
  by (simp add: HasSuffix_def)

lemma TrimSuffix_append [simp]: "TrimSuffix (s @ suf) suf = s"
  by (simp add: TrimSuffix_def)

lemma HasSuffix_other: "length a = length b \<Longrightarrow> a \<noteq> b \<Longrightarrow> \<not> HasSuffix (s @ a) b"
  by (simp add: HasSuffix_def)

lemma TrimSuffix_no: "\<not> HasSuffix s suf \<Longrightarrow> TrimSuffix s suf = s"
  by (simp add: TrimSuffix_def)

definition HasPrefix :: "string \<Rightarrow> string \<Rightarrow> bool" where
  "HasPrefix s pre \<longleftrightarrow> take (length pre) s = pre"

fun Contains :: "string \<Rightarrow> string \<Rightarrow> bool" where
  "Contains [] sub \<longleftrightarrow> sub = []"
| "Contains (c # cs) sub \<longleftrightarrow> HasPrefix (c # cs) sub \<or> Contains cs sub"

lemma HasPrefix_append [simp]: "HasPrefix (s @ t) s"
  by (simp add: HasPrefix_def)

lemma Contains_prefix [simp]: "Contains (s @ t) s"
  using HasPrefix_append [of s t] by (cases "s @ t") auto

text \<open>\<^verbatim>\<open>strings.Split\<close> at a character and \<^verbatim>\<open>strings.Join\<close> with it.\<close>

fun go_split :: "char \<Rightarrow> string \<Rightarrow> string list" where
  "go_split c [] = [[]]"
| "go_split c (x # xs) =
     (if x = c then [] # go_split c xs
      else case go_split c xs of [] \<Rightarrow> [[x]] | s # ss \<Rightarrow> (x # s) # ss)"

fun go_join :: "char \<Rightarrow> string list \<Rightarrow> string" where
  "go_join c [] = []"
| "go_join c [s] = s"
| "go_join c (s # ss) = s @ c # go_join c ss"

lemma go_split_ne [simp]: "go_split c s \<noteq> []"
  by (cases s) (auto split: list.split)

lemma go_split_plain: "c \<notin> set s \<Longrightarrow> go_split c (s @ c # t) = s # go_split c t"
  by (induction s) (auto split: list.split)

lemma go_split_last: "c \<notin> set s \<Longrightarrow> go_split c s = [s]"
  by (induction s) auto

lemma go_split_join: "ss \<noteq> [] \<Longrightarrow> \<forall>s \<in> set ss. c \<notin> set s \<Longrightarrow> go_split c (go_join c ss) = ss"
  by (induction c ss rule: go_join.induct) (auto simp: go_split_plain go_split_last)

lemma go_split_parts: "s \<in> set (go_split c t) \<Longrightarrow> c \<notin> set s"
  by (induction c t arbitrary: s rule: go_split.induct) (auto split: if_splits list.splits)

subsection \<open>String maps\<close>

text \<open>A \<^verbatim>\<open>map[string]string\<close>: nil, or a finite map. Reading a missing key of either gives the empty string,
  \<^verbatim>\<open>delete\<close> does nothing on nil, writing to nil panics (the callers that write allocate first).\<close>

type_synonym strmap = "(string, string) mapping option"

definition sget :: "strmap \<Rightarrow> string \<Rightarrow> string" where
  "sget m k = (case m of None \<Rightarrow> [] | Some f \<Rightarrow> (case Mapping.lookup f k of None \<Rightarrow> [] | Some v \<Rightarrow> v))"

definition shas :: "strmap \<Rightarrow> string \<Rightarrow> bool" where
  "shas m k = (case m of None \<Rightarrow> False | Some f \<Rightarrow> Mapping.lookup f k \<noteq> None)"

definition sdel :: "string \<Rightarrow> strmap \<Rightarrow> strmap" where
  "sdel k m = map_option (Mapping.delete k) m"

text \<open>A write that allocates the map when it is nil.\<close>

definition sput :: "string \<Rightarrow> string \<Rightarrow> strmap \<Rightarrow> strmap" where
  "sput k v m = Some (Mapping.update k v (case m of None \<Rightarrow> Mapping.empty | Some f \<Rightarrow> f))"

text \<open>The entries, which are all that the JSON text of an object has of a map.\<close>

definition scontents :: "strmap \<Rightarrow> (string, string) mapping" where
  "scontents m = (case m of None \<Rightarrow> Mapping.empty | Some f \<Rightarrow> f)"

text \<open>One map written over another.\<close>

definition smerge :: "(string, string) mapping \<Rightarrow> (string, string) mapping \<Rightarrow> (string, string) mapping" where
  "smerge over m = Mapping.combine (\<lambda>_ new. new) m over"

lemma lookup_smerge [simp]:
  "Mapping.lookup (smerge over m) k = (case Mapping.lookup over k of None \<Rightarrow> Mapping.lookup m k | Some v \<Rightarrow> Some v)"
  by (simp add: smerge_def lookup_combine combine_options_def split: option.split)

lemma lookup_removed: "Mapping.lookup (Mapping.delete k m) j = (if j = k then None else Mapping.lookup m j)"
  by simp

lemma sget_sput [simp]: "sget (sput k v m) j = (if j = k then v else sget m j)"
  by (simp add: sget_def sput_def lookup_update' split: option.split)

lemma shas_sput [simp]: "shas (sput k v m) j = (j = k \<or> shas m j)"
  by (simp add: shas_def sput_def lookup_update' split: option.split)

lemma sget_sdel [simp]: "sget (sdel k m) j = (if j = k then [] else sget m j)"
  by (simp add: sget_def sdel_def lookup_removed split: option.split)

lemma shas_sdel [simp]: "shas (sdel k m) j = (j \<noteq> k \<and> shas m j)"
  by (simp add: shas_def sdel_def lookup_removed split: option.split)

lemma sget_None [simp]: "sget None k = []"
  by (simp add: sget_def)

lemma shas_None [simp]: "\<not> shas None k"
  by (simp add: shas_def)

lemma sget_Some [simp]: "sget (Some f) k = (case Mapping.lookup f k of None \<Rightarrow> [] | Some v \<Rightarrow> v)"
  by (simp add: sget_def)

lemma shas_Some [simp]: "shas (Some f) k = (Mapping.lookup f k \<noteq> None)"
  by (simp add: shas_def)

lemma sput_Some [simp]: "sput k v m \<noteq> None"
  by (simp add: sput_def)

lemma case_sput [simp]: "(case sput k v m of None \<Rightarrow> a | Some _ \<Rightarrow> b) = b"
  by (simp add: sput_def)

lemma sget_missing: "\<not> shas m k \<Longrightarrow> sget m k = []"
  by (simp add: sget_def shas_def split: option.splits)

end
