(* ===== verification/WorkerNode.thy ===== *)
theory WorkerNode
  imports GoStrings
begin

text \<open>
  The worker node of \<^verbatim>\<open>pkg/apis/carbon/v1\<close>: its data (\<^verbatim>\<open>workernode.go\<close>), the predicates and setters of
  \<^verbatim>\<open>helpers.go\<close> and the service conditions of \<^verbatim>\<open>service_publisher.go\<close>.

  A struct that Go embeds is a parent record, so that its fields are promoted as in Go. Only the fields
  that the modelled code reads or writes are kept. A string type with named constants is a datatype: one
  constructor per constant, one for the empty string and one for any other string. A pointer that may be
  nil is an option. Seconds are unbounded integers. The clock, the configuration flags, the feature gates
  and the library functions that are not part of the repository are the fields of an environment record;
  one call of an operation reads one value of the clock.
\<close>

named_theorems worker_preds \<open>the predicates on a worker\<close>
named_theorems worker_setters \<open>the setters of a worker\<close>

subsection \<open>Constants\<close>

datatype AllocStatus = AllocStatusEmpty | WorkerUnAssigned | WorkerAssigned | WorkerLost | WorkerOfflining
  | WorkerReleasing | WorkerReleased | AllocStatusOther string

datatype WorkerPhase = PhaseEmpty | Pending | Running | Terminated | Failed | Unknown | PhaseOther string

datatype HealthStatus = HealthStatusEmpty | HealthUnKnown | HealthLost | HealthAlive | HealthDead | HealthOther string

datatype ServiceStatus = ServiceStatusEmpty | ServiceUnKnown | ServiceUnAvailable | ServicePartAvailable
  | ServiceAvailable | ServiceStatusOther string

datatype WorkerType = WorkerTypeEmpty | WorkerTypeUnknow | WorkerTypeNotReady | WorkerTypeReady | WorkerTypeOther string

datatype WorkerModeType = WorkerModeEmpty | WorkerModeTypeActive | WorkerModeTypeHot | WorkerModeTypeWarm
  | WorkerModeTypeCold | WorkerModeTypeUnknown | WorkerModeTypeInactive | WorkerModeOther string

datatype RegistryType = ServiceNone | ServiceVipserver | ServiceCM2 | ServiceLVS | ServiceSLB | ServiceVPCSLB
  | ServiceALB | ServiceArmory | ServiceSkyline | ServiceAntvip | ServiceMesh | ServiceGeneral | RegistryOther string

datatype ConditionStatus = ConditionTrue | ConditionFalse | ConditionUnknown | ConditionOther string

datatype ProcessStep = StepEmpty | StepBegin | StepProcessUpdateGracefully | StepProcessPlan | StepProcessHealthInfo
  | StepProcessServiceInfo | StepLost | StepToRelease

datatype RecoverStrategyType = DefaultRecoverStrategy | DirectReleasedRecoverStrategy | NotRecoverStrategy
  | RebuildDeadStrategy | RecoverStrategyOther string

datatype BadReasonType = BadReasonNone | BadReasonLost | BadReasonDead | BadReasonNotMatch | BadReasonProcessNotMatch
  | BadReasonNotReady | BadReasonReclaim | BadReasonRelease | BadReasonNotSchedule | BadReasonProcessNotReady
  | BadReasonServiceReclaim

fun badReasonMessage :: "BadReasonType \<Rightarrow> string" where
  "badReasonMessage BadReasonNone = ''''"
| "badReasonMessage BadReasonLost = ''lost''"
| "badReasonMessage BadReasonDead = ''dead''"
| "badReasonMessage BadReasonNotMatch = ''resourceNotMatch''"
| "badReasonMessage BadReasonProcessNotMatch = ''processNotMatch''"
| "badReasonMessage BadReasonNotReady = ''notReady''"
| "badReasonMessage BadReasonReclaim = ''reclaim''"
| "badReasonMessage BadReasonRelease = ''release''"
| "badReasonMessage BadReasonNotSchedule = ''notSchedule''"
| "badReasonMessage BadReasonProcessNotReady = ''processNotReady''"
| "badReasonMessage BadReasonServiceReclaim = ''serviceReclaim''"

datatype UnassignedReasonType = UnassignedReasonNone | UnassignedReasonCreatePodErr | UnassignedReasonNotSchedule
  | UnassignedReasonQuotaNotEnough | UnassignedReasonQuotaNotExist | UnassignedReasonResourceNotEnough

fun unassignedReasonMessage :: "UnassignedReasonType \<Rightarrow> string" where
  "unassignedReasonMessage UnassignedReasonNone = ''none''"
| "unassignedReasonMessage UnassignedReasonCreatePodErr = ''create_pod_error''"
| "unassignedReasonMessage UnassignedReasonNotSchedule = ''not_scheduled''"
| "unassignedReasonMessage UnassignedReasonQuotaNotEnough = ''quota_not_enough''"
| "unassignedReasonMessage UnassignedReasonQuotaNotExist = ''quota_not_exist''"
| "unassignedReasonMessage UnassignedReasonResourceNotEnough = ''resource_not_enough''"

abbreviation "WorkerRoleKey \<equiv> ''app.c2.io/worker-role''"
abbreviation "CurrentWorkerKey \<equiv> ''current''"
abbreviation "BackupWorkerKey \<equiv> ''backup''"
abbreviation "LabelKeyHippoPreference \<equiv> ''app.hippo.io/preference''"
abbreviation "AnnoBecomeCurrentTime \<equiv> ''app.hippo.io/become-current-time''"
abbreviation "SilentNodeAnnoKey \<equiv> ''app.c2.io/silentnode''"
abbreviation "SilentTimeAnnoKey \<equiv> ''app.c2.io/silent-time''"
abbreviation "Standby2ActiveTimeAnnoKey \<equiv> ''app.c2.io/standby-to-active-time''"
abbreviation "InitServiceFalseState \<equiv> ''init with false''"
abbreviation "ReasonNotExist \<equiv> ''Service Not Exist Node''"
abbreviation "ReasonServiceCheckFalse \<equiv> ''Service Check False''"
abbreviation "ReasonWarmUP \<equiv> ''Node In Warmup''"
abbreviation "ReasonQueryError \<equiv> ''Query NameService With Error''"
abbreviation "NodeHasPublished \<equiv> ''Node Published''"

subsection \<open>Data\<close>

text \<open>\<^verbatim>\<open>metav1.Time\<close> as seconds; \<open>None\<close> is the zero time, the first second of the year 1.\<close>

type_synonym gotime = "int option"

definition UnixTime :: "gotime \<Rightarrow> int" where
  "UnixTime t = (case t of None \<Rightarrow> - 62135596800 | Some s \<Rightarrow> s)"

record ServiceCondition =
  sc_Type :: RegistryType
  sc_ServiceName :: string
  sc_Status :: ConditionStatus
  sc_Score :: int
  sc_LastTransitionTime :: gotime
  sc_Reason :: string
  sc_Message :: string
  sc_InWarmup :: bool
  sc_DeleteCount :: int
  sc_Name :: string
  sc_StartWarmup :: bool
  sc_Version :: string
  sc_ServiceDetail :: string

record HealthCondition =
  hc_Status :: HealthStatus
  hc_LastTransitionTime :: gotime
  hc_Version :: string
  hc_WorkerStatus :: WorkerType
  hc_Type :: string
  hc_Reason :: string
  hc_Message :: string
  hc_LastLostTime :: int
  hc_LostCount :: int32
  hc_Metas :: strmap
  hc_Checked :: bool
  hc_CompressedMetas :: string

text \<open>A template with what the controller reads of it; a container is its name and the \<^verbatim>\<open>RestartCountLimit\<close> of its
  \<^verbatim>\<open>Configs\<close> when they are not nil; limits are not negative.\<close>

record HippoPodTemplate =
  tmpl_Labels :: strmap
  tmpl_Annotations :: strmap
  tmpl_RestartPolicy :: string
  tmpl_SchedulerName :: string
  tmpl_Containers :: "(string \<times> nat option) list"

record BrokenRecoverQuota =
  MaxFailedCount :: "int32 option"
  TimeWindow :: "int32 option"

record WorkerSchedulePlan =
  MinReadySeconds :: int32
  WarmupSeconds :: int32
  ResourceMatchTimeout :: int
  ProcessMatchTimeout :: int
  WorkerReadyTimeout :: int
  BrokenRecoverQuotaConfig :: "BrokenRecoverQuota option"
  RecoverStrategy :: RecoverStrategyType
  DelayDeleteBackupSeconds :: int

record BroadcastPlan = WorkerSchedulePlan +
  CustomInfo :: string
  CompressedCustomInfo :: string
  UserDefVersion :: string
  Online :: "bool option"
  UpdatingGracefully :: "bool option"
  Preload :: bool
  IsDaemonSet :: bool
  plan_CPU :: "int32 option"
  UpdatePlanTimestamp :: int
  RowComplete :: "bool option"

record VersionPlan = BroadcastPlan +
  ShardGroupVersion :: string
  Template :: "HippoPodTemplate option"
  Signature :: string
  RestartAfterResourceChange :: "bool option"
  BufferSelector :: strmap
  Cm2TopoInfo :: string

record PodRef =
  pod_ref_Name :: string
  pod_ref_Uid :: string

record WorkerNodeSpec =
  Selector :: "strmap option"
  Spec_ResVersion :: string
  Spec_Version :: string
  Spec_VersionPlan :: VersionPlan
  Spec_WorkerMode :: WorkerModeType
  DependencyReady :: "bool option"
  ToDelete :: bool
  Releasing :: bool
  Spec_Reclaim :: bool
  OwnerGeneration :: int
  Spec_DeletionCost :: int
  BackupOfPod :: PodRef
  IsSpot :: bool
  ResourcePool :: string
  Spec_StandbyHours :: string

record HippoSlotID =
  SlaveAddress :: string
  SlotID :: int

record AllocatorSyncedStatus =
  IP :: string
  HostIP :: string
  ResourceMatch :: bool
  ProcessMatch :: bool
  LastResourceNotMatchtime :: int
  LastProcessNotMatchtime :: int
  ResVersion :: string
  Version :: string
  ProcessScore :: int32
  Phase :: WorkerPhase
  Reclaim :: bool
  InternalReclaim :: bool
  ProcessReady :: bool
  EntityName :: string
  EntityAlloced :: bool
  WorkerMode :: WorkerModeType
  PodNotStarted :: bool
  NotScheduleSeconds :: int
  LastProcessNotReadytime :: int
  UnassignedReason :: UnassignedReasonType
  UnassignedMessage :: string
  HistoryUnassignedMessage :: string
  DeletionCost :: int
  EntityUid :: string
  st_UserDefVersion :: string
  StandbyHours :: string

record WorkerStateChangeRecoder = AllocatorSyncedStatus +
  LastServiceReadyTime :: "int option"
  BecomeCurrentTime :: gotime
  LastDeleteBackupTime :: int
  AssignedTime :: int
  PodReadyTime :: int
  WorkerReadyTime :: int
  LastWarmupStartTime :: int
  LastWarmupEndTime :: int

record WorkerNodeStatus = WorkerStateChangeRecoder +
  ServiceOffline :: bool
  Warmup :: bool
  InWarmup :: bool
  st_NeedWarmup :: bool
  InUpdating :: bool
  InRestarting :: bool
  WorkerReady :: bool
  LastWorkerNotReadytime :: int
  Score :: int
  st_AllocStatus :: AllocStatus
  st_HealthStatus :: HealthStatus
  st_ProcessStep :: ProcessStep
  st_HealthCondition :: HealthCondition
  st_ServiceStatus :: ServiceStatus
  ServiceConditions :: "ServiceCondition list"
  ServiceReady :: bool
  Complete :: bool
  ToRelease :: bool
  BadReason :: BadReasonType
  PodReady :: bool
  st_Name :: string
  BadReasonMessage :: string
  RestartRecords :: strmap
  IsFedWorker :: bool
  ServiceInfoMetas :: string
  ServiceInfoMetasRecoverd :: bool
  st_SlotID :: HippoSlotID

text \<open>The zero value \<^verbatim>\<open>WorkerNodeStatus{}\<close>.\<close>

definition empty_status :: WorkerNodeStatus where
  "empty_status = \<lparr>IP = [], HostIP = [], ResourceMatch = False, ProcessMatch = False, LastResourceNotMatchtime = 0,
     LastProcessNotMatchtime = 0, ResVersion = [], Version = [], ProcessScore = 0, Phase = PhaseEmpty, Reclaim = False,
     InternalReclaim = False, ProcessReady = False, EntityName = [], EntityAlloced = False, WorkerMode = WorkerModeEmpty,
     PodNotStarted = False, NotScheduleSeconds = 0, LastProcessNotReadytime = 0, UnassignedReason = UnassignedReasonNone,
     UnassignedMessage = [], HistoryUnassignedMessage = [], DeletionCost = 0, EntityUid = [], st_UserDefVersion = [],
     StandbyHours = [], LastServiceReadyTime = None,
     BecomeCurrentTime = None, LastDeleteBackupTime = 0, AssignedTime = 0, PodReadyTime = 0, WorkerReadyTime = 0,
     LastWarmupStartTime = 0, LastWarmupEndTime = 0, ServiceOffline = False, Warmup = False, InWarmup = False,
     st_NeedWarmup = False, InUpdating = False, InRestarting = False, WorkerReady = False, LastWorkerNotReadytime = 0,
     Score = 0, st_AllocStatus = AllocStatusEmpty, st_HealthStatus = HealthStatusEmpty, st_ProcessStep = StepEmpty,
     st_HealthCondition = \<lparr>hc_Status = HealthStatusEmpty, hc_LastTransitionTime = None, hc_Version = [],
       hc_WorkerStatus = WorkerTypeEmpty, hc_Type = [], hc_Reason = [], hc_Message = [], hc_LastLostTime = 0, hc_LostCount = 0, hc_Metas = None,
       hc_Checked = False, hc_CompressedMetas = []\<rparr>, st_ServiceStatus = ServiceStatusEmpty, ServiceConditions = [],
     ServiceReady = False, Complete = False, ToRelease = False, BadReason = BadReasonNone, PodReady = False,
     st_Name = [], BadReasonMessage = [], RestartRecords = None, IsFedWorker = False,
     ServiceInfoMetas = [], ServiceInfoMetasRecoverd = False, st_SlotID = \<lparr>SlaveAddress = [], SlotID = 0\<rparr>\<rparr>"

text \<open>\<^verbatim>\<open>metav1.ObjectMeta\<close>; an owner reference is its kind and name.\<close>

record WorkerNode =
  Name :: string
  Namespace :: string
  UID :: string
  ResourceVersion :: string
  Labels :: strmap
  Annotations :: strmap
  CreationTimestamp :: gotime
  DeletionTimestamp :: "int option"
  OwnerReferences :: "(string \<times> string) list"
  Spec :: WorkerNodeSpec
  Status :: WorkerNodeStatus

abbreviation Plan :: "WorkerNode \<Rightarrow> VersionPlan" where
  "Plan w \<equiv> Spec_VersionPlan (Spec w)"

record AppNodeStatus =
  AppId :: string
  StartedAt :: int
  PlanStatus :: int
  AppServiceStatus :: int
  NeedBackup :: bool

text \<open>The environment: the clock, \<^verbatim>\<open>types.go\<close>'s flags, the feature gates, and the functions of packages
  outside the repository: \<^verbatim>\<open>time.Parse\<close> (\<open>None\<close> on an error) and \<^verbatim>\<open>Format\<close> of RFC 3339, \<^verbatim>\<open>json.Unmarshal\<close> of a
  list of \<^verbatim>\<open>AppNodeStatus\<close>, and the label helpers of \<^verbatim>\<open>k8s.io/kubernetes/pkg/util/labels\<close>.\<close>

record worker_env =
  Now :: int
  NotScheduleTimeout :: int
  defaultMinReadySeconds :: int32
  defaultSilenceSeconds :: int
  defaultStandby2ActiveSeconds :: int
  DefaultMaxFailedCount :: int32
  UpdateResourceRolling :: bool
  WarmupNewStartingPod :: bool
  WarmupUnavailablePod :: bool
  UnPubRestartingNode :: bool
  UpdatePodVersion3WithRelease :: bool
  parse_RFC3339 :: "string \<Rightarrow> int option"
  format_RFC3339 :: "int \<Rightarrow> string"
  unmarshal_AppNodeStatus :: "string \<Rightarrow> AppNodeStatus list"
  AddLabel :: "strmap \<Rightarrow> string \<Rightarrow> string \<Rightarrow> strmap"
  CloneAndAddLabel :: "strmap \<Rightarrow> string \<Rightarrow> string \<Rightarrow> strmap"
  AddLabelToSelector :: "strmap \<Rightarrow> string \<Rightarrow> string \<Rightarrow> strmap"
  SignatureWithMD5 :: "string \<Rightarrow> string"

text \<open>Abbreviations for writes to the status and to the spec.\<close>

abbreviation set_status :: "(WorkerNodeStatus \<Rightarrow> WorkerNodeStatus) \<Rightarrow> WorkerNode \<Rightarrow> WorkerNode" where
  "set_status f w \<equiv> w\<lparr>Status := f (Status w)\<rparr>"

abbreviation set_spec :: "(WorkerNodeSpec \<Rightarrow> WorkerNodeSpec) \<Rightarrow> WorkerNode \<Rightarrow> WorkerNode" where
  "set_spec f w \<equiv> w\<lparr>Spec := f (Spec w)\<rparr>"

end
