(* ===== verification/WorkerState.thy ===== *)
theory WorkerState
  imports WorkerNode
begin

text \<open>
  The predicates and setters of \<^verbatim>\<open>helpers.go\<close> that the worker controller and the schedulers use, and what
  \<^verbatim>\<open>service_publisher.go\<close> derives from the service conditions. Every predicate of the source answers
  false on a nil worker; here a predicate takes a worker, and \<open>not_nil\<close> adds that guard where the pointer may
  be nil. A setter returns the changed worker; an observer that writes (such as \<^verbatim>\<open>IsWorkerServiceReady\<close>) returns
  the worker too.
\<close>

definition not_nil :: "('a \<Rightarrow> bool) \<Rightarrow> 'a option \<Rightarrow> bool" where
  "not_nil p w = (case w of None \<Rightarrow> False | Some w \<Rightarrow> p w)"

lemma not_nil_simps [simp]: "\<not> not_nil p None" "not_nil p (Some w) = p w"
  by (simp_all add: not_nil_def)

subsection \<open>Allocation status\<close>

definition IsWorkerUnAssigned :: "WorkerNode \<Rightarrow> bool" where [worker_preds]:
  "IsWorkerUnAssigned w \<longleftrightarrow> st_AllocStatus (Status w) = WorkerUnAssigned \<or> st_AllocStatus (Status w) = AllocStatusEmpty"

definition SetWorkerUnAssigned :: "WorkerNode \<Rightarrow> WorkerNode" where [worker_setters]:
  "SetWorkerUnAssigned w = set_status (\<lambda>s. s\<lparr>st_AllocStatus := WorkerUnAssigned\<rparr>) w"

definition IsWorkerAssigned :: "WorkerNode \<Rightarrow> bool" where [worker_preds]:
  "IsWorkerAssigned w \<longleftrightarrow> st_AllocStatus (Status w) = WorkerAssigned"

definition SetWorkerAssigned :: "worker_env \<Rightarrow> WorkerNode \<Rightarrow> WorkerNode" where [worker_setters]:
  "SetWorkerAssigned e w = set_status (\<lambda>s. s\<lparr>st_AllocStatus := WorkerAssigned,
     AssignedTime := (if AssignedTime s = 0 then Now e else AssignedTime s)\<rparr>) w"

definition RecordPodReadyTime :: "worker_env \<Rightarrow> WorkerNode \<Rightarrow> WorkerNode" where [worker_setters]:
  "RecordPodReadyTime e w =
     (if ProcessReady (Status w) \<and> AssignedTime (Status w) \<noteq> 0 \<and> PodReadyTime (Status w) = 0
      then set_status (\<lambda>s. s\<lparr>PodReadyTime := Now e\<rparr>) w else w)"

definition RecordWorkerReadyTime :: "worker_env \<Rightarrow> WorkerNode \<Rightarrow> WorkerNode" where [worker_setters]:
  "RecordWorkerReadyTime e w =
     (if WorkerReady (Status w) \<and> AssignedTime (Status w) \<noteq> 0 \<and> WorkerReadyTime (Status w) = 0
      then set_status (\<lambda>s. s\<lparr>WorkerReadyTime := Now e\<rparr>) w else w)"

definition IsWorkerLost :: "WorkerNode \<Rightarrow> bool" where [worker_preds]:
  "IsWorkerLost w \<longleftrightarrow> st_AllocStatus (Status w) = WorkerLost"

definition IsWorkerFalied :: "WorkerNode \<Rightarrow> bool" where [worker_preds]:
  "IsWorkerFalied w \<longleftrightarrow> Phase (Status w) = Failed"

definition IsWorkerIrrecoverable :: "WorkerNode \<Rightarrow> bool" where [worker_preds]:
  "IsWorkerIrrecoverable w \<longleftrightarrow> IsWorkerLost w \<or> IsWorkerFalied w"

definition IsWorkerDependencyReady :: "WorkerNode \<Rightarrow> bool" where [worker_preds]:
  "IsWorkerDependencyReady w = (case DependencyReady (Spec w) of None \<Rightarrow> True | Some b \<Rightarrow> b)"

definition SetWorkerLost :: "WorkerNode \<Rightarrow> WorkerNode" where [worker_setters]:
  "SetWorkerLost w = set_status (\<lambda>s. s\<lparr>st_AllocStatus := WorkerLost\<rparr>) w"

definition IsWorkerOfflining :: "WorkerNode \<Rightarrow> bool" where [worker_preds]:
  "IsWorkerOfflining w \<longleftrightarrow> st_AllocStatus (Status w) = WorkerOfflining"

definition SetWorkerOfflining :: "WorkerNode \<Rightarrow> WorkerNode" where [worker_setters]:
  "SetWorkerOfflining w = set_status (\<lambda>s. s\<lparr>st_AllocStatus := WorkerOfflining\<rparr>) w"

definition IsWorkerReleasing :: "WorkerNode \<Rightarrow> bool" where [worker_preds]:
  "IsWorkerReleasing w \<longleftrightarrow> st_AllocStatus (Status w) = WorkerReleasing"

definition SetWorkerReleasing :: "WorkerNode \<Rightarrow> WorkerNode" where [worker_setters]:
  "SetWorkerReleasing w = set_status (\<lambda>s. s\<lparr>st_AllocStatus := WorkerReleasing\<rparr>) w"

definition IsWorkerReleased :: "WorkerNode \<Rightarrow> bool" where [worker_preds]:
  "IsWorkerReleased w \<longleftrightarrow> st_AllocStatus (Status w) = WorkerReleased"

definition SetWorkerReleased :: "WorkerNode \<Rightarrow> WorkerNode" where [worker_setters]:
  "SetWorkerReleased w = set_status (\<lambda>s. s\<lparr>st_AllocStatus := WorkerReleased\<rparr>) w"

definition IsWorkerToDelete :: "WorkerNode \<Rightarrow> bool" where [worker_preds]:
  "IsWorkerToDelete w \<longleftrightarrow> ToDelete (Spec w) \<or> DeletionTimestamp w \<noteq> None"

definition IsWorkerToRelease :: "WorkerNode \<Rightarrow> bool" where [worker_preds]:
  "IsWorkerToRelease w \<longleftrightarrow>
     ToDelete (Spec w) \<or> ToRelease (Status w) \<or> Releasing (Spec w) \<or> DeletionTimestamp w \<noteq> None"

definition SetWorkerToRelease :: "WorkerNode \<Rightarrow> WorkerNode" where [worker_setters]:
  "SetWorkerToRelease w = set_status (\<lambda>s. s\<lparr>ToRelease := True\<rparr>) w"

definition IsAllWorkersReleased :: "WorkerNode list \<Rightarrow> bool" where
  "IsAllWorkersReleased ws \<longleftrightarrow> (\<forall>w \<in> set ws. IsWorkerReleased w)"

definition IsWorkerEmpty :: "WorkerNode \<Rightarrow> bool" where [worker_preds]:
  "IsWorkerEmpty w \<longleftrightarrow> EntityName (Status w) = ''''"

definition IsWorkerEntityAlloced :: "WorkerNode \<Rightarrow> bool" where [worker_preds]:
  "IsWorkerEntityAlloced w \<longleftrightarrow> EntityName (Status w) \<noteq> '''' \<and> EntityAlloced (Status w) \<and> EntityUid (Status w) \<noteq> ''''"

definition SetWorkerEntityAlloced :: "bool \<Rightarrow> WorkerNode \<Rightarrow> WorkerNode" where [worker_setters]:
  "SetWorkerEntityAlloced alloced w = set_status (\<lambda>s. s\<lparr>EntityAlloced := alloced\<rparr>) w"

definition SetWorkerEntity :: "string \<Rightarrow> string \<Rightarrow> WorkerNode \<Rightarrow> WorkerNode" where [worker_setters]:
  "SetWorkerEntity name uid w =
     (if IsWorkerLost w then w else set_status (\<lambda>s. s\<lparr>EntityName := name, EntityUid := uid\<rparr>) w)"

definition IsWorkerNotStarted :: "WorkerNode \<Rightarrow> bool" where [worker_preds]:
  "IsWorkerNotStarted w \<longleftrightarrow> IsWorkerAssigned w \<and> (Phase (Status w) = Unknown \<or> Phase (Status w) = Pending)"

subsection \<open>Modes\<close>

definition IsStandbyWorkerMode :: "WorkerModeType \<Rightarrow> bool" where [worker_preds]:
  "IsStandbyWorkerMode m \<longleftrightarrow> m \<noteq> WorkerModeEmpty \<and> m \<noteq> WorkerModeTypeActive"

definition IsStandbyWorker :: "WorkerNode \<Rightarrow> bool" where [worker_preds]:
  "IsStandbyWorker w = IsStandbyWorkerMode (Spec_WorkerMode (Spec w))"

definition IsInactiveWorker :: "WorkerNode \<Rightarrow> bool" where [worker_preds]:
  "IsInactiveWorker w \<longleftrightarrow> Spec_WorkerMode (Spec w) = WorkerModeTypeInactive"

definition IsHotStandbyWorker :: "WorkerNode \<Rightarrow> bool" where [worker_preds]:
  "IsHotStandbyWorker w \<longleftrightarrow> Spec_WorkerMode (Spec w) = WorkerModeTypeHot"

definition IsCurrentHotStandbyWorker :: "WorkerNode \<Rightarrow> bool" where [worker_preds]:
  "IsCurrentHotStandbyWorker w \<longleftrightarrow> WorkerMode (Status w) = WorkerModeTypeHot"

definition IsColdStandbyWorker :: "WorkerNode \<Rightarrow> bool" where [worker_preds]:
  "IsColdStandbyWorker w \<longleftrightarrow> Spec_WorkerMode (Spec w) = WorkerModeTypeCold"

definition IsWorkerOnStandByResourcePool :: "WorkerNode \<Rightarrow> bool" where
  "IsWorkerOnStandByResourcePool w = False"

definition GetWorkerTargetModeType :: "WorkerNode \<Rightarrow> WorkerModeType" where [worker_preds]:
  "GetWorkerTargetModeType w =
     (if Spec_WorkerMode (Spec w) = WorkerModeEmpty then WorkerModeTypeActive else Spec_WorkerMode (Spec w))"

definition GetWorkerCurrentModeType :: "WorkerNode \<Rightarrow> WorkerModeType" where [worker_preds]:
  "GetWorkerCurrentModeType w =
     (if WorkerMode (Status w) = WorkerModeEmpty then WorkerModeTypeActive else WorkerMode (Status w))"

definition IsWorkerModeMisMatch :: "WorkerNode \<Rightarrow> bool" where [worker_preds]:
  "IsWorkerModeMisMatch w =
     (if IsStandbyWorker w \<and> \<not> IsHotStandbyWorker w then True
      else GetWorkerTargetModeType w \<noteq> GetWorkerCurrentModeType w)"

subsection \<open>Versions\<close>

text \<open>A version is a generation, a dash and the signature of the plan.\<close>

definition IsVersionInnerMatch :: "string \<Rightarrow> string \<Rightarrow> bool" where [worker_preds]:
  "IsVersionInnerMatch ver1 ver2 =
     (if ver1 = '''' \<or> ver2 = '''' \<or> ver1 = ver2 then False
      else case (str_index (CHR ''-'') ver1, str_index (CHR ''-'') ver2) of
        (Some i, Some j) \<Rightarrow> drop i ver1 = drop j ver2
      | _ \<Rightarrow> False)"

definition IsWorkerInnerVerMatch :: "WorkerNode \<Rightarrow> bool" where [worker_preds]:
  "IsWorkerInnerVerMatch w = IsVersionInnerMatch (Spec_Version (Spec w)) (Version (Status w))"

definition IsWorkerVersionMisMatch :: "WorkerNode \<Rightarrow> bool" where [worker_preds]:
  "IsWorkerVersionMisMatch w \<longleftrightarrow> Spec_Version (Spec w) \<noteq> Version (Status w) \<and> \<not> IsWorkerInnerVerMatch w"

definition IsWorkerRollback :: "WorkerNode \<Rightarrow> bool" where
  "IsWorkerRollback w =
     (let specV = Spec_Version (Spec w); statusV = Version (Status w) in
      if specV = '''' \<or> statusV = '''' \<or> specV = statusV then False
      else case (str_index (CHR ''-'') specV, str_index (CHR ''-'') statusV) of
        (Some i, Some j) \<Rightarrow>
          (case atoi (take i specV) of
             None \<Rightarrow> False
           | Some specVersion \<Rightarrow>
               (case atoi (take j statusV) of
                  None \<Rightarrow> False
                | Some statusVersion \<Rightarrow> specVersion < statusVersion))
      | _ \<Rightarrow> False)"

definition IsWorkerResVersionMisMatch :: "WorkerNode \<Rightarrow> bool" where [worker_preds]:
  "IsWorkerResVersionMisMatch w \<longleftrightarrow> Spec_ResVersion (Spec w) \<noteq> ResVersion (Status w)"

definition IsVersionMatch :: "WorkerNode \<Rightarrow> bool" where [worker_preds]:
  "IsVersionMatch w \<longleftrightarrow> Spec_Version (Spec w) = Version (Status w)"

definition IsResVersionMatch :: "WorkerNode \<Rightarrow> bool" where [worker_preds]:
  "IsResVersionMatch w \<longleftrightarrow> Spec_ResVersion (Spec w) = ResVersion (Status w)"

definition NeedRestartAfterResourceChange :: "VersionPlan \<Rightarrow> bool" where [worker_preds]:
  "NeedRestartAfterResourceChange p = (case RestartAfterResourceChange p of None \<Rightarrow> False | Some b \<Rightarrow> b)"

definition NeedRollingAfterResourceChange :: "worker_env \<Rightarrow> VersionPlan \<Rightarrow> bool" where [worker_preds]:
  "NeedRollingAfterResourceChange e p \<longleftrightarrow> UpdateResourceRolling e \<or> NeedRestartAfterResourceChange p"

subsection \<open>Process and health\<close>

definition isDaemonPlan :: "HippoPodTemplate option \<Rightarrow> bool" where [worker_preds]:
  "isDaemonPlan t = (case t of None \<Rightarrow> False | Some t \<Rightarrow> tmpl_RestartPolicy t = ''Always'')"

definition IsDaemonWorker :: "WorkerNode \<Rightarrow> bool" where [worker_preds]:
  "IsDaemonWorker w = (case Template (Plan w) of None \<Rightarrow> False | Some t \<Rightarrow> isDaemonPlan (Some t))"

definition IsWorkerRunning :: "WorkerNode \<Rightarrow> bool" where [worker_preds]:
  "IsWorkerRunning w \<longleftrightarrow> Phase (Status w) = Running \<or> (Phase (Status w) = Terminated \<and> \<not> IsDaemonWorker w)"

definition IsWorkerPending :: "WorkerNode \<Rightarrow> bool" where [worker_preds]:
  "IsWorkerPending w \<longleftrightarrow> Phase (Status w) = Pending"

definition IsWorkerHealth :: "WorkerNode \<Rightarrow> bool" where [worker_preds]:
  "IsWorkerHealth w \<longleftrightarrow> IsWorkerRunning w \<and> st_HealthStatus (Status w) = HealthAlive"

definition IsWorkerReady :: "WorkerNode \<Rightarrow> bool" where [worker_preds]:
  "IsWorkerReady w = ProcessReady (Status w)"

definition IsWorkerHealthMatch :: "WorkerNode \<Rightarrow> bool" where [worker_preds]:
  "IsWorkerHealthMatch w \<longleftrightarrow>
     IsWorkerHealth w \<and> IsWorkerReady w \<and> hc_Version (st_HealthCondition (Status w)) = Spec_Version (Spec w)"

definition IsWorkerTypeReady :: "WorkerNode \<Rightarrow> bool" where [worker_preds]:
  "IsWorkerTypeReady w \<longleftrightarrow>
     hc_WorkerStatus (st_HealthCondition (Status w)) = WorkerTypeEmpty \<or>
     hc_WorkerStatus (st_HealthCondition (Status w)) = WorkerTypeReady"

definition IsWorkerHealthInfoReady :: "WorkerNode \<Rightarrow> bool" where [worker_preds]:
  "IsWorkerHealthInfoReady w \<longleftrightarrow>
     IsWorkerAssigned w \<and> ProcessMatch (Status w) \<and> IsWorkerHealthMatch w \<and> IsWorkerTypeReady w"

definition IsWorkerDead :: "WorkerNode \<Rightarrow> bool" where [worker_preds]:
  "IsWorkerDead w \<longleftrightarrow>
     st_HealthStatus (Status w) = HealthDead \<or> IsWorkerLost w \<or>
     (Phase (Status w) = Terminated \<and> isDaemonPlan (Template (Plan w))) \<or> Phase (Status w) = Failed"

definition SetWorkerHealthStatus ::
  "HealthCondition option \<Rightarrow> WorkerNode option \<Rightarrow> WorkerNode option \<times> HealthStatus" where
  "SetWorkerHealthStatus c w =
     (case (w, c) of
        (Some w, Some c) \<Rightarrow>
          (Some (set_status (\<lambda>s. s\<lparr>st_HealthStatus := hc_Status c, st_HealthCondition := c\<rparr>) w), hc_Status c)
      | _ \<Rightarrow> (w, HealthUnKnown))"

definition GetHealthStatusByPhase :: "WorkerNode \<Rightarrow> HealthStatus" where
  "GetHealthStatusByPhase w =
     (case Phase (Status w) of
        Failed \<Rightarrow> HealthDead
      | Terminated \<Rightarrow> (if isDaemonPlan (Template (Plan w)) then HealthDead else HealthAlive)
      | Pending \<Rightarrow> HealthUnKnown
      | Running \<Rightarrow> HealthAlive
      | _ \<Rightarrow> HealthUnKnown)"

definition IsWorkerProcessReady :: "WorkerNode \<Rightarrow> bool" where [worker_preds]:
  "IsWorkerProcessReady w = WorkerReady (Status w)"

definition IsWorkerRowComplete :: "WorkerNode \<Rightarrow> bool" where [worker_preds]:
  "IsWorkerRowComplete w = (case RowComplete (Plan w) of None \<Rightarrow> True | Some b \<Rightarrow> b)"

subsection \<open>Service conditions\<close>

definition isGracefullyServiceType :: "RegistryType \<Rightarrow> bool" where
  "isGracefullyServiceType t \<longleftrightarrow> t \<noteq> ServiceSkyline"

definition IsWorkerServiceOffline :: "WorkerNode \<Rightarrow> bool" where [worker_preds]:
  "IsWorkerServiceOffline w = ServiceOffline (Status w)"

text \<open>The counting loops over the service conditions.\<close>

abbreviation count_conditions :: "(ServiceCondition \<Rightarrow> bool) \<Rightarrow> WorkerNode \<Rightarrow> nat" where
  "count_conditions p w \<equiv> length (filter p (ServiceConditions (Status w)))"

abbreviation graceful :: "ServiceCondition \<Rightarrow> bool" where
  "graceful c \<equiv> isGracefullyServiceType (sc_Type c)"

definition GetServiceStatusFromCondition :: "WorkerNode \<Rightarrow> ServiceStatus" where
  "GetServiceStatusFromCondition w =
     (let okService = count_conditions (\<lambda>c. sc_Status c = ConditionTrue) w;
          okGracefulService = count_conditions (\<lambda>c. sc_Status c = ConditionTrue \<and> graceful c) w;
          n = length (ServiceConditions (Status w))
      in if n \<noteq> 0 \<and> okService = 0 then ServiceUnAvailable
         else if IsWorkerServiceOffline w \<and> okGracefulService = 0 then ServiceUnAvailable
         else if n \<noteq> okService then ServicePartAvailable
         else ServiceAvailable)"

definition SyncWorkerServiceHealthStatus :: "WorkerNode \<Rightarrow> WorkerNode" where
  "SyncWorkerServiceHealthStatus w = set_status (\<lambda>s. s\<lparr>st_ServiceStatus := GetServiceStatusFromCondition w\<rparr>) w"

definition IsWorkerUnserviceable :: "WorkerNode \<Rightarrow> bool" where
  "IsWorkerUnserviceable w =
     (let gracefulService = count_conditions graceful w;
          okGracefulService = count_conditions (\<lambda>c. graceful c \<and> sc_Status c = ConditionTrue) w;
          unavailableService = count_conditions (\<lambda>c. graceful c \<and> sc_Status c \<noteq> ConditionTrue \<and>
            (sc_Reason c = ReasonServiceCheckFalse \<or> sc_Reason c = ReasonNotExist)) w
      in gracefulService \<noteq> 0 \<and> okGracefulService = 0 \<and> unavailableService = gracefulService)"

definition unpublished_condition :: "ServiceCondition \<Rightarrow> bool" where
  "unpublished_condition c \<longleftrightarrow>
     sc_Reason c = ReasonNotExist \<or> sc_Reason c = InitServiceFalseState \<or>
     (sc_Message c \<noteq> '''' \<and> \<not> Contains (sc_Message c) NodeHasPublished) \<or>
     (sc_Type c \<noteq> ServiceGeneral \<and> sc_DeleteCount c < - 3600)"

definition IsWorkerUnpublished :: "WorkerNode \<Rightarrow> bool" where
  "IsWorkerUnpublished w =
     (let gracefulService = count_conditions graceful w;
          okGracefulService = count_conditions (\<lambda>c. graceful c \<and> sc_Status c = ConditionTrue) w;
          unpublished = count_conditions (\<lambda>c. graceful c \<and> sc_Status c \<noteq> ConditionTrue \<and> unpublished_condition c) w
      in okGracefulService = 0 \<and> unpublished = gracefulService)"

definition IsWorkerUnAvaliable :: "WorkerNode \<Rightarrow> bool" where [worker_preds]:
  "IsWorkerUnAvaliable w \<longleftrightarrow> st_ServiceStatus (Status w) = ServiceUnAvailable"

definition IsWorkerOfflined :: "WorkerNode \<Rightarrow> bool" where
  "IsWorkerOfflined w \<longleftrightarrow> IsWorkerUnAvaliable w \<and> (IsWorkerUnpublished w \<or> count_conditions graceful w = 0)"

definition IsWorkerInWarmup :: "WorkerNode \<Rightarrow> bool" where
  "IsWorkerInWarmup w =
     (let inWarmup = count_conditions (\<lambda>c. sc_Type c = ServiceCM2 \<and> sc_InWarmup c) w;
          couldWarmup = count_conditions (\<lambda>c. sc_Type c = ServiceCM2) w
      in if inWarmup = 0 then False else inWarmup = couldWarmup)"

definition NeedWarmup :: "WorkerNode \<Rightarrow> bool" where
  "NeedWarmup w \<longleftrightarrow> WarmupSeconds (Plan w) > 0 \<and> (\<exists>c \<in> set (ServiceConditions (Status w)). sc_Type c = ServiceCM2)"

definition NeedReclaimByService :: "worker_env \<Rightarrow> WorkerNode \<Rightarrow> bool" where
  "NeedReclaimByService e w \<longleftrightarrow>
     BadReason (Status w) = BadReasonServiceReclaim \<or>
     (\<exists>c \<in> set (ServiceConditions (Status w)). sc_Type c = ServiceGeneral \<and> sc_ServiceDetail c \<noteq> '''' \<and>
        (\<exists>s \<in> set (unmarshal_AppNodeStatus e (sc_ServiceDetail c)). NeedBackup s))"

definition IsWorkerLatestVersionAvailable :: "WorkerNode \<Rightarrow> bool" where
  "IsWorkerLatestVersionAvailable w =
     (if \<exists>c \<in> set (ServiceConditions (Status w)). graceful c \<and> sc_Version c \<noteq> Spec_Version (Spec w) \<and> sc_Version c \<noteq> ''''
      then False else st_ServiceStatus (Status w) = ServiceAvailable)"

definition IsGeneralServiceReady :: "WorkerNode \<Rightarrow> bool" where
  "IsGeneralServiceReady w \<longleftrightarrow>
     (\<exists>c \<in> set (ServiceConditions (Status w)). sc_Type c = ServiceGeneral \<and> sc_Status c = ConditionTrue)"

definition IsWorkerNotPublishToCM2 :: "WorkerNode \<Rightarrow> bool" where
  "IsWorkerNotPublishToCM2 w =
     (if ServiceConditions (Status w) = [] then True
      else let cm2 = filter (\<lambda>c. sc_Type c = ServiceCM2) (ServiceConditions (Status w)) in
        if cm2 = [] then True
        else \<not> (\<exists>c \<in> set cm2. sc_Status c = ConditionTrue \<or>
          (sc_Status c = ConditionFalse \<and> sc_Reason c \<noteq> InitServiceFalseState \<and> sc_Reason c \<noteq> ReasonNotExist) \<or>
          Contains (sc_Message c) NodeHasPublished))"

definition IsWorkerOnline :: "WorkerNode \<Rightarrow> bool" where [worker_preds]:
  "IsWorkerOnline w = (case Online (Plan w) of None \<Rightarrow> True | Some b \<Rightarrow> b)"

definition IsWorkerGracefully :: "WorkerNode \<Rightarrow> bool" where [worker_preds]:
  "IsWorkerGracefully w = (case UpdatingGracefully (Plan w) of None \<Rightarrow> True | Some b \<Rightarrow> b)"

definition CouldDeletePod :: "WorkerNode \<Rightarrow> bool" where
  "CouldDeletePod w \<longleftrightarrow> IsWorkerUnAvaliable w \<or> (\<not> IsWorkerGracefully w \<and> IsWorkerToRelease w)"

definition IsWorkerServiceMatch :: "WorkerNode \<Rightarrow> bool" where
  "IsWorkerServiceMatch w =
     (if \<not> IsWorkerOnline w then st_ServiceStatus (Status w) = ServiceUnAvailable
      else IsWorkerLatestVersionAvailable w)"

end
