(* ===== verification/WorkerStatus.thy ===== *)
theory WorkerStatus
  imports WorkerState
begin

text \<open>
  The derived status of a worker: when it is complete, broken or bad and why, how long until the controller
  has to look again, when its service is ready, and the annotations that protect a worker that changes
  between active and standby (\<^verbatim>\<open>helpers.go\<close>). The setters of single service conditions are those of
  \<^verbatim>\<open>service_publisher.go\<close>.
\<close>

subsection \<open>Complete and bad workers\<close>

definition IsWorkerReclaiming :: "WorkerNode \<Rightarrow> bool" where [worker_preds]:
  "IsWorkerReclaiming w =
     (if IsWorkerAssigned w
      then Reclaim (Status w) \<or> (InternalReclaim (Status w) \<and> IsWorkerVersionMisMatch w) \<or> Spec_Reclaim (Spec w)
      else if IsWorkerUnAssigned w
      then Reclaim (Status w) \<or> InternalReclaim (Status w) \<or> Spec_Reclaim (Spec w)
      else False)"

definition IsWorkerUpdateMatch :: "WorkerNode \<Rightarrow> bool" where
  "IsWorkerUpdateMatch w =
     (if \<not> IsVersionMatch w then False
      else if \<not> IsWorkerHealthInfoReady w then False
      else if \<not> IsWorkerTypeReady w then False
      else if \<not> IsWorkerHealth w then False
      else True)"

definition IsWorkerMatch :: "WorkerNode \<Rightarrow> bool" where
  "IsWorkerMatch w = (if \<not> IsWorkerUpdateMatch w then False else IsWorkerServiceMatch w)"

definition IsStandByWorkerComplete :: "WorkerNode \<Rightarrow> bool" where
  "IsStandByWorkerComplete w =
     (if \<not> IsStandbyWorker w then False
      else case Spec_WorkerMode (Spec w) of
        WorkerModeTypeCold \<Rightarrow> IsWorkerAssigned w
      | WorkerModeTypeWarm \<Rightarrow> IsWorkerAssigned w \<and> IsWorkerRunning w \<and> IsWorkerReady w
      | WorkerModeTypeHot \<Rightarrow> IsWorkerAssigned w \<and> IsWorkerRunning w \<and> IsWorkerReady w \<and> IsWorkerProcessReady w
      | WorkerModeTypeInactive \<Rightarrow> IsWorkerAssigned w
      | _ \<Rightarrow> False)"

definition IsWorkerComplete :: "worker_env \<Rightarrow> WorkerNode \<Rightarrow> bool" where
  "IsWorkerComplete e w =
     (if \<not> IsResVersionMatch w then False
      else if \<not> ResourceMatch (Status w) then False
      else if NeedReclaimByService e w then False
      else if IsWorkerReclaiming w then False
      else if IsStandByWorkerComplete w then True
      else IsWorkerMatch w)"

definition IsWorkerUpdateReady :: "worker_env \<Rightarrow> WorkerNode \<Rightarrow> bool" where
  "IsWorkerUpdateReady e w =
     (if \<not> IsResVersionMatch w then False
      else if \<not> ResourceMatch (Status w) then False
      else if NeedReclaimByService e w then False
      else if IsWorkerReclaiming w then False
      else if IsStandByWorkerComplete w then True
      else IsWorkerUpdateMatch w)"

definition IsWorkerLongtimeNotMatch :: "worker_env \<Rightarrow> WorkerNode \<Rightarrow> string \<Rightarrow> bool" where
  "IsWorkerLongtimeNotMatch e w targetVersion =
     (if ResourceMatch (Status w) then False
      else if LastResourceNotMatchtime (Status w) \<le> 0 then False
      else if ResourceMatchTimeout (Plan w) \<le> 0 then False
      else if IsWorkerVersionMisMatch w \<and> Version (Status w) \<noteq> '''' \<and>
           RecoverStrategy (Plan w) \<noteq> DirectReleasedRecoverStrategy then True
      else if \<not> IsWorkerVersionMisMatch w \<and> NeedRollingAfterResourceChange e (Plan w) then False
      else Now e - LastResourceNotMatchtime (Status w) > ResourceMatchTimeout (Plan w))"

definition IsWorkerLongtimeNotSchedule :: "worker_env \<Rightarrow> WorkerNode \<Rightarrow> bool" where
  "IsWorkerLongtimeNotSchedule e w =
     (if \<not> IsWorkerUnAssigned w then False
      else if NotScheduleSeconds (Status w) \<le> 0 then False
      else if NotScheduleTimeout e \<le> 0 then False
      else NotScheduleSeconds (Status w) > NotScheduleTimeout e)"

definition IsWorkerProcessLongtimeNotMatch :: "worker_env \<Rightarrow> WorkerNode \<Rightarrow> bool" where
  "IsWorkerProcessLongtimeNotMatch e w =
     (if ProcessMatch (Status w) then False
      else if LastProcessNotMatchtime (Status w) \<le> 0 then False
      else if ProcessMatchTimeout (Plan w) \<le> 0 then False
      else if \<not> IsWorkerVersionMisMatch w then False
      else Now e - LastProcessNotMatchtime (Status w) > ProcessMatchTimeout (Plan w))"

definition IsWorkerProcessLongtimeNotReady :: "worker_env \<Rightarrow> WorkerNode \<Rightarrow> bool" where
  "IsWorkerProcessLongtimeNotReady e w =
     (if ProcessReady (Status w) then False
      else if LastProcessNotReadytime (Status w) \<le> 0 then False
      else if ProcessMatchTimeout (Plan w) \<le> 0 then False
      else Now e - LastProcessNotReadytime (Status w) > ProcessMatchTimeout (Plan w))"

definition IsWorkerLongtimeNotReady :: "worker_env \<Rightarrow> WorkerNode \<Rightarrow> bool" where
  "IsWorkerLongtimeNotReady e w =
     (if WorkerReady (Status w) then False
      else if LastWorkerNotReadytime (Status w) \<le> 0 then False
      else if WorkerReadyTimeout (Plan w) \<le> 0 then False
      else Now e - LastWorkerNotReadytime (Status w) > WorkerReadyTimeout (Plan w))"

definition IsWorkerBroken :: "worker_env \<Rightarrow> WorkerNode \<Rightarrow> string \<Rightarrow> BadReasonType" where
  "IsWorkerBroken e w targetVersion =
     (if IsWorkerLost w then BadReasonLost
      else let reason =
          (if IsWorkerAssigned w then
             (if IsWorkerDead w then BadReasonDead
              else if IsWorkerLongtimeNotMatch e w targetVersion then BadReasonNotMatch
              else if IsWorkerProcessLongtimeNotMatch e w then BadReasonProcessNotMatch
              else if IsWorkerLongtimeNotReady e w then BadReasonNotReady
              else if IsWorkerProcessLongtimeNotReady e w then BadReasonProcessNotReady
              else if NeedReclaimByService e w then BadReasonServiceReclaim
              else BadReasonNone)
           else BadReasonNone)
        in if reason \<noteq> BadReasonNone then reason
           else if IsWorkerUnAssigned w \<and> IsWorkerLongtimeNotSchedule e w then BadReasonNotSchedule
           else BadReasonNone)"

definition GetWorkerBadState :: "worker_env \<Rightarrow> WorkerNode \<Rightarrow> string \<Rightarrow> BadReasonType" where
  "GetWorkerBadState e w targetVersion =
     (let broken = IsWorkerBroken e w targetVersion in
      if broken \<noteq> BadReasonNone \<and> \<not> IsInactiveWorker w then broken
      else if IsWorkerReclaiming w then BadReasonReclaim
      else if IsWorkerReleased w then BadReasonRelease
      else BadReasonNone)"

definition GetWorkerStatus :: "worker_env \<Rightarrow> WorkerNode \<Rightarrow> string" where
  "GetWorkerStatus e w =
     (if IsWorkerComplete e w then ''Complete''
      else if \<not> IsWorkerAssigned w then ''NotAssigned''
      else if Reclaim (Status w) \<or> InternalReclaim (Status w) then ''Reclaim''
      else if Phase (Status w) \<noteq> Running then ''NotRunning''
      else if st_HealthStatus (Status w) \<noteq> HealthAlive then ''NotHealth''
      else if hc_WorkerStatus (st_HealthCondition (Status w)) \<noteq> WorkerTypeReady then ''NotReady''
      else ''NotAvailable'')"

subsection \<open>When to look again\<close>

definition syncTimeout :: "int \<Rightarrow> int \<Rightarrow> int" where
  "syncTimeout timeout newtimeout =
     (if newtimeout \<le> 0 \<and> timeout \<le> 0 then 0
      else if newtimeout \<le> 0 then timeout
      else if timeout \<le> 0 then newtimeout
      else if newtimeout < timeout then newtimeout
      else timeout)"

definition GetWorkerResyncTime :: "worker_env \<Rightarrow> WorkerNode \<Rightarrow> int" where
  "GetWorkerResyncTime e w =
     (let s = Status w; p = Plan w; timeout = 0;
          matchTimeout = ResourceMatchTimeout p - (Now e - LastResourceNotMatchtime s);
          processMatchTimeout = ProcessMatchTimeout p - (Now e - LastProcessNotMatchtime s);
          readyTimeout = WorkerReadyTimeout p - (Now e - LastWorkerNotReadytime s);
          healthTimeout = MinReadySeconds p - (Now e - UnixTime (hc_LastTransitionTime (st_HealthCondition s)));
          processReadyTimeout = ProcessMatchTimeout p - (Now e - LastProcessNotReadytime s)
      in if IsWorkerAssigned w \<and> IsWorkerDead w then 0
         else
           let timeout =
             (if IsWorkerAssigned w then
                let timeout = (if \<not> ResourceMatch s \<and> ResourceMatchTimeout p > 0 then syncTimeout timeout matchTimeout else timeout);
                    timeout = (if \<not> ProcessMatch s \<and> ProcessMatchTimeout p > 0 then syncTimeout timeout processMatchTimeout else timeout);
                    timeout = (if \<not> WorkerReady s \<and> WorkerReadyTimeout p > 0 then syncTimeout timeout readyTimeout else timeout);
                    timeout = (if \<not> ProcessReady s \<and> ProcessMatchTimeout p > 0 then syncTimeout timeout processReadyTimeout else timeout);
                    timeout = (if IsWorkerHealth w \<and> MinReadySeconds p > 0 then syncTimeout timeout healthTimeout else timeout)
                in if WarmupSeconds p > 0 \<and> LastWarmupStartTime s > 0
                   then syncTimeout timeout (WarmupSeconds p - (Now e - LastWarmupStartTime s)) else timeout
              else timeout)
           in if IsWorkerUnAssigned w \<and> NotScheduleTimeout e > 0 \<and> NotScheduleSeconds s > 0
              then syncTimeout timeout (NotScheduleTimeout e - NotScheduleSeconds s) else timeout)"

definition GetWorkersResyncTime :: "worker_env \<Rightarrow> WorkerNode list \<Rightarrow> int" where
  "GetWorkersResyncTime e ws =
     fold (\<lambda>w timeout. let t = GetWorkerResyncTime e w in
       if timeout = 0 \<or> (t \<noteq> 0 \<and> t < timeout) then t else timeout) ws 0"

subsection \<open>Service readiness\<close>

definition getMinReadySeconds :: "worker_env \<Rightarrow> WorkerNode \<Rightarrow> int32" where
  "getMinReadySeconds e w = (if MinReadySeconds (Plan w) = 0 then defaultMinReadySeconds e else MinReadySeconds (Plan w))"

definition IsServiceReadyForMinTime :: "worker_env \<Rightarrow> WorkerNode \<Rightarrow> int \<times> bool" where
  "IsServiceReadyForMinTime e w =
     (let ready = ServiceReady (Status w); readySeconds = getMinReadySeconds e w in
      if \<not> ready \<or> readySeconds = 0 then (0, ready)
      else let last = (case LastServiceReadyTime (Status w) of None \<Rightarrow> Now e - readySeconds - 1 | Some t \<Rightarrow> t)
        in (i32 (readySeconds + 10) - (Now e - last), Now e - last > readySeconds))"

text \<open>\<^verbatim>\<open>IsWorkerServiceReady\<close> records the readiness in the worker before it answers.\<close>

definition sync_service_ready :: "worker_env \<Rightarrow> WorkerNode \<Rightarrow> WorkerNode" where
  "sync_service_ready e w =
     (let ready = IsWorkerLatestVersionAvailable w \<and> IsWorkerHealth w \<and> IsWorkerHealthInfoReady w \<and> IsWorkerProcessReady w;
          last = (if \<not> ready then Some 0
                  else case LastServiceReadyTime (Status w) of
                    None \<Rightarrow> Some (Now e - getMinReadySeconds e w - 1)
                  | Some t \<Rightarrow> if t = 0 then Some (Now e) else Some t)
      in set_status (\<lambda>s. s\<lparr>ServiceReady := ready, LastServiceReadyTime := last\<rparr>) w)"

definition IsWorkerServiceReady :: "worker_env \<Rightarrow> WorkerNode \<Rightarrow> WorkerNode \<times> int \<times> bool" where
  "IsWorkerServiceReady e w =
     (if IsWorkerToRelease w then (w, 0, False)
      else if Spec_Version (Spec w) \<noteq> Version (Status w) \<and> \<not> IsWorkerInnerVerMatch w then (w, 0, False)
      else let w = sync_service_ready e w in (w, IsServiceReadyForMinTime e w))"

subsection \<open>Setters\<close>

definition SetBadReason :: "BadReasonType \<Rightarrow> WorkerNode \<Rightarrow> WorkerNode" where [worker_setters]:
  "SetBadReason reason w = set_status (\<lambda>s. s\<lparr>BadReason := reason, BadReasonMessage := badReasonMessage reason\<rparr>) w"

definition IsWorkerHaveBeenUnassignException :: "WorkerNode \<Rightarrow> bool" where
  "IsWorkerHaveBeenUnassignException w =
     (if HistoryUnassignedMessage (Status w) = '''' \<or>
         HistoryUnassignedMessage (Status w) = unassignedReasonMessage UnassignedReasonNone \<or>
         HistoryUnassignedMessage (Status w) = unassignedReasonMessage UnassignedReasonNotSchedule
      then False else True)"

definition SetUnassignedReason :: "UnassignedReasonType \<Rightarrow> WorkerNode \<Rightarrow> WorkerNode" where
  "SetUnassignedReason reason w =
     (let msg = unassignedReasonMessage reason;
          w = set_status (\<lambda>s. s\<lparr>UnassignedReason := reason, UnassignedMessage := msg\<rparr>) w
      in if \<not> IsWorkerHaveBeenUnassignException w then set_status (\<lambda>s. s\<lparr>HistoryUnassignedMessage := msg\<rparr>) w else w)"

definition IsQuotaNotEnough :: "WorkerNode \<Rightarrow> bool" where
  "IsQuotaNotEnough w \<longleftrightarrow> UnassignedReason (Status w) = UnassignedReasonQuotaNotEnough"

definition InitWorkerNode :: "WorkerNode \<Rightarrow> WorkerNode" where
  "InitWorkerNode w = set_status (\<lambda>s. s\<lparr>
     st_AllocStatus := (if st_AllocStatus s = AllocStatusEmpty then WorkerUnAssigned else st_AllocStatus s),
     st_HealthStatus := (if st_HealthStatus s = HealthStatusEmpty then HealthUnKnown else st_HealthStatus s),
     st_ServiceStatus := (if st_ServiceStatus s = ServiceStatusEmpty then ServiceUnAvailable else st_ServiceStatus s),
     Phase := (if Phase s = PhaseEmpty then Unknown else Phase s),
     st_Name := Name w\<rparr>) w"

definition SyncWorkerInUpdating :: "WorkerNode \<Rightarrow> WorkerNode" where
  "SyncWorkerInUpdating w =
     (if Spec_Version (Spec w) \<noteq> Version (Status w) then set_status (\<lambda>s. s\<lparr>InUpdating := True\<rparr>) w
      else if Complete (Status w) then set_status (\<lambda>s. s\<lparr>InUpdating := False\<rparr>) w
      else w)"

definition BackupOfPodNotEmpty :: "WorkerNode \<Rightarrow> bool" where
  "BackupOfPodNotEmpty w \<longleftrightarrow> pod_ref_Uid (BackupOfPod (Spec w)) \<noteq> '''' \<and> pod_ref_Name (BackupOfPod (Spec w)) \<noteq> ''''"

definition GetWorkerDeletionCost :: "WorkerNode \<Rightarrow> int" where
  "GetWorkerDeletionCost w =
     (if DeletionCost (Status w) = 0 \<and> Spec_DeletionCost (Spec w) \<noteq> 0 then Spec_DeletionCost (Spec w)
      else DeletionCost (Status w))"

subsection \<open>Single service conditions\<close>

record ServicePublisher =
  sp_Name :: string
  sp_Type :: RegistryType
  sp_ServiceName :: string
  sp_SoftDelete :: bool

text \<open>The first condition of the service is rewritten in place.\<close>

definition update_condition ::
  "worker_env \<Rightarrow> ServicePublisher \<Rightarrow> string \<Rightarrow> string \<Rightarrow> ConditionStatus \<Rightarrow> int \<Rightarrow> string \<Rightarrow> string \<Rightarrow> bool \<Rightarrow> bool \<Rightarrow> int \<Rightarrow>
     ServiceCondition \<Rightarrow> ServiceCondition" where
  "update_condition e service version serviceDetail status score reason message inWarmup startWarmup deleteCount c =
     (let message =
        (if Contains (sc_Message c) NodeHasPublished \<and> status \<noteq> ConditionTrue \<and> \<not> Contains message NodeHasPublished
         then (if message = '''' then NodeHasPublished else NodeHasPublished @ '' and query with error :  '' @ message)
         else message)
      in c\<lparr>sc_ServiceName := sp_ServiceName service, sc_Name := sp_Name service,
        sc_LastTransitionTime := (if sc_Status c \<noteq> status then Some (Now e) else sc_LastTransitionTime c),
        sc_Status := status, sc_Score := score, sc_Reason := reason, sc_Message := message, sc_InWarmup := inWarmup,
        sc_StartWarmup := startWarmup, sc_DeleteCount := deleteCount, sc_Version := version,
        sc_ServiceDetail := serviceDetail\<rparr>)"

primrec update_first :: "('a \<Rightarrow> bool) \<Rightarrow> ('a \<Rightarrow> 'a) \<Rightarrow> 'a list \<Rightarrow> 'a list option" where
  "update_first p f [] = None"
| "update_first p f (x # xs) = (if p x then Some (f x # xs) else map_option ((#) x) (update_first p f xs))"

definition SetWorkerServiceHealthCondition ::
  "worker_env \<Rightarrow> ServicePublisher \<Rightarrow> string \<Rightarrow> ConditionStatus \<Rightarrow> int \<Rightarrow> string \<Rightarrow> string \<Rightarrow> bool \<Rightarrow> bool \<Rightarrow> WorkerNode \<Rightarrow> WorkerNode" where
  "SetWorkerServiceHealthCondition e service serviceDetail status score reason message inWarmup startWarmup w =
     (let deleteCount = (if sp_Type service = ServiceGeneral then 1 else 0 :: int);
          message = (if status = ConditionTrue \<or> reason = ReasonServiceCheckFalse then NodeHasPublished else message);
          version = Version (Status w)
      in case update_first (\<lambda>c. sc_ServiceName c = sp_Name service \<or> sc_Name c = sp_Name service)
             (update_condition e service version serviceDetail status score reason message inWarmup startWarmup deleteCount)
             (ServiceConditions (Status w)) of
        Some cs \<Rightarrow> SyncWorkerServiceHealthStatus (set_status (\<lambda>s. s\<lparr>ServiceConditions := cs\<rparr>) w)
      | None \<Rightarrow>
          let condition = \<lparr>sc_Type = sp_Type service, sc_ServiceName = sp_ServiceName service, sc_Status = status,
                sc_Score = score, sc_LastTransitionTime = Some (Now e), sc_Reason = reason, sc_Message = message,
                sc_InWarmup = inWarmup, sc_DeleteCount = deleteCount, sc_Name = sp_Name service,
                sc_StartWarmup = startWarmup, sc_Version = version, sc_ServiceDetail = ''''\<rparr>
          in SyncWorkerServiceHealthStatus
               (set_status (\<lambda>s. s\<lparr>ServiceConditions := ServiceConditions s @ [condition]\<rparr>) w))"

definition delete_condition :: "string \<Rightarrow> bool \<Rightarrow> ServiceCondition \<Rightarrow> ServiceCondition list" where
  "delete_condition name serviceErr c =
     (if sc_ServiceName c = name \<or> sc_Name c = name then
        let published = serviceErr \<and> Contains (sc_Message c) NodeHasPublished;
            c = (if published then c\<lparr>sc_Reason := ReasonQueryError\<rparr> else c)
        in if sc_DeleteCount c \<le> 0 \<and> \<not> published then []
           else [c\<lparr>sc_DeleteCount := sc_DeleteCount c - 1\<rparr>]
      else [c])"

definition DeleteWorkerServiceHealthCondition :: "string \<Rightarrow> bool \<Rightarrow> WorkerNode \<Rightarrow> WorkerNode" where
  "DeleteWorkerServiceHealthCondition name serviceErr w =
     SyncWorkerServiceHealthStatus
       (set_status (\<lambda>s. s\<lparr>ServiceConditions := concat (map (delete_condition name serviceErr) (ServiceConditions s))\<rparr>) w)"

subsection \<open>Silence and activation\<close>

definition IsSilenceNode :: "WorkerNode \<Rightarrow> bool" where
  "IsSilenceNode w \<longleftrightarrow> sget (Annotations w) SilentNodeAnnoKey = ''true'' \<and>
     (Spec_WorkerMode (Spec w) = WorkerModeTypeHot \<or> WorkerMode (Status w) = WorkerModeTypeHot)"

definition InSilence :: "worker_env \<Rightarrow> WorkerNode \<Rightarrow> bool" where
  "InSilence e w =
     (case Annotations w of None \<Rightarrow> False | Some _ \<Rightarrow>
      case ParseInt (sget (Annotations w) SilentTimeAnnoKey) of
        None \<Rightarrow> False
      | Some startTime \<Rightarrow> Now e - startTime < defaultSilenceSeconds e \<and>
          (WorkerMode (Status w) = WorkerModeTypeActive \<or> WorkerMode (Status w) = WorkerModeTypeHot \<or>
           WorkerMode (Status w) = WorkerModeEmpty))"

definition SetSilence :: "worker_env \<Rightarrow> bool \<Rightarrow> WorkerNode \<Rightarrow> WorkerNode" where
  "SetSilence e silence w =
     (let annos = (case Annotations w of None \<Rightarrow> Some Mapping.empty | a \<Rightarrow> a) in
      if silence then
        let annos = (if sget annos SilentNodeAnnoKey \<noteq> ''true'' then sput SilentTimeAnnoKey (FormatInt (Now e)) annos else annos)
        in w\<lparr>Annotations := sput SilentNodeAnnoKey ''true'' annos,
             Spec := (Spec w)\<lparr>Spec_WorkerMode := WorkerModeTypeHot\<rparr>\<rparr>
      else w\<lparr>Annotations := sdel SilentNodeAnnoKey annos\<rparr>)"

definition SyncSilence :: "worker_env \<Rightarrow> WorkerModeType \<Rightarrow> WorkerNode \<Rightarrow> WorkerNode \<times> bool" where
  "SyncSilence e targetWorkerMode w =
     (if UID w = '''' then (w, False)
      else if targetWorkerMode = WorkerModeTypeInactive then (w, False)
      else if \<not> IsStandbyWorkerMode (Spec_WorkerMode (Spec w)) \<and> IsStandbyWorkerMode targetWorkerMode \<and> \<not> IsSilenceNode w
      then (SetSilence e True w, True)
      else if \<not> IsStandbyWorkerMode targetWorkerMode then (SetSilence e False w, False)
      else (w, InSilence e w))"

definition GetWorkerSilenceTimeout :: "worker_env \<Rightarrow> WorkerNode \<Rightarrow> int" where
  "GetWorkerSilenceTimeout e w =
     (if IsSilenceNode w then
        (case ParseInt (sget (Annotations w) SilentTimeAnnoKey) of
           None \<Rightarrow> 0
         | Some startTime \<Rightarrow>
             let timeout = defaultSilenceSeconds e - (Now e - startTime) in if timeout < 0 then 0 else timeout)
      else 0)"

definition UnsetStandby2Active :: "WorkerNode \<Rightarrow> WorkerNode \<times> bool" where
  "UnsetStandby2Active w =
     (if \<not> shas (Annotations w) Standby2ActiveTimeAnnoKey then (w, False)
      else (w\<lparr>Annotations := sdel Standby2ActiveTimeAnnoKey (Annotations w)\<rparr>, True))"

text \<open>\<^verbatim>\<open>InStandby2Active\<close> drops the mark when it has expired.\<close>

definition InStandby2Active :: "worker_env \<Rightarrow> WorkerNode \<Rightarrow> WorkerNode \<times> bool" where
  "InStandby2Active e w =
     (if \<not> shas (Annotations w) Standby2ActiveTimeAnnoKey then (w, False)
      else case ParseInt (sget (Annotations w) Standby2ActiveTimeAnnoKey) of
        None \<Rightarrow> (w, False)
      | Some startTime \<Rightarrow>
          if Now e - startTime < defaultStandby2ActiveSeconds e then (w, True)
          else (fst (UnsetStandby2Active w), False))"

definition SetStandby2Active :: "worker_env \<Rightarrow> WorkerNode \<Rightarrow> WorkerNode \<times> bool" where
  "SetStandby2Active e w =
     (if Spec_WorkerMode (Spec w) \<noteq> WorkerModeTypeCold then (w, False)
      else
        let w = w\<lparr>Annotations := (case Annotations w of None \<Rightarrow> Some Mapping.empty | a \<Rightarrow> a)\<rparr>;
            (w, inStandby) = InStandby2Active e w
        in if inStandby then (w, False)
           else (w\<lparr>Annotations := sput Standby2ActiveTimeAnnoKey (FormatInt (Now e)) (Annotations w)\<rparr>, True))"

end
