(* ===== verification/WorkerStatusSafety.thy ===== *)
theory WorkerStatusSafety
  imports WorkerStatus
begin

text \<open>
  What the derived status of a worker guarantees: a complete worker is not a bad one, the service conditions
  decide the service status as a table says, a published worker stays published until the name service
  denies it, readiness has to last, and the marks of silence and activation hold for their time.
\<close>

text \<open>A worker without anything set, from which the examples are made.\<close>

definition empty_plan :: VersionPlan where
  "empty_plan = \<lparr>MinReadySeconds = 0, WarmupSeconds = 0, ResourceMatchTimeout = 0, ProcessMatchTimeout = 0,
     WorkerReadyTimeout = 0, BrokenRecoverQuotaConfig = None, RecoverStrategy = DefaultRecoverStrategy,
     DelayDeleteBackupSeconds = 0, CustomInfo = [], CompressedCustomInfo = [], UserDefVersion = [], Online = None,
     UpdatingGracefully = None, Preload = False, IsDaemonSet = False, plan_CPU = None, UpdatePlanTimestamp = 0, RowComplete = None,
     ShardGroupVersion = [], Template = None, Signature = [], RestartAfterResourceChange = None, BufferSelector = None, Cm2TopoInfo = []\<rparr>"

definition empty_worker :: WorkerNode where
  "empty_worker = \<lparr>Name = [], Namespace = [], UID = [], ResourceVersion = [], Labels = None, Annotations = None, CreationTimestamp = None,
     DeletionTimestamp = None, OwnerReferences = [],
     Spec = \<lparr>Selector = None, Spec_ResVersion = [], Spec_Version = [], Spec_VersionPlan = empty_plan,
       Spec_WorkerMode = WorkerModeEmpty, DependencyReady = None, ToDelete = False, Releasing = False,
       Spec_Reclaim = False, OwnerGeneration = 0, Spec_DeletionCost = 0,
       BackupOfPod = \<lparr>pod_ref_Name = [], pod_ref_Uid = []\<rparr>, IsSpot = False, ResourcePool = [], Spec_StandbyHours = []\<rparr>,
     Status = empty_status\<rparr>"

definition sample_env :: worker_env where
  "sample_env = \<lparr>Now = 1000, NotScheduleTimeout = 0, defaultMinReadySeconds = 30, defaultSilenceSeconds = 300,
     defaultStandby2ActiveSeconds = 10800, DefaultMaxFailedCount = 5, UpdateResourceRolling = False,
     WarmupNewStartingPod = False, WarmupUnavailablePod = False, UnPubRestartingNode = False,
     UpdatePodVersion3WithRelease = False, parse_RFC3339 = (\<lambda>_. None), format_RFC3339 = (\<lambda>_. []),
     unmarshal_AppNodeStatus = (\<lambda>_. []), AddLabel = (\<lambda>m k v. sput k v m), CloneAndAddLabel = (\<lambda>m k v. sput k v m),
     AddLabelToSelector = (\<lambda>m k v. sput k v m), SignatureWithMD5 = (\<lambda>s. s)\<rparr>"

lemmas sample_defs = empty_plan_def empty_status_def empty_worker_def sample_env_def

text \<open>A worker that is assigned, running and published.\<close>

definition healthy_worker :: WorkerNode where
  "healthy_worker = empty_worker\<lparr>Status := empty_status\<lparr>ResourceMatch := True, ProcessMatch := True, Phase := Running,
     ProcessReady := True, WorkerReady := True, st_AllocStatus := WorkerAssigned, st_HealthStatus := HealthAlive,
     st_ServiceStatus := ServiceAvailable\<rparr>\<rparr>"

subsection \<open>Complete workers\<close>

lemma health_info_ready_alive:
  "IsWorkerHealthInfoReady w \<Longrightarrow> \<not> IsWorkerLost w \<and> \<not> IsWorkerDead w \<and> ProcessMatch (Status w) \<and> ProcessReady (Status w)"
  by (cases "Template (Plan w)") (auto simp: worker_preds)

lemma complete_active_parts:
  assumes "IsWorkerComplete e w" "\<not> IsStandbyWorker w"
  shows "ResourceMatch (Status w)" "\<not> NeedReclaimByService e w" "\<not> IsWorkerReclaiming w"
    "IsWorkerHealthInfoReady w" "IsWorkerServiceMatch w" "IsVersionMatch w"
  using assms by (auto simp: IsWorkerComplete_def IsStandByWorkerComplete_def IsWorkerMatch_def IsWorkerUpdateMatch_def
      split: if_splits)

text \<open>
  An active worker that is complete is never replaced: as long as its process is recorded ready, no
  bad state is found, so the failover of the controller does not start for it.
\<close>

theorem complete_worker_not_bad:
  assumes "IsWorkerComplete e w" "\<not> IsStandbyWorker w" "WorkerReady (Status w)"
  shows "GetWorkerBadState e w targetVersion = BadReasonNone"
proof -
  note p = complete_active_parts [OF assms(1,2)]
  note h = health_info_ready_alive [OF p(4)]
  have "IsWorkerAssigned w" using p(4) by (simp add: IsWorkerHealthInfoReady_def)
  moreover have "\<not> IsWorkerReleased w" "\<not> IsWorkerUnAssigned w" using calculation by (simp_all add: worker_preds)
  ultimately have "IsWorkerBroken e w targetVersion = BadReasonNone"
    using p(1,2) h assms(3)
    by (simp add: IsWorkerBroken_def IsWorkerLongtimeNotMatch_def IsWorkerProcessLongtimeNotMatch_def
        IsWorkerLongtimeNotReady_def IsWorkerProcessLongtimeNotReady_def)
  then show ?thesis using p(3) \<open>\<not> IsWorkerReleased w\<close> by (simp add: GetWorkerBadState_def)
qed

lemma healthy_worker_complete:
  "IsWorkerComplete sample_env healthy_worker" "\<not> IsStandbyWorker healthy_worker" "WorkerReady (Status healthy_worker)"
  by (simp_all add: healthy_worker_def sample_defs worker_preds IsWorkerComplete_def NeedReclaimByService_def
      IsStandByWorkerComplete_def IsWorkerMatch_def IsWorkerUpdateMatch_def IsWorkerServiceMatch_def
      IsWorkerLatestVersionAvailable_def)

theorem complete_worker_not_bad_witness:
  "IsWorkerComplete sample_env healthy_worker \<and> GetWorkerBadState sample_env healthy_worker ''v'' = BadReasonNone"
  using healthy_worker_complete complete_worker_not_bad [OF healthy_worker_complete] by blast

subsection \<open>Service status\<close>

text \<open>What the counts say about the conditions.\<close>

lemma count_zero: "count_conditions p w = 0 \<longleftrightarrow> (\<forall>c \<in> set (ServiceConditions (Status w)). \<not> p c)"
  by (simp add: filter_empty_conv)

lemma length_filter_all: "length xs = length (filter p xs) \<longleftrightarrow> (\<forall>x \<in> set xs. p x)"
  by (metis filter_True length_filter_less less_irrefl)

lemma length_filter_sub: "length (filter p xs) = length (filter q xs) \<longleftrightarrow> (\<forall>x \<in> set xs. q x \<longrightarrow> p x)"
  if "\<And>x. p x \<Longrightarrow> q x"
proof -
  have "filter p xs = filter p (filter q xs)" using that by (auto intro: filter_cong)
  then show ?thesis using length_filter_all [of "filter q xs" p] by auto
qed

text \<open>
  The service status as a table: a worker with conditions none of which is true is unavailable; an
  offline worker with no true graceful condition is unavailable; otherwise it is available when all its
  conditions are true and partly available when some are not.
\<close>

theorem GetServiceStatusFromCondition_table:
  "GetServiceStatusFromCondition w =
     (let cs = set (ServiceConditions (Status w)); up = {c \<in> cs. sc_Status c = ConditionTrue} in
      if (cs \<noteq> {} \<and> up = {}) \<or> (ServiceOffline (Status w) \<and> {c \<in> up. sc_Type c \<noteq> ServiceSkyline} = {})
      then ServiceUnAvailable
      else if up = cs then ServiceAvailable else ServicePartAvailable)"
proof -
  let ?cs = "ServiceConditions (Status w)"
  let ?t = "\<lambda>c. sc_Status c = ConditionTrue"
  have a: "(length ?cs \<noteq> 0 \<and> length (filter ?t ?cs) = 0) = (set ?cs \<noteq> {} \<and> {c \<in> set ?cs. ?t c} = {})"
    by (auto simp: filter_empty_conv)
  have g: "(length (filter (\<lambda>c. ?t c \<and> graceful c) ?cs) = 0) = ({c \<in> {c \<in> set ?cs. ?t c}. sc_Type c \<noteq> ServiceSkyline} = {})"
    by (auto simp: filter_empty_conv isGracefullyServiceType_def)
  have n: "(length ?cs \<noteq> length (filter ?t ?cs)) = ({c \<in> set ?cs. ?t c} \<noteq> set ?cs)"
    using length_filter_all [of ?cs ?t] by auto
  show ?thesis unfolding GetServiceStatusFromCondition_def Let_def IsWorkerServiceOffline_def a g n by auto
qed

text \<open>
  A worker is offlined only when no graceful service is published: every graceful condition is not true,
  and was denied by the name service, never published, or deleted for an hour.
\<close>

theorem IsWorkerOfflined_unpublished:
  assumes "IsWorkerOfflined w" "c \<in> set (ServiceConditions (Status w))" "sc_Type c \<noteq> ServiceSkyline"
  shows "sc_Status c \<noteq> ConditionTrue \<and> unpublished_condition c"
proof -
  have g: "graceful c" using assms(3) by (simp add: isGracefullyServiceType_def)
  then have "count_conditions graceful w \<noteq> 0" using assms(2) by (auto simp: filter_empty_conv)
  then have u: "IsWorkerUnpublished w" using assms(1) by (simp add: IsWorkerOfflined_def)
  have "\<forall>x \<in> set (ServiceConditions (Status w)). graceful x \<longrightarrow>
      graceful x \<and> sc_Status x \<noteq> ConditionTrue \<and> unpublished_condition x"
    using u unfolding IsWorkerUnpublished_def Let_def by (subst length_filter_sub [symmetric]) auto
  then show ?thesis using assms(2) g by blast
qed

definition denied :: ServiceCondition where
  "denied = \<lparr>sc_Type = ServiceCM2, sc_ServiceName = ''s'', sc_Status = ConditionFalse, sc_Score = 0,
     sc_LastTransitionTime = None, sc_Reason = ReasonNotExist, sc_Message = [], sc_InWarmup = False, sc_DeleteCount = 0,
     sc_Name = ''s'', sc_StartWarmup = False, sc_Version = [], sc_ServiceDetail = []\<rparr>"

theorem IsWorkerOfflined_unpublished_witness:
  "sc_Status denied \<noteq> ConditionTrue \<and> unpublished_condition denied"
proof (rule IsWorkerOfflined_unpublished)
  let ?w = "empty_worker\<lparr>Status := empty_status\<lparr>ServiceConditions := [denied], st_ServiceStatus := ServiceUnAvailable\<rparr>\<rparr>"
  show "IsWorkerOfflined ?w"
    by (simp add: IsWorkerOfflined_def IsWorkerUnpublished_def IsWorkerUnAvaliable_def denied_def isGracefullyServiceType_def
        unpublished_condition_def)
  show "denied \<in> set (ServiceConditions (Status ?w))" by simp
  show "sc_Type denied \<noteq> ServiceSkyline" by (simp add: denied_def)
qed

subsection \<open>What is published stays published\<close>

lemma find_update_first:
  "(\<And>x. p x \<Longrightarrow> p (f x)) \<Longrightarrow> update_first p f xs = Some ys \<Longrightarrow> find p ys = map_option f (find p xs)"
  by (induction xs arbitrary: ys) (auto split: if_splits)

lemma update_first_none: "update_first p f xs = None \<longleftrightarrow> find p xs = None"
  by (induction xs) auto

lemma find_snoc: "find p (xs @ [x]) = (case find p xs of None \<Rightarrow> if p x then Some x else None | Some y \<Rightarrow> Some y)"
  by (induction xs) auto

lemma find_set: "find p xs = Some x \<Longrightarrow> x \<in> set xs \<and> p x"
  by (induction xs) (auto split: if_splits)

text \<open>The condition that a report of the service rewrites.\<close>

abbreviation condition_of :: "string \<Rightarrow> WorkerNode \<Rightarrow> ServiceCondition option" where
  "condition_of name w \<equiv> find (\<lambda>c. sc_ServiceName c = name \<or> sc_Name c = name) (ServiceConditions (Status w))"

text \<open>After a report, the condition of the service is the old one updated, or a new one.\<close>

lemma reported_condition:
  "condition_of (sp_Name sp) (SetWorkerServiceHealthCondition e sp detail status score reason message iw sw w) =
   Some (let n = (if sp_Type sp = ServiceGeneral then 1 else 0);
             m = (if status = ConditionTrue \<or> reason = ReasonServiceCheckFalse then NodeHasPublished else message)
         in case condition_of (sp_Name sp) w of
              Some c \<Rightarrow> update_condition e sp (Version (Status w)) detail status score reason m iw sw n c
            | None \<Rightarrow> \<lparr>sc_Type = sp_Type sp, sc_ServiceName = sp_ServiceName sp, sc_Status = status, sc_Score = score,
                sc_LastTransitionTime = Some (Now e), sc_Reason = reason, sc_Message = m, sc_InWarmup = iw,
                sc_DeleteCount = n, sc_Name = sp_Name sp, sc_StartWarmup = sw, sc_Version = Version (Status w),
                sc_ServiceDetail = ''''\<rparr>)"
proof -
  let ?p = "\<lambda>c. sc_ServiceName c = sp_Name sp \<or> sc_Name c = sp_Name sp"
  define n where "n = (if sp_Type sp = ServiceGeneral then 1 else 0 :: int)"
  define m where "m = (if status = ConditionTrue \<or> reason = ReasonServiceCheckFalse then NodeHasPublished else message)"
  define f where "f = update_condition e sp (Version (Status w)) detail status score reason m iw sw n"
  have pf: "?p (f c)" for c by (simp add: f_def update_condition_def Let_def)
  note unfolds = SetWorkerServiceHealthCondition_def SyncWorkerServiceHealthStatus_def Let_def f_def [symmetric]
    m_def [symmetric] n_def [symmetric]
  show ?thesis
  proof (cases "update_first ?p f (ServiceConditions (Status w))")
    case None
    then have "condition_of (sp_Name sp) w = None" by (simp only: update_first_none)
    then show ?thesis using None by (simp add: unfolds find_snoc)
  next
    case (Some cs)
    have "find ?p cs = map_option f (condition_of (sp_Name sp) w)"
      by (rule find_update_first [OF _ Some]) (rule pf)
    moreover have "condition_of (sp_Name sp) w \<noteq> None" unfolding update_first_none [of ?p f, symmetric] Some by simp
    ultimately show ?thesis using Some by (auto simp: unfolds)
  qed
qed

lemma Contains_self [simp]: "Contains s s"
  using Contains_prefix [of s "[]"] by simp

lemma update_condition_published:
  assumes "Contains (sc_Message c) NodeHasPublished" "status \<noteq> ConditionTrue"
  shows "Contains (sc_Message (update_condition e sp v d status score reason message iw sw n c)) NodeHasPublished"
  using assms by (simp add: update_condition_def Let_def del: Contains.simps append.simps append_Cons)

lemma not_unpublished:
  assumes "condition_of name w = Some c" "sc_Type c \<noteq> ServiceSkyline" "\<not> unpublished_condition c"
  shows "\<not> IsWorkerUnpublished w"
proof
  assume u: "IsWorkerUnpublished w"
  have "\<forall>x \<in> set (ServiceConditions (Status w)). graceful x \<longrightarrow>
      graceful x \<and> sc_Status x \<noteq> ConditionTrue \<and> unpublished_condition x"
    using u unfolding IsWorkerUnpublished_def Let_def by (subst length_filter_sub [symmetric]) auto
  then show False using find_set [OF assms(1)] assms(2,3) by (auto simp: isGracefullyServiceType_def)
qed

text \<open>
  A published worker is not taken for unpublished by accident: once a service was reported true, a later
  report that is not true (an error of the name service, a failed check) leaves the worker published; only
  the answer that the node does not exist (or a new initialisation) makes it unpublished. So a worker is not
  released, and its pod not updated, while clients may still reach it.
\<close>

theorem published_is_remembered:
  assumes "status \<noteq> ConditionTrue" "reason \<noteq> ReasonNotExist" "reason \<noteq> InitServiceFalseState"
    and "w1 = SetWorkerServiceHealthCondition e sp d1 ConditionTrue s1 r1 m1 i1 u1 w"
    and "w2 = SetWorkerServiceHealthCondition e' sp d2 status s2 reason m2 i2 u2 w1"
    and "\<forall>c \<in> set (ServiceConditions (Status w)). sc_Type c \<noteq> ServiceSkyline" and "sp_Type sp \<noteq> ServiceSkyline"
  shows "\<not> IsWorkerUnpublished w2"
proof -
  have "\<exists>c1. condition_of (sp_Name sp) w1 = Some c1 \<and> sc_Message c1 = NodeHasPublished \<and> sc_Type c1 \<noteq> ServiceSkyline"
    unfolding assms(4) reported_condition using assms(6,7)
    by (cases "condition_of (sp_Name sp) w") (auto simp: update_condition_def Let_def dest!: find_set)
  then obtain c1 where c1: "condition_of (sp_Name sp) w1 = Some c1" "sc_Message c1 = NodeHasPublished"
    "sc_Type c1 \<noteq> ServiceSkyline" by blast
  define m where "m = (if status = ConditionTrue \<or> reason = ReasonServiceCheckFalse then NodeHasPublished else m2)"
  define n where "n = (if sp_Type sp = ServiceGeneral then 1 else 0 :: int)"
  define c2 where "c2 = update_condition e' sp (Version (Status w1)) d2 status s2 reason m i2 u2 n c1"
  have f2: "condition_of (sp_Name sp) w2 = Some c2"
    unfolding assms(5) reported_condition c1(1) by (simp add: c2_def m_def n_def Let_def)
  have "Contains (sc_Message c2) NodeHasPublished"
    unfolding c2_def by (rule update_condition_published) (use c1(2) assms(1) in \<open>simp_all del: Contains.simps\<close>)
  moreover have "sc_Reason c2 = reason" "sc_DeleteCount c2 = n" "sc_Type c2 = sc_Type c1"
    by (simp_all add: c2_def update_condition_def Let_def)
  ultimately have "\<not> unpublished_condition c2"
    using assms(2,3) by (simp add: unpublished_condition_def n_def)
  then show ?thesis using not_unpublished [OF f2] \<open>sc_Type c2 = sc_Type c1\<close> c1(3) by simp
qed

theorem published_is_remembered_witness:
  "\<not> IsWorkerUnpublished (SetWorkerServiceHealthCondition sample_env \<lparr>sp_Name = ''p'', sp_Type = ServiceCM2,
       sp_ServiceName = ''p'', sp_SoftDelete = False\<rparr> [] ConditionFalse 0 ReasonQueryError ''timeout'' False False
     (SetWorkerServiceHealthCondition sample_env \<lparr>sp_Name = ''p'', sp_Type = ServiceCM2,
       sp_ServiceName = ''p'', sp_SoftDelete = False\<rparr> [] ConditionTrue 0 [] [] False False healthy_worker))"
  by (rule published_is_remembered [OF _ _ _ refl refl]) (simp_all add: healthy_worker_def empty_worker_def empty_status_def)

subsection \<open>When to look again\<close>

text \<open>The reference: the remaining times of the timers that run, of which the least positive one counts.\<close>

definition running_timers :: "worker_env \<Rightarrow> WorkerNode \<Rightarrow> int list" where
  "running_timers e w =
     (if IsWorkerAssigned w then
        (if IsWorkerDead w then []
         else
           (if \<not> ResourceMatch (Status w) \<and> ResourceMatchTimeout (Plan w) > 0
            then [LastResourceNotMatchtime (Status w) + ResourceMatchTimeout (Plan w) - Now e] else []) @
           (if \<not> ProcessMatch (Status w) \<and> ProcessMatchTimeout (Plan w) > 0
            then [LastProcessNotMatchtime (Status w) + ProcessMatchTimeout (Plan w) - Now e] else []) @
           (if \<not> WorkerReady (Status w) \<and> WorkerReadyTimeout (Plan w) > 0
            then [LastWorkerNotReadytime (Status w) + WorkerReadyTimeout (Plan w) - Now e] else []) @
           (if \<not> ProcessReady (Status w) \<and> ProcessMatchTimeout (Plan w) > 0
            then [LastProcessNotReadytime (Status w) + ProcessMatchTimeout (Plan w) - Now e] else []) @
           (if IsWorkerHealth w \<and> MinReadySeconds (Plan w) > 0
            then [UnixTime (hc_LastTransitionTime (st_HealthCondition (Status w))) + MinReadySeconds (Plan w) - Now e] else []) @
           (if WarmupSeconds (Plan w) > 0 \<and> LastWarmupStartTime (Status w) > 0
            then [LastWarmupStartTime (Status w) + WarmupSeconds (Plan w) - Now e] else []))
      else if IsWorkerUnAssigned w \<and> NotScheduleTimeout e > 0 \<and> NotScheduleSeconds (Status w) > 0
      then [NotScheduleTimeout e - NotScheduleSeconds (Status w)] else [])"

definition least_positive :: "int list \<Rightarrow> int" where
  "least_positive ts = (let ps = {t \<in> set ts. 0 < t} in if ps = {} then 0 else Min ps)"

lemma least_positive_pos: "{t \<in> set ts. 0 < t} \<noteq> {} \<Longrightarrow> 0 < least_positive ts"
  using Min_in [of "{t \<in> set ts. 0 < t}"] by (simp add: least_positive_def)

lemma least_positive_zero: "{t \<in> set ts. 0 < t} = {} \<Longrightarrow> least_positive ts = 0"
  by (simp add: least_positive_def)

lemma least_positive_append:
  "least_positive (xs @ ys) =
     (let a = least_positive xs; t = least_positive ys in if a = 0 \<or> (t \<noteq> 0 \<and> t < a) then t else a)"
proof -
  let ?X = "{t \<in> set xs. 0 < t}" and ?Y = "{t \<in> set ys. 0 < t}"
  have u: "{t \<in> set (xs @ ys). 0 < t} = ?X \<union> ?Y" by auto
  consider "?X = {}" | "?X \<noteq> {}" "?Y = {}" | "?X \<noteq> {}" "?Y \<noteq> {}" by blast
  then show ?thesis
  proof cases
    case 1
    then show ?thesis unfolding Let_def least_positive_zero [OF 1] by (simp only: least_positive_def u Un_empty_left simp_thms if_True)
  next
    case 2
    then have "least_positive (xs @ ys) = least_positive xs"
      by (simp only: least_positive_def u Un_empty_right)
    then show ?thesis using least_positive_pos [OF 2(1)] unfolding Let_def least_positive_zero [OF 2(2)] by simp
  next
    case 3
    have "least_positive (xs @ ys) = min (least_positive xs) (least_positive ys)"
      unfolding least_positive_def Let_def u using 3 by (simp add: Min_Un del: Collect_empty_eq)
    then show ?thesis using least_positive_pos [OF 3(1)] least_positive_pos [OF 3(2)] by (simp add: Let_def min_def)
  qed
qed

lemma least_positive_single: "least_positive [t] = (if 0 < t then t else 0)"
proof -
  have "{x \<in> set [t]. 0 < x} = (if 0 < t then {t} else {})" by auto
  then show ?thesis by (simp add: least_positive_def)
qed

lemma least_positive_nonneg: "0 \<le> least_positive ts"
  using least_positive_pos [of ts] least_positive_zero [of ts] by (cases "{t \<in> set ts. 0 < t} = {}") auto

text \<open>One timer of the chain.\<close>

definition timer :: "bool \<Rightarrow> int \<Rightarrow> int \<Rightarrow> int" where
  "timer b t timeout = (if b then syncTimeout timeout t else timeout)"

lemma timer_least: "timer b t (least_positive ts) = least_positive (ts @ (if b then [t] else []))"
  using least_positive_nonneg [of ts] least_positive_zero [of "[]"]
  by (auto simp: timer_def syncTimeout_def least_positive_append least_positive_single Let_def)

lemma timer_first: "timer b t 0 = least_positive (if b then [t] else [])"
  using timer_least [of b t "[]"] by (simp add: least_positive_def)

lemma GetWorkerResyncTime_least: "GetWorkerResyncTime e w = least_positive (running_timers e w)"
proof -
  let ?s = "Status w" and ?p = "Plan w"
  have eq: "a - (n - l) = l + a - n" for a n l :: int by simp
  have u: "IsWorkerAssigned w \<Longrightarrow> \<not> IsWorkerUnAssigned w" by (simp add: worker_preds)
  consider "IsWorkerAssigned w" "IsWorkerDead w" | "IsWorkerAssigned w" "\<not> IsWorkerDead w" | "\<not> IsWorkerAssigned w" by blast
  then show ?thesis
  proof cases
    case 1
    then show ?thesis by (simp add: GetWorkerResyncTime_def running_timers_def least_positive_def)
  next
    case 2
    have "GetWorkerResyncTime e w =
      timer (WarmupSeconds ?p > 0 \<and> LastWarmupStartTime ?s > 0) (LastWarmupStartTime ?s + WarmupSeconds ?p - Now e)
      (timer (IsWorkerHealth w \<and> MinReadySeconds ?p > 0) (UnixTime (hc_LastTransitionTime (st_HealthCondition ?s)) + MinReadySeconds ?p - Now e)
      (timer (\<not> ProcessReady ?s \<and> ProcessMatchTimeout ?p > 0) (LastProcessNotReadytime ?s + ProcessMatchTimeout ?p - Now e)
      (timer (\<not> WorkerReady ?s \<and> WorkerReadyTimeout ?p > 0) (LastWorkerNotReadytime ?s + WorkerReadyTimeout ?p - Now e)
      (timer (\<not> ProcessMatch ?s \<and> ProcessMatchTimeout ?p > 0) (LastProcessNotMatchtime ?s + ProcessMatchTimeout ?p - Now e)
      (timer (\<not> ResourceMatch ?s \<and> ResourceMatchTimeout ?p > 0) (LastResourceNotMatchtime ?s + ResourceMatchTimeout ?p - Now e) 0)))))"
      using 2 u unfolding GetWorkerResyncTime_def Let_def timer_def by (simp only: eq simp_thms if_True if_False)
    then show ?thesis using 2 by (simp only: timer_first timer_least running_timers_def append_assoc if_True if_False simp_thms)
  next
    case 3
    have "GetWorkerResyncTime e w = timer (IsWorkerUnAssigned w \<and> NotScheduleTimeout e > 0 \<and> NotScheduleSeconds ?s > 0)
        (NotScheduleTimeout e - NotScheduleSeconds ?s) 0"
      using 3 unfolding GetWorkerResyncTime_def Let_def timer_def by (simp only: simp_thms if_False)
    then show ?thesis using 3 by (simp only: timer_first running_timers_def if_False)
  qed
qed

text \<open>
  The controller looks again at a group of workers at the earliest deadline: the resync time of the workers is
  the least positive remaining time of all their running timers, and 0 when there is none.
\<close>

theorem GetWorkersResyncTime_earliest:
  "GetWorkersResyncTime e ws = least_positive (concat (map (running_timers e) ws))"
proof -
  have "fold (\<lambda>w timeout. let t = GetWorkerResyncTime e w in if timeout = 0 \<or> (t \<noteq> 0 \<and> t < timeout) then t else timeout) ws
      (least_positive xs) = least_positive (xs @ concat (map (running_timers e) ws))" for xs
  proof (induction ws arbitrary: xs)
    case (Cons w ws)
    show ?case
      using Cons [of "xs @ running_timers e w"] by (simp add: Let_def GetWorkerResyncTime_least least_positive_append)
  qed simp
  from this [of "[]"] show ?thesis by (simp add: GetWorkersResyncTime_def least_positive_def)
qed

text \<open>
  The last second of a timeout is lost: a worker checked when exactly its timeout has passed is not broken yet
  (the check is strict), no resync is scheduled for it (a remaining time of 0 counts as no timer), and it
  is broken one second later.
\<close>

theorem resync_boundary_missed:
  "\<exists>e w. IsWorkerBroken e w v = BadReasonNone \<and> GetWorkersResyncTime e [w] = 0 \<and>
     IsWorkerBroken (e\<lparr>Now := Now e + 1\<rparr>) w v = BadReasonNotReady"
proof (intro exI)
  let ?w = "healthy_worker\<lparr>Spec := (Spec healthy_worker)\<lparr>Spec_VersionPlan := empty_plan\<lparr>WorkerReadyTimeout := 600\<rparr>\<rparr>,
    Status := (Status healthy_worker)\<lparr>WorkerReady := False, LastWorkerNotReadytime := 400\<rparr>\<rparr>"
  let ?e = "sample_env"
  have r: "running_timers ?e ?w = [0]"
    by (simp add: running_timers_def worker_preds healthy_worker_def sample_defs)
  have "GetWorkersResyncTime ?e [?w] = 0"
    unfolding GetWorkersResyncTime_def by (simp add: Let_def GetWorkerResyncTime_least r least_positive_single)
  then show "IsWorkerBroken ?e ?w v = BadReasonNone \<and> GetWorkersResyncTime ?e [?w] = 0 \<and>
     IsWorkerBroken (?e\<lparr>Now := Now ?e + 1\<rparr>) ?w v = BadReasonNotReady"
    by (simp add: IsWorkerBroken_def IsWorkerLongtimeNotMatch_def IsWorkerProcessLongtimeNotMatch_def
        IsWorkerLongtimeNotReady_def IsWorkerProcessLongtimeNotReady_def NeedReclaimByService_def worker_preds
        healthy_worker_def sample_defs)
qed

subsection \<open>Readiness has to last\<close>

text \<open>The worker serves its latest version.\<close>

definition service_up :: "WorkerNode \<Rightarrow> bool" where
  "service_up w \<longleftrightarrow> \<not> IsWorkerToRelease w \<and> \<not> IsWorkerVersionMisMatch w \<and> IsWorkerLatestVersionAvailable w \<and>
     IsWorkerHealthInfoReady w \<and> IsWorkerProcessReady w"

lemma service_up_ready:
  "service_up w \<Longrightarrow> IsWorkerServiceReady e w =
     (sync_service_ready e w, IsServiceReadyForMinTime e (sync_service_ready e w)) \<and>
     ServiceReady (Status (sync_service_ready e w))"
  by (auto simp: service_up_def IsWorkerServiceReady_def sync_service_ready_def Let_def IsWorkerVersionMisMatch_def
      IsWorkerHealthInfoReady_def IsWorkerHealthMatch_def)

lemma not_service_up:
  "\<not> service_up w \<Longrightarrow> \<not> IsWorkerToRelease w \<Longrightarrow> \<not> IsWorkerVersionMisMatch w \<Longrightarrow>
     \<not> ServiceReady (Status (sync_service_ready e w))"
  by (auto simp: service_up_def sync_service_ready_def Let_def)

lemma sync_service_ready_latest:
  "IsWorkerLatestVersionAvailable (sync_service_ready e w) = IsWorkerLatestVersionAvailable w"
proof -
  have "Spec (sync_service_ready e w) = Spec w" "st_ServiceStatus (Status (sync_service_ready e w)) = st_ServiceStatus (Status w)"
    "ServiceConditions (Status (sync_service_ready e w)) = ServiceConditions (Status w)"
    by (simp_all add: sync_service_ready_def Let_def)
  then show ?thesis by (simp only: IsWorkerLatestVersionAvailable_def)
qed

lemma sync_service_ready_frame:
  "Spec (sync_service_ready e w) = Spec w" "DeletionTimestamp (sync_service_ready e w) = DeletionTimestamp w"
  "IsWorkerToRelease (sync_service_ready e w) = IsWorkerToRelease w"
  "IsWorkerVersionMisMatch (sync_service_ready e w) = IsWorkerVersionMisMatch w"
  "IsWorkerHealthInfoReady (sync_service_ready e w) = IsWorkerHealthInfoReady w"
  "IsWorkerHealth (sync_service_ready e w) = IsWorkerHealth w"
  "IsWorkerProcessReady (sync_service_ready e w) = IsWorkerProcessReady w"
  "IsWorkerInnerVerMatch (sync_service_ready e w) = IsWorkerInnerVerMatch w"
  "Version (Status (sync_service_ready e w)) = Version (Status w)"
  "getMinReadySeconds e' (sync_service_ready e w) = getMinReadySeconds e' w"
  by (simp_all add: sync_service_ready_def Let_def worker_preds getMinReadySeconds_def)

lemma sync_service_ready_up: "service_up (sync_service_ready e w) = service_up w"
  by (simp only: service_up_def sync_service_ready_frame sync_service_ready_latest)

lemma service_not_ready_value:
  "\<not> service_up w \<Longrightarrow> \<not> snd (snd (IsWorkerServiceReady e w))"
  using not_service_up [of w e]
  by (auto simp: IsWorkerServiceReady_def IsServiceReadyForMinTime_def Let_def IsWorkerVersionMisMatch_def)

text \<open>
  A worker whose service just came up is ready only after it has been up for more than the minimum ready
  time: polled later, the answer is yes exactly when the service is up and that time has passed.
\<close>

theorem IsWorkerServiceReady_waits:
  assumes "LastServiceReadyTime (Status w) = Some 0" "service_up w" "Now e \<noteq> 0"
    and "getMinReadySeconds e' w \<noteq> 0"
    and "w' = fst (IsWorkerServiceReady e w)"
  shows "snd (snd (IsWorkerServiceReady e' w')) \<longleftrightarrow> Now e' - Now e > getMinReadySeconds e' w"
proof -
  have w': "w' = sync_service_ready e w" using service_up_ready [OF assms(2)] assms(5) by simp
  have last: "LastServiceReadyTime (Status w') = Some (Now e)"
    using assms(1) service_up_ready [OF assms(2), of e] unfolding w' by (simp add: sync_service_ready_def Let_def split: if_splits)
  have up: "service_up w'" using assms(2) by (simp add: w' sync_service_ready_up)
  note r = service_up_ready [OF up, of e']
  have "LastServiceReadyTime (Status (sync_service_ready e' w')) = Some (Now e)"
    using last r assms(3) by (simp add: sync_service_ready_def Let_def split: if_splits)
  moreover have "getMinReadySeconds e' (sync_service_ready e' w') = getMinReadySeconds e' w"
    by (simp add: w' sync_service_ready_frame)
  ultimately show ?thesis using r assms(4) by (simp add: IsServiceReadyForMinTime_def Let_def)
qed

theorem IsWorkerServiceReady_waits_witness:
  "snd (snd (IsWorkerServiceReady (sample_env\<lparr>Now := 1031\<rparr>)
     (fst (IsWorkerServiceReady sample_env (set_status (\<lambda>s. s\<lparr>LastServiceReadyTime := Some 0\<rparr>) healthy_worker))))) \<longleftrightarrow>
   Now (sample_env\<lparr>Now := 1031\<rparr>) - Now sample_env >
     getMinReadySeconds (sample_env\<lparr>Now := 1031\<rparr>) (set_status (\<lambda>s. s\<lparr>LastServiceReadyTime := Some 0\<rparr>) healthy_worker)"
  by (rule IsWorkerServiceReady_waits [OF _ _ _ _ refl])
    (simp_all add: healthy_worker_def sample_defs service_up_def worker_preds IsWorkerLatestVersionAvailable_def
      getMinReadySeconds_def)

text \<open>
  Asking twice within the same second changes nothing and gives the same answer, although the question
  writes to the worker (the clock being past the first minutes of 1970, whose seconds are not told from an unset time).
\<close>

theorem IsWorkerServiceReady_idempotent:
  assumes "getMinReadySeconds e w + 1 < Now e"
  shows "IsWorkerServiceReady e (fst (IsWorkerServiceReady e w)) = (fst (IsWorkerServiceReady e w), snd (IsWorkerServiceReady e w))"
proof -
  let ?w = "sync_service_ready e w"
  note f = sync_service_ready_frame sync_service_ready_latest
  have "sync_service_ready e ?w = ?w"
    unfolding sync_service_ready_def [of e ?w] f using assms by (auto simp: sync_service_ready_def Let_def split: option.split)
  then show ?thesis by (simp add: IsWorkerServiceReady_def Let_def f)
qed

theorem IsWorkerServiceReady_idempotent_witness:
  "IsWorkerServiceReady sample_env (fst (IsWorkerServiceReady sample_env healthy_worker)) =
     (fst (IsWorkerServiceReady sample_env healthy_worker), snd (IsWorkerServiceReady sample_env healthy_worker))"
  by (rule IsWorkerServiceReady_idempotent) (simp add: healthy_worker_def sample_defs getMinReadySeconds_def)

subsection \<open>Silence and activation\<close>

text \<open>
  A worker put into silence is silent exactly for the silence time: the start is written as text, read
  back later, and the time that is left is what the clock says.
\<close>

theorem SetSilence_lasts:
  assumes "sget (Annotations w) SilentNodeAnnoKey \<noteq> ''true''" "0 \<le> Now e" "Now e < 9223372036854775808"
    and "WorkerMode (Status w) = WorkerModeEmpty \<or> WorkerMode (Status w) = WorkerModeTypeActive"
  shows "(InSilence e' (SetSilence e True w) \<longleftrightarrow> Now e' - Now e < defaultSilenceSeconds e') \<and>
    GetWorkerSilenceTimeout e' (SetSilence e True w) = max 0 (defaultSilenceSeconds e' - (Now e' - Now e)) \<and>
    IsSilenceNode (SetSilence e True w)"
proof -
  have p: "ParseInt (FormatInt (Now e)) = Some (Now e)" using assms(2,3) by (intro ParseInt_FormatInt) auto
  define annos where "annos = (case Annotations w of None \<Rightarrow> Some Mapping.empty | a \<Rightarrow> a)"
  have "sget annos SilentNodeAnnoKey \<noteq> ''true''" using assms(1) by (cases "Annotations w") (auto simp: annos_def)
  then have a: "SetSilence e True w = w\<lparr>Annotations := sput SilentNodeAnnoKey ''true'' (sput SilentTimeAnnoKey (FormatInt (Now e)) annos),
      Spec := (Spec w)\<lparr>Spec_WorkerMode := WorkerModeTypeHot\<rparr>\<rparr>"
    by (simp add: SetSilence_def annos_def [symmetric])
  show ?thesis unfolding a using p assms(4)
    by (auto simp: InSilence_def GetWorkerSilenceTimeout_def IsSilenceNode_def Let_def max_def)
qed

theorem SetSilence_lasts_witness:
  "InSilence (sample_env\<lparr>Now := 1299\<rparr>) (SetSilence sample_env True healthy_worker) \<and>
   GetWorkerSilenceTimeout (sample_env\<lparr>Now := 1299\<rparr>) (SetSilence sample_env True healthy_worker) = 1"
  using SetSilence_lasts [of healthy_worker sample_env "sample_env\<lparr>Now := 1299\<rparr>"]
  by (simp add: healthy_worker_def sample_defs)

text \<open>
  A cold worker that is made active is protected for the activation time and no longer: the mark that
  \<^verbatim>\<open>SetStandby2Active\<close> writes is read back until it expires, and is then dropped.
\<close>

theorem SetStandby2Active_protects:
  assumes "Spec_WorkerMode (Spec w) = WorkerModeTypeCold" "\<not> shas (Annotations w) Standby2ActiveTimeAnnoKey"
    and "0 \<le> Now e" "Now e < 9223372036854775808"
  shows "\<exists>w'. SetStandby2Active e w = (w', True) \<and>
    (Now e' - Now e < defaultStandby2ActiveSeconds e' \<longrightarrow>
       InStandby2Active e' w' = (w', True) \<and> SetStandby2Active e' w' = (w', False)) \<and>
    (Now e' - Now e \<ge> defaultStandby2ActiveSeconds e' \<longrightarrow>
       \<not> shas (Annotations (fst (InStandby2Active e' w'))) Standby2ActiveTimeAnnoKey \<and> \<not> snd (InStandby2Active e' w'))"
proof -
  have p: "ParseInt (FormatInt (Now e)) = Some (Now e)" using assms(3,4) by (intro ParseInt_FormatInt) auto
  define annos where "annos = (case Annotations w of None \<Rightarrow> Some Mapping.empty | a \<Rightarrow> a)"
  have n: "\<not> shas annos Standby2ActiveTimeAnnoKey" using assms(2) by (cases "Annotations w") (auto simp: annos_def)
  define w' where "w' = w\<lparr>Annotations := sput Standby2ActiveTimeAnnoKey (FormatInt (Now e)) annos\<rparr>"
  have "SetStandby2Active e w = (w', True)"
    using assms(1) n by (simp add: SetStandby2Active_def InStandby2Active_def annos_def [symmetric] w'_def Let_def)
  moreover have "w'\<lparr>Annotations := (case Annotations w' of None \<Rightarrow> Some Mapping.empty | a \<Rightarrow> a)\<rparr> = w'"
    by (simp add: w'_def sput_def split: option.split)
  then have "Now e' - Now e < defaultStandby2ActiveSeconds e' \<longrightarrow>
       InStandby2Active e' w' = (w', True) \<and> SetStandby2Active e' w' = (w', False)"
    using p assms(1) by (auto simp: InStandby2Active_def SetStandby2Active_def Let_def w'_def)
  moreover have "Now e' - Now e \<ge> defaultStandby2ActiveSeconds e' \<longrightarrow>
       \<not> shas (Annotations (fst (InStandby2Active e' w'))) Standby2ActiveTimeAnnoKey \<and> \<not> snd (InStandby2Active e' w')"
    using p by (auto simp: InStandby2Active_def UnsetStandby2Active_def w'_def)
  ultimately show ?thesis by blast
qed

theorem SetStandby2Active_protects_witness:
  "snd (SetStandby2Active sample_env (set_spec (\<lambda>s. s\<lparr>Spec_WorkerMode := WorkerModeTypeCold\<rparr>) empty_worker)) \<and>
   snd (InStandby2Active sample_env (fst (SetStandby2Active sample_env
     (set_spec (\<lambda>s. s\<lparr>Spec_WorkerMode := WorkerModeTypeCold\<rparr>) empty_worker))))"
proof -
  let ?w = "set_spec (\<lambda>s. s\<lparr>Spec_WorkerMode := WorkerModeTypeCold\<rparr>) empty_worker"
  have "\<exists>w'. SetStandby2Active sample_env ?w = (w', True) \<and>
    (Now sample_env - Now sample_env < defaultStandby2ActiveSeconds sample_env \<longrightarrow>
       InStandby2Active sample_env w' = (w', True) \<and> SetStandby2Active sample_env w' = (w', False)) \<and>
    (Now sample_env - Now sample_env \<ge> defaultStandby2ActiveSeconds sample_env \<longrightarrow>
       \<not> shas (Annotations (fst (InStandby2Active sample_env w'))) Standby2ActiveTimeAnnoKey \<and>
       \<not> snd (InStandby2Active sample_env w'))"
    by (rule SetStandby2Active_protects) (simp_all add: sample_defs)
  then show ?thesis by (auto simp: sample_env_def)
qed

end
