(* ===== verification/WorkerScore.thy ===== *)
theory WorkerScore
  imports WorkerStatusSafety
begin

text \<open>
  The score of a worker (\<^verbatim>\<open>helpers.go\<close>): the digits of a decimal number, the most important criterion first.
  The schedulers keep the workers with the highest scores.
\<close>

text \<open>The value of an \<^verbatim>\<open>int64\<close> expression.\<close>

definition i64 :: "int \<Rightarrow> int" where
  "i64 x = (x + 9223372036854775808) mod 18446744073709551616 - 9223372036854775808"

lemma i64_id: "- 9223372036854775808 \<le> x \<Longrightarrow> x < 9223372036854775808 \<Longrightarrow> i64 x = x"
  unfolding i64_def by (subst mod_pos_pos_trivial) auto

subsection \<open>The criteria\<close>

definition AllocStatusScore :: "AllocStatus \<Rightarrow> int32" where
  "AllocStatusScore s = (case s of WorkerLost \<Rightarrow> 0 | WorkerReleased \<Rightarrow> 1 | WorkerOfflining \<Rightarrow> 2 | WorkerReleasing \<Rightarrow> 3
     | WorkerUnAssigned \<Rightarrow> 4 | WorkerAssigned \<Rightarrow> 5 | _ \<Rightarrow> 0)"

definition PhaseScore :: "WorkerPhase \<Rightarrow> int32" where
  "PhaseScore s = (case s of Terminated \<Rightarrow> 0 | Failed \<Rightarrow> 1 | Unknown \<Rightarrow> 2 | Pending \<Rightarrow> 3 | Running \<Rightarrow> 4 | _ \<Rightarrow> 0)"

definition ServiceStatusScore :: "ServiceStatus \<Rightarrow> int32" where
  "ServiceStatusScore s = (case s of ServiceUnAvailable \<Rightarrow> 0 | ServiceUnKnown \<Rightarrow> 1 | ServicePartAvailable \<Rightarrow> 2
     | ServiceAvailable \<Rightarrow> 3 | _ \<Rightarrow> 0)"

definition ServiceScore :: "WorkerNode \<Rightarrow> int32" where
  "ServiceScore w = fold (\<lambda>c baseScore. i32 (baseScore + i32 (sc_Score c))) (ServiceConditions (Status w))
     (ServiceStatusScore (st_ServiceStatus (Status w)))"

definition HealthScore :: "HealthStatus \<Rightarrow> int32" where
  "HealthScore s = (case s of HealthDead \<Rightarrow> 0 | HealthUnKnown \<Rightarrow> 1 | HealthLost \<Rightarrow> 2 | HealthAlive \<Rightarrow> 3 | _ \<Rightarrow> 0)"

definition WorkerReadyScore :: "WorkerNode \<Rightarrow> int32" where
  "WorkerReadyScore w = (if IsWorkerTypeReady w then 1 else 0)"

definition WorkerReleaseScore :: "WorkerNode \<Rightarrow> int32" where
  "WorkerReleaseScore w = (if \<not> IsWorkerToRelease w then 1 else 0)"

definition WorkerReclaimScore :: "WorkerNode \<Rightarrow> int32" where
  "WorkerReclaimScore w = (if \<not> IsWorkerReclaiming w then 1 else 0)"

definition WorkerAvailableScore :: "WorkerNode \<Rightarrow> int32" where
  "WorkerAvailableScore w = (if IsWorkerLatestVersionAvailable w then 1 else 0)"

definition WorkerProcessScore :: "WorkerNode \<Rightarrow> int32" where
  "WorkerProcessScore w = ProcessScore (Status w)"

definition WorkerCompleteScore :: "worker_env \<Rightarrow> WorkerNode \<Rightarrow> int32" where
  "WorkerCompleteScore e w = (if IsWorkerComplete e w then 1 else 0)"

definition WorkerResourcePoolScore :: "WorkerNode \<Rightarrow> int32" where
  "WorkerResourcePoolScore w = 0"

definition WorkerResourceScore :: "WorkerNode \<Rightarrow> int32" where
  "WorkerResourceScore w = (if ResourceMatch (Status w) then 1 else 0)"

definition WorkerModeScore :: "worker_env \<Rightarrow> WorkerNode \<Rightarrow> int32" where
  "WorkerModeScore e w =
     (if \<not> IsStandbyWorker w then 5
      else if InSilence e w then 4
      else if \<not> IsWorkerOnStandByResourcePool w then 3
      else if Spec_WorkerMode (Spec w) = WorkerModeTypeHot then 2
      else if Spec_WorkerMode (Spec w) = WorkerModeTypeWarm then 1
      else 0)"

definition IsDaemonSetWorker :: "WorkerNode \<Rightarrow> bool" where
  "IsDaemonSetWorker w = IsDaemonSet (Plan w)"

abbreviation HostDead :: int32 where "HostDead \<equiv> 2"

definition DaemonSetHostScore :: "WorkerNode \<Rightarrow> int32" where
  "DaemonSetHostScore w =
     (if \<not> IsDaemonSetWorker w then 0
      else if IsWorkerUnAssigned w then 9
      else if ProcessScore (Status w) = HostDead then 8
      else if PodNotStarted (Status w) then 7
      else 0)"

definition WorkerServiceReadyScore :: "worker_env \<Rightarrow> WorkerNode \<Rightarrow> WorkerNode \<times> int32" where
  "WorkerServiceReadyScore e w =
     (case IsWorkerServiceReady e w of (w, _, ok) \<Rightarrow> (w, if ok then 1 else 0))"

definition raiseServicePriority :: "WorkerNode \<Rightarrow> bool" where
  "raiseServicePriority w \<longleftrightarrow> (\<exists>c \<in> set (ServiceConditions (Status w)). sc_Type c = ServiceGeneral)"

subsection \<open>The score\<close>

definition AggregateFraction :: "int32 list \<Rightarrow> int" where
  "AggregateFraction fractions = fold (\<lambda>f score. i64 (score * 10 + f)) fractions 0"

definition daemonset_fractions :: "worker_env \<Rightarrow> WorkerNode \<Rightarrow> int32 list" where
  "daemonset_fractions e w =
     [WorkerReleaseScore w, DaemonSetHostScore w, WorkerAvailableScore w, ServiceScore w, WorkerReadyScore w,
      HealthScore (st_HealthStatus (Status w)), PhaseScore (Phase (Status w)), AllocStatusScore (st_AllocStatus (Status w)),
      WorkerReclaimScore w, WorkerProcessScore w, WorkerModeScore e w, WorkerCompleteScore e w, WorkerResourcePoolScore w]"

definition DaemonsetScoreOfWorker :: "worker_env \<Rightarrow> WorkerNode \<Rightarrow> int" where
  "DaemonsetScoreOfWorker e w = AggregateFraction (daemonset_fractions e w)"

definition base_fractions :: "worker_env \<Rightarrow> WorkerNode \<Rightarrow> WorkerNode \<times> int32 list" where
  "base_fractions e w =
     (let release = WorkerReleaseScore w;
          (w', service) =
            (if raiseServicePriority w then
               let s = ServiceScore w; (w, r) = WorkerServiceReadyScore e w in (w, [s, r, WorkerAvailableScore w])
             else
               let (w, r) = WorkerServiceReadyScore e w in (w, [r, WorkerAvailableScore w, ServiceScore w]))
      in (w', [release] @ service @
           [WorkerReadyScore w', HealthScore (st_HealthStatus (Status w')), PhaseScore (Phase (Status w')),
            AllocStatusScore (st_AllocStatus (Status w')), WorkerReclaimScore w', WorkerProcessScore w',
            WorkerModeScore e w', WorkerCompleteScore e w', WorkerResourcePoolScore w']))"

definition BaseScoreOfWorker :: "worker_env \<Rightarrow> WorkerNode \<Rightarrow> WorkerNode \<times> int" where
  "BaseScoreOfWorker e w = (let (w', fractions) = base_fractions e w in (w', AggregateFraction fractions))"

definition ScoreOfWorker :: "worker_env \<Rightarrow> WorkerNode \<Rightarrow> WorkerNode \<times> int" where
  "ScoreOfWorker e w = (if IsDaemonSetWorker w then (w, DaemonsetScoreOfWorker e w) else BaseScoreOfWorker e w)"

subsection \<open>Digits compare lexicographically\<close>

abbreviation digit :: "int \<Rightarrow> bool" where "digit d \<equiv> 0 \<le> d \<and> d \<le> 9"

text \<open>The number the digits denote, without the wrap-around.\<close>

definition decimal :: "int \<Rightarrow> int list \<Rightarrow> int" where
  "decimal s ds = fold (\<lambda>d s. s * 10 + d) ds s"

lemma decimal_simps [simp]: "decimal s [] = s" "decimal s (d # ds) = decimal (s * 10 + d) ds"
  by (simp_all add: decimal_def)

lemma decimal_split: "decimal s ds = s * 10 ^ length ds + decimal 0 ds"
proof (induction ds arbitrary: s)
  case (Cons d ds)
  show ?case using Cons [of "s * 10 + d"] Cons [of d] by (simp add: algebra_simps)
qed simp

lemma decimal_bounds: "\<forall>d \<in> set ds. digit d \<Longrightarrow> 0 \<le> decimal 0 ds \<and> decimal 0 ds < 10 ^ length ds"
proof (induction ds)
  case (Cons d ds)
  then have ih: "0 \<le> decimal 0 ds" "decimal 0 ds < 10 ^ length ds" and d: "digit d" by auto
  have "d * 10 ^ length ds \<le> 9 * 10 ^ length ds" "0 \<le> d * 10 ^ length ds" using d by (simp_all add: mult_right_mono)
  moreover have "decimal 0 (d # ds) = d * 10 ^ length ds + decimal 0 ds" using decimal_split [of d ds] by simp
  moreover have "(10 :: int) ^ length (d # ds) = 10 * 10 ^ length ds" by simp
  ultimately show ?case using ih by linarith
qed simp

lemma AggregateFraction_fold:
  assumes "\<forall>d \<in> set ds. digit d" "0 \<le> s" "s * 10 ^ length ds + 10 ^ length ds \<le> 9223372036854775808"
  shows "fold (\<lambda>f score. i64 (score * 10 + f)) ds s = decimal s ds"
  using assms
proof (induction ds arbitrary: s)
  case (Cons d ds)
  have d: "digit d" using Cons.prems(1) by simp
  define y where "y = (10 :: int) ^ length ds"
  have p: "1 \<le> y" by (simp add: y_def)
  have "(s * 10 + d) * 10 ^ length ds + 10 ^ length ds = (s * 10 + d + 1) * 10 ^ length ds" by (simp add: algebra_simps)
  also have "\<dots> \<le> (s * 10 + 10) * 10 ^ length ds" using d by (intro mult_right_mono) auto
  also have "\<dots> = s * 10 ^ length (d # ds) + 10 ^ length (d # ds)" by (simp add: algebra_simps)
  finally have le: "(s * 10 + d) * 10 ^ length ds + 10 ^ length ds \<le> 9223372036854775808" using Cons.prems(3) by simp
  define x where "x = (s * 10 + d) * y"
  have "(s * 10 + d) * 1 \<le> x" unfolding x_def using p d Cons.prems(2) by (intro mult_left_mono) auto
  then have "s * 10 + d \<le> x" by simp
  then have "s * 10 + d < 9223372036854775808" using le p unfolding y_def [symmetric] x_def [symmetric] by linarith
  then have "i64 (s * 10 + d) = s * 10 + d" using Cons.prems(2) d by (intro i64_id) auto
  then show ?case using Cons.IH [of "s * 10 + d"] Cons.prems(1,2) d le by simp
qed simp

lemma AggregateFraction_decimal:
  assumes "\<forall>d \<in> set ds. digit d" "length ds \<le> 18"
  shows "AggregateFraction ds = decimal 0 ds"
proof -
  have "(10 :: int) ^ length ds \<le> 10 ^ 18" using assms(2) by (intro power_increasing) auto
  then show ?thesis unfolding AggregateFraction_def using assms(1) by (intro AggregateFraction_fold) auto
qed

lemma decimal_less_lex:
  "length xs = length ys \<Longrightarrow> \<forall>d \<in> set xs. digit d \<Longrightarrow> \<forall>d \<in> set ys. digit d \<Longrightarrow> decimal 0 xs < decimal 0 ys \<longleftrightarrow> xs < ys"
proof (induction xs ys rule: list_induct2)
  case (Cons x xs y ys)
  let ?p = "(10 :: int) ^ length ys"
  have s: "decimal 0 (x # xs) = x * ?p + decimal 0 xs" "decimal 0 (y # ys) = y * ?p + decimal 0 ys"
    using decimal_split [of x xs] decimal_split [of y ys] Cons.hyps by simp_all
  have b: "0 \<le> decimal 0 xs" "decimal 0 xs < ?p" "0 \<le> decimal 0 ys" "decimal 0 ys < ?p"
    using decimal_bounds [of xs] decimal_bounds [of ys] Cons by auto
  consider "x < y" | "x = y" | "y < x" by linarith
  then show ?case
  proof cases
    case 1
    then have "(x + 1) * ?p \<le> y * ?p" by (intro mult_right_mono) auto
    then show ?thesis using 1 b s by (simp add: algebra_simps)
  next
    case 2
    then show ?thesis using Cons s by simp
  next
    case 3
    then have "(y + 1) * ?p \<le> x * ?p" by (intro mult_right_mono) auto
    then show ?thesis using 3 b s by (simp add: algebra_simps)
  qed
qed simp

text \<open>
  Scores compare their criteria in order of importance: as long as every criterion is a digit (and there are at most
  18), one score is less than another exactly when its list of criteria is lexicographically less.
\<close>

theorem AggregateFraction_lexicographic:
  assumes "length xs = length ys" "length ys \<le> 18" "\<forall>d \<in> set (xs @ ys). 0 \<le> d \<and> d \<le> 9"
  shows "AggregateFraction xs < AggregateFraction ys \<longleftrightarrow> xs < ys"
  using assms by (simp add: AggregateFraction_decimal decimal_less_lex)

theorem AggregateFraction_lexicographic_witness:
  "AggregateFraction [1, 0, 9, 9] < AggregateFraction [1, 1, 0, 0] \<longleftrightarrow> [1, 0, 9, 9 :: int] < [1, 1, 0, 0]"
  by (rule AggregateFraction_lexicographic) simp_all

subsection \<open>What a score says\<close>

lemma constant_scores:
  "digit (AllocStatusScore a)" "digit (PhaseScore p)" "digit (ServiceStatusScore v)" "digit (HealthScore h)"
  "digit (WorkerReadyScore w)" "digit (WorkerReleaseScore w)" "digit (WorkerReclaimScore w)" "digit (WorkerAvailableScore w)"
  "digit (WorkerCompleteScore e w)" "digit (WorkerResourcePoolScore w)" "digit (WorkerModeScore e w)"
  "digit (DaemonSetHostScore w)" "digit (snd (WorkerServiceReadyScore e w))"
  by (simp_all add: AllocStatusScore_def PhaseScore_def ServiceStatusScore_def HealthScore_def WorkerReadyScore_def
      WorkerReleaseScore_def WorkerReclaimScore_def WorkerAvailableScore_def WorkerCompleteScore_def
      WorkerResourcePoolScore_def WorkerModeScore_def DaemonSetHostScore_def WorkerServiceReadyScore_def
      split: AllocStatus.split WorkerPhase.split ServiceStatus.split HealthStatus.split prod.split)

lemma service_ready_worker:
  "fst (IsWorkerServiceReady e w) = w \<or> fst (IsWorkerServiceReady e w) = sync_service_ready e w"
  by (simp add: IsWorkerServiceReady_def Let_def)

lemma service_ready_frame:
  "ServiceConditions (Status (fst (IsWorkerServiceReady e w))) = ServiceConditions (Status w)"
  "st_ServiceStatus (Status (fst (IsWorkerServiceReady e w))) = st_ServiceStatus (Status w)"
  "ProcessScore (Status (fst (IsWorkerServiceReady e w))) = ProcessScore (Status w)"
  using service_ready_worker [of e w] by (auto simp: sync_service_ready_def Let_def)

lemma base_fractions_digits:
  assumes "digit (ServiceScore w)" "digit (ProcessScore (Status w))"
  shows "(\<forall>d \<in> set (snd (base_fractions e w)). digit d) \<and> length (snd (base_fractions e w)) = 13 \<and>
    hd (snd (base_fractions e w)) = WorkerReleaseScore w"
proof -
  obtain w' t ok where r: "IsWorkerServiceReady e w = (w', t, ok)" by (metis prod_cases3)
  have "ServiceScore w' = ServiceScore w" "ProcessScore (Status w') = ProcessScore (Status w)"
    using service_ready_frame [of e w] r by (simp_all add: ServiceScore_def)
  then show ?thesis using assms constant_scores
    by (auto simp: base_fractions_def Let_def WorkerServiceReadyScore_def r WorkerProcessScore_def)
qed

text \<open>
  A worker that is to be released never beats one that is not: among workers of a rolling set whose service
  and process scores are digits, the one that is not to be released has the higher score.
\<close>

theorem ScoreOfWorker_release_last:
  assumes "\<not> IsDaemonSetWorker w" "\<not> IsDaemonSetWorker v" "IsWorkerToRelease w" "\<not> IsWorkerToRelease v"
    and "0 \<le> ServiceScore w" "ServiceScore w \<le> 9" "0 \<le> ProcessScore (Status w)" "ProcessScore (Status w) \<le> 9"
    and "0 \<le> ServiceScore v" "ServiceScore v \<le> 9" "0 \<le> ProcessScore (Status v)" "ProcessScore (Status v) \<le> 9"
  shows "snd (ScoreOfWorker e w) < snd (ScoreOfWorker e v)"
proof -
  let ?x = "snd (base_fractions e w)" and ?y = "snd (base_fractions e v)"
  note x = base_fractions_digits [of w e] and y = base_fractions_digits [of v e]
  have "hd ?x < hd ?y" using x y assms by (simp add: WorkerReleaseScore_def)
  moreover have "?x \<noteq> []" "?y \<noteq> []" using x y assms by auto
  ultimately have "?x < ?y" by (cases ?x; cases ?y) auto
  then have "AggregateFraction ?x < AggregateFraction ?y"
    using x y assms by (simp add: AggregateFraction_decimal decimal_less_lex)
  then show ?thesis using assms(1,2) by (simp add: ScoreOfWorker_def BaseScoreOfWorker_def split_beta Let_def)
qed

theorem ScoreOfWorker_release_last_witness:
  "snd (ScoreOfWorker sample_env (SetWorkerToRelease healthy_worker)) < snd (ScoreOfWorker sample_env empty_worker)"
  by (rule ScoreOfWorker_release_last)
    (simp_all add: IsDaemonSetWorker_def healthy_worker_def sample_defs worker_preds worker_setters ServiceScore_def
      ServiceStatusScore_def)

text \<open>
  The scores of services are not bounded to a digit, and a large one overrides the more important
  criteria: a worker that is to be released can beat a complete worker that is not.
\<close>

theorem ScoreOfWorker_service_carry:
  "\<exists>w v. IsWorkerToRelease w \<and> \<not> IsWorkerToRelease v \<and> IsWorkerComplete sample_env v \<and>
     snd (ScoreOfWorker sample_env v) < snd (ScoreOfWorker sample_env w)"
proof (intro exI)
  let ?c = "denied\<lparr>sc_Status := ConditionTrue, sc_Score := 10000\<rparr>"
  let ?w = "SetWorkerToRelease (set_status (\<lambda>s. s\<lparr>ServiceConditions := [?c]\<rparr>) healthy_worker)"
  have "snd (ScoreOfWorker sample_env healthy_worker) < snd (ScoreOfWorker sample_env ?w)" by code_simp
  then show "IsWorkerToRelease ?w \<and> \<not> IsWorkerToRelease healthy_worker \<and> IsWorkerComplete sample_env healthy_worker \<and>
     snd (ScoreOfWorker sample_env healthy_worker) < snd (ScoreOfWorker sample_env ?w)"
    using healthy_worker_complete by (simp add: worker_preds worker_setters healthy_worker_def sample_defs)
qed

end
