(* ===== verification/WorkerRoles.thy ===== *)
theory WorkerRoles
  imports WorkerScore
begin

text \<open>
  The two workers behind a replica: their names, the labels that say which one is current, how the controller finds the
  current one, swaps the two and releases one (\<^verbatim>\<open>helpers.go\<close>, \<^verbatim>\<open>labels_helper.go\<close>, \<^verbatim>\<open>controller/worker/util.go\<close>).

  The controller holds pointers to the two workers; the objects are the cells of a list, and a pointer
  is an index into it, so that a write through \<^verbatim>\<open>current\<close> or \<^verbatim>\<open>backup\<close> is seen through \<^verbatim>\<open>worker\<close> and \<^verbatim>\<open>pair\<close>.
\<close>

datatype worker_error = NilDereference | NilMapWrite | BadProhibit | NoWorkerUid | SliceOutOfRange | NoTargets

type_synonym workers = "WorkerNode option list"

subsection \<open>Names\<close>

abbreviation "WorkerNameSuffixA \<equiv> ''-a''"
abbreviation "WorkerNameSuffixB \<equiv> ''-b''"

definition getReplicaName :: "string \<Rightarrow> string" where
  "getReplicaName workerName = TrimSuffix (TrimSuffix workerName WorkerNameSuffixB) WorkerNameSuffixA"

definition generateName :: "string \<Rightarrow> string \<Rightarrow> string" where
  "generateName pre suf = pre @ suf"

definition getPairWorkerName :: "string \<Rightarrow> string" where
  "getPairWorkerName currWorkerName =
     (let replicaName = getReplicaName currWorkerName in
      if generateName replicaName WorkerNameSuffixA = currWorkerName then generateName replicaName WorkerNameSuffixB
      else generateName replicaName WorkerNameSuffixA)"

definition getReplicaKeyFromName :: "string \<Rightarrow> string \<times> bool" where
  "getReplicaKeyFromName name =
     (if HasSuffix name WorkerNameSuffixA then (TrimSuffix name WorkerNameSuffixA, True)
      else if HasSuffix name WorkerNameSuffixB then (TrimSuffix name WorkerNameSuffixB, True)
      else ('''', False))"

definition GetPairWorkerName :: "string \<Rightarrow> string" where
  "GetPairWorkerName currWorkerName =
     (let (replicaName, ok) = getReplicaKeyFromName currWorkerName in
      if \<not> ok then ''''
      else if replicaName @ WorkerNameSuffixA = currWorkerName then replicaName @ WorkerNameSuffixB
      else replicaName @ WorkerNameSuffixA)"

definition GetWorkerReplicaName :: "WorkerNode \<Rightarrow> string" where
  "GetWorkerReplicaName w = (if length (Name w) < 2 then Name w else take (length (Name w) - 2) (Name w))"

subsection \<open>Labels and annotations\<close>

abbreviation "DefaultRollingsetUniqueLabelKey \<equiv> ''rs-version-hash''"
abbreviation "DefaultReplicaUniqueLabelKey \<equiv> ''replica-version-hash''"
abbreviation "DefaultGangUniqueLabelKey \<equiv> ''gang-version-hash''"
abbreviation "DefaultWorkernodeUniqueLabelKey \<equiv> ''worker-version-hash''"
abbreviation "LabelKeyQuotaGroupID \<equiv> ''app.hippo.io/quotaGroupId''"
abbreviation "LabelKeyPodVersion \<equiv> ''app.hippo.io/pod-version''"
abbreviation "LazyPodVersion3 \<equiv> ''app.c2.io/lazy-v3.0''"
abbreviation "AnnoGangPlan \<equiv> ''app.c2.io/gang-plan''"
abbreviation "BizDetailKeyGangInfo \<equiv> ''app.c2.io/biz-detail-ganginfo''"
abbreviation "LabelGangMainPart \<equiv> ''app.c2.io/main-part''"
abbreviation "LabelGangPartName \<equiv> ''app.c2.io/gang-part-name''"
abbreviation "AnnoKeyEvictFailedMsg \<equiv> ''alibabacloud.com/evict-failed-msg''"

text \<open>The readers of an object's metadata, over its labels and annotations.\<close>

definition GetLabelValue :: "strmap \<Rightarrow> string \<Rightarrow> string" where
  "GetLabelValue lbls key = (if sget lbls key \<noteq> '''' then sget lbls key else '''')"

definition GetLabelAnnoValue :: "strmap \<Rightarrow> strmap \<Rightarrow> string \<Rightarrow> string" where
  "GetLabelAnnoValue lbls annos key =
     (if sget annos key \<noteq> '''' then sget annos key
      else if sget lbls key \<noteq> '''' then sget lbls key
      else '''')"

definition setLabel :: "worker_env \<Rightarrow> string \<Rightarrow> string \<Rightarrow> WorkerNode \<Rightarrow> WorkerNode" where
  "setLabel e key value w = (if value = '''' then w else w\<lparr>Labels := AddLabel e (Labels w) key value\<rparr>)"

definition setAnnotation :: "string \<Rightarrow> string \<Rightarrow> WorkerNode \<Rightarrow> WorkerNode" where
  "setAnnotation key value w = (if value = '''' then w else w\<lparr>Annotations := sput key value (Annotations w)\<rparr>)"

definition removeAnnotation :: "string \<Rightarrow> WorkerNode \<Rightarrow> WorkerNode" where
  "removeAnnotation key w =
     (if key = '''' then w
      else w\<lparr>Annotations := sdel key (case Annotations w of None \<Rightarrow> Some Mapping.empty | a \<Rightarrow> a)\<rparr>)"

definition GetQuotaID :: "WorkerNode \<Rightarrow> string" where "GetQuotaID w = sget (Labels w) LabelKeyQuotaGroupID"
definition SetQuotaID :: "worker_env \<Rightarrow> string \<Rightarrow> WorkerNode \<Rightarrow> WorkerNode" where "SetQuotaID e = setLabel e LabelKeyQuotaGroupID"
definition GetReplicaID :: "WorkerNode \<Rightarrow> string" where "GetReplicaID w = sget (Labels w) DefaultReplicaUniqueLabelKey"
definition GetGangID :: "WorkerNode \<Rightarrow> string" where "GetGangID w = sget (Labels w) DefaultGangUniqueLabelKey"
definition GetPodVersion :: "strmap \<Rightarrow> string" where "GetPodVersion lbls = sget lbls LabelKeyPodVersion"
definition SetPodVersion :: "worker_env \<Rightarrow> string \<Rightarrow> WorkerNode \<Rightarrow> WorkerNode" where "SetPodVersion e = setLabel e LabelKeyPodVersion"

definition GetGangPlan :: "WorkerNode \<Rightarrow> string" where
  "GetGangPlan w = GetLabelAnnoValue (Labels w) (Annotations w) AnnoGangPlan"

definition SetGangPlan :: "string \<Rightarrow> WorkerNode \<Rightarrow> WorkerNode" where
  "SetGangPlan = setAnnotation AnnoGangPlan"

definition GetGangInfo :: "WorkerNode \<Rightarrow> string" where
  "GetGangInfo w = GetLabelAnnoValue (Labels w) (Annotations w) BizDetailKeyGangInfo"

definition SetGangInfo :: "string \<Rightarrow> WorkerNode \<Rightarrow> WorkerNode" where
  "SetGangInfo = setAnnotation BizDetailKeyGangInfo"

definition IsGangMainPart :: "HippoPodTemplate option \<Rightarrow> bool" where
  "IsGangMainPart t = (case t of None \<Rightarrow> False
     | Some t \<Rightarrow> GetLabelAnnoValue (tmpl_Labels t) (tmpl_Annotations t) LabelGangMainPart = ''true'')"

definition GetGangPartName :: "WorkerNode \<Rightarrow> string" where
  "GetGangPartName w = GetLabelAnnoValue (Labels w) (Annotations w) LabelGangPartName"

definition SetEvictFailedMsg :: "string \<Rightarrow> WorkerNode \<Rightarrow> WorkerNode" where
  "SetEvictFailedMsg state = setAnnotation AnnoKeyEvictFailedMsg (''backup '' @ state)"

definition RemoveEvictFailedMsg :: "WorkerNode \<Rightarrow> WorkerNode" where
  "RemoveEvictFailedMsg = removeAnnotation AnnoKeyEvictFailedMsg"

definition IsLazyV3 :: "WorkerNode \<Rightarrow> bool" where
  "IsLazyV3 w \<longleftrightarrow> GetLabelValue (Labels w) LazyPodVersion3 = ''true''"

definition IsV25 :: "WorkerNode \<Rightarrow> bool" where
  "IsV25 w \<longleftrightarrow> GetPodVersion (Labels w) = ''v2.5''"

definition FixNewCreateLazyV3PodVersion :: "worker_env \<Rightarrow> WorkerNode \<Rightarrow> WorkerNode" where
  "FixNewCreateLazyV3PodVersion e w = (if IsLazyV3 w \<and> IsV25 w then SetPodVersion e ''v3.0'' w else w)"

text \<open>\<^verbatim>\<open>ResourceNameHash\<close>; the signature of a string does not fail.\<close>

definition ResourceNameHash :: "worker_env \<Rightarrow> string \<Rightarrow> string" where
  "ResourceNameHash e name = (if length name > 63 then SignatureWithMD5 e name else name)"

subsection \<open>Roles\<close>

definition IsCurrentWorker :: "WorkerNode \<Rightarrow> bool" where
  "IsCurrentWorker w \<longleftrightarrow> sget (Labels w) WorkerRoleKey = CurrentWorkerKey"

definition IsBackupWorker :: "WorkerNode \<Rightarrow> bool" where
  "IsBackupWorker w \<longleftrightarrow> sget (Labels w) WorkerRoleKey = BackupWorkerKey"

definition SetWorkerCurrent :: "worker_env \<Rightarrow> WorkerNode \<Rightarrow> WorkerNode" where
  "SetWorkerCurrent e w =
     SetBadReason BadReasonNone (w\<lparr>Labels := sput WorkerRoleKey CurrentWorkerKey (Labels w),
       Status := (Status w)\<lparr>BecomeCurrentTime := Some (Now e)\<rparr>\<rparr>)"

definition SetWorkerBackup :: "WorkerNode \<Rightarrow> WorkerNode" where
  "SetWorkerBackup w = w\<lparr>Labels := sput WorkerRoleKey BackupWorkerKey (Labels w)\<rparr>"

definition FixWorkerBecomeCurrentTime :: "worker_env \<Rightarrow> WorkerNode \<Rightarrow> WorkerNode" where
  "FixWorkerBecomeCurrentTime e w =
     (if BecomeCurrentTime (Status w) = None \<and> shas (Annotations w) AnnoBecomeCurrentTime
      then set_status (\<lambda>s. s\<lparr>BecomeCurrentTime := parse_RFC3339 e (sget (Annotations w) AnnoBecomeCurrentTime)\<rparr>) w
      else w)"

text \<open>\<^verbatim>\<open>FixWorkerRole\<close>. The condition on \<^verbatim>\<open>current\<close> reads \<^verbatim>\<open>a && b || c\<close>, so a nil \<^verbatim>\<open>current\<close> is dereferenced.\<close>

definition FixWorkerRole ::
  "worker_env \<Rightarrow> WorkerNode option \<Rightarrow> WorkerNode option \<Rightarrow> worker_error + WorkerNode option \<times> WorkerNode option" where
  "FixWorkerRole e current backup =
     (case current of
        None \<Rightarrow> Inl NilDereference
      | Some c \<Rightarrow> Inr
         (Some (if \<not> IsCurrentWorker c \<or> BecomeCurrentTime (Status c) = None then SetWorkerCurrent e c else c),
          map_option (\<lambda>b. if \<not> IsBackupWorker b then SetWorkerBackup b else b) backup))"

text \<open>The loop of \<^verbatim>\<open>GetCurrentWorkerNodeV2\<close> over the workers: the store, \<^verbatim>\<open>current\<close>, \<^verbatim>\<open>backup\<close>, \<^verbatim>\<open>toRelease\<close>.\<close>

definition fix_time_at :: "worker_env \<Rightarrow> nat \<Rightarrow> workers \<Rightarrow> workers" where
  "fix_time_at e i ws = ws[i := map_option (FixWorkerBecomeCurrentTime e) (ws ! i)]"

definition became_current :: "workers \<Rightarrow> nat \<Rightarrow> int" where
  "became_current ws i = (case ws ! i of None \<Rightarrow> 0 | Some w \<Rightarrow> UnixTime (BecomeCurrentTime (Status w)))"

definition role_step ::
  "worker_env \<Rightarrow> nat \<Rightarrow> workers \<times> nat option \<times> nat option \<times> bool \<Rightarrow> workers \<times> nat option \<times> nat option \<times> bool" where
  "role_step e i st =
     (case st of (ws, current, backup, toRelease) \<Rightarrow>
      (case ws ! i of
         None \<Rightarrow> st
       | Some w \<Rightarrow>
           if IsBackupWorker w then
             (case backup of
                None \<Rightarrow> (ws, current, Some i, toRelease)
              | Some _ \<Rightarrow> (ws, Some i, backup, toRelease))
           else
             let toRelease = (toRelease \<or> IsWorkerToDelete w) in
             (case current of
                None \<Rightarrow> (ws, Some i, backup, toRelease)
              | Some c \<Rightarrow>
                  let ws = fix_time_at e i (fix_time_at e c ws) in
                  if became_current ws c > became_current ws i then (ws, Some c, Some i, toRelease)
                  else (ws, Some i, Some c, toRelease))))"

text \<open>The result: the store, the index of the current worker, that of the backup, \<^verbatim>\<open>toRelease\<close>. With \<^verbatim>\<open>deepcopy\<close> the
  roles are fixed on copies, which are returned; otherwise in the store.\<close>

definition GetCurrentWorkerNodeV2 ::
  "worker_env \<Rightarrow> bool \<Rightarrow> workers \<Rightarrow>
     worker_error + workers \<times> nat \<times> nat option \<times> bool \<times> WorkerNode option \<times> WorkerNode option" where
  "GetCurrentWorkerNodeV2 e deepcopy ws =
     (let (ws, current, backup, toRelease) = fold (role_step e) [0..<length ws] (ws, None, None, False);
          (current, backup) = (if current = None \<and> backup \<noteq> None then (backup, None) else (current, backup));
          at = (\<lambda>i. case i of None \<Rightarrow> None | Some i \<Rightarrow> ws ! i)
      in case FixWorkerRole e (at current) (at backup) of
           Inl err \<Rightarrow> Inl err
         | Inr (newCurrent, newBackup) \<Rightarrow>
             (case current of
                None \<Rightarrow> Inl NilDereference
              | Some c \<Rightarrow>
                  let ws = (if deepcopy then ws
                            else case backup of
                              None \<Rightarrow> ws[c := newCurrent]
                            | Some b \<Rightarrow> ws[c := newCurrent, b := newBackup])
                  in Inr (ws, c, backup, toRelease, newCurrent, newBackup)))"

definition SwapAndReleaseBackup :: "worker_env \<Rightarrow> WorkerNode \<Rightarrow> WorkerNode \<Rightarrow> WorkerNode \<times> WorkerNode" where
  "SwapAndReleaseBackup e current backup = (SetWorkerBackup current, SetWorkerCurrent e backup)"

subsection \<open>Release and preference\<close>

abbreviation "preKeyProhibit \<equiv> ''PROHIBIT''"
abbreviation "preKeyPrefer \<equiv> ''PREFER''"
abbreviation "preScopeAPP \<equiv> ''APP''"

definition generatePreference :: "bool \<Rightarrow> int \<Rightarrow> string \<Rightarrow> string" where
  "generatePreference prohibit ttl scope =
     (if prohibit then scope @ ''-'' @ preKeyProhibit @ ''-'' @ FormatInt ttl
      else scope @ ''-'' @ preKeyPrefer @ ''-'' @ FormatInt ttl)"

definition parseProhibits :: "string \<Rightarrow> worker_error + string \<times> string \<times> string" where
  "parseProhibits prohibit =
     (case go_split (CHR ''-'') prohibit of [scope, op, ttl] \<Rightarrow> Inr (scope, op, ttl) | _ \<Rightarrow> Inl BadProhibit)"

definition SetWorkerProhibit :: "worker_env \<Rightarrow> bool \<Rightarrow> WorkerNode \<Rightarrow> WorkerNode" where
  "SetWorkerProhibit e prohibit w =
     (if shas (Labels w) LabelKeyHippoPreference then w
      else if IsWorkerBroken e w (Spec_Version (Spec w)) \<noteq> BadReasonNone \<or> Reclaim (Status w)
      then w\<lparr>Labels := CloneAndAddLabel e (Labels w) LabelKeyHippoPreference (generatePreference prohibit 600 preScopeAPP)\<rparr>
      else w)"

definition ReleaseWorker :: "worker_env \<Rightarrow> bool \<Rightarrow> WorkerNode \<Rightarrow> WorkerNode" where
  "ReleaseWorker e prohibit w =
     SetWorkerProhibit e prohibit (set_status (\<lambda>s. s\<lparr>ToRelease := True, ServiceOffline := True\<rparr>) w)"

definition getWorkerProhibit :: "WorkerNode \<Rightarrow> string \<times> bool" where
  "getWorkerProhibit w =
     (if IsDaemonSetWorker w then ('''', False)
      else case Labels w of
        None \<Rightarrow> ('''', False)
      | Some _ \<Rightarrow> (sget (Labels w) LabelKeyHippoPreference, shas (Labels w) LabelKeyHippoPreference))"

subsection \<open>Exactly one current worker\<close>

lemma role_labels [simp]:
  "IsCurrentWorker (SetWorkerCurrent e w)" "\<not> IsBackupWorker (SetWorkerCurrent e w)"
  "IsBackupWorker (SetWorkerBackup w)" "\<not> IsCurrentWorker (SetWorkerBackup w)"
  by (simp_all add: IsCurrentWorker_def IsBackupWorker_def SetWorkerCurrent_def SetWorkerBackup_def SetBadReason_def)

lemma backup_not_current: "IsBackupWorker w \<Longrightarrow> \<not> IsCurrentWorker w"
  by (simp add: IsCurrentWorker_def IsBackupWorker_def)

definition alive :: "workers \<Rightarrow> nat \<Rightarrow> bool" where
  "alive ws i \<longleftrightarrow> ws ! i \<noteq> None"

lemma fix_time_at_cells: "length (fix_time_at e i ws) = length ws" "alive (fix_time_at e i ws) = alive ws"
proof -
  show "length (fix_time_at e i ws) = length ws" by (simp add: fix_time_at_def)
  have "alive (fix_time_at e i ws) j = alive ws j" for j
    by (cases "i < length ws"; cases "j = i") (simp_all add: alive_def fix_time_at_def list_update_beyond)
  then show "alive (fix_time_at e i ws) = alive ws" by blast
qed

text \<open>What the loop keeps after \<open>k\<close> workers: the pointers lead to different workers that exist, and there is
  one as soon as a worker was seen, two as soon as two were.\<close>

definition role_inv :: "workers \<Rightarrow> nat \<Rightarrow> workers \<times> nat option \<times> nat option \<times> bool \<Rightarrow> bool" where
  "role_inv ws0 k st \<longleftrightarrow>
     (case st of (ws, current, backup, _) \<Rightarrow>
        length ws = length ws0 \<and> alive ws = alive ws0 \<and>
        (\<forall>c. current = Some c \<longrightarrow> c < k \<and> alive ws0 c \<and> backup \<noteq> Some c) \<and>
        (\<forall>b. backup = Some b \<longrightarrow> b < k \<and> alive ws0 b) \<and>
        (\<forall>i < k. alive ws0 i \<longrightarrow> current \<noteq> None \<or> backup \<noteq> None) \<and>
        (\<forall>i < k. \<forall>j < k. i \<noteq> j \<and> alive ws0 i \<and> alive ws0 j \<longrightarrow> current \<noteq> None \<and> backup \<noteq> None))"

lemma role_step_cases:
  "role_step e k (ws, cu, ba, tr) = (ws, cu, ba, tr) \<and> \<not> alive ws k \<or>
   alive ws k \<and> (\<exists>ws' cu' ba' tr'. role_step e k (ws, cu, ba, tr) = (ws', cu', ba', tr') \<and>
     length ws' = length ws \<and> alive ws' = alive ws \<and>
     ((ba = None \<and> cu' = cu \<and> ba' = Some k) \<or> (ba \<noteq> None \<and> cu' = Some k \<and> ba' = ba) \<or>
      (cu = None \<and> cu' = Some k \<and> ba' = ba) \<or>
      (\<exists>c. cu = Some c \<and> (cu' = Some c \<and> ba' = Some k \<or> cu' = Some k \<and> ba' = Some c))))"
proof (cases "ws ! k")
  case None
  then show ?thesis by (simp add: role_step_def alive_def)
next
  case (Some w)
  then have "alive ws k" by (simp add: alive_def)
  show ?thesis
  proof (cases "IsBackupWorker w")
    case True
    then show ?thesis using Some \<open>alive ws k\<close> by (cases ba) (simp_all add: role_step_def)
  next
    case False
    then show ?thesis using Some \<open>alive ws k\<close>
      by (cases cu) (simp_all add: role_step_def Let_def fix_time_at_cells)
  qed
qed

lemma role_step_inv:
  assumes "role_inv ws0 k st" "k < length ws0"
  shows "role_inv ws0 (Suc k) (role_step e k st)"
proof -
  obtain ws cu ba tr where st: "st = (ws, cu, ba, tr)" by (metis prod_cases4)
  note inv = assms(1) [unfolded st role_inv_def prod.case]
  consider "role_step e k st = st" "\<not> alive ws k"
    | ws' cu' ba' tr' where "role_step e k st = (ws', cu', ba', tr')" "alive ws k" "length ws' = length ws" "alive ws' = alive ws"
      "(ba = None \<and> cu' = cu \<and> ba' = Some k) \<or> (ba \<noteq> None \<and> cu' = Some k \<and> ba' = ba) \<or>
      (cu = None \<and> cu' = Some k \<and> ba' = ba) \<or>
      (\<exists>c. cu = Some c \<and> (cu' = Some c \<and> ba' = Some k \<or> cu' = Some k \<and> ba' = Some c))"
    using role_step_cases [of e k ws cu ba tr] unfolding st by blast
  then show ?thesis
  proof cases
    case 1
    then show ?thesis using inv unfolding st role_inv_def by (auto simp: less_Suc_eq)
  next
    case 2
    have k: "alive ws0 k" using 2(2) inv by simp
    have old: "\<And>c. cu = Some c \<Longrightarrow> c < k \<and> alive ws0 c \<and> ba \<noteq> Some c"
      by (rule inv [THEN conjunct2, THEN conjunct2, THEN conjunct1, rule_format])
    have old': "\<And>b. ba = Some b \<Longrightarrow> b < k \<and> alive ws0 b"
      by (rule inv [THEN conjunct2, THEN conjunct2, THEN conjunct2, THEN conjunct1, rule_format])
    have seen: "\<And>i. i < k \<Longrightarrow> alive ws0 i \<Longrightarrow> cu \<noteq> None \<or> ba \<noteq> None"
      by (rule inv [THEN conjunct2, THEN conjunct2, THEN conjunct2, THEN conjunct2, THEN conjunct1, rule_format])
    have ptr: "\<forall>c. cu' = Some c \<longrightarrow> c < Suc k \<and> alive ws0 c \<and> ba' \<noteq> Some c" "\<forall>b. ba' = Some b \<longrightarrow> b < Suc k \<and> alive ws0 b"
      using 2(5) k old old' by (elim disjE exE conjE; auto simp: less_Suc_eq)+
    have one: "cu' \<noteq> None \<or> ba' \<noteq> None" using 2(5) by auto
    have "cu' \<noteq> None \<and> ba' \<noteq> None" if "i < k" "alive ws0 i" for i using 2(5) seen [OF that] by auto
    then have two: "\<forall>i < Suc k. \<forall>j < Suc k. i \<noteq> j \<and> alive ws0 i \<and> alive ws0 j \<longrightarrow> cu' \<noteq> None \<and> ba' \<noteq> None"
      by (metis less_Suc_eq)
    show ?thesis
      unfolding role_inv_def 2(1) prod.case
      by (intro conjI) (use inv 2(3,4) in simp, use inv 2(3,4) in simp, rule ptr(1), rule ptr(2), use one in blast, rule two)
  qed
qed

lemma role_loop_inv:
  "k \<le> length ws \<Longrightarrow> role_inv ws k (fold (role_step e) [0..<k] (ws, None, None, False))"
proof (induction k)
  case 0
  then show ?case by (simp add: role_inv_def)
next
  case (Suc k)
  then show ?case using role_step_inv [of ws k] by simp
qed

lemma current_worker_found:
  assumes "i < length ws" "ws ! i \<noteq> None"
  shows "\<exists>ws' c backup toRelease cw bo.
    GetCurrentWorkerNodeV2 e False ws = Inr (ws', c, backup, toRelease, Some cw, bo) \<and> length ws' = length ws \<and>
    c < length ws \<and> ws' ! c = Some cw \<and> IsCurrentWorker cw \<and>
    (\<forall>b. backup = Some b \<longrightarrow> b < length ws \<and> b \<noteq> c \<and> (\<exists>bw. ws' ! b = Some bw \<and> IsBackupWorker bw)) \<and>
    (\<forall>j < length ws. j \<noteq> i \<longrightarrow> ws ! j \<noteq> None \<longrightarrow> backup \<noteq> None)"
proof -
  obtain ws1 cu ba tr where st: "fold (role_step e) [0..<length ws] (ws, None, None, False) = (ws1, cu, ba, tr)"
    by (metis prod_cases4)
  have inv: "role_inv ws (length ws) (ws1, cu, ba, tr)" using role_loop_inv [of "length ws" ws e] st by simp
  define c where "c = (case cu of Some c \<Rightarrow> c | None \<Rightarrow> the ba)"
  define b where "b = (if cu = None then None else ba)"
  have h: "alive ws i" using assms(2) by (simp add: alive_def)
  have n: "cu \<noteq> None \<or> ba \<noteq> None" using inv assms(1) h unfolding role_inv_def by auto
  then have sel: "(if cu = None \<and> ba \<noteq> None then (ba, None) else (cu, ba)) = (Some c, b)"
    by (auto simp: c_def b_def split: option.split)
  have len: "length ws1 = length ws" and al: "alive ws1 = alive ws" using inv unfolding role_inv_def by auto
  have c: "c < length ws" "alive ws c" using inv n unfolding role_inv_def c_def by (auto split: option.split)
  have b: "b' < length ws" "alive ws b'" "b' \<noteq> c" if "b = Some b'" for b'
    using inv that unfolding role_inv_def c_def b_def by (auto split: option.split if_splits)
  have two: "\<forall>j < length ws. j \<noteq> i \<longrightarrow> ws ! j \<noteq> None \<longrightarrow> b \<noteq> None"
    using inv assms(1) h unfolding role_inv_def b_def alive_def [symmetric] prod.case by metis
  obtain cw where cw: "ws1 ! c = Some cw" using c(2) al alive_def [of ws1 c] by auto
  define cw' where "cw' = (if \<not> IsCurrentWorker cw \<or> BecomeCurrentTime (Status cw) = None then SetWorkerCurrent e cw else cw)"
  have cur: "IsCurrentWorker cw'" by (simp add: cw'_def)
  show ?thesis
  proof (cases b)
    case None
    have "GetCurrentWorkerNodeV2 e False ws = Inr (ws1[c := Some cw'], c, None, tr, Some cw', None)"
      unfolding GetCurrentWorkerNodeV2_def st Let_def prod.case sel None by (simp add: FixWorkerRole_def cw cw'_def)
    then show ?thesis using c len cur two None by auto
  next
    case (Some b')
    obtain bw where bw: "ws1 ! b' = Some bw" using b(2) [OF Some] al alive_def [of ws1 b'] by auto
    define bw' where "bw' = (if \<not> IsBackupWorker bw then SetWorkerBackup bw else bw)"
    have "GetCurrentWorkerNodeV2 e False ws = Inr (ws1[c := Some cw', b' := Some bw'], c, Some b', tr, Some cw', Some bw')"
      unfolding GetCurrentWorkerNodeV2_def st Let_def prod.case sel Some by (simp add: FixWorkerRole_def cw cw'_def bw bw'_def)
    then show ?thesis using c len cur two Some b [OF Some] by (auto simp: bw'_def)
  qed
qed

text \<open>
  C35. One current worker: whenever at least one worker exists, the controller finds a current worker, labels it
  current and, when there is a second one, labels that one backup; the two are different workers, and a second one is
  found whenever two exist.
\<close>

theorem GetCurrentWorkerNodeV2_roles:
  assumes "i < length ws" "ws ! i \<noteq> None"
  shows "\<exists>ws' c backup toRelease cw bo.
    GetCurrentWorkerNodeV2 e False ws = Inr (ws', c, backup, toRelease, Some cw, bo) \<and> length ws' = length ws \<and>
    c < length ws \<and> ws' ! c = Some cw \<and> IsCurrentWorker cw \<and>
    (\<forall>b. backup = Some b \<longrightarrow> b < length ws \<and> b \<noteq> c \<and> (\<exists>bw. ws' ! b = Some bw \<and> IsBackupWorker bw)) \<and>
    (\<forall>j < length ws. j \<noteq> i \<longrightarrow> ws ! j \<noteq> None \<longrightarrow> backup \<noteq> None)"
  by (rule current_worker_found [OF assms])

theorem GetCurrentWorkerNodeV2_roles_witness:
  "\<exists>ws' c backup toRelease cw bo.
    GetCurrentWorkerNodeV2 sample_env False [Some empty_worker, Some healthy_worker] = Inr (ws', c, backup, toRelease, Some cw, bo) \<and>
    IsCurrentWorker cw \<and> backup \<noteq> None"
proof -
  let ?ws = "[Some empty_worker, Some healthy_worker]"
  have "\<exists>ws' c backup toRelease cw bo.
    GetCurrentWorkerNodeV2 sample_env False ?ws = Inr (ws', c, backup, toRelease, Some cw, bo) \<and> length ws' = length ?ws \<and>
    c < length ?ws \<and> ws' ! c = Some cw \<and> IsCurrentWorker cw \<and>
    (\<forall>b. backup = Some b \<longrightarrow> b < length ?ws \<and> b \<noteq> c \<and> (\<exists>bw. ws' ! b = Some bw \<and> IsBackupWorker bw)) \<and>
    (\<forall>j < length ?ws. j \<noteq> 0 \<longrightarrow> ?ws ! j \<noteq> None \<longrightarrow> backup \<noteq> None)"
    by (rule GetCurrentWorkerNodeV2_roles) simp_all
  then obtain ws' c backup toRelease cw bo where
    r: "GetCurrentWorkerNodeV2 sample_env False ?ws = Inr (ws', c, backup, toRelease, Some cw, bo)" "IsCurrentWorker cw"
      "\<forall>j < length ?ws. j \<noteq> 0 \<longrightarrow> ?ws ! j \<noteq> None \<longrightarrow> backup \<noteq> None" by (elim exE conjE) (rule that)
  from r(3) [rule_format, of 1] have "backup \<noteq> None" by simp
  with r(1,2) show ?thesis by (intro exI conjI)
qed

lemma GetCurrentWorkerNodeV2_found:
  assumes "fold (role_step e) [0..<length ws] (ws, None, None, False) = (ws1, Some c, Some b, tr)"
    "ws1 ! c = Some cw" "ws1 ! b = Some bw"
  shows "\<exists>ws' tr nc nb. GetCurrentWorkerNodeV2 e False ws = Inr (ws', c, Some b, tr, nc, nb)"
  unfolding GetCurrentWorkerNodeV2_def assms(1) Let_def prod.case by (simp add: FixWorkerRole_def assms(2,3))

text \<open>
  Two workers that both claim to be current: the one that became current last stays current, the other one becomes
  the backup, whatever their order.
\<close>

theorem GetCurrentWorkerNodeV2_latest_wins:
  assumes "\<not> IsBackupWorker w" "\<not> IsBackupWorker v"
    and "BecomeCurrentTime (Status w) = Some t" "BecomeCurrentTime (Status v) = Some u" "t < u"
  shows "(\<exists>ws' tr cw bo. GetCurrentWorkerNodeV2 e False [Some w, Some v] = Inr (ws', 1, Some 0, tr, cw, bo)) \<and>
    (\<exists>ws' tr cw bo. GetCurrentWorkerNodeV2 e False [Some v, Some w] = Inr (ws', 0, Some 1, tr, cw, bo))"
proof -
  have f: "FixWorkerBecomeCurrentTime e w = w" "FixWorkerBecomeCurrentTime e v = v"
    using assms(3,4) by (simp_all add: FixWorkerBecomeCurrentTime_def)
  have "role_step e (Suc 0) (role_step e 0 ([Some w, Some v], None, None, False)) =
      ([Some w, Some v], Some 1, Some 0, (IsWorkerToDelete w \<or> IsWorkerToDelete v))"
    "role_step e (Suc 0) (role_step e 0 ([Some v, Some w], None, None, False)) =
      ([Some v, Some w], Some 0, Some 1, (IsWorkerToDelete v \<or> IsWorkerToDelete w))"
    using assms f by (simp_all add: role_step_def fix_time_at_def became_current_def UnixTime_def Let_def)
  then show ?thesis
    using GetCurrentWorkerNodeV2_found [of e "[Some w, Some v]" "[Some w, Some v]" 1 0 _ v w]
      GetCurrentWorkerNodeV2_found [of e "[Some v, Some w]" "[Some v, Some w]" 0 1 _ v w] by simp
qed

theorem GetCurrentWorkerNodeV2_latest_wins_witness:
  "\<exists>ws' tr cw bo. GetCurrentWorkerNodeV2 sample_env False
     [Some (set_status (\<lambda>s. s\<lparr>BecomeCurrentTime := Some 5\<rparr>) empty_worker), Some (set_status (\<lambda>s. s\<lparr>BecomeCurrentTime := Some 7\<rparr>) empty_worker)]
     = Inr (ws', 1, Some 0, tr, cw, bo)"
  using GetCurrentWorkerNodeV2_latest_wins [of "set_status (\<lambda>s. s\<lparr>BecomeCurrentTime := Some 5\<rparr>) empty_worker"
      "set_status (\<lambda>s. s\<lparr>BecomeCurrentTime := Some 7\<rparr>) empty_worker" 5 7 sample_env]
  by (simp add: empty_worker_def empty_status_def IsBackupWorker_def)

text \<open>
  No workers, no answer: when all pointers are nil, the search for the current worker does not return a nil
  worker but dereferences one, because the guard of \<^verbatim>\<open>FixWorkerRole\<close> protects only half of its condition.
\<close>

theorem GetCurrentWorkerNodeV2_nil_panics:
  "GetCurrentWorkerNodeV2 e deepcopy (replicate n None) = Inl NilDereference"
proof -
  have "fold (role_step e) [0..<k] (replicate n None, None, None, False) = (replicate n None, None, None, False)"
    if "k \<le> n" for k
    using that by (induction k) (simp_all add: role_step_def)
  from this [of n] show ?thesis by (simp add: GetCurrentWorkerNodeV2_def FixWorkerRole_def)
qed

subsection \<open>Names and preferences\<close>

lemma no_suffix_b: "\<not> HasSuffix (r @ ''-a'') ''-b''" "\<not> HasSuffix (r @ ''-b'') ''-a''"
  by (rule HasSuffix_other; simp)+

text \<open>
  The names of the two workers of a replica pair up: from either name the other one is computed, by the controller
  and by the API helpers alike, provided the name of the replica does not itself end in \<^verbatim>\<open>-a\<close>.
\<close>

theorem getPairWorkerName_involution:
  assumes "\<not> HasSuffix r ''-a''"
  shows "getPairWorkerName (r @ ''-a'') = r @ ''-b'' \<and> getPairWorkerName (r @ ''-b'') = r @ ''-a'' \<and>
    GetPairWorkerName (r @ ''-a'') = r @ ''-b'' \<and> GetPairWorkerName (r @ ''-b'') = r @ ''-a''"
proof -
  have "getReplicaName (r @ ''-a'') = r" "getReplicaName (r @ ''-b'') = r"
    using assms by (simp_all add: getReplicaName_def TrimSuffix_no no_suffix_b)
  then show ?thesis
    by (simp add: getPairWorkerName_def GetPairWorkerName_def getReplicaKeyFromName_def generateName_def no_suffix_b)
qed

theorem getPairWorkerName_involution_witness:
  "getPairWorkerName (''rs-1'' @ ''-a'') = ''rs-1'' @ ''-b'' \<and> GetPairWorkerName (''rs-1'' @ ''-b'') = ''rs-1'' @ ''-a''"
  using getPairWorkerName_involution [of "''rs-1''"] by (simp add: HasSuffix_def)

text \<open>
  For a replica whose name ends in \<^verbatim>\<open>-a\<close> the controller cuts two suffixes off the name of its second worker and
  names a worker of another replica as its pair, where the API helper names the right one.
\<close>

theorem getPairWorkerName_wrong_replica:
  "getPairWorkerName ''x-a-b'' = ''x-a'' \<and> GetPairWorkerName ''x-a-b'' = ''x-a-a''"
  by code_simp

lemma digits_of_no_dash: "CHR ''-'' \<notin> set (digits_of n)"
proof (induction n rule: digits_of.induct)
  case (1 n)
  show ?case using 1 digit_char_not_sign(1) [of n] digit_char_not_sign(1) [of "n mod 10"]
    by (cases "n < 10") (auto simp: digits_of.simps [of n])
qed

text \<open>
  C38. The preference that the controller writes on a released worker is read back part by part by the allocator:
  scope, operation and time to live.
\<close>

theorem parseProhibits_generatePreference:
  assumes "CHR ''-'' \<notin> set scope" "0 \<le> ttl"
  shows "parseProhibits (generatePreference prohibit ttl scope) =
    Inr (scope, if prohibit then preKeyProhibit else preKeyPrefer, FormatInt ttl)"
  using assms digits_of_no_dash [of "nat ttl"]
  by (simp add: parseProhibits_def generatePreference_def go_split_plain go_split_last FormatInt_def)

theorem parseProhibits_generatePreference_witness:
  "parseProhibits (generatePreference True 600 preScopeAPP) = Inr (preScopeAPP, preKeyProhibit, FormatInt 600)"
  using parseProhibits_generatePreference [of preScopeAPP 600 True] by simp

end
