(* ===== verification/Pods.thy ===== *)
theory Pods
  imports WorkerRoles
begin

text \<open>
  Pods as the worker controller reads them, and the helpers of \<^verbatim>\<open>helpers.go\<close>, \<^verbatim>\<open>labels_helper.go\<close> and
  \<^verbatim>\<open>controller/worker/util.go\<close> on them. A pod has the fields that the controller reads; the rest of its specification
  is one text (\<open>pod_SpecRest\<close>), which is compared but not looked into.
\<close>

subsection \<open>Data\<close>

datatype PodPhase = PodPending | PodRunning | PodSucceeded | PodFailed | PodUnknown | PodPhaseOther

text \<open>A container status: \<open>cs_Terminated\<close> has the exit code and the time of the end; \<open>cs_Waiting\<close> and \<open>cs_LastTerminated\<close> say
  whether the pointers are set.\<close>

record ContainerStatus =
  cs_Name :: string
  cs_Ready :: bool
  cs_RestartCount :: int32
  cs_Terminated :: "(int \<times> int) option"
  cs_Waiting :: bool
  cs_LastTerminated :: bool

record PodCondition =
  pc_Type :: string
  pc_Status :: ConditionStatus
  pc_Message :: string

record Pod =
  pod_Name :: string
  pod_UID :: string
  pod_Labels :: strmap
  pod_Annotations :: strmap
  pod_Finalizers :: "string list"
  pod_CreationTimestamp :: gotime
  pod_DeletionTimestamp :: "int option"
  pod_NodeName :: string
  pod_SchedulerName :: string
  pod_RestartPolicy :: string
  pod_Containers :: "(string \<times> string) list"
  pod_SpecRest :: string
  pod_Phase :: PodPhase
  pod_Reason :: string
  pod_HostIP :: string
  pod_PodIP :: string
  pod_Conditions :: "PodCondition list"
  pod_ContainerStatuses :: "ContainerStatus list"

subsection \<open>Reading a pod\<close>

abbreviation "PodVersion3 \<equiv> ''v3.0''"
abbreviation "PodVersion25 \<equiv> ''v2.5''"
abbreviation "SchedulerNameAck \<equiv> ''ack''"
abbreviation "SchedulerNameDefault \<equiv> ''default-scheduler''"
abbreviation "SchedulerNameC2 \<equiv> ''c2-allocator''"
abbreviation "SchedulerNameMock \<equiv> ''mock''"

definition PodIsEvicted :: "Pod \<Rightarrow> bool" where
  "PodIsEvicted p \<longleftrightarrow> pod_Phase p = PodFailed \<and> pod_Reason p = ''Evicted''"

definition IsPodReclaimed :: "Pod option \<Rightarrow> bool" where
  "IsPodReclaimed pod = (case pod of None \<Rightarrow> False
     | Some p \<Rightarrow> sget (pod_Labels p) ''alibabacloud.com/eviction'' = ''true'' \<or> sget (pod_Labels p) ''pod.sigma.ali/eviction'' = ''true'')"

definition IsPodHasTerminatedContainer :: "Pod \<Rightarrow> bool \<times> bool" where
  "IsPodHasTerminatedContainer p =
     (case find (\<lambda>c. cs_Terminated c \<noteq> None) (pod_ContainerStatuses p) of
        None \<Rightarrow> (False, False)
      | Some c \<Rightarrow> (True, (case cs_Terminated c of None \<Rightarrow> False | Some (code, _) \<Rightarrow> code \<noteq> 0)))"

definition IsPodHasWaitingContainer :: "Pod \<Rightarrow> bool" where
  "IsPodHasWaitingContainer p \<longleftrightarrow> list_ex cs_Waiting (pod_ContainerStatuses p)"

definition IsBizPod :: "Pod \<Rightarrow> bool" where
  "IsBizPod p \<longleftrightarrow> sget (pod_Labels p) ''alibabacloud.com/biz-pod'' = ''true''"

text \<open>\<^verbatim>\<open>IsAsiPod\<close>; the default version is a variable of the package.\<close>

definition IsAsiPod :: "string \<Rightarrow> Pod \<Rightarrow> bool" where
  "IsAsiPod defaultPodVersion p \<longleftrightarrow>
     (if sget (pod_Labels p) LabelKeyPodVersion \<noteq> '''' then sget (pod_Labels p) LabelKeyPodVersion else defaultPodVersion) = PodVersion3"

definition TransPodPhase :: "string \<Rightarrow> Pod option \<Rightarrow> bool \<Rightarrow> WorkerPhase" where
  "TransPodPhase defaultPodVersion pod processMatch =
     (case pod of
        None \<Rightarrow> Unknown
      | Some p \<Rightarrow>
          (case pod_Phase p of
             PodPending \<Rightarrow> Pending
           | PodRunning \<Rightarrow>
               let (terminated, failed) = IsPodHasTerminatedContainer p in
               if terminated then
                 if \<not> processMatch then Pending
                 else if \<not> IsBizPod p \<and> IsAsiPod defaultPodVersion p \<and> failed then Running
                 else if failed then Failed
                 else Terminated
               else if IsPodHasWaitingContainer p then Pending
               else Running
           | PodSucceeded \<Rightarrow> if \<not> processMatch then Pending else Terminated
           | PodFailed \<Rightarrow> Failed
           | PodUnknown \<Rightarrow> Unknown
           | PodPhaseOther \<Rightarrow> Unknown))"

definition IsDaemonPod :: "Pod \<Rightarrow> bool" where
  "IsDaemonPod p \<longleftrightarrow> pod_RestartPolicy p = ''Always''"

text \<open>\<^verbatim>\<open>podutil.IsPodReady\<close> of Kubernetes is the parameter \<open>ready\<close>.\<close>

definition isWorkerReady :: "(Pod \<Rightarrow> bool) \<Rightarrow> WorkerNode \<Rightarrow> Pod \<Rightarrow> bool" where
  "isWorkerReady ready w p \<longleftrightarrow> (\<not> IsDaemonPod p \<and> Phase (Status w) = Terminated) \<or> (ready p \<and> IsWorkerRunning w)"

definition isPodReady :: "(Pod \<Rightarrow> bool) \<Rightarrow> WorkerNode \<Rightarrow> Pod \<Rightarrow> bool" where
  "isPodReady ready w p \<longleftrightarrow> st_AllocStatus (Status w) \<noteq> WorkerLost \<and>
     ((\<not> IsDaemonPod p \<and> Phase (Status w) = Terminated) \<or> ready p)"

text \<open>The seconds since the creation; a \<^verbatim>\<open>time.Duration\<close> ends at 9223372036 seconds.\<close>

definition getNotScheduleTime :: "worker_env \<Rightarrow> Pod option \<Rightarrow> int" where
  "getNotScheduleTime e pod =
     (case pod of
        None \<Rightarrow> 0
      | Some p \<Rightarrow>
          if pod_NodeName p \<noteq> '''' then 0
          else if list_ex (\<lambda>c. pc_Type c = ''PodScheduled'') (pod_Conditions p) then 0
          else min 9223372036 (Now e - UnixTime (pod_CreationTimestamp p)))"

definition GetUnassignedResson :: "Pod option \<Rightarrow> UnassignedReasonType" where
  "GetUnassignedResson pod =
     (let condition = (case pod of None \<Rightarrow> None | Some p \<Rightarrow> find (\<lambda>c. pc_Type c = ''PodScheduled'') (pod_Conditions p)) in
      case condition of
        None \<Rightarrow> UnassignedReasonNotSchedule
      | Some c \<Rightarrow>
          if pc_Message c = '''' then UnassignedReasonNotSchedule
          else if Contains (pc_Message c) ''quota not enough'' then UnassignedReasonQuotaNotEnough
          else if Contains (pc_Message c) ''quota not exist'' then UnassignedReasonQuotaNotExist
          else UnassignedReasonResourceNotEnough)"

text \<open>The name of the worker's pod: its recorded name, or one made of the worker's name and the first characters of its uid.\<close>

definition GetPodName :: "WorkerNode \<Rightarrow> worker_error + string" where
  "GetPodName w =
     (if EntityName (Status w) \<noteq> '''' then Inr (EntityName (Status w))
      else if UID w = '''' then Inl NoWorkerUid
      else if length (UID w) < 4 then Inl SliceOutOfRange
      else Inr (Name w @ ''-'' @ take 4 (UID w)))"

subsection \<open>Labels and annotations\<close>

fun getMultyLabels :: "strmap \<Rightarrow> string list \<Rightarrow> string" where
  "getMultyLabels lbls [] = ''''"
| "getMultyLabels lbls (k # ks) = (if sget lbls k \<noteq> '''' then sget lbls k else getMultyLabels lbls ks)"

definition GetInstanceGroup :: "strmap \<Rightarrow> string" where
  "GetInstanceGroup lbls = getMultyLabels lbls [''sigma.ali/instance-group'', ''sigma.ali/fed-instance-group'']"

definition GetAppUnit :: "strmap \<Rightarrow> string" where
  "GetAppUnit lbls = getMultyLabels lbls [''sigma.alibaba-inc.com/app-unit'', ''sigma.alibaba-inc.com/fed-app-unit'']"

definition GetAppStage :: "strmap \<Rightarrow> string" where
  "GetAppStage lbls = getMultyLabels lbls [''sigma.alibaba-inc.com/app-stage'', ''sigma.alibaba-inc.com/fed-app-stage'']"

definition GetAppName :: "Pod \<Rightarrow> string" where
  "GetAppName p = GetLabelAnnoValue (pod_Labels p) (pod_Annotations p) ''app.hippo.io/app-name''"

definition GetRoleName :: "Pod \<Rightarrow> string" where
  "GetRoleName p = GetLabelAnnoValue (pod_Labels p) (pod_Annotations p) ''app.hippo.io/role-name''"

definition GetReplaceNodeVersion :: "Pod \<Rightarrow> string" where
  "GetReplaceNodeVersion p = GetLabelAnnoValue (pod_Labels p) (pod_Annotations p) ''app.c2.io/replace-node-version''"

definition IsQuickOnline :: "WorkerNode \<Rightarrow> bool" where
  "IsQuickOnline w \<longleftrightarrow> GetLabelAnnoValue (Labels w) (Annotations w) ''app.c2.io/spread'' \<noteq> ''''"

definition IsC2Scheduler :: "WorkerNode \<Rightarrow> bool" where
  "IsC2Scheduler w \<longleftrightarrow> sget (Labels w) ''app.c2.io/scheduler-name'' = SchedulerNameC2"

definition GetDefaultSchedulerName :: "string \<Rightarrow> string" where
  "GetDefaultSchedulerName defaultSchedulerName =
     (if defaultSchedulerName = '''' then SchedulerNameDefault else defaultSchedulerName)"

definition InitAnnotationsLabels :: "Pod \<Rightarrow> Pod" where
  "InitAnnotationsLabels p =
     p\<lparr>pod_Labels := (case pod_Labels p of None \<Rightarrow> Some Mapping.empty | l \<Rightarrow> l),
       pod_Annotations := (case pod_Annotations p of None \<Rightarrow> Some Mapping.empty | a \<Rightarrow> a)\<rparr>"

definition SetLabelsDefaultValue :: "string \<Rightarrow> string \<Rightarrow> Pod \<Rightarrow> Pod" where
  "SetLabelsDefaultValue key value p =
     (if value \<noteq> '''' \<and> sget (pod_Labels p) key = '''' then p\<lparr>pod_Labels := sput key value (pod_Labels p)\<rparr> else p)"

definition SetIfExist :: "strmap \<Rightarrow> strmap \<Rightarrow> string \<Rightarrow> strmap" where
  "SetIfExist from to key =
     (case from of
        None \<Rightarrow> to
      | Some f \<Rightarrow> (case to of None \<Rightarrow> None | Some t \<Rightarrow> Some (case Mapping.lookup f key of None \<Rightarrow> t | Some v \<Rightarrow> Mapping.update key v t)))"

definition MapCopy :: "strmap \<Rightarrow> strmap \<Rightarrow> strmap" where
  "MapCopy src dst = (case src of None \<Rightarrow> dst | Some f \<Rightarrow> map_option (smerge f) dst)"

definition MergeMap :: "strmap \<Rightarrow> strmap \<Rightarrow> strmap" where
  "MergeMap from to = map_option (smerge (case from of None \<Rightarrow> Mapping.empty | Some f \<Rightarrow> f)) to"

text \<open>\<^verbatim>\<open>SyncCrdTime\<close> on the annotations of the two objects.\<close>

definition SyncCrdTime :: "strmap \<Rightarrow> strmap \<Rightarrow> strmap" where
  "SyncCrdTime old new =
     (case old of
        None \<Rightarrow> new
      | Some f \<Rightarrow> map_option (\<lambda>n.
          let n = (case Mapping.lookup f ''updateCrdTime'' of
                None \<Rightarrow> Mapping.delete ''updateCrdTime'' n
              | Some value \<Rightarrow> Mapping.update ''updateCrdTime'' value n)
          in smerge (Mapping.filter (\<lambda>k v. HasPrefix k ''updateVersionTime'') f) n) new)"

definition ClearObjectMeta :: "Pod \<Rightarrow> Pod" where
  "ClearObjectMeta p = p\<lparr>pod_UID := '''', pod_CreationTimestamp := None, pod_DeletionTimestamp := None\<rparr>"

text \<open>\<^verbatim>\<open>calcPatch\<close>: what to insert, and which keys to remove (in any order).\<close>

definition calcPatch :: "strmap \<Rightarrow> strmap \<Rightarrow> string \<Rightarrow> (string, string) mapping \<times> string set" where
  "calcPatch src target prefix =
     (case src of None \<Rightarrow> Mapping.empty
        | Some f \<Rightarrow> Mapping.filter (\<lambda>key val. HasPrefix key prefix \<and> val \<noteq> sget target key) f,
      case target of None \<Rightarrow> {}
        | Some t \<Rightarrow> Mapping.keys (Mapping.filter (\<lambda>key _. HasPrefix key prefix \<and> \<not> shas src key) t))"

subsection \<open>Restarts\<close>

definition GetContainersConfigs :: "string \<Rightarrow> WorkerNode \<Rightarrow> nat option" where
  "GetContainersConfigs name w =
     (case Template (Plan w) of
        None \<Rightarrow> None
      | Some t \<Rightarrow> (case find (\<lambda>(n, _). n = name) (tmpl_Containers t) of None \<Rightarrow> None | Some (_, c) \<Rightarrow> c))"

definition DefaultRestartCountLimit :: nat where "DefaultRestartCountLimit = 10"
definition ExponentialBackoff :: int where "ExponentialBackoff = 10"

definition restart_limit :: "string \<Rightarrow> WorkerNode \<Rightarrow> nat" where
  "restart_limit name w =
     (case GetContainersConfigs name w of
        None \<Rightarrow> DefaultRestartCountLimit
      | Some l \<Rightarrow> if l > 0 then l else DefaultRestartCountLimit)"

text \<open>The record of one container: the times of its failures, oldest first, separated by commas.\<close>

definition add_record :: "nat \<Rightarrow> string \<Rightarrow> string \<Rightarrow> string" where
  "add_record limit record old =
     (let records = (if old = '''' then [] else go_split (CHR '','') old) in
      if record \<in> set records then old
      else let records = records @ [record] in go_join (CHR '','') (drop (length records - limit) records))"

definition AddRestartRecord :: "Pod \<Rightarrow> WorkerNode \<Rightarrow> WorkerNode" where
  "AddRestartRecord pod w =
     fold (\<lambda>c w. case cs_Terminated c of
         None \<Rightarrow> w
       | Some (code, finished) \<Rightarrow>
           if code = 0 then w
           else set_status (\<lambda>s. s\<lparr>RestartRecords := sput (cs_Name c)
                  (add_record (restart_limit (cs_Name c) w) (FormatInt finished) (sget (RestartRecords s) (cs_Name c)))
                  (RestartRecords s)\<rparr>) w)
       (pod_ContainerStatuses pod) w"

text \<open>\<^verbatim>\<open>ExceedRestartLimit\<close>, for a positive limit; the times are compared as texts.\<close>

definition ExceedRestartLimit :: "worker_env \<Rightarrow> string \<Rightarrow> nat \<Rightarrow> bool" where
  "ExceedRestartLimit e restartRecord limitCnt =
     (if restartRecord = '''' then False
      else let records = go_split (CHR '','') restartRecord in
        if length records < limitCnt then False
        else records ! (length records - limitCnt) \<ge> FormatInt (Now e - i64 (i64 (2 ^ limitCnt) * ExponentialBackoff)))"

subsection \<open>The worker of a pod\<close>

definition mockSync :: "Pod \<Rightarrow> WorkerNode \<Rightarrow> WorkerNode" where
  "mockSync pod w =
     set_status (\<lambda>s. s\<lparr>Phase := Running, EntityName := pod_Name pod, EntityAlloced := True, ProcessReady := True, ResourceMatch := True,
       ProcessMatch := True, ResVersion := Spec_ResVersion (Spec w), Version := Spec_Version (Spec w)\<rparr>) w"

definition reNewWorker :: "WorkerNode \<Rightarrow> WorkerNode" where
  "reNewWorker w =
     SetWorkerUnAssigned (w\<lparr>Spec := (Spec w)\<lparr>Releasing := False, Spec_Reclaim := False\<rparr>, Status := empty_status,
       Labels := sdel LabelKeyHippoPreference (Labels w)\<rparr>)"

subsection \<open>Patches converge\<close>

text \<open>What the API server makes of the patch.\<close>

definition apply_patch :: "(string, string) mapping \<times> string set \<Rightarrow> strmap \<Rightarrow> strmap" where
  "apply_patch patch m =
     Some (Mapping.filter (\<lambda>k _. k \<notin> snd patch) (smerge (fst patch) (case m of None \<Rightarrow> Mapping.empty | Some f \<Rightarrow> f)))"

lemma removed_iff: "k \<in> snd (calcPatch src target prefix) \<longleftrightarrow> HasPrefix k prefix \<and> shas target k \<and> \<not> shas src k"
  by (auto simp: calcPatch_def keys_is_none_rep lookup_filter Option.is_none_def split: option.splits)

lemma inserted:
  "Mapping.lookup (fst (calcPatch src target prefix)) k =
    (if HasPrefix k prefix \<and> shas src k \<and> sget src k \<noteq> sget target k then Some (sget src k) else None)"
  by (auto simp: calcPatch_def lookup_filter shas_def sget_def split: option.splits)

lemma sget_apply_patch:
  "sget (apply_patch (calcPatch src target prefix) target) k = (if HasPrefix k prefix then sget src k else sget target k)"
  by (auto simp: apply_patch_def lookup_filter removed_iff inserted sget_def shas_def split: option.splits if_splits)

lemma shas_apply_patch:
  "shas (apply_patch (calcPatch src target prefix) target) k \<Longrightarrow> HasPrefix k prefix \<Longrightarrow> shas src k"
  by (auto simp: apply_patch_def lookup_filter removed_iff inserted shas_def split: option.splits if_splits)

text \<open>
  The metadata of a pod follows its worker: applying the computed patch makes the two agree on every key of the
  prefix, leaves the other keys alone, and a second patch is empty.
\<close>

theorem calcPatch_converges:
  "let after = apply_patch (calcPatch src target prefix) target in
   (\<forall>k. sget after k = (if HasPrefix k prefix then sget src k else sget target k)) \<and>
   calcPatch src after prefix = (Mapping.empty, {})"
proof -
  define after where "after = apply_patch (calcPatch src target prefix) target"
  have g: "sget after k = (if HasPrefix k prefix then sget src k else sget target k)" for k
    unfolding after_def by (rule sget_apply_patch)
  have "fst (calcPatch src after prefix) = Mapping.empty"
    by (rule mapping_eqI) (simp add: inserted g)
  moreover have "snd (calcPatch src after prefix) = {}"
    using shas_apply_patch [of src target prefix] by (auto simp: removed_iff after_def)
  ultimately show ?thesis using g unfolding after_def [symmetric] Let_def by (metis prod.collapse)
qed

end
