(* ===== verification/Replicas.thy ===== *)
theory Replicas
  imports NodeSetRun Pods
begin

text \<open>
  \<^verbatim>\<open>pkg/apis/carbon/v1/replica.go\<close>, \<^verbatim>\<open>gang.go\<close>, the replica helpers of \<^verbatim>\<open>helpers.go\<close> and the orders of
  \<^verbatim>\<open>controller/rollingset/sort.go\<close>: a replica is a worker, its backup and, for a gang, its parts. Replicas are the nodes that the node
  set updater schedules; the locale \<open>group_nodes\<close> is interpreted on their methods.
\<close>

subsection \<open>State\<close>

text \<open>A nil gang is \<open>None\<close>, which is not the same as an empty one.\<close>

datatype Replica = Replica (rp_worker: WorkerNode) (rp_Backup: WorkerNode) (rp_Gang: "Replica list option")

definition upd_worker :: "(WorkerNode \<Rightarrow> WorkerNode) \<Rightarrow> Replica \<Rightarrow> Replica" where
  "upd_worker f r = Replica (f (rp_worker r)) (rp_Backup r) (rp_Gang r)"

lemma upd_worker_fields [simp]:
  "rp_worker (upd_worker f r) = f (rp_worker r)" "rp_Backup (upd_worker f r) = rp_Backup r" "rp_Gang (upd_worker f r) = rp_Gang r"
  by (simp_all add: upd_worker_def)

text \<open>The plans of the parts of a gang; an entry may be a nil pointer.\<close>

type_synonym gang_plans = "(string, VersionPlan option) gomap"

record VersionPlanWithGangPlan =
  vpg_VersionPlan :: "VersionPlan option"
  GangVersionPlans :: gang_plans

text \<open>The worker's environment, the feature gate, the label check of Kubernetes, and the JSON text of the plans of a gang, with its
  parser (\<open>None\<close> on an error).\<close>

record replica_env =
  wenv :: worker_env
  HashLabelValue :: bool
  IsValidLabelValue :: "string \<Rightarrow> bool"
  json_GangPlans :: "gang_plans \<Rightarrow> string"
  unmarshal_GangPlans :: "string \<Rightarrow> gang_plans option"

subsection \<open>Predicates\<close>

definition IsGangReplica :: "Replica \<Rightarrow> bool" where
  "IsGangReplica r \<longleftrightarrow> rp_Gang r \<noteq> None"

abbreviation alloc_status :: "Replica \<Rightarrow> AllocStatus" where
  "alloc_status r \<equiv> st_AllocStatus (Status (rp_worker r))"

definition IsReplicaUnAssigned :: "Replica \<Rightarrow> bool" where
  "IsReplicaUnAssigned r \<longleftrightarrow> alloc_status r = WorkerUnAssigned"

definition IsReplicaNotInited :: "Replica \<Rightarrow> bool" where
  "IsReplicaNotInited r \<longleftrightarrow> alloc_status r = AllocStatusEmpty"

definition IsReplicaAssigned :: "Replica \<Rightarrow> bool" where
  "IsReplicaAssigned r \<longleftrightarrow> alloc_status r = WorkerAssigned"

definition IsReplicaLost :: "Replica \<Rightarrow> bool" where
  "IsReplicaLost r \<longleftrightarrow> alloc_status r = WorkerLost"

definition IsReplicaOfflining :: "Replica \<Rightarrow> bool" where
  "IsReplicaOfflining r \<longleftrightarrow> alloc_status r = WorkerOfflining"

definition IsReplicaAllocReleasing :: "Replica \<Rightarrow> bool" where
  "IsReplicaAllocReleasing r \<longleftrightarrow> alloc_status r = WorkerReleasing"

definition IsReplicaReleased :: "Replica \<Rightarrow> bool" where
  "IsReplicaReleased r \<longleftrightarrow> alloc_status r = WorkerReleased"

definition IsReplicaEmpty :: "Replica \<Rightarrow> bool" where
  "IsReplicaEmpty r \<longleftrightarrow> IsReplicaUnAssigned r \<or> IsReplicaNotInited r \<or> IsReplicaLost r"

definition IsReplicaReleasing :: "Replica \<Rightarrow> bool" where
  "IsReplicaReleasing r =
     (case rp_Gang r of
        Some (_ # _) \<Rightarrow> IsWorkerToDelete (rp_worker r)
      | _ \<Rightarrow> IsWorkerToRelease (rp_worker r))"

definition IsReplicaAvailable :: "Replica \<Rightarrow> bool" where
  "IsReplicaAvailable r = IsWorkerLatestVersionAvailable (rp_worker r)"

definition IsReplicaHealth :: "Replica \<Rightarrow> bool" where
  "IsReplicaHealth r \<longleftrightarrow> st_HealthStatus (Status (rp_worker r)) = HealthAlive"

definition IsReplicaProcessReady :: "Replica \<Rightarrow> bool" where
  "IsReplicaProcessReady r = WorkerReady (Status (rp_worker r))"

definition isBackupReleaseWithGeneralService :: "Replica \<Rightarrow> bool" where
  "isBackupReleaseWithGeneralService r \<longleftrightarrow>
     UID (rp_Backup r) \<noteq> '''' \<and> IsWorkerToRelease (rp_Backup r) \<and>
     (\<exists>c \<in> set (ServiceConditions (Status (rp_worker r)) @ ServiceConditions (Status (rp_Backup r))). sc_Type c = ServiceGeneral)"

definition IsReplicaComplete :: "Replica \<Rightarrow> bool" where
  "IsReplicaComplete r \<longleftrightarrow>
     \<not> IsReplicaReleasing r \<and> IsReplicaAvailable r \<and>
     (Spec_Version (Spec (rp_worker r)) = Version (Status (rp_worker r)) \<or> IsWorkerInnerVerMatch (rp_worker r)) \<and>
     \<not> isBackupReleaseWithGeneralService r \<and> Complete (Status (rp_worker r))"

text \<open>\<^verbatim>\<open>IsReplicaServiceReady\<close> refreshes the readiness of the worker; the result is the replica, the timeout and the answer.\<close>

definition IsReplicaServiceReady :: "worker_env \<Rightarrow> Replica \<Rightarrow> Replica \<times> int \<times> bool" where
  "IsReplicaServiceReady e r =
     (case IsWorkerServiceReady e (rp_worker r) of (w, timeout, ok) \<Rightarrow>
        (upd_worker (\<lambda>_. w) r, timeout, ok \<and> \<not> isBackupReleaseWithGeneralService (upd_worker (\<lambda>_. w) r)))"

definition IsStandbyReplica :: "Replica \<Rightarrow> bool" where
  "IsStandbyReplica r = IsStandbyWorker (rp_worker r)"

definition IsReplicaOnStandByResourcePool :: "Replica \<Rightarrow> bool" where
  "IsReplicaOnStandByResourcePool r = IsWorkerOnStandByResourcePool (rp_worker r)"

definition IsReplicaDependencyReady :: "Replica \<Rightarrow> bool" where
  "IsReplicaDependencyReady r = IsWorkerDependencyReady (rp_worker r)"

definition ReplicaWorkModeScore :: "worker_env \<Rightarrow> Replica \<Rightarrow> int32" where
  "ReplicaWorkModeScore e r =
     (if \<not> IsStandbyReplica r then 0
      else if InSilence e (rp_worker r) then 1
      else case Spec_WorkerMode (Spec (rp_worker r)) of
             WorkerModeTypeUnknown \<Rightarrow> 9
           | WorkerModeTypeCold \<Rightarrow> 4
           | WorkerModeTypeWarm \<Rightarrow> 3
           | WorkerModeTypeHot \<Rightarrow> 2
           | _ \<Rightarrow> 9)"

definition ReplicaResourcePoolScore :: "Replica \<Rightarrow> int32" where
  "ReplicaResourcePoolScore r = WorkerResourcePoolScore (rp_worker r)"

definition Replica_GetDeletionCost :: "Replica \<Rightarrow> int" where
  "Replica_GetDeletionCost r = GetWorkerDeletionCost (rp_worker r)"

subsection \<open>Labels of the parts of a gang\<close>

definition PatchMap :: "strmap \<Rightarrow> strmap \<Rightarrow> string list \<Rightarrow> strmap" where
  "PatchMap mainMaps subMaps keys =
     Some (fold (\<lambda>key m. if sget subMaps key \<noteq> '''' then Mapping.update key (sget subMaps key) m else m) keys (scontents mainMaps))"

definition CloneMap :: "strmap \<Rightarrow> strmap" where
  "CloneMap m = Some (scontents m)"

definition CopyWorkerAndReplicaLabels :: "strmap \<Rightarrow> strmap \<Rightarrow> strmap" where
  "CopyWorkerAndReplicaLabels mainMaps subMaps =
     PatchMap mainMaps subMaps [DefaultGangUniqueLabelKey, DefaultReplicaUniqueLabelKey, DefaultWorkernodeUniqueLabelKey, WorkerRoleKey]"

definition LabelValueHash :: "replica_env \<Rightarrow> string \<Rightarrow> bool \<Rightarrow> string" where
  "LabelValueHash e v enable =
     (if \<not> enable then v
      else if length v > 63 \<or> \<not> IsValidLabelValue e v then SignatureWithMD5 (wenv e) v else v)"

abbreviation "LabelKeyAppName \<equiv> ''app.hippo.io/app-name''"
abbreviation "LabelKeyRoleName \<equiv> ''app.hippo.io/role-name''"
abbreviation "LabelKeyAppNameHash \<equiv> ''app.c2.io/app-name-hash''"
abbreviation "LabelKeyRoleNameHash \<equiv> ''app.c2.io/role-name-hash''"

definition SetRoleName :: "replica_env \<Rightarrow> string \<Rightarrow> WorkerNode \<Rightarrow> WorkerNode" where
  "SetRoleName e role w =
     (let w = setAnnotation LabelKeyRoleName role w
      in if \<not> HashLabelValue e then setLabel (wenv e) LabelKeyRoleName role w else w)"

definition SetObjectRoleHash :: "replica_env \<Rightarrow> string \<Rightarrow> string \<Rightarrow> WorkerNode \<Rightarrow> WorkerNode" where
  "SetObjectRoleHash e app role w =
     setLabel (wenv e) LabelKeyAppNameHash (LabelValueHash e app True)
       (setLabel (wenv e) LabelKeyRoleNameHash (LabelValueHash e role True) w)"

definition syncGangNodeMetas :: "replica_env \<Rightarrow> WorkerNode \<Rightarrow> worker_error + WorkerNode" where
  "syncGangNodeMetas e w =
     (case Template (WorkerNode.Plan w) of
        None \<Rightarrow> Inl worker_error.NilDereference
      | Some t \<Rightarrow>
          let get = GetLabelAnnoValue (tmpl_Labels t) (tmpl_Annotations t);
              w = w\<lparr>Labels := PatchMap (Labels w) (tmpl_Labels t) [LabelKeyRoleName, LabelKeyRoleNameHash]\<rparr>;
              w = w\<lparr>Annotations := PatchMap (Annotations w) (tmpl_Annotations t) [LabelKeyRoleName, LabelKeyRoleNameHash]\<rparr>;
              w = SetRoleName e (get LabelKeyRoleName) w
          in Inr (SetObjectRoleHash e (get LabelKeyAppName) (get LabelKeyRoleName) w))"

subsection \<open>Version plans\<close>

text \<open>The plan of the first part that has the plans of the gang; an empty or nil gang has none.\<close>

definition GetVersionPlanWithGangPlanFromReplica :: "replica_env \<Rightarrow> Replica \<Rightarrow> VersionPlanWithGangPlan option" where
  "GetVersionPlanWithGangPlanFromReplica e r =
     (case rp_Gang r of
        None \<Rightarrow> Some \<lparr>vpg_VersionPlan = Some (WorkerNode.Plan (rp_worker r)), GangVersionPlans = []\<rparr>
      | Some parts \<Rightarrow>
          (case filter (\<lambda>plan. plan \<noteq> '''') (map (\<lambda>p. GetGangPlan (rp_worker p)) parts) of
             [] \<Rightarrow> None
           | plan # _ \<Rightarrow> map_option (\<lambda>g. \<lparr>vpg_VersionPlan = None, GangVersionPlans = g\<rparr>) (unmarshal_GangPlans e plan)))"

text \<open>One part of a gang: it gets the plan of its name, or is to be deleted when its name has none.\<close>

definition set_gang_part :: "replica_env \<Rightarrow> gang_plans \<Rightarrow> string \<Rightarrow> Replica \<Rightarrow> worker_error + Replica" where
  "set_gang_part e plans version part =
     (let gangPlan = json_GangPlans e plans; w = rp_worker part in
      case (case map_of plans (GetGangPartName w) of
              None \<Rightarrow> Inr (set_spec (\<lambda>s. s\<lparr>ToDelete := True\<rparr>) w)
            | Some None \<Rightarrow> Inl worker_error.NilDereference
            | Some (Some plan) \<Rightarrow>
                Inr (set_spec (\<lambda>s. s\<lparr>Spec_VersionPlan := plan, Spec_Version := version\<rparr>)
                  (if IsGangMainPart (Template plan) then SetGangPlan gangPlan w else w))) of
        Inl err \<Rightarrow> Inl err
      | Inr w \<Rightarrow> map_sum id (\<lambda>w. upd_worker (\<lambda>_. w) part) (syncGangNodeMetas e w))"

fun set_gang_parts :: "replica_env \<Rightarrow> gang_plans \<Rightarrow> string \<Rightarrow> Replica list \<Rightarrow> worker_error + Replica list" where
  "set_gang_parts e plans version [] = Inr []"
| "set_gang_parts e plans version (part # parts) =
     (case set_gang_part e plans version part of
        Inl err \<Rightarrow> Inl err
      | Inr part \<Rightarrow> map_sum id (\<lambda>parts. part # parts) (set_gang_parts e plans version parts))"

definition SetReplicaVersionPlanWithGangPlan ::
  "replica_env \<Rightarrow> VersionPlanWithGangPlan option \<Rightarrow> string \<Rightarrow> Replica \<Rightarrow> worker_error + Replica" where
  "SetReplicaVersionPlanWithGangPlan e plans version r =
     (case plans of
        None \<Rightarrow> Inl worker_error.NilDereference
      | Some p \<Rightarrow>
          (case rp_Gang r of
             None \<Rightarrow>
               (case vpg_VersionPlan p of
                  None \<Rightarrow> Inl worker_error.NilDereference
                | Some plan \<Rightarrow> Inr (upd_worker (set_spec (\<lambda>s. s\<lparr>Spec_Version := version, Spec_VersionPlan := plan\<rparr>)) r))
           | Some parts \<Rightarrow>
               map_sum id (\<lambda>parts. Replica (rp_worker r) (rp_Backup r) (Some parts)) (set_gang_parts e (GangVersionPlans p) version parts)))"

subsection \<open>The methods of a node\<close>

definition activate :: "worker_env \<Rightarrow> WorkerNode \<Rightarrow> WorkerNode" where
  "activate e w =
     (let (w, silent) = SyncSilence e WorkerModeTypeActive w;
          w = (if silent then w else set_spec (\<lambda>s. s\<lparr>Spec_WorkerMode := WorkerModeTypeActive\<rparr>) w)
      in if Spec_WorkerMode (Spec w) = WorkerModeTypeCold \<and> IsFedWorker (Status w)
         then set_spec (\<lambda>s. s\<lparr>Spec_WorkerMode := WorkerModeTypeWarm\<rparr>) w else w)"

definition Replica_SetVersion ::
  "replica_env \<Rightarrow> string \<Rightarrow> VersionPlanWithGangPlan option \<Rightarrow> Replica \<Rightarrow> worker_error + Replica" where
  "Replica_SetVersion e version plans r =
     (let r = upd_worker (\<lambda>w. fst (SetStandby2Active (wenv e) w)) r;
          r = (if IsGangReplica r then r else upd_worker (activate (wenv e)) r)
      in SetReplicaVersionPlanWithGangPlan e plans version r)"

definition Replica_GetScore :: "worker_env \<Rightarrow> Replica \<Rightarrow> int" where
  "Replica_GetScore e r = snd (ScoreOfWorker e (rp_worker r))"

abbreviation bTint32 :: "bool \<Rightarrow> int32" where
  "bTint32 b \<equiv> (if b then 1 else 0)"

definition Replica_GetUpdateScore :: "worker_env \<Rightarrow> Replica \<Rightarrow> int" where
  "Replica_GetUpdateScore e r =
     AggregateFraction
       [bTint32 (snd (InStandby2Active e (rp_worker r))), bTint32 (IsReplicaEmpty r), ReplicaWorkModeScore e r,
        i32 (9 - ReplicaResourcePoolScore r), bTint32 (IsReplicaOnStandByResourcePool r), bTint32 (\<not> IsSpot (Spec (rp_worker r)))]"

definition Replica_IsRelease :: "Replica \<Rightarrow> bool" where
  "Replica_IsRelease r \<longleftrightarrow> IsReplicaReleasing r \<or> IsReplicaReleased r"

definition Replica_SetDependencyReady :: "bool \<Rightarrow> Replica \<Rightarrow> Replica" where
  "Replica_SetDependencyReady b = upd_worker (set_spec (\<lambda>s. s\<lparr>DependencyReady := Some b\<rparr>))"

definition Replica_GetGroupVersion :: "Replica \<Rightarrow> string" where
  "Replica_GetGroupVersion r =
     (let w = rp_worker r in
      if ShardGroupVersion (WorkerNode.Plan w) = '''' then Spec_Version (Spec w) else ShardGroupVersion (WorkerNode.Plan w))"

text \<open>The methods as the node set updater calls them. The getters answer without the refresh they make in the code, which does not
  change later answers. \<open>SetVersion\<close> leaves a replica for which the code panics as it is; \<open>can_set\<close> below tells those apart.\<close>

definition replica_methods :: "replica_env \<Rightarrow> (Replica, VersionPlanWithGangPlan) NodeMethods" where
  "replica_methods e =
     \<lparr>GetName = (\<lambda>r. Name (rp_worker r)), GetVersion = (\<lambda>r. Spec_Version (Spec (rp_worker r))),
      GetVersionPlan = GetVersionPlanWithGangPlanFromReplica e, GetScore = Replica_GetScore (wenv e),
      GetDeletionCost = Replica_GetDeletionCost, IsReady = (\<lambda>r. snd (snd (IsReplicaServiceReady (wenv e) r))), IsEmpty = IsReplicaEmpty,
      IsRelease = Replica_IsRelease,
      SetVersion = (\<lambda>v p r. case Replica_SetVersion e v p r of Inl _ \<Rightarrow> r | Inr r' \<Rightarrow> r'),
      Stop = (\<lambda>r. r), isGroupNode = (\<lambda>_. True), GetGroupVersion = Replica_GetGroupVersion,
      GetDependencyReady = IsReplicaDependencyReady, SetDependencyReady = Replica_SetDependencyReady,
      isNodeUpdateScore = (\<lambda>_. True), GetUpdateScore = Replica_GetUpdateScore (wenv e)\<rparr>"

definition can_set :: "VersionPlanWithGangPlan option \<Rightarrow> Replica \<Rightarrow> bool" where
  "can_set p r \<longleftrightarrow> \<not> IsGangReplica r \<and> (case p of None \<Rightarrow> False | Some q \<Rightarrow> vpg_VersionPlan q \<noteq> None)"

subsection \<open>Replicas as nodes\<close>

text \<open>A replica that is given a version becomes active, whatever its mode was: the silence of a standby ends.\<close>

lemma activate_spec: "Spec (activate e w) = (Spec w)\<lparr>Spec_WorkerMode := WorkerModeTypeActive\<rparr>"
  by (simp add: activate_def SyncSilence_def SetSilence_def IsStandbyWorkerMode_def Let_def)

lemma SetStandby2Active_spec: "Spec (fst (SetStandby2Active e w)) = Spec w"
  by (simp add: SetStandby2Active_def InStandby2Active_def UnsetStandby2Active_def Let_def split: option.split prod.split)

lemma Replica_SetVersion_ok:
  assumes "can_set (Some p) r" "vpg_VersionPlan p = Some plan"
  shows "\<exists>r'. Replica_SetVersion e v (Some p) r = Inr r' \<and> rp_Backup r' = rp_Backup r \<and> rp_Gang r' = None \<and>
    Spec (rp_worker r') = (Spec (rp_worker r))\<lparr>Spec_Version := v, Spec_VersionPlan := plan, Spec_WorkerMode := WorkerModeTypeActive\<rparr>"
  using assms by (simp add: can_set_def IsGangReplica_def Replica_SetVersion_def SetReplicaVersionPlanWithGangPlan_def Let_def
      activate_spec SetStandby2Active_spec)

lemma can_setE:
  assumes "can_set p r"
  obtains q plan where "p = Some q" "vpg_VersionPlan q = Some plan"
  using assms that by (auto simp: can_set_def split: option.splits)

interpretation rn: group_nodes "replica_methods e" can_set for e
proof
  fix p r v
  assume s: "can_set p r"
  then obtain q plan where "p = Some q" "vpg_VersionPlan q = Some plan" by (rule can_setE)
  then show "GetVersion (replica_methods e) (SetVersion (replica_methods e) v p r) = v"
    using Replica_SetVersion_ok [of q r plan e v] s by (auto simp: replica_methods_def)
qed (simp_all add: replica_methods_def Replica_SetDependencyReady_def IsReplicaDependencyReady_def IsWorkerDependencyReady_def)

subsection \<open>Orders\<close>

text \<open>The comparisons of \<^verbatim>\<open>sort.go\<close>, each as the \<^verbatim>\<open>Less\<close> of its two elements.\<close>

definition ByScore_Less :: "Replica \<Rightarrow> Replica \<Rightarrow> bool" where
  "ByScore_Less a b =
     (let i = rp_worker a; j = rp_worker b in
      if Score (Status i) = Score (Status j) then
        if Replica_GetDeletionCost a \<noteq> Replica_GetDeletionCost b then Replica_GetDeletionCost a < Replica_GetDeletionCost b
        else Name i > Name j
      else Score (Status i) < Score (Status j))"

definition redundant_score :: "worker_env \<Rightarrow> Replica \<Rightarrow> int" where
  "redundant_score e r =
     AggregateFraction
       [bTint32 (snd (InStandby2Active e (rp_worker r))), bTint32 (IsReplicaEmpty r), ReplicaWorkModeScore e r,
        i32 (9 - ReplicaResourcePoolScore r), bTint32 (IsReplicaOnStandByResourcePool r)]"

text \<open>The common end of the two redundancy orders, for equal scores and given deletion costs.\<close>

definition redundant_rest :: "Replica \<Rightarrow> Replica \<Rightarrow> bool" where
  "redundant_rest a b =
     (let i = rp_worker a; j = rp_worker b in
      if Score (Status i) \<noteq> Score (Status j) then Score (Status i) > Score (Status j)
      else if IsSpot (Spec i) \<noteq> IsSpot (Spec j) then IsSpot (Spec i)
      else Name i > Name j)"

definition RedundantSort_Less :: "worker_env \<Rightarrow> Replica \<Rightarrow> Replica \<Rightarrow> bool" where
  "RedundantSort_Less e a b =
     (let scoreI = redundant_score e a; scoreJ = redundant_score e b;
          iCost = Replica_GetDeletionCost a; jCost = Replica_GetDeletionCost b
      in if scoreI = scoreJ \<and> iCost \<noteq> jCost then iCost > jCost
         else if scoreI = scoreJ then redundant_rest a b
         else scoreI < scoreJ)"

text \<open>The order for quick online sets: the second score reads \<^verbatim>\<open>IsReplicaNotInited\<close> of the first element, and both deletion costs are
  those of the first.\<close>

definition inactive_score :: "worker_env \<Rightarrow> Replica \<Rightarrow> Replica \<Rightarrow> int" where
  "inactive_score e r first =
     AggregateFraction
       [bTint32 (IsReplicaUnAssigned r \<or> IsReplicaNotInited first), i32 (9 - ReplicaWorkModeScore e r),
        i32 (9 - ReplicaResourcePoolScore r), bTint32 (IsReplicaOnStandByResourcePool r)]"

definition InactiveStandbyRedundantSort_Less :: "worker_env \<Rightarrow> Replica \<Rightarrow> Replica \<Rightarrow> bool" where
  "InactiveStandbyRedundantSort_Less e a b =
     (let scoreI = inactive_score e a a; scoreJ = inactive_score e b a;
          iCost = Replica_GetDeletionCost a; jCost = Replica_GetDeletionCost a
      in if scoreI = scoreJ \<and> iCost \<noteq> jCost then iCost > jCost
         else if scoreI = scoreJ then redundant_rest a b
         else scoreI < scoreJ)"

definition ByAvailableAndName_Less :: "Replica \<Rightarrow> Replica \<Rightarrow> bool" where
  "ByAvailableAndName_Less a b =
     (if IsReplicaComplete a = IsReplicaComplete b then
        if IsReplicaUnAssigned a = IsReplicaUnAssigned b then Name (rp_worker a) > Name (rp_worker b)
        else IsReplicaUnAssigned a \<and> \<not> IsReplicaUnAssigned b
      else \<not> IsReplicaComplete a \<and> IsReplicaComplete b)"

definition ByUnAssignedSlot_Less :: "Replica \<Rightarrow> Replica \<Rightarrow> bool" where
  "ByUnAssignedSlot_Less a b \<longleftrightarrow> \<not> IsReplicaUnAssigned a \<and> IsReplicaUnAssigned b"

definition ByDeletionCost_Less :: "Replica \<Rightarrow> Replica \<Rightarrow> bool" where
  "ByDeletionCost_Less a b \<longleftrightarrow> Replica_GetDeletionCost a > Replica_GetDeletionCost b"

text \<open>An order that compares keys one after the other, each by a strict weak order, is one.\<close>

lemma strict_weak_key: "strict_weak_on A (\<lambda>a b. (f a :: 'b :: linorder) < f b)" "strict_weak_on A (\<lambda>a b. (f a :: 'b :: linorder) > f b)"
  by (auto simp: strict_weak_on_def)

lemma strict_weakD:
  assumes "strict_weak_on A lt" "x \<in> A" "y \<in> A" "z \<in> A"
  shows "\<not> lt x x" "lt x y \<Longrightarrow> lt y z \<Longrightarrow> lt x z" "\<not> lt x y \<Longrightarrow> \<not> lt y z \<Longrightarrow> \<not> lt x z"
  using assms unfolding strict_weak_on_def by blast+

lemma strict_weakI:
  assumes "\<And>x. x \<in> A \<Longrightarrow> \<not> lt x x" "\<And>x y z. x \<in> A \<Longrightarrow> y \<in> A \<Longrightarrow> z \<in> A \<Longrightarrow> lt x y \<Longrightarrow> lt y z \<Longrightarrow> lt x z"
    "\<And>x y z. x \<in> A \<Longrightarrow> y \<in> A \<Longrightarrow> z \<in> A \<Longrightarrow> \<not> lt x y \<Longrightarrow> \<not> lt y z \<Longrightarrow> \<not> lt x z"
  shows "strict_weak_on A lt"
  using assms unfolding strict_weak_on_def by blast

lemma strict_weak_lex:
  fixes f :: "'a \<Rightarrow> 'b :: linorder"
  assumes "strict_weak_on A lt"
  shows "strict_weak_on A (\<lambda>a b. if f a = f b then lt a b else f a < f b)"
proof (rule strict_weakI)
  fix x y z assume "x \<in> A" "y \<in> A" "z \<in> A"
  note d = strict_weakD [OF assms this]
  show "\<not> (if f x = f x then lt x x else f x < f x)" using d(1) by simp
  show "(if f x = f y then lt x y else f x < f y) \<Longrightarrow> (if f y = f z then lt y z else f y < f z) \<Longrightarrow> (if f x = f z then lt x z else f x < f z)"
    using d(2) by (auto split: if_splits)
  show "\<not> (if f x = f y then lt x y else f x < f y) \<Longrightarrow> \<not> (if f y = f z then lt y z else f y < f z) \<Longrightarrow>
    \<not> (if f x = f z then lt x z else f x < f z)"
    using d(3) by (auto split: if_splits)
qed

lemma strict_weak_lex_down:
  fixes f :: "'a \<Rightarrow> 'b :: linorder"
  assumes "strict_weak_on A lt"
  shows "strict_weak_on A (\<lambda>a b. if f a = f b then lt a b else f a > f b)"
  using strict_weak_on_converse [OF strict_weak_lex [OF strict_weak_on_converse [OF assms], of f]] by (simp add: eq_commute)

text \<open>The orders by score, for redundant replicas and by availability are strict weak orders, so sorting by them is well defined.\<close>

lemma redundant_rest_weak: "strict_weak_on A redundant_rest"
proof -
  have e: "redundant_rest = (\<lambda>a b. if Score (Status (rp_worker a)) = Score (Status (rp_worker b)) then
      if IsSpot (Spec (rp_worker a)) = IsSpot (Spec (rp_worker b)) then Name (rp_worker a) > Name (rp_worker b)
      else IsSpot (Spec (rp_worker a)) > IsSpot (Spec (rp_worker b))
    else Score (Status (rp_worker a)) > Score (Status (rp_worker b)))"
    by (intro ext) (auto simp: redundant_rest_def Let_def)
  show ?thesis unfolding e by (intro strict_weak_lex_down strict_weak_key)
qed

lemma RedundantSort_weak: "strict_weak_on A (RedundantSort_Less e)"
proof -
  have e: "RedundantSort_Less e = (\<lambda>a b. if redundant_score e a = redundant_score e b then
      if Replica_GetDeletionCost a = Replica_GetDeletionCost b then redundant_rest a b
      else Replica_GetDeletionCost a > Replica_GetDeletionCost b
    else redundant_score e a < redundant_score e b)"
    by (intro ext) (auto simp: RedundantSort_Less_def Let_def)
  show ?thesis unfolding e by (intro strict_weak_lex strict_weak_lex_down redundant_rest_weak)
qed

lemma ByScore_weak: "strict_weak_on A ByScore_Less"
proof -
  have e: "ByScore_Less = (\<lambda>a b. if Score (Status (rp_worker a)) = Score (Status (rp_worker b)) then
      if Replica_GetDeletionCost a = Replica_GetDeletionCost b then Name (rp_worker a) > Name (rp_worker b)
      else Replica_GetDeletionCost a < Replica_GetDeletionCost b
    else Score (Status (rp_worker a)) < Score (Status (rp_worker b)))"
    by (intro ext) (auto simp: ByScore_Less_def Let_def)
  show ?thesis unfolding e by (intro strict_weak_lex strict_weak_key)
qed

lemma ByAvailableAndName_weak: "strict_weak_on A ByAvailableAndName_Less"
proof -
  have e: "ByAvailableAndName_Less = (\<lambda>a b. if IsReplicaComplete a = IsReplicaComplete b then
      if IsReplicaUnAssigned a = IsReplicaUnAssigned b then Name (rp_worker a) > Name (rp_worker b)
      else IsReplicaUnAssigned a > IsReplicaUnAssigned b
    else IsReplicaComplete a < IsReplicaComplete b)"
    by (intro ext) (auto simp: ByAvailableAndName_Less_def)
  show ?thesis unfolding e by (intro strict_weak_lex strict_weak_lex_down strict_weak_key)
qed

text \<open>The order of quick online sets is not one: deletion costs never count, and with a replica that is not initialised being equal is
  not transitive.\<close>

definition with_cost :: "int \<Rightarrow> Replica \<Rightarrow> Replica" where
  "with_cost c = upd_worker (\<lambda>w. set_status (\<lambda>s. s\<lparr>DeletionCost := c\<rparr>) (set_spec (\<lambda>s. s\<lparr>Spec_DeletionCost := c\<rparr>) w))"

lemma with_cost_fields:
  "IsReplicaUnAssigned (with_cost c r) = IsReplicaUnAssigned r" "IsReplicaNotInited (with_cost c r) = IsReplicaNotInited r"
  "ReplicaWorkModeScore e (with_cost c r) = ReplicaWorkModeScore e r" "Name (rp_worker (with_cost c r)) = Name (rp_worker r)"
  "ReplicaResourcePoolScore (with_cost c r) = ReplicaResourcePoolScore r" "Score (Status (rp_worker (with_cost c r))) = Score (Status (rp_worker r))"
  "IsReplicaOnStandByResourcePool (with_cost c r) = IsReplicaOnStandByResourcePool r"
  "IsSpot (Spec (rp_worker (with_cost c r))) = IsSpot (Spec (rp_worker r))"
proof -
  have "InSilence e (rp_worker (with_cost c r)) = InSilence e (rp_worker r)" by (simp add: with_cost_def InSilence_def cong: option.case_cong)
  then show "ReplicaWorkModeScore e (with_cost c r) = ReplicaWorkModeScore e r"
    by (simp add: ReplicaWorkModeScore_def IsStandbyReplica_def IsStandbyWorker_def) (simp add: with_cost_def)
qed (simp_all add: with_cost_def IsReplicaUnAssigned_def IsReplicaNotInited_def ReplicaResourcePoolScore_def WorkerResourcePoolScore_def
    IsReplicaOnStandByResourcePool_def IsWorkerOnStandByResourcePool_def)

lemma with_cost_scores:
  "inactive_score e (with_cost c a) (with_cost d b) = inactive_score e a b" "redundant_rest (with_cost c a) (with_cost d b) = redundant_rest a b"
  by (simp_all only: inactive_score_def redundant_rest_def with_cost_fields Let_def)

lemma InactiveStandby_ignores_costs:
  "InactiveStandbyRedundantSort_Less e (with_cost c a) (with_cost d b) = InactiveStandbyRedundantSort_Less e a b"
  by (simp add: InactiveStandbyRedundantSort_Less_def with_cost_scores Let_def)

definition sample_replica :: "AllocStatus \<Rightarrow> WorkerModeType \<Rightarrow> Replica" where
  "sample_replica st mode =
     Replica (set_spec (\<lambda>s. s\<lparr>Spec_WorkerMode := mode\<rparr>) (set_status (\<lambda>s. s\<lparr>st_AllocStatus := st\<rparr>) empty_worker)) empty_worker None"

lemma InactiveStandby_not_an_order:
  "\<not> strict_weak_on UNIV (InactiveStandbyRedundantSort_Less sample_env)"
proof -
  let ?l = "InactiveStandbyRedundantSort_Less sample_env"
  let ?a = "sample_replica AllocStatusEmpty WorkerModeTypeCold" and ?b = "sample_replica WorkerUnAssigned WorkerModeTypeUnknown"
    and ?c = "sample_replica AllocStatusEmpty WorkerModeTypeWarm"
  have "?l ?a ?c" "\<not> ?l ?a ?b" "\<not> ?l ?b ?c" by code_simp+
  then show ?thesis using strict_weakD(3) [of UNIV ?l ?a ?b ?c] by auto
qed

end
