(* ===== verification/RollingSet.thy ===== *)
theory RollingSet
  imports Replicas
begin

text \<open>
  \<^verbatim>\<open>pkg/apis/carbon/v1/rollingset.go\<close> and the status part of \<^verbatim>\<open>controller/rollingset/util.go\<close>: a rolling set, the split of its
  capacity into active and standby replicas, its schedule plan, and the status that is computed from its replicas.
\<close>

subsection \<open>State\<close>

record ScaleSchedulePlan =
  ssp_Replicas :: "int32 option"
  ssp_Strategy :: DeploymentStrategy
  RecycleMode :: WorkerModeType
  RecyclePool :: string
  SmoothRolling :: bool

record BufferDistribute =
  bd_Cold :: int32
  bd_Warm :: int32
  bd_Hot :: int32

text \<open>\<^verbatim>\<open>Capacity\<close> with the fields of its two plans; a \<^verbatim>\<open>ScaleConfig\<close> is its \<^verbatim>\<open>Enable\<close>.\<close>

record Capacity =
  cap_Total :: "int32 option"
  cap_Distribute :: "BufferDistribute option"
  cap_ScaleSchedulePlan :: "ScaleSchedulePlan option"
  cap_ScaleConfig :: "bool option"

text \<open>How the health of the workers is checked.\<close>

record Lv7HealthCheckerConfig =
  LostCountThreshold :: int32
  LostTimeout :: int
  lv7_Path :: string
  lv7_Port :: IntOrString

record HealthCheckerConfig =
  hcc_Type :: string
  Lv7Config :: "Lv7HealthCheckerConfig option"

record RollingSetSpec =
  rs_Selector :: "strmap option"
  rs_SchedulePlan :: SchedulePlan
  rs_ScaleSchedulePlan :: "ScaleSchedulePlan option"
  rs_ScaleConfig :: "bool option"
  rs_Capacity :: Capacity
  GroupRS :: "string option"
  rs_ResVersion :: string
  rs_Version :: string
  rs_InstanceID :: string
  rs_VersionPlan :: VersionPlan
  PredictInfo :: string
  GangVersionPlan :: gang_plans
  rs_HealthCheckerConfig :: "HealthCheckerConfig option"

record SpotStatus =
  spot_Target :: int
  spot_Instances :: "string list"

text \<open>The status without the fields of grouped rolling sets; the conditions are carried along as they are.\<close>

record RollingSetStatus =
  rst_Complete :: bool
  rst_ServiceReady :: bool
  rst_Replicas :: int32
  rst_Workers :: int32
  rst_ActiveReplicas :: int32
  rst_StandbyReplicas :: int32
  rst_ColdStandbys :: int32
  rst_WarmStandbys :: int32
  rst_HotStandbys :: int32
  rst_WorkerModeMisMatchReplicas :: int32
  rst_UnAssignedStandbyReplicas :: int32
  rst_UpdatedReplicas :: int32
  rst_ReadyReplicas :: int32
  rst_AvailableReplicas :: int32
  rst_UnavailableReplicas :: int32
  rst_AllocatedReplicas :: int32
  rst_ReleasingReplicas :: int32
  rst_ReleasingWorkers :: int32
  rst_UnAssignedWorkers :: "(string, int32) gomap"
  rst_VersionCount :: int32
  rst_Conditions :: "string list"
  rst_LastUpdateStatusTime :: gotime
  GroupVersionStatusMap :: "(string, VersionStatus) gomap"
  ResourceVersionStatusMap :: "(string, ResourceVersionStatus) gomap"
  rst_Version :: string
  rst_UserDefVersion :: string
  rst_InstanceID :: string
  UncompleteReplicaInfo :: "(string, ProcessStep) gomap"
  rst_LabelSelector :: string
  SpotInstanceStatus :: SpotStatus

record RollingSet =
  rs_Name :: string
  rs_Namespace :: string
  rs_ResourceVersion :: string
  rs_Labels :: strmap
  rs_Annotations :: strmap
  rs_DeletionTimestamp :: "int option"
  rs_Finalizers :: "string list"
  rs_Spec :: RollingSetSpec
  rs_Status :: RollingSetStatus

text \<open>The errors of the controller, and the panics of the code it calls.\<close>

datatype rs_error =
    RollError roll_error
  | WorkerError worker_error
  | MakesliceCap
  | IllegalReplicas
  | IllegalLatestVersionRatio
  | BadNonVersionedKeys
  | BadPredictInfo
  | TargetVersionTooOld string string
  | VersionChangedInGroup string string string
  | ContainersNotMatched
  | ApiError string

text \<open>What scaling asks for.\<close>

record ScaleParameters =
  sc_ActiveReplicas :: int32
  sc_StandByReplicas :: int32
  StandByRatioMap :: "(WorkerModeType, int) gomap"
  ScalerResourcePoolName :: string

subsection \<open>Capacity\<close>

definition BufferDistribute_isZero :: "BufferDistribute \<Rightarrow> bool" where
  "BufferDistribute_isZero b \<longleftrightarrow> bd_Cold b = 0 \<and> bd_Warm b = 0 \<and> bd_Hot b = 0"

definition ScaleSchedulePlan_getReplicas :: "ScaleSchedulePlan \<Rightarrow> int32" where
  "ScaleSchedulePlan_getReplicas p = (case ssp_Replicas p of None \<Rightarrow> 0 | Some n \<Rightarrow> n)"

definition GetRawReplicas :: "RollingSet \<Rightarrow> int32" where
  "GetRawReplicas r = (case sp_Replicas (rs_SchedulePlan (rs_Spec r)) of None \<Rightarrow> 0 | Some n \<Rightarrow> n)"

text \<open>The plan that scaling uses, when it is enabled.\<close>

definition scale_plan :: "RollingSet \<Rightarrow> ScaleSchedulePlan option" where
  "scale_plan r = (case cap_ScaleConfig (rs_Capacity (rs_Spec r)) of Some True \<Rightarrow> cap_ScaleSchedulePlan (rs_Capacity (rs_Spec r)) | _ \<Rightarrow> None)"

definition scaleEnable :: "RollingSet \<Rightarrow> bool" where
  "scaleEnable r \<longleftrightarrow> scale_plan r \<noteq> None"

text \<open>The ratios for a recycle mode: cold, warm, hot and inactive.\<close>

definition recycle_ratios :: "ScaleSchedulePlan \<Rightarrow> int \<times> int \<times> int \<times> int" where
  "recycle_ratios p =
     (case (if RecyclePool p \<noteq> '''' then WorkerModeTypeCold else RecycleMode p) of
        WorkerModeTypeCold \<Rightarrow> (100, 0, 0, 0)
      | WorkerModeTypeWarm \<Rightarrow> (0, 100, 0, 0)
      | WorkerModeTypeHot \<Rightarrow> (0, 0, 100, 0)
      | WorkerModeTypeInactive \<Rightarrow> (0, 0, 0, 100)
      | _ \<Rightarrow> (0, 0, 0, 0))"

definition getReserveCapacity :: "RollingSet \<Rightarrow> (int \<times> int \<times> int \<times> int) \<times> int32 \<times> int32" where
  "getReserveCapacity r =
     (let capacity = rs_Capacity (rs_Spec r);
          ((cold, warm, hot, inactive), actives) =
            (case scale_plan r of
               Some p \<Rightarrow> if ScaleSchedulePlan_getReplicas p > 0 then (recycle_ratios p, ScaleSchedulePlan_getReplicas p)
                         else ((0, 0, 0, 0), GetRawReplicas r)
             | None \<Rightarrow> ((0, 0, 0, 0), GetRawReplicas r));
          (cold, warm, hot) =
            (case cap_Distribute capacity of
               Some d \<Rightarrow> if BufferDistribute_isZero d then (cold, warm, hot) else (bd_Cold d, bd_Warm d, bd_Hot d)
             | None \<Rightarrow> (cold, warm, hot));
          hot = (if cold = 0 \<and> warm = 0 \<and> hot = 0 \<and> inactive = 0 then 100 else hot);
          total = (case cap_Total capacity of Some n \<Rightarrow> n | None \<Rightarrow> GetRawReplicas r);
          buffers = i32 (total - actives);
          buffers = (if buffers < 0 then 0 else buffers)
      in ((cold, warm, hot, inactive), buffers, actives))"

definition GetScaleParameters :: "RollingSet \<Rightarrow> ScaleParameters option" where
  "GetScaleParameters r =
     (if (case scale_plan r of None \<Rightarrow> True | Some p \<Rightarrow> ScaleSchedulePlan_getReplicas p = 0) \<and> cap_Total (rs_Capacity (rs_Spec r)) = None
      then None
      else
        let ((cold, warm, hot, inactive), standbys, actives) = getReserveCapacity r;
            ratios = (if standbys > 0
              then [(WorkerModeTypeCold, cold), (WorkerModeTypeWarm, warm), (WorkerModeTypeHot, hot), (WorkerModeTypeInactive, inactive)] else []);
            pool = (case cap_ScaleSchedulePlan (rs_Capacity (rs_Spec r)) of None \<Rightarrow> '''' | Some p \<Rightarrow> RecyclePool p)
        in Some (if rs_DeletionTimestamp r = None
             then \<lparr>sc_ActiveReplicas = actives, sc_StandByReplicas = standbys, StandByRatioMap = ratios, ScalerResourcePoolName = pool\<rparr>
             else \<lparr>sc_ActiveReplicas = 0, sc_StandByReplicas = 0, StandByRatioMap = [], ScalerResourcePoolName = pool\<rparr>))"

definition GetReplicas :: "RollingSet \<Rightarrow> int32" where
  "GetReplicas r =
     (case sp_Replicas (rs_SchedulePlan (rs_Spec r)) of
        None \<Rightarrow> 0
      | Some n \<Rightarrow> (case GetScaleParameters r of None \<Rightarrow> n | Some p \<Rightarrow> if scaleEnable r then sc_ActiveReplicas p else n))"

text \<open>The plan with the active replicas of scaling; its strategy is that of the deprecated \<^verbatim>\<open>ScaleSchedulePlan\<close> of the specification, which
  is dereferenced although only the one of the capacity was checked.\<close>

definition GetSchedulePlan :: "roll_env \<Rightarrow> RollingSet \<Rightarrow> roll_error + SchedulePlan" where
  "GetSchedulePlan env r =
     (let plan = rs_SchedulePlan (rs_Spec r) in
      case (sp_Replicas plan, GetScaleParameters r) of
        (Some _, Some p) \<Rightarrow>
          if \<not> scaleEnable r then Inr plan
          else
            let plan' = plan\<lparr>sp_Replicas := Some (sc_ActiveReplicas p)\<rparr> in
            (case rs_ScaleSchedulePlan (rs_Spec r) of
               None \<Rightarrow> Inl roll_error.NilDereference
             | Some s \<Rightarrow>
                 (case ds_RollingUpdate (ssp_Strategy s) of
                    None \<Rightarrow> Inr plan'
                  | Some _ \<Rightarrow>
                      (case ds_RollingUpdate (sp_Strategy plan) of
                         None \<Rightarrow> Inl roll_error.NilDereference
                       | Some ru \<Rightarrow>
                           map_sum id (\<lambda>(_, st). plan'\<lparr>sp_Strategy := st\<rparr>)
                             (FixStrategy env (sc_ActiveReplicas p) (ru_MaxUnavailable ru) (ssp_Strategy s)))))
      | _ \<Rightarrow> Inr plan)"

definition RollingSet_GetLatestVersionRatio :: "RollingSet \<Rightarrow> string \<Rightarrow> int32" where
  "RollingSet_GetLatestVersionRatio r version =
     (if ShardGroupVersion (rs_VersionPlan (rs_Spec r)) = version \<or> rs_Version (rs_Spec r) = version
      then (case sp_LatestVersionRatio (rs_SchedulePlan (rs_Spec r)) of Some n \<Rightarrow> n | None \<Rightarrow> 0) else 0)"

definition GetDependencyLevel :: "RollingSet \<Rightarrow> int32" where
  "GetDependencyLevel r = (case sp_DependencyLevel (rs_SchedulePlan (rs_Spec r)) of None \<Rightarrow> 0 | Some n \<Rightarrow> n)"

definition GetTotal :: "RollingSet \<Rightarrow> int32" where
  "GetTotal r = (case cap_Total (rs_Capacity (rs_Spec r)) of None \<Rightarrow> GetRawReplicas r | Some n \<Rightarrow> n)"

definition GetScaleStrategy :: "RollingSet \<Rightarrow> DeploymentStrategy option" where
  "GetScaleStrategy r =
     (if \<not> scaleEnable r \<or> sp_Replicas (rs_SchedulePlan (rs_Spec r)) = None \<or>
         ds_RollingUpdate (sp_Strategy (rs_SchedulePlan (rs_Spec r))) = None then None
      else case rs_ScaleSchedulePlan (rs_Spec r) of
             None \<Rightarrow> None
           | Some p \<Rightarrow> if ssp_Replicas p = None \<or> ds_RollingUpdate (ssp_Strategy p) = None then None else Some (ssp_Strategy p))"

text \<open>A rolling set as a shard of the schedulers. \<open>cpu\<close> is what \<^verbatim>\<open>GetCPU\<close> makes of a template, the limits of its containers, which
  are quantities of Kubernetes, added up; a set that knows its CPU does not ask for it. That the sum is then kept in the set is left out.\<close>

definition rollingset_shard :: "(HippoPodTemplate option \<Rightarrow> int32) \<Rightarrow> RollingSet \<Rightarrow> Shard" where
  "rollingset_shard cpu r =
     \<lparr>sh_Replicas = GetReplicas r, sh_LatestVersionRatio = RollingSet_GetLatestVersionRatio r, sh_RawReplicas = GetRawReplicas r,
      sh_DependencyLevel = GetDependencyLevel r,
      sh_CPU = (case plan_CPU (rs_VersionPlan (rs_Spec r)) of Some c \<Rightarrow> c | None \<Rightarrow> cpu (Template (rs_VersionPlan (rs_Spec r)))),
      sh_Name = rs_Name r,
      sh_CarbonRoleName = (if rs_Labels r = None then '''' else GetLabelAnnoValue (rs_Labels r) (rs_Annotations r) LabelKeyRoleName),
      sh_VersionStatus = GroupVersionStatusMap (rs_Status r), sh_ResourceVersionStatus = Some (ResourceVersionStatusMap (rs_Status r))\<rparr>"

definition IsRollingSetInRestarting :: "RollingSet \<Rightarrow> bool" where
  "IsRollingSetInRestarting r \<longleftrightarrow> rs_InstanceID (rs_Spec r) \<noteq> rst_InstanceID (rs_Status r) \<and> rst_InstanceID (rs_Status r) \<noteq> ''''"

definition RollingSetNeedGracefullyRestarting :: "RollingSet \<Rightarrow> bool" where
  "RollingSetNeedGracefullyRestarting r =
     (case rs_ScaleSchedulePlan (rs_Spec r) of
        None \<Rightarrow> False
      | Some p \<Rightarrow> rs_ScaleConfig (rs_Spec r) \<noteq> Some False \<and> SmoothRolling p)"

definition IsRollingSetGracefully :: "RollingSet \<Rightarrow> bool" where
  "IsRollingSetGracefully r \<longleftrightarrow> UpdatingGracefully (rs_VersionPlan (rs_Spec r)) \<noteq> Some False"

definition IsSubRollingSet :: "RollingSet \<Rightarrow> bool" where
  "IsSubRollingSet r \<longleftrightarrow> GroupRS (rs_Spec r) \<noteq> None"

definition RollingSet_IsQuickOnline :: "RollingSet \<Rightarrow> bool" where
  "RollingSet_IsQuickOnline r \<longleftrightarrow> GetLabelAnnoValue (rs_Labels r) (rs_Annotations r) ''app.c2.io/spread'' \<noteq> ''''"

definition GetVersionPlanWithGangPlanFromRS :: "RollingSet \<Rightarrow> VersionPlanWithGangPlan" where
  "GetVersionPlanWithGangPlanFromRS r =
     \<lparr>vpg_VersionPlan = Some (rs_VersionPlan (rs_Spec r)), GangVersionPlans = GangVersionPlan (rs_Spec r)\<rparr>"

subsection \<open>Counting replicas\<close>

text \<open>A counter of type \<^verbatim>\<open>int32\<close> over the replicas.\<close>

definition count_replicas :: "(Replica \<Rightarrow> bool) \<Rightarrow> Replica list \<Rightarrow> int32" where
  "count_replicas P rs = i32 (int (length (filter P rs)))"

definition GetAvailableReplicaCount :: "Replica list \<Rightarrow> int32" where
  "GetAvailableReplicaCount = count_replicas IsReplicaAvailable"

definition GetTotalWorkers :: "Replica list \<Rightarrow> int32" where
  "GetTotalWorkers rs = i32 (int (length rs) + int (length (filter (\<lambda>r. UID (rp_Backup r) \<noteq> '''') rs)))"

definition GetActiveReplicaCount :: "Replica list \<Rightarrow> int32 \<times> int32 \<times> int32" where
  "GetActiveReplicaCount rs =
     (count_replicas (\<lambda>r. \<not> IsStandbyReplica r) rs, count_replicas (\<lambda>r. IsStandbyReplica r \<and> \<not> IsReplicaAssigned r) rs,
      count_replicas (\<lambda>r. IsWorkerModeMisMatch (rp_worker r)) rs)"

definition replica_workers :: "Replica \<Rightarrow> WorkerNode list" where
  "replica_workers r = rp_worker r # (if UID (rp_Backup r) \<noteq> '''' then [rp_Backup r] else [])"

definition getUnassignedWorkerCount :: "Replica list \<Rightarrow> (string, int32) gomap" where
  "getUnassignedWorkerCount rs =
     fold (\<lambda>w m. if IsWorkerUnAssigned w
                  then mput (UnassignedMessage (Status w)) (i32 (mget 0 m (UnassignedMessage (Status w)) + 1)) m else m)
       (concat (map replica_workers rs)) []"

definition GroupByStandbyCount :: "Replica list \<Rightarrow> int32 \<times> int32 \<times> int32" where
  "GroupByStandbyCount rs =
     (let standbys = (\<lambda>mode. count_replicas (\<lambda>r. IsStandbyReplica r \<and> WorkerMode (Status (rp_worker r)) = mode) rs)
      in (standbys WorkerModeTypeCold, standbys WorkerModeTypeWarm, standbys WorkerModeTypeHot))"

definition GetAllocatedReplicaCount :: "Replica list \<Rightarrow> int32" where
  "GetAllocatedReplicaCount = count_replicas IsReplicaAssigned"

definition GetUpdatedReplicaCount :: "Replica list \<Rightarrow> string \<Rightarrow> int32" where
  "GetUpdatedReplicaCount rs latestVersion = count_replicas (\<lambda>r. Spec_Version (Spec (rp_worker r)) = latestVersion) rs"

definition GetCompleteReplicaCount :: "Replica list \<Rightarrow> int32" where
  "GetCompleteReplicaCount = count_replicas IsReplicaComplete"

definition GetVersionCount :: "Replica list \<Rightarrow> string \<Rightarrow> int32" where
  "GetVersionCount rs latestVersion =
     i32 (int (length (remdups (latestVersion # map (\<lambda>r. Spec_Version (Spec (rp_worker r))) rs))))"

definition GetReleasingReplicaCount :: "Replica list \<Rightarrow> int32 \<times> int32" where
  "GetReleasingReplicaCount rs =
     (count_replicas IsReplicaReleasing rs,
      i32 (int (length (filter IsReplicaReleasing rs)) + int (length (filter (\<lambda>r. IsWorkerToRelease (rp_Backup r)) rs))))"

subsection \<open>Version status\<close>

definition getGroupVersion :: "Replica \<Rightarrow> string" where
  "getGroupVersion r =
     (let w = rp_worker r in
      if ShardGroupVersion (WorkerNode.Plan w) \<noteq> '''' then ShardGroupVersion (WorkerNode.Plan w) else Spec_Version (Spec w))"

text \<open>The earlier of two timeouts, of which 0 is none.\<close>

definition earlier :: "int \<Rightarrow> int \<Rightarrow> int" where
  "earlier new timeout = (if new > 0 \<and> (new < timeout \<or> timeout = 0) then new else timeout)"

definition version_cell :: "worker_env \<Rightarrow> Replica \<Rightarrow> (string, VersionStatus) gomap \<Rightarrow> (string, VersionStatus) gomap" where
  "version_cell e r m =
     (let version = getGroupVersion r;
          st = (case map_of m version of
              None \<Rightarrow> \<lparr>vs_Version = version, vs_Replicas = 0, vs_ReadyReplicas = 0, vs_DataReadyReplicas = 0, vs_Signature = [],
                       vs_ResourceVersionStatus = []\<rparr>
            | Some s \<Rightarrow> s);
          ready = snd (snd (IsReplicaServiceReady e r));
          data = (IsWorkerHealthInfoReady (rp_worker r) \<or> (UID (rp_Backup r) \<noteq> '''' \<and> IsWorkerHealthInfoReady (rp_Backup r)));
          st = st\<lparr>vs_Replicas := i32 (vs_Replicas st + 1)\<rparr>;
          st = (if ready then st\<lparr>vs_ReadyReplicas := i32 (vs_ReadyReplicas st + 1)\<rparr> else st);
          st = (if data then st\<lparr>vs_DataReadyReplicas := i32 (vs_DataReadyReplicas st + 1)\<rparr> else st)
      in mput version st m)"

definition version_step :: "worker_env \<Rightarrow> Replica \<Rightarrow> int \<times> (string, VersionStatus) gomap \<Rightarrow> int \<times> (string, VersionStatus) gomap" where
  "version_step e r = (\<lambda>(timeout, m).
     let timeout = earlier (GetWorkerSilenceTimeout e (rp_worker r)) timeout in
     if IsStandbyReplica r then (timeout, m)
     else
       let (replicatimeout, ok) = snd (IsReplicaServiceReady e r)
       in (if ok then timeout else earlier replicatimeout timeout, version_cell e r m))"

definition GetGroupVersionStatusMap :: "worker_env \<Rightarrow> Replica list \<Rightarrow> int \<times> (string, VersionStatus) gomap" where
  "GetGroupVersionStatusMap e rs = fold (version_step e) rs (0, [])"

definition resource_step ::
  "worker_env \<Rightarrow> (string, ResourceVersionStatus) gomap \<Rightarrow> Replica \<Rightarrow> (string, ResourceVersionStatus) gomap \<Rightarrow> (string, ResourceVersionStatus) gomap" where
  "resource_step e old r m =
     (let resVersion = ResVersion (Status (rp_worker r));
          add = (\<lambda>s. s\<lparr>rvs_Replicas := i32 (rvs_Replicas s + 1),
            rvs_AvailableReplicas := (if snd (snd (IsReplicaServiceReady e r)) then i32 (rvs_AvailableReplicas s + 1) else rvs_AvailableReplicas s)\<rparr>)
      in case map_of m resVersion of
           Some s \<Rightarrow> mput resVersion (add s) m
         | None \<Rightarrow>
             (case map_of old resVersion of
                None \<Rightarrow> m
              | Some s \<Rightarrow> mput resVersion (add (s\<lparr>rvs_Replicas := 0, rvs_AvailableReplicas := 0\<rparr>)) m))"

definition getResourceVersionStatusMap ::
  "worker_env \<Rightarrow> (string, ResourceVersionStatus) gomap \<Rightarrow> Replica list \<Rightarrow> RollingSet \<Rightarrow> (string, ResourceVersionStatus) gomap" where
  "getResourceVersionStatusMap e old rs rollingSet =
     (let version = rs_ResVersion (rs_Spec rollingSet);
          old = mput version \<lparr>rvs_CPU = 0, rvs_ResourceVersion = version, rvs_Replicas = 0, rvs_AvailableReplicas = 0\<rparr> old
      in fold (resource_step e old) rs [])"

text \<open>\<^verbatim>\<open>CalculateStatus\<close>; \<open>selector\<close> is the text of the selector, when it has one.\<close>

definition CalculateStatus ::
  "worker_env \<Rightarrow> (strmap option \<Rightarrow> string option) \<Rightarrow> RollingSet \<Rightarrow> Replica list \<Rightarrow> RollingSetStatus \<times> int" where
  "CalculateStatus e selector rollingset rs =
     (let available = GetAvailableReplicaCount rs;
          total = i32 (int (length rs));
          unavailable = i32 (total - available);
          (active, unAssignedStandby, modeMisMatch) = GetActiveReplicaCount rs;
          (cold, warm, hot) = GroupByStandbyCount rs;
          (timeout, versions) = GetGroupVersionStatusMap e rs;
          spec = rs_Spec rollingset
      in (\<lparr>rst_Complete = rst_Complete (rs_Status rollingset), rst_ServiceReady = False, rst_Replicas = total,
           rst_Workers = GetTotalWorkers rs, rst_ActiveReplicas = active, rst_StandbyReplicas = i32 (total - active),
           rst_ColdStandbys = cold, rst_WarmStandbys = warm, rst_HotStandbys = hot, rst_WorkerModeMisMatchReplicas = modeMisMatch,
           rst_UnAssignedStandbyReplicas = unAssignedStandby, rst_UpdatedReplicas = GetUpdatedReplicaCount rs (rs_Version spec),
           rst_ReadyReplicas = GetCompleteReplicaCount rs, rst_AvailableReplicas = available,
           rst_UnavailableReplicas = (if unavailable < 0 then 0 else unavailable), rst_AllocatedReplicas = GetAllocatedReplicaCount rs,
           rst_ReleasingReplicas = 0, rst_ReleasingWorkers = 0, rst_UnAssignedWorkers = getUnassignedWorkerCount rs,
           rst_VersionCount = GetVersionCount rs (rs_Version spec), rst_Conditions = rst_Conditions (rs_Status rollingset),
           rst_LastUpdateStatusTime = None, GroupVersionStatusMap = versions,
           ResourceVersionStatusMap = getResourceVersionStatusMap e (ResourceVersionStatusMap (rs_Status rollingset)) rs rollingset,
           rst_Version = rs_Version spec, rst_UserDefVersion = UserDefVersion (rs_VersionPlan spec), rst_InstanceID = '''',
           UncompleteReplicaInfo = [],
           rst_LabelSelector = (case selector (rs_Selector spec) of None \<Rightarrow> '''' | Some s \<Rightarrow> s),
           SpotInstanceStatus = \<lparr>spot_Target = 0, spot_Instances = []\<rparr>\<rparr>, timeout))"

definition HasSmoothFinalizer :: "RollingSet \<Rightarrow> bool" where
  "HasSmoothFinalizer r \<longleftrightarrow> ''smoothDeletion'' \<in> set (rs_Finalizers r)"

end
