(* ===== verification/RollingStatus.thy ===== *)
theory RollingStatus
  imports RollingSet
begin

text \<open>
  What the status of a rolling set says: the version map counts the active replicas of every version, so that the set is a well-formed
  shard for the group scheduler; the counters of the status agree with each other; and the capacity is split without loss.
\<close>

subsection \<open>The version map\<close>

text \<open>The status of a version that the replicas make, and the replicas that count.\<close>

definition of_version :: "string \<Rightarrow> Replica list \<Rightarrow> Replica list" where
  "of_version v rs = filter (\<lambda>r. \<not> IsStandbyReplica r \<and> getGroupVersion r = v) rs"

definition data_ready :: "Replica \<Rightarrow> bool" where
  "data_ready r \<longleftrightarrow> IsWorkerHealthInfoReady (rp_worker r) \<or> (UID (rp_Backup r) \<noteq> [] \<and> IsWorkerHealthInfoReady (rp_Backup r))"

definition version_status :: "worker_env \<Rightarrow> string \<Rightarrow> Replica list \<Rightarrow> VersionStatus option" where
  "version_status e v rs =
     (if of_version v rs = [] then None
      else Some \<lparr>vs_Version = v, vs_Replicas = int (length (of_version v rs)),
        vs_ReadyReplicas = int (length (filter (\<lambda>r. snd (snd (IsReplicaServiceReady e r))) (of_version v rs))),
        vs_DataReadyReplicas = int (length (filter data_ready (of_version v rs))), vs_Signature = [], vs_ResourceVersionStatus = []\<rparr>)"

abbreviation small :: "'a list \<Rightarrow> bool" where
  "small xs \<equiv> int (length xs) < 2147483648"

lemma of_version_snoc:
  "of_version v (rs @ [r]) = of_version v rs @ (if \<not> IsStandbyReplica r \<and> getGroupVersion r = v then [r] else [])"
  by (simp add: of_version_def)

lemma of_version_length: "length (of_version v rs) \<le> length rs" "length (filter P (of_version v rs)) \<le> length rs"
  unfolding of_version_def by (rule length_filter_le) (simp add: le_trans [OF length_filter_le length_filter_le])

lemma version_cell_status:
  assumes "\<And>v. map_of m v = version_status e v rs" "small (rs @ [r])" "\<not> IsStandbyReplica r"
  shows "map_of (version_cell e r m) v = version_status e v (rs @ [r])"
proof -
  have b: "i32 (int (length (of_version w rs)) + 1) = int (length (of_version w rs)) + 1"
    "i32 (int (length (filter P (of_version w rs))) + 1) = int (length (filter P (of_version w rs))) + 1" for w P
    using assms(2) of_version_length(1) [of w rs] of_version_length(2) [of P w rs] by (simp_all add: i32_id)
  show ?thesis
    using b(1) [of "getGroupVersion r"] b(2) [where w = "getGroupVersion r"] assms(3)
    by (simp add: version_cell_def Let_def update_conv assms(1) version_status_def of_version_snoc data_ready_def [symmetric] i32_id)
qed

lemma version_fold:
  "small rs \<Longrightarrow> (\<forall>v. map_of (snd (fold (version_step e) rs (0, []))) v = version_status e v rs) \<and> wf_map (snd (fold (version_step e) rs (0, [])))"
proof (induction rs rule: rev_induct)
  case Nil
  then show ?case by (simp add: version_status_def of_version_def)
next
  case (snoc r rs)
  obtain t m where f: "fold (version_step e) rs (0, []) = (t, m)" by (cases "fold (version_step e) rs (0, [])")
  then have f': "fold (version_step e) (rs @ [r]) (0, []) = version_step e r (t, m)" by simp
  have ih: "\<And>v. map_of m v = version_status e v rs" "wf_map m" using snoc f by auto
  show ?case
  proof (cases "IsStandbyReplica r")
    case True
    then have "version_status e v (rs @ [r]) = version_status e v rs" for v by (simp add: version_status_def of_version_snoc)
    then show ?thesis using ih True unfolding f' by (simp add: version_step_def Let_def)
  next
    case False
    have s: "snd (fold (version_step e) (rs @ [r]) (0, [])) = version_cell e r m"
      using False unfolding f' by (simp add: version_step_def Let_def split: prod.split)
    show ?thesis
      using version_cell_status [OF ih(1) snoc.prems False] ih(2) unfolding s by (simp add: version_cell_def Let_def)
  qed
qed

lemma sum_mput:
  fixes f :: "'v \<Rightarrow> int"
  assumes "wf_map m"
  shows "(\<Sum>p\<leftarrow>mput k v m. f (snd p)) = (\<Sum>p\<leftarrow>m. f (snd p)) + f v - (case map_of m k of None \<Rightarrow> 0 | Some x \<Rightarrow> f x)"
  using assms
proof (induction m)
  case (Cons p m)
  show ?case
  proof (cases "fst p = k")
    case True
    then have "map_of m k = None" using Cons.prems by (auto simp: map_of_eq_None_iff)
    then show ?thesis using True by (cases p) auto
  next
    case False
    then show ?thesis using Cons by (cases p) auto
  qed
qed simp

lemma version_total:
  "small rs \<Longrightarrow> (\<Sum>p\<leftarrow>snd (fold (version_step e) rs (0, [])). vs_Replicas (snd p)) = int (length (filter (\<lambda>r. \<not> IsStandbyReplica r) rs))"
proof (induction rs rule: rev_induct)
  case (snoc r rs)
  obtain t m where f: "fold (version_step e) rs (0, []) = (t, m)" by (cases "fold (version_step e) rs (0, [])")
  then have f': "fold (version_step e) (rs @ [r]) (0, []) = version_step e r (t, m)" by simp
  have m: "\<And>v. map_of m v = version_status e v rs" "wf_map m" using version_fold [of rs e] snoc.prems f by auto
  have ih: "(\<Sum>p\<leftarrow>m. vs_Replicas (snd p)) = int (length (filter (\<lambda>r. \<not> IsStandbyReplica r) rs))" using snoc f by simp
  show ?case
  proof (cases "IsStandbyReplica r")
    case True
    then show ?thesis using ih unfolding f' by (simp add: version_step_def Let_def)
  next
    case False
    let ?v = "getGroupVersion r"
    have "i32 (int (length (of_version ?v rs)) + 1) = int (length (of_version ?v rs)) + 1"
      using snoc.prems of_version_length(1) [of ?v rs] by (simp add: i32_id)
    then have "(\<Sum>p\<leftarrow>version_cell e r m. vs_Replicas (snd p)) = (\<Sum>p\<leftarrow>m. vs_Replicas (snd p)) + 1"
      by (simp add: version_cell_def Let_def sum_mput [OF m(2)] m(1) version_status_def i32_id)
    then show ?thesis using ih False unfolding f' by (simp add: version_step_def Let_def split: prod.split)
  qed
qed simp

text \<open>
  C23. The version map of a rolling set counts its replicas exactly: a version has an entry if and only if an active replica has it, with the
  number of those replicas, of the ready ones among them, and of those whose data is ready on the worker or its backup.
\<close>

theorem GetGroupVersionStatusMap_counts:
  assumes "small rs"
  shows "map_of (snd (GetGroupVersionStatusMap e rs)) v =
    (let vs = filter (\<lambda>r. \<not> IsStandbyReplica r \<and> getGroupVersion r = v) rs in
     if vs = [] then None
     else Some \<lparr>vs_Version = v, vs_Replicas = int (length vs), vs_ReadyReplicas = int (length (filter (\<lambda>r. snd (snd (IsReplicaServiceReady e r))) vs)),
       vs_DataReadyReplicas = int (length (filter data_ready vs)), vs_Signature = [], vs_ResourceVersionStatus = []\<rparr>)"
  using version_fold [OF assms, of e] by (simp add: GetGroupVersionStatusMap_def version_status_def of_version_def Let_def)

theorem GetGroupVersionStatusMap_counts_witness:
  "map_of (snd (GetGroupVersionStatusMap sample_env [sample_replica WorkerAssigned WorkerModeTypeActive, sample_replica WorkerLost WorkerModeTypeCold])) [] =
    Some \<lparr>vs_Version = [], vs_Replicas = 1, vs_ReadyReplicas = 0, vs_DataReadyReplicas = 0, vs_Signature = [], vs_ResourceVersionStatus = []\<rparr>"
proof -
  let ?a = "sample_replica WorkerAssigned WorkerModeTypeActive" and ?b = "sample_replica WorkerLost WorkerModeTypeCold"
  have "\<not> IsStandbyReplica ?a" "IsStandbyReplica ?b" "getGroupVersion ?a = []" "\<not> snd (snd (IsReplicaServiceReady sample_env ?a))" "\<not> data_ready ?a"
    by code_simp+
  then show ?thesis using GetGroupVersionStatusMap_counts [of "[?a, ?b]" sample_env "[]"] by simp
qed

subsection \<open>The set as a shard\<close>

text \<open>
  C24. A rolling set whose status was just computed is a well-formed shard for the group scheduler: no version has more ready replicas than
  replicas, and the replicas of all versions do not overflow. The number of replicas asked for was checked to be no negative number.
\<close>

theorem rollingset_shard_ok:
  assumes "small rs" "0 \<le> GetReplicas r" "GetReplicas r < 2147483648"
    "GroupVersionStatusMap (rs_Status r) = snd (GetGroupVersionStatusMap e rs)"
  shows "shard_ok (rollingset_shard cpu r)"
proof -
  let ?m = "snd (fold (version_step e) rs (0, []))"
  note f = version_fold [OF assms(1), of e]
  have "0 \<le> vs_ReadyReplicas (snd p) \<and> vs_ReadyReplicas (snd p) \<le> vs_Replicas (snd p)" if "p \<in> set ?m" for p
  proof -
    have "map_of ?m (fst p) = Some (snd p)" using f that by (intro map_of_is_SomeI) auto
    then have "version_status e (fst p) rs = Some (snd p)" using f by simp
    then show ?thesis
      using length_filter_le [of "\<lambda>r. snd (snd (IsReplicaServiceReady e r))" "of_version (fst p) rs"]
      by (cases "snd p") (auto simp: version_status_def split: if_splits)
  qed
  moreover have "int (length (filter (\<lambda>r. \<not> IsStandbyReplica r) rs)) < 2147483648"
    using assms(1) length_filter_le [of "\<lambda>r. \<not> IsStandbyReplica r" rs] by linarith
  ultimately show ?thesis
    using f assms(2-4) version_total [OF assms(1), of e]
    by (simp add: shard_ok_def rollingset_shard_def GetGroupVersionStatusMap_def status_total_def list_all_iff)
qed

text \<open>An example: a set of two replicas, one of them a cold standby.\<close>

definition empty_status_rs :: RollingSetStatus where
  "empty_status_rs = \<lparr>rst_Complete = False, rst_ServiceReady = False, rst_Replicas = 0, rst_Workers = 0, rst_ActiveReplicas = 0,
     rst_StandbyReplicas = 0, rst_ColdStandbys = 0, rst_WarmStandbys = 0, rst_HotStandbys = 0, rst_WorkerModeMisMatchReplicas = 0,
     rst_UnAssignedStandbyReplicas = 0, rst_UpdatedReplicas = 0, rst_ReadyReplicas = 0, rst_AvailableReplicas = 0,
     rst_UnavailableReplicas = 0, rst_AllocatedReplicas = 0, rst_ReleasingReplicas = 0, rst_ReleasingWorkers = 0,
     rst_UnAssignedWorkers = [], rst_VersionCount = 0, rst_Conditions = [], rst_LastUpdateStatusTime = None, GroupVersionStatusMap = [],
     ResourceVersionStatusMap = [], rst_Version = [], rst_UserDefVersion = [], rst_InstanceID = [], UncompleteReplicaInfo = [],
     rst_LabelSelector = [], SpotInstanceStatus = \<lparr>spot_Target = 0, spot_Instances = []\<rparr>\<rparr>"

definition sample_set :: RollingSet where
  "sample_set = \<lparr>rs_Name = ''rs'', rs_Namespace = ''ns'', rs_ResourceVersion = [], rs_Labels = None, rs_Annotations = None,
     rs_DeletionTimestamp = None, rs_Finalizers = [],
     rs_Spec = \<lparr>rs_Selector = Some None, rs_SchedulePlan = zero_plan\<lparr>sp_Replicas := Some 2, sp_Strategy := \<lparr>ds_Type = [],
         ds_RollingUpdate = Some \<lparr>ru_MaxUnavailable = None, ru_MaxSurge = None\<rparr>\<rparr>\<rparr>,
       rs_ScaleSchedulePlan = None, rs_ScaleConfig = None,
       rs_Capacity = \<lparr>cap_Total = None, cap_Distribute = None, cap_ScaleSchedulePlan = None, cap_ScaleConfig = None\<rparr>,
       GroupRS = None, rs_ResVersion = ''v'', rs_Version = ''v'', rs_InstanceID = [], rs_VersionPlan = empty_plan, PredictInfo = [],
       GangVersionPlan = [], rs_HealthCheckerConfig = None\<rparr>,
     rs_Status = empty_status_rs\<rparr>"

abbreviation sample_replicas :: "Replica list" where
  "sample_replicas \<equiv> [sample_replica WorkerAssigned WorkerModeTypeActive, sample_replica WorkerLost WorkerModeTypeCold]"

theorem rollingset_shard_ok_witness:
  "shard_ok (rollingset_shard (\<lambda>_. 0) (sample_set\<lparr>rs_Status := empty_status_rs\<lparr>GroupVersionStatusMap :=
     snd (GetGroupVersionStatusMap sample_env sample_replicas)\<rparr>\<rparr>))"
  by (rule rollingset_shard_ok [of sample_replicas])
    (simp_all add: GetReplicas_def GetScaleParameters_def scale_plan_def sample_set_def)

subsection \<open>The counters\<close>

lemma count_small: "small rs \<Longrightarrow> count_replicas P rs = int (length (filter P rs))"
  unfolding count_replicas_def using length_filter_le [of P rs] by (intro i32_id) linarith+

lemma count_split: "int (length (filter P rs)) + int (length (filter (\<lambda>r. \<not> P r) rs)) = int (length rs)"
  by (induction rs) auto

lemma count_mono: "(\<And>r. P r \<Longrightarrow> Q r) \<Longrightarrow> int (length (filter P rs)) \<le> int (length (filter Q rs))"
  by (induction rs) auto

lemma count_modes:
  "int (length (filter (\<lambda>r. S r \<and> f r = a) rs)) + int (length (filter (\<lambda>r. S r \<and> f r = b) rs)) + int (length (filter (\<lambda>r. S r \<and> f r = c) rs))
    \<le> int (length (filter S rs))" if "a \<noteq> b" "a \<noteq> c" "b \<noteq> c"
  using that by (induction rs) auto

text \<open>
  The counters of a rolling set's status agree: active and standby replicas make up the total, as do available and unavailable ones; the
  standbys by mode are among the standbys; complete replicas are available; the version map adds up to the active replicas; and there is
  at least one version.
\<close>

theorem CalculateStatus_consistent:
  fixes e :: worker_env and selector :: "strmap option \<Rightarrow> string option" and r :: RollingSet and rs :: "Replica list"
  assumes "small rs"
  defines "s \<equiv> fst (CalculateStatus e selector r rs)"
  shows "rst_ActiveReplicas s + rst_StandbyReplicas s = rst_Replicas s \<and> rst_AvailableReplicas s + rst_UnavailableReplicas s = rst_Replicas s \<and>
    rst_ColdStandbys s + rst_WarmStandbys s + rst_HotStandbys s \<le> rst_StandbyReplicas s \<and>
    rst_UnAssignedStandbyReplicas s \<le> rst_StandbyReplicas s \<and> rst_ReadyReplicas s \<le> rst_AvailableReplicas s \<and>
    (\<Sum>p\<leftarrow>GroupVersionStatusMap s. vs_Replicas (snd p)) = rst_ActiveReplicas s"
proof -
  let ?n = "\<lambda>P. int (length (filter P rs))"
  have le: "?n P \<le> int (length rs)" "0 \<le> ?n P" for P by simp_all
  have st: "rst_Replicas s = int (length rs)" "rst_ActiveReplicas s = ?n (\<lambda>r. \<not> IsStandbyReplica r)"
    "rst_AvailableReplicas s = ?n IsReplicaAvailable" "rst_ReadyReplicas s = ?n IsReplicaComplete"
    "rst_UnAssignedStandbyReplicas s = ?n (\<lambda>r. IsStandbyReplica r \<and> \<not> IsReplicaAssigned r)"
    "rst_ColdStandbys s = ?n (\<lambda>r. IsStandbyReplica r \<and> WorkerMode (Status (rp_worker r)) = WorkerModeTypeCold)"
    "rst_WarmStandbys s = ?n (\<lambda>r. IsStandbyReplica r \<and> WorkerMode (Status (rp_worker r)) = WorkerModeTypeWarm)"
    "rst_HotStandbys s = ?n (\<lambda>r. IsStandbyReplica r \<and> WorkerMode (Status (rp_worker r)) = WorkerModeTypeHot)"
    using assms(1) by (simp_all add: s_def CalculateStatus_def GetActiveReplicaCount_def GroupByStandbyCount_def GetAvailableReplicaCount_def
        GetCompleteReplicaCount_def count_small i32_id Let_def split: prod.split)
  have "rst_StandbyReplicas s = i32 (rst_Replicas s - rst_ActiveReplicas s)"
    "rst_UnavailableReplicas s = (let u = i32 (rst_Replicas s - rst_AvailableReplicas s) in if u < 0 then 0 else u)"
    by (simp_all add: s_def CalculateStatus_def Let_def split: prod.split)
  then have d: "rst_StandbyReplicas s = ?n IsStandbyReplica" "rst_UnavailableReplicas s = int (length rs) - ?n IsReplicaAvailable"
    using count_split [of IsStandbyReplica rs] le [of IsReplicaAvailable] le [of IsStandbyReplica] assms(1) by (simp_all add: st i32_id Let_def)
  have "GroupVersionStatusMap s = snd (GetGroupVersionStatusMap e rs)"
    by (simp add: s_def CalculateStatus_def Let_def split: prod.split)
  then have "(\<Sum>p\<leftarrow>GroupVersionStatusMap s. vs_Replicas (snd p)) = rst_ActiveReplicas s"
    using version_total [OF assms(1), of e] by (simp add: GetGroupVersionStatusMap_def st)
  moreover have "?n (\<lambda>r. IsStandbyReplica r \<and> \<not> IsReplicaAssigned r) \<le> ?n IsStandbyReplica" "?n IsReplicaComplete \<le> ?n IsReplicaAvailable"
    by (rule count_mono; simp add: IsReplicaComplete_def)+
  ultimately show ?thesis
    using count_split [of IsStandbyReplica rs]
      count_modes [of WorkerModeTypeCold WorkerModeTypeWarm WorkerModeTypeHot IsStandbyReplica "\<lambda>r. WorkerMode (Status (rp_worker r))" rs]
    by (simp add: st d)
qed

theorem CalculateStatus_consistent_witness:
  "rst_ActiveReplicas (fst (CalculateStatus sample_env (\<lambda>_. None) sample_set sample_replicas)) +
     rst_StandbyReplicas (fst (CalculateStatus sample_env (\<lambda>_. None) sample_set sample_replicas)) =
   rst_Replicas (fst (CalculateStatus sample_env (\<lambda>_. None) sample_set sample_replicas))"
  using CalculateStatus_consistent [of sample_replicas] by simp

subsection \<open>The capacity\<close>

text \<open>
  The capacity is split without loss: the active replicas are those of the scaling plan, or all of them, and the standbys fill up to the
  total, so that together they make the larger of the two. Some standby mode always has a share.
\<close>

theorem getReserveCapacity_split:
  assumes "getReserveCapacity r = ((cold, warm, hot, inactive), standbys, actives)" "0 \<le> actives" "actives < 2147483648"
    "0 \<le> GetTotal r" "GetTotal r < 2147483648"
  shows "actives + standbys = max actives (GetTotal r) \<and>
    actives = (case scale_plan r of Some p \<Rightarrow> if ScaleSchedulePlan_getReplicas p > 0 then ScaleSchedulePlan_getReplicas p else GetRawReplicas r
      | None \<Rightarrow> GetRawReplicas r) \<and>
    (cold, warm, hot, inactive) \<noteq> (0, 0, 0, 0)"
proof -
  have t: "(case cap_Total (rs_Capacity (rs_Spec r)) of Some n \<Rightarrow> n | None \<Rightarrow> GetRawReplicas r) = GetTotal r"
    by (simp add: GetTotal_def split: option.split)
  have a: "snd (snd (getReserveCapacity r)) = (case scale_plan r of
      Some p \<Rightarrow> if ScaleSchedulePlan_getReplicas p > 0 then ScaleSchedulePlan_getReplicas p else GetRawReplicas r | None \<Rightarrow> GetRawReplicas r)"
    by (simp add: getReserveCapacity_def Let_def split: prod.split option.split)
  have "fst (snd (getReserveCapacity r)) = (let b = i32 (GetTotal r - snd (snd (getReserveCapacity r))) in if b < 0 then 0 else b)"
    unfolding a by (simp add: getReserveCapacity_def t Let_def split: prod.split option.split)
  then have "standbys = max 0 (GetTotal r - actives)" using assms by (simp add: i32_id Let_def)
  moreover have "(cold, warm, hot, inactive) \<noteq> (0, 0, 0, 0)"
    using assms(1) by (auto simp: getReserveCapacity_def Let_def split: prod.splits if_splits)
  ultimately show ?thesis using a assms(1) by auto
qed

theorem getReserveCapacity_split_witness:
  "\<exists>q standbys actives. getReserveCapacity sample_set = (q, standbys, actives) \<and> actives + standbys = 2"
proof -
  have e: "getReserveCapacity sample_set = ((0, 0, 100, 0), 0, 2)" "GetTotal sample_set = 2"
    by (simp_all add: getReserveCapacity_def scale_plan_def GetRawReplicas_def GetTotal_def sample_set_def)
  show ?thesis using getReserveCapacity_split [OF e(1)] e by simp
qed

end
