(* ===== verification/WorkerMachine.thy ===== *)
theory WorkerMachine
  imports Pods
begin

text \<open>
  \<^verbatim>\<open>controller/worker/worker_processor.go\<close>: the state machine that moves one worker between its allocation
  statuses. It calls the interface \<^verbatim>\<open>workerAllocator\<close>: a record of operations on the allocator's own state and on the
  worker (both are pointers in the code), each with a flag that says whether it succeeded; the services of the worker
  are looked up by a function. The machine keeps the worker, the allocator's state, the pod and a log of the calls
  that touch the pod, with the worker as it was when they were made.
\<close>

subsection \<open>State\<close>

datatype pod_action = PodAllocate WorkerNode | PodDelete WorkerNode | PodSpecSync WorkerNode

type_synonym 's alloc_op = "'s \<times> WorkerNode \<Rightarrow> ('s \<times> WorkerNode) \<times> bool"

record 's allocator =
  al_allocate :: "'s alloc_op"
  al_delete :: "'s alloc_op"
  al_syncPodSpec :: "'s alloc_op"
  al_syncPodMetas :: "'s alloc_op"
  al_syncWorkerStatus :: "'s alloc_op"
  al_syncWorkerAllocStatus :: "'s alloc_op"
  al_services :: "WorkerNode \<Rightarrow> ServicePublisher list option"

record 's machine =
  mw :: WorkerNode
  mal :: 's
  mpod :: "Pod option"
  mlog :: "pod_action list"

abbreviation on_worker :: "(WorkerNode \<Rightarrow> WorkerNode) \<Rightarrow> 's machine \<Rightarrow> 's machine" where
  "on_worker f m \<equiv> m\<lparr>mw := f (mw m)\<rparr>"

abbreviation status_of :: "'s machine \<Rightarrow> AllocStatus" where
  "status_of m \<equiv> st_AllocStatus (Status (mw m))"

text \<open>A call of the allocator, and one that is logged.\<close>

definition call_op :: "'s alloc_op \<Rightarrow> 's machine \<Rightarrow> 's machine \<times> bool" where
  "call_op f m = (case f (mal m, mw m) of ((s, w), ok) \<Rightarrow> (m\<lparr>mal := s, mw := w\<rparr>, ok))"

definition logged_op :: "(WorkerNode \<Rightarrow> pod_action) \<Rightarrow> 's alloc_op \<Rightarrow> 's machine \<Rightarrow> 's machine \<times> bool" where
  "logged_op a f m = call_op f (m\<lparr>mlog := mlog m @ [a (mw m)]\<rparr>)"

abbreviation "ColdResourceUpdateState \<equiv> ''app.c2.io/cold-resource-update-state''"
abbreviation "ColdUpdateStateWaitingWarmAssgin \<equiv> ''waiting_warm_assagin''"
abbreviation "ColdUpdateStateWarmResourceReplace \<equiv> ''warm_resource_replace''"
abbreviation "GroupTypeKey \<equiv> ''app.c2.io/group-type''"
abbreviation "GroupTypeReplica \<equiv> ''replica''"

definition syncRrResourceUpdateState :: "WorkerNode \<Rightarrow> WorkerNode" where
  "syncRrResourceUpdateState w =
     (if shas (Annotations w) ColdResourceUpdateState \<and> sget (Annotations w) ColdResourceUpdateState = ColdUpdateStateWaitingWarmAssgin
      then w\<lparr>Annotations := sput ColdResourceUpdateState ColdUpdateStateWarmResourceReplace (Annotations w)\<rparr>
      else w)"

subsection \<open>Graceful updates\<close>

definition shouldGracefullyRestart :: "worker_env \<Rightarrow> WorkerNode \<Rightarrow> bool" where
  "shouldGracefullyRestart e w \<longleftrightarrow> UnPubRestartingNode e \<or> (WarmupNewStartingPod e \<and> NeedWarmup w)"

definition needOfflineForRestart :: "worker_env \<Rightarrow> WorkerNode \<Rightarrow> bool" where
  "needOfflineForRestart e w \<longleftrightarrow> shouldGracefullyRestart e w \<and> InRestarting (Status w)"

definition offlineForRestart :: "worker_env \<Rightarrow> WorkerNode \<Rightarrow> bool" where
  "offlineForRestart e w \<longleftrightarrow> needOfflineForRestart e w \<and> \<not> ServiceOffline (Status w) \<and>
     (IsWorkerVersionMisMatch w \<or> IsWorkerModeMisMatch w)"

definition shouldUpdateGracefully :: "worker_env \<Rightarrow> WorkerNode \<Rightarrow> bool" where
  "shouldUpdateGracefully e w \<longleftrightarrow> IsWorkerGracefully w \<or> needOfflineForRestart e w"

definition processNeedWarmUp :: "worker_env \<Rightarrow> WorkerNode \<Rightarrow> WorkerNode" where
  "processNeedWarmUp e w =
     (let w = (if WarmupUnavailablePod e \<and> \<not> Warmup (Status w) \<and> InUpdating (Status w) \<and> IsWorkerUnserviceable w \<and>
                 \<not> IsWorkerHealthInfoReady w
               then set_status (\<lambda>s. s\<lparr>st_NeedWarmup := NeedWarmup w\<rparr>) w else w)
      in if st_NeedWarmup (Status w) \<and> \<not> IsWorkerGracefully w then set_status (\<lambda>s. s\<lparr>ServiceOffline := True\<rparr>) w else w)"

definition processUpdateGracefully :: "worker_env \<Rightarrow> WorkerNode \<Rightarrow> WorkerNode \<times> bool" where
  "processUpdateGracefully e w =
     (if shouldUpdateGracefully e w then
        if IsWorkerVersionMisMatch w \<or> IsWorkerModeMisMatch w then
          let w = SyncWorkerServiceHealthStatus (set_status (\<lambda>s. s\<lparr>ServiceOffline := True\<rparr>) w)
          in (w, IsWorkerUnpublished w)
        else (processNeedWarmUp e w, True)
      else (processNeedWarmUp e (set_status (\<lambda>s. s\<lparr>ServiceOffline := \<not> IsWorkerOnline w\<rparr>) w), True))"

text \<open>The result of \<^verbatim>\<open>processPlan\<close>: an error, or whether to go on.\<close>

definition processPlan :: "worker_env \<Rightarrow> 's allocator \<Rightarrow> 's machine \<Rightarrow> 's machine \<times> bool option" where
  "processPlan e al m =
     (if IsWorkerRollback (mw m) then (on_worker (set_status (\<lambda>s. s\<lparr>Version := ''''\<rparr>)) m, Some False)
      else if IsWorkerInnerVerMatch (mw m)
      then (on_worker (\<lambda>w. set_status (\<lambda>s. s\<lparr>Version := Spec_Version (Spec w)\<rparr>) w) m, Some True)
      else
        let (m, ok) = logged_op PodSpecSync (al_syncPodSpec al) m
        in if \<not> ok then (m, None)
           else if offlineForRestart e (mw m) then (m, Some False)
           else
             let (m, ok) = call_op (al_syncWorkerStatus al) m
             in if \<not> ok then (m, None)
                else if IsWorkerVersionMisMatch (mw m) then (m, Some False)
                else if IsWorkerModeMisMatch (mw m) then (m, Some False)
                else if \<not> IsWorkerDependencyReady (mw m) then (m, Some False)
                else (m, Some True))"

definition syncSingleHealthInfo :: "WorkerNode \<Rightarrow> WorkerNode" where
  "syncSingleHealthInfo w =
     (if OwnerReferences w = [] \<or> sget (Labels w) GroupTypeKey = GroupTypeReplica then
        set_status (\<lambda>s. s\<lparr>st_HealthCondition := (st_HealthCondition s)\<lparr>hc_Status := GetHealthStatusByPhase w, hc_Version := Version s\<rparr>,
          st_HealthStatus := GetHealthStatusByPhase w\<rparr>) w
      else w)"

definition processHealthInfo :: "worker_env \<Rightarrow> WorkerNode \<Rightarrow> WorkerNode \<times> bool" where
  "processHealthInfo e w =
     (let w = syncSingleHealthInfo w in
      if IsWorkerHealthInfoReady w \<and> IsWorkerDependencyReady w
      then (set_status (\<lambda>s. s\<lparr>WorkerReady := True, LastWorkerNotReadytime := 0\<rparr>) w, True)
      else if \<not> IsWorkerHealthInfoReady w
      then (processNeedWarmUp e (set_status (\<lambda>s. s\<lparr>WorkerReady := False,
              LastWorkerNotReadytime := (if LastWorkerNotReadytime s = 0 then Now e else LastWorkerNotReadytime s)\<rparr>) w), False)
      else (w, False))"

definition end_warmup :: "worker_env \<Rightarrow> WorkerNode \<Rightarrow> WorkerNode" where
  "end_warmup e w =
     (if \<not> ServiceOffline (Status w) \<and> Warmup (Status w) \<and> LastWarmupStartTime (Status w) \<noteq> 0 \<and>
         Now e - LastWarmupStartTime (Status w) > WarmupSeconds (Plan w)
      then set_status (\<lambda>s. s\<lparr>Warmup := False, InWarmup := False, LastWarmupStartTime := 0, LastWarmupEndTime := Now e\<rparr>) w
      else w)"

definition processServiceInfo :: "worker_env \<Rightarrow> WorkerNode \<Rightarrow> WorkerNode \<times> bool" where
  "processServiceInfo e w =
     (let finish = (\<lambda>w. let w = SyncWorkerServiceHealthStatus w in (w, IsWorkerServiceMatch w)) in
      if IsWorkerGracefully w \<or> shouldGracefullyRestart e w \<or> st_NeedWarmup (Status w) \<or> Warmup (Status w) then
        if st_NeedWarmup (Status w) \<and> \<not> IsWorkerRowComplete w \<and> WarmupUnavailablePod e then (w, False)
        else
          let w = (if st_NeedWarmup (Status w) then set_status (\<lambda>s. s\<lparr>Warmup := True, st_NeedWarmup := False\<rparr>) w else w);
              w = (if ServiceOffline (Status w) \<noteq> (\<not> IsWorkerOnline w)
                   then set_status (\<lambda>s. s\<lparr>InRestarting := False, ServiceOffline := \<not> IsWorkerOnline w\<rparr>) w else w)
          in finish (end_warmup e w)
      else finish w)"

subsection \<open>The handlers of the statuses\<close>

definition tryToReleaseWorker :: "WorkerNode \<Rightarrow> WorkerNode" where
  "tryToReleaseWorker w = (if IsWorkerGracefully w then SetWorkerOfflining w else SetWorkerReleasing w)"

definition prepare :: "'s allocator \<Rightarrow> 's machine \<Rightarrow> 's machine \<times> bool" where
  "prepare al m =
     (let (m, ok) = call_op (al_syncWorkerAllocStatus al) m in (on_worker (\<lambda>w. SyncWorkerInUpdating (InitWorkerNode w)) m, ok))"

definition dealwithReleasing :: "'s allocator \<Rightarrow> 's machine \<Rightarrow> 's machine \<times> bool" where
  "dealwithReleasing al m =
     (let release = (\<lambda>m. if IsWorkerEmpty (mw m) then on_worker SetWorkerReleased m else m) in
      case mpod m of
        None \<Rightarrow> (release m, True)
      | Some _ \<Rightarrow>
          let (m, ok) = logged_op PodDelete (al_delete al) m
          in if \<not> ok then (m, False)
             else (release (m\<lparr>mpod := None, mw := SetWorkerEntity '''' '''' (SetWorkerEntityAlloced False (mw m))\<rparr>), True))"

definition dealwithOfflining :: "'s machine \<Rightarrow> 's machine \<times> bool" where
  "dealwithOfflining m =
     (let w = SyncWorkerServiceHealthStatus (set_status (\<lambda>s. s\<lparr>ServiceOffline := True\<rparr>) (mw m)) in
      (m\<lparr>mw := (if IsWorkerOfflined w \<or> IsWorkerIrrecoverable w then SetWorkerReleasing w else w)\<rparr>, True))"

definition dealwithLost :: "'s machine \<Rightarrow> 's machine \<times> bool" where
  "dealwithLost m = (if IsWorkerToRelease (mw m) then on_worker tryToReleaseWorker m else m, True)"

definition initServiceConditions :: "worker_env \<Rightarrow> 's allocator \<Rightarrow> WorkerNode \<Rightarrow> WorkerNode \<times> bool" where
  "initServiceConditions e al w =
     (if IsWorkerToRelease w then (w, True)
      else case al_services al w of
        None \<Rightarrow> (w, False)
      | Some services \<Rightarrow>
          (if services \<noteq> [] \<and> ServiceConditions (Status w) = [] then
             fold (\<lambda>service w. if sp_SoftDelete service then w
               else SetWorkerServiceHealthCondition e service '''' ConditionFalse 0 InitServiceFalseState '''' False False w) services w
           else w, True))"

definition needAllocate :: "'s machine \<Rightarrow> bool" where
  "needAllocate m \<longleftrightarrow> IsWorkerEmpty (mw m) \<and> \<not> IsWorkerToRelease (mw m) \<and>
     Spec_WorkerMode (Spec (mw m)) \<noteq> WorkerModeTypeCold \<and> (case mpod m of None \<Rightarrow> True | Some _ \<Rightarrow> False)"

definition sync_unassigned_pod :: "'s allocator \<Rightarrow> 's machine \<Rightarrow> 's machine" where
  "sync_unassigned_pod al m =
     (case mpod m of
        None \<Rightarrow> m
      | Some _ \<Rightarrow>
          if IsWorkerUnAssigned (mw m) \<and> \<not> IsWorkerToRelease (mw m)
          then fst (logged_op PodSpecSync (al_syncPodSpec al) m) else m)"

definition dealwithUnAssigned :: "worker_env \<Rightarrow> 's allocator \<Rightarrow> 's machine \<Rightarrow> 's machine \<times> bool" where
  "dealwithUnAssigned e al m =
     (let (w, ok) = initServiceConditions e al (mw m); m = m\<lparr>mw := w\<rparr> in
      if \<not> ok then (m, False)
      else if IsWorkerEntityAlloced w then
        let w = (if WarmupNewStartingPod e then set_status (\<lambda>s. s\<lparr>st_NeedWarmup := NeedWarmup w\<rparr>) w else w);
            w = SetWorkerAssigned e (set_status (\<lambda>s. s\<lparr>InRestarting := True\<rparr>) w)
        in (sync_unassigned_pod al (m\<lparr>mw := w\<rparr>), True)
      else if IsWorkerEmpty w \<and> IsWorkerToRelease w then
        (case mpod m of
           None \<Rightarrow> (sync_unassigned_pod al (on_worker SetWorkerReleased m), True)
         | Some _ \<Rightarrow>
             let (m, ok) = logged_op PodDelete (al_delete al) m
             in if \<not> ok then (m, False)
                else (sync_unassigned_pod al (on_worker SetWorkerReleased (m\<lparr>mpod := None\<rparr>)), True))
      else if \<not> IsWorkerEmpty w \<and> IsWorkerToRelease w \<and> \<not> IsWorkerEntityAlloced w then
        (sync_unassigned_pod al (on_worker tryToReleaseWorker m), True)
      else if needAllocate m then
        let (m, ok) = logged_op PodAllocate (al_allocate al) m
        in (if ok then m else on_worker (SetUnassignedReason UnassignedReasonCreatePodErr) m, True)
      else (case mpod m of
          None \<Rightarrow> (sync_unassigned_pod al m, True)
        | Some _ \<Rightarrow> (sync_unassigned_pod al (on_worker (SetUnassignedReason (GetUnassignedResson (mpod m))) m), True)))"

abbreviation set_step :: "ProcessStep \<Rightarrow> WorkerNode \<Rightarrow> WorkerNode" where
  "set_step step \<equiv> set_status (\<lambda>s. s\<lparr>st_ProcessStep := step\<rparr>)"

text \<open>The part of \<^verbatim>\<open>dealwithAssigned\<close> from the label \<^verbatim>\<open>processUpdateGracefully\<close> on; the \<^verbatim>\<open>goto\<close> is the recursive call, and
  \<open>None\<close> means that the fuel is used up. \<open>update_tail\<close> is what follows a successful \<^verbatim>\<open>processPlan\<close>.\<close>

definition update_tail :: "worker_env \<Rightarrow> WorkerNode \<Rightarrow> WorkerNode" where
  "update_tail e w =
     (let (w, go) = processHealthInfo e (set_step StepProcessPlan w) in
      if \<not> go then w
      else
        let (w, go) = processServiceInfo e (set_step StepProcessHealthInfo w) in
        if \<not> go then w
        else set_status (\<lambda>s. s\<lparr>st_ProcessStep := StepProcessServiceInfo, InRestarting := False\<rparr>) w)"

primrec update_loop :: "worker_env \<Rightarrow> 's allocator \<Rightarrow> nat \<Rightarrow> 's machine \<Rightarrow> ('s machine \<times> bool) option" where
  "update_loop e al 0 m = None"
| "update_loop e al (Suc fuel) m =
     (let (w, go) = processUpdateGracefully e (mw m); m = m\<lparr>mw := w\<rparr> in
      if \<not> go then Some (m, True)
      else
        let (m, r) = processPlan e al (on_worker (set_step StepProcessUpdateGracefully) m) in
        case r of
          None \<Rightarrow> Some (m, False)
        | Some go \<Rightarrow>
            if go then Some (on_worker (update_tail e) m, True)
            else if offlineForRestart e (mw m) then update_loop e al fuel m
            else Some (m, True))"

text \<open>Two rounds are enough (see \<open>process_returns\<close>).\<close>

definition restart_rounds :: nat where
  "restart_rounds = 2"

definition is_fed_pod :: "Pod option \<Rightarrow> bool" where
  "is_fed_pod pod =
     (case pod of None \<Rightarrow> False
      | Some p \<Rightarrow> sget (pod_Labels p) ''fed.alibaba.com/local-cluster'' \<noteq> '''' \<and>
          sget (pod_Labels p) ''fed.alibaba.com/remote-cluster'' \<noteq> '''' \<and>
          sget (pod_Labels p) ''fed.alibaba.com/local-cluster'' \<noteq> sget (pod_Labels p) ''fed.alibaba.com/remote-cluster'')"

definition assigned_body :: "worker_env \<Rightarrow> 's allocator \<Rightarrow> 's machine \<Rightarrow> ('s machine \<times> bool) option" where
  "assigned_body e al m =
     (if IsWorkerToRelease (mw m) then Some (on_worker (\<lambda>w. set_step StepToRelease (tryToReleaseWorker w)) m, True)
      else if \<not> IsWorkerEntityAlloced (mw m) then
        Some (on_worker (\<lambda>w. set_status (\<lambda>s. s\<lparr>PodReady := False, st_ProcessStep := StepLost\<rparr>) (SetWorkerLost w)) m, True)
      else
        let m = (case mpod m of None \<Rightarrow> m
                 | Some p \<Rightarrow> if pod_NodeName p \<noteq> '''' then on_worker (\<lambda>w. fst (UnsetStandby2Active w)) m else m);
            m = on_worker syncRrResourceUpdateState m;
            m = on_worker (set_status (\<lambda>s. s\<lparr>IsFedWorker := is_fed_pod (mpod m), st_ProcessStep := StepBegin\<rparr>)) m
        in update_loop e al restart_rounds m)"

definition dealwithAssigned :: "worker_env \<Rightarrow> 's allocator \<Rightarrow> 's machine \<Rightarrow> ('s machine \<times> bool) option" where
  "dealwithAssigned e al m =
     map_option (\<lambda>(m, ok).
         (on_worker (\<lambda>w. SyncWorkerInUpdating (set_status (\<lambda>s. s\<lparr>Complete := IsWorkerComplete e w\<rparr>) w)) m, ok))
       (assigned_body e al (on_worker (SetUnassignedReason UnassignedReasonNone) m))"

text \<open>\<^verbatim>\<open>defaultProcessor.process\<close>: the handlers run in order, each when the status is its own; \<^verbatim>\<open>postSync\<close> is last.\<close>

definition process :: "worker_env \<Rightarrow> 's allocator \<Rightarrow> 's machine \<Rightarrow> ('s machine \<times> bool) option" where
  "process e al m =
     (let m = fst (prepare al m);
          m = (if IsWorkerUnAssigned (mw m) then fst (dealwithUnAssigned e al m) else m)
      in case (if IsWorkerAssigned (mw m) then map_option fst (dealwithAssigned e al m) else Some m) of
           None \<Rightarrow> None
         | Some m \<Rightarrow>
             let m = (if IsWorkerLost (mw m) then fst (dealwithLost m) else m);
                 m = (if IsWorkerOfflining (mw m) then fst (dealwithOfflining m) else m);
                 m = (if IsWorkerReleasing (mw m) then fst (dealwithReleasing al m) else m);
                 m = (if IsWorkerReleased (mw m) then m\<lparr>mpod := None\<rparr> else m);
                 (m, ok) = call_op (al_syncPodMetas al) m
             in Some (m, ok))"

end
