(* ===== verification/WorkerMachineSafety.thy ===== *)
theory WorkerMachineSafety
  imports WorkerMachine
begin

text \<open>
  What the state machine of a worker guarantees: a pass always ends, its steps are those of an abstract life cycle,
  a worker that is to stay is never taken down, a pod is deleted only after its services are withdrawn, and it is
  changed in place only when it is not published. The lemmas are proved in the locale \<open>worker_allocator\<close>, the contract
  that the machine relies on; \<open>PodAllocator\<close> interprets it on the model of the allocator.
\<close>

subsection \<open>Frames\<close>

text \<open>What the machine's own helpers leave alone.\<close>

definition same_frame :: "WorkerNode \<Rightarrow> WorkerNode \<Rightarrow> bool" where
  "same_frame w w' \<longleftrightarrow> Spec w' = Spec w \<and> DeletionTimestamp w' = DeletionTimestamp w \<and>
     ToRelease (Status w') = ToRelease (Status w) \<and>
     (st_AllocStatus (Status w) \<noteq> AllocStatusEmpty \<longrightarrow> st_AllocStatus (Status w') = st_AllocStatus (Status w))"

lemma same_frame_refl: "same_frame w w"
  by (simp add: same_frame_def)

lemma same_frame_trans: "same_frame u v \<Longrightarrow> same_frame v w \<Longrightarrow> same_frame u w"
  by (auto simp: same_frame_def)

lemma same_frame_preds:
  assumes "same_frame w w'"
  shows "IsWorkerToRelease w' = IsWorkerToRelease w" "IsWorkerGracefully w' = IsWorkerGracefully w"
  using assms by (simp_all add: same_frame_def worker_preds)

lemma helper_frames:
  "same_frame w (SetUnassignedReason r w)" "same_frame w (SyncWorkerServiceHealthStatus w)" "same_frame w (SyncWorkerInUpdating w)"
  "same_frame w (fst (UnsetStandby2Active w))" "same_frame w (syncRrResourceUpdateState w)" "same_frame w (processNeedWarmUp e w)"
  "same_frame w (syncSingleHealthInfo w)" "same_frame w (end_warmup e w)" "same_frame w (InitWorkerNode w)"
  by (simp_all add: same_frame_def SetUnassignedReason_def SyncWorkerServiceHealthStatus_def SyncWorkerInUpdating_def
      UnsetStandby2Active_def syncRrResourceUpdateState_def processNeedWarmUp_def syncSingleHealthInfo_def end_warmup_def
      InitWorkerNode_def Let_def)

lemma status_frames:
  "same_frame w (w\<lparr>Status := (Status w)\<lparr>ServiceOffline := b\<rparr>\<rparr>)" "same_frame w (w\<lparr>Status := (Status w)\<lparr>Version := v\<rparr>\<rparr>)"
  "same_frame w (w\<lparr>Status := (Status w)\<lparr>st_ProcessStep := p\<rparr>\<rparr>)" "same_frame w (w\<lparr>Status := (Status w)\<lparr>Complete := b\<rparr>\<rparr>)"
  "same_frame w (w\<lparr>Status := (Status w)\<lparr>st_NeedWarmup := b\<rparr>\<rparr>)"
  by (simp_all add: same_frame_def)

lemma processUpdateGracefully_frame: "same_frame w (fst (processUpdateGracefully e w))"
proof -
  let ?o = "\<lambda>b. w\<lparr>Status := (Status w)\<lparr>ServiceOffline := b\<rparr>\<rparr>"
  have "same_frame w (SyncWorkerServiceHealthStatus (?o True))" "same_frame w (processNeedWarmUp e (?o b))" for b
    using same_frame_trans [OF status_frames(1)] helper_frames by blast+
  then show ?thesis using helper_frames(6) by (simp add: processUpdateGracefully_def Let_def)
qed

lemma processHealthInfo_frame: "same_frame w (fst (processHealthInfo e w))"
proof -
  define v where "v = syncSingleHealthInfo w"
  define r where "r = v\<lparr>Status := (Status v)\<lparr>WorkerReady := True, LastWorkerNotReadytime := 0\<rparr>\<rparr>"
  define n where "n = set_status (\<lambda>s. s\<lparr>WorkerReady := False,
    LastWorkerNotReadytime := (if LastWorkerNotReadytime s = 0 then Now e else LastWorkerNotReadytime s)\<rparr>) v"
  have "same_frame w v" by (simp add: v_def helper_frames)
  moreover have "same_frame v r" "same_frame v n" by (simp_all add: r_def n_def same_frame_def)
  moreover have "same_frame n (processNeedWarmUp e n)" by (rule helper_frames)
  moreover have "fst (processHealthInfo e w) \<in> {r, processNeedWarmUp e n, v}"
    unfolding processHealthInfo_def Let_def v_def [symmetric] r_def [symmetric] n_def [symmetric]
    by (simp only: if_distrib [of fst] fst_conv) simp
  ultimately show ?thesis by (auto intro: same_frame_trans)
qed

lemma processServiceInfo_frame: "same_frame w (fst (processServiceInfo e w))"
proof -
  define a where "a = (if st_NeedWarmup (Status w) then set_status (\<lambda>s. s\<lparr>Warmup := True, st_NeedWarmup := False\<rparr>) w else w)"
  define b where "b = (if ServiceOffline (Status a) \<noteq> (\<not> IsWorkerOnline a)
    then set_status (\<lambda>s. s\<lparr>InRestarting := False, ServiceOffline := \<not> IsWorkerOnline a\<rparr>) a else a)"
  have "same_frame w a" "same_frame a b" by (simp_all add: a_def b_def same_frame_def)
  then have "same_frame w b" by (rule same_frame_trans)
  then have "same_frame w (SyncWorkerServiceHealthStatus (end_warmup e b))"
    by (rule same_frame_trans [OF same_frame_trans [OF _ helper_frames(8)] helper_frames(2)])
  moreover have "fst (processServiceInfo e w) \<in> {w, SyncWorkerServiceHealthStatus (end_warmup e b), SyncWorkerServiceHealthStatus w}"
    unfolding processServiceInfo_def Let_def a_def [symmetric] b_def [symmetric]
    by (simp only: fst_conv insert_iff simp_thms split: if_split)
  ultimately show ?thesis using helper_frames(2) [of w] same_frame_refl [of w] by auto
qed

subsection \<open>Safe changes of the pod\<close>

text \<open>The pod of a worker may be changed when the worker is unassigned, or when it is not about to get another version or
  mode gracefully, or when it is offline and unpublished.\<close>

definition sync_ok :: "WorkerNode \<Rightarrow> bool" where
  "sync_ok w \<longleftrightarrow> IsWorkerUnAssigned w \<or>
     (IsWorkerGracefully w \<and> (IsWorkerVersionMisMatch w \<or> IsWorkerModeMisMatch w) \<longrightarrow> ServiceOffline (Status w) \<and> IsWorkerUnpublished w)"

text \<open>The pod of a worker may be deleted when the worker is being released, or is to be released and never had a pod.\<close>

definition delete_ok :: "WorkerNode \<Rightarrow> bool" where
  "delete_ok w \<longleftrightarrow> IsWorkerReleasing w \<or> (IsWorkerUnAssigned w \<and> IsWorkerEmpty w \<and> IsWorkerToRelease w)"

lemma mismatch_cong:
  assumes "Spec w' = Spec w" "Version (Status w') = Version (Status w)" "WorkerMode (Status w') = WorkerMode (Status w)"
  shows "IsWorkerVersionMisMatch w' = IsWorkerVersionMisMatch w" "IsWorkerModeMisMatch w' = IsWorkerModeMisMatch w"
  by (simp_all only: IsWorkerVersionMisMatch_def IsWorkerInnerVerMatch_def IsWorkerModeMisMatch_def IsStandbyWorker_def
      IsHotStandbyWorker_def GetWorkerTargetModeType_def GetWorkerCurrentModeType_def assms)

lemma needwarmup_fields:
  "Spec (processNeedWarmUp e w) = Spec w" "Version (Status (processNeedWarmUp e w)) = Version (Status w)"
  "WorkerMode (Status (processNeedWarmUp e w)) = WorkerMode (Status w)"
  by (simp_all add: processNeedWarmUp_def Let_def)

lemmas needwarmup_mismatch = mismatch_cong [OF needwarmup_fields]

lemma processUpdateGracefully_safe:
  assumes "processUpdateGracefully e w = (w', True)"
  shows "sync_ok (set_step s w')"
proof (cases "shouldUpdateGracefully e w \<and> (IsWorkerVersionMisMatch w \<or> IsWorkerModeMisMatch w)")
  case True
  then have "w' = SyncWorkerServiceHealthStatus (set_status (\<lambda>s. s\<lparr>ServiceOffline := True\<rparr>) w)" "IsWorkerUnpublished w'"
    using assms by (auto simp: processUpdateGracefully_def Let_def)
  then show ?thesis by (simp add: sync_ok_def SyncWorkerServiceHealthStatus_def IsWorkerUnpublished_def)
next
  case False
  have g: "IsWorkerGracefully w' = IsWorkerGracefully w"
    using same_frame_preds(2) [OF processUpdateGracefully_frame [of w e]] assms by simp
  have "shouldUpdateGracefully e w" if "IsWorkerGracefully w" using that by (simp add: shouldUpdateGracefully_def)
  then have "\<not> (IsWorkerGracefully w' \<and> (IsWorkerVersionMisMatch w' \<or> IsWorkerModeMisMatch w'))"
    using False assms g by (auto simp: processUpdateGracefully_def Let_def needwarmup_mismatch)
  moreover have "IsWorkerGracefully (set_step s w') = IsWorkerGracefully w'"
    "IsWorkerVersionMisMatch (set_step s w') = IsWorkerVersionMisMatch w'"
    "IsWorkerModeMisMatch (set_step s w') = IsWorkerModeMisMatch w'" by (simp_all add: worker_preds)
  ultimately show ?thesis by (auto simp: sync_ok_def)
qed

lemma update_tail_frame: "same_frame w (update_tail e w)"
proof -
  define a where "a = set_step StepProcessPlan w"
  define b where "b = fst (processHealthInfo e a)"
  define c where "c = set_step StepProcessHealthInfo b"
  define d where "d = fst (processServiceInfo e c)"
  define f where "f = set_status (\<lambda>s. s\<lparr>st_ProcessStep := StepProcessServiceInfo, InRestarting := False\<rparr>) d"
  have fr: "same_frame w a" "same_frame a b" "same_frame b c" "same_frame c d" "same_frame d f"
    using processHealthInfo_frame processServiceInfo_frame by (simp_all add: a_def b_def c_def d_def f_def same_frame_def)
  note fb = same_frame_trans [OF fr(1,2)]
  note fd = same_frame_trans [OF same_frame_trans [OF fb fr(3)] fr(4)]
  have "update_tail e w \<in> {b, d, f}"
    by (simp add: update_tail_def Let_def split_beta a_def b_def c_def d_def f_def)
  then show ?thesis using fb fd same_frame_trans [OF fd fr(5)] by auto
qed

lemma restart_goes_offline:
  "offlineForRestart e w \<Longrightarrow> ServiceOffline (Status (fst (processUpdateGracefully e w)))"
  by (simp add: offlineForRestart_def processUpdateGracefully_def shouldUpdateGracefully_def Let_def
      SyncWorkerServiceHealthStatus_def)

lemma condition_frame: "same_frame w (SetWorkerServiceHealthCondition e sp d st sc r msg iw sw w)"
proof -
  have "same_frame w (SyncWorkerServiceHealthStatus (w\<lparr>Status := (Status w)\<lparr>ServiceConditions := cs\<rparr>\<rparr>))" for cs
    by (simp add: SyncWorkerServiceHealthStatus_def same_frame_def)
  then show ?thesis unfolding SetWorkerServiceHealthCondition_def Let_def by (simp only: simp_thms split: option.split)
qed

lemma fold_frame: "(\<And>x w. same_frame w (f x w)) \<Longrightarrow> same_frame w (fold f xs w)"
  by (induction xs arbitrary: w) (auto intro: same_frame_refl same_frame_trans)

lemma initServiceConditions_frame: "same_frame w (fst (initServiceConditions e al w))"
proof -
  have "same_frame w (fold (\<lambda>service w. if sp_SoftDelete service then w
      else SetWorkerServiceHealthCondition e service '''' ConditionFalse 0 InitServiceFalseState '''' False False w) xs w)" for xs
    by (rule fold_frame) (simp add: condition_frame same_frame_refl)
  then show ?thesis by (simp add: initServiceConditions_def same_frame_refl split: option.split)
qed

lemma frame_status: "same_frame w w' \<Longrightarrow> st_AllocStatus (Status w) = s \<Longrightarrow> s \<noteq> AllocStatusEmpty \<Longrightarrow> st_AllocStatus (Status w') = s"
  by (auto simp: same_frame_def)

subsection \<open>The contract of the allocator\<close>

text \<open>What an operation of the allocator leaves alone: the plan, the marks for release, the service conditions, and the status
  that the machine owns.\<close>

definition keeps :: "WorkerNode \<Rightarrow> WorkerNode \<Rightarrow> bool" where
  "keeps w w' \<longleftrightarrow> Spec w' = Spec w \<and> DeletionTimestamp w' = DeletionTimestamp w \<and>
     ToRelease (Status w') = ToRelease (Status w) \<and> ServiceOffline (Status w') = ServiceOffline (Status w) \<and>
     ServiceConditions (Status w') = ServiceConditions (Status w) \<and>
     (st_AllocStatus (Status w) \<noteq> AllocStatusEmpty \<longrightarrow> st_AllocStatus (Status w') = st_AllocStatus (Status w)) \<and>
     (st_AllocStatus (Status w) = AllocStatusEmpty \<longrightarrow>
        st_AllocStatus (Status w') = AllocStatusEmpty \<or> st_AllocStatus (Status w') = WorkerUnAssigned)"

text \<open>A pod that cannot be changed in place is deleted and the worker begins again without a pod.\<close>

definition renewed :: "WorkerNode \<Rightarrow> WorkerNode \<Rightarrow> bool" where
  "renewed w w' \<longleftrightarrow> Spec w' = (Spec w)\<lparr>Releasing := False, Spec_Reclaim := False\<rparr> \<and> DeletionTimestamp w' = DeletionTimestamp w \<and>
     Status w' = empty_status\<lparr>st_AllocStatus := WorkerUnAssigned\<rparr>"

text \<open>The status of a worker over a change of its pod.\<close>

definition recreated :: "AllocStatus \<Rightarrow> AllocStatus \<Rightarrow> bool" where
  "recreated s s' \<longleftrightarrow> s' = s \<or> (s = WorkerAssigned \<and> s' = WorkerUnAssigned)"

definition sync_frame :: "WorkerNode \<Rightarrow> WorkerNode \<Rightarrow> bool" where
  "sync_frame w w' \<longleftrightarrow> IsWorkerToRelease w' = IsWorkerToRelease w \<and> IsWorkerGracefully w' = IsWorkerGracefully w \<and>
     recreated (st_AllocStatus (Status w)) (st_AllocStatus (Status w'))"

lemma sync_frame_refl: "sync_frame w w"
  by (simp add: sync_frame_def recreated_def)

lemma sync_frame_trans: "sync_frame u v \<Longrightarrow> sync_frame v w \<Longrightarrow> sync_frame u w"
  by (auto simp: sync_frame_def recreated_def)

lemma same_frame_sync: "same_frame w w' \<Longrightarrow> st_AllocStatus (Status w) \<noteq> AllocStatusEmpty \<Longrightarrow> sync_frame w w'"
  using same_frame_preds [of w w'] by (simp add: sync_frame_def recreated_def same_frame_def)

lemma keeps_frame: "keeps w w' \<Longrightarrow> same_frame w w'"
  by (simp add: keeps_def same_frame_def)

text \<open>A worker whose pod may be changed.\<close>

definition syncable :: "WorkerNode \<Rightarrow> bool" where
  "syncable w \<longleftrightarrow> \<not> IsWorkerToRelease w \<and> (st_AllocStatus (Status w) = WorkerAssigned \<or> st_AllocStatus (Status w) = WorkerUnAssigned)"

lemma syncable_frame: "syncable w \<Longrightarrow> sync_frame w w' \<Longrightarrow> syncable w'"
  by (auto simp: syncable_def sync_frame_def recreated_def)

lemma syncable_same: "syncable w \<Longrightarrow> same_frame w w' \<Longrightarrow> sync_frame w w' \<and> syncable w'"
  using same_frame_sync [of w w'] syncable_frame [of w w'] by (auto simp: syncable_def)

lemma renewed_frame: "syncable w \<Longrightarrow> renewed w w' \<Longrightarrow> sync_frame w w'"
  by (auto simp: syncable_def renewed_def sync_frame_def recreated_def IsWorkerToRelease_def IsWorkerGracefully_def empty_status_def)

locale worker_allocator =
  fixes al :: "'s allocator" and ainv :: "'s \<Rightarrow> bool"
  assumes allocate_keeps: "ainv s \<Longrightarrow> al_allocate al (s, w) = ((s', w'), ok) \<Longrightarrow> ainv s' \<and> keeps w w'"
    and delete_keeps: "ainv s \<Longrightarrow> delete_ok w \<Longrightarrow> al_delete al (s, w) = ((s', w'), ok) \<Longrightarrow> ainv s' \<and> keeps w w'"
    and sync_keeps: "ainv s \<Longrightarrow> syncable w \<Longrightarrow> sync_ok w \<Longrightarrow> al_syncPodSpec al (s, w) = ((s', w'), ok) \<Longrightarrow>
      ainv s' \<and> (keeps w w' \<or> renewed w w')"
    and metas_keeps: "ainv s \<Longrightarrow> al_syncPodMetas al (s, w) = ((s', w'), ok) \<Longrightarrow> ainv s' \<and> keeps w w'"
    and status_keeps: "ainv s \<Longrightarrow> al_syncWorkerStatus al (s, w) = ((s', w'), ok) \<Longrightarrow>
      ainv s' \<and> keeps w w' \<and> InRestarting (Status w') = InRestarting (Status w)"
    and alloc_status_keeps: "ainv s \<Longrightarrow> al_syncWorkerAllocStatus al (s, w) = ((s', w'), ok) \<Longrightarrow> ainv s' \<and> keeps w w'"

text \<open>Relations between the machine before and after a part of a pass. All keep the allocator's invariant and the marks;
  a calm part deletes nothing, a quiet one only makes safe changes of the pod.\<close>

definition marks :: "('s \<Rightarrow> bool) \<Rightarrow> 's machine \<Rightarrow> 's machine \<Rightarrow> bool" where
  "marks ainv m m' \<longleftrightarrow> IsWorkerToRelease (mw m') = IsWorkerToRelease (mw m) \<and> IsWorkerGracefully (mw m') = IsWorkerGracefully (mw m) \<and>
     ainv (mal m')"

definition calm :: "('s \<Rightarrow> bool) \<Rightarrow> 's machine \<Rightarrow> 's machine \<Rightarrow> bool" where
  "calm ainv m m' \<longleftrightarrow> marks ainv m m' \<and> (\<exists>l. mlog m' = mlog m @ l \<and> (\<forall>a \<in> set l. \<forall>w. a \<noteq> PodDelete w))"

definition safe_sync :: "pod_action \<Rightarrow> bool" where
  "safe_sync a \<longleftrightarrow> (\<exists>w. a = PodSpecSync w \<and> sync_ok w)"

definition quiet :: "('s \<Rightarrow> bool) \<Rightarrow> 's machine \<Rightarrow> 's machine \<Rightarrow> bool" where
  "quiet ainv m m' \<longleftrightarrow> sync_frame (mw m) (mw m') \<and> ainv (mal m') \<and> mpod m' = mpod m \<and>
     (\<exists>l. mlog m' = mlog m @ l \<and> (\<forall>a \<in> set l. safe_sync a))"

definition syncs_safely :: "'s machine \<Rightarrow> 's machine \<Rightarrow> bool" where
  "syncs_safely m m' \<longleftrightarrow> (\<exists>l. mlog m' = mlog m @ l \<and> (\<forall>w. PodSpecSync w \<in> set l \<longrightarrow> sync_ok w))"

lemma marks_refl: "ainv (mal m) \<Longrightarrow> marks ainv m m"
  by (simp add: marks_def)

lemma marks_trans: "marks ainv a b \<Longrightarrow> marks ainv b c \<Longrightarrow> marks ainv a c"
  by (simp add: marks_def)

lemma calm_refl: "ainv (mal m) \<Longrightarrow> calm ainv m m"
  by (simp add: calm_def marks_refl)

lemma calm_trans: "calm ainv a b \<Longrightarrow> calm ainv b c \<Longrightarrow> calm ainv a c"
  unfolding calm_def marks_def by (auto simp: ball_Un)

lemma calm_marks: "calm ainv m m' \<Longrightarrow> marks ainv m m'"
  by (simp add: calm_def)

lemma calm_worker:
  "ainv (mal m) \<Longrightarrow> IsWorkerToRelease w = IsWorkerToRelease (mw m) \<Longrightarrow> IsWorkerGracefully w = IsWorkerGracefully (mw m) \<Longrightarrow>
    calm ainv m (m\<lparr>mw := w\<rparr>)"
  by (simp add: calm_def marks_def)

lemma calm_frame: "ainv (mal m) \<Longrightarrow> same_frame (mw m) w \<Longrightarrow> calm ainv m (m\<lparr>mw := w\<rparr>)"
  using same_frame_preds by (intro calm_worker) auto

lemma quiet_calm: "quiet ainv m m' \<Longrightarrow> calm ainv m m'"
  unfolding quiet_def calm_def marks_def sync_frame_def by (auto simp: safe_sync_def)

lemma quiet_syncs: "quiet ainv m m' \<Longrightarrow> syncs_safely m m'"
  unfolding quiet_def syncs_safely_def safe_sync_def by blast

lemma quiet_refl: "ainv (mal m) \<Longrightarrow> quiet ainv m m"
  by (simp add: quiet_def sync_frame_refl)

lemma quiet_trans: "quiet ainv a b \<Longrightarrow> quiet ainv b c \<Longrightarrow> quiet ainv a c"
  unfolding quiet_def using sync_frame_trans by (auto simp: ball_Un)

lemma quiet_worker: "ainv (mal m) \<Longrightarrow> sync_frame (mw m) w \<Longrightarrow> quiet ainv m (m\<lparr>mw := w\<rparr>)"
  by (simp add: quiet_def)

lemma syncs_trans: "syncs_safely a b \<Longrightarrow> syncs_safely b c \<Longrightarrow> syncs_safely a c"
  unfolding syncs_safely_def by fastforce

definition release_status :: "WorkerNode \<Rightarrow> AllocStatus" where
  "release_status w = (if IsWorkerGracefully w then WorkerOfflining else WorkerReleasing)"

lemma call_op_simps [simp]:
  "mw (fst (call_op f m)) = snd (fst (f (mal m, mw m)))" "mal (fst (call_op f m)) = fst (fst (f (mal m, mw m)))"
  "mpod (fst (call_op f m)) = mpod m" "mlog (fst (call_op f m)) = mlog m" "snd (call_op f m) = snd (f (mal m, mw m))"
  by (simp_all add: call_op_def split_beta)

lemma logged_op_simps [simp]:
  "mw (fst (logged_op a f m)) = mw (fst (call_op f m))" "mal (fst (logged_op a f m)) = mal (fst (call_op f m))"
  "mpod (fst (logged_op a f m)) = mpod m" "mlog (fst (logged_op a f m)) = mlog m @ [a (mw m)]"
  "snd (logged_op a f m) = snd (f (mal m, mw m))"
  by (simp_all add: logged_op_def)

subsection \<open>The update loop\<close>

text \<open>One round of the loop.\<close>

lemma update_loop_Suc:
  assumes "processUpdateGracefully e (mw m) = (w1, g1)"
    and "processPlan e al (m\<lparr>mw := set_step StepProcessUpdateGracefully w1\<rparr>) = (m2, r)"
  shows "update_loop e al (Suc n) m =
    (if \<not> g1 then Some (m\<lparr>mw := w1\<rparr>, True)
     else case r of None \<Rightarrow> Some (m2, False)
       | Some go \<Rightarrow> if go then Some (on_worker (update_tail e) m2, True)
           else if offlineForRestart e (mw m2) then update_loop e al n m2 else Some (m2, True))"
  using assms by (simp add: Let_def)

text \<open>The states that \<^verbatim>\<open>processPlan\<close> may end in.\<close>

lemma processPlan_states:
  fixes al :: "'s allocator" and m :: "'s machine"
  defines "a \<equiv> fst (logged_op PodSpecSync (al_syncPodSpec al) m)"
  shows "fst (processPlan e al m) \<in>
    {on_worker (set_status (\<lambda>s. s\<lparr>Version := ''''\<rparr>)) m, on_worker (\<lambda>w. set_status (\<lambda>s. s\<lparr>Version := Spec_Version (Spec w)\<rparr>) w) m,
     a, fst (call_op (al_syncWorkerStatus al) a)}"
  unfolding processPlan_def a_def Let_def split_beta
  by (simp only: fst_conv insert_iff simp_thms split: if_split)

context worker_allocator
begin

lemmas quiet_inv = quiet_worker [where ainv = ainv]
lemmas calm_inv = calm_worker [where ainv = ainv] calm_frame [where ainv = ainv]

lemma sync_call:
  assumes "ainv (mal m)" "syncable (mw m)" "sync_ok (mw m)"
  shows "ainv (mal (fst (call_op (al_syncPodSpec al) m))) \<and>
    (keeps (mw m) (mw (fst (call_op (al_syncPodSpec al) m))) \<or> renewed (mw m) (mw (fst (call_op (al_syncPodSpec al) m))))"
  using sync_keeps [OF assms] by (metis call_op_simps(1,2) prod.collapse)

lemma status_call:
  assumes "ainv (mal m)"
  shows "ainv (mal (fst (call_op (al_syncWorkerStatus al) m))) \<and> keeps (mw m) (mw (fst (call_op (al_syncWorkerStatus al) m))) \<and>
    InRestarting (Status (mw (fst (call_op (al_syncWorkerStatus al) m)))) = InRestarting (Status (mw m))"
  using status_keeps [OF assms] by (metis call_op_simps(1,2) prod.collapse)

lemma allocate_call:
  assumes "ainv (mal m)"
  shows "ainv (mal (fst (call_op (al_allocate al) m))) \<and> keeps (mw m) (mw (fst (call_op (al_allocate al) m)))"
  using allocate_keeps [OF assms] by (metis call_op_simps(1,2) prod.collapse)

lemma delete_call:
  assumes "ainv (mal m)" "delete_ok (mw m)"
  shows "ainv (mal (fst (call_op (al_delete al) m))) \<and> keeps (mw m) (mw (fst (call_op (al_delete al) m)))"
  using delete_keeps [OF assms] by (metis call_op_simps(1,2) prod.collapse)

lemma metas_call:
  assumes "ainv (mal m)"
  shows "ainv (mal (fst (call_op (al_syncPodMetas al) m))) \<and> keeps (mw m) (mw (fst (call_op (al_syncPodMetas al) m)))"
  using metas_keeps [OF assms] by (metis call_op_simps(1,2) prod.collapse)

lemma alloc_status_call:
  assumes "ainv (mal m)"
  shows "ainv (mal (fst (call_op (al_syncWorkerAllocStatus al) m))) \<and> keeps (mw m) (mw (fst (call_op (al_syncWorkerAllocStatus al) m)))"
  using alloc_status_keeps [OF assms] by (metis call_op_simps(1,2) prod.collapse)

lemma sync_quiet:
  assumes "ainv (mal m)" "syncable (mw m)" "sync_ok (mw m)"
  shows "quiet ainv m (fst (logged_op PodSpecSync (al_syncPodSpec al) m))"
proof -
  note c = sync_call [OF assms]
  then have "sync_frame (mw m) (mw (fst (call_op (al_syncPodSpec al) m)))"
    using keeps_frame syncable_same [OF assms(2)] renewed_frame [OF assms(2)] by blast
  moreover have "safe_sync (PodSpecSync (mw m))" using assms(3) by (auto simp: safe_sync_def)
  ultimately show ?thesis using c by (simp add: quiet_def)
qed

lemma processPlan_quiet:
  assumes "ainv (mal m)" "syncable (mw m)" "sync_ok (mw m)"
  shows "quiet ainv m (fst (processPlan e al m))"
proof -
  define a where "a = fst (logged_op PodSpecSync (al_syncPodSpec al) m)"
  define b where "b = fst (call_op (al_syncWorkerStatus al) a)"
  have qa: "quiet ainv m a" unfolding a_def by (rule sync_quiet [OF assms])
  then have a: "ainv (mal a)" "syncable (mw a)" using syncable_frame [OF assms(2)] by (simp_all add: quiet_def)
  have "sync_frame (mw a) (mw b)"
    unfolding b_def using syncable_same [OF a(2) keeps_frame] status_call [OF a(1)] by blast
  then have qb: "quiet ainv a b" using status_call [OF a(1)] by (simp add: quiet_def b_def)
  have "quiet ainv m (on_worker (set_status (\<lambda>s. s\<lparr>Version := ''''\<rparr>)) m)"
    "quiet ainv m (on_worker (\<lambda>w. set_status (\<lambda>s. s\<lparr>Version := Spec_Version (Spec w)\<rparr>) w) m)"
    using syncable_same [OF assms(2) status_frames(2)] by (auto intro: quiet_inv [OF assms(1)])
  then show ?thesis using qa quiet_trans [OF qa qb] processPlan_states [of e al m] unfolding a_def b_def by auto
qed

lemma processPlan_offline:
  assumes "ainv (mal m)" "syncable (mw m)" "sync_ok (mw m)" "offlineForRestart e (mw (fst (processPlan e al m)))"
  shows "ServiceOffline (Status (mw (fst (processPlan e al m)))) = ServiceOffline (Status (mw m))"
proof -
  define a where "a = fst (logged_op PodSpecSync (al_syncPodSpec al) m)"
  define b where "b = fst (call_op (al_syncWorkerStatus al) a)"
  have ra: "ServiceOffline (Status (mw a)) = ServiceOffline (Status (mw m)) \<or> \<not> InRestarting (Status (mw a))"
    using sync_call [OF assms(1-3)] by (auto simp: a_def keeps_def renewed_def empty_status_def)
  have "ainv (mal a)" using sync_call [OF assms(1-3)] by (simp add: a_def)
  then have "ServiceOffline (Status (mw b)) = ServiceOffline (Status (mw a)) \<and> InRestarting (Status (mw b)) = InRestarting (Status (mw a))"
    using status_call [of a] by (simp add: b_def keeps_def)
  moreover have "offlineForRestart e w \<Longrightarrow> InRestarting (Status w)" for w by (simp add: offlineForRestart_def needOfflineForRestart_def)
  ultimately show ?thesis using assms(4) ra processPlan_states [of e al m] unfolding a_def [symmetric] b_def [symmetric] by auto
qed

lemma update_loop_quiet:
  "update_loop e al n m = Some (m', ok) \<Longrightarrow> ainv (mal m) \<Longrightarrow> syncable (mw m) \<Longrightarrow> quiet ainv m m'"
proof (induction n arbitrary: m)
  case (Suc n)
  obtain w1 g1 where u: "processUpdateGracefully e (mw m) = (w1, g1)" by fastforce
  define m1 where "m1 = m\<lparr>mw := set_step StepProcessUpdateGracefully w1\<rparr>"
  obtain m2 r where p: "processPlan e al m1 = (m2, r)" by fastforce
  note up = update_loop_Suc [OF u p [unfolded m1_def], of n]
  have w1: "same_frame (mw m) w1" using processUpdateGracefully_frame [of "mw m" e] u by simp
  note s1 = syncable_same [OF Suc.prems(3) w1] syncable_same [OF Suc.prems(3) same_frame_trans [OF w1 status_frames(3)]]
  have q1: "quiet ainv m (m\<lparr>mw := w1\<rparr>)" "quiet ainv m m1"
    using s1 by (simp_all add: m1_def quiet_inv [OF Suc.prems(2)])
  have m1: "ainv (mal m1)" "syncable (mw m1)" using Suc.prems(2) s1 by (simp_all add: m1_def)
  show ?case
  proof (cases g1)
    case False
    then show ?thesis using Suc.prems(1) q1(1) unfolding up by simp
  next
    case True
    have "sync_ok (mw m1)" using processUpdateGracefully_safe u True by (simp add: m1_def)
    then have q: "quiet ainv m1 m2" using processPlan_quiet [OF m1] p by (metis fst_conv)
    then have m2: "ainv (mal m2)" "syncable (mw m2)" using syncable_frame [OF m1(2)] by (simp_all add: quiet_def)
    note q2 = quiet_trans [OF q1(2) q]
    have q3: "quiet ainv m2 (on_worker (update_tail e) m2)"
      using syncable_same [OF m2(2) update_tail_frame] by (intro quiet_inv [OF m2(1)]) simp
    show ?thesis
    proof (cases "r = Some False \<and> offlineForRestart e (mw m2)")
      case True
      then show ?thesis using Suc.prems(1) Suc.IH [of m2] m2 quiet_trans [OF q2] \<open>g1\<close> unfolding up by auto
    next
      case False
      then have "m' = m2 \<or> m' = on_worker (update_tail e) m2"
        using Suc.prems(1) \<open>g1\<close> unfolding up by (auto split: option.splits if_splits)
      then show ?thesis using q2 quiet_trans [OF q2 q3] by blast
    qed
  qed
qed simp

lemma update_loop_second_round:
  assumes "ainv (mal m)" "syncable (mw m)" "offlineForRestart e (mw m)"
  shows "update_loop e al (Suc n) m \<noteq> None"
proof -
  obtain w1 g1 where u: "processUpdateGracefully e (mw m) = (w1, g1)" by fastforce
  define m1 where "m1 = m\<lparr>mw := set_step StepProcessUpdateGracefully w1\<rparr>"
  obtain m2 r where p: "processPlan e al m1 = (m2, r)" by fastforce
  have w1: "same_frame (mw m) w1" using processUpdateGracefully_frame [of "mw m" e] u by simp
  have m1: "ainv (mal m1)" "syncable (mw m1)"
    using assms(1) syncable_same [OF assms(2) same_frame_trans [OF w1 status_frames(3)]] by (simp_all add: m1_def)
  have off: "ServiceOffline (Status (mw m1))" using restart_goes_offline [OF assms(3)] u by (simp add: m1_def)
  have "\<not> offlineForRestart e (mw m2)" if "g1"
  proof
    have ok: "sync_ok (mw m1)" using processUpdateGracefully_safe u that by (simp add: m1_def)
    assume o: "offlineForRestart e (mw m2)"
    then have "ServiceOffline (Status (mw m2))" using processPlan_offline [OF m1 ok, of e] p off by simp
    then show False using o by (simp add: offlineForRestart_def)
  qed
  then show ?thesis unfolding update_loop_Suc [OF u p [unfolded m1_def]] by (cases r) auto
qed

lemma update_loop_returns:
  assumes "ainv (mal m)" "syncable (mw m)"
  shows "update_loop e al restart_rounds m \<noteq> None"
proof -
  obtain w1 g1 where u: "processUpdateGracefully e (mw m) = (w1, g1)" by fastforce
  define m1 where "m1 = m\<lparr>mw := set_step StepProcessUpdateGracefully w1\<rparr>"
  obtain m2 r where p: "processPlan e al m1 = (m2, r)" by fastforce
  have w1: "same_frame (mw m) w1" using processUpdateGracefully_frame [of "mw m" e] u by simp
  have m1: "ainv (mal m1)" "syncable (mw m1)"
    using assms(1) syncable_same [OF assms(2) same_frame_trans [OF w1 status_frames(3)]] by (simp_all add: m1_def)
  have "ainv (mal m2) \<and> syncable (mw m2)" if "g1"
    using processPlan_quiet [OF m1, of e] processUpdateGracefully_safe [of e "mw m" w1] u p that syncable_frame [OF m1(2), of "mw m2"]
    by (simp add: quiet_def m1_def)
  moreover have "restart_rounds = Suc (Suc 0)" by (simp add: restart_rounds_def)
  ultimately show ?thesis
    using update_loop_second_round [of m2 e 0] update_loop_Suc [OF u p [unfolded m1_def], of "Suc 0"]
    by (cases r) auto
qed

end

subsection \<open>The life cycle\<close>

text \<open>The abstract life cycle of a worker. A worker whose pod is recreated begins again.\<close>

inductive alloc_step :: "AllocStatus \<Rightarrow> AllocStatus \<Rightarrow> bool" where
  assign: "alloc_step WorkerUnAssigned WorkerAssigned"
| recreate: "alloc_step WorkerAssigned WorkerUnAssigned"
| lose: "alloc_step WorkerAssigned WorkerLost"
| drop: "alloc_step WorkerUnAssigned WorkerReleased"
| offline: "s \<in> {WorkerUnAssigned, WorkerAssigned, WorkerLost} \<Longrightarrow> alloc_step s WorkerOfflining"
| release: "s \<in> {WorkerUnAssigned, WorkerAssigned, WorkerLost, WorkerOfflining} \<Longrightarrow> alloc_step s WorkerReleasing"
| finish: "alloc_step WorkerReleasing WorkerReleased"

inductive_simps alloc_step_from [simp]:
  "alloc_step WorkerReleased s" "alloc_step WorkerReleasing s" "alloc_step WorkerOfflining s" "alloc_step WorkerLost s"

inductive_cases alloc_stepE: "alloc_step s t"

text \<open>Where a pass begins: a worker without a status starts unassigned.\<close>

definition first_status :: "'s machine \<Rightarrow> AllocStatus" where
  "first_status m = (if status_of m = AllocStatusEmpty then WorkerUnAssigned else status_of m)"

definition staying :: "AllocStatus set" where
  "staying = {WorkerUnAssigned, WorkerAssigned, WorkerLost}"

text \<open>Every stage of a pass makes steps of the life cycle and keeps the marks; for a worker that is to stay it deletes
  nothing.\<close>

definition stage :: "('s \<Rightarrow> bool) \<Rightarrow> 's machine \<Rightarrow> 's machine \<Rightarrow> bool" where
  "stage ainv m m' \<longleftrightarrow> marks ainv m m' \<and> status_of m' \<noteq> AllocStatusEmpty \<and> alloc_step\<^sup>*\<^sup>* (status_of m) (status_of m') \<and>
     (\<not> IsWorkerToRelease (mw m) \<and> status_of m \<in> staying \<longrightarrow> calm ainv m m' \<and> status_of m' \<in> staying)"

lemma stage_refl: "ainv (mal m) \<Longrightarrow> status_of m \<noteq> AllocStatusEmpty \<Longrightarrow> stage ainv m m"
  by (simp add: stage_def marks_refl calm_refl)

lemma stage_trans: "stage ainv a b \<Longrightarrow> stage ainv b c \<Longrightarrow> stage ainv a c"
  unfolding stage_def using marks_trans [of ainv a b c] calm_trans [of ainv a b c]
    rtranclp_trans [of alloc_step "status_of a" "status_of b" "status_of c"]
  by (metis marks_def)

text \<open>What the handler of an unassigned worker may do to it.\<close>

definition unassigned_ok :: "('s \<Rightarrow> bool) \<Rightarrow> 's machine \<Rightarrow> 's machine \<Rightarrow> bool" where
  "unassigned_ok ainv m m' \<longleftrightarrow> marks ainv m m' \<and>
    (\<not> IsWorkerToRelease (mw m) \<longrightarrow> calm ainv m m' \<and> status_of m' \<in> {WorkerUnAssigned, WorkerAssigned}) \<and>
    status_of m' \<in> {WorkerUnAssigned, WorkerAssigned, WorkerReleased, release_status (mw m)}"

lemma unassigned_ok_calm:
  "calm ainv m m' \<Longrightarrow> status_of m' = WorkerUnAssigned \<or> status_of m' = WorkerAssigned \<Longrightarrow> unassigned_ok ainv m m'"
  by (auto simp: unassigned_ok_def calm_marks)

lemma unassigned_ok_release:
  "marks ainv m m' \<Longrightarrow> IsWorkerToRelease (mw m) \<Longrightarrow> status_of m' \<in> {WorkerUnAssigned, WorkerReleased, release_status (mw m)} \<Longrightarrow>
    unassigned_ok ainv m m'"
  by (auto simp: unassigned_ok_def)

lemma unassigned_ok_trans:
  assumes "unassigned_ok ainv m m'" "calm ainv m' m''" "status_of m'' = status_of m'"
  shows "unassigned_ok ainv m m''"
  using assms marks_trans [of ainv m m' m''] calm_trans [of ainv m m' m''] calm_marks by (auto simp: unassigned_ok_def)

lemma unassigned_ok_before:
  assumes "calm ainv m m1" "unassigned_ok ainv m1 m2"
  shows "unassigned_ok ainv m m2"
proof -
  have "marks ainv m m1" using assms(1) by (rule calm_marks)
  then show ?thesis
    using assms(2) marks_trans [of ainv m m1 m2] calm_trans [OF assms(1), of m2]
    by (auto simp: unassigned_ok_def release_status_def marks_def)
qed

lemma marks_worker:
  "ainv (mal m) \<Longrightarrow> Spec w = Spec (mw m) \<Longrightarrow> DeletionTimestamp w = DeletionTimestamp (mw m) \<Longrightarrow>
    ToRelease (Status w) = ToRelease (Status (mw m)) \<Longrightarrow> marks ainv m (m\<lparr>mw := w\<rparr>)"
  by (simp add: marks_def IsWorkerToRelease_def IsWorkerGracefully_def)

lemma keeps_preds: "keeps w w' \<Longrightarrow> IsWorkerToRelease w' = IsWorkerToRelease w \<and> IsWorkerGracefully w' = IsWorkerGracefully w"
  by (simp add: keeps_def IsWorkerToRelease_def IsWorkerGracefully_def)

text \<open>The calls that touch the pod are logged; an example is what the handler of an unassigned worker does with an allocated one.\<close>

definition assigned_worker :: "worker_env \<Rightarrow> WorkerNode \<Rightarrow> WorkerNode" where
  "assigned_worker e w = SetWorkerAssigned e (set_status (\<lambda>s. s\<lparr>InRestarting := True\<rparr>)
     (if WarmupNewStartingPod e then set_status (\<lambda>s. s\<lparr>st_NeedWarmup := NeedWarmup w\<rparr>) w else w))"

text \<open>\<^verbatim>\<open>dealwithUnAssigned\<close> by its branches, on the machine after the service conditions are set.\<close>

lemma dealwithUnAssigned_branches:
  assumes "initServiceConditions e al (mw m) = (w, True)"
  defines "m1 \<equiv> m\<lparr>mw := w\<rparr>"
  shows "dealwithUnAssigned e al m =
    (if IsWorkerEntityAlloced w then (sync_unassigned_pod al (m1\<lparr>mw := assigned_worker e w\<rparr>), True)
     else if IsWorkerEmpty w \<and> IsWorkerToRelease w then
       (case mpod m of
          None \<Rightarrow> (sync_unassigned_pod al (on_worker SetWorkerReleased m1), True)
        | Some _ \<Rightarrow>
            let (m2, ok) = logged_op PodDelete (al_delete al) m1 in
            if \<not> ok then (m2, False) else (sync_unassigned_pod al (on_worker SetWorkerReleased (m2\<lparr>mpod := None\<rparr>)), True))
     else if IsWorkerToRelease w then (sync_unassigned_pod al (on_worker tryToReleaseWorker m1), True)
     else if needAllocate m1 then
       let (m2, ok) = logged_op PodAllocate (al_allocate al) m1 in
       (if ok then m2 else on_worker (SetUnassignedReason UnassignedReasonCreatePodErr) m2, True)
     else (case mpod m of
         None \<Rightarrow> (sync_unassigned_pod al m1, True)
       | Some _ \<Rightarrow> (sync_unassigned_pod al (on_worker (SetUnassignedReason (GetUnassignedResson (mpod m))) m1), True)))"
  using assms(1) by (auto simp: dealwithUnAssigned_def m1_def assigned_worker_def Let_def split: option.split)

text \<open>What the handler of an assigned worker does before the update loop.\<close>

definition update_start :: "'s machine \<Rightarrow> 's machine" where
  "update_start m =
     (let m = (case mpod m of None \<Rightarrow> m
                 | Some p \<Rightarrow> if pod_NodeName p \<noteq> '''' then on_worker (\<lambda>w. fst (UnsetStandby2Active w)) m else m);
          m = on_worker syncRrResourceUpdateState m
      in on_worker (set_status (\<lambda>s. s\<lparr>IsFedWorker := is_fed_pod (mpod m), st_ProcessStep := StepBegin\<rparr>)) m)"

lemma assigned_body_start:
  "assigned_body e al m =
     (if IsWorkerToRelease (mw m) then Some (on_worker (\<lambda>w. set_step StepToRelease (tryToReleaseWorker w)) m, True)
      else if \<not> IsWorkerEntityAlloced (mw m) then
        Some (on_worker (\<lambda>w. set_status (\<lambda>s. s\<lparr>PodReady := False, st_ProcessStep := StepLost\<rparr>) (SetWorkerLost w)) m, True)
      else update_loop e al restart_rounds (update_start m))"
  unfolding assigned_body_def update_start_def Let_def ..

lemma update_start_simps:
  "same_frame (mw m) (mw (update_start m))" "mal (update_start m) = mal m" "mpod (update_start m) = mpod m"
  "mlog (update_start m) = mlog m"
proof -
  define a where "a = (case mpod m of None \<Rightarrow> m
    | Some p \<Rightarrow> if pod_NodeName p \<noteq> '''' then on_worker (\<lambda>w. fst (UnsetStandby2Active w)) m else m)"
  define c where "c = on_worker syncRrResourceUpdateState a"
  have "same_frame (mw m) (mw a)" using same_frame_refl helper_frames(4) by (simp add: a_def split: option.split)
  moreover have "same_frame (mw a) (mw c)" using helper_frames(5) by (simp add: c_def)
  moreover have "same_frame (mw c) (mw (update_start m))"
    by (simp add: update_start_def Let_def a_def [symmetric] c_def [symmetric] same_frame_def) (simp add: c_def)
  ultimately show "same_frame (mw m) (mw (update_start m))" by (metis same_frame_trans)
  show "mal (update_start m) = mal m" "mpod (update_start m) = mpod m" "mlog (update_start m) = mlog m"
    by (simp_all add: update_start_def Let_def split: option.split)
qed

context worker_allocator
begin

lemma prepare_calm:
  assumes "ainv (mal m)"
  shows "calm ainv m (fst (prepare al m)) \<and> mpod (fst (prepare al m)) = mpod m \<and> mlog (fst (prepare al m)) = mlog m \<and>
    status_of (fst (prepare al m)) = first_status m"
proof -
  define c where "c = fst (call_op (al_syncWorkerAllocStatus al) m)"
  have k: "ainv (mal c)" "keeps (mw m) (mw c)" "mpod c = mpod m" "mlog c = mlog m"
    using alloc_status_call [OF assms] by (simp_all add: c_def)
  have p: "fst (prepare al m) = on_worker (\<lambda>w. SyncWorkerInUpdating (InitWorkerNode w)) c"
    by (simp add: prepare_def Let_def split_beta c_def)
  have "calm ainv m c" using k keeps_preds [OF k(2)] by (simp add: calm_def marks_def)
  moreover have "calm ainv c (fst (prepare al m))"
    unfolding p by (rule calm_inv(2)) (simp_all add: k same_frame_trans [OF helper_frames(9) helper_frames(3)])
  moreover have "status_of (fst (prepare al m)) = first_status m"
    using k(2) by (auto simp: p keeps_def first_status_def SyncWorkerInUpdating_def InitWorkerNode_def)
  ultimately show ?thesis using k calm_trans by (auto simp: p)
qed

lemma assigned_update_quiet:
  assumes "ainv (mal m)" "syncable (mw m)" "IsWorkerEntityAlloced (mw m)" "assigned_body e al m = Some (m', ok)"
  shows "quiet ainv m m'"
proof -
  have s: "sync_frame (mw m) (mw (update_start m))" "syncable (mw (update_start m))"
    using syncable_same [OF assms(2) update_start_simps(1)] by auto
  then have "quiet ainv m (update_start m)" using assms(1) by (simp add: quiet_def update_start_simps)
  moreover have "update_loop e al restart_rounds (update_start m) = Some (m', ok)"
    using assms(2-4) by (simp add: assigned_body_start syncable_def)
  then have "quiet ainv (update_start m) m'" by (rule update_loop_quiet) (simp_all add: assms(1) s update_start_simps)
  ultimately show ?thesis by (rule quiet_trans)
qed

lemma assigned_body_returns:
  assumes "ainv (mal m)" "status_of m = WorkerAssigned"
  shows "assigned_body e al m \<noteq> None"
proof (cases "IsWorkerToRelease (mw m) \<or> \<not> IsWorkerEntityAlloced (mw m)")
  case True
  then show ?thesis by (auto simp: assigned_body_start)
next
  case False
  then have "syncable (mw m)" using assms(2) by (simp add: syncable_def)
  then have "syncable (mw (update_start m))" using syncable_same update_start_simps(1) by blast
  then show ?thesis using False update_loop_returns assms(1) by (simp add: assigned_body_start update_start_simps)
qed

lemma dealwithAssigned_cases:
  assumes "ainv (mal m)" "IsWorkerAssigned (mw m)" "dealwithAssigned e al m = Some (m', ok)"
  shows "calm ainv m m' \<and> syncs_safely m m' \<and> mpod m' = mpod m \<and>
    (if IsWorkerToRelease (mw m) then status_of m' = release_status (mw m)
     else status_of m' \<in> {WorkerLost, WorkerAssigned, WorkerUnAssigned})"
proof -
  define m0 where "m0 = on_worker (SetUnassignedReason UnassignedReasonNone) m"
  have s0: "status_of m0 = WorkerAssigned" using assms(2) frame_status [OF helper_frames(1)]
    by (simp add: m0_def IsWorkerAssigned_def)
  have p0: "IsWorkerToRelease (mw m0) = IsWorkerToRelease (mw m)" "IsWorkerGracefully (mw m0) = IsWorkerGracefully (mw m)"
    "mpod m0 = mpod m" "mlog m0 = mlog m" "ainv (mal m0)"
    using same_frame_preds [OF helper_frames(1)] assms(1) by (simp_all add: m0_def)
  have c0: "calm ainv m m0" using p0 by (simp add: calm_def marks_def)
  obtain m1 where b: "assigned_body e al m0 = Some (m1, ok)" and m':
    "m' = on_worker (\<lambda>w. SyncWorkerInUpdating (set_status (\<lambda>s. s\<lparr>Complete := IsWorkerComplete e w\<rparr>) w)) m1"
    using assms(3) by (auto simp: dealwithAssigned_def m0_def)
  have eq: "mpod m' = mpod m1" "mlog m' = mlog m1" "mal m' = mal m1" "status_of m' = status_of m1"
    by (simp_all add: m' SyncWorkerInUpdating_def)
  have r: "calm ainv m0 m1 \<and> syncs_safely m0 m1 \<and> mpod m1 = mpod m0 \<and>
    (if IsWorkerToRelease (mw m0) then status_of m1 = release_status (mw m0)
     else status_of m1 \<in> {WorkerLost, WorkerAssigned, WorkerUnAssigned})"
  proof (cases "IsWorkerToRelease (mw m0) \<or> \<not> IsWorkerEntityAlloced (mw m0)")
    case True
    then show ?thesis using b p0(5)
      by (auto simp: assigned_body_def calm_def marks_def syncs_safely_def release_status_def tryToReleaseWorker_def
          worker_setters IsWorkerToRelease_def IsWorkerGracefully_def)
  next
    case False
    then have q: "quiet ainv m0 m1" using assigned_update_quiet [OF p0(5) _ _ b] s0 by (simp add: syncable_def)
    then show ?thesis using False s0 quiet_calm [OF q] quiet_syncs [OF q] by (auto simp: quiet_def sync_frame_def recreated_def)
  qed
  then have "ainv (mal m1)" by (simp add: calm_def marks_def)
  then have "calm ainv m1 m'"
    unfolding m' by (intro calm_inv(2) same_frame_trans [OF status_frames(4) helper_frames(3)])
  then have "calm ainv m m'" using calm_trans [OF c0 calm_trans] r by blast
  moreover have "syncs_safely m m'" using r by (simp add: syncs_safely_def p0 eq)
  moreover have "release_status (mw m0) = release_status (mw m)" by (simp add: release_status_def p0)
  ultimately show ?thesis using r unfolding p0 eq by (simp split: if_splits)
qed

lemma sync_unassigned_calm:
  assumes "ainv (mal m)" "status_of m \<noteq> AllocStatusEmpty"
  shows "calm ainv m (sync_unassigned_pod al m) \<and> status_of (sync_unassigned_pod al m) = status_of m"
proof (cases "IsWorkerUnAssigned (mw m) \<and> \<not> IsWorkerToRelease (mw m)")
  case True
  then have ok: "syncable (mw m)" "sync_ok (mw m)" and st: "status_of m = WorkerUnAssigned"
    using assms(2) by (auto simp: syncable_def sync_ok_def IsWorkerUnAssigned_def)
  note q = sync_quiet [OF assms(1) ok]
  then have "status_of (fst (logged_op PodSpecSync (al_syncPodSpec al) m)) = status_of m"
    using st by (simp add: quiet_def sync_frame_def recreated_def)
  then show ?thesis using quiet_calm [OF q] calm_refl [of ainv m] assms(1) by (simp add: sync_unassigned_pod_def split: option.split)
next
  case False
  then have "sync_unassigned_pod al m = m" by (auto simp: sync_unassigned_pod_def split: option.split)
  then show ?thesis using calm_refl [of ainv m] assms(1) by simp
qed

lemma unassigned_ok_sync:
  assumes "unassigned_ok ainv m m'"
  shows "unassigned_ok ainv m (sync_unassigned_pod al m')"
proof -
  have "status_of m' \<noteq> AllocStatusEmpty" "ainv (mal m')"
    using assms by (auto simp: unassigned_ok_def release_status_def marks_def split: if_splits)
  then show ?thesis using sync_unassigned_calm unassigned_ok_trans [OF assms] by blast
qed

end

context worker_allocator
begin

lemma dealwithUnAssigned_ok:
  assumes "ainv (mal m)" "status_of m = WorkerUnAssigned"
  shows "unassigned_ok ainv m (fst (dealwithUnAssigned e al m))"
proof -
  obtain w ok where i: "initServiceConditions e al (mw m) = (w, ok)" by fastforce
  have f: "same_frame (mw m) w" using initServiceConditions_frame [of "mw m" e al] i by simp
  define m1 where "m1 = m\<lparr>mw := w\<rparr>"
  have c1: "calm ainv m m1" unfolding m1_def by (rule calm_inv(2) [OF assms(1) f])
  have w: "mw m1 = w" "st_AllocStatus (Status w) = WorkerUnAssigned" "ainv (mal m1)" "mpod m1 = mpod m"
    using f assms frame_status [OF f] by (simp_all add: m1_def)
  define deleted where "deleted = fst (logged_op PodDelete (al_delete al) m1)"
  define allocated where "allocated = fst (logged_op PodAllocate (al_allocate al) m1)"
  have same: "unassigned_ok ainv m1 m1" by (rule unassigned_ok_calm) (simp_all add: calm_refl w)
  have a: "unassigned_ok ainv m1 (m1\<lparr>mw := assigned_worker e w\<rparr>)"
    by (rule unassigned_ok_calm) (auto intro!: calm_inv(1) simp: w assigned_worker_def worker_setters worker_preds)
  have al: "unassigned_ok ainv m1 allocated" "unassigned_ok ainv m1 (on_worker (SetUnassignedReason r) allocated)" for r
    using allocate_call [OF w(3)] w same_frame_preds [OF helper_frames(1)] keeps_preds frame_status [OF helper_frames(1)]
    by (intro unassigned_ok_calm; simp add: allocated_def calm_def marks_def keeps_def)+
  have r: "unassigned_ok ainv m1 (m1\<lparr>mw := SetUnassignedReason r w\<rparr>)" for r
    using w same_frame_preds [OF helper_frames(1)] frame_status [OF helper_frames(1)]
    by (intro unassigned_ok_calm calm_inv(1)) simp_all
  have rel: "unassigned_ok ainv m1 (on_worker SetWorkerReleased m1)" "unassigned_ok ainv m1 (on_worker tryToReleaseWorker m1)"
    if "IsWorkerToRelease w"
    using w that
    by (intro unassigned_ok_release marks_worker; simp add: worker_setters tryToReleaseWorker_def release_status_def)+
  have del: "unassigned_ok ainv m1 deleted" "unassigned_ok ainv m1 (on_worker SetWorkerReleased (deleted\<lparr>mpod := None\<rparr>))"
    if "IsWorkerToRelease w" "IsWorkerEmpty w"
  proof -
    have "delete_ok (mw m1)" using that w by (simp add: delete_ok_def IsWorkerUnAssigned_def)
    note k = delete_call [OF w(3) this]
    have "st_AllocStatus (Status (mw deleted)) = WorkerUnAssigned" "marks ainv m1 deleted"
      using k w keeps_preds [of w "mw deleted"] by (simp_all add: deleted_def keeps_def marks_def)
    then show "unassigned_ok ainv m1 deleted" "unassigned_ok ainv m1 (on_worker SetWorkerReleased (deleted\<lparr>mpod := None\<rparr>))"
      using that w by (auto intro!: unassigned_ok_release simp: marks_def worker_setters IsWorkerToRelease_def IsWorkerGracefully_def)
  qed
  have "unassigned_ok ainv m1 (fst (dealwithUnAssigned e al m))"
  proof (cases ok)
    case True
    then show ?thesis
      using dealwithUnAssigned_branches [of e al m w] i same a al r rel del unassigned_ok_sync
      by (simp add: m1_def [symmetric] w deleted_def [symmetric] allocated_def [symmetric] Let_def split_beta split: option.split)
  next
    case False
    then show ?thesis using i same by (simp add: dealwithUnAssigned_def m1_def)
  qed
  then show ?thesis by (rule unassigned_ok_before [OF c1])
qed

end

subsection \<open>Deletions\<close>

text \<open>A deletion of a pod is safe when its services are withdrawn, when the pod has failed, or when the worker never had a pod.\<close>

definition safe_delete :: "WorkerNode \<Rightarrow> bool" where
  "safe_delete w \<longleftrightarrow> IsWorkerOfflined w \<or> IsWorkerFalied w \<or> (IsWorkerUnAssigned w \<and> IsWorkerEmpty w)"

definition deletes_safely :: "'s machine \<Rightarrow> 's machine \<Rightarrow> bool" where
  "deletes_safely m m' \<longleftrightarrow> (\<exists>l. mlog m' = mlog m @ l \<and> (\<forall>w. PodDelete w \<in> set l \<longrightarrow> safe_delete w))"

lemma deletes_trans: "deletes_safely a b \<Longrightarrow> deletes_safely b c \<Longrightarrow> deletes_safely a c"
  unfolding deletes_safely_def by fastforce

lemma calm_deletes: "calm ainv m m' \<Longrightarrow> deletes_safely m m'"
  unfolding calm_def deletes_safely_def by blast

lemma sync_unassigned_log:
  "mlog (sync_unassigned_pod al m) = mlog m \<or> mlog (sync_unassigned_pod al m) = mlog m @ [PodSpecSync (mw m)]"
  by (simp add: sync_unassigned_pod_def split: option.split)

lemma dealwithUnAssigned_deletes:
  assumes "status_of m = WorkerUnAssigned"
  shows "deletes_safely m (fst (dealwithUnAssigned e al m))"
proof -
  obtain w ok where i: "initServiceConditions e al (mw m) = (w, ok)" by fastforce
  have f: "same_frame (mw m) w" using initServiceConditions_frame [of "mw m" e al] i by simp
  have u: "IsWorkerUnAssigned w" using frame_status [OF f assms] by (simp add: worker_preds)
  have sync: "deletes_safely m (sync_unassigned_pod al m')"
    if "mlog m' = mlog m \<or> (mlog m' = mlog m @ [PodDelete w] \<and> IsWorkerEmpty w)" for m'
    using that sync_unassigned_log [of al m'] u by (auto simp: deletes_safely_def safe_delete_def)
  have other: "deletes_safely m m'"
    if "mlog m' = mlog m \<or> mlog m' = mlog m @ [PodAllocate w] \<or> (mlog m' = mlog m @ [PodDelete w] \<and> IsWorkerEmpty w)" for m'
    using that u by (auto simp: deletes_safely_def safe_delete_def)
  show ?thesis
  proof (cases ok)
    case True
    then show ?thesis using dealwithUnAssigned_branches [of e al m w] i
      by (simp add: Let_def split_beta sync other split: option.split)
  next
    case False
    then show ?thesis using i other by (simp add: dealwithUnAssigned_def)
  qed
qed

lemma offlined_cong:
  assumes "ServiceConditions (Status w') = ServiceConditions (Status w)" "ServiceOffline (Status w') = ServiceOffline (Status w)"
    "st_ServiceStatus (Status w') = st_ServiceStatus (Status w)"
  shows "IsWorkerOfflined w' = IsWorkerOfflined w"
  by (simp only: IsWorkerOfflined_def IsWorkerUnAvaliable_def IsWorkerUnpublished_def Let_def assms)

text \<open>A graceful worker that is not yet being released is deleted only after \<open>dealwithOfflining\<close> found it offlined or failed.\<close>

lemma offlining_deletes:
  assumes "IsWorkerOfflining (mw m)" "IsWorkerReleasing (mw (fst (dealwithOfflining m)))"
  shows "safe_delete (mw (fst (dealwithOfflining m)))"
proof -
  define w where "w = SyncWorkerServiceHealthStatus (set_status (\<lambda>s. s\<lparr>ServiceOffline := True\<rparr>) (mw m))"
  have "IsWorkerOfflining w" using assms(1) by (simp add: w_def SyncWorkerServiceHealthStatus_def worker_preds)
  then have "IsWorkerOfflined w \<or> IsWorkerFalied w" "mw (fst (dealwithOfflining m)) = SetWorkerReleasing w"
    using assms(2) by (auto simp: dealwithOfflining_def Let_def w_def [symmetric] worker_preds split: if_splits)
  moreover have "IsWorkerOfflined (SetWorkerReleasing w) = IsWorkerOfflined w" "IsWorkerFalied (SetWorkerReleasing w) = IsWorkerFalied w"
    by (rule offlined_cong; simp add: worker_setters) (simp add: worker_setters IsWorkerFalied_def)
  ultimately show ?thesis by (auto simp: safe_delete_def)
qed

lemma releasing_log:
  "mlog (fst (dealwithReleasing al m)) = mlog m \<or> mlog (fst (dealwithReleasing al m)) = mlog m @ [PodDelete (mw m)]"
  by (simp add: dealwithReleasing_def Let_def split_beta split: option.split)

text \<open>The handlers after the assigned one, as \<^verbatim>\<open>process\<close> runs them.\<close>

definition leave_stages :: "'s allocator \<Rightarrow> 's machine \<Rightarrow> 's machine \<times> bool" where
  "leave_stages al m =
     (let m = (if IsWorkerLost (mw m) then fst (dealwithLost m) else m);
          m = (if IsWorkerOfflining (mw m) then fst (dealwithOfflining m) else m);
          m = (if IsWorkerReleasing (mw m) then fst (dealwithReleasing al m) else m);
          m = (if IsWorkerReleased (mw m) then m\<lparr>mpod := None\<rparr> else m)
      in call_op (al_syncPodMetas al) m)"

definition enter_stage :: "worker_env \<Rightarrow> 's allocator \<Rightarrow> 's machine \<Rightarrow> 's machine" where
  "enter_stage e al m =
     (let m = fst (prepare al m) in if IsWorkerUnAssigned (mw m) then fst (dealwithUnAssigned e al m) else m)"

lemma process_by_stages:
  "process e al m =
     (let m1 = enter_stage e al m in
      map_option (leave_stages al) (if IsWorkerAssigned (mw m1) then map_option fst (dealwithAssigned e al m1) else Some m1))"
  by (simp add: process_def enter_stage_def leave_stages_def Let_def split_beta split: option.split)

lemma leave_log:
  assumes "IsWorkerGracefully (mw m)" "\<not> IsWorkerReleasing (mw m)"
  shows "deletes_safely m (fst (leave_stages al m))"
proof -
  define a where "a = (if IsWorkerLost (mw m) then fst (dealwithLost m) else m)"
  define b where "b = (if IsWorkerOfflining (mw a) then fst (dealwithOfflining a) else a)"
  have a: "mlog a = mlog m" "\<not> IsWorkerReleasing (mw a)"
    using assms by (auto simp: a_def dealwithLost_def tryToReleaseWorker_def worker_setters worker_preds)
  have "mlog b = mlog a" by (simp add: b_def dealwithOfflining_def Let_def)
  moreover have "safe_delete (mw b)" if "IsWorkerReleasing (mw b)"
    using that a(2) offlining_deletes [of a] by (auto simp: b_def split: if_splits)
  moreover have "mlog (fst (leave_stages al m)) = mlog (if IsWorkerReleasing (mw b) then fst (dealwithReleasing al b) else b)"
    by (simp add: leave_stages_def Let_def a_def b_def)
  ultimately show ?thesis using a(1) releasing_log [of al b] by (auto simp: deletes_safely_def)
qed

lemma leave_syncs: "syncs_safely m (fst (leave_stages al m))"
proof -
  define a where "a = (if IsWorkerLost (mw m) then fst (dealwithLost m) else m)"
  define b where "b = (if IsWorkerOfflining (mw a) then fst (dealwithOfflining a) else a)"
  have "mlog b = mlog m" by (simp add: a_def b_def dealwithOfflining_def dealwithLost_def Let_def)
  moreover have "mlog (fst (leave_stages al m)) = mlog (if IsWorkerReleasing (mw b) then fst (dealwithReleasing al b) else b)"
    by (simp add: leave_stages_def Let_def a_def b_def)
  ultimately show ?thesis using releasing_log [of al b] by (auto simp: syncs_safely_def)
qed

lemma stage_kept:
  assumes "ainv (mal m')" "keeps (mw m) (mw m')" "mlog m' = mlog m" "status_of m \<noteq> AllocStatusEmpty"
  shows "stage ainv m m'"
proof -
  have "marks ainv m m'" using assms(1) keeps_preds [OF assms(2)] by (simp add: marks_def)
  moreover have "status_of m' = status_of m" using assms(2,4) by (simp add: keeps_def)
  ultimately show ?thesis using assms(3,4) by (simp add: stage_def calm_def)
qed

lemma stage_lost: "ainv (mal m) \<Longrightarrow> IsWorkerLost (mw m) \<Longrightarrow> stage ainv m (fst (dealwithLost m))"
  by (auto simp: stage_def dealwithLost_def tryToReleaseWorker_def worker_setters worker_preds marks_def calm_def staying_def
      intro: alloc_step.intros)

lemma stage_offlining: "ainv (mal m) \<Longrightarrow> IsWorkerOfflining (mw m) \<Longrightarrow> stage ainv m (fst (dealwithOfflining m))"
  by (auto simp: stage_def dealwithOfflining_def Let_def SyncWorkerServiceHealthStatus_def worker_setters IsWorkerOfflining_def
      IsWorkerToRelease_def IsWorkerGracefully_def marks_def staying_def intro: alloc_step.intros)

context worker_allocator
begin

lemma stage_unassigned:
  assumes "ainv (mal m)" "IsWorkerUnAssigned (mw m)" "status_of m \<noteq> AllocStatusEmpty"
  shows "stage ainv m (fst (dealwithUnAssigned e al m))"
proof -
  have s: "status_of m = WorkerUnAssigned" using assms(2,3) by (simp add: worker_preds)
  have "alloc_step\<^sup>*\<^sup>* WorkerUnAssigned s \<and> s \<noteq> AllocStatusEmpty"
    if "s \<in> {WorkerUnAssigned, WorkerAssigned, WorkerReleased, release_status (mw m)}" for s
    using that by (auto simp: release_status_def intro: alloc_step.intros split: if_splits)
  then show ?thesis using dealwithUnAssigned_ok [OF assms(1) s, of e] s unfolding unassigned_ok_def stage_def staying_def by auto
qed

lemma stage_assigned:
  assumes "ainv (mal m)" "IsWorkerAssigned (mw m)" "dealwithAssigned e al m = Some (m', ok)"
  shows "stage ainv m m'"
proof -
  note c = dealwithAssigned_cases [OF assms]
  have s: "status_of m = WorkerAssigned" using assms(2) by (simp add: worker_preds)
  have "alloc_step\<^sup>*\<^sup>* WorkerAssigned s \<and> s \<noteq> AllocStatusEmpty"
    if "s \<in> {WorkerAssigned, WorkerUnAssigned, WorkerLost, WorkerOfflining, WorkerReleasing}" for s
    using that by (auto intro: alloc_step.intros)
  moreover have "status_of m' \<in> {WorkerAssigned, WorkerUnAssigned, WorkerLost, WorkerOfflining, WorkerReleasing}"
    using c by (auto simp: release_status_def split: if_splits)
  ultimately show ?thesis using c s calm_marks by (auto simp: stage_def staying_def split: if_splits)
qed

lemma stage_releasing:
  assumes "ainv (mal m)" "IsWorkerReleasing (mw m)"
  shows "stage ainv m (fst (dealwithReleasing al m))"
proof -
  define d where "d = fst (logged_op PodDelete (al_delete al) m)"
  have s: "status_of m = WorkerReleasing" using assms(2) by (simp add: worker_preds)
  have "delete_ok (mw m)" using assms(2) by (simp add: delete_ok_def)
  note k = delete_call [OF assms(1) this]
  then have "ainv (mal d)" "status_of d = WorkerReleasing" "IsWorkerToRelease (mw d) = IsWorkerToRelease (mw m)"
    "IsWorkerGracefully (mw d) = IsWorkerGracefully (mw m)"
    using s keeps_preds by (auto simp: d_def keeps_def)
  then show ?thesis using assms(1) s
    by (auto simp: stage_def dealwithReleasing_def Let_def split_beta d_def [symmetric] worker_setters IsWorkerLost_def IsWorkerEmpty_def
        IsWorkerToRelease_def IsWorkerGracefully_def marks_def staying_def intro: alloc_step.intros split: option.split)
qed

lemma stage_leave:
  assumes "ainv (mal m)" "status_of m \<noteq> AllocStatusEmpty"
  shows "stage ainv m (fst (leave_stages al m))"
proof -
  define a where "a = (if IsWorkerLost (mw m) then fst (dealwithLost m) else m)"
  define b where "b = (if IsWorkerOfflining (mw a) then fst (dealwithOfflining a) else a)"
  define c where "c = (if IsWorkerReleasing (mw b) then fst (dealwithReleasing al b) else b)"
  define d where "d = (if IsWorkerReleased (mw c) then c\<lparr>mpod := None\<rparr> else c)"
  have sa: "stage ainv m a" using assms stage_lost stage_refl by (auto simp: a_def)
  then have a: "ainv (mal a)" "status_of a \<noteq> AllocStatusEmpty" by (simp_all add: stage_def marks_def)
  have sb: "stage ainv a b" using a stage_offlining stage_refl by (auto simp: b_def)
  then have b: "ainv (mal b)" "status_of b \<noteq> AllocStatusEmpty" by (simp_all add: stage_def marks_def)
  have sc: "stage ainv b c" using b stage_releasing stage_refl by (auto simp: c_def)
  then have c: "ainv (mal c)" "status_of c \<noteq> AllocStatusEmpty" by (simp_all add: stage_def marks_def)
  have sd: "stage ainv c d" "ainv (mal d)" "status_of d \<noteq> AllocStatusEmpty"
    using c by (auto simp: d_def stage_def marks_def calm_def)
  have "stage ainv d (fst (call_op (al_syncPodMetas al) d))" using metas_call [OF sd(2)] by (intro stage_kept sd) simp_all
  moreover have "leave_stages al m = call_op (al_syncPodMetas al) d"
    unfolding leave_stages_def Let_def a_def b_def c_def d_def ..
  ultimately show ?thesis using stage_trans [OF sa stage_trans [OF sb stage_trans [OF sc stage_trans [OF sd(1)]]]] by simp
qed

lemma stage_enter:
  assumes "ainv (mal m)"
  shows "stage ainv (fst (prepare al m)) (enter_stage e al m)"
proof -
  define p where "p = fst (prepare al m)"
  have s: "status_of p \<noteq> AllocStatusEmpty" "ainv (mal p)"
    using prepare_calm [OF assms] by (auto simp: p_def first_status_def calm_def marks_def)
  then show ?thesis using stage_unassigned stage_refl by (auto simp: enter_stage_def Let_def p_def [symmetric])
qed

text \<open>A pass goes through its stages, and always to the end.\<close>

lemma process_stages:
  assumes "ainv (mal m)"
  obtains m2 where "process e al m = Some (leave_stages al m2)" "stage ainv (enter_stage e al m) m2"
    "m2 = enter_stage e al m \<and> \<not> IsWorkerAssigned (mw m2) \<or>
     IsWorkerAssigned (mw (enter_stage e al m)) \<and> (\<exists>ok. dealwithAssigned e al (enter_stage e al m) = Some (m2, ok))"
proof -
  define x where "x = enter_stage e al m"
  have x: "ainv (mal x)" "status_of x \<noteq> AllocStatusEmpty" using stage_enter [OF assms, of e] by (simp_all add: x_def stage_def marks_def)
  show ?thesis
  proof (cases "IsWorkerAssigned (mw x)")
    case True
    let ?y = "on_worker (SetUnassignedReason UnassignedReasonNone) x"
    have "assigned_body e al ?y \<noteq> None"
      using True x(1) frame_status [OF helper_frames(1)] by (intro assigned_body_returns) (simp_all add: IsWorkerAssigned_def)
    then obtain m2 ok where d: "dealwithAssigned e al x = Some (m2, ok)" by (fastforce simp: dealwithAssigned_def)
    then show ?thesis using stage_assigned [OF x(1) True d] True
      by (intro that [of m2]) (simp_all add: process_by_stages x_def [symmetric] Let_def)
  next
    case False
    then show ?thesis using stage_refl [of ainv x] x by (intro that [of x]) (simp_all add: process_by_stages x_def [symmetric] Let_def)
  qed
qed

lemma process_returns: "ainv (mal m) \<Longrightarrow> process e al m \<noteq> None"
  using process_stages by (metis option.distinct(1))

lemma process_stage:
  assumes "ainv (mal m)" "process e al m = Some (m', ok)"
  shows "stage ainv (fst (prepare al m)) m'"
proof -
  obtain m2 where m2: "process e al m = Some (leave_stages al m2)" "stage ainv (enter_stage e al m) m2"
    by (rule process_stages [OF assms(1)])
  have "ainv (mal m2)" "status_of m2 \<noteq> AllocStatusEmpty" using m2(2) by (simp_all add: stage_def marks_def)
  note lv = stage_leave [OF this]
  have "m' = fst (leave_stages al m2)" using m2(1) assms(2) by (metis fst_conv option.inject)
  then show ?thesis using stage_trans [OF stage_enter [OF assms(1), of e] stage_trans [OF m2(2) lv]] by simp
qed

lemma process_from_first:
  assumes "ainv (mal m)" "process e al m = Some (m', ok)"
  shows "marks ainv m m'" "status_of m' \<noteq> AllocStatusEmpty" "alloc_step\<^sup>*\<^sup>* (first_status m) (status_of m')"
    "\<not> IsWorkerToRelease (mw m) \<Longrightarrow> first_status m \<in> staying \<Longrightarrow> calm ainv m m' \<and> status_of m' \<in> staying"
proof -
  note p = prepare_calm [OF assms(1)]
  note s = process_stage [OF assms, unfolded stage_def]
  have m: "marks ainv m (fst (prepare al m))" using p calm_marks by blast
  then show "marks ainv m m'" using s marks_trans by blast
  show "status_of m' \<noteq> AllocStatusEmpty" "alloc_step\<^sup>*\<^sup>* (first_status m) (status_of m')" using p s by auto
  show "calm ainv m m' \<and> status_of m' \<in> staying" if "\<not> IsWorkerToRelease (mw m)" "first_status m \<in> staying"
    using p s m that calm_trans by (metis marks_def)
qed

lemma process_keeps:
  assumes "ainv (mal m)" "process e al m = Some (m', ok)" "\<not> IsWorkerToRelease (mw m)" "first_status m \<in> staying"
  shows "(\<exists>l. mlog m' = mlog m @ l \<and> (\<forall>w. PodDelete w \<notin> set l)) \<and> status_of m' \<in> staying"
  using process_from_first(4) [OF assms] unfolding calm_def by blast

lemma enter_deletes:
  assumes "ainv (mal m)"
  shows "deletes_safely m (enter_stage e al m)"
proof -
  define p where "p = fst (prepare al m)"
  have c: "calm ainv m p" "status_of p \<noteq> AllocStatusEmpty" using prepare_calm [OF assms] by (auto simp: p_def first_status_def)
  have "status_of p = WorkerUnAssigned" if "IsWorkerUnAssigned (mw p)" using that c(2) by (simp add: worker_preds)
  then have "deletes_safely p (enter_stage e al m)"
    using dealwithUnAssigned_deletes [of p e al] by (auto simp: enter_stage_def Let_def p_def deletes_safely_def)
  then show ?thesis by (rule deletes_trans [OF calm_deletes [OF c(1)]])
qed

text \<open>A graceful worker that is not being released reaches the later handlers so.\<close>

lemma enter_not_releasing:
  assumes "ainv (mal m)" "IsWorkerGracefully (mw m)" "\<not> IsWorkerReleasing (mw m)"
  shows "IsWorkerGracefully (mw (enter_stage e al m)) \<and> \<not> IsWorkerReleasing (mw (enter_stage e al m))"
proof -
  define x where "x = enter_stage e al m"
  define p where "p = fst (prepare al m)"
  have p: "calm ainv m p" "status_of p = first_status m" "ainv (mal p)"
    using prepare_calm [OF assms(1)] by (auto simp: p_def calm_def marks_def)
  have gp: "IsWorkerGracefully (mw p)" using p(1) assms(2) by (simp add: calm_def marks_def)
  show ?thesis
  proof (cases "IsWorkerUnAssigned (mw p)")
    case True
    then have "status_of p = WorkerUnAssigned" using p(2) by (auto simp: worker_preds first_status_def split: if_splits)
    note ok = dealwithUnAssigned_ok [OF p(3) this, of e, unfolded unassigned_ok_def release_status_def marks_def]
    have "enter_stage e al m = fst (dealwithUnAssigned e al p)" using True by (simp add: enter_stage_def p_def Let_def)
    then show ?thesis using ok gp by (auto simp: IsWorkerReleasing_def)
  next
    case False
    then have "enter_stage e al m = p" by (simp add: enter_stage_def p_def Let_def)
    then show ?thesis using gp p(2) assms(3) by (auto simp: worker_preds first_status_def split: if_splits)
  qed
qed

lemma process_deletes:
  assumes "ainv (mal m)" "process e al m = Some (m', ok)" "IsWorkerGracefully (mw m)" "\<not> IsWorkerReleasing (mw m)"
  shows "deletes_safely m m'"
proof -
  define x where "x = enter_stage e al m"
  obtain m2 where m2: "process e al m = Some (leave_stages al m2)"
    "m2 = x \<and> \<not> IsWorkerAssigned (mw m2) \<or> IsWorkerAssigned (mw x) \<and> (\<exists>ok. dealwithAssigned e al x = Some (m2, ok))"
    unfolding x_def by (rule process_stages [OF assms(1)])
  note en = enter_deletes [OF assms(1), of e, folded x_def]
  note gx = enter_not_releasing [OF assms(1,3,4), of e, folded x_def]
  have ax: "ainv (mal x)" using stage_enter [OF assms(1), of e] by (simp add: x_def stage_def marks_def)
  have g2: "IsWorkerGracefully (mw m2) \<and> \<not> IsWorkerReleasing (mw m2) \<and> deletes_safely x m2"
  proof (cases "m2 = x")
    case True
    then show ?thesis using gx by (simp add: deletes_safely_def)
  next
    case False
    then obtain ok'' where d: "IsWorkerAssigned (mw x)" "dealwithAssigned e al x = Some (m2, ok'')" using m2(2) by auto
    note c = dealwithAssigned_cases [OF ax d]
    moreover have "deletes_safely x m2" using c calm_deletes by blast
    ultimately show ?thesis using gx by (auto simp: IsWorkerReleasing_def release_status_def calm_def marks_def split: if_splits)
  qed
  have "m' = fst (leave_stages al m2)" using m2(1) assms(2) by (metis fst_conv option.inject)
  then show ?thesis using leave_log [of m2 al] g2 deletes_trans [OF en deletes_trans] by blast
qed

lemma process_log_grows:
  assumes "ainv (mal m)" "process e al m = Some (m', ok)"
  shows "\<exists>l. mlog m' = mlog m @ l"
proof -
  define x where "x = enter_stage e al m"
  obtain m2 where m2: "process e al m = Some (leave_stages al m2)"
    "m2 = x \<and> \<not> IsWorkerAssigned (mw m2) \<or> IsWorkerAssigned (mw x) \<and> (\<exists>ok. dealwithAssigned e al x = Some (m2, ok))"
    unfolding x_def by (rule process_stages [OF assms(1)])
  have ax: "ainv (mal x)" using stage_enter [OF assms(1), of e] by (simp add: x_def stage_def marks_def)
  have "\<exists>l. mlog x = mlog m @ l" using enter_deletes [OF assms(1), of e] by (auto simp: x_def deletes_safely_def)
  moreover have "\<exists>l. mlog m2 = mlog x @ l"
    using m2(2) dealwithAssigned_cases [OF ax] calm_deletes unfolding deletes_safely_def by (metis append_Nil2)
  moreover have "\<exists>l. mlog m' = mlog m2 @ l"
    using leave_syncs [of m2 al] m2(1) assms(2) unfolding syncs_safely_def by (metis fst_conv option.inject)
  ultimately show ?thesis by (metis append_assoc)
qed

lemma process_syncs:
  assumes "ainv (mal m)" "process e al m = Some (m', ok)" "IsWorkerAssigned (mw m)"
  shows "syncs_safely m m'"
proof -
  define p where "p = fst (prepare al m)"
  obtain m2 where m2: "process e al m = Some (leave_stages al m2)"
    "m2 = enter_stage e al m \<and> \<not> IsWorkerAssigned (mw m2) \<or>
     IsWorkerAssigned (mw (enter_stage e al m)) \<and> (\<exists>ok. dealwithAssigned e al (enter_stage e al m) = Some (m2, ok))"
    by (rule process_stages [OF assms(1)])
  have p: "mlog p = mlog m" "status_of p = WorkerAssigned" "ainv (mal p)"
    using prepare_calm [OF assms(1)] assms(3) by (auto simp: p_def first_status_def worker_preds calm_def marks_def)
  have x: "enter_stage e al m = p" using p(2) by (simp add: enter_stage_def p_def [symmetric] Let_def worker_preds)
  then obtain ok'' where d: "dealwithAssigned e al p = Some (m2, ok'')" using m2(2) p(2) by (auto simp: worker_preds)
  have "IsWorkerAssigned (mw p)" using p(2) by (simp add: worker_preds)
  then have "syncs_safely p m2" using dealwithAssigned_cases [OF p(3) _ d] by blast
  moreover have "m' = fst (leave_stages al m2)" using m2(1) assms(2) by (metis fst_conv option.inject)
  ultimately have "syncs_safely p m'" using leave_syncs [of m2 al] syncs_trans by blast
  then show ?thesis by (simp add: syncs_safely_def p(1))
qed

lemma leave_releases:
  assumes "ainv (mal m)" "\<forall>s w. snd (al_delete al (s, w))" "IsWorkerReleasing (mw m) \<or> IsWorkerLost (mw m)"
    "IsWorkerToRelease (mw m)" "\<not> IsWorkerGracefully (mw m)" "mpod m \<noteq> None"
  shows "status_of (fst (leave_stages al m)) = WorkerReleased \<and> mpod (fst (leave_stages al m)) = None"
proof -
  define a where "a = (if IsWorkerLost (mw m) then fst (dealwithLost m) else m)"
  define c where "c = fst (dealwithReleasing al a)"
  have a: "status_of a = WorkerReleasing" "mpod a \<noteq> None" "ainv (mal a)"
    using assms(1,3-6) by (auto simp: a_def dealwithLost_def tryToReleaseWorker_def worker_setters IsWorkerLost_def IsWorkerReleasing_def)
  have "delete_ok (mw a)" using a(1) by (simp add: delete_ok_def IsWorkerReleasing_def)
  note d = delete_call [OF a(3) this]
  then have "st_AllocStatus (Status (mw (fst (call_op (al_delete al) a)))) = WorkerReleasing"
    using a(1) by (simp add: keeps_def)
  then have c: "status_of c = WorkerReleased" "mpod c = None" "ainv (mal c)"
    using a(2) assms(2) d by (auto simp: c_def dealwithReleasing_def Let_def split_beta worker_setters IsWorkerEmpty_def IsWorkerLost_def)
  have lv: "leave_stages al m = call_op (al_syncPodMetas al) (c\<lparr>mpod := None\<rparr>)"
    using a(1) c by (simp add: leave_stages_def Let_def a_def [symmetric] c_def [symmetric] IsWorkerOfflining_def IsWorkerReleasing_def
        IsWorkerReleased_def)
  show ?thesis using metas_call [OF c(3)] c unfolding lv by (simp add: keeps_def)
qed

lemma process_releases:
  assumes "ainv (mal m)" "\<forall>s w. snd (al_delete al (s, w))" "IsWorkerToRelease (mw m)" "\<not> IsWorkerGracefully (mw m)"
    "IsWorkerAssigned (mw m) \<or> IsWorkerLost (mw m) \<or> IsWorkerReleasing (mw m)" "mpod m \<noteq> None"
  shows "\<exists>m' ok. process e al m = Some (m', ok) \<and> IsWorkerReleased (mw m') \<and> mpod m' = None"
proof -
  define p where "p = fst (prepare al m)"
  obtain m2 where m2: "process e al m = Some (leave_stages al m2)"
    "m2 = enter_stage e al m \<and> \<not> IsWorkerAssigned (mw m2) \<or>
     IsWorkerAssigned (mw (enter_stage e al m)) \<and> (\<exists>ok. dealwithAssigned e al (enter_stage e al m) = Some (m2, ok))"
    by (rule process_stages [OF assms(1)])
  have p: "calm ainv m p" "status_of p = status_of m" "mpod p = mpod m"
    using prepare_calm [OF assms(1)] assms(5) by (auto simp: p_def first_status_def worker_preds)
  then have mp: "ainv (mal p)" "IsWorkerToRelease (mw p)" "\<not> IsWorkerGracefully (mw p)" using assms(3,4) by (simp_all add: calm_def marks_def)
  have "\<not> IsWorkerUnAssigned (mw p)" using assms(5) p(2) by (auto simp: worker_preds)
  then have x: "enter_stage e al m = p" by (simp add: enter_stage_def p_def [symmetric] Let_def)
  have "calm ainv p m2 \<and> mpod m2 = mpod p \<and> (IsWorkerReleasing (mw m2) \<or> IsWorkerLost (mw m2))"
  proof (cases "IsWorkerAssigned (mw p)")
    case True
    then obtain ok'' where d: "dealwithAssigned e al p = Some (m2, ok'')" using m2(2) x by auto
    then show ?thesis using dealwithAssigned_cases [OF mp(1) True d] mp by (auto simp: IsWorkerReleasing_def release_status_def)
  next
    case False
    then show ?thesis using m2(2) x p(2) assms(5) calm_refl [of ainv p] mp(1) by (auto simp: worker_preds)
  qed
  then have "status_of (fst (leave_stages al m2)) = WorkerReleased \<and> mpod (fst (leave_stages al m2)) = None"
    using assms(6) p(3) mp by (intro leave_releases assms(2)) (auto simp: calm_def marks_def)
  then show ?thesis using m2(1) by (metis IsWorkerReleased_def prod.collapse)
qed

end

end
