(* ===== verification/PodAllocator.thy ===== *)
theory PodAllocator
  imports WorkerMachineSafety
begin

text \<open>
  \<^verbatim>\<open>controller/worker/allocator.go\<close>, \<^verbatim>\<open>allocator_ack.go\<close>, \<^verbatim>\<open>executor.go\<close>: the allocator that the worker's state machine
  drives. Its state has the pod it found, the target computed for it, and a log of the requests to the API server with the
  worker as it was at that moment. The API server, the merging of pod specifications and the JSON texts are parameters
  (\<open>cluster\<close>); every statement holds for all of them.
\<close>

subsection \<open>State\<close>

datatype api_error = NotFound | Forbidden | Invalid | RejectedByWebhook | OtherError

datatype api_call =
    ApiCreate Pod
  | ApiUpdate Pod WorkerNode
  | ApiUnprotect Pod
  | ApiDelete Pod WorkerNode
  | ApiPatch Pod

datatype executor = UpdateExecutor | RecreateExecutor

record podAllocator =
  schedulerType :: string
  currentPod :: "Pod option"
  targetPod :: Pod
  targetContainers :: "(string \<times> nat option) list option"
  targetResourceVersion :: string
  targetHippoPodVersion :: string
  targetProcessVersion :: string
  targetPodVersion :: string
  targetContainersProcessVersion :: "(string, string) gomap"
  currentResourceVersion :: string
  currentHippoPodVersion :: string
  currentResourceMatched :: bool
  currentProcessVersion :: string
  currentUpdatedResourceVersion :: string
  currentUpdatedPodVersion :: string
  currentContainersProcessVersion :: "(string, string) gomap"
  podExecutor :: executor
  api_log :: "api_call list"

text \<open>The rest of the world: the requests to the API server (\<open>None\<close> is success), \<^verbatim>\<open>podutil.IsPodReady\<close> of Kubernetes, the
  package variables, the merging of pod specifications (\<^verbatim>\<open>util.PodSpecMerger\<close> and the copy of the target's specification by
  \<^verbatim>\<open>updateProcess\<close>), the JSON texts, whether \<^verbatim>\<open>syncPodMetas\<close> has something to patch, and the services of a worker.\<close>

record cluster =
  CreatePod :: "Pod \<Rightarrow> Pod option"
  UpdatePodSpec :: "Pod \<Rightarrow> api_error option"
  DeletePod :: "Pod \<Rightarrow> api_error option"
  PatchPod :: "Pod \<Rightarrow> api_error option"
  IsPodReady :: "Pod \<Rightarrow> bool"
  defaultPodVersion :: string
  defaultSchedulerName :: string
  writeLabels :: strmap
  DisableNoMountCgroup :: bool
  InitC2DeclaredKeys :: "Pod \<Rightarrow> Pod option"
  InitC2DeclaredEnvKeys :: "Pod \<Rightarrow> Pod option"
  copyPodSpec :: "Pod \<Rightarrow> Pod option"
  MergeEnvs :: "Pod \<Rightarrow> Pod option"
  MergeTargetPods :: "Pod \<Rightarrow> Pod option"
  json_BackupOfPod :: "PodRef \<Rightarrow> string"
  json_StandbyStatus :: "string \<Rightarrow> string"
  unmarshal_StandbyStatus :: "string \<Rightarrow> string option"
  GetInactiveInterpose :: "WorkerNode \<Rightarrow> strmap \<times> strmap"
  patch_needed :: "podAllocator \<times> WorkerNode \<Rightarrow> bool"
  worker_services :: "WorkerNode \<Rightarrow> ServicePublisher list option"

abbreviation "recreateScheduler \<equiv> ''recreate''"
abbreviation "C2DeleteProtectionFinalizer \<equiv> ''protection-delete.pod.c2/service''"
abbreviation "AnnotationC2ResourceVersion \<equiv> ''app.c2.io/pod-resource-version''"
abbreviation "AnnotationC2PodVersion \<equiv> ''app.c2.io/pod-version''"
abbreviation "AnnotationC2DeclaredEnvKeys \<equiv> ''app.c2.io/c2-declared-env-keys''"
abbreviation "AnnotationPodC2DeletionCost \<equiv> ''controller.kubernetes.io/original-pod-deletion-cost''"
abbreviation "AnnotationPodDeletionCost \<equiv> ''controller.kubernetes.io/pod-deletion-cost''"
abbreviation "AnnotationStandbyStableStatus \<equiv> ''alibabacloud.com/standby-stable-status''"
abbreviation "LabelResourcePool \<equiv> ''app.alibabacloud.com/pod-scale-kind''"
abbreviation "MinCyclicalCost \<equiv> (1 :: int)"
abbreviation "MaxFixedCost \<equiv> (9999 :: int)"

abbreviation pod_anno :: "string \<Rightarrow> string \<Rightarrow> Pod \<Rightarrow> Pod" where
  "pod_anno k v p \<equiv> p\<lparr>pod_Annotations := sput k v (pod_Annotations p)\<rparr>"

abbreviation pod_label :: "string \<Rightarrow> string \<Rightarrow> Pod \<Rightarrow> Pod" where
  "pod_label k v p \<equiv> p\<lparr>pod_Labels := sput k v (pod_Labels p)\<rparr>"

abbreviation log_api :: "api_call \<Rightarrow> podAllocator \<Rightarrow> podAllocator" where
  "log_api c a \<equiv> a\<lparr>api_log := api_log a @ [c]\<rparr>"

subsection \<open>The executor\<close>

text \<open>A failed request that found nothing counts as done.\<close>

definition failed :: "api_error option \<Rightarrow> bool" where
  "failed r \<longleftrightarrow> (case r of None \<Rightarrow> False | Some err \<Rightarrow> err \<noteq> NotFound)"

text \<open>\<^verbatim>\<open>baseExecutor.deletePod\<close> (called with \<^verbatim>\<open>preUpdate\<close> false); it takes the finalizer off the pod.\<close>

definition deletePod :: "cluster \<Rightarrow> Pod \<Rightarrow> WorkerNode \<Rightarrow> podAllocator \<Rightarrow> podAllocator \<times> Pod \<times> bool" where
  "deletePod cl pod w a =
     (let hasC2Finalizer = (C2DeleteProtectionFinalizer \<in> set (pod_Finalizers pod));
          pod = (if hasC2Finalizer then pod\<lparr>pod_Finalizers := filter (\<lambda>f. f \<noteq> C2DeleteProtectionFinalizer) (pod_Finalizers pod)\<rparr> else pod);
          a' = (if hasC2Finalizer then log_api (ApiUnprotect pod) a else a)
      in if hasC2Finalizer \<and> failed (UpdatePodSpec cl pod) then (a', pod, False)
         else (log_api (ApiDelete pod w) a', pod, \<not> failed (DeletePod cl pod)))"

definition patchPod :: "cluster \<Rightarrow> Pod \<Rightarrow> podAllocator \<Rightarrow> podAllocator \<times> bool" where
  "patchPod cl pod a = (log_api (ApiPatch pod) a, \<not> failed (PatchPod cl pod))"

definition createPod :: "cluster \<Rightarrow> Pod \<Rightarrow> podAllocator \<Rightarrow> podAllocator \<times> Pod option" where
  "createPod cl pod a = (log_api (ApiCreate pod) a, CreatePod cl pod)"

definition isPodAppRoleNameChanged :: "Pod \<Rightarrow> Pod \<Rightarrow> bool" where
  "isPodAppRoleNameChanged before after \<longleftrightarrow> GetAppName before \<noteq> GetAppName after \<or> GetRoleName before \<noteq> GetRoleName after"

definition isPodInplaceUpdateForbidden :: "Pod \<Rightarrow> Pod \<Rightarrow> bool" where
  "isPodInplaceUpdateForbidden before after \<longleftrightarrow>
     GetLabelValue (pod_Labels before) ''alibabacloud.com/inplace-update-forbidden'' = ''true'' \<and>
     list_ex (\<lambda>(n, i). list_ex (\<lambda>(n', i'). n = n' \<and> i \<noteq> i') (pod_Containers after)) (pod_Containers before)"

definition isPodReplaceNodeVersionChanged :: "Pod \<Rightarrow> Pod \<Rightarrow> bool" where
  "isPodReplaceNodeVersionChanged before after \<longleftrightarrow> GetReplaceNodeVersion before \<noteq> GetReplaceNodeVersion after"

definition isAsiPodChanged :: "Pod \<Rightarrow> Pod \<Rightarrow> bool" where
  "isAsiPodChanged before after \<longleftrightarrow> GetPodVersion (pod_Labels before) \<noteq> GetPodVersion (pod_Labels after) \<and>
     (GetPodVersion (pod_Labels before) = PodVersion3 \<or> GetPodVersion (pod_Labels after) = PodVersion3)"

definition valueChanged :: "string \<Rightarrow> string \<Rightarrow> bool" where
  "valueChanged before after \<longleftrightarrow> before \<noteq> after \<and> before \<noteq> ''''"

definition isSkylineChanged :: "Pod \<Rightarrow> Pod \<Rightarrow> bool" where
  "isSkylineChanged before after \<longleftrightarrow>
     valueChanged (GetInstanceGroup (pod_Labels before)) (GetInstanceGroup (pod_Labels after)) \<or>
     valueChanged (GetAppUnit (pod_Labels before)) (GetAppUnit (pod_Labels after)) \<or>
     valueChanged (GetAppStage (pod_Labels before)) (GetAppStage (pod_Labels after))"

text \<open>\<^verbatim>\<open>InStandby2Active\<close> may remove an annotation of the worker.\<close>

definition shouldReclaim :: "worker_env \<Rightarrow> Pod \<Rightarrow> Pod \<Rightarrow> WorkerNode \<Rightarrow> WorkerNode \<times> bool" where
  "shouldReclaim e before after w =
     (if isPodAppRoleNameChanged before after then (w, True)
      else if isAsiPodChanged before after then (w, True)
      else if isSkylineChanged before after then (w, True)
      else if isPodReplaceNodeVersionChanged before after then (w, True)
      else if IsWorkerResVersionMisMatch w \<and> pod_NodeName before = '''' then
        let (w, active) = InStandby2Active e w in
        if \<not> active then (w, True) else (w, isPodInplaceUpdateForbidden before after)
      else (w, isPodInplaceUpdateForbidden before after))"

text \<open>Whether the JSON texts of the two pods' specifications or metadata differ; a nil map is left out like an empty one.\<close>

definition pods_differ :: "Pod \<Rightarrow> Pod \<Rightarrow> bool" where
  "pods_differ before after \<longleftrightarrow>
     (pod_NodeName before, pod_SchedulerName before, pod_RestartPolicy before, pod_Containers before, pod_SpecRest before) \<noteq>
     (pod_NodeName after, pod_SchedulerName after, pod_RestartPolicy after, pod_Containers after, pod_SpecRest after) \<or>
     (pod_Name before, pod_UID before, pod_Finalizers before, pod_CreationTimestamp before, pod_DeletionTimestamp before) \<noteq>
     (pod_Name after, pod_UID after, pod_Finalizers after, pod_CreationTimestamp after, pod_DeletionTimestamp after) \<or>
     scontents (pod_Labels before) \<noteq> scontents (pod_Labels after) \<or>
     scontents (pod_Annotations before) \<noteq> scontents (pod_Annotations after)"

text \<open>\<^verbatim>\<open>updateExecutor.updatePod\<close>: the worker, the pod that is current afterwards, and whether it succeeded.\<close>

definition updatePod_inplace ::
  "worker_env \<Rightarrow> cluster \<Rightarrow> Pod \<Rightarrow> Pod \<Rightarrow> WorkerNode \<Rightarrow> podAllocator \<Rightarrow> (podAllocator \<times> WorkerNode) \<times> Pod option \<times> bool" where
  "updatePod_inplace e cl before after w a =
     (let after = after\<lparr>pod_Annotations := SyncCrdTime (pod_Annotations before) (pod_Annotations after)\<rparr>;
          a = a\<lparr>targetPod := after\<rparr>;
          reclaim = (\<lambda>w. if IsWorkerVersionMisMatch w then set_status (\<lambda>s. s\<lparr>InternalReclaim := True\<rparr>) w else w)
      in if pods_differ before after then
           let (w', should) = shouldReclaim e before after w in
           if should then ((a, reclaim w'), Some before, True)
           else
             let a = log_api (ApiUpdate after w') a in
             (case UpdatePodSpec cl after of
                None \<Rightarrow> ((a, set_status (\<lambda>s. s\<lparr>InternalReclaim := False\<rparr>) w'), Some before, True)
              | Some err \<Rightarrow>
                  if err = NotFound then ((a, set_status (\<lambda>s. s\<lparr>InternalReclaim := False\<rparr>) w'), Some before, True)
                  else if err = Forbidden \<or> err = Invalid \<or> err = RejectedByWebhook then ((a, reclaim w'), Some before, True)
                  else ((a, w'), None, False))
         else ((a, set_status (\<lambda>s. s\<lparr>InternalReclaim := False\<rparr>) w), Some before, True))"

text \<open>\<^verbatim>\<open>recreateExecutor.updatePod\<close>: the pod is deleted and the worker begins again.\<close>

definition updatePod_recreate ::
  "cluster \<Rightarrow> Pod \<Rightarrow> Pod \<Rightarrow> WorkerNode \<Rightarrow> podAllocator \<Rightarrow> (podAllocator \<times> WorkerNode) \<times> Pod option \<times> bool" where
  "updatePod_recreate cl before after w a =
     (if \<not> IsWorkerVersionMisMatch w then ((a, w), None, True)
      else
        let after = after\<lparr>pod_Annotations := SyncCrdTime (pod_Annotations before) (pod_Annotations after)\<rparr>;
            a = a\<lparr>targetPod := after\<rparr>
        in if pods_differ before after then
          let a = log_api (ApiDelete after w) a in
          if failed (DeletePod cl after) then ((a, w), None, False)
          else ((a\<lparr>targetPod := (ClearObjectMeta after)\<lparr>pod_NodeName := ''''\<rparr>\<rparr>, reNewWorker w), None, True)
        else ((a, w), None, True))"

definition updatePod ::
  "worker_env \<Rightarrow> cluster \<Rightarrow> Pod \<Rightarrow> Pod \<Rightarrow> WorkerNode \<Rightarrow> podAllocator \<Rightarrow> (podAllocator \<times> WorkerNode) \<times> Pod option \<times> bool" where
  "updatePod e cl before after w a =
     (case podExecutor a of
        UpdateExecutor \<Rightarrow> updatePod_inplace e cl before after w a
      | RecreateExecutor \<Rightarrow> updatePod_recreate cl before after w a)"

subsection \<open>The operations\<close>

definition initDeletionCost :: "WorkerNode \<Rightarrow> Pod \<Rightarrow> Pod" where
  "initDeletionCost w p =
     (let cost = Spec_DeletionCost (Spec w) in
      if cost \<ge> MinCyclicalCost \<and> cost \<le> MaxFixedCost then pod_anno AnnotationPodC2DeletionCost (FormatInt cost) p else p)"

definition initResourcePool :: "WorkerNode \<Rightarrow> Pod \<Rightarrow> Pod" where
  "initResourcePool w p =
     (if ResourcePool (Spec w) \<noteq> '''' then SetLabelsDefaultValue LabelResourcePool (ResourcePool (Spec w)) p else p)"

definition initStandbyHours :: "cluster \<Rightarrow> WorkerNode \<Rightarrow> Pod \<Rightarrow> Pod" where
  "initStandbyHours cl w p =
     (if Spec_StandbyHours (Spec w) \<noteq> ''''
      then pod_anno AnnotationStandbyStableStatus (json_StandbyStatus cl (Spec_StandbyHours (Spec w))) p else p)"

definition initNoMountCgroup :: "cluster \<Rightarrow> Pod \<Rightarrow> Pod" where
  "initNoMountCgroup cl p =
     (if DisableNoMountCgroup cl \<and> GetPodVersion (pod_Labels p) = PodVersion3
      then pod_label ''alibabacloud.com/no-mount-cgroup'' ''false'' p else p)"

definition updateWorkerInactive :: "cluster \<Rightarrow> WorkerNode \<Rightarrow> Pod \<Rightarrow> Pod" where
  "updateWorkerInactive cl w p =
     (if Spec_WorkerMode (Spec w) = WorkerModeTypeInactive then
        let (labels, annotations) = GetInactiveInterpose cl w in
        p\<lparr>pod_Labels := MergeMap labels (pod_Labels p), pod_Annotations := MergeMap annotations (pod_Annotations p)\<rparr>
      else p)"

text \<open>The pod that \<^verbatim>\<open>allocate\<close> creates.\<close>

definition pod_to_create :: "cluster \<Rightarrow> podAllocator \<Rightarrow> WorkerNode \<Rightarrow> Pod option" where
  "pod_to_create cl a w =
     (let p = InitAnnotationsLabels (targetPod a);
          p = pod_anno AnnotationC2ResourceVersion (targetResourceVersion a) p;
          p = pod_anno AnnotationC2PodVersion (targetPodVersion a) p;
          p = (if pod_ref_Uid (BackupOfPod (Spec w)) \<noteq> '''' \<and> pod_ref_Name (BackupOfPod (Spec w)) \<noteq> ''''
               then pod_label ''alibabacloud.com/is-backup'' ''true''
                      (pod_anno ''alibabacloud.com/backup-of'' (json_BackupOfPod cl (BackupOfPod (Spec w))) p)
               else p)
      in case InitC2DeclaredKeys cl p of
           None \<Rightarrow> None
         | Some p \<Rightarrow>
             (case InitC2DeclaredEnvKeys cl p of
                None \<Rightarrow> None
              | Some p \<Rightarrow>
                  let p = (if ServiceConditions (Status w) \<noteq> [] \<and> C2DeleteProtectionFinalizer \<notin> set (pod_Finalizers p)
                           then p\<lparr>pod_Finalizers := pod_Finalizers p @ [C2DeleteProtectionFinalizer]\<rparr> else p);
                      p = initNoMountCgroup cl (initStandbyHours cl w (initDeletionCost w (initResourcePool w p)));
                      p = updateWorkerInactive cl w p
                  in Some (p\<lparr>pod_Labels := MapCopy (writeLabels cl) (pod_Labels p)\<rparr>)))"

definition allocate :: "cluster \<Rightarrow> podAllocator alloc_op" where
  "allocate cl = (\<lambda>(a, w).
     case pod_to_create cl a w of
       None \<Rightarrow> ((a, w), False)
     | Some p \<Rightarrow>
         let (a, created) = createPod cl p (a\<lparr>targetPod := p\<rparr>); a = a\<lparr>currentPod := created\<rparr> in
         (case created of
            None \<Rightarrow> ((a, w), False)
          | Some p \<Rightarrow> ((a, SetWorkerEntity (pod_Name p) (pod_UID p) w), True)))"

text \<open>\<^verbatim>\<open>delete\<close>. Without a pod the request is made only when the name of the pod could not be computed.\<close>

definition empty_pod :: Pod where
  "empty_pod = \<lparr>pod_Name = [], pod_UID = [], pod_Labels = None, pod_Annotations = None, pod_Finalizers = [], pod_CreationTimestamp = None,
     pod_DeletionTimestamp = None, pod_NodeName = [], pod_SchedulerName = [], pod_RestartPolicy = [], pod_Containers = [], pod_SpecRest = [],
     pod_Phase = PodPhaseOther, pod_Reason = [], pod_HostIP = [], pod_PodIP = [], pod_Conditions = [], pod_ContainerStatuses = []\<rparr>"

definition delete_pod :: "cluster \<Rightarrow> podAllocator alloc_op" where
  "delete_pod cl = (\<lambda>(a, w).
     let w = SyncWorkerServiceHealthStatus w in
     if CouldDeletePod w then
       (case currentPod a of
          None \<Rightarrow>
            let (a, ok) = (case GetPodName w of
                Inr _ \<Rightarrow> (a, True)
              | Inl _ \<Rightarrow> (let (a, _, ok) = deletePod cl empty_pod w a in (a, ok)))
            in if \<not> ok then ((a, w), False)
               else ((a, SetWorkerEntity '''' '''' (set_status (\<lambda>s. s\<lparr>IP := '''', HostIP := '''', ProcessScore := 0, Phase := Terminated\<rparr>) w)), True)
        | Some p \<Rightarrow> (let (a, p, ok) = deletePod cl p w a in ((a\<lparr>currentPod := Some p\<rparr>, w), ok)))
     else ((a, w), True))"

definition resourceUpdated :: "podAllocator \<Rightarrow> bool" where
  "resourceUpdated a \<longleftrightarrow> currentUpdatedResourceVersion a = targetResourceVersion a \<and> targetHippoPodVersion a = currentHippoPodVersion a"

definition podUpdated :: "podAllocator \<Rightarrow> bool" where
  "podUpdated a \<longleftrightarrow> currentUpdatedPodVersion a = targetPodVersion a"

definition couldNotUpdateInplace :: "Pod \<Rightarrow> podAllocator \<Rightarrow> bool" where
  "couldNotUpdateInplace p a \<longleftrightarrow> length (pod_Containers p) \<noteq> length (pod_Containers (targetPod a))"

text \<open>\<^verbatim>\<open>isPodProcessMatch\<close>; the injected containers are dropped from the current versions first.\<close>

definition isPodProcessMatch :: "podAllocator \<Rightarrow> podAllocator \<times> bool" where
  "isPodProcessMatch a =
     (if targetProcessVersion a \<noteq> currentProcessVersion a then (a, False)
      else
        let target = targetContainersProcessVersion a;
            cur = filter (\<lambda>(k, v). \<not> (v = '''' \<and> mget '''' target k = '''')) (currentContainersProcessVersion a)
        in (a\<lparr>currentContainersProcessVersion := cur\<rparr>,
            length target = length cur \<and> list_all (\<lambda>(k, v). mget '''' cur k = v) target))"

definition isPodResourceMatch :: "podAllocator \<Rightarrow> bool \<times> bool" where
  "isPodResourceMatch a =
     (let accepted = (targetResourceVersion a = currentResourceVersion a) in (accepted, accepted \<and> currentResourceMatched a))"

text \<open>\<^verbatim>\<open>syncPodSpec\<close> in its parts: the resources, the process, the request. A part ends the operation (\<open>Inl\<close>, with whether
  it succeeded) or goes on (\<open>Inr\<close>, with whether the pod was changed).\<close>

definition sync_resource :: "cluster \<Rightarrow> podAllocator \<times> WorkerNode \<Rightarrow> (podAllocator \<times> WorkerNode) \<times> (bool + bool)" where
  "sync_resource cl = (\<lambda>(a, w).
     if resourceUpdated a then ((a, w), Inr False)
     else if IsWorkerResVersionMisMatch w \<or> IsWorkerModeMisMatch w then
       if IsQuickOnline w then ((a, set_status (\<lambda>s. s\<lparr>InternalReclaim := True\<rparr>) w), Inl True)
       else
         let p = pod_anno AnnotationC2ResourceVersion (targetResourceVersion a) (targetPod a) in
         (case currentPod a of
            None \<Rightarrow> ((a\<lparr>targetPod := p\<rparr>, w), Inr True)
          | Some cur \<Rightarrow>
              let annos = SetIfExist (pod_Annotations cur) (SetIfExist (pod_Annotations cur) (pod_Annotations p) AnnotationC2PodVersion)
                            AnnotationC2DeclaredEnvKeys;
                  p = p\<lparr>pod_Annotations := annos\<rparr>
              in if sget annos AnnotationC2DeclaredEnvKeys = '''' then
                   (case InitC2DeclaredEnvKeys cl p of
                      None \<Rightarrow> ((a\<lparr>targetPod := p\<rparr>, w), Inl False)
                    | Some p \<Rightarrow> ((a\<lparr>targetPod := p\<rparr>, w), Inr True))
                 else ((a\<lparr>targetPod := p\<rparr>, w), Inr True))
     else ((a, w), Inr False))"

text \<open>The worker is prepared for a restart: the flag says whether to wait for it to go offline.\<close>

definition prepare_restart :: "worker_env \<Rightarrow> podAllocator \<times> WorkerNode \<Rightarrow> (podAllocator \<times> WorkerNode) \<times> bool" where
  "prepare_restart e = (\<lambda>(a, w).
     let (a, matched) = isPodProcessMatch a in
     if matched then ((a, w), False)
     else
       let w = set_status (\<lambda>s. s\<lparr>InRestarting := True\<rparr>) w;
           w = (if WarmupNewStartingPod e then set_status (\<lambda>s. s\<lparr>st_NeedWarmup := NeedWarmup w\<rparr>) w else w)
       in ((a, w), shouldGracefullyRestart e w \<and> \<not> IsWorkerUnAvaliable w \<and> \<not> ServiceOffline (Status w)))"

definition sync_process ::
  "worker_env \<Rightarrow> cluster \<Rightarrow> bool \<Rightarrow> podAllocator \<times> WorkerNode \<Rightarrow> (podAllocator \<times> WorkerNode) \<times> (bool + bool)" where
  "sync_process e cl updated = (\<lambda>(a, w).
     if ((\<not> IsWorkerResVersionMisMatch w \<or> IsWorkerUnAssigned w) \<and> IsWorkerVersionMisMatch w \<and> \<not> podUpdated a) \<or> IsWorkerModeMisMatch w then
       let ((a, w), wait) = prepare_restart e (a, w) in
       if wait then ((a, w), Inl True)
       else
         (case copyPodSpec cl (targetPod a) of
            None \<Rightarrow> ((a, w), Inl False)
          | Some p \<Rightarrow>
              (case MergeEnvs cl p of
                 None \<Rightarrow> ((a\<lparr>targetPod := p\<rparr>, w), Inl False)
               | Some p \<Rightarrow>
                   let p = pod_anno AnnotationC2ResourceVersion (targetResourceVersion a) p;
                       p = pod_anno AnnotationC2PodVersion (targetPodVersion a) p
                   in ((a\<lparr>targetPod := p\<rparr>, w), Inr True)))
     else ((a, w), Inr updated))"

definition sync_request :: "worker_env \<Rightarrow> cluster \<Rightarrow> Pod \<Rightarrow> podAllocator alloc_op" where
  "sync_request e cl cur = (\<lambda>(a, w).
     case MergeTargetPods cl (targetPod a) of
       None \<Rightarrow> ((a, w), False)
     | Some p \<Rightarrow>
         let p = (if shas (pod_Annotations cur) ''kubernetes.io/psp''
                  then pod_anno ''kubernetes.io/psp'' (sget (pod_Annotations cur) ''kubernetes.io/psp'') p else p);
             a = a\<lparr>targetPod := p\<rparr>
         in if IsWorkerVersionMisMatch w \<and> couldNotUpdateInplace cur a
            then ((a, set_status (\<lambda>s. s\<lparr>InternalReclaim := True\<rparr>) w), True)
            else
              let ((a, w), pod, ok) = updatePod e cl cur (targetPod a) (set_status (\<lambda>s. s\<lparr>InternalReclaim := False\<rparr>) w) a
              in ((a\<lparr>currentPod := pod\<rparr>, w), ok))"

definition syncPodSpec :: "worker_env \<Rightarrow> cluster \<Rightarrow> podAllocator alloc_op" where
  "syncPodSpec e cl = (\<lambda>(a, w).
     case currentPod a of
       None \<Rightarrow> ((a, w), True)
     | Some cur \<Rightarrow>
         if (\<not> IsWorkerVersionMisMatch w \<and> \<not> IsWorkerResVersionMisMatch w \<and> \<not> IsWorkerModeMisMatch w) \<or> (podUpdated a \<and> resourceUpdated a)
         then ((a, set_status (\<lambda>s. s\<lparr>InternalReclaim := False\<rparr>) w), True)
         else
           (case sync_resource cl (a, w) of
              (aw, Inl ok) \<Rightarrow> (aw, ok)
            | (aw, Inr updated) \<Rightarrow>
                (case sync_process e cl updated aw of
                   (aw, Inl ok) \<Rightarrow> (aw, ok)
                 | (aw, Inr updated) \<Rightarrow> if updated then sync_request e cl cur aw else (aw, True))))"

definition syncPodMetas :: "cluster \<Rightarrow> podAllocator alloc_op" where
  "syncPodMetas cl = (\<lambda>(a, w).
     case currentPod a of
       None \<Rightarrow> ((a, w), True)
     | Some p \<Rightarrow>
         (case Template (Plan w) of
            None \<Rightarrow> ((a, w), True)
          | Some _ \<Rightarrow>
              if patch_needed cl (a, w)
              then (let (a, ok) = patchPod cl p (fst (isPodProcessMatch a)) in ((a, w), ok))
              else ((fst (isPodProcessMatch a), w), True)))"

text \<open>\<^verbatim>\<open>syncWorkerAllocStatus\<close>; the prohibition it sets on the pod is a no-op of the base syncer.\<close>

definition syncWorkerAllocStatus :: "worker_env \<Rightarrow> podAllocator alloc_op" where
  "syncWorkerAllocStatus e = (\<lambda>(a, w).
     case currentPod a of
       None \<Rightarrow>
         let w = set_status (\<lambda>s. s\<lparr>NotScheduleSeconds := getNotScheduleTime e None\<rparr>) (InitWorkerNode w)
         in ((a, SetWorkerEntity '''' '''' w), True)
     | Some p \<Rightarrow>
         if pod_SchedulerName p = SchedulerNameMock then ((a, mockSync p w), True)
         else
           let w = set_status (\<lambda>s. s\<lparr>NotScheduleSeconds := getNotScheduleTime e (Some p), Reclaim := PodIsEvicted p\<rparr>) (InitWorkerNode w) in
           if pod_NodeName p = '''' then
             ((a, if pod_PodIP p \<noteq> '''' \<and> pod_Phase p = PodFailed then set_status (\<lambda>s. s\<lparr>Phase := Failed\<rparr>) w else w), True)
           else
             let w = SetWorkerEntityAlloced True w;
                 w = (if st_AllocStatus (Status w) = WorkerAssigned \<and> pod_DeletionTimestamp p \<noteq> None then SetWorkerEntityAlloced False w else w);
                 w = SetWorkerEntity (pod_Name p) (pod_UID p) w;
                 w = set_status (\<lambda>s. s\<lparr>HostIP := pod_HostIP p, IP := pod_PodIP p\<rparr>) w;
                 w = (if pod_PodIP p = '''' then set_status (\<lambda>s. s\<lparr>PodNotStarted := True\<rparr>) w else w);
                 w = (if schedulerType a = recreateScheduler \<and> \<not> IsWorkerEntityAlloced w \<and> IsWorkerAssigned w then reNewWorker w else w)
             in ((a, w), True))"

definition syncWorkerResourceStatus :: "worker_env \<Rightarrow> podAllocator \<Rightarrow> WorkerNode \<Rightarrow> WorkerNode" where
  "syncWorkerResourceStatus e a w =
     (let (resourceAccepted, resourceMatched) = isPodResourceMatch a;
          w = (if resourceAccepted then
                 if resourceMatched then
                   set_status (\<lambda>s. s\<lparr>ResourceMatch := True, LastResourceNotMatchtime := 0, ResVersion := Spec_ResVersion (Spec w)\<rparr>) w
                 else set_status (\<lambda>s. s\<lparr>ResourceMatch := False,
                        LastResourceNotMatchtime := (if LastResourceNotMatchtime s = 0 then Now e else LastResourceNotMatchtime s)\<rparr>) w
               else set_status (\<lambda>s. s\<lparr>ResourceMatch := False\<rparr>) w)
      in if \<not> IsWorkerResVersionMisMatch w then set_status (\<lambda>s. s\<lparr>ResourceMatch := True\<rparr>) w else w)"

definition isAsiPod :: "Pod \<Rightarrow> bool" where
  "isAsiPod p \<longleftrightarrow> sget (pod_Labels p) LabelKeyPodVersion = PodVersion3"

definition isPodProcessFailed :: "worker_env \<Rightarrow> podAllocator \<Rightarrow> Pod \<Rightarrow> WorkerNode \<Rightarrow> bool" where
  "isPodProcessFailed e a p w =
     (case targetContainers a of
        None \<Rightarrow> False
      | Some cs \<Rightarrow>
          list_ex (\<lambda>(name, config).
            let limit = (case config of None \<Rightarrow> 0 | Some l \<Rightarrow> l);
                limit = (if limit = 0 \<and> isAsiPod p then DefaultRestartCountLimit else limit)
            in limit \<noteq> 0 \<and>
               list_ex (\<lambda>st. cs_Name st = name \<and> \<not> cs_Ready st \<and> cs_LastTerminated st \<and>
                 (if isAsiPod p then ExceedRestartLimit e (sget (RestartRecords (Status w)) name) limit
                  else cs_RestartCount st \<ge> i32 (int limit))) (pod_ContainerStatuses p)) cs)"

definition syncWorkerProcessStatus :: "worker_env \<Rightarrow> cluster \<Rightarrow> Pod \<Rightarrow> podAllocator \<times> WorkerNode \<Rightarrow> podAllocator \<times> WorkerNode" where
  "syncWorkerProcessStatus e cl p = (\<lambda>(a, w).
     let (a, processMatched) = isPodProcessMatch a;
         w = set_status (\<lambda>s. s\<lparr>Phase := TransPodPhase (defaultPodVersion cl) (Some p) processMatched\<rparr>) w;
         w = AddRestartRecord p w;
         w = (if isPodProcessFailed e a p w then set_status (\<lambda>s. s\<lparr>Phase := Failed\<rparr>) w else w);
         w = set_status (\<lambda>s. s\<lparr>ProcessReady := isWorkerReady (IsPodReady cl) w p\<rparr>) w;
         w = (if processMatched \<and> podUpdated a \<and> (\<not> NeedRollingAfterResourceChange e (Plan w) \<or> ResourceMatch (Status w))
              then set_status (\<lambda>s. s\<lparr>Version := Spec_Version (Spec w), st_UserDefVersion := UserDefVersion (Plan w)\<rparr>) w else w);
         w = (if processMatched \<and> IsWorkerRunning w \<and> isPodReady (IsPodReady cl) w p
              then set_status (\<lambda>s. s\<lparr>ProcessMatch := True, LastProcessNotMatchtime := 0\<rparr>) w
              else set_status (\<lambda>s. s\<lparr>ProcessMatch := False,
                     LastProcessNotMatchtime := (if LastProcessNotMatchtime s = 0 then Now e else LastProcessNotMatchtime s)\<rparr>) w);
         w = set_status (\<lambda>s. if ProcessReady s then s\<lparr>LastProcessNotReadytime := 0\<rparr>
               else if LastProcessNotReadytime s = 0 then s\<lparr>LastProcessNotReadytime := Now e\<rparr> else s) w
     in (a, w))"

definition syncStandbyStableStatus :: "cluster \<Rightarrow> Pod \<Rightarrow> WorkerNode \<Rightarrow> WorkerNode" where
  "syncStandbyStableStatus cl p w =
     (case pod_Annotations p of
        None \<Rightarrow> w
      | annos \<Rightarrow>
          let anno = sget annos AnnotationStandbyStableStatus; cost = sget annos AnnotationPodDeletionCost;
              set_cost = (\<lambda>w. if cost = '''' then w
                else case ParseInt cost of None \<Rightarrow> w | Some c \<Rightarrow> set_status (\<lambda>s. s\<lparr>DeletionCost := c\<rparr>) w)
          in if anno \<noteq> '''' then
               (case unmarshal_StandbyStatus cl anno of
                  None \<Rightarrow> w
                | Some hours \<Rightarrow> set_cost (set_status (\<lambda>s. s\<lparr>StandbyHours := hours\<rparr>) w))
             else set_cost (set_status (\<lambda>s. s\<lparr>StandbyHours := ''''\<rparr>) w))"

text \<open>\<^verbatim>\<open>syncWorkerStatus\<close>; the process score is always 0, and nothing is read of the package status and the slot.\<close>

definition syncWorkerStatus :: "worker_env \<Rightarrow> cluster \<Rightarrow> podAllocator alloc_op" where
  "syncWorkerStatus e cl = (\<lambda>(a, w).
     case currentPod a of
       None \<Rightarrow> (fst (syncWorkerAllocStatus e (a, w)), True)
     | Some p \<Rightarrow>
         if pod_SchedulerName p = SchedulerNameMock then ((a, mockSync p w), True)
         else
           let ((a, w), _) = syncWorkerAllocStatus e (a, w);
               w = set_status (\<lambda>s. s\<lparr>ProcessScore := 0\<rparr>) w;
               w = syncWorkerResourceStatus e a w;
               (a, w) = syncWorkerProcessStatus e cl p (a, w);
               w = set_status (\<lambda>s. s\<lparr>PodReady := isPodReady (IsPodReady cl) w p\<rparr>) w;
               w = syncStandbyStableStatus cl p w
           in ((a, set_status (\<lambda>s. s\<lparr>Reclaim := PodIsEvicted p\<rparr>) w), True))"

text \<open>The allocator as the state machine sees it.\<close>

definition pod_allocator :: "worker_env \<Rightarrow> cluster \<Rightarrow> podAllocator allocator" where
  "pod_allocator e cl = \<lparr>al_allocate = allocate cl, al_delete = delete_pod cl, al_syncPodSpec = syncPodSpec e cl,
     al_syncPodMetas = syncPodMetas cl, al_syncWorkerStatus = syncWorkerStatus e cl,
     al_syncWorkerAllocStatus = syncWorkerAllocStatus e, al_services = worker_services cl\<rparr>"

text \<open>The phase of an update that \<^verbatim>\<open>syncPodMetas\<close> writes on the pod.\<close>

datatype UpdatePhase = PhaseUnknown | PhaseReady | PhaseEvicting | PhaseDeploying | PhaseStopping | PhaseFailed | PhaseReclaim

definition computeWorkerUpdatePhase :: "worker_env \<Rightarrow> podAllocator \<Rightarrow> WorkerNode \<Rightarrow> UpdatePhase" where
  "computeWorkerUpdatePhase e a w =
     (if IsWorkerIrrecoverable w \<or> IsWorkerDead w then PhaseFailed
      else if IsPodReclaimed (currentPod a) then PhaseReclaim
      else if IsWorkerToRelease w then (if IsGeneralServiceReady w then PhaseEvicting else PhaseStopping)
      else if Version (Status w) = Spec_Version (Spec w) then (if IsWorkerUpdateReady e w then PhaseReady else PhaseDeploying)
      else if ServiceOffline (Status w) \<and> IsGeneralServiceReady w then PhaseEvicting
      else PhaseDeploying)"

text \<open>\<^verbatim>\<open>createAllocator\<close>. The specification of the target pod and its version are computed by \<open>targets\<close> (\<^verbatim>\<open>generateTargets\<close>); the
  resource version is the worker's and there is no process version, as \<^verbatim>\<open>ackPodAllocator\<close> computes them. The result has the
  worker, whose pod version label may be changed.\<close>

definition createAllocator ::
  "worker_env \<Rightarrow> cluster \<Rightarrow> (WorkerNode \<Rightarrow> Pod option \<Rightarrow> (Pod \<times> string) option) \<Rightarrow> WorkerNode \<Rightarrow> Pod option \<Rightarrow>
     worker_error + podAllocator \<times> WorkerNode" where
  "createAllocator e cl targets w pod =
     (case Template (Plan w) of
        None \<Rightarrow> Inl NilDereference
      | Some t \<Rightarrow>
          let syncerScheduler = (if tmpl_SchedulerName t = '''' \<or> IsC2Scheduler w
                then GetDefaultSchedulerName (defaultSchedulerName cl) else tmpl_SchedulerName t);
              podVersion = GetPodVersion (Labels w);
              currentPodVersion = (case pod of None \<Rightarrow> podVersion | Some p \<Rightarrow> GetPodVersion (pod_Labels p));
              lazy = (IsLazyV3 w \<and> podVersion = PodVersion25 \<and>
                (case pod of None \<Rightarrow> True | Some _ \<Rightarrow> currentPodVersion = PodVersion3));
              w = (if lazy then SetPodVersion e PodVersion3 w else w);
              anno = (\<lambda>k. case pod of None \<Rightarrow> '''' | Some p \<Rightarrow> sget (pod_Annotations p) k)
          in case targets w pod of
               None \<Rightarrow> Inl NoTargets
             | Some (target, version) \<Rightarrow> Inr
                 (\<lparr>schedulerType = '''', currentPod = pod, targetPod = target, targetContainers = Some (tmpl_Containers t),
                   targetResourceVersion = Spec_ResVersion (Spec w),
                   targetHippoPodVersion = (if lazy then PodVersion3 else podVersion), targetProcessVersion = '''',
                   targetPodVersion = version, targetContainersProcessVersion = [],
                   currentResourceVersion = anno AnnotationC2ResourceVersion,
                   currentHippoPodVersion = (if lazy then PodVersion3 else currentPodVersion),
                   currentResourceMatched = (anno AnnotationC2ResourceVersion \<noteq> ''''), currentProcessVersion = '''',
                   currentUpdatedResourceVersion = anno AnnotationC2ResourceVersion,
                   currentUpdatedPodVersion = anno AnnotationC2PodVersion, currentContainersProcessVersion = [],
                   podExecutor = (if syncerScheduler = SchedulerNameAck then RecreateExecutor else UpdateExecutor), api_log = []\<rparr>, w))"

subsection \<open>The contract\<close>

text \<open>What the requests may do to a worker's pod: a graceful worker's pod is deleted only when no service is available, or when the
  worker is unassigned, or when it is offline and unpublished; it is changed to another version or mode only in the last two cases.\<close>

definition api_ok :: "api_call \<Rightarrow> bool" where
  "api_ok c \<longleftrightarrow>
     (case c of
        ApiDelete _ w \<Rightarrow> IsWorkerGracefully w \<longrightarrow> IsWorkerUnAvaliable w \<or> IsWorkerUnAssigned w \<or> (ServiceOffline (Status w) \<and> IsWorkerUnpublished w)
      | ApiUpdate _ w \<Rightarrow> sync_ok w
      | _ \<Rightarrow> True)"

definition allocator_inv :: "podAllocator \<Rightarrow> bool" where
  "allocator_inv a \<longleftrightarrow> schedulerType a \<noteq> recreateScheduler \<and> (\<forall>c \<in> set (api_log a). api_ok c)"

text \<open>The frame of the operations, with the mark of a restart.\<close>

definition keeps_restart :: "WorkerNode \<Rightarrow> WorkerNode \<Rightarrow> bool" where
  "keeps_restart w w' \<longleftrightarrow> keeps w w' \<and> InRestarting (Status w') = InRestarting (Status w)"

lemma keeps_restart_trans: "keeps_restart u v \<Longrightarrow> keeps_restart v w \<Longrightarrow> keeps_restart u w"
  by (auto simp: keeps_restart_def keeps_def)

lemma keeps_restart_refl: "keeps_restart w w"
  by (simp add: keeps_restart_def keeps_def)

lemma keeps_restart_status:
  assumes "ToRelease s' = ToRelease (Status w)" "ServiceOffline s' = ServiceOffline (Status w)"
    "ServiceConditions s' = ServiceConditions (Status w)" "st_AllocStatus s' = st_AllocStatus (Status w)"
    "InRestarting s' = InRestarting (Status w)"
  shows "keeps_restart w (w\<lparr>Status := s'\<rparr>)"
  using assms by (simp add: keeps_restart_def keeps_def)

lemma keeps_restart_helpers:
  "keeps_restart w (SetWorkerEntity n u w)" "keeps_restart w (SetWorkerEntityAlloced b w)" "keeps_restart w (InitWorkerNode w)"
  "keeps_restart w (mockSync p w)" "keeps_restart w (SyncWorkerServiceHealthStatus w)"
  by (auto simp: keeps_restart_def keeps_def worker_setters InitWorkerNode_def mockSync_def SyncWorkerServiceHealthStatus_def)

lemma keeps_restart_records: "keeps_restart w (AddRestartRecord p w)"
proof -
  have "keeps_restart w (fold f cs w)" if "\<And>c w. keeps_restart w (f c w)" for f and cs :: "ContainerStatus list"
    using that by (induction cs arbitrary: w) (auto intro: keeps_restart_refl keeps_restart_trans)
  then show ?thesis
    unfolding AddRestartRecord_def by this (auto split: option.split intro: keeps_restart_refl keeps_restart_status)
qed

lemma keeps_restart_resource: "keeps_restart w (syncWorkerResourceStatus e a w)"
  by (simp add: syncWorkerResourceStatus_def isPodResourceMatch_def Let_def keeps_restart_def keeps_def)

lemma keeps_restart_standby: "keeps_restart w (syncStandbyStableStatus cl p w)"
  by (simp add: syncStandbyStableStatus_def Let_def keeps_restart_def keeps_def split: option.split)

lemma isPodProcessMatch_inv [simp]:
  "schedulerType (fst (isPodProcessMatch a)) = schedulerType a" "api_log (fst (isPodProcessMatch a)) = api_log a"
  "currentPod (fst (isPodProcessMatch a)) = currentPod a" "podExecutor (fst (isPodProcessMatch a)) = podExecutor a"
  by (simp_all add: isPodProcessMatch_def Let_def)

lemma allocator_inv_match [simp]: "allocator_inv (fst (isPodProcessMatch a)) = allocator_inv a"
  by (simp add: allocator_inv_def)

lemma allocator_inv_simps [simp]:
  "allocator_inv (a\<lparr>targetPod := p\<rparr>) = allocator_inv a" "allocator_inv (a\<lparr>currentPod := q\<rparr>) = allocator_inv a"
  by (simp_all add: allocator_inv_def)

lemma allocator_inv_log:
  "allocator_inv (log_api c a) \<longleftrightarrow> allocator_inv a \<and> api_ok c"
  "allocator_inv (a\<lparr>targetPod := p, api_log := api_log a @ [c]\<rparr>) \<longleftrightarrow> allocator_inv a \<and> api_ok c"
  by (auto simp: allocator_inv_def)

lemma syncWorkerAllocStatus_keeps:
  assumes "schedulerType a \<noteq> recreateScheduler"
  shows "fst (fst (syncWorkerAllocStatus e (a, w))) = a \<and> keeps_restart w (snd (fst (syncWorkerAllocStatus e (a, w))))"
proof (cases "currentPod a")
  case None
  have "keeps_restart w (set_status (\<lambda>s. s\<lparr>NotScheduleSeconds := getNotScheduleTime e None\<rparr>) (InitWorkerNode w))"
    by (rule keeps_restart_trans [OF keeps_restart_helpers(3)]) (simp add: keeps_restart_status)
  from keeps_restart_trans [OF this keeps_restart_helpers(1)] show ?thesis using None by (simp add: syncWorkerAllocStatus_def Let_def)
next
  case (Some p)
  define w1 where "w1 = set_status (\<lambda>s. s\<lparr>NotScheduleSeconds := getNotScheduleTime e (Some p), Reclaim := PodIsEvicted p\<rparr>) (InitWorkerNode w)"
  define w2 where "w2 = (if st_AllocStatus (Status (SetWorkerEntityAlloced True w1)) = WorkerAssigned \<and> pod_DeletionTimestamp p \<noteq> None
    then SetWorkerEntityAlloced False (SetWorkerEntityAlloced True w1) else SetWorkerEntityAlloced True w1)"
  define w3 where "w3 = set_status (\<lambda>s. s\<lparr>HostIP := pod_HostIP p, IP := pod_PodIP p\<rparr>) (SetWorkerEntity (pod_Name p) (pod_UID p) w2)"
  define w4 where "w4 = (if pod_PodIP p = '''' then set_status (\<lambda>s. s\<lparr>PodNotStarted := True\<rparr>) w3 else w3)"
  define f where "f = (if pod_PodIP p \<noteq> '''' \<and> pod_Phase p = PodFailed then set_status (\<lambda>s. s\<lparr>Phase := Failed\<rparr>) w1 else w1)"
  have k1: "keeps_restart w w1"
    unfolding w1_def by (rule keeps_restart_trans [OF keeps_restart_helpers(3)]) (simp add: keeps_restart_status)
  have k2: "keeps_restart w1 w2"
    unfolding w2_def using keeps_restart_helpers(2) keeps_restart_trans [OF keeps_restart_helpers(2) keeps_restart_helpers(2)] by simp
  have k3: "keeps_restart w2 w3"
    unfolding w3_def
    by (rule keeps_restart_trans [OF keeps_restart_helpers(1) [of _ "pod_Name p" "pod_UID p"]]) (simp add: keeps_restart_status)
  have k4: "keeps_restart w3 w4" "keeps_restart w1 f"
    unfolding w4_def f_def by (simp_all add: keeps_restart_status keeps_restart_refl)
  have "fst (syncWorkerAllocStatus e (a, w)) =
    (if pod_SchedulerName p = SchedulerNameMock then (a, mockSync p w) else if pod_NodeName p = '''' then (a, f) else (a, w4))"
    unfolding syncWorkerAllocStatus_def Let_def prod.case Some option.case
      w1_def [symmetric] w2_def [symmetric] w3_def [symmetric] w4_def [symmetric] f_def [symmetric]
    by (simp only: assms simp_thms if_False if_distrib [of fst] fst_conv)
  then show ?thesis
    using keeps_restart_helpers(4) [of w p] keeps_restart_trans [OF k1 k4(2)]
      keeps_restart_trans [OF k1 keeps_restart_trans [OF k2 keeps_restart_trans [OF k3 k4(1)]]] by auto
qed

lemma syncWorkerProcessStatus_keeps:
  "fst (syncWorkerProcessStatus e cl p (a, w)) = fst (isPodProcessMatch a) \<and> keeps_restart w (snd (syncWorkerProcessStatus e cl p (a, w)))"
proof -
  define a' where "a' = fst (isPodProcessMatch a)"
  define k where "k = snd (isPodProcessMatch a)"
  define w1 where "w1 = AddRestartRecord p (set_status (\<lambda>s. s\<lparr>Phase := TransPodPhase (defaultPodVersion cl) (Some p) k\<rparr>) w)"
  define w2 where "w2 = (if isPodProcessFailed e a' p w1 then set_status (\<lambda>s. s\<lparr>Phase := Failed\<rparr>) w1 else w1)"
  define w3 where "w3 = set_status (\<lambda>s. s\<lparr>ProcessReady := isWorkerReady (IsPodReady cl) w2 p\<rparr>) w2"
  define w4 where "w4 = (if k \<and> podUpdated a' \<and> (\<not> NeedRollingAfterResourceChange e (Plan w3) \<or> ResourceMatch (Status w3))
    then set_status (\<lambda>s. s\<lparr>Version := Spec_Version (Spec w3), st_UserDefVersion := UserDefVersion (Plan w3)\<rparr>) w3 else w3)"
  define w5 where "w5 = (if k \<and> IsWorkerRunning w4 \<and> isPodReady (IsPodReady cl) w4 p
    then set_status (\<lambda>s. s\<lparr>ProcessMatch := True, LastProcessNotMatchtime := 0\<rparr>) w4
    else set_status (\<lambda>s. s\<lparr>ProcessMatch := False,
      LastProcessNotMatchtime := (if LastProcessNotMatchtime s = 0 then Now e else LastProcessNotMatchtime s)\<rparr>) w4)"
  define w6 where "w6 = set_status (\<lambda>s. if ProcessReady s then s\<lparr>LastProcessNotReadytime := 0\<rparr>
               else if LastProcessNotReadytime s = 0 then s\<lparr>LastProcessNotReadytime := Now e\<rparr> else s) w5"
  have k1: "keeps_restart w w1"
    unfolding w1_def by (rule keeps_restart_trans [OF _ keeps_restart_records]) (simp add: keeps_restart_status)
  have k2: "keeps_restart w1 w2" by (simp add: w2_def keeps_restart_status keeps_restart_refl)
  have k3: "keeps_restart w2 w3" by (simp add: w3_def keeps_restart_status)
  have k4: "keeps_restart w3 w4" by (simp add: w4_def keeps_restart_status keeps_restart_refl)
  have k5: "keeps_restart w4 w5" by (simp add: w5_def keeps_restart_status)
  have k6: "keeps_restart w5 w6" by (simp add: w6_def keeps_restart_status)
  have "syncWorkerProcessStatus e cl p (a, w) = (a', w6)"
    unfolding syncWorkerProcessStatus_def Let_def split_beta fst_conv snd_conv a'_def k_def w1_def w2_def w3_def w4_def w5_def w6_def ..
  then show ?thesis
    using keeps_restart_trans [OF k1 keeps_restart_trans [OF k2 keeps_restart_trans [OF k3 keeps_restart_trans [OF k4
      keeps_restart_trans [OF k5 k6]]]]] by (simp add: a'_def)
qed

lemma syncWorkerStatus_keeps:
  assumes "allocator_inv a"
  shows "allocator_inv (fst (fst (syncWorkerStatus e cl (a, w)))) \<and> keeps_restart w (snd (fst (syncWorkerStatus e cl (a, w))))"
proof (cases "currentPod a")
  case None
  then show ?thesis using assms syncWorkerAllocStatus_keeps [of a e w] by (simp add: syncWorkerStatus_def allocator_inv_def)
next
  case (Some p)
  define w0 where "w0 = snd (fst (syncWorkerAllocStatus e (a, w)))"
  define w1 where "w1 = syncWorkerResourceStatus e a (set_status (\<lambda>s. s\<lparr>ProcessScore := 0\<rparr>) w0)"
  define w2 where "w2 = snd (syncWorkerProcessStatus e cl p (a, w1))"
  define w3 where "w3 = syncStandbyStableStatus cl p (set_status (\<lambda>s. s\<lparr>PodReady := isPodReady (IsPodReady cl) w2 p\<rparr>) w2)"
  define w4 where "w4 = set_status (\<lambda>s. s\<lparr>Reclaim := PodIsEvicted p\<rparr>) w3"
  note al = syncWorkerAllocStatus_keeps [of a e w]
  note pr = syncWorkerProcessStatus_keeps [of e cl p a w1]
  have sc: "schedulerType a \<noteq> recreateScheduler" using assms by (simp add: allocator_inv_def)
  have k0: "keeps_restart w w0" using al sc by (simp add: w0_def)
  have k1: "keeps_restart w0 w1"
    unfolding w1_def by (rule keeps_restart_trans [OF _ keeps_restart_resource]) (simp add: keeps_restart_status)
  have k2: "keeps_restart w1 w2" using pr by (simp add: w2_def)
  have k3: "keeps_restart w2 w3"
    unfolding w3_def by (rule keeps_restart_trans [OF _ keeps_restart_standby]) (simp add: keeps_restart_status)
  have k4: "keeps_restart w3 w4" unfolding w4_def by (simp add: keeps_restart_status)
  have "fst (syncWorkerStatus e cl (a, w)) \<in> {(a, mockSync p w), (fst (isPodProcessMatch a), w4)}"
    using Some al sc pr
    by (simp add: syncWorkerStatus_def Let_def split_beta w0_def [symmetric] w1_def [symmetric] w2_def [symmetric] w3_def [symmetric] w4_def)
  then show ?thesis
    using assms keeps_restart_helpers(4) [of w p]
      keeps_restart_trans [OF k0 keeps_restart_trans [OF k1 keeps_restart_trans [OF k2 keeps_restart_trans [OF k3 k4]]]] by auto
qed

lemma allocate_keeps:
  assumes "allocator_inv a"
  shows "allocator_inv (fst (fst (allocate cl (a, w)))) \<and> keeps w (snd (fst (allocate cl (a, w))))"
  using assms keeps_restart_helpers(1) keeps_restart_refl [of w]
  by (auto simp: allocate_def createPod_def Let_def allocator_inv_def api_ok_def keeps_restart_def split: option.split)

lemma deletePod_inv:
  assumes "allocator_inv a" "api_ok (ApiDelete pod w)"
  shows "allocator_inv (fst (deletePod cl pod w a))"
  using assms by (auto simp: deletePod_def Let_def allocator_inv_def api_ok_def)

lemma delete_pod_keeps:
  assumes "allocator_inv a"
  shows "allocator_inv (fst (fst (delete_pod cl (a, w)))) \<and> keeps w (snd (fst (delete_pod cl (a, w))))"
proof -
  define w1 where "w1 = SyncWorkerServiceHealthStatus w"
  define w2 where "w2 = set_status (\<lambda>s. s\<lparr>IP := '''', HostIP := '''', ProcessScore := 0, Phase := Terminated\<rparr>) w1"
  have k1: "keeps_restart w w1" unfolding w1_def by (rule keeps_restart_helpers)
  have k2: "keeps_restart w1 w2" unfolding w2_def by (simp add: keeps_restart_status)
  have k: "keeps w w1" "keeps w (SetWorkerEntity '''' '''' w2)"
    using k1 keeps_restart_trans [OF k1 keeps_restart_trans [OF k2 keeps_restart_helpers(1)]] by (simp_all add: keeps_restart_def)
  have i: "allocator_inv (fst (deletePod cl p w1 a))" if "CouldDeletePod w1" for p
    using deletePod_inv [OF assms] that by (auto simp: api_ok_def CouldDeletePod_def)
  show ?thesis
    using assms k i
    by (simp add: delete_pod_def Let_def split_beta w1_def [symmetric] w2_def [symmetric] split: option.split sum.split)
qed

lemma syncPodMetas_keeps:
  assumes "allocator_inv a"
  shows "allocator_inv (fst (fst (syncPodMetas cl (a, w)))) \<and> keeps w (snd (fst (syncPodMetas cl (a, w))))"
  using assms keeps_restart_refl [of w]
  by (auto simp: syncPodMetas_def patchPod_def Let_def allocator_inv_def api_ok_def keeps_restart_def split: option.split)

text \<open>What a change of the pod leaves of the worker, apart from the restart, warm-up and reclaim marks.\<close>

definition sync_same :: "WorkerNode \<Rightarrow> WorkerNode \<Rightarrow> bool" where
  "sync_same w w' \<longleftrightarrow> Spec w' = Spec w \<and> DeletionTimestamp w' = DeletionTimestamp w \<and>
     ToRelease (Status w') = ToRelease (Status w) \<and> ServiceOffline (Status w') = ServiceOffline (Status w) \<and>
     ServiceConditions (Status w') = ServiceConditions (Status w) \<and> st_AllocStatus (Status w') = st_AllocStatus (Status w) \<and>
     Version (Status w') = Version (Status w) \<and> WorkerMode (Status w') = WorkerMode (Status w)"

lemma sync_same_refl: "sync_same w w"
  by (simp add: sync_same_def)

lemma sync_same_trans: "sync_same u v \<Longrightarrow> sync_same v w \<Longrightarrow> sync_same u w"
  by (simp add: sync_same_def)

lemma sync_same_keeps: "sync_same w w' \<Longrightarrow> keeps w w'"
  by (simp add: sync_same_def keeps_def)

lemma sync_same_ok:
  assumes "sync_same w w'"
  shows "sync_ok w' = sync_ok w" "IsWorkerVersionMisMatch w' = IsWorkerVersionMisMatch w" "IsWorkerModeMisMatch w' = IsWorkerModeMisMatch w"
proof -
  note a = assms [unfolded sync_same_def]
  show m: "IsWorkerVersionMisMatch w' = IsWorkerVersionMisMatch w" "IsWorkerModeMisMatch w' = IsWorkerModeMisMatch w"
    by (rule mismatch_cong; simp add: a)+
  have "IsWorkerUnpublished w' = IsWorkerUnpublished w" by (simp only: IsWorkerUnpublished_def Let_def a)
  then show "sync_ok w' = sync_ok w"
    using m a by (simp add: sync_ok_def IsWorkerUnAssigned_def IsWorkerGracefully_def)
qed

lemma sync_same_renewed: "sync_same w w' \<Longrightarrow> renewed w' w'' \<Longrightarrow> renewed w w''"
  by (simp add: sync_same_def renewed_def)

lemma sync_same_status:
  "sync_same w (set_status (\<lambda>s. s\<lparr>InternalReclaim := b\<rparr>) w)" "sync_same w (set_status (\<lambda>s. s\<lparr>InRestarting := b\<rparr>) w)"
  "sync_same w (set_status (\<lambda>s. s\<lparr>st_NeedWarmup := b\<rparr>) w)"
  by (simp_all add: sync_same_def)

text \<open>The result of an operation that may change the pod of \<open>w\<close>.\<close>

definition synced :: "WorkerNode \<Rightarrow> podAllocator \<times> WorkerNode \<Rightarrow> bool" where
  "synced w r \<longleftrightarrow> allocator_inv (fst r) \<and> (sync_same w (snd r) \<or> renewed w (snd r))"

lemma synced_before: "sync_same w w' \<Longrightarrow> synced w' r \<Longrightarrow> synced w r"
  using sync_same_trans sync_same_renewed by (auto simp: synced_def)

lemma reNewWorker_renewed: "renewed w (reNewWorker w)"
  by (simp add: renewed_def reNewWorker_def worker_setters)

lemma shouldReclaim_same: "sync_same w (fst (shouldReclaim e b c w))"
proof -
  have "sync_same w (fst (InStandby2Active e w))"
    by (simp add: InStandby2Active_def UnsetStandby2Active_def sync_same_def split: option.split)
  then show ?thesis by (simp add: shouldReclaim_def Let_def split_beta sync_same_refl)
qed

lemma updatePod_inplace_synced:
  assumes "allocator_inv a" "sync_ok w"
  shows "synced w (fst (updatePod_inplace e cl before after w a))"
proof -
  define w' where "w' = fst (shouldReclaim e before (after\<lparr>pod_Annotations := SyncCrdTime (pod_Annotations before) (pod_Annotations after)\<rparr>) w)"
  have s: "sync_same w w'" unfolding w'_def by (rule shouldReclaim_same)
  have r: "sync_same w (set_status (\<lambda>s. s\<lparr>InternalReclaim := True\<rparr>) w')"
    "sync_same w (set_status (\<lambda>s. s\<lparr>InternalReclaim := False\<rparr>) w')"
    "sync_same w (set_status (\<lambda>s. s\<lparr>InternalReclaim := False\<rparr>) w)"
    using s sync_same_trans [OF s sync_same_status(1)] sync_same_status(1) by simp_all
  have "sync_ok w'" using assms(2) sync_same_ok(1) [OF s] by simp
  then have i: "allocator_inv (a\<lparr>targetPod := p, api_log := api_log a @ [ApiUpdate p w']\<rparr>)" for p
    using assms(1) by (auto simp: allocator_inv_def api_ok_def)
  show ?thesis
    unfolding updatePod_inplace_def Let_def split_beta w'_def [symmetric]
    using r s i assms(1) by (simp add: synced_def split: option.split)
qed

lemma updatePod_recreate_synced:
  assumes "allocator_inv a" "sync_ok w"
  shows "synced w (fst (updatePod_recreate cl before after w a))"
proof -
  have "api_ok (ApiDelete p w)" if "IsWorkerVersionMisMatch w" for p
    using that assms(2) by (auto simp: api_ok_def sync_ok_def)
  then show ?thesis
    using assms(1) reNewWorker_renewed [of w]
    by (simp add: updatePod_recreate_def Let_def synced_def sync_same_refl allocator_inv_log)
qed

lemma sync_request_synced:
  assumes "allocator_inv a" "sync_ok w"
  shows "synced w (fst (sync_request e cl cur (a, w)))"
proof -
  define w' where "w' = set_status (\<lambda>s. s\<lparr>InternalReclaim := False\<rparr>) w"
  have s: "sync_same w w'" "sync_same w (set_status (\<lambda>s. s\<lparr>InternalReclaim := True\<rparr>) w)"
    unfolding w'_def by (rule sync_same_status)+
  then have "sync_ok w'" using assms(2) sync_same_ok(1) by simp
  then have "synced w' (fst (updatePod e cl cur p w' (a\<lparr>targetPod := q\<rparr>)))" for p q
    using updatePod_inplace_synced [of "a\<lparr>targetPod := q\<rparr>" w'] updatePod_recreate_synced [of "a\<lparr>targetPod := q\<rparr>" w'] assms(1)
    by (simp add: updatePod_def split: executor.split)
  then have "synced w (fst (updatePod e cl cur p w' (a\<lparr>targetPod := q\<rparr>)))" for p q by (rule synced_before [OF s(1)])
  then show ?thesis using assms(1) s(2)
    by (simp add: sync_request_def Let_def split_beta synced_def w'_def [symmetric] sync_same_refl split: option.split)
qed

lemma sync_resource_synced:
  assumes "allocator_inv a"
  shows "allocator_inv (fst (fst (sync_resource cl (a, w)))) \<and> sync_same w (snd (fst (sync_resource cl (a, w))))"
  using assms by (simp add: sync_resource_def Let_def sync_same_refl sync_same_status split: option.split)

lemma prepare_restart_synced:
  assumes "allocator_inv a"
  shows "allocator_inv (fst (fst (prepare_restart e (a, w)))) \<and> sync_same w (snd (fst (prepare_restart e (a, w))))"
  using assms by (simp add: prepare_restart_def Let_def split_beta) (simp add: sync_same_def)

lemma sync_process_synced:
  assumes "allocator_inv a"
  shows "allocator_inv (fst (fst (sync_process e cl u (a, w)))) \<and> sync_same w (snd (fst (sync_process e cl u (a, w))))"
  using assms prepare_restart_synced [OF assms, of e w]
  by (simp add: sync_process_def Let_def split_beta sync_same_refl split: option.split)

lemma syncPodSpec_synced:
  assumes "allocator_inv a" "sync_ok w"
  shows "synced w (fst (syncPodSpec e cl (a, w)))"
proof (cases "currentPod a")
  case None
  then show ?thesis using assms(1) by (simp add: syncPodSpec_def synced_def sync_same_refl)
next
  case (Some cur)
  obtain a1 w1 r1 where r: "sync_resource cl (a, w) = ((a1, w1), r1)" by (metis prod.collapse)
  have s1: "allocator_inv a1" "sync_same w w1" using sync_resource_synced [OF assms(1), of cl w] r by simp_all
  obtain a2 w2 r2 where p: "sync_process e cl (projr r1) (a1, w1) = ((a2, w2), r2)" by (metis prod.collapse)
  have s2: "allocator_inv a2" "sync_same w1 w2" using sync_process_synced [OF s1(1), of e cl "projr r1" w1] p by simp_all
  note s = sync_same_trans [OF s1(2) s2(2)]
  have q: "synced w (fst (sync_request e cl cur (a2, w2)))"
    using synced_before [OF s sync_request_synced] s2(1) sync_same_ok(1) [OF s] assms(2) by simp
  show ?thesis using Some r p q s s1 s2 assms(1) sync_same_status(1)
    by (auto simp: syncPodSpec_def synced_def split: sum.split)
qed

text \<open>The model of the allocator meets the contract of the state machine.\<close>

interpretation pa: worker_allocator "pod_allocator e cl" allocator_inv for e cl
proof
  fix s w s' w' ok
  assume inv: "allocator_inv s"
  show "al_allocate (pod_allocator e cl) (s, w) = ((s', w'), ok) \<Longrightarrow> allocator_inv s' \<and> keeps w w'"
    using allocate_keeps [OF inv, of cl w] by (simp add: pod_allocator_def)
  show "delete_ok w \<Longrightarrow> al_delete (pod_allocator e cl) (s, w) = ((s', w'), ok) \<Longrightarrow> allocator_inv s' \<and> keeps w w'"
    using delete_pod_keeps [OF inv, of cl w] by (simp add: pod_allocator_def)
  show "syncable w \<Longrightarrow> sync_ok w \<Longrightarrow> al_syncPodSpec (pod_allocator e cl) (s, w) = ((s', w'), ok) \<Longrightarrow>
      allocator_inv s' \<and> (keeps w w' \<or> renewed w w')"
    using syncPodSpec_synced [OF inv, of w e cl] sync_same_keeps by (auto simp: pod_allocator_def synced_def)
  show "al_syncPodMetas (pod_allocator e cl) (s, w) = ((s', w'), ok) \<Longrightarrow> allocator_inv s' \<and> keeps w w'"
    using syncPodMetas_keeps [OF inv, of cl w] by (simp add: pod_allocator_def)
  show "al_syncWorkerStatus (pod_allocator e cl) (s, w) = ((s', w'), ok) \<Longrightarrow>
      allocator_inv s' \<and> keeps w w' \<and> InRestarting (Status w') = InRestarting (Status w)"
    using syncWorkerStatus_keeps [OF inv, of e cl w] by (simp add: pod_allocator_def keeps_restart_def)
  show "al_syncWorkerAllocStatus (pod_allocator e cl) (s, w) = ((s', w'), ok) \<Longrightarrow> allocator_inv s' \<and> keeps w w'"
    using syncWorkerAllocStatus_keeps [of s e w] inv by (simp add: pod_allocator_def keeps_restart_def allocator_inv_def)
qed

end
