(* ===== verification/WorkerPasses.thy ===== *)
theory WorkerPasses
  imports PodAllocator
begin

text \<open>
  What a pass of the worker's state machine does when it drives the model of the pod allocator: the facts that the contract
  \<open>worker_allocator\<close> gives, for every cluster, and the requests that reach the API server.
\<close>

subsection \<open>Examples\<close>

text \<open>A cluster that grants every request and merges nothing, the allocator of a pod on a node, and an assigned worker.\<close>

definition sample_cluster :: cluster where
  "sample_cluster = \<lparr>CreatePod = (\<lambda>p. Some p), UpdatePodSpec = (\<lambda>_. None), DeletePod = (\<lambda>_. None), PatchPod = (\<lambda>_. None),
     IsPodReady = (\<lambda>_. True), defaultPodVersion = PodVersion25, defaultSchedulerName = [], writeLabels = None,
     DisableNoMountCgroup = False, InitC2DeclaredKeys = (\<lambda>p. Some p), InitC2DeclaredEnvKeys = (\<lambda>p. Some p), copyPodSpec = (\<lambda>p. Some p),
     MergeEnvs = (\<lambda>p. Some p), MergeTargetPods = (\<lambda>p. Some p), json_BackupOfPod = (\<lambda>_. []), json_StandbyStatus = (\<lambda>h. h),
     unmarshal_StandbyStatus = (\<lambda>_. None), GetInactiveInterpose = (\<lambda>_. (None, None)), patch_needed = (\<lambda>_. False),
     worker_services = (\<lambda>_. Some [])\<rparr>"

definition sample_pod :: Pod where
  "sample_pod = empty_pod\<lparr>pod_Name := ''p'', pod_UID := ''u'', pod_NodeName := ''node'', pod_PodIP := ''ip''\<rparr>"

definition sample_targets :: "WorkerNode \<Rightarrow> Pod option \<Rightarrow> (Pod \<times> string) option" where
  "sample_targets _ _ = Some (sample_pod, ''v'')"

definition sample_worker :: WorkerNode where
  "sample_worker = set_spec (\<lambda>s. s\<lparr>Spec_VersionPlan := (Spec_VersionPlan s)\<lparr>Template := Some
       \<lparr>tmpl_Labels = None, tmpl_Annotations = None, tmpl_RestartPolicy = [], tmpl_SchedulerName = [], tmpl_Containers = []\<rparr>\<rparr>\<rparr>)
     (set_status (\<lambda>s. s\<lparr>EntityName := ''p'', EntityUid := ''u'', EntityAlloced := True\<rparr>) healthy_worker)"

definition sample_allocator :: podAllocator where
  "sample_allocator = \<lparr>schedulerType = [], currentPod = Some sample_pod, targetPod = sample_pod, targetContainers = Some [],
     targetResourceVersion = [], targetHippoPodVersion = [], targetProcessVersion = [], targetPodVersion = ''v'',
     targetContainersProcessVersion = [], currentResourceVersion = [], currentHippoPodVersion = [], currentResourceMatched = False,
     currentProcessVersion = [], currentUpdatedResourceVersion = [], currentUpdatedPodVersion = [],
     currentContainersProcessVersion = [], podExecutor = UpdateExecutor, api_log = []\<rparr>"

definition assigned_machine :: "podAllocator machine" where
  "assigned_machine = \<lparr>mw = sample_worker, mal = sample_allocator, mpod = Some sample_pod, mlog = []\<rparr>"

abbreviation sample_pass :: "podAllocator machine \<Rightarrow> (podAllocator machine \<times> bool) option" where
  "sample_pass \<equiv> process sample_env (pod_allocator sample_env sample_cluster)"

lemmas machine_samples = assigned_machine_def sample_worker_def sample_allocator_def sample_pod_def empty_pod_def healthy_worker_def
  sample_defs

lemma sample_inv: "allocator_inv (mal assigned_machine)"
  by (simp add: allocator_inv_def machine_samples)

lemma assigned_machine_first: "first_status assigned_machine = WorkerAssigned"
  by (simp add: first_status_def machine_samples)

lemma sample_pass_ends:
  assumes "mal m = sample_allocator"
  obtains m' ok where "sample_pass m = Some (m', ok)"
proof -
  have "allocator_inv (mal m)" using assms sample_inv by (simp add: assigned_machine_def)
  then have "sample_pass m \<noteq> None" by (rule pa.process_returns)
  then show ?thesis using that by auto
qed

lemma sample_mal: "mal assigned_machine = sample_allocator"
  by (simp add: assigned_machine_def)

subsection \<open>One pass\<close>

text \<open>
  A pass of the worker's state machine always ends: the jump back to the graceful update is taken at most once, because the second
  round runs with the service offline.
\<close>

theorem worker_pass_returns:
  assumes "allocator_inv (mal m)"
  shows "process e (pod_allocator e cl) m \<noteq> None"
  by (rule pa.process_returns [OF assms])

theorem worker_pass_returns_witness: "sample_pass assigned_machine \<noteq> None"
  by (rule worker_pass_returns [OF sample_inv])

text \<open>
  C6. The state machine refines the abstract life cycle: whatever the plan, the pod, the services and the answers of the API server are, a
  pass moves the worker along steps of the life cycle only.
\<close>

theorem worker_pass_refines_life_cycle:
  assumes "allocator_inv (mal m)" "process e (pod_allocator e cl) m = Some (m', ok)"
  shows "alloc_step\<^sup>*\<^sup>* (first_status m) (status_of m')"
  by (rule pa.process_from_first(3) [OF assms])

theorem worker_pass_refines_life_cycle_witness:
  "\<exists>m' ok. sample_pass assigned_machine = Some (m', ok) \<and> alloc_step\<^sup>*\<^sup>* WorkerAssigned (status_of m')"
proof -
  obtain m' ok where p: "sample_pass assigned_machine = Some (m', ok)" by (rule sample_pass_ends [OF sample_mal])
  then show ?thesis using worker_pass_refines_life_cycle [OF sample_inv p] assigned_machine_first by auto
qed

text \<open>
  C14. A worker that is neither marked for release nor already on the way out stays: a pass of the state machine over a worker that starts it unassigned, assigned or lost asks the
  allocator for no release (\<open>PodDelete\<close>) and leaves the worker unassigned, assigned or lost. What an update does to the pod, which the recreating executor replaces, is
  another call of the allocator and not meant here.
\<close>

theorem worker_pass_keeps_worker:
  assumes "allocator_inv (mal m)" "process e (pod_allocator e cl) m = Some (m', ok)" "\<not> IsWorkerToRelease (mw m)"
    "first_status m \<in> {WorkerUnAssigned, WorkerAssigned, WorkerLost}"
  shows "(\<exists>l. mlog m' = mlog m @ l \<and> (\<forall>w. PodDelete w \<notin> set l)) \<and> status_of m' \<in> {WorkerUnAssigned, WorkerAssigned, WorkerLost}"
  using pa.process_keeps [OF assms(1,2,3)] assms(4) unfolding staying_def by simp

theorem worker_pass_keeps_worker_witness:
  "\<exists>m' ok. sample_pass assigned_machine = Some (m', ok) \<and> (\<forall>w. PodDelete w \<notin> set (mlog m'))"
proof -
  obtain m' ok where p: "sample_pass assigned_machine = Some (m', ok)" by (rule sample_pass_ends [OF sample_mal])
  have "\<not> IsWorkerToRelease (mw assigned_machine)" "mlog assigned_machine = []" by (simp_all add: machine_samples worker_preds)
  then show ?thesis using p worker_pass_keeps_worker [OF sample_inv p] assigned_machine_first by auto
qed

text \<open>
  C2. Graceful release: whenever the state machine asks the allocator to release the pod of a graceful worker (\<open>PodDelete\<close>), the worker's services are withdrawn, or its pod has
  failed, or it is unassigned and never had a pod, or the worker was in the releasing state already when the pass began (its handler asks
  on every pass). The calls for an update,
  under which the recreating executor replaces the pod, are not releases.
\<close>

theorem worker_pass_deletes_safely:
  assumes "allocator_inv (mal m)" "process e (pod_allocator e cl) m = Some (m', ok)" "IsWorkerGracefully (mw m)"
  shows "\<exists>l. mlog m' = mlog m @ l \<and> (\<forall>w. PodDelete w \<in> set l \<longrightarrow>
    IsWorkerOfflined w \<or> IsWorkerFalied w \<or> (IsWorkerUnAssigned w \<and> IsWorkerEmpty w) \<or> IsWorkerReleasing (mw m))"
proof (cases "IsWorkerReleasing (mw m)")
  case True
  then show ?thesis using pa.process_log_grows [OF assms(1,2)] by blast
next
  case False
  then show ?thesis using pa.process_deletes [OF assms False] unfolding deletes_safely_def safe_delete_def by blast
qed

text \<open>An example: the same worker marked for release, with no service to withdraw.\<close>

definition releasing_machine :: "podAllocator machine" where
  "releasing_machine = on_worker SetWorkerToRelease assigned_machine"

lemma releasing_mal: "mal releasing_machine = sample_allocator"
  by (simp add: releasing_machine_def sample_mal)

lemma releasing_inv: "allocator_inv (mal releasing_machine)"
  using sample_inv by (simp add: releasing_mal sample_mal)

theorem worker_pass_deletes_safely_witness:
  "\<exists>m' ok. sample_pass releasing_machine = Some (m', ok) \<and>
     (\<forall>w. PodDelete w \<in> set (mlog m') \<longrightarrow> IsWorkerOfflined w \<or> IsWorkerFalied w \<or> (IsWorkerUnAssigned w \<and> IsWorkerEmpty w))"
proof -
  obtain m' ok where p: "sample_pass releasing_machine = Some (m', ok)" by (rule sample_pass_ends [OF releasing_mal])
  have g: "mlog releasing_machine = []" "IsWorkerGracefully (mw releasing_machine)" "\<not> IsWorkerReleasing (mw releasing_machine)"
    by (simp_all add: machine_samples releasing_machine_def worker_preds worker_setters)
  show ?thesis using p worker_pass_deletes_safely [OF releasing_inv p g(2)] g(1,3) by auto
qed

text \<open>
  C4. Graceful update: a pass changes the pod of an assigned, graceful worker to another version or mode only while the worker is offline
  and its services are unpublished, or after it has become unassigned.
\<close>

theorem worker_pass_updates_safely:
  assumes "allocator_inv (mal m)" "process e (pod_allocator e cl) m = Some (m', ok)" "IsWorkerAssigned (mw m)"
  shows "\<exists>l. mlog m' = mlog m @ l \<and> (\<forall>w. PodSpecSync w \<in> set l \<longrightarrow> IsWorkerGracefully w \<longrightarrow> \<not> IsWorkerUnAssigned w \<longrightarrow>
    IsWorkerVersionMisMatch w \<or> IsWorkerModeMisMatch w \<longrightarrow> ServiceOffline (Status w) \<and> IsWorkerUnpublished w)"
  using pa.process_syncs [OF assms] unfolding syncs_safely_def sync_ok_def by blast

theorem worker_pass_updates_safely_witness:
  "\<exists>m' ok. sample_pass assigned_machine = Some (m', ok) \<and>
     (\<forall>w. PodSpecSync w \<in> set (mlog m') \<longrightarrow> IsWorkerGracefully w \<longrightarrow> \<not> IsWorkerUnAssigned w \<longrightarrow>
       IsWorkerVersionMisMatch w \<or> IsWorkerModeMisMatch w \<longrightarrow> ServiceOffline (Status w) \<and> IsWorkerUnpublished w)"
proof -
  obtain m' ok where p: "sample_pass assigned_machine = Some (m', ok)" by (rule sample_pass_ends [OF sample_mal])
  have a: "mlog assigned_machine = []" "IsWorkerAssigned (mw assigned_machine)" by (simp_all add: machine_samples worker_preds)
  show ?thesis using p worker_pass_updates_safely [OF sample_inv p a(2)] a(1) by auto
qed

subsection \<open>Release\<close>

lemma delete_pod_succeeds:
  assumes "\<forall>p. \<not> failed (UpdatePodSpec cl p) \<and> \<not> failed (DeletePod cl p)"
  shows "snd (delete_pod cl (a, w))"
  using assms by (simp add: delete_pod_def deletePod_def Let_def split_beta split: option.split sum.split)

text \<open>
  Release makes progress: a worker that is to be released, is not graceful and has a pod is released in one pass when the API server
  grants the updates and deletions of pods, whatever status it has reached.
\<close>

theorem worker_pass_releases:
  assumes "allocator_inv (mal m)" "\<forall>p. \<not> failed (UpdatePodSpec cl p) \<and> \<not> failed (DeletePod cl p)"
    "IsWorkerToRelease (mw m)" "\<not> IsWorkerGracefully (mw m)"
    "IsWorkerAssigned (mw m) \<or> IsWorkerLost (mw m) \<or> IsWorkerReleasing (mw m)" "mpod m \<noteq> None"
  shows "\<exists>m' ok. process e (pod_allocator e cl) m = Some (m', ok) \<and> IsWorkerReleased (mw m') \<and> mpod m' = None"
  by (rule pa.process_releases [OF assms(1) _ assms(3-6)]) (simp add: pod_allocator_def delete_pod_succeeds [OF assms(2)])

definition forced_machine :: "podAllocator machine" where
  "forced_machine = on_worker (set_spec (\<lambda>s. s\<lparr>Spec_VersionPlan := (Spec_VersionPlan s)\<lparr>UpdatingGracefully := Some False\<rparr>\<rparr>)) releasing_machine"

theorem worker_pass_releases_witness:
  "\<exists>m' ok. sample_pass forced_machine = Some (m', ok) \<and> IsWorkerReleased (mw m') \<and> mpod m' = None"
  by (rule worker_pass_releases)
    (simp_all add: allocator_inv_def failed_def sample_cluster_def machine_samples forced_machine_def releasing_machine_def worker_preds worker_setters)

text \<open>Runs: passes with any environments and clusters, between which the rest of the system may change anything of the worker but
  its allocation status, and may build a new allocator.\<close>

inductive worker_run :: "podAllocator machine \<Rightarrow> podAllocator machine \<Rightarrow> bool" where
  start: "worker_run m m"
| pass: "worker_run m m1 \<Longrightarrow> allocator_inv (mal m1) \<Longrightarrow> process e (pod_allocator e cl) m1 = Some (m2, ok) \<Longrightarrow> worker_run m m2"
| change: "worker_run m m1 \<Longrightarrow> status_of m2 = status_of m1 \<Longrightarrow> worker_run m m2"

lemma alloc_step_leaving:
  assumes "alloc_step\<^sup>*\<^sup>* s t"
  shows "s \<in> {WorkerOfflining, WorkerReleasing, WorkerReleased} \<longrightarrow> t \<in> {WorkerOfflining, WorkerReleasing, WorkerReleased}"
    "s \<in> {WorkerReleasing, WorkerReleased} \<longrightarrow> t \<in> {WorkerReleasing, WorkerReleased}" "s = WorkerReleased \<longrightarrow> t = WorkerReleased"
  using assms by (induction rule: rtranclp_induct) auto

lemma worker_run_life_cycle:
  "worker_run m m' \<Longrightarrow> status_of m \<noteq> AllocStatusEmpty \<Longrightarrow>
    status_of m' \<noteq> AllocStatusEmpty \<and> alloc_step\<^sup>*\<^sup>* (status_of m) (status_of m')"
proof (induction rule: worker_run.induct)
  case (pass m m1 e cl m2 ok)
  then have "first_status m1 = status_of m1" by (simp add: first_status_def)
  then show ?case using pass pa.process_from_first(2,3) [OF pass.hyps(2,3)] by (metis rtranclp_trans)
qed simp_all

text \<open>
  C13. Release is final: over any run, a worker that has begun to go offline never becomes assigned again, one whose pod is being deleted
  never returns to going offline, and a released one stays released, even when the mark for release is taken back.
\<close>

theorem release_is_final:
  assumes "worker_run m m'"
  shows "(IsWorkerOfflining (mw m) \<longrightarrow> IsWorkerOfflining (mw m') \<or> IsWorkerReleasing (mw m') \<or> IsWorkerReleased (mw m')) \<and>
    (IsWorkerReleasing (mw m) \<longrightarrow> IsWorkerReleasing (mw m') \<or> IsWorkerReleased (mw m')) \<and>
    (IsWorkerReleased (mw m) \<longrightarrow> IsWorkerReleased (mw m'))"
  using worker_run_life_cycle [OF assms] alloc_step_leaving [of "status_of m" "status_of m'"]
  by (auto simp: IsWorkerOfflining_def IsWorkerReleasing_def IsWorkerReleased_def)

theorem release_is_final_witness:
  "\<exists>m'. worker_run (on_worker SetWorkerOfflining assigned_machine) m' \<and> \<not> IsWorkerAssigned (mw m')"
proof -
  let ?m = "on_worker SetWorkerOfflining assigned_machine"
  obtain m' ok where p: "sample_pass ?m = Some (m', ok)" by (rule sample_pass_ends [of ?m]) (simp_all add: sample_mal)
  have r: "worker_run ?m m'" by (rule worker_run.pass [OF worker_run.start _ p]) (simp add: sample_inv)
  have "IsWorkerOfflining (mw ?m)" by (simp add: worker_setters worker_preds)
  then show ?thesis using r release_is_final [OF r] by (auto simp: worker_preds)
qed

subsection \<open>The requests to the API server\<close>

text \<open>A new allocator has made no request.\<close>

lemma createAllocator_inv:
  assumes "createAllocator e cl targets w pod = Inr (a, w')"
  shows "allocator_inv a \<and> api_log a = [] \<and> currentPod a = pod"
  using assms by (auto simp: createAllocator_def allocator_inv_def Let_def split: option.splits)

text \<open>Every request of a pass is allowed.\<close>

lemma pass_requests_ok:
  assumes "allocator_inv (mal m)" "process e (pod_allocator e cl) m = Some (m', ok)"
  shows "\<forall>c \<in> set (api_log (mal m')). api_ok c"
  using pa.process_from_first(1) [OF assms] by (simp add: marks_def allocator_inv_def)

text \<open>A worker without a template panics when its allocator is built.\<close>

lemma createAllocator_nil_template: "Template (Plan w) = None \<Longrightarrow> createAllocator e cl targets w pod = Inl NilDereference"
  by (simp add: createAllocator_def)

text \<open>
  C40. A graceful worker whose pod failed while one of its graceful services is still reported true: the offlining handler lets it go, the
  allocator refuses to delete the pod without saying so, and the releasing handler marks the worker released and forgets the pod,
  although no request was made.
\<close>

theorem failed_worker_released_without_delete:
  assumes "IsWorkerGracefully (mw m)" "IsWorkerFalied (mw m)" "mpod m \<noteq> None"
    "\<exists>c \<in> set (ServiceConditions (Status (mw m))). sc_Status c = ConditionTrue \<and> graceful c"
  shows "let m1 = fst (dealwithOfflining m); m2 = fst (dealwithReleasing (pod_allocator e cl) m1) in
    IsWorkerReleasing (mw m1) \<and> IsWorkerReleased (mw m2) \<and> mpod m2 = None \<and> api_log (mal m2) = api_log (mal m)"
proof -
  define m1 where "m1 = fst (dealwithOfflining m)"
  define w where "w = SyncWorkerServiceHealthStatus (mw m1)"
  have m1: "mw m1 = SetWorkerReleasing (SyncWorkerServiceHealthStatus (set_status (\<lambda>s. s\<lparr>ServiceOffline := True\<rparr>) (mw m)))"
    "mal m1 = mal m" "mpod m1 = mpod m"
    using assms(2) by (simp_all add: m1_def dealwithOfflining_def Let_def SyncWorkerServiceHealthStatus_def IsWorkerIrrecoverable_def
        IsWorkerFalied_def)
  have "GetServiceStatusFromCondition (mw m1) \<noteq> ServiceUnAvailable"
    using assms(4) by (auto simp: m1 GetServiceStatusFromCondition_def worker_setters SyncWorkerServiceHealthStatus_def
        Let_def filter_empty_conv)
  then have "\<not> CouldDeletePod w"
    using assms(1) by (simp add: w_def CouldDeletePod_def IsWorkerUnAvaliable_def SyncWorkerServiceHealthStatus_def IsWorkerGracefully_def m1
        worker_setters)
  then have "delete_pod cl (mal m1, mw m1) = ((mal m1, w), True)" by (simp add: delete_pod_def w_def [symmetric])
  then have op: "logged_op PodDelete (al_delete (pod_allocator e cl)) m1 = (m1\<lparr>mlog := mlog m1 @ [PodDelete (mw m1)], mw := w\<rparr>, True)"
    by (simp add: logged_op_def call_op_def pod_allocator_def)
  have "\<not> IsWorkerLost (SetWorkerEntityAlloced False w)"
    by (simp add: w_def m1 IsWorkerLost_def SetWorkerEntityAlloced_def SetWorkerReleasing_def SyncWorkerServiceHealthStatus_def)
  moreover obtain p where "mpod m1 = Some p" using assms(3) m1(3) by auto
  ultimately have "fst (dealwithReleasing (pod_allocator e cl) m1) =
    m1\<lparr>mlog := mlog m1 @ [PodDelete (mw m1)], mpod := None,
      mw := SetWorkerReleased (SetWorkerEntity [] [] (SetWorkerEntityAlloced False w))\<rparr>"
    by (simp add: dealwithReleasing_def op Let_def IsWorkerEmpty_def SetWorkerEntity_def)
  then show ?thesis unfolding m1_def [symmetric] Let_def using m1 by (simp add: worker_setters IsWorkerReleased_def IsWorkerReleasing_def)
qed

text \<open>The example: the sample worker, failed, with one graceful service that is reported true.\<close>

definition failed_machine :: "podAllocator machine" where
  "failed_machine =
     on_worker (set_status (\<lambda>s. s\<lparr>Phase := Failed, ServiceConditions := [denied\<lparr>sc_Status := ConditionTrue\<rparr>]\<rparr>)) releasing_machine"

theorem failed_worker_released_without_delete_witness:
  "IsWorkerReleased (mw (fst (dealwithReleasing (pod_allocator sample_env sample_cluster) (fst (dealwithOfflining failed_machine))))) \<and>
   api_log (mal (fst (dealwithReleasing (pod_allocator sample_env sample_cluster) (fst (dealwithOfflining failed_machine))))) = []"
proof -
  have "IsWorkerGracefully (mw failed_machine)" "IsWorkerFalied (mw failed_machine)" "mpod failed_machine \<noteq> None"
    "\<exists>c \<in> set (ServiceConditions (Status (mw failed_machine))). sc_Status c = ConditionTrue \<and> graceful c"
    "api_log (mal failed_machine) = []"
    by (simp_all add: failed_machine_def releasing_machine_def machine_samples worker_preds worker_setters isGracefullyServiceType_def denied_def)
  then show ?thesis using failed_worker_released_without_delete [of failed_machine sample_env sample_cluster] by (simp add: Let_def)
qed

end
