(* ===== verification/RecoverQuota.thy ===== *)
theory RecoverQuota
  imports GoPrelude
begin

text \<open>
  \<^verbatim>\<open>controller/worker/recover_quota.go\<close>: how many broken workers of a rolling set may be replaced. A
  \<^verbatim>\<open>timeRecoverQuota\<close> grants at most a number of recoveries per time window, a \<^verbatim>\<open>parallelRecoverQuota\<close> bounds
  how many replicas of a gang recover at the same time. The clock is an argument, the locks make every
  operation atomic, and the worker cache (a third-party LRU cache) is a record of its operations.
\<close>

subsection \<open>Grants within a time window\<close>

text \<open>\<^verbatim>\<open>recovers\<close>: the times of the grants, oldest first.\<close>

record timeRecoverQuota =
  recovers :: "int list"

definition newRecoverQuota :: timeRecoverQuota where
  "newRecoverQuota = \<lparr>recovers = []\<rparr>"

text \<open>The loop that drops the grants older than the window.\<close>

primrec expire_front :: "int \<Rightarrow> int32 \<Rightarrow> int list \<Rightarrow> int list" where
  "expire_front now timeWindow [] = []"
| "expire_front now timeWindow (t # ts) =
     (if now - t > timeWindow then expire_front now timeWindow ts else t # ts)"

text \<open>One request, at one time: the readings of the clock within a call, under the lock, are taken to agree.\<close>

definition timeRecoverQuota_require ::
  "int \<Rightarrow> int32 option \<Rightarrow> int32 option \<Rightarrow> timeRecoverQuota \<Rightarrow> timeRecoverQuota \<times> bool" where
  "timeRecoverQuota_require now maxFailedCount timeWindow r =
     (case maxFailedCount of
        None \<Rightarrow> (r, True)
      | Some m \<Rightarrow>
          if m = 0 then (r, False)
          else (case timeWindow of
            None \<Rightarrow> (r, True)
          | Some w \<Rightarrow>
              if w = 0 then (r, True)
              else let ts = expire_front now w (recovers r) in
                if int (length ts) \<ge> m then (r\<lparr>recovers := ts\<rparr>, False)
                else (r\<lparr>recovers := ts @ [now]\<rparr>, True)))"

subsection \<open>Replicas that recover at the same time\<close>

record parallelRecoverQuota =
  parallelRecovers :: "(string, bool) gomap"

definition newParallelRecoverQuota :: parallelRecoverQuota where
  "newParallelRecoverQuota = \<lparr>parallelRecovers = []\<rparr>"

definition parallelRecoverQuota_require ::
  "string \<Rightarrow> int32 option \<Rightarrow> parallelRecoverQuota \<Rightarrow> parallelRecoverQuota \<times> bool" where
  "parallelRecoverQuota_require replica maxFailedCount r =
     (case maxFailedCount of
        None \<Rightarrow> (r, True)
      | Some m \<Rightarrow>
          if mget False (parallelRecovers r) replica then (r, True)
          else if int (length (parallelRecovers r)) \<ge> m then (r, False)
          else (r\<lparr>parallelRecovers := mput replica True (parallelRecovers r)\<rparr>, True))"

definition parallelRecoverQuota_giveback :: "string \<Rightarrow> parallelRecoverQuota \<Rightarrow> parallelRecoverQuota \<times> bool" where
  "parallelRecoverQuota_giveback replica r =
     (if mhas (parallelRecovers r) replica
      then (r\<lparr>parallelRecovers := mdel replica (parallelRecovers r)\<rparr>, True)
      else (r, True))"

subsection \<open>The quotas by key\<close>

text \<open>\<^verbatim>\<open>gcache.Cache\<close>: reading a key and writing it with an expiry.\<close>

record 'c cache_ops =
  cache_has :: "'c \<Rightarrow> string \<Rightarrow> bool"
  cache_put :: "string \<Rightarrow> 'c \<Rightarrow> 'c"

record 'c recoverQuotas =
  quotas :: "(string, timeRecoverQuota) gomap"
  parallelQuotas :: "(string, parallelRecoverQuota) gomap"
  workerCache :: 'c

definition getQuota :: "string \<Rightarrow> 'c recoverQuotas \<Rightarrow> 'c recoverQuotas \<times> timeRecoverQuota" where
  "getQuota key r =
     (case map_of (quotas r) key of
        Some quota \<Rightarrow> (r, quota)
      | None \<Rightarrow> (r\<lparr>quotas := mput key newRecoverQuota (quotas r)\<rparr>, newRecoverQuota))"

definition getParallelQuota :: "string \<Rightarrow> 'c recoverQuotas \<Rightarrow> 'c recoverQuotas \<times> parallelRecoverQuota" where
  "getParallelQuota key r =
     (case map_of (parallelQuotas r) key of
        Some quota \<Rightarrow> (r, quota)
      | None \<Rightarrow> (r\<lparr>parallelQuotas := mput key newParallelRecoverQuota (parallelQuotas r)\<rparr>, newParallelRecoverQuota))"

definition require_quota ::
  "int \<Rightarrow> string \<Rightarrow> int32 option \<Rightarrow> int32 option \<Rightarrow> 'c recoverQuotas \<Rightarrow> 'c recoverQuotas \<times> bool" where
  "require_quota now key maxFailedCount timeWindow r =
     (let (r, quota) = getQuota key r;
          (quota, ok) = timeRecoverQuota_require now maxFailedCount timeWindow quota
      in (r\<lparr>quotas := mput key quota (quotas r)\<rparr>, ok))"

definition requireParallel :: "string \<Rightarrow> string \<Rightarrow> int32 option \<Rightarrow> 'c recoverQuotas \<Rightarrow> 'c recoverQuotas \<times> bool" where
  "requireParallel key replica maxFailedCount r =
     (let (r, quota) = getParallelQuota key r;
          (quota, ok) = parallelRecoverQuota_require replica maxFailedCount quota
      in (r\<lparr>parallelQuotas := mput key quota (parallelQuotas r)\<rparr>, ok))"

definition givebackParallel :: "string \<Rightarrow> string \<Rightarrow> 'c recoverQuotas \<Rightarrow> 'c recoverQuotas \<times> bool" where
  "givebackParallel key replica r =
     (let (r, quota) = getParallelQuota key r;
          (quota, ok) = parallelRecoverQuota_giveback replica quota
      in (r\<lparr>parallelQuotas := mput key quota (parallelQuotas r)\<rparr>, ok))"

definition requireWorkerQuota :: "'c cache_ops \<Rightarrow> string \<Rightarrow> 'c recoverQuotas \<Rightarrow> 'c recoverQuotas \<times> bool" where
  "requireWorkerQuota ops key r =
     (if cache_has ops (workerCache r) key then (r, False)
      else (r\<lparr>workerCache := cache_put ops key (workerCache r)\<rparr>, True))"

subsection \<open>The window never holds too many grants\<close>

text \<open>The times at which a sequence of requests is granted.\<close>

primrec granted_times :: "int32 \<Rightarrow> int32 \<Rightarrow> int list \<Rightarrow> timeRecoverQuota \<Rightarrow> int list" where
  "granted_times m w [] r = []"
| "granted_times m w (now # ts) r =
     (let (r', ok) = timeRecoverQuota_require now (Some m) (Some w) r
      in (if ok then [now] else []) @ granted_times m w ts r')"

lemma expire_front_drop:
  "\<exists>k. expire_front now w ts = drop k ts \<and> (\<forall>t \<in> set (take k ts). now - t > w)"
proof (induction ts)
  case (Cons t ts)
  then obtain k where k: "expire_front now w ts = drop k ts" "\<forall>t \<in> set (take k ts). now - t > w" by blast
  show ?case
  proof (cases "now - t > w")
    case True
    then show ?thesis using k by (intro exI [of _ "Suc k"]) simp
  next
    case False
    then show ?thesis by (intro exI [of _ 0]) simp
  qed
qed simp

text \<open>The history of the grants: what the quota still holds is its end, and grants that are \<open>m\<close> apart in
  the history are more than the window apart in time.\<close>

definition history_ok :: "int32 \<Rightarrow> int32 \<Rightarrow> int \<Rightarrow> int list \<Rightarrow> timeRecoverQuota \<Rightarrow> bool" where
  "history_ok m w now past r \<longleftrightarrow>
     (\<exists>k. recovers r = drop k past \<and> (\<forall>t \<in> set (take k past). now - t > w)) \<and>
     sorted past \<and> (\<forall>t \<in> set past. t \<le> now) \<and>
     (\<forall>i < length past. int i \<ge> m \<longrightarrow> past ! i - past ! (i - nat m) > w)"

lemma history_ok_require:
  assumes h: "history_ok m w t0 past r" and le: "t0 \<le> now" and m: "0 < m" "w \<noteq> 0"
    and r': "timeRecoverQuota_require now (Some m) (Some w) r = (r', ok)"
  shows "history_ok m w now (past @ (if ok then [now] else [])) r'"
proof -
  obtain k where k: "recovers r = drop k past" "\<forall>t \<in> set (take k past). t0 - t > w"
    using h by (auto simp: history_ok_def)
  obtain j where j: "expire_front now w (recovers r) = drop j (drop k past)"
      "\<forall>t \<in> set (take j (drop k past)). now - t > w"
    using expire_front_drop [of now w "drop k past"] k(1) by auto
  let ?k = "k + j"
  have tk: "take ?k past = take k past @ take j (drop k past)" by (rule take_add)
  have old: "\<forall>t \<in> set (take ?k past). now - t > w" using k(2) j(2) le unfolding tk by auto
  have ts: "expire_front now w (recovers r) = drop ?k past" using j(1) by (simp add: add.commute)
  have past: "sorted past" "\<forall>t \<in> set past. t \<le> now"
    "\<forall>i < length past. int i \<ge> m \<longrightarrow> past ! i - past ! (i - nat m) > w"
    using h le by (auto simp: history_ok_def)
  show ?thesis
  proof (cases "int (length (drop ?k past)) \<ge> m")
    case True
    then have "r' = r\<lparr>recovers := drop ?k past\<rparr>" "\<not> ok"
      using r' m ts by (auto simp: timeRecoverQuota_require_def Let_def simp del: length_drop)
    then show ?thesis using past old unfolding history_ok_def by (auto intro!: exI [of _ ?k])
  next
    case False
    then have r'': "r' = r\<lparr>recovers := drop ?k past @ [now]\<rparr>" "ok"
      using r' m ts by (auto simp: timeRecoverQuota_require_def Let_def simp del: length_drop)
    have new: "now - past ! (length past - nat m) > w" if "int (length past) \<ge> m"
    proof -
      have i: "length past - nat m < ?k" "length past - nat m < length past" using False that m by auto
      then have "past ! (length past - nat m) \<in> set (take ?k past)"
        by (metis in_set_conv_nth length_take min_less_iff_conj nth_take)
      then show ?thesis using old by blast
    qed
    have gap: "\<forall>i < length (past @ [now]). int i \<ge> m \<longrightarrow>
        (past @ [now]) ! i - (past @ [now]) ! (i - nat m) > w"
      using past(3) new m by (auto simp: nth_append less_Suc_eq)
    have "\<exists>k'. recovers r' = drop k' (past @ [now]) \<and> (\<forall>t \<in> set (take k' (past @ [now])). now - t > w)"
    proof (intro exI conjI)
      show "recovers r' = drop (min ?k (length past)) (past @ [now])"
        using r''(1) by (simp add: min_def)
      show "\<forall>t \<in> set (take (min ?k (length past)) (past @ [now])). now - t > w"
        using old by (simp add: min_def split: if_splits)
    qed
    then show ?thesis using past(1,2) gap r''(2) by (simp add: history_ok_def sorted_append)
  qed
qed

lemma history_ok_granted:
  assumes "history_ok m w t0 past r" "0 < m" "w \<noteq> 0" "sorted (t0 # ts)"
  shows "\<exists>t1 r'. history_ok m w t1 (past @ granted_times m w ts r) r'"
  using assms
proof (induction ts arbitrary: t0 past r)
  case Nil
  then show ?case by auto
next
  case (Cons t ts)
  obtain r' ok where r': "timeRecoverQuota_require t (Some m) (Some w) r = (r', ok)" by fastforce
  have "history_ok m w t (past @ (if ok then [t] else [])) r'"
    by (rule history_ok_require [OF Cons.prems(1) _ _ _ r']) (use Cons.prems in auto)
  from Cons.IH [OF this Cons.prems(2,3)] Cons.prems(4) show ?case using r' by (auto split: if_splits)
qed

text \<open>In a sorted list whose elements \<open>m\<close> apart are more than \<open>w\<close> apart, no interval of length \<open>w\<close>
  holds more than \<open>m\<close> elements.\<close>

lemma window_count:
  fixes xs :: "int list"
  assumes "sorted xs" "0 < m" "\<forall>i < length xs. int i \<ge> m \<longrightarrow> xs ! i - xs ! (i - nat m) > w"
  shows "int (length (filter (\<lambda>x. a \<le> x \<and> x \<le> a + w) xs)) \<le> m"
proof (rule ccontr)
  let ?S = "{i. i < length xs \<and> a \<le> xs ! i \<and> xs ! i \<le> a + w}"
  assume "\<not> ?thesis"
  then have card: "nat m < card ?S" using assms(2) by (simp add: length_filter_conv_card)
  have fin: "finite ?S" by simp
  then have ne: "?S \<noteq> {}" using card by (metis card.empty less_nat_zero_code)
  define i where "i = Max ?S"
  define j where "j = Min ?S"
  have ij: "i \<in> ?S" "j \<in> ?S" using Max_in [OF fin ne] Min_in [OF fin ne] unfolding i_def j_def by blast+
  have "?S \<subseteq> {j..i}" using fin by (auto simp: i_def j_def)
  then have "card ?S \<le> Suc i - j" using card_mono [of "{j..i}" ?S] by simp
  then have le: "j \<le> i - nat m" "int i \<ge> m" using card by auto
  have "xs ! j \<le> xs ! (i - nat m)" using assms(1) le(1) ij(1) by (intro sorted_nth_mono) auto
  moreover have "xs ! i - xs ! (i - nat m) > w" using assms(3) ij(1) le(2) by simp
  ultimately show False using ij by auto
qed

subsection \<open>A bounded pool\<close>

text \<open>What the recovery of a gang relies on: a pool of members with a bound, where acquiring twice changes
  nothing, a full pool refuses, and a release makes room.\<close>

locale bounded_pool =
  fixes members :: "'s \<Rightarrow> string set"
    and acquire :: "string \<Rightarrow> int32 \<Rightarrow> 's \<Rightarrow> 's \<times> bool"
    and give_back :: "string \<Rightarrow> 's \<Rightarrow> 's"
    and pool_ok :: "'s \<Rightarrow> bool"
  assumes finite_members: "pool_ok s \<Longrightarrow> finite (members s)"
    and acquire_member: "pool_ok s \<Longrightarrow> x \<in> members s \<Longrightarrow> acquire x m s = (s, True)"
    and acquire_room: "pool_ok s \<Longrightarrow> x \<notin> members s \<Longrightarrow> int (card (members s)) < m \<Longrightarrow>
      \<exists>s'. acquire x m s = (s', True) \<and> pool_ok s' \<and> members s' = insert x (members s)"
    and acquire_full: "pool_ok s \<Longrightarrow> x \<notin> members s \<Longrightarrow> int (card (members s)) \<ge> m \<Longrightarrow> acquire x m s = (s, False)"
    and give_back_ok: "pool_ok s \<Longrightarrow> pool_ok (give_back x s) \<and> members (give_back x s) = members s - {x}"
begin

lemma acquire_bound:
  assumes "pool_ok s" "int (card (members s)) \<le> m"
  shows "pool_ok (fst (acquire x m s)) \<and> int (card (members (fst (acquire x m s)))) \<le> m"
proof -
  consider "x \<in> members s" | "x \<notin> members s" "int (card (members s)) < m" | "x \<notin> members s" "int (card (members s)) \<ge> m"
    by linarith
  then show ?thesis
  proof cases
    case 1
    then show ?thesis using acquire_member assms by simp
  next
    case 2
    obtain s' where s': "acquire x m s = (s', True)" "pool_ok s'" "members s' = insert x (members s)"
      using acquire_room [OF assms(1) 2] by blast
    then show ?thesis using finite_members [OF assms(1)] 2 by simp
  next
    case 3
    then show ?thesis using acquire_full assms by simp
  qed
qed

lemma pool_run_bound:
  "pool_ok s \<Longrightarrow> int (card (members s)) \<le> m \<Longrightarrow>
    pool_ok (fold (case_sum (\<lambda>x s. fst (acquire x m s)) give_back) ops s) \<and>
    int (card (members (fold (case_sum (\<lambda>x s. fst (acquire x m s)) give_back) ops s))) \<le> m"
proof (induction ops arbitrary: s)
  case (Cons op ops)
  show ?case
  proof (cases op)
    case (Inl x)
    then show ?thesis using Cons.IH acquire_bound [OF Cons.prems, of x] by simp
  next
    case (Inr x)
    have "card (members s - {x}) \<le> card (members s)"
      using finite_members [OF Cons.prems(1)] by (intro card_mono) auto
    then show ?thesis using Cons.IH [of "give_back x s"] give_back_ok [OF Cons.prems(1), of x] Cons.prems Inr by simp
  qed
qed simp

lemma release_makes_room:
  assumes "pool_ok s" "y \<in> members s" "x \<notin> members s" "int (card (members s)) \<le> m"
  shows "snd (acquire x m (give_back y s))"
proof -
  have "card (members s - {y}) < card (members s)" using finite_members [OF assms(1)] assms(2) by (rule card_Diff1_less)
  then obtain s' where "acquire x m (give_back y s) = (s', True)"
    using acquire_room [of "give_back y s" x m] give_back_ok [of s y] assms by auto
  then show ?thesis by simp
qed

end

text \<open>Every entry of \<^verbatim>\<open>parallelRecovers\<close> is true, and the keys are distinct.\<close>

definition parallel_ok :: "parallelRecoverQuota \<Rightarrow> bool" where
  "parallel_ok r \<longleftrightarrow> wf_map (parallelRecovers r) \<and> (\<forall>(k, v) \<in> set (parallelRecovers r). v)"

definition recovering :: "parallelRecoverQuota \<Rightarrow> string set" where
  "recovering r = set (mkeys (parallelRecovers r))"

lemma recovering_iff:
  assumes "parallel_ok r"
  shows "mget False (parallelRecovers r) x \<longleftrightarrow> x \<in> recovering r"
proof (cases "map_of (parallelRecovers r) x")
  case None
  then have "x \<notin> recovering r" by (simp add: recovering_def map_of_eq_None_iff)
  then show ?thesis using None by (simp add: mget_def)
next
  case (Some v)
  then have "(x, v) \<in> set (parallelRecovers r)" by (rule map_of_SomeD)
  then have "v" "x \<in> recovering r" using assms by (auto simp: parallel_ok_def recovering_def rev_image_eqI)
  then show ?thesis using Some by (simp add: mget_def)
qed

lemma recovering_card: "parallel_ok r \<Longrightarrow> card (recovering r) = length (parallelRecovers r)"
  unfolding parallel_ok_def recovering_def by (metis distinct_card length_map)

lemma update_true: "\<forall>(k, v) \<in> set m. v \<Longrightarrow> \<forall>(k, v) \<in> set (mput x True m). v"
  by (induction m) auto

interpretation pq: bounded_pool recovering "\<lambda>x m. parallelRecoverQuota_require x (Some m)"
    "\<lambda>x r. fst (parallelRecoverQuota_giveback x r)" parallel_ok
proof
  fix s :: parallelRecoverQuota and x and m :: int
  assume ok: "parallel_ok s"
  show "finite (recovering s)" by (simp add: recovering_def)
  show "parallelRecoverQuota_require x (Some m) s = (s, True)" if "x \<in> recovering s"
    using that recovering_iff [OF ok] by (simp add: parallelRecoverQuota_require_def)
  show "\<exists>s'. parallelRecoverQuota_require x (Some m) s = (s', True) \<and> parallel_ok s' \<and> recovering s' = insert x (recovering s)"
    if "x \<notin> recovering s" "int (card (recovering s)) < m"
    using that recovering_iff [OF ok] recovering_card [OF ok] ok update_true [of "parallelRecovers s" x]
    by (simp add: parallelRecoverQuota_require_def parallel_ok_def) (simp add: recovering_def)
  show "parallelRecoverQuota_require x (Some m) s = (s, False)"
    if "x \<notin> recovering s" "int (card (recovering s)) \<ge> m"
    using that recovering_iff [OF ok] recovering_card [OF ok] by (simp add: parallelRecoverQuota_require_def)
  show "parallel_ok (fst (parallelRecoverQuota_giveback x s)) \<and>
      recovering (fst (parallelRecoverQuota_giveback x s)) = recovering s - {x}"
    using ok by (auto simp: parallelRecoverQuota_giveback_def parallel_ok_def recovering_def AList.delete_eq
        distinct_map_filter mhas_iff)
qed

text \<open>A sequence of operations: \<open>Inl x\<close> requires a slot for \<open>x\<close>, \<open>Inr x\<close> gives it back.\<close>

definition parallel_run :: "int32 \<Rightarrow> (string + string) list \<Rightarrow> parallelRecoverQuota \<Rightarrow> parallelRecoverQuota" where
  "parallel_run m =
     fold (case_sum (\<lambda>x r. fst (parallelRecoverQuota_require x (Some m) r)) (\<lambda>x r. fst (parallelRecoverQuota_giveback x r)))"

subsection \<open>Properties\<close>

text \<open>
  C36. The rate limit on recoveries: whatever the requests (in the order of the clock), no time interval
  as long as the window holds more than \<^verbatim>\<open>maxFailedCount\<close> grants.
\<close>

theorem timeRecoverQuota_rate_limit:
  assumes "0 < m" "w \<noteq> 0" "sorted reqs"
  shows "int (length (filter (\<lambda>t. a \<le> t \<and> t \<le> a + w) (granted_times m w reqs newRecoverQuota))) \<le> m"
proof (cases reqs)
  case Nil
  then show ?thesis using assms(1) by simp
next
  case (Cons t ts)
  have "history_ok m w t [] newRecoverQuota" by (simp add: history_ok_def newRecoverQuota_def)
  moreover have "sorted (t # reqs)" using assms(3) Cons by simp
  ultimately obtain t1 r' where "history_ok m w t1 ([] @ granted_times m w reqs newRecoverQuota) r'"
    using history_ok_granted assms(1,2) by blast
  then show ?thesis using window_count [OF _ assms(1), of "granted_times m w reqs newRecoverQuota" w a]
    by (simp add: history_ok_def)
qed

theorem timeRecoverQuota_rate_limit_witness:
  "int (length (filter (\<lambda>t. 0 \<le> t \<and> t \<le> 0 + 600) (granted_times 2 600 [0, 10, 20, 605, 700] newRecoverQuota))) \<le> 2 \<and>
   granted_times 2 600 [0, 10, 20, 605, 700] newRecoverQuota = [0, 10, 605, 700]"
  using timeRecoverQuota_rate_limit [of 2 600 "[0, 10, 20, 605, 700]" 0]
  by (simp add: timeRecoverQuota_require_def newRecoverQuota_def)

text \<open>
  C37. Recoveries of a gang: after any sequence of requests and returns, at most \<^verbatim>\<open>maxFailedCount\<close> replicas
  hold a slot.
\<close>

theorem parallelRecoverQuota_bounded:
  assumes "0 \<le> m"
  shows "int (card (recovering (parallel_run m ops newParallelRecoverQuota))) \<le> m"
  using pq.pool_run_bound [of newParallelRecoverQuota m ops] assms
  by (simp add: parallel_ok_def recovering_def newParallelRecoverQuota_def parallel_run_def)

theorem parallelRecoverQuota_bounded_witness:
  "int (card (recovering (parallel_run 1 [Inl ''r1'', Inl ''r2'', Inr ''r1'', Inl ''r2''] newParallelRecoverQuota))) \<le> 1 \<and>
   parallel_run 1 [Inl ''r1'', Inl ''r2'', Inr ''r1'', Inl ''r2''] newParallelRecoverQuota
     = \<lparr>parallelRecovers = [(''r2'', True)]\<rparr>"
proof (rule conjI)
  show "int (card (recovering (parallel_run 1 [Inl ''r1'', Inl ''r2'', Inr ''r1'', Inl ''r2''] newParallelRecoverQuota))) \<le> 1"
    by (rule parallelRecoverQuota_bounded) simp
qed code_simp

text \<open>
  A quota of one key is never charged for another: requesting or giving back under a key leaves the
  quotas of all other keys as they were.
\<close>

theorem recoverQuotas_independent:
  "key \<noteq> key' \<Longrightarrow>
     map_of (quotas (fst (require_quota now key m w r))) key' = map_of (quotas r) key' \<and>
     map_of (parallelQuotas (fst (requireParallel key x m r))) key' = map_of (parallelQuotas r) key' \<and>
     map_of (parallelQuotas (fst (givebackParallel key x r))) key' = map_of (parallelQuotas r) key'"
  by (auto simp: require_quota_def requireParallel_def givebackParallel_def getQuota_def getParallelQuota_def
      update_conv Let_def split: prod.split option.split)

theorem recoverQuotas_independent_witness:
  "map_of (quotas (fst (require_quota 0 ''a'' (Some 1) (Some 600)
      \<lparr>quotas = [(''b'', \<lparr>recovers = [5]\<rparr>)], parallelQuotas = [], workerCache = ()\<rparr>))) ''b'' = Some \<lparr>recovers = [5]\<rparr>"
  using recoverQuotas_independent [of "''a''" "''b''" 0 "Some 1" "Some 600"
      "\<lparr>quotas = [(''b'', \<lparr>recovers = [5]\<rparr>)], parallelQuotas = [], workerCache = ()\<rparr>"]
  by simp

end
