(* ===== verification/WorkerAdjuster.thy ===== *)
theory WorkerAdjuster
  imports WorkerPasses RecoverQuota
begin

text \<open>
  \<^verbatim>\<open>controller/worker/worker_adjuster.go\<close> and \<^verbatim>\<open>scheduler.go\<close>: the two workers of a replica. One is current, the other may be
  its backup; the adjuster keeps their plans the same, makes a backup for a bad worker, swaps the two and releases the one that is
  not needed. The scheduler adjusts first and then runs the state machine on its worker.
\<close>

subsection \<open>State\<close>

text \<open>The adjuster's worker, its pair and pod, the global recovery quotas, and the keys that were enqueued with their delay in
  seconds. In the code \<^verbatim>\<open>current\<close> and \<^verbatim>\<open>backup\<close> point to the worker and the pair, in either order.\<close>

record 'c adjuster =
  ad_worker :: WorkerNode
  ad_pair :: "WorkerNode option"
  ad_pod :: "Pod option"
  ad_quotas :: "'c recoverQuotas"
  ad_queue :: "(string \<times> int) list"

subsection \<open>Comparing and synchronising\<close>

definition isWorkerRowCompleteSame :: "WorkerNode \<Rightarrow> WorkerNode \<Rightarrow> bool" where
  "isWorkerRowCompleteSame current backup =
     (case (RowComplete (Plan current), RowComplete (Plan backup)) of
        (None, None) \<Rightarrow> True
      | (Some x, Some y) \<Rightarrow> x = y
      | _ \<Rightarrow> False)"

definition isWorkersSame :: "WorkerNode \<Rightarrow> WorkerNode \<Rightarrow> bool" where
  "isWorkersSame current backup \<longleftrightarrow>
     Spec_Version (Spec backup) = Spec_Version (Spec current) \<and>
     Spec_ResVersion (Spec backup) = Spec_ResVersion (Spec current) \<and>
     UserDefVersion (Plan backup) = UserDefVersion (Plan current) \<and>
     CustomInfo (Plan backup) = CustomInfo (Plan current) \<and>
     CompressedCustomInfo (Plan backup) = CompressedCustomInfo (Plan current) \<and>
     isWorkerRowCompleteSame backup current \<and>
     IsWorkerDependencyReady backup = IsWorkerDependencyReady current \<and>
     Spec_WorkerMode (Spec backup) = Spec_WorkerMode (Spec current) \<and>
     GetQuotaID current = GetQuotaID backup \<and>
     GetGangPlan current = GetGangPlan backup \<and>
     GetGangInfo current = GetGangInfo backup"

text \<open>The labels that one worker takes over from the other.\<close>

definition shared_labels :: "strmap \<Rightarrow> (string, string) mapping" where
  "shared_labels lbls = Mapping.filter (\<lambda>k _. k \<noteq> WorkerRoleKey \<and> k \<noteq> DefaultWorkernodeUniqueLabelKey) (scontents lbls)"

definition sync_old :: "worker_env \<Rightarrow> WorkerNode \<Rightarrow> WorkerNode \<Rightarrow> worker_error + WorkerNode" where
  "sync_old e new old =
     (let old = set_spec (\<lambda>s. s\<lparr>Spec_ResVersion := Spec_ResVersion (Spec new), Spec_Version := Spec_Version (Spec new),
            Spec_VersionPlan := Plan new, Spec_WorkerMode := Spec_WorkerMode (Spec new), DependencyReady := DependencyReady (Spec new)\<rparr>) old;
          old = SetQuotaID e (GetQuotaID new) old;
          old = SetGangInfo (GetGangInfo new) old;
          old = (if IsGangMainPart (Template (Plan new)) then SetGangPlan (GetGangPlan new) old
                 else old\<lparr>Annotations := sdel AnnoGangPlan (Annotations old)\<rparr>)
      in case Labels old of
           None \<Rightarrow> if Mapping.is_empty (shared_labels (Labels new)) then Inr old else Inl NilMapWrite
         | Some l \<Rightarrow> Inr (old\<lparr>Labels := Some (smerge (shared_labels (Labels new)) l)\<rparr>))"

definition syncWorkers :: "worker_env \<Rightarrow> WorkerNode \<Rightarrow> WorkerNode \<Rightarrow> worker_error + WorkerNode \<times> WorkerNode" where
  "syncWorkers e current backup =
     (if OwnerGeneration (Spec current) \<ge> OwnerGeneration (Spec backup)
      then map_sum id (Pair current) (sync_old e current backup)
      else map_sum id (\<lambda>old. (old, backup)) (sync_old e backup current))"

definition syncBackupState :: "worker_env \<Rightarrow> WorkerNode \<Rightarrow> WorkerNode option \<Rightarrow> WorkerNode" where
  "syncBackupState e current backup =
     (case backup of
        None \<Rightarrow> RemoveEvictFailedMsg current
      | Some b \<Rightarrow>
          if IsWorkerToRelease b \<or> IsWorkerComplete e current then RemoveEvictFailedMsg current
          else SetEvictFailedMsg (GetWorkerStatus e b) current)"

subsection \<open>Decisions\<close>

definition couldSwapWorkers :: "worker_env \<Rightarrow> WorkerNode \<Rightarrow> WorkerNode \<Rightarrow> bool" where
  "couldSwapWorkers e current backup \<longleftrightarrow>
     RecoverStrategy (Plan current) \<noteq> DirectReleasedRecoverStrategy \<and>
     (IsWorkerComplete e backup \<or>
      (IsWorkerIrrecoverable current \<and> IsWorkerHealthInfoReady backup \<and> IsWorkerServiceOffline backup)) \<and>
     \<not> IsWorkerComplete e current \<and> (isWorkersSame current backup \<or> IsWorkerIrrecoverable current)"

definition defalutDelayDeleteBackupSeconds :: int where
  "defalutDelayDeleteBackupSeconds = 30"

text \<open>The delay before a backup is released.\<close>

definition backup_delay :: "WorkerNode \<Rightarrow> int" where
  "backup_delay backup =
     (let d = DelayDeleteBackupSeconds (Plan backup);
          d = (if BadReason (Status backup) \<noteq> BadReasonDead \<and> d \<noteq> 0 then defalutDelayDeleteBackupSeconds else d);
          d = (if IsWorkerServiceMatch backup \<and> d = 0 then defalutDelayDeleteBackupSeconds else d)
      in if IsWorkerUnAssigned backup then 0 else d)"

definition shouldReleaseBackupNow :: "worker_env \<Rightarrow> WorkerNode \<Rightarrow> WorkerNode \<times> int \<times> bool" where
  "shouldReleaseBackupNow e backup =
     (let d = backup_delay backup in
      if d \<le> 0 then (backup, 0, True)
      else
        let backup = set_status (\<lambda>s. if LastDeleteBackupTime s = 0 then s\<lparr>LastDeleteBackupTime := Now e\<rparr> else s) backup in
        if Now e - LastDeleteBackupTime (Status backup) \<ge> d then (backup, 0, True)
        else (backup, d - (Now e - LastDeleteBackupTime (Status backup)) + 10, False))"

definition isPodStartedWithError :: "worker_env \<Rightarrow> WorkerNode \<Rightarrow> bool" where
  "isPodStartedWithError e w \<longleftrightarrow>
     IsWorkerNotStarted w \<and> IP (Status w) = '''' \<and> Now e - UnixTime (CreationTimestamp w) < 1200"

definition recoverWithoutCreatebackup :: "worker_env \<Rightarrow> WorkerNode \<Rightarrow> Pod option \<Rightarrow> bool" where
  "recoverWithoutCreatebackup e current pod \<longleftrightarrow>
     RecoverStrategy (Plan current) = DirectReleasedRecoverStrategy \<or>
     RecoverStrategy (Plan current) = RebuildDeadStrategy \<or>
     IsWorkerUnAssigned current \<or> IsWorkerIrrecoverable current \<or> isPodStartedWithError e current \<or>
     (UpdatePodVersion3WithRelease e \<and> IsWorkerVersionMisMatch current \<and>
      (case pod of None \<Rightarrow> False | Some p \<Rightarrow> GetPodVersion (Labels current) \<noteq> GetPodVersion (pod_Labels p)))"

definition shouldRecover :: "worker_env \<Rightarrow> WorkerNode \<Rightarrow> WorkerNode option \<Rightarrow> string \<Rightarrow> bool" where
  "shouldRecover e current backup targetVersion \<longleftrightarrow>
     backup = None \<and> \<not> IsWorkerToRelease current \<and>
     (case RecoverStrategy (Plan current) of
        NotRecoverStrategy \<Rightarrow> False
      | RebuildDeadStrategy \<Rightarrow> IsWorkerDead current
      | _ \<Rightarrow> GetWorkerBadState e current targetVersion \<noteq> BadReasonNone)"

subsection \<open>Making a backup\<close>

definition AddUniqueLabelHashKey :: "worker_env \<Rightarrow> string \<Rightarrow> string \<Rightarrow> strmap \<Rightarrow> strmap" where
  "AddUniqueLabelHashKey e key value lbls =
     (case lbls of None \<Rightarrow> None | Some _ \<Rightarrow> AddLabel e lbls key (ResourceNameHash e value))"

definition AddSelectorHashKey :: "worker_env \<Rightarrow> string \<Rightarrow> string \<Rightarrow> strmap \<Rightarrow> strmap" where
  "AddSelectorHashKey e key value sel = (if value = '''' then sel else AddLabelToSelector e sel key (ResourceNameHash e value))"

definition AddWorkerSelectorHashKey :: "worker_env \<Rightarrow> string \<Rightarrow> strmap \<Rightarrow> strmap" where
  "AddWorkerSelectorHashKey e = AddSelectorHashKey e DefaultWorkernodeUniqueLabelKey"

definition AddWorkerUniqueLabelHashKey :: "worker_env \<Rightarrow> string \<Rightarrow> strmap \<Rightarrow> strmap" where
  "AddWorkerUniqueLabelHashKey e = AddUniqueLabelHashKey e DefaultWorkernodeUniqueLabelKey"

definition createBackup :: "worker_env \<Rightarrow> WorkerNode \<Rightarrow> WorkerNode option \<Rightarrow> Pod option \<Rightarrow> worker_error + WorkerNode" where
  "createBackup e current backup pod =
     (case backup of
        Some b \<Rightarrow> Inr b
      | None \<Rightarrow>
          (case AddWorkerUniqueLabelHashKey e (getPairWorkerName (Name current)) (Labels current) of
             None \<Rightarrow> Inl NilMapWrite
           | lbls \<Rightarrow>
               let workerName = getPairWorkerName (Name current);
                   selector = (case Selector (Spec current) of None \<Rightarrow> None | Some s \<Rightarrow> s);
                   w = \<lparr>Name = workerName, Namespace = Namespace current, UID = '''', ResourceVersion = '''',
                     Labels = sdel LabelKeyHippoPreference (sput WorkerRoleKey BackupWorkerKey lbls), Annotations = Annotations current,
                     CreationTimestamp = None, DeletionTimestamp = None, OwnerReferences = OwnerReferences current,
                     Spec = (Spec current)\<lparr>Selector := Some (AddWorkerSelectorHashKey e workerName selector), Spec_Reclaim := False\<rparr>,
                     Status = empty_status\<rparr>;
                   w = SetWorkerBackup w;
                   w = (case pod of None \<Rightarrow> w
                        | Some p \<Rightarrow> set_spec (\<lambda>s. s\<lparr>BackupOfPod := \<lparr>pod_ref_Name = pod_Name p, pod_ref_Uid = pod_UID p\<rparr>\<rparr>) w)
               in Inr (FixNewCreateLazyV3PodVersion e w)))"

definition giveBackRecoverQuota :: "WorkerNode \<Rightarrow> 'c recoverQuotas \<Rightarrow> 'c recoverQuotas" where
  "giveBackRecoverQuota w qs =
     (if GetGangID w \<noteq> '''' then fst (givebackParallel (sget (Labels w) DefaultRollingsetUniqueLabelKey) (GetReplicaID w) qs) else qs)"

definition defaultMaxFailedCount :: int32 where
  "defaultMaxFailedCount = 5"

text \<open>The quota that a worker's plan configures, with the defaults.\<close>

definition recover_quota_of :: "worker_env \<Rightarrow> WorkerNode \<Rightarrow> BrokenRecoverQuota" where
  "recover_quota_of e w =
     (let dflt = \<lparr>MaxFailedCount = Some (DefaultMaxFailedCount e), TimeWindow = Some 600\<rparr> in
      case BrokenRecoverQuotaConfig (Plan w) of
        None \<Rightarrow> dflt
      | Some q \<Rightarrow> (case MaxFailedCount q of None \<Rightarrow> dflt | Some n \<Rightarrow> if n = defaultMaxFailedCount then dflt else q))"

definition hasRecoverQuota :: "worker_env \<Rightarrow> WorkerNode \<Rightarrow> 'c recoverQuotas \<Rightarrow> 'c recoverQuotas \<times> bool" where
  "hasRecoverQuota e w qs =
     (if IsWorkerDead w \<or> (GetGangID w \<noteq> '''' \<and> IsWorkerAssigned w) then
        let quota = recover_quota_of e w;
            rsKey = sget (Labels w) DefaultRollingsetUniqueLabelKey;
            rsKey = (if rsKey = '''' then Name w else rsKey)
        in if GetGangID w \<noteq> '''' then requireParallel rsKey (GetReplicaID w) (MaxFailedCount quota) qs
           else require_quota (Now e) rsKey (MaxFailedCount quota) (TimeWindow quota) qs
      else (qs, True))"

subsection \<open>Adjusting\<close>

abbreviation worker_key :: "WorkerNode \<Rightarrow> string" where
  "worker_key w \<equiv> Namespace w @ ''/'' @ Name w"

text \<open>The part for an existing backup.\<close>

definition adjust_backup ::
  "worker_env \<Rightarrow> string \<Rightarrow> BadReasonType \<Rightarrow> WorkerNode \<Rightarrow> WorkerNode \<Rightarrow> WorkerNode \<times> WorkerNode \<times> (string \<times> int) list" where
  "adjust_backup e targetVersion currentBadReason current backup =
     (let backupBadReason = GetWorkerBadState e backup targetVersion;
          backup = SetBadReason backupBadReason backup;
          (current, backup) = (if couldSwapWorkers e current backup then SwapAndReleaseBackup e current backup else (current, backup))
      in if backupBadReason \<noteq> BadReasonNone \<or> IsWorkerComplete e current then
           let (backup, timeout, releaseNow) = shouldReleaseBackupNow e backup;
               backup = (if releaseNow then ReleaseWorker e True backup else backup);
               current = (if currentBadReason = BadReasonNone
                          then current\<lparr>Labels := sdel LabelKeyHippoPreference (Labels current)\<rparr> else current)
           in (current, backup, [(worker_key current, timeout)])
         else (current, set_status (\<lambda>s. s\<lparr>LastDeleteBackupTime := 0\<rparr>) backup, []))"

text \<open>The part that recovers a bad worker: the workers, the quotas and the queue.\<close>

definition adjust_recover ::
  "worker_env \<Rightarrow> string \<Rightarrow> Pod option \<Rightarrow> WorkerNode \<Rightarrow> WorkerNode option \<Rightarrow> 'c recoverQuotas \<Rightarrow>
     worker_error + WorkerNode \<times> WorkerNode option \<times> 'c recoverQuotas \<times> (string \<times> int) list" where
  "adjust_recover e targetVersion pod current backup qs =
     (if \<not> shouldRecover e current backup targetVersion then Inr (current, backup, qs, [])
      else
        let (qs, ok) = hasRecoverQuota e current qs in
        if \<not> ok then Inr (current, backup, qs, [(worker_key current, 90)])
        else if recoverWithoutCreatebackup e current pod then
          if GetGangID current \<noteq> '''' then
            (case createBackup e current backup pod of
               Inl err \<Rightarrow> Inl err
             | Inr b \<Rightarrow>
                 let (current, b) = SwapAndReleaseBackup e current b in
                 (case Annotations b of
                    None \<Rightarrow> Inl NilMapWrite
                  | annos \<Rightarrow> Inr (current, Some (b\<lparr>Annotations := sput AnnoBecomeCurrentTime (format_RFC3339 e (Now e)) annos\<rparr>), qs, [])))
          else Inr (ReleaseWorker e True current, backup, qs, [])
        else
          (case createBackup e current backup pod of
             Inl err \<Rightarrow> Inl err
           | Inr b \<Rightarrow> Inr (current, Some b, qs, [])))"

text \<open>The version of the rolling set that owns the worker, from the lister.\<close>

definition target_version :: "(string \<Rightarrow> string \<Rightarrow> string option) \<Rightarrow> WorkerNode \<Rightarrow> string" where
  "target_version rs_version w =
     (case OwnerReferences w of
        [(kind, name)] \<Rightarrow>
          if kind = ''RollingSet'' then (case rs_version (Namespace w) name of None \<Rightarrow> '''' | Some v \<Rightarrow> v) else ''''
      | _ \<Rightarrow> '''')"

text \<open>\<^verbatim>\<open>a.worker\<close> is the current worker (\<open>own\<close>) or its backup.\<close>

definition own_worker :: "bool \<Rightarrow> WorkerNode \<Rightarrow> WorkerNode option \<Rightarrow> WorkerNode" where
  "own_worker own current backup = (if own then current else case backup of None \<Rightarrow> current | Some b \<Rightarrow> b)"

text \<open>The message about the backup, and the release of both workers.\<close>

definition adjust_marks ::
  "worker_env \<Rightarrow> bool \<Rightarrow> bool \<Rightarrow> WorkerNode \<Rightarrow> WorkerNode option \<Rightarrow> 'c recoverQuotas \<Rightarrow> WorkerNode \<times> WorkerNode option \<times> 'c recoverQuotas" where
  "adjust_marks e own toRelease current backup qs =
     (let current = syncBackupState e current backup in
      if toRelease
      then (SetWorkerToRelease current, map_option SetWorkerToRelease backup, giveBackRecoverQuota (own_worker own current backup) qs)
      else (current, backup, qs))"

text \<open>The bad reasons, the backup, and the mark against the node of a bad worker.\<close>

definition adjust_states ::
  "worker_env \<Rightarrow> string \<Rightarrow> WorkerNode \<Rightarrow> WorkerNode option \<Rightarrow> WorkerNode \<times> WorkerNode option \<times> (string \<times> int) list" where
  "adjust_states e targetVersion current backup =
     (let currentBadReason = GetWorkerBadState e current targetVersion;
          current = SetBadReason currentBadReason current;
          (current, backup, queue) =
            (case backup of
               None \<Rightarrow> (current, None, [])
             | Some b \<Rightarrow> (case adjust_backup e targetVersion currentBadReason current b of (c, b, q) \<Rightarrow> (c, Some b, q)))
      in (if currentBadReason \<noteq> BadReasonNone then SetWorkerProhibit e True current else current, backup, queue))"

text \<open>The body of \<^verbatim>\<open>adjust\<close> after the roles are known. The flag of the result is \<^verbatim>\<open>synced\<close>.\<close>

definition adjust_body ::
  "worker_env \<Rightarrow> (string \<Rightarrow> string \<Rightarrow> string option) \<Rightarrow> Pod option \<Rightarrow> bool \<Rightarrow> bool \<Rightarrow> WorkerNode \<Rightarrow> WorkerNode option \<Rightarrow> 'c recoverQuotas \<Rightarrow>
     worker_error + (WorkerNode \<times> WorkerNode option \<times> 'c recoverQuotas \<times> (string \<times> int) list) \<times> bool" where
  "adjust_body e rs_version pod own toRelease current backup qs =
     (let qs = (if IsWorkerComplete e current then giveBackRecoverQuota (own_worker own current backup) qs else qs)
      in case (case backup of None \<Rightarrow> None | Some b \<Rightarrow> if isWorkersSame current b then None else Some b) of
           Some b \<Rightarrow> map_sum id (\<lambda>(current, b). ((current, Some b, qs, []), True)) (syncWorkers e current b)
         | None \<Rightarrow>
             let (current, backup, qs) = adjust_marks e own toRelease current backup qs;
                 targetVersion = target_version rs_version (own_worker own current backup);
                 (current, backup, q1) = adjust_states e targetVersion current backup
             in map_sum id (\<lambda>(current, backup, qs, q2). ((current, backup, qs, q1 @ q2), False))
                  (adjust_recover e targetVersion pod current backup qs))"

definition adjust ::
  "worker_env \<Rightarrow> (string \<Rightarrow> string \<Rightarrow> string option) \<Rightarrow> 'c adjuster \<Rightarrow> worker_error + 'c adjuster \<times> bool" where
  "adjust e rs_version a =
     (case GetCurrentWorkerNodeV2 e False [Some (ad_worker a), ad_pair a] of
        Inl err \<Rightarrow> Inl err
      | Inr (_, c, _, toRelease, current, backup) \<Rightarrow>
          (case current of
             None \<Rightarrow> Inl NilDereference
           | Some current \<Rightarrow>
               map_sum id (\<lambda>((current, backup, qs, queue), sync).
                   (a\<lparr>ad_worker := (if c = 0 then current else case backup of None \<Rightarrow> ad_worker a | Some b \<Rightarrow> b),
                      ad_pair := (if c = 0 then backup else Some current), ad_quotas := qs, ad_queue := ad_queue a @ queue\<rparr>, sync))
                 (adjust_body e rs_version (ad_pod a) (c = 0) toRelease current backup (ad_quotas a))))"

subsection \<open>Scheduling\<close>

text \<open>\<^verbatim>\<open>newDefaultWorkerScheduler\<close> and \<^verbatim>\<open>schedule\<close>. The allocator is built from the worker as it is before the adjustment, and
  works on the adjusted one. The result has the workers and the pod, the allocator and \<^verbatim>\<open>synced\<close>; the outer \<open>None\<close> is a pass that
  does not return.\<close>

definition schedule ::
  "worker_env \<Rightarrow> cluster \<Rightarrow> (WorkerNode \<Rightarrow> Pod option \<Rightarrow> (Pod \<times> string) option) \<Rightarrow> (string \<Rightarrow> string \<Rightarrow> string option) \<Rightarrow> 'c adjuster \<Rightarrow>
     (worker_error + 'c adjuster \<times> podAllocator \<times> bool) option" where
  "schedule e cl targets rs_version a =
     (case createAllocator e cl targets (ad_worker a) (ad_pod a) of
        Inl err \<Rightarrow> Some (Inl err)
      | Inr (alloc, worker) \<Rightarrow>
          (case adjust e rs_version
                (a\<lparr>ad_worker := set_status (\<lambda>s. s\<lparr>NotScheduleSeconds := getNotScheduleTime e (ad_pod a)\<rparr>) worker\<rparr>) of
             Inl err \<Rightarrow> Some (Inl err)
           | Inr (a, sync) \<Rightarrow>
               if sync then Some (Inr (a\<lparr>ad_pod := None\<rparr>, alloc, True))
               else map_option (\<lambda>(m, ok). Inr
                   (a\<lparr>ad_worker := set_status (\<lambda>s. s\<lparr>Score := snd (ScoreOfWorker e (mw m))\<rparr>) (fst (ScoreOfWorker e (mw m))), ad_pod := mpod m\<rparr>,
                    mal m, False))
                 (process e (pod_allocator e cl) \<lparr>mw = ad_worker a, mal = alloc, mpod = ad_pod a, mlog = []\<rparr>)))"

end
