(* ===== verification/RollingArgs.thy ===== *)
theory RollingArgs
  imports RollingStatus WorkerAdjuster
begin

text \<open>
  The first half of \<^verbatim>\<open>controller/rollingset/scheduler.go\<close>, with \<^verbatim>\<open>NewWorker\<close> of \<^verbatim>\<open>controller/util/obj.go\<close> and the metadata helpers of
  \<^verbatim>\<open>controller/rollingset/util.go\<close>: the arguments of one pass of the rolling set scheduler. The replicas are objects of a heap, shared by the
  address lists of the arguments. \<^verbatim>\<open>DeepCopy\<close> makes a new object. Logs, metrics and events are left out.
\<close>

subsection \<open>Errors as values\<close>

definition sbind :: "'e + 'a \<Rightarrow> ('a \<Rightarrow> 'e + 'b) \<Rightarrow> 'e + 'b" where
  "sbind m f = (case m of Inl e \<Rightarrow> Inl e | Inr x \<Rightarrow> f x)"

lemma sbind_simps [simp]: "sbind (Inl e) f = Inl e" "sbind (Inr x) f = f x"
  by (simp_all add: sbind_def)

lemma sbind_Inr: "sbind m f = Inr y \<longleftrightarrow> (\<exists>x. m = Inr x \<and> f x = Inr y)"
  by (cases m) auto

text \<open>A loop that stops at the first error.\<close>

fun sfold :: "('x \<Rightarrow> 's \<Rightarrow> 'e + 's) \<Rightarrow> 'x list \<Rightarrow> 's \<Rightarrow> 'e + 's" where
  "sfold f [] s = Inr s"
| "sfold f (x # xs) s = sbind (f x s) (sfold f xs)"

lemma sfold_inv:
  assumes "\<And>x s s'. I s \<Longrightarrow> f x s = Inr s' \<Longrightarrow> I s'"
  shows "I s \<Longrightarrow> sfold f xs s = Inr s' \<Longrightarrow> I s'"
  by (induction xs arbitrary: s) (auto simp: sbind_Inr dest: assms)

abbreviation nil_panic :: "rs_error + 'a" where "nil_panic \<equiv> Inl (WorkerError worker_error.NilDereference)"
abbreviation map_panic :: "rs_error + 'a" where "map_panic \<equiv> Inl (WorkerError NilMapWrite)"

definition worker_err :: "worker_error + 'a \<Rightarrow> rs_error + 'a" where
  "worker_err m = (case m of Inl e \<Rightarrow> Inl (WorkerError e) | Inr x \<Rightarrow> Inr x)"

definition roll_err :: "roll_error + 'a \<Rightarrow> rs_error + 'a" where
  "roll_err m = (case m of Inl e \<Rightarrow> Inl (RollError e) | Inr x \<Rightarrow> Inr x)"

lemma err_simps [simp]: "worker_err (Inr x) = Inr x" "roll_err (Inr x) = Inr x" "worker_err (Inl e) = Inl (WorkerError e)"
  "roll_err (Inl e') = Inl (RollError e')" "worker_err m = Inr y \<longleftrightarrow> m = Inr y" "roll_err n = Inr z \<longleftrightarrow> n = Inr z"
  by (auto simp: worker_err_def roll_err_def split: sum.splits)

subsection \<open>The environment\<close>

text \<open>
  The feature gates and flags; the configured non-versioned keys (\<open>None\<close> when they cannot be read); JSON texts and parsers; the source of the
  random names (by the number of the new object and the part of a gang); the clock's hour; the labels a controller writes; and, over the
  resources of containers, which are quantities of Kubernetes, the two leaf functions \<^verbatim>\<open>CopyPodResource\<close> (with its success) and
  \<^verbatim>\<open>couldRollingByPass\<close>.
\<close>

record rolling_env =
  renv :: replica_env
  algo :: roll_env
  ValidateRsVersion :: bool
  OpenRollingSpotPod :: bool
  DisableLabelInheritance :: bool
  ConfNonVersionedKeys :: "string list option"
  unmarshal_predict :: "string \<Rightarrow> (int, int) gomap option"
  unmarshal_hours :: "string \<Rightarrow> int list"
  json_hours :: "int list \<Rightarrow> string"
  json_BroadcastPlan :: "BroadcastPlan \<Rightarrow> string"
  json_WorkerNodeSpec :: "WorkerNodeSpec \<Rightarrow> string"
  json_Labels :: "strmap \<Rightarrow> string"
  json_RollingSetStatus :: "RollingSetStatus \<Rightarrow> string"
  obj_name :: "nat \<Rightarrow> string \<Rightarrow> string \<Rightarrow> string \<Rightarrow> string \<Rightarrow> string"
  Hour :: int
  writeLabels :: strmap
  defaultResourceMatchTimeout :: int
  defaultProcessMatchTimeout :: int
  defaultWarmupSeconds :: int32
  CopyPodResource :: "HippoPodTemplate \<Rightarrow> HippoPodTemplate \<Rightarrow> HippoPodTemplate \<times> bool"
  couldRollingByPass :: "HippoPodTemplate \<Rightarrow> HippoPodTemplate \<Rightarrow> bool"
  cpu_of_template :: "HippoPodTemplate option \<Rightarrow> int32"
  selector_text :: "strmap option \<Rightarrow> string option"

abbreviation we :: "rolling_env \<Rightarrow> worker_env" where "we e \<equiv> wenv (renv e)"

abbreviation "LabelKeyGroupName \<equiv> ''app.hippo.io/group-name''"
abbreviation "DefaultSubRSLabelKey \<equiv> ''app.c2.io/subrs-name''"
abbreviation "DefaultShortSubRSLabelKey \<equiv> ''app.c2.io/short-subrs-name''"
abbreviation "DefaultShardGroupUniqueLabelKey \<equiv> ''shardgroup''"
abbreviation "AnnotationC2Spread \<equiv> ''app.c2.io/spread''"
abbreviation "AnnotationC2SpotTarget \<equiv> ''app.c2.io/spot-target''"
abbreviation "AnnotationScalerResourcePool \<equiv> ''alibabacloud.com/scaler-resource-pool''"
abbreviation "ColdResourceUpdateTargetVersion \<equiv> ''app.c2.io/cold-resource-update-target-version''"
abbreviation "ColdUpdateStateColdToWarm \<equiv> ''cold_to_warm''"

subsection \<open>Metadata\<close>

definition MergeLabels :: "strmap \<Rightarrow> strmap \<Rightarrow> strmap" where
  "MergeLabels lbls lbls2 = Some (smerge (scontents lbls2) (scontents lbls))"

definition generalAnnotationTags :: "string list" where
  "generalAnnotationTags =
     [LabelKeyAppName, LabelKeyGroupName, LabelKeyRoleName, DefaultSubRSLabelKey, DefaultShortSubRSLabelKey, AnnotationC2Spread]"

definition copyGeneralAnnotations :: "strmap \<Rightarrow> strmap \<Rightarrow> rs_error + strmap" where
  "copyGeneralAnnotations src dst =
     sfold (\<lambda>tag dst. if \<not> shas src tag then Inr dst else if dst = None then map_panic else Inr (sput tag (sget src tag) dst))
       generalAnnotationTags dst"

definition compareGeneralAnnotations :: "strmap \<Rightarrow> strmap \<Rightarrow> bool" where
  "compareGeneralAnnotations src dst \<longleftrightarrow> (\<forall>tag \<in> set generalAnnotationTags. sget src tag = sget dst tag)"

definition lazyUpdatePodV3 :: "worker_env \<Rightarrow> strmap \<Rightarrow> WorkerNode \<Rightarrow> WorkerNode" where
  "lazyUpdatePodV3 e oldlabels w =
     (if IsLazyV3 w \<and> sget oldlabels LabelKeyPodVersion = PodVersion3 \<and> IsV25 w then SetPodVersion e PodVersion3 w else w)"

definition copyGeneralMetas :: "worker_env \<Rightarrow> strmap \<Rightarrow> strmap \<Rightarrow> WorkerNode \<Rightarrow> rs_error + WorkerNode" where
  "copyGeneralMetas e generalLabels generalAnnotations w =
     (let oldlabels = Labels w;
          w = lazyUpdatePodV3 e oldlabels (w\<lparr>Labels := CopyWorkerAndReplicaLabels generalLabels oldlabels\<rparr>)
      in sbind (copyGeneralAnnotations generalAnnotations (Annotations w)) (\<lambda>a. Inr (w\<lparr>Annotations := a\<rparr>)))"

definition isC2InternalMeta :: "string \<Rightarrow> bool" where
  "isC2InternalMeta key \<longleftrightarrow>
     (\<exists>prefix \<in> set [''serverless.io'', ''app.hippo.io'', ''app.c2.io''].
        HasPrefix key prefix \<and> key \<notin> set [''serverless.io/rollout-id'', ''serverless.io/rollout-batch-id'']) \<or>
     key = DefaultRollingsetUniqueLabelKey \<or> key = DefaultShardGroupUniqueLabelKey"

text \<open>The labels and annotations every replica of the set gets.\<close>

definition generateMetas :: "rolling_env \<Rightarrow> RollingSet \<Rightarrow> rs_error + strmap \<times> strmap" where
  "generateMetas e rs =
     (let tLabels = (case Template (rs_VersionPlan (rs_Spec rs)) of None \<Rightarrow> None | Some t \<Rightarrow> tmpl_Labels t);
          keep = (\<lambda>m. if DisableLabelInheritance e then map_option (Mapping.filter (\<lambda>k _. isC2InternalMeta k)) m else m)
      in sbind (copyGeneralAnnotations (rs_Annotations rs) (Some Mapping.empty)) (\<lambda>annos.
           Inr (MapCopy (writeLabels e) (keep (MergeLabels (rs_Labels rs) tLabels)), keep annos)))"

definition IsNonVersionedKeysMatch :: "HippoPodTemplate option \<Rightarrow> HippoPodTemplate option \<Rightarrow> string set \<Rightarrow> bool" where
  "IsNonVersionedKeysMatch src target keys =
     (case (src, target) of
        (Some s, Some t) \<Rightarrow> \<forall>k \<in> keys. sget (tmpl_Labels s) k = sget (tmpl_Labels t) k \<and> sget (tmpl_Annotations s) k = sget (tmpl_Annotations t) k
      | _ \<Rightarrow> False)"

text \<open>A key of one map is made the same as in the other.\<close>

definition sync_key :: "strmap \<Rightarrow> string \<Rightarrow> strmap \<Rightarrow> strmap" where
  "sync_key src key dst = (if shas src key then sput key (sget src key) dst else sdel key dst)"

definition syncNonVersionedMetas :: "RollingSet \<Rightarrow> string list \<Rightarrow> WorkerNode \<Rightarrow> WorkerNode" where
  "syncNonVersionedMetas rs keys w =
     (case (Template (rs_VersionPlan (rs_Spec rs)), Template (WorkerNode.Plan w)) of
        (Some s, Some t) \<Rightarrow>
          let t = t\<lparr>tmpl_Labels := fold (sync_key (tmpl_Labels s)) keys (Some (scontents (tmpl_Labels t))),
                    tmpl_Annotations := fold (sync_key (tmpl_Annotations s)) keys (Some (scontents (tmpl_Annotations t)))\<rparr>
          in set_spec (\<lambda>sp. sp\<lparr>Spec_VersionPlan := (Spec_VersionPlan sp)\<lparr>Template := Some t\<rparr>\<rparr>) w
      | _ \<Rightarrow> w)"

definition GetNonVersionedKeys :: "rolling_env \<Rightarrow> rs_error + string list" where
  "GetNonVersionedKeys e =
     (case ConfNonVersionedKeys e of
        None \<Rightarrow> Inl BadNonVersionedKeys
      | Some keys \<Rightarrow> Inr (remdups (keys @ [''serverless.io/app-name'', ''serverless.io/instance-group'', ''serverless.io/biz-platform'',
          ''serverless.io/app-stage'', ''serverless.io/app-detail-url''])))"

subsection \<open>New replicas\<close>

definition getOwner :: "RollingSet \<Rightarrow> string option \<Rightarrow> (string \<times> string) list" where
  "getOwner rs groupRollingSet =
     (if IsSubRollingSet rs then (case groupRollingSet of None \<Rightarrow> [] | Some n \<Rightarrow> [(''RollingSet'', n)]) else [(''RollingSet'', rs_Name rs)])"

definition CreateWorkerLabels :: "worker_env \<Rightarrow> strmap \<Rightarrow> string \<Rightarrow> string \<Rightarrow> strmap" where
  "CreateWorkerLabels e lbls replicaName workerName =
     sput WorkerRoleKey CurrentWorkerKey
       (AddWorkerUniqueLabelHashKey e workerName (AddUniqueLabelHashKey e DefaultReplicaUniqueLabelKey replicaName (CloneMap lbls)))"

definition SetGangPartName :: "replica_env \<Rightarrow> string \<Rightarrow> WorkerNode \<Rightarrow> WorkerNode" where
  "SetGangPartName e part w = setLabel (wenv e) LabelGangPartName (LabelValueHash e part True) (setAnnotation LabelGangPartName part w)"

text \<open>\<^verbatim>\<open>NewWorker\<close>: the selector that \<^verbatim>\<open>CreateWorkerSelector\<close> makes is thrown away, so the worker has that of the rolling set. A rolling set without
  a selector is dereferenced.\<close>

definition NewWorker ::
  "rolling_env \<Rightarrow> nat \<Rightarrow> string \<Rightarrow> string \<Rightarrow> string \<Rightarrow> RollingSet \<Rightarrow> (string \<times> string) list \<Rightarrow> strmap \<Rightarrow> strmap \<Rightarrow> rs_error + WorkerNode" where
  "NewWorker e i rsName gangPartName gangID rs owners lbls anno =
     (let gang = (if gangID \<noteq> '''' then gangID else obj_name e i gangPartName rsName (rs_ResourceVersion rs) (rs_Version (rs_Spec rs)));
          newReplicaName = (if gangPartName \<noteq> '''' then gang @ ''.'' @ gangPartName else gang);
          workerName = newReplicaName @ ''-a''
      in case rs_Selector (rs_Spec rs) of
           None \<Rightarrow> nil_panic
         | Some sel \<Rightarrow>
             let w = empty_worker\<lparr>Name := workerName, Namespace := rs_Namespace rs, OwnerReferences := owners,
                       Labels := CreateWorkerLabels (we e) lbls newReplicaName workerName, Annotations := CloneMap anno,
                       Spec := (Spec empty_worker)\<lparr>Spec_ResVersion := rs_ResVersion (rs_Spec rs), Selector := Some (CloneMap sel),
                         Spec_VersionPlan := empty_plan\<lparr>BrokenRecoverQuotaConfig := BrokenRecoverQuotaConfig (rs_VersionPlan (rs_Spec rs))\<rparr>\<rparr>\<rparr>;
                 w = (if gangPartName \<noteq> ''''
                      then (let w = SetGangPartName (renv e) gangPartName w
                            in w\<lparr>Labels := AddUniqueLabelHashKey (we e) DefaultGangUniqueLabelKey gang (Labels w)\<rparr>)
                      else w)
             in Inr (FixNewCreateLazyV3PodVersion (we e) w))"

definition isGangRolling :: "RollingSet \<Rightarrow> bool" where
  "isGangRolling rs \<longleftrightarrow> GangVersionPlan (rs_Spec rs) \<noteq> []"

text \<open>What a scheduler holds besides the rolling set: the name of the group rolling set and the general metadata.\<close>

record sched_ctx =
  groupRollingSet :: "string option"
  generalLabels :: strmap
  generalAnnotations :: strmap
  ctx_scheduleID :: string

definition createWorker :: "rolling_env \<Rightarrow> sched_ctx \<Rightarrow> nat \<Rightarrow> string \<Rightarrow> string \<Rightarrow> string \<Rightarrow> RollingSet \<Rightarrow> rs_error + WorkerNode" where
  "createWorker e c i rsName gangPartName gangID rs =
     NewWorker e i rsName gangPartName gangID rs (getOwner rs (groupRollingSet c)) (generalLabels c) (generalAnnotations c)"

fun create_parts :: "rolling_env \<Rightarrow> sched_ctx \<Rightarrow> nat \<Rightarrow> string \<Rightarrow> RollingSet \<Rightarrow> string list \<Rightarrow> string \<Rightarrow> rs_error + Replica list" where
  "create_parts e c i rsName rs [] gangID = Inr []"
| "create_parts e c i rsName rs (k # ks) gangID =
     sbind (createWorker e c i rsName k gangID rs) (\<lambda>w.
       sbind (create_parts e c i rsName rs ks (GetGangID w)) (\<lambda>parts. Inr (Replica w empty_worker None # parts)))"

definition createReplicaTemplate :: "rolling_env \<Rightarrow> sched_ctx \<Rightarrow> nat \<Rightarrow> RollingSet \<Rightarrow> rs_error + Replica" where
  "createReplicaTemplate e c i rs =
     (let rsName = (if IsSubRollingSet rs then sget (rs_Labels rs) DefaultRollingsetUniqueLabelKey else rs_Name rs)
      in if \<not> isGangRolling rs then sbind (createWorker e c i rsName '''' '''' rs) (\<lambda>w. Inr (Replica w empty_worker None))
         else sbind (create_parts e c i rsName rs (mkeys (GangVersionPlan (rs_Spec rs))) '''')
                (\<lambda>parts. Inr (Replica empty_worker empty_worker (Some parts))))"

subsection \<open>The arguments of a pass\<close>

text \<open>The addresses point to the replicas of the pass; the replicas that change their resources and those that get broadcast fields are copies
  which nothing else points to, so they are kept as values.\<close>

record rollingsetArgs =
  latestVersionPlan :: VersionPlanWithGangPlan
  replicaSet :: "addr list"
  resChangedReplicaSet :: "Replica list"
  versionPlanMap :: "(string, VersionPlanWithGangPlan option) gomap"
  supplementReplicaSet :: "addr list"
  supplements :: "string list"
  standByReplicas :: "addr list"
  activeReplicas :: "addr list"
  scaledParameters :: "ScaleParameters option"
  broadcastReplicaSet :: "Replica list"
  ra_LatestVersion :: string
  ra_Desired :: int32
  rollingUpdateArgs :: "(Replica, VersionPlanWithGangPlan) RollingUpdateArgs"
  inactiveStandbyNodes :: "addr list"
  predictInfo :: "(int, int) gomap"
  fixedCount :: int
  fixedReplicas :: "addr list"
  cyclicalReplicas :: "addr list"
  spotTarget :: int
  curSpotNames :: "string list"

definition checkParam :: "RollingSet \<Rightarrow> rs_error + unit" where
  "checkParam rs =
     (if GetReplicas rs < 0 then Inl IllegalReplicas
      else if (case sp_LatestVersionRatio (rs_SchedulePlan (rs_Spec rs)) of None \<Rightarrow> False | Some r \<Rightarrow> r < 0) then Inl IllegalLatestVersionRatio
      else Inr ())"

definition getVersionGeneration :: "string \<Rightarrow> int option" where
  "getVersionGeneration version = (case str_index (CHR ''-'') version of None \<Rightarrow> Some 0 | Some i \<Rightarrow> atoi (take i version))"

text \<open>\<^verbatim>\<open>validateRsVersion\<close>: the first loop ends the check at the first version without a generation.\<close>

fun validate_versions :: "string \<Rightarrow> int \<Rightarrow> string list \<Rightarrow> rs_error + bool" where
  "validate_versions tversion tgeneration [] = Inr True"
| "validate_versions tversion tgeneration (cversion # vs) =
     (case getVersionGeneration cversion of
        None \<Rightarrow> Inr False
      | Some cgeneration \<Rightarrow> if tgeneration < cgeneration then Inl (TargetVersionTooOld tversion cversion) else validate_versions tversion tgeneration vs)"

definition changed_in_group :: "RollingSet \<Rightarrow> Replica \<Rightarrow> bool" where
  "changed_in_group rs r \<longleftrightarrow>
     (let w = rp_worker r; spec = rs_Spec rs; gv = ShardGroupVersion (rs_VersionPlan spec) in
      Spec_Version (Spec w) \<noteq> rs_Version spec \<and> ShardGroupVersion (WorkerNode.Plan w) = gv \<and>
      (Signature (WorkerNode.Plan w) \<noteq> Signature (rs_VersionPlan spec) \<or> rs_InstanceID spec \<noteq> rst_InstanceID (rs_Status rs) \<or> IsRollingSetGracefully rs) \<and>
      gv \<noteq> '''' \<and> gv \<noteq> rs_Version spec)"

definition validateRsVersion :: "RollingSet \<Rightarrow> string list \<Rightarrow> Replica list \<Rightarrow> rs_error + unit" where
  "validateRsVersion rs versions replicas =
     (if rs_DeletionTimestamp rs \<noteq> None then Inr ()
      else
        let gv = ShardGroupVersion (rs_VersionPlan (rs_Spec rs));
            tversion = (if gv \<noteq> '''' then gv else rs_Version (rs_Spec rs))
        in case getVersionGeneration tversion of
             None \<Rightarrow> Inr ()
           | Some tgeneration \<Rightarrow>
               sbind (validate_versions tversion tgeneration versions) (\<lambda>complete.
                 if \<not> complete then Inr ()
                 else case filter (changed_in_group rs) replicas of
                        [] \<Rightarrow> Inr ()
                      | r # _ \<Rightarrow> Inl (VersionChangedInGroup (Spec_Version (Spec (rp_worker r))) (rs_Version (rs_Spec rs)) gv)))"

subsection \<open>Collecting the replicas\<close>

definition isStandbyCanActive :: "RollingSet \<Rightarrow> Replica \<Rightarrow> WorkerModeType \<Rightarrow> bool" where
  "isStandbyCanActive rs r workerMode \<longleftrightarrow>
     \<not> ((RollingSet_IsQuickOnline rs \<or> Spec_WorkerMode (Spec (rp_worker r)) = WorkerModeTypeInactive \<or>
          WorkerMode (Status (rp_worker r)) = WorkerModeTypeInactive) \<and>
        IsReplicaOnStandByResourcePool r \<and> \<not> IsStandbyWorkerMode workerMode)"

text \<open>The replicas that are not leaving, copied, and those of them whose resources change without a new version.\<close>

definition collectResourceChangeReplicas :: "RollingSet \<Rightarrow> Replica list \<Rightarrow> Replica list \<times> Replica list" where
  "collectResourceChangeReplicas rs replicas =
     (let staying = filter (\<lambda>r. \<not> (IsReplicaReleasing r \<or> IsReplicaReleased r)) replicas;
          res = rs_ResVersion (rs_Spec rs);
          named = (\<lambda>r. if Spec_Version (Spec (rp_worker r)) = '''' \<and> isGangRolling rs
                       then upd_worker (set_spec (\<lambda>s. s\<lparr>Spec_Version := rs_Version (rs_Spec rs)\<rparr>)) r else r)
      in (map named staying,
          filter (\<lambda>r. Spec_ResVersion (Spec (rp_worker r)) \<noteq> res \<and> rs_Version (rs_Spec rs) \<noteq> res) staying))"

definition set_score :: "worker_env \<Rightarrow> Replica \<Rightarrow> Replica" where
  "set_score e = upd_worker (\<lambda>w. let (w, score) = ScoreOfWorker e w in set_status (\<lambda>s. s\<lparr>Score := score\<rparr>) w)"

definition group_versions :: "RollingSet \<Rightarrow> Replica list \<Rightarrow> (string, string) gomap" where
  "group_versions rs replicas =
     (let gv = ShardGroupVersion (rs_VersionPlan (rs_Spec rs)) in
      fold (\<lambda>r m. let g = ShardGroupVersion (WorkerNode.Plan (rp_worker r)) in
               if g \<noteq> '''' \<and> g \<noteq> gv then mput g (Spec_Version (Spec (rp_worker r))) m else m)
        replicas (if gv \<noteq> '''' then [(gv, rs_Version (rs_Spec rs))] else []))"

text \<open>A restart of a set that is to roll smoothly: what may be unavailable becomes surge.\<close>

definition smooth_strategy :: "RollingSet \<Rightarrow> RollingSet" where
  "smooth_strategy rs =
     (let spec = rs_Spec rs; plan = rs_SchedulePlan spec; zero = Some (FromString ''0%'') in
      if IsRollingSetInRestarting rs \<and> RollingSetNeedGracefullyRestarting rs then
        (case ds_RollingUpdate (sp_Strategy plan) of
           None \<Rightarrow> rs
         | Some ru \<Rightarrow>
             rs\<lparr>rs_Spec := spec\<lparr>
               rs_SchedulePlan := plan\<lparr>sp_Strategy := (sp_Strategy plan)\<lparr>ds_RollingUpdate :=
                 Some (ru\<lparr>ru_MaxSurge := ru_MaxUnavailable ru, ru_MaxUnavailable := zero\<rparr>)\<rparr>\<rparr>,
               rs_ScaleSchedulePlan := map_option (\<lambda>p. p\<lparr>ssp_Strategy := (ssp_Strategy p)\<lparr>ds_RollingUpdate :=
                 map_option (\<lambda>u. u\<lparr>ru_MaxUnavailable := zero\<rparr>) (ds_RollingUpdate (ssp_Strategy p))\<rparr>\<rparr>) (rs_ScaleSchedulePlan spec)\<rparr>\<rparr>)
      else rs)"

definition isDisableReplaceEmptyReplica :: "RollingSet \<Rightarrow> bool" where
  "isDisableReplaceEmptyReplica rs \<longleftrightarrow> isGangRolling rs \<or> RollingSet_IsQuickOnline rs \<or> IsDaemonSet (rs_VersionPlan (rs_Spec rs))"

text \<open>\<^verbatim>\<open>newRollingUpdateArgs\<close> over the replicas at the addresses 0, 1, ... of the heap; the second component are the standbys that cannot become active.\<close>

definition newRollingUpdateArgs ::
  "rolling_env \<Rightarrow> sched_ctx \<Rightarrow> RollingSet \<Rightarrow> (string, string) gomap \<Rightarrow> Replica heap \<Rightarrow> addr list \<Rightarrow>
   rs_error + (Replica, VersionPlanWithGangPlan) RollingUpdateArgs \<times> addr list" where
  "newRollingUpdateArgs e c rs gmap h addrs =
     (let staying = filter (\<lambda>a. \<not> (IsReplicaReleasing (cells h a) \<or> IsReplicaReleased (cells h a))) addrs;
          standbys = filter (\<lambda>a. IsStandbyReplica (cells h a)) staying;
          can = (\<lambda>a. isStandbyCanActive rs (cells h a) WorkerModeTypeActive)
      in sbind (roll_err (GetSchedulePlan (algo e) rs)) (\<lambda>plan.
           case ds_RollingUpdate (sp_Strategy plan) of
             None \<Rightarrow> nil_panic
           | Some ru \<Rightarrow> Inr
               (\<lparr>ru_Nodes = filter (\<lambda>a. \<not> IsStandbyReplica (cells h a)) staying,
                 ru_CreateNode = Some (\<lambda>i. case createReplicaTemplate e c i rs of Inl _ \<Rightarrow> None | Inr r \<Rightarrow> Some r),
                 ru_Replicas = sp_Replicas plan, ru_LatestVersionRatio = sp_LatestVersionRatio plan,
                 ru_args_MaxUnavailable = ru_MaxUnavailable ru, ru_args_MaxSurge = ru_MaxSurge ru,
                 ru_LatestVersion = rs_Version (rs_Spec rs), ru_LatestVersionPlan = Some (GetVersionPlanWithGangPlanFromRS rs),
                 ru_RollingStrategy = sp_RollingStrategy plan, ru_Release = (rs_DeletionTimestamp rs \<noteq> None), ru_GroupVersionMap = gmap,
                 ru_VersionHoldMatrixPercent = sp_VersionHoldMatrixPercent plan, ru_PaddedLatestVersionRatio = sp_PaddedLatestVersionRatio plan,
                 ru_VersionDependencyMatrixPercent = sp_VersionDependencyMatrixPercent plan,
                 ru_LatestVersionCarryStrategy = sp_LatestVersionCarryStrategy plan, ru_ExtraNodes = filter can standbys,
                 ru_DisableReplaceEmpty = isDisableReplaceEmptyReplica rs\<rparr>,
                filter (\<lambda>a. \<not> can a) standbys)))"

text \<open>The heap of a pass, with the copies at the addresses 0, 1, ....\<close>

definition heap_of :: "Replica list \<Rightarrow> Replica heap" where
  "heap_of rs = \<lparr>cells = (\<lambda>a. if a < length rs then rs ! a else Replica empty_worker empty_worker None), fresh = length rs\<rparr>"

text \<open>\<^verbatim>\<open>initScheduleParams\<close>: the rolling set (its strategy and its status maps change), the arguments, the heap and the time after which the set is
  looked at again (0 for never).\<close>

definition initScheduleParams ::
  "rolling_env \<Rightarrow> sched_ctx \<Rightarrow> RollingSet \<Rightarrow> Replica list \<Rightarrow> rs_error + RollingSet \<times> rollingsetArgs \<times> Replica heap \<times> int" where
  "initScheduleParams e c rs given =
     (let rs = smooth_strategy rs;
          (replicas, resChanged) = collectResourceChangeReplicas rs given;
          replicas = go_sort ByScore_Less (map (set_score (we e)) replicas);
          h = heap_of replicas;
          addrs = [0..<length replicas];
          staying = filter (\<lambda>r. \<not> (IsReplicaReleasing r \<or> IsReplicaReleased r)) replicas;
          inWorking = filter (\<lambda>r. \<not> IsStandbyReplica r) staying;
          gmap = group_versions rs replicas;
          (timeout, vs) = GetGroupVersionStatusMap (we e) inWorking
      in sbind (if ValidateRsVersion e then validateRsVersion rs (mkeys vs) replicas else Inr ()) (\<lambda>_.
           let rs = rs\<lparr>rs_Status := (rs_Status rs)\<lparr>GroupVersionStatusMap := vs,
                      ResourceVersionStatusMap := getResourceVersionStatusMap (we e) (ResourceVersionStatusMap (rs_Status rs)) inWorking rs\<rparr>\<rparr>;
               name = GetLabelAnnoValue (rs_Labels rs) (rs_Annotations rs);
               releasing = (rs_DeletionTimestamp rs \<noteq> None)
           in sbind (roll_err (GetSchedulePlan (algo e) rs)) (\<lambda>plan.
                let params = NewShardScheduleParams (algo e) (Some (rollingset_shard (cpu_of_template e) rs)) plan releasing (ctx_scheduleID c)
                      (rs_Version (rs_Spec rs)) (sp_RollingStrategy (rs_SchedulePlan (rs_Spec rs))) gmap
                      [(''roleName'', name LabelKeyRoleName), (''groupName'', name LabelKeyGroupName), (''appName'', name LabelKeyAppName)]
                in sbind (newRollingUpdateArgs e c rs gmap h addrs) (\<lambda>(update, inactive).
                     Inr (rs,
                       \<lparr>latestVersionPlan = GetVersionPlanWithGangPlanFromRS rs, replicaSet = addrs, resChangedReplicaSet = resChanged,
                        versionPlanMap = [], supplementReplicaSet = [], supplements = [],
                        standByReplicas = filter (\<lambda>a. \<not> (IsReplicaReleasing (cells h a) \<or> IsReplicaReleased (cells h a)) \<and> IsStandbyReplica (cells h a)) addrs,
                        activeReplicas = [], scaledParameters = None, broadcastReplicaSet = [],
                        ra_LatestVersion = LatestVersion params, ra_Desired = Desired params, rollingUpdateArgs = update,
                        inactiveStandbyNodes = inactive, predictInfo = [], fixedCount = 0, fixedReplicas = [], cyclicalReplicas = [], spotTarget = 0, curSpotNames = []\<rparr>,
                       h, timeout)))))"

subsection \<open>Resources that change by themselves\<close>

text \<open>\<^verbatim>\<open>UpdateReplicaResource\<close>: \<open>None\<close> when it returns an error. A cold standby is made warm first, and gets its resources in a later pass.\<close>

definition copy_resource :: "rolling_env \<Rightarrow> RollingSet \<Rightarrow> strmap \<Rightarrow> HippoPodTemplate \<Rightarrow> HippoPodTemplate \<Rightarrow> WorkerNode \<Rightarrow> WorkerNode option" where
  "copy_resource e rs lbls target template w =
     (case CopyPodResource e template target of (template, ok) \<Rightarrow>
        if \<not> ok then None
        else
          let plan = rs_VersionPlan (rs_Spec rs); old = Labels w;
              lbls = CopyWorkerAndReplicaLabels lbls old
          in Some ((set_spec (\<lambda>s. s\<lparr>Spec_ResVersion := rs_ResVersion (rs_Spec rs),
               Spec_VersionPlan := (Spec_VersionPlan s)\<lparr>Template := Some template, MinReadySeconds := MinReadySeconds plan,
                 WarmupSeconds := WarmupSeconds plan, ResourceMatchTimeout := ResourceMatchTimeout plan,
                 ProcessMatchTimeout := ProcessMatchTimeout plan, WorkerReadyTimeout := WorkerReadyTimeout plan,
                 BrokenRecoverQuotaConfig := BrokenRecoverQuotaConfig plan, RecoverStrategy := RecoverStrategy plan,
                 DelayDeleteBackupSeconds := DelayDeleteBackupSeconds plan\<rparr>\<rparr>) w)\<lparr>Labels :=
               (if shas old LabelKeyPodVersion then sput LabelKeyPodVersion (sget old LabelKeyPodVersion) lbls else sdel LabelKeyPodVersion lbls)\<rparr>))"

definition UpdateReplicaResource :: "rolling_env \<Rightarrow> RollingSet \<Rightarrow> strmap \<Rightarrow> HippoPodTemplate \<Rightarrow> Replica \<Rightarrow> rs_error + Replica option" where
  "UpdateReplicaResource e rs lbls target r =
     (let w = rp_worker r; version = rs_ResVersion (rs_Spec rs) in
      case Template (WorkerNode.Plan w) of
        None \<Rightarrow> nil_panic
      | Some template \<Rightarrow>
          if length (tmpl_Containers template) \<noteq> length (tmpl_Containers target) then Inr None
          else
            let exist = shas (Annotations w) ColdResourceUpdateState;
                toWarm = (exist \<and> sget (Annotations w) ColdResourceUpdateState = ColdUpdateStateColdToWarm);
                w = (if exist then w\<lparr>Annotations := sput ColdResourceUpdateTargetVersion version (Annotations w)\<rparr> else w)
            in if toWarm \<and> \<not> IsWorkerAssigned w then Inr None
               else
                 let w = (if toWarm then w\<lparr>Annotations := sput ColdResourceUpdateState ColdUpdateStateWaitingWarmAssgin (Annotations w)\<rparr> else w)
                 in if Spec_WorkerMode (Spec w) = WorkerModeTypeCold then
                      if tmpl_Containers template = [] then Inl (WorkerError SliceOutOfRange)
                      else if Annotations w = None then map_panic
                      else Inr (Some (upd_worker (\<lambda>_. (set_spec (\<lambda>s. s\<lparr>Spec_WorkerMode := WorkerModeTypeWarm\<rparr>) w)\<lparr>Annotations :=
                        sput ColdResourceUpdateTargetVersion version (sput ColdResourceUpdateState ColdUpdateStateColdToWarm (Annotations w))\<rparr>) r))
                    else Inr (map_option (\<lambda>w. upd_worker (\<lambda>_. w) r) (copy_resource e rs lbls target template w)))"

text \<open>One resource version of \<^verbatim>\<open>updateReplicaResource\<close>: its replicas, updated, and \<open>None\<close> for one that cannot change.\<close>

definition update_version :: "rolling_env \<Rightarrow> RollingSet \<Rightarrow> strmap \<Rightarrow> HippoPodTemplate option \<Rightarrow> Replica \<Rightarrow> rs_error + Replica option" where
  "update_version e rs lbls old r =
     (case (Template (rs_VersionPlan (rs_Spec rs)), old) of
        (Some target, Some old) \<Rightarrow>
          if length (tmpl_Containers target) \<noteq> length (tmpl_Containers old) then Inr (Some r)
          else if couldRollingByPass e target old then UpdateReplicaResource e rs lbls target r
          else Inr (Some r)
      | _ \<Rightarrow> nil_panic)"

definition updateReplicaResource :: "rolling_env \<Rightarrow> RollingSet \<Rightarrow> strmap \<Rightarrow> Replica list \<Rightarrow> rs_error + Replica list" where
  "updateReplicaResource e rs lbls changed =
     (if rs_Version (rs_Spec rs) = rs_ResVersion (rs_Spec rs) then Inr changed
      else
        let version = (\<lambda>r. Spec_ResVersion (Spec (rp_worker r)));
            plan = (\<lambda>v. case filter (\<lambda>r. version r = v) changed of [] \<Rightarrow> None | r # _ \<Rightarrow> Template (WorkerNode.Plan (rp_worker r)))
        in sbind (sfold (\<lambda>r done. sbind (update_version e rs lbls (plan (version r)) r) (\<lambda>r'. Inr (done @ [(r, r')]))) changed []) (\<lambda>results.
             let bad = map (\<lambda>(r, _). Name (rp_worker r)) (filter (\<lambda>(_, r'). r' = None) results)
             in Inr (filter (\<lambda>r. Name (rp_worker r) \<notin> set bad) (map (\<lambda>(_, r'). the r') (filter (\<lambda>(_, r'). r' \<noteq> None) results)))))"

subsection \<open>Broadcast fields\<close>

definition InitWorkerScheduleTimeout :: "rolling_env \<Rightarrow> VersionPlan \<Rightarrow> VersionPlan" where
  "InitWorkerScheduleTimeout e p =
     p\<lparr>ResourceMatchTimeout := (if ResourceMatchTimeout p = 0 then defaultResourceMatchTimeout e else ResourceMatchTimeout p),
       ProcessMatchTimeout := (if ProcessMatchTimeout p = 0 then defaultProcessMatchTimeout e else ProcessMatchTimeout p),
       WarmupSeconds := (if WarmupSeconds p = 0 then defaultWarmupSeconds e else WarmupSeconds p)\<rparr>"

definition init_timeouts :: "rolling_env \<Rightarrow> RollingSet \<Rightarrow> rs_error + RollingSet" where
  "init_timeouts e rs =
     (let spec = rs_Spec rs in
      if \<exists>(k, p) \<in> set (GangVersionPlan spec). p = None then nil_panic
      else Inr (rs\<lparr>rs_Spec := spec\<lparr>rs_VersionPlan := InitWorkerScheduleTimeout e (rs_VersionPlan spec),
        GangVersionPlan := map (\<lambda>(k, p). (k, map_option (InitWorkerScheduleTimeout e) p)) (GangVersionPlan spec)\<rparr>\<rparr>))"

fun getMainPart :: "gang_plans \<Rightarrow> rs_error + (string \<times> VersionPlan) option" where
  "getMainPart [] = Inr None"
| "getMainPart ((k, p) # ps) =
     (case p of None \<Rightarrow> nil_panic | Some plan \<Rightarrow> if IsGangMainPart (Template plan) then Inr (Some (k, plan)) else getMainPart ps)"

definition createGangMainPart ::
  "rolling_env \<Rightarrow> sched_ctx \<Rightarrow> nat \<Rightarrow> RollingSet \<Rightarrow> VersionPlanWithGangPlan \<Rightarrow> string \<Rightarrow> Replica \<Rightarrow> rs_error + Replica" where
  "createGangMainPart e c i rs plans version r =
     sbind (getMainPart (GangVersionPlans plans)) (\<lambda>main.
       case main of
         None \<Rightarrow> Inr r
       | Some (partName, plan) \<Rightarrow>
           if partName = '''' then Inr r
           else sbind (createWorker e c i (rs_Name rs) partName (GetGangID (rp_worker r)) rs) (\<lambda>w.
             let w = SetGangPlan (json_GangPlans (renv e) (GangVersionPlans plans))
                       (set_spec (\<lambda>s. s\<lparr>Spec_VersionPlan := plan, Spec_Version := version\<rparr>) w);
                 parts = (case rp_Gang r of None \<Rightarrow> [] | Some parts \<Rightarrow> parts)
             in Inr (Replica (rp_worker r) (rp_Backup r) (Some (parts @ [Replica w empty_worker None])))))"

definition IsRrResourceUpdating :: "WorkerNode \<Rightarrow> bool" where
  "IsRrResourceUpdating w \<longleftrightarrow> shas (Annotations w) ColdResourceUpdateState"

definition isBroadcastMatched :: "rolling_env \<Rightarrow> sched_ctx \<Rightarrow> RollingSet \<Rightarrow> string list \<Rightarrow> Replica \<Rightarrow> bool" where
  "isBroadcastMatched e c rs keys r \<longleftrightarrow>
     (let w = rp_worker r; plan = rs_VersionPlan (rs_Spec rs) in
      json_BroadcastPlan e (BroadcastPlan.truncate (WorkerNode.Plan w)) = json_BroadcastPlan e (BroadcastPlan.truncate plan) \<and>
      (if isGangRolling rs then IsGangMainPart (Template (WorkerNode.Plan w))
       else compareGeneralAnnotations (Annotations w) (generalAnnotations c) \<and>
            IsNonVersionedKeysMatch (Template plan) (Template (WorkerNode.Plan w)) (set keys)))"

definition broadcast_copy :: "rolling_env \<Rightarrow> sched_ctx \<Rightarrow> RollingSet \<Rightarrow> string list \<Rightarrow> string \<Rightarrow> nat \<Rightarrow> Replica \<Rightarrow> rs_error + Replica" where
  "broadcast_copy e c rs keys version i r =
     (let plans = GetVersionPlanWithGangPlanFromRS rs in
      sbind (if isGangRolling rs then createGangMainPart e c i rs plans version r else Inr r) (\<lambda>r.
      sbind (worker_err (SetReplicaVersionPlanWithGangPlan (renv e) (Some plans) version r)) (\<lambda>r.
      sbind (copyGeneralAnnotations (generalAnnotations c) (Annotations (rp_worker r))) (\<lambda>annos.
        Inr (upd_worker (\<lambda>w. syncNonVersionedMetas rs keys (w\<lparr>Annotations := annos\<rparr>)) r)))))"

text \<open>The rolling set passed in already has its timeouts; the plans of the arguments are pointers into it.\<close>

definition updateBroadcastField ::
  "rolling_env \<Rightarrow> sched_ctx \<Rightarrow> RollingSet \<Rightarrow> string list \<Rightarrow> Replica heap \<Rightarrow> rollingsetArgs \<Rightarrow> rs_error + RollingSet \<times> rollingsetArgs" where
  "updateBroadcastField e c rs keys h args =
     sbind (init_timeouts e rs) (\<lambda>rs.
       let active = filter (\<lambda>a. let r = cells h a in \<not> (IsReplicaReleasing r \<or> IsReplicaReleased r) \<and> \<not> IsStandbyReplica r \<and>
                              Spec_Version (Spec (rp_worker r)) = ra_LatestVersion args) (replicaSet args);
           stale = filter (\<lambda>a. \<not> IsRrResourceUpdating (rp_worker (cells h a)) \<and> \<not> isBroadcastMatched e c rs keys (cells h a))
                     (active @ standByReplicas args);
           plans = GetVersionPlanWithGangPlanFromRS rs
       in sbind (sfold (\<lambda>a done. sbind (broadcast_copy e c rs keys (ra_LatestVersion args) a (cells h a)) (\<lambda>r. Inr (done @ [r]))) stale [])
            (\<lambda>copies. Inr (rs, args\<lparr>latestVersionPlan := plans, broadcastReplicaSet := copies,
               rollingUpdateArgs := (rollingUpdateArgs args)\<lparr>ru_LatestVersionPlan := Some plans\<rparr>\<rparr>)))"

subsection \<open>All arguments\<close>

definition initVersionArgs :: "rolling_env \<Rightarrow> RollingSet \<Rightarrow> Replica heap \<Rightarrow> rollingsetArgs \<Rightarrow> rollingsetArgs" where
  "initVersionArgs e rs h args = args\<lparr>versionPlanMap :=
     fold (\<lambda>a m. let r = cells h a; v = Spec_Version (Spec (rp_worker r)) in
             if mhas m v then m else mput v (GetVersionPlanWithGangPlanFromReplica (renv e) r) m)
       (replicaSet args) [(ra_LatestVersion args, Some (GetVersionPlanWithGangPlanFromRS rs))]\<rparr>"

definition getFixedResourcePoolCnt :: "(int, int) gomap \<Rightarrow> int32 option \<Rightarrow> int" where
  "getFixedResourcePoolCnt predict planReplicas =
     fold (\<lambda>(_, replicas) cnt. if cnt > replicas then replicas else cnt) predict (case planReplicas of None \<Rightarrow> 9999 | Some n \<Rightarrow> n)"

definition initArgs ::
  "rolling_env \<Rightarrow> sched_ctx \<Rightarrow> RollingSet \<Rightarrow> Replica list \<Rightarrow> rs_error + RollingSet \<times> rollingsetArgs \<times> Replica heap \<times> int" where
  "initArgs e c rs given =
     sbind (checkParam rs) (\<lambda>_.
     sbind (GetNonVersionedKeys e) (\<lambda>keys.
     sbind (initScheduleParams e c rs given) (\<lambda>(rs, args, h, timeout).
     sbind (updateReplicaResource e rs (generalLabels c) (resChangedReplicaSet args)) (\<lambda>changed.
     sbind (updateBroadcastField e c rs keys h (initVersionArgs e rs h (args\<lparr>resChangedReplicaSet := changed\<rparr>))) (\<lambda>(rs, args).
       let args = args\<lparr>scaledParameters := GetScaleParameters rs\<rparr>; info = PredictInfo (rs_Spec rs)
       in sbind (if info = '''' then Inr [] else case unmarshal_predict e info of None \<Rightarrow> Inl BadPredictInfo | Some m \<Rightarrow> Inr m) (\<lambda>predict.
            Inr (rs, args\<lparr>predictInfo := predict,
              fixedCount := getFixedResourcePoolCnt predict (sp_Replicas (rs_SchedulePlan (rs_Spec rs)))\<rparr>, h, timeout)))))))"

end
