(* ===== verification/ShardGroup.thy ===== *)
theory ShardGroup
  imports GroupScheduler RollingArgs
begin

text \<open>
  \<^verbatim>\<open>pkg/apis/carbon/v1/shardgroup.go\<close> and \<^verbatim>\<open>controller/shardgroup\<close>: the controller of a shard group. One \<^verbatim>\<open>Sync\<close> creates the rolling sets that are missing,
  or asks the group scheduler for the plans of those that are there and writes them; then it removes the rolling sets that are not needed and
  writes the status. The requests to the API server are a log, and its answers are a parameter. The times that the resource manager stamps on
  what it writes, the owner references and the logs are left out.
\<close>

subsection \<open>State\<close>

datatype ShardDeployType = RollingSetType | DeploymentType | ShardDeployOther

text \<open>A template of a shard, with the labels and annotations of its metadata.\<close>

record ShardTemplate =
  sht_Labels :: strmap
  sht_Annotations :: strmap
  sht_Replicas :: "int32 option"
  sht_DependencyLevel :: "int32 option"
  sht_Strategy :: "DeploymentStrategy option"
  sht_CustomInfo :: string
  sht_CompressedCustomInfo :: string
  sht_Signature :: string
  sht_UserDefVersion :: string
  sht_Preload :: bool
  sht_Template :: HippoPodTemplate
  sht_HealthCheckerConfig :: "HealthCheckerConfig option"
  sht_Online :: "bool option"
  sht_UpdatingGracefully :: "bool option"
  sht_Cm2TopoInfo :: string

record ShardGroupSpec =
  sg_Selector :: "strmap option"
  sg_Paused :: bool
  sg_LatestPercent :: "int32 option"
  sg_MaxUnavailable :: "IntOrString option"
  sg_MaxSurge :: "IntOrString option"
  sg_ScaleStrategy :: "DeploymentStrategy option"
  sg_ScaleConfig :: "bool option"
  sg_RollingStrategy :: string
  sg_WorkerSchedulePlan :: WorkerSchedulePlan
  sg_UpdatingGracefully :: "bool option"
  sg_RestartAfterResourceChange :: "bool option"
  ShardTemplates :: "(string, ShardTemplate) gomap"
  CompressedShardTemplates :: string
  ShardDeployStrategy :: ShardDeployType
  sg_UpdatePlanTimestamp :: int

datatype ShardGroupPhase = ShardGroupUpdating | ShardGroupRolling | ShardGroupRunning | ShardGroupFailed | ShardGroupUnknown | ShardGroupPhaseEmpty

text \<open>The names of the shards may be a nil slice, which is not equal to an empty one.\<close>

record ShardGroupStatus =
  sgs_ObservedGeneration :: int
  sgs_ShardGroupVersion :: string
  sgs_Phase :: ShardGroupPhase
  ShardNames :: "string list option"
  OnceCompletedShardNames :: "string list"
  sgs_Complete :: bool

record ShardGroup =
  sg_Name :: string
  sg_Namespace :: string
  sg_Labels :: strmap
  sg_Annotations :: strmap
  sg_Generation :: int
  sg_DeletionTimestamp :: "int option"
  sg_Finalizers :: "string list"
  sg_Spec :: ShardGroupSpec
  sg_Status :: ShardGroupStatus

abbreviation templates :: "ShardGroup \<Rightarrow> (string, ShardTemplate) gomap" where
  "templates g \<equiv> ShardTemplates (sg_Spec g)"

definition ShardSpec_GetReplicas :: "ShardTemplate \<Rightarrow> int32" where
  "ShardSpec_GetReplicas t = (case sht_Replicas t of None \<Rightarrow> 0 | Some n \<Rightarrow> n)"

definition GetStrategy :: "ShardGroupSpec \<Rightarrow> DeploymentStrategy" where
  "GetStrategy s =
     (case sg_ScaleStrategy s of
        Some st \<Rightarrow> if sg_ScaleConfig s \<noteq> Some False then st
          else \<lparr>ds_Type = '''', ds_RollingUpdate = Some \<lparr>ru_MaxUnavailable = sg_MaxUnavailable s, ru_MaxSurge = sg_MaxSurge s\<rparr>\<rparr>
      | None \<Rightarrow> \<lparr>ds_Type = '''', ds_RollingUpdate = Some \<lparr>ru_MaxUnavailable = sg_MaxUnavailable s, ru_MaxSurge = sg_MaxSurge s\<rparr>\<rparr>)"

definition GenerateShardName :: "string \<Rightarrow> string \<Rightarrow> string" where
  "GenerateShardName groupName shardKey = groupName @ ''.'' @ shardKey"

abbreviation shard_name :: "ShardGroup \<Rightarrow> string \<Rightarrow> string" where
  "shard_name g key \<equiv> GenerateShardName (sg_Name g) key"

subsection \<open>The environment\<close>

text \<open>What is signed of a group: the JSON text of the specification read back as \<^verbatim>\<open>ShardGroupSignSpec\<close>. A map of templates is written in the order of
  its keys, whatever order it is enumerated in.\<close>

record ShardSignTemplate =
  sgn_Labels :: strmap
  sgn_Annotations :: strmap
  sgn_Signature :: string
  sgn_Cm2TopoInfo :: string
  sgn_Template :: HippoPodTemplate

record ShardGroupSignSpec =
  sgn_RestartAfterResourceChange :: "bool option"
  sgn_ShardTemplates :: "string \<Rightarrow> ShardSignTemplate option"

text \<open>The feature gate, the flags of the pod version, the MD5 signature of a JSON text, the decompression of the templates, JSON texts of parts that
  are compared, and the listers.\<close>

record group_env =
  roll :: rolling_env
  SimplifyShardGroup :: bool
  sg_defaultPodVersion :: string
  forcePodVersion :: string
  sign_group :: "ShardGroupSignSpec \<Rightarrow> string option"
  decompress_templates :: "string \<Rightarrow> (string, ShardTemplate) gomap option"
  json_HealthCheckerConfig :: "HealthCheckerConfig option \<Rightarrow> string"
  json_VersionPlan :: "VersionPlan \<Rightarrow> string"
  json_SchedulePlan :: "SchedulePlan \<Rightarrow> string"
  json_ScaleConfig :: "bool option \<Rightarrow> string"
  list_rolling_sets :: "ShardGroup \<Rightarrow> string + RollingSet list"
  list_replicas :: "RollingSet \<Rightarrow> string + Replica list"

datatype sg_error =
    SgApi string
  | SgFenceposts string
  | SgRoll roll_error
  | SgNil
  | SgSign
  | SgDecompress
  | SgWaiting

definition sg_panic :: "sg_error \<Rightarrow> bool" where
  "sg_panic err = (case err of SgNil \<Rightarrow> True | SgRoll r \<Rightarrow> r \<in> {roll_error.NilDereference, SliceBounds, TypeAssertion} | _ \<Rightarrow> False)"

datatype sg_request =
    CreateRollingSet RollingSet
  | UpdateRollingSet RollingSet
  | DeleteServicePublisherForRs RollingSet
  | RemoveRollingSet RollingSet
  | UpdateShardGroup ShardGroup
  | UpdateShardGroupStatus ShardGroup
  | DeleteShardGroup ShardGroup
  | SgEnqueueAfter

type_synonym sg_run = "sg_request list \<times> sg_error option"

definition sg_send :: "(sg_request \<Rightarrow> string option) \<Rightarrow> sg_request \<Rightarrow> sg_run" where
  "sg_send api q = ([q], map_option SgApi (api q))"

text \<open>The next step, unless there was an error.\<close>

definition sg_then :: "sg_run \<Rightarrow> sg_run \<Rightarrow> sg_run" where
  "sg_then m n = (case snd m of None \<Rightarrow> (fst m @ fst n, snd n) | Some err \<Rightarrow> (fst m, Some err))"

subsection \<open>The version of a group\<close>

definition sign_template :: "ShardTemplate \<Rightarrow> ShardSignTemplate" where
  "sign_template t =
     \<lparr>sgn_Labels = sht_Labels t, sgn_Annotations = sht_Annotations t, sgn_Signature = sht_Signature t, sgn_Cm2TopoInfo = sht_Cm2TopoInfo t,
      sgn_Template = sht_Template t\<rparr>"

definition sign_spec :: "ShardGroupSpec \<Rightarrow> ShardGroupSignSpec" where
  "sign_spec s =
     \<lparr>sgn_RestartAfterResourceChange = sg_RestartAfterResourceChange s,
      sgn_ShardTemplates = (\<lambda>key. map_option sign_template (map_of (ShardTemplates s) key))\<rparr>"

definition calculateShardGroupSign :: "group_env \<Rightarrow> ShardGroup \<Rightarrow> sg_error + string" where
  "calculateShardGroupSign e g =
     (case sign_group e (sign_spec (sg_Spec g)) of
        None \<Rightarrow> Inl SgSign
      | Some sign \<Rightarrow>
          let current = sgs_ShardGroupVersion (sg_Status g) in
          (case str_index (CHR ''-'') current of
             Some i \<Rightarrow> if i > 0 \<and> drop (i + 1) current = sign then Inr current else Inr (FormatInt (sg_Generation g) @ ''-'' @ sign)
           | None \<Rightarrow> Inr (FormatInt (sg_Generation g) @ ''-'' @ sign)))"

subsection \<open>The parameters of the group scheduler\<close>

definition role_of :: "ShardGroup \<Rightarrow> RollingSet \<Rightarrow> RollingSet" where
  "role_of g rs =
     (let replicas = fold (\<lambda>(key, t). mput (shard_name g key) (ShardSpec_GetReplicas t)) (templates g) [];
          levels = fold (\<lambda>(key, t). mput (shard_name g key) (sht_DependencyLevel t)) (templates g) []
      in rs\<lparr>rs_Spec := (rs_Spec rs)\<lparr>rs_SchedulePlan := (rs_SchedulePlan (rs_Spec rs))\<lparr>sp_Replicas := Some (mget 0 replicas (rs_Name rs)),
           sp_DependencyLevel := mget None levels (rs_Name rs)\<rparr>\<rparr>\<rparr>)"

definition target_strategies :: "ShardGroup \<Rightarrow> RollingSet list \<Rightarrow> (string, DeploymentStrategy option) gomap" where
  "target_strategies g roles =
     (let own = fold (\<lambda>(key, t) m. if sht_Strategy t \<noteq> None then mput (shard_name g key) (sht_Strategy t) m else m) (templates g) []
      in fold (\<lambda>rs m. case GetScaleStrategy rs of
                 Some st \<Rightarrow> if rs_Name rs \<in> shard_name g ` set (mkeys (templates g)) then mput (rs_Name rs) (Some st) m else m
               | None \<Rightarrow> m) roles own)"

definition initGroupScheduleParams :: "group_env \<Rightarrow> ShardGroup \<Rightarrow> RollingSet list \<Rightarrow> string \<Rightarrow> sg_error + GroupScheduleParams" where
  "initGroupScheduleParams e g roles version =
     (let s = sg_Spec g; strategy = GetStrategy s in
      case ds_RollingUpdate strategy of
        None \<Rightarrow> Inl SgNil
      | Some ru \<Rightarrow>
          (case ResolveFenceposts (algo (roll e)) (sg_MaxSurge s) (ru_MaxUnavailable ru) 100 of
             Inl msg \<Rightarrow> Inl (SgFenceposts msg)
           | Inr (surge, unavailable) \<Rightarrow>
               let names = map (shard_name g) (mkeys (templates g)) in
               Inr \<lparr>gp_Name = sg_Name g, gp_NewShards = filter (\<lambda>n. n \<notin> set (OnceCompletedShardNames (sg_Status g))) names,
                    gp_Metas = [(''groupName'', GetLabelAnnoValue (sg_Labels g) (sg_Annotations g) LabelKeyGroupName),
                                (''appName'', GetLabelAnnoValue (sg_Labels g) (sg_Annotations g) LabelKeyAppName)],
                    gp_TargetShardStrategys = target_strategies g roles, gp_DefaultStrategy = strategy,
                    gp_LatestPercent = (case sg_LatestPercent s of None \<Rightarrow> 0 | Some p \<Rightarrow> p), gp_MaxSurge = surge,
                    gp_MaxUnavailable = unavailable, gp_ShardGroupVersion = version, gp_RollingStrategy = sg_RollingStrategy s,
                    gp_Paused = sg_Paused s,
                    gp_ShardStatus = map (\<lambda>rs. rollingset_shard (cpu_of_template (roll e)) (role_of g rs)) (filter (\<lambda>rs. rs_Name rs \<in> set names) roles)\<rparr>))"

subsection \<open>Writing the rolling sets\<close>

definition genVersionPlan :: "string \<Rightarrow> ShardGroup \<Rightarrow> ShardTemplate \<Rightarrow> VersionPlan" where
  "genVersionPlan version g t =
     (let s = sg_Spec g; w = sg_WorkerSchedulePlan s in
      \<lparr>MinReadySeconds = MinReadySeconds w, WarmupSeconds = WarmupSeconds w, ResourceMatchTimeout = ResourceMatchTimeout w,
       ProcessMatchTimeout = ProcessMatchTimeout w, WorkerReadyTimeout = WorkerReadyTimeout w, BrokenRecoverQuotaConfig = BrokenRecoverQuotaConfig w,
       RecoverStrategy = RecoverStrategy w, DelayDeleteBackupSeconds = DelayDeleteBackupSeconds w,
       CustomInfo = sht_CustomInfo t, CompressedCustomInfo = sht_CompressedCustomInfo t, UserDefVersion = sht_UserDefVersion t, Online = sht_Online t,
       UpdatingGracefully = (case sht_UpdatingGracefully t of Some b \<Rightarrow> Some b | None \<Rightarrow> sg_UpdatingGracefully s), Preload = sht_Preload t,
       IsDaemonSet = False, plan_CPU = None, UpdatePlanTimestamp = sg_UpdatePlanTimestamp s, RowComplete = None,
       ShardGroupVersion = version, Template = Some (sht_Template t), Signature = sht_Signature t,
       RestartAfterResourceChange = sg_RestartAfterResourceChange s, BufferSelector = None, Cm2TopoInfo = sht_Cm2TopoInfo t\<rparr>)"

text \<open>The labels of a rolling set: those of the group, with its unique key, and those of the template. Adding the labels of the template one by one is
  the union; label keys are not empty.\<close>

definition group_labels :: "group_env \<Rightarrow> ShardGroup \<Rightarrow> strmap" where
  "group_labels e g = AddUniqueLabelHashKey (we (roll e)) DefaultShardGroupUniqueLabelKey (sg_Name g) (CloneMap (sg_Labels g))"

definition add_labels :: "strmap \<Rightarrow> strmap \<Rightarrow> strmap" where
  "add_labels new lbls = Some (smerge (scontents new) (scontents lbls))"

abbreviation "LabelKeyExlusive \<equiv> ''app.hippo.io/exclusive-labels''"

definition GetExclusiveLableAnno :: "RollingSet \<Rightarrow> string" where
  "GetExclusiveLableAnno rs = GetLabelAnnoValue (rs_Labels rs) (rs_Annotations rs) LabelKeyExlusive"

definition sg_needUpdate :: "group_env \<Rightarrow> RollingSet \<Rightarrow> RollingSet \<Rightarrow> ShardTemplate \<Rightarrow> bool" where
  "sg_needUpdate e old new t =
     (let so = rs_Spec old; sn = rs_Spec new;
          plan = (rs_VersionPlan sn)\<lparr>UpdatePlanTimestamp := UpdatePlanTimestamp (rs_VersionPlan so)\<rparr>
      in if ShardSpec_GetReplicas t = 0 \<and> GetReplicas old = 0 \<and> sht_UserDefVersion t = UserDefVersion (rs_VersionPlan so) then False
         else json_Labels (roll e) (rs_Labels new) \<noteq> json_Labels (roll e) (rs_Labels old) \<or> GetExclusiveLableAnno new \<noteq> GetExclusiveLableAnno old \<or>
              json_HealthCheckerConfig e (rs_HealthCheckerConfig sn) \<noteq> json_HealthCheckerConfig e (rs_HealthCheckerConfig so) \<or>
              json_VersionPlan e plan \<noteq> json_VersionPlan e (rs_VersionPlan so) \<or>
              json_SchedulePlan e (rs_SchedulePlan sn) \<noteq> json_SchedulePlan e (rs_SchedulePlan so) \<or>
              json_ScaleConfig e (rs_ScaleConfig sn) \<noteq> json_ScaleConfig e (rs_ScaleConfig so))"

text \<open>What a template makes of a rolling set, with a schedule plan and a version plan.\<close>

definition apply_template :: "group_env \<Rightarrow> ShardGroup \<Rightarrow> ShardTemplate \<Rightarrow> SchedulePlan \<Rightarrow> VersionPlan \<Rightarrow> RollingSet \<Rightarrow> RollingSet" where
  "apply_template e g t splan plan rs =
     rs\<lparr>rs_Labels := add_labels (sht_Labels t)
          (AddUniqueLabelHashKey (we (roll e)) DefaultRollingsetUniqueLabelKey (rs_Name rs) (group_labels e g)),
        rs_Annotations := CloneMap (sht_Annotations t),
        rs_Spec := (rs_Spec rs)\<lparr>rs_SchedulePlan := splan, rs_VersionPlan := plan, rs_HealthCheckerConfig := sht_HealthCheckerConfig t\<rparr>\<rparr>"

definition getSchedulePlanStrategy :: "ShardGroup \<Rightarrow> ShardTemplate \<Rightarrow> DeploymentStrategy" where
  "getSchedulePlanStrategy g t =
     (case sht_Strategy t of
        Some st \<Rightarrow> st
      | None \<Rightarrow> \<lparr>ds_Type = '''', ds_RollingUpdate = Some \<lparr>ru_MaxUnavailable = sg_MaxUnavailable (sg_Spec g), ru_MaxSurge = sg_MaxSurge (sg_Spec g)\<rparr>\<rparr>)"

definition createRollingSet :: "group_env \<Rightarrow> (sg_request \<Rightarrow> string option) \<Rightarrow> ShardGroup \<Rightarrow> ShardTemplate \<Rightarrow> string \<Rightarrow> string \<Rightarrow> sg_run" where
  "createRollingSet e api g t name version =
     (case sg_Selector (sg_Spec g) of
        None \<Rightarrow> ([], Some SgNil)
      | Some sel \<Rightarrow>
          sg_send api (CreateRollingSet
            \<lparr>rs_Name = name, rs_Namespace = sg_Namespace g, rs_ResourceVersion = '''', rs_Labels = add_labels (sht_Labels t) (group_labels e g),
             rs_Annotations = CloneMap (sht_Annotations t), rs_DeletionTimestamp = None, rs_Finalizers = [],
             rs_Spec = \<lparr>rs_Selector = Some (AddSelectorHashKey (we (roll e)) DefaultShardGroupUniqueLabelKey (sg_Name g) (CloneMap sel)),
               rs_SchedulePlan = zero_plan\<lparr>sp_Replicas := sht_Replicas t, sp_LatestVersionRatio := sg_LatestPercent (sg_Spec g),
                 sp_Strategy := getSchedulePlanStrategy g t\<rparr>,
               rs_ScaleSchedulePlan = None, rs_ScaleConfig = None,
               rs_Capacity = \<lparr>cap_Total = None, cap_Distribute = None, cap_ScaleSchedulePlan = None, cap_ScaleConfig = None\<rparr>, GroupRS = None,
               rs_ResVersion = '''', rs_Version = '''', rs_InstanceID = '''', rs_VersionPlan = genVersionPlan version g t, PredictInfo = '''',
               GangVersionPlan = [], rs_HealthCheckerConfig = sht_HealthCheckerConfig t\<rparr>,
             rs_Status = empty_status_rs\<rparr>))"

text \<open>Whether one was missing, and the requests; the loop ends at the first error.\<close>

primrec createRollingsets ::
  "group_env \<Rightarrow> (sg_request \<Rightarrow> string option) \<Rightarrow> ShardGroup \<Rightarrow> RollingSet list \<Rightarrow> string \<Rightarrow> (string, ShardTemplate) gomap \<Rightarrow> bool \<times> sg_run" where
  "createRollingsets e api g rollingSets version [] = (False, [], None)"
| "createRollingsets e api g rollingSets version (kt # ts) =
     (let name = shard_name g (fst kt) in
      if name \<in> rs_Name ` set rollingSets then createRollingsets e api g rollingSets version ts
      else
        case createRollingSet e api g (snd kt) name version of
          (reqs, Some err) \<Rightarrow> (True, reqs, Some err)
        | (reqs, None) \<Rightarrow> (case createRollingsets e api g rollingSets version ts of (_, reqs', r) \<Rightarrow> (True, reqs @ reqs', r)))"

text \<open>One template against one rolling set: it is the set's own, or is passed over.\<close>

definition plan_step ::
  "group_env \<Rightarrow> ShardGroup \<Rightarrow> string \<Rightarrow> (string, ShardScheduleParams) gomap \<Rightarrow> RollingSet \<Rightarrow> string \<times> ShardTemplate \<Rightarrow>
   RollingSet \<times> bool \<Rightarrow> sg_error + RollingSet \<times> bool" where
  "plan_step e g version params old kt s =
     (let (key, t) = kt; (rs, need) = s in
      if shard_name g key \<noteq> rs_Name rs then Inr s
      else
        case map_of params (rs_Name rs) of
          None \<Rightarrow> Inl SgNil
        | Some p \<Rightarrow>
            let rs' = apply_template e g t (ShardScheduleParams.Plan p) ((genVersionPlan version g t)\<lparr>RowComplete := Some (LatestRowComplete p)\<rparr>) rs
            in Inr (rs', sg_needUpdate e old rs' t))"

primrec write_plans ::
  "group_env \<Rightarrow> (sg_request \<Rightarrow> string option) \<Rightarrow> ShardGroup \<Rightarrow> string \<Rightarrow> (string, ShardScheduleParams) gomap \<Rightarrow> RollingSet list \<Rightarrow> RollingSet list \<times> sg_run" where
  "write_plans e api g version params [] = ([], [], None)"
| "write_plans e api g version params (rs # rollingSets) =
     (case sfold (plan_step e g version params rs) (templates g) (rs, False) of
        Inl err \<Rightarrow> (rs # rollingSets, [], Some err)
      | Inr (rs', need) \<Rightarrow>
          (case (if need then sg_send api (UpdateRollingSet rs') else ([], None)) of
             (reqs, Some err) \<Rightarrow> (rs' # rollingSets, reqs, Some err)
           | (reqs, None) \<Rightarrow>
               (case write_plans e api g version params rollingSets of (written, reqs', r) \<Rightarrow> (rs' # written, reqs @ reqs', r))))"

definition isSimplifyShardGroup :: "group_env \<Rightarrow> ShardGroup \<Rightarrow> RollingSet list \<Rightarrow> bool" where
  "isSimplifyShardGroup e g rollingSets \<longleftrightarrow> SimplifyShardGroup e \<and> length (templates g) = 1 \<and> length rollingSets = 1"

definition simple_plan :: "ShardGroup \<Rightarrow> ShardTemplate \<Rightarrow> SchedulePlan" where
  "simple_plan g t =
     (let own = (case sht_Strategy t of Some st \<Rightarrow> if ds_RollingUpdate st = None then None else Some st | None \<Rightarrow> None);
          strategy = (case own of
            Some st \<Rightarrow> st
          | None \<Rightarrow> \<lparr>ds_Type = ''RollingUpdate'',
              ds_RollingUpdate = Some \<lparr>ru_MaxUnavailable = sg_MaxUnavailable (sg_Spec g), ru_MaxSurge = sg_MaxSurge (sg_Spec g)\<rparr>\<rparr>)
      in zero_plan\<lparr>sp_Replicas := sht_Replicas t, sp_Strategy := strategy, sp_LatestVersionRatio := sg_LatestPercent (sg_Spec g)\<rparr>)"

definition simplifySyncRollingset ::
  "group_env \<Rightarrow> (sg_request \<Rightarrow> string option) \<Rightarrow> ShardGroup \<Rightarrow> string \<Rightarrow> RollingSet list \<Rightarrow> RollingSet list \<times> sg_run" where
  "simplifySyncRollingset e api g version rollingSets =
     (case (templates g, rollingSets) of
        ((key, t) # _, rs # rest) \<Rightarrow>
          let rs' = apply_template e g t (simple_plan g t) (genVersionPlan version g t) rs
          in (rs' # rest, if sg_needUpdate e rs rs' t then sg_send api (UpdateRollingSet rs') else ([], None))
      | _ \<Rightarrow> (rollingSets, [], None))"

text \<open>The rolling sets as they are in memory afterwards, which the status is computed from, and the requests.\<close>

definition syncRollingSetSpec ::
  "group_env \<Rightarrow> (sg_request \<Rightarrow> string option) \<Rightarrow> ShardGroup \<Rightarrow> RollingSet list \<Rightarrow> string \<Rightarrow> RollingSet list \<times> sg_run" where
  "syncRollingSetSpec e api g rollingSets version =
     (case createRollingsets e api g rollingSets version (templates g) of (created, reqs, r) \<Rightarrow>
        if r \<noteq> None \<or> created then (rollingSets, reqs, r)
        else
          case initGroupScheduleParams e g rollingSets version of
            Inl err \<Rightarrow> (rollingSets, [], Some err)
          | Inr params \<Rightarrow>
              if isSimplifyShardGroup e g rollingSets then simplifySyncRollingset e api g version rollingSets
              else
                case Group_Schedule (algo (roll e)) (Some params) of
                  Inl err \<Rightarrow> (rollingSets, [], Some (SgRoll err))
                | Inr (shardParams, percent) \<Rightarrow> write_plans e api g version shardParams rollingSets)"

subsection \<open>Removal and status\<close>

text \<open>A hold matrix that was read from the API server is nil when it is empty.\<close>

definition deleteUnusedRollingSet :: "(sg_request \<Rightarrow> string option) \<Rightarrow> RollingSet \<Rightarrow> sg_run" where
  "deleteUnusedRollingSet api rs =
     (let held = (sp_VersionHoldMatrix (rs_SchedulePlan (rs_Spec rs)) \<noteq> []);
          rs' = rs\<lparr>rs_Spec := (rs_Spec rs)\<lparr>rs_SchedulePlan := (rs_SchedulePlan (rs_Spec rs))\<lparr>sp_VersionHoldMatrix := []\<rparr>\<rparr>\<rparr>
      in sg_then (if held then sg_send api (UpdateRollingSet rs') else ([], None))
           (sg_then (sg_send api (DeleteServicePublisherForRs rs')) (sg_send api (RemoveRollingSet rs'))))"

primrec delete_all :: "(sg_request \<Rightarrow> string option) \<Rightarrow> RollingSet list \<Rightarrow> sg_run" where
  "delete_all api [] = ([], Some SgWaiting)"
| "delete_all api (rs # rollingSets) = sg_then (deleteUnusedRollingSet api rs) (delete_all api rollingSets)"

definition syncRollingSetGC :: "(sg_request \<Rightarrow> string option) \<Rightarrow> ShardGroup \<Rightarrow> RollingSet list \<Rightarrow> sg_run" where
  "syncRollingSetGC api g rollingSets =
     (if rollingSets \<noteq> [] then delete_all api rollingSets
      else let g' = g\<lparr>sg_Finalizers := []\<rparr> in sg_then (sg_send api (UpdateShardGroup g')) (sg_send api (DeleteShardGroup g')))"

definition isRollingsetNotComplete :: "ShardGroup \<Rightarrow> RollingSet \<Rightarrow> string \<Rightarrow> bool" where
  "isRollingsetNotComplete g rs version =
     (let s = rs_Spec rs in
      case (sp_LatestVersionRatio (rs_SchedulePlan s), sg_LatestPercent (sg_Spec g)) of
        (Some ratio, Some percent) \<Rightarrow>
          if rst_Version (rs_Status rs) \<noteq> rs_Version s \<or> rs_Version s = '''' then True
          else if \<not> rst_Complete (rs_Status rs) \<or> ShardGroupVersion (rs_VersionPlan s) \<noteq> version \<or> ratio \<noteq> percent \<or> (ratio \<noteq> 0 \<and> ratio < 100) then True
          else (case map_of (GroupVersionStatusMap (rs_Status rs)) version of
                  None \<Rightarrow> True
                | Some vs \<Rightarrow> sp_Replicas (rs_SchedulePlan s) = None \<or> vs_Replicas vs \<noteq> GetReplicas rs \<or> vs_ReadyReplicas vs \<noteq> GetReplicas rs)
      | _ \<Rightarrow> True)"

definition is_used :: "ShardGroup \<Rightarrow> RollingSet \<Rightarrow> bool" where
  "is_used g rs \<longleftrightarrow> rs_Name rs \<in> shard_name g ` set (mkeys (templates g))"

text \<open>An error of a removal is dropped. \<open>raw\<close> is the group before its templates were decompressed.\<close>

definition syncRollingSetGroupStatus ::
  "(sg_request \<Rightarrow> string option) \<Rightarrow> ShardGroup \<Rightarrow> ShardGroup \<Rightarrow> RollingSet list \<Rightarrow> string \<Rightarrow> sg_run" where
  "syncRollingSetGroupStatus api raw g rollingSets version =
     (let done = (\<lambda>rs. \<not> isRollingsetNotComplete g rs version);
          phase = (if list_all done rollingSets then ShardGroupRunning else ShardGroupRolling);
          used = filter (is_used g) rollingSets;
          ready = filter done used;
          unUsed = filter (\<lambda>rs. \<not> is_used g rs) rollingSets;
          removals = (if unUsed \<noteq> [] \<and> length unUsed + length ready = length rollingSets
                      then concat (map (\<lambda>rs. fst (deleteUnusedRollingSet api rs)) unUsed) else []);
          currentShardNames = go_sort (<) (map rs_Name used);
          readyShardNames = go_sort (<) (map rs_Name ready);
          finished = (length (templates g) = length ready);
          st = sg_Status g
      in if phase \<noteq> sgs_Phase st \<or> ShardNames st \<noteq> Some currentShardNames \<or> version \<noteq> sgs_ShardGroupVersion st \<or> sgs_Complete st \<noteq> finished
         then
           let st' = st\<lparr>sgs_ShardGroupVersion := version, sgs_Phase := phase, ShardNames := Some currentShardNames,
                 sgs_ObservedGeneration := sg_Generation g, sgs_Complete := finished,
                 OnceCompletedShardNames := (if finished then readyShardNames else OnceCompletedShardNames st)\<rparr>
           in sg_then (removals, None) (sg_send api (UpdateShardGroupStatus (g\<lparr>sg_Status := st', sg_Spec := sg_Spec raw\<rparr>)))
         else (removals, None))"

subsection \<open>One pass\<close>

definition autoComplete :: "group_env \<Rightarrow> ShardGroup \<Rightarrow> ShardGroup" where
  "autoComplete e g =
     (if sg_DeletionTimestamp g \<noteq> None then g
      else
        let lbls = Some (scontents (sg_Labels g)); sel = (case sg_Selector (sg_Spec g) of None \<Rightarrow> None | Some s \<Rightarrow> s) in
        g\<lparr>sg_Finalizers := (if sg_Finalizers g = [] then [''smoothDeletion''] else sg_Finalizers g),
          sg_Labels := AddUniqueLabelHashKey (we (roll e)) DefaultShardGroupUniqueLabelKey (sg_Name g) lbls,
          sg_Spec := (sg_Spec g)\<lparr>sg_Selector :=
            Some (AddSelectorHashKey (we (roll e)) DefaultShardGroupUniqueLabelKey (sg_Name g) (CloneMap sel))\<rparr>\<rparr>)"

definition SetDefaultPodVersion :: "group_env \<Rightarrow> ShardTemplate \<Rightarrow> ShardTemplate" where
  "SetDefaultPodVersion e t =
     (let lbls = Some (scontents (sht_Labels t));
          lbls = (if sg_defaultPodVersion e \<noteq> '''' \<and> sget lbls LabelKeyPodVersion = '''' then sput LabelKeyPodVersion (sg_defaultPodVersion e) lbls else lbls);
          lbls = (if forcePodVersion e = '''' then lbls else AddLabel (we (roll e)) lbls LabelKeyPodVersion (forcePodVersion e))
      in t\<lparr>sht_Labels := lbls\<rparr>)"

definition DecompressShardTemplates :: "group_env \<Rightarrow> ShardGroup \<Rightarrow> sg_error + ShardGroup" where
  "DecompressShardTemplates e g =
     (if templates g = [] \<and> CompressedShardTemplates (sg_Spec g) \<noteq> '''' then
        (case decompress_templates e (CompressedShardTemplates (sg_Spec g)) of
           None \<Rightarrow> Inl SgDecompress
         | Some ts \<Rightarrow> Inr (g\<lparr>sg_Spec := (sg_Spec g)\<lparr>ShardTemplates := ts, CompressedShardTemplates := ''''\<rparr>\<rparr>))
      else Inr g)"

fun with_status :: "group_env \<Rightarrow> RollingSet list \<Rightarrow> sg_error + RollingSet list" where
  "with_status e [] = Inr []"
| "with_status e (rs # rollingSets) =
     (case list_replicas e rs of
        Inl msg \<Rightarrow> Inl (SgApi msg)
      | Inr replicas \<Rightarrow>
          (case with_status e rollingSets of
             Inl err \<Rightarrow> Inl err
           | Inr rest \<Rightarrow>
               Inr (rs\<lparr>rs_Status := (rs_Status rs)\<lparr>GroupVersionStatusMap := snd (GetGroupVersionStatusMap (we (roll e)) replicas)\<rparr>\<rparr> # rest)))"

definition getRollingSetForShardGroup :: "group_env \<Rightarrow> ShardGroup \<Rightarrow> sg_error + RollingSet list" where
  "getRollingSetForShardGroup e g = (case list_rolling_sets e g of Inl msg \<Rightarrow> Inl (SgApi msg) | Inr rollingSets \<Rightarrow> with_status e rollingSets)"

text \<open>An error puts the group back into the queue; only a panic leaves \<^verbatim>\<open>Sync\<close>.\<close>

definition delayProcessError :: "sg_run \<Rightarrow> sg_run" where
  "delayProcessError m =
     (case snd m of None \<Rightarrow> m | Some err \<Rightarrow> if sg_panic err then m else (fst m @ [SgEnqueueAfter], None))"

text \<open>The specification and then the status, also when the specification failed; the last error counts.\<close>

definition sync_sets :: "group_env \<Rightarrow> (sg_request \<Rightarrow> string option) \<Rightarrow> ShardGroup \<Rightarrow> ShardGroup \<Rightarrow> RollingSet list \<Rightarrow> string \<Rightarrow> sg_run" where
  "sync_sets e api raw g rollingSets version =
     (case syncRollingSetSpec e api g rollingSets version of (written, reqs, r) \<Rightarrow>
        if (case r of None \<Rightarrow> False | Some err \<Rightarrow> sg_panic err) then (reqs, r)
        else case syncRollingSetGroupStatus api raw g written version of
               (reqs', r') \<Rightarrow> (reqs @ reqs', case r' of None \<Rightarrow> r | Some err \<Rightarrow> Some err))"

definition sync_group :: "group_env \<Rightarrow> (sg_request \<Rightarrow> string option) \<Rightarrow> ShardGroup \<Rightarrow> RollingSet list \<Rightarrow> sg_run" where
  "sync_group e api g rollingSets =
     (if sg_DeletionTimestamp g \<noteq> None then syncRollingSetGC api g rollingSets
      else
        case DecompressShardTemplates e g of
          Inl err \<Rightarrow> ([], Some err)
        | Inr g' \<Rightarrow>
            let g' = g'\<lparr>sg_Spec := (sg_Spec g')\<lparr>ShardTemplates := map (\<lambda>(key, t). (key, SetDefaultPodVersion e t)) (templates g')\<rparr>\<rparr> in
            (case calculateShardGroupSign e g' of
               Inl err \<Rightarrow> ([], Some err)
             | Inr version \<Rightarrow> sync_sets e api g g' rollingSets version))"

datatype lookup = GroupNotFound | GroupError string | GroupFound ShardGroup

definition Sync :: "group_env \<Rightarrow> (sg_request \<Rightarrow> string option) \<Rightarrow> lookup \<Rightarrow> sg_run" where
  "Sync e api found =
     (case found of
        GroupNotFound \<Rightarrow> ([], None)
      | GroupError msg \<Rightarrow> delayProcessError ([], Some (SgApi msg))
      | GroupFound g \<Rightarrow>
          let g' = autoComplete e g in
          if g' \<noteq> g then delayProcessError (sg_send api (UpdateShardGroup g'))
          else
            case ShardDeployStrategy (sg_Spec g) of
              RollingSetType \<Rightarrow>
                (case getRollingSetForShardGroup e g of
                   Inl err \<Rightarrow> delayProcessError ([], Some err)
                 | Inr rollingSets \<Rightarrow> delayProcessError (sync_group e api g rollingSets))
            | DeploymentType \<Rightarrow>
                if sg_DeletionTimestamp g \<noteq> None \<or> sg_Paused (sg_Spec g) then ([], None)
                else (case DecompressShardTemplates e g of Inl err \<Rightarrow> delayProcessError ([], Some err) | Inr _ \<Rightarrow> ([], None))
            | ShardDeployOther \<Rightarrow> ([], None))"

end
