(* ===== verification/ShardGroupSafety.thy ===== *)
theory ShardGroupSafety
  imports ShardGroup
begin

text \<open>
  What a pass of the shard group controller guarantees: the version changes only with what is signed; every rolling set that is written has a
  plan of the group scheduler, and none is missing; a rolling set is removed only when it has no template and those that have one are complete; the
  group is deleted last; and its status is complete exactly when every template has a complete rolling set.
\<close>

subsection \<open>The version\<close>

lemma digits_no_dash: "CHR ''-'' \<notin> set (digits_of n) \<and> digits_of n \<noteq> []"
proof (induction n rule: digits_of.induct)
  case (1 n)
  show ?case
  proof (cases "n < 10")
    case True
    then show ?thesis using digit_char_not_sign [of n] by (simp add: digits_of.simps [of n])
  next
    case False
    then show ?thesis using 1 digit_char_not_sign [of "n mod 10"] by (simp add: digits_of.simps [of n])
  qed
qed

lemma str_index_append: "c \<notin> set xs \<Longrightarrow> str_index c (xs @ c # ys) = Some (length xs)"
  by (induction xs) auto

lemma version_index:
  assumes "0 \<le> n"
  shows "str_index (CHR ''-'') (FormatInt n @ ''-'' @ sign) = Some (length (FormatInt n))" "0 < length (FormatInt n)"
  using assms digits_no_dash [of "nat n"] by (auto simp: FormatInt_def str_index_append)

text \<open>
  The version of a group is stable: once it is in the status, it is computed again for every later group of which the same is signed, whatever
  its generation.
\<close>

theorem calculateShardGroupSign_stable:
  assumes "calculateShardGroupSign e g = Inr v" "0 \<le> sg_Generation g"
    and "sign_spec (sg_Spec g') = sign_spec (sg_Spec g)" "sgs_ShardGroupVersion (sg_Status g') = v"
  shows "calculateShardGroupSign e g' = Inr v"
proof -
  obtain sign where s: "sign_group e (sign_spec (sg_Spec g)) = Some sign"
    using assms(1) by (auto simp: calculateShardGroupSign_def split: option.splits)
  have "v = FormatInt (sg_Generation g) @ ''-'' @ sign \<or> (\<exists>i. str_index (CHR ''-'') v = Some i \<and> i > 0 \<and> drop (i + 1) v = sign)"
    using assms(1) s by (auto simp: calculateShardGroupSign_def Let_def split: option.splits if_splits)
  then have "\<exists>i. str_index (CHR ''-'') v = Some i \<and> i > 0 \<and> drop (i + 1) v = sign"
    using version_index [OF assms(2)] by auto
  then show ?thesis using s assms(3,4) by (auto simp: calculateShardGroupSign_def Let_def)
qed

subsection \<open>Requests\<close>

lemma sg_then_log: "list_all P (fst m) \<Longrightarrow> list_all P (fst n) \<Longrightarrow> list_all P (fst (sg_then m n))"
  by (auto simp: sg_then_def split: option.splits)

lemma sg_send_log [simp]: "fst (sg_send api q) = [q]"
  by (simp add: sg_send_def)

definition creates_missing :: "ShardGroup \<Rightarrow> RollingSet list \<Rightarrow> sg_request \<Rightarrow> bool" where
  "creates_missing g rollingSets q = (case q of CreateRollingSet rs \<Rightarrow> is_used g rs \<and> rs_Name rs \<notin> rs_Name ` set rollingSets | _ \<Rightarrow> False)"

lemma create_log:
  assumes "set ts \<subseteq> set (templates g)"
  shows "list_all (creates_missing g rollingSets) (fst (snd (createRollingsets e api g rollingSets version ts)))"
  using assms
proof (induction ts)
  case (Cons kt ts)
  have "fst kt \<in> set (mkeys (templates g))" using Cons.prems by auto
  then have "list_all (creates_missing g rollingSets) (fst (createRollingSet e api g (snd kt) (shard_name g (fst kt)) version))"
    if "shard_name g (fst kt) \<notin> rs_Name ` set rollingSets"
    using that by (auto simp: createRollingSet_def creates_missing_def is_used_def split: option.splits)
  then show ?case using Cons by (auto simp: Let_def split: prod.splits option.splits)
qed simp

text \<open>A rolling set with a plan of the group scheduler and the version plan of its template.\<close>

definition planned :: "ShardGroup \<Rightarrow> string \<Rightarrow> (string, ShardScheduleParams) gomap \<Rightarrow> RollingSet \<Rightarrow> bool" where
  "planned g version params rs \<longleftrightarrow>
     (\<exists>key t p. (key, t) \<in> set (templates g) \<and> rs_Name rs = shard_name g key \<and> map_of params (rs_Name rs) = Some p \<and>
        rs_SchedulePlan (rs_Spec rs) = ShardScheduleParams.Plan p \<and>
        rs_VersionPlan (rs_Spec rs) = (genVersionPlan version g t)\<lparr>RowComplete := Some (LatestRowComplete p)\<rparr>)"

definition writes_plan :: "ShardGroup \<Rightarrow> string \<Rightarrow> (string, ShardScheduleParams) gomap \<Rightarrow> sg_request \<Rightarrow> bool" where
  "writes_plan g version params q = (case q of UpdateRollingSet rs \<Rightarrow> planned g version params rs | _ \<Rightarrow> False)"

lemma plan_step_ok:
  assumes "kt \<in> set (templates g)" "plan_step e g version params old kt s = Inr s'" "snd s \<longrightarrow> planned g version params (fst s)"
  shows "snd s' \<longrightarrow> planned g version params (fst s')" "rs_Name (fst s') = rs_Name (fst s)"
proof -
  obtain key t where kt: "kt = (key, t)" by (cases kt)
  have "(snd s' \<longrightarrow> planned g version params (fst s')) \<and> rs_Name (fst s') = rs_Name (fst s)"
  proof (cases "shard_name g key = rs_Name (fst s)")
    case True
    then obtain p where p: "map_of params (rs_Name (fst s)) = Some p" "fst s' = apply_template e g t (ShardScheduleParams.Plan p)
        ((genVersionPlan version g t)\<lparr>RowComplete := Some (LatestRowComplete p)\<rparr>) (fst s)"
      using assms(2) by (auto simp: plan_step_def kt Let_def split: prod.splits option.splits)
    have "planned g version params (fst s')"
      unfolding planned_def using assms(1) True p(1)
      by (intro exI [of _ key] exI [of _ t] exI [of _ p]) (simp add: kt p(2) apply_template_def)
    then show ?thesis by (simp add: p(2) apply_template_def)
  next
    case False
    then show ?thesis using assms(2,3) by (auto simp: plan_step_def kt Let_def split: prod.splits)
  qed
  then show "snd s' \<longrightarrow> planned g version params (fst s')" "rs_Name (fst s') = rs_Name (fst s)" by simp_all
qed

lemma plan_steps_ok:
  assumes "sfold (plan_step e g version params old) kts s = Inr s'" "set kts \<subseteq> set (templates g)" "snd s \<longrightarrow> planned g version params (fst s)"
  shows "(snd s' \<longrightarrow> planned g version params (fst s')) \<and> rs_Name (fst s') = rs_Name (fst s)"
  using assms
proof (induction kts arbitrary: s)
  case (Cons kt kts)
  obtain s1 where s1: "plan_step e g version params old kt s = Inr s1" "sfold (plan_step e g version params old) kts s1 = Inr s'"
    using Cons.prems(1) by (auto simp: sbind_Inr)
  note p = plan_step_ok [OF _ s1(1) Cons.prems(3)]
  show ?case using Cons.IH [OF s1(2)] p Cons.prems(2) by simp
qed simp

lemma write_plans_log: "list_all (writes_plan g version params) (fst (snd (write_plans e api g version params rollingSets)))"
proof (induction rollingSets)
  case (Cons rs rollingSets)
  show ?case
  proof (cases "sfold (plan_step e g version params rs) (templates g) (rs, False)")
    case (Inr s)
    then have "snd s \<longrightarrow> planned g version params (fst s)" using plan_steps_ok [OF Inr] by simp
    then have "list_all (writes_plan g version params) (fst (if snd s then sg_send api (UpdateRollingSet (fst s)) else ([], None)))"
      by (simp add: writes_plan_def)
    then show ?thesis using Cons.IH Inr by (auto simp: sg_send_def split: prod.splits option.splits if_splits)
  qed simp
qed simp

lemma group_plans:
  assumes "Group_Schedule env (Some params) = Inr (out, percent)"
  shows "set (mkeys out) = sh_Name ` set (gp_ShardStatus params)"
    "(name, p) \<in> set out \<Longrightarrow> \<exists>shard \<in> set (gp_ShardStatus params). sh_Name shard = name \<and> plan_of_group params shard p"
proof -
  obtain h t q n c where "group_loop env params h t q n c (gp_ShardStatus params) (gp_TargetShardStrategys params) [] = Inr out"
    using assms by (auto simp: Group_Schedule_def Let_def split: prod.splits sum.splits)
  from group_loop_plans [OF this _ order_refl]
  show "set (mkeys out) = sh_Name ` set (gp_ShardStatus params)"
    "(name, p) \<in> set out \<Longrightarrow> \<exists>shard \<in> set (gp_ShardStatus params). sh_Name shard = name \<and> plan_of_group params shard p" by auto
qed

lemma params_shards:
  assumes "initGroupScheduleParams e g rollingSets version = Inr params"
  shows "sh_Name ` set (gp_ShardStatus params) = rs_Name ` set (filter (is_used g) rollingSets)"
proof -
  have used: "is_used g = (\<lambda>rs. rs_Name rs \<in> (\<lambda>x. shard_name g (fst x)) ` set (templates g))" by (simp add: fun_eq_iff is_used_def image_image)
  have "gp_ShardStatus params = map (\<lambda>rs. rollingset_shard (cpu_of_template (roll e)) (role_of g rs)) (filter (is_used g) rollingSets)"
    using assms by (auto simp: initGroupScheduleParams_def Let_def used split: option.splits sum.splits)
  then show ?thesis by (auto simp: rollingset_shard_def role_of_def Let_def image_iff)
qed

text \<open>A write that carries out a schedule of the group.\<close>

definition scheduled_write :: "group_env \<Rightarrow> ShardGroup \<Rightarrow> RollingSet list \<Rightarrow> string \<Rightarrow> RollingSet \<Rightarrow> bool" where
  "scheduled_write e g rollingSets version rs \<longleftrightarrow>
     (\<exists>params shardParams percent p. initGroupScheduleParams e g rollingSets version = Inr params \<and>
        Group_Schedule (algo (roll e)) (Some params) = Inr (shardParams, percent) \<and> planned g version shardParams rs \<and>
        map_of shardParams (rs_Name rs) = Some p \<and>
        (\<exists>shard \<in> set (gp_ShardStatus params). sh_Name shard = rs_Name rs \<and> plan_of_group params shard p))"

text \<open>
  C11. Writing the specifications of the rolling sets of a group that does not take the path for simplified groups carries out the group's schedule: every request of \<open>syncRollingSetSpec\<close>
  is the creation of a shard with a template and without a rolling set, or an update with the plan that the group scheduler made for that shard in this pass and the version of the
  group. (The update with which a rolling set that is no longer used is prepared for its removal belongs to another step.)
\<close>

theorem syncRollingSetSpec_carries_out_schedule:
  assumes "\<not> isSimplifyShardGroup e g rollingSets"
  shows "list_all (\<lambda>q. case q of
      CreateRollingSet rs \<Rightarrow> is_used g rs \<and> rs_Name rs \<notin> rs_Name ` set rollingSets
    | UpdateRollingSet rs \<Rightarrow> scheduled_write e g rollingSets version rs
    | _ \<Rightarrow> False) (fst (snd (syncRollingSetSpec e api g rollingSets version)))" (is "list_all ?ok _")
proof -
  obtain created reqs r where c: "createRollingsets e api g rollingSets version (templates g) = (created, reqs, r)"
    by (cases "createRollingsets e api g rollingSets version (templates g)")
  have cr: "list_all ?ok reqs"
    using create_log [OF order_refl, of g rollingSets e api version] unfolding c
    by (auto simp: list_all_iff creates_missing_def split: sg_request.splits)
  have wr: "list_all ?ok (fst (snd (write_plans e api g version shardParams rollingSets)))"
    if "initGroupScheduleParams e g rollingSets version = Inr params" "Group_Schedule (algo (roll e)) (Some params) = Inr (shardParams, percent)"
    for params shardParams percent
  proof -
    have "scheduled_write e g rollingSets version rs" if pl: "planned g version shardParams rs" for rs
    proof -
      obtain p where p: "map_of shardParams (rs_Name rs) = Some p" using pl by (auto simp: planned_def)
      with pl show ?thesis
        unfolding scheduled_write_def using group_plans(2) [OF \<open>Group_Schedule _ _ = _\<close> map_of_SomeD [OF p]] \<open>initGroupScheduleParams _ _ _ _ = _\<close>
          \<open>Group_Schedule _ _ = _\<close> by blast
    qed
    then show ?thesis
      using write_plans_log [of g version shardParams e api rollingSets] by (auto simp: list_all_iff writes_plan_def split: sg_request.splits)
  qed
  show ?thesis using cr assms by (auto simp: syncRollingSetSpec_def c wr split: sum.splits prod.splits)
qed

lemma plan_step_total:
  assumes "is_used g (fst s) \<longrightarrow> map_of params (rs_Name (fst s)) \<noteq> None" "kt \<in> set (templates g)"
  shows "\<exists>s'. plan_step e g version params old kt s = Inr s' \<and> rs_Name (fst s') = rs_Name (fst s)"
proof -
  obtain key t where kt: "kt = (key, t)" by (cases kt)
  show ?thesis
  proof (cases "shard_name g key = rs_Name (fst s)")
    case True
    then have "rs_Name (fst s) \<in> shard_name g ` set (mkeys (templates g))" using assms(2) kt by (force simp: image_iff)
    then show ?thesis using assms(1) True by (auto simp: plan_step_def kt is_used_def apply_template_def Let_def split: prod.splits)
  next
    case False
    then show ?thesis by (auto simp: plan_step_def kt Let_def split: prod.splits)
  qed
qed

lemma plan_steps_total:
  assumes "is_used g (fst s) \<longrightarrow> map_of params (rs_Name (fst s)) \<noteq> None" "set kts \<subseteq> set (templates g)"
  shows "\<exists>s'. sfold (plan_step e g version params old) kts s = Inr s'"
  using assms
proof (induction kts arbitrary: s)
  case (Cons kt kts)
  obtain s1 where s1: "plan_step e g version params old kt s = Inr s1" "rs_Name (fst s1) = rs_Name (fst s)"
    using plan_step_total [OF Cons.prems(1)] Cons.prems(2) by fastforce
  have "is_used g (fst s1) \<longrightarrow> map_of params (rs_Name (fst s1)) \<noteq> None" using Cons.prems(1) s1(2) by (simp add: is_used_def)
  then show ?case using Cons.IH [of s1] Cons.prems(2) s1(1) by (simp add: sbind_def)
qed simp

lemma write_plans_result:
  assumes "\<forall>rs \<in> set rollingSets. is_used g rs \<longrightarrow> map_of params (rs_Name rs) \<noteq> None"
  shows "case snd (snd (write_plans e api g version params rollingSets)) of None \<Rightarrow> True | Some err \<Rightarrow> \<exists>msg. err = SgApi msg"
  using assms
proof (induction rollingSets)
  case (Cons rs rollingSets)
  obtain rs' need where "sfold (plan_step e g version params rs) (templates g) (rs, False) = Inr (rs', need)"
    using plan_steps_total [of g "(rs, False)" params "templates g" e version rs] Cons.prems by fastforce
  then show ?case using Cons by (auto simp: sg_send_def split: prod.splits option.splits)
qed simp

lemma create_result:
  assumes "sg_Selector (sg_Spec g) \<noteq> None"
  shows "case snd (snd (createRollingsets e api g rollingSets version ts)) of None \<Rightarrow> True | Some err \<Rightarrow> \<exists>msg. err = SgApi msg"
  using assms by (induction ts) (auto simp: createRollingSet_def sg_send_def Let_def split: prod.splits option.splits)

text \<open>
  C29. Every rolling set with a template has a plan: when the group has a selector and a rolling update strategy, then writing the
  specifications fails only with an answer of the API server, an error of the strategy, or one of the group scheduler, and never by looking up a plan that is missing.
\<close>

theorem syncRollingSetSpec_never_misses_a_plan:
  assumes "sg_Selector (sg_Spec g) \<noteq> None" "ds_RollingUpdate (GetStrategy (sg_Spec g)) \<noteq> None"
  shows "snd (snd (syncRollingSetSpec e api g rollingSets version)) \<noteq> Some SgNil"
proof -
  obtain created reqs r where c: "createRollingsets e api g rollingSets version (templates g) = (created, reqs, r)"
    by (cases "createRollingsets e api g rollingSets version (templates g)")
  have r: "r \<noteq> Some SgNil" using create_result [OF assms(1), of e api rollingSets version "templates g"] by (auto simp: c)
  have i: "initGroupScheduleParams e g rollingSets version \<noteq> Inl SgNil"
    using assms(2) by (auto simp: initGroupScheduleParams_def Let_def split: option.splits sum.splits)
  have w: "snd (snd (write_plans e api g version shardParams rollingSets)) \<noteq> Some SgNil"
    if "initGroupScheduleParams e g rollingSets version = Inr params" "Group_Schedule (algo (roll e)) (Some params) = Inr (shardParams, percent)"
    for params shardParams percent
  proof -
    have "map_of shardParams (rs_Name rs) \<noteq> None" if "rs \<in> set rollingSets" "is_used g rs" for rs
    proof -
      have "rs_Name rs \<in> set (mkeys shardParams)"
        unfolding group_plans(1) [OF \<open>Group_Schedule _ _ = _\<close>] params_shards [OF \<open>initGroupScheduleParams _ _ _ _ = _\<close>] using that by auto
      then show ?thesis by (simp add: map_of_eq_None_iff)
    qed
    then have "\<forall>rs \<in> set rollingSets. is_used g rs \<longrightarrow> map_of shardParams (rs_Name rs) \<noteq> None" by blast
    from write_plans_result [OF this, of e api version] show ?thesis by auto
  qed
  have m: "snd (snd (simplifySyncRollingset e api g version rollingSets)) \<noteq> Some SgNil"
    by (auto simp: simplifySyncRollingset_def sg_send_def Let_def split: list.splits prod.splits)
  show ?thesis using r i by (auto simp: syncRollingSetSpec_def c w m split: sum.splits prod.splits)
qed

subsection \<open>Removal\<close>

definition removal_ok :: "(RollingSet \<Rightarrow> bool) \<Rightarrow> sg_request \<Rightarrow> bool" where
  "removal_ok P q = (case q of RemoveRollingSet rs \<Rightarrow> P rs | DeleteShardGroup _ \<Rightarrow> False | _ \<Rightarrow> True)"

lemma deleteUnused_log:
  assumes "\<And>rs'. rs_Name rs' = rs_Name rs \<Longrightarrow> P rs'"
  shows "list_all (removal_ok P) (fst (deleteUnusedRollingSet api rs))"
  unfolding deleteUnusedRollingSet_def Let_def
  by (intro sg_then_log) (auto simp: removal_ok_def assms)

lemma spec_log: "list_all (removal_ok P) (fst (snd (syncRollingSetSpec e api g rollingSets version)))"
proof -
  obtain created reqs r where c: "createRollingsets e api g rollingSets version (templates g) = (created, reqs, r)"
    by (cases "createRollingsets e api g rollingSets version (templates g)")
  have cr: "list_all (removal_ok P) reqs"
    using create_log [OF order_refl, of g rollingSets e api version] unfolding c
    by (auto simp: list_all_iff creates_missing_def removal_ok_def split: sg_request.splits)
  have w: "list_all (removal_ok P) (fst (snd (write_plans e api g version params rollingSets)))" for params
    using write_plans_log [of g version params e api rollingSets] by (auto simp: list_all_iff writes_plan_def removal_ok_def split: sg_request.splits)
  have m: "list_all (removal_ok P) (fst (snd (simplifySyncRollingset e api g version rollingSets)))"
    by (auto simp: simplifySyncRollingset_def removal_ok_def Let_def split: list.splits prod.splits)
  show ?thesis using cr by (auto simp: syncRollingSetSpec_def c w m split: sum.splits prod.splits)
qed

lemma ready_all:
  assumes "length (filter (\<lambda>rs. \<not> is_used g rs) rs) + length (filter P (filter (is_used g) rs)) = length rs"
  shows "list_all P (filter (is_used g) rs)"
proof -
  have "length (filter (is_used g) rs) + length (filter (\<lambda>r. \<not> is_used g r) rs) = length rs" by (rule sum_length_filter_compl)
  then have "length (filter P (filter (is_used g) rs)) = length (filter (is_used g) rs)" using assms by linarith
  then show ?thesis by (metis filter_id_conv length_filter_le length_filter_less list_all_iff nless_le)
qed

lemma status_log:
  assumes "\<And>rs rs'. rs \<in> set rollingSets \<Longrightarrow> \<not> is_used g rs \<Longrightarrow> rs_Name rs' = rs_Name rs \<Longrightarrow>
      list_all (\<lambda>r. \<not> isRollingsetNotComplete g r version) (filter (is_used g) rollingSets) \<Longrightarrow> P rs'"
  shows "list_all (removal_ok P) (fst (syncRollingSetGroupStatus api raw g rollingSets version))"
proof -
  let ?done = "\<lambda>rs. \<not> isRollingsetNotComplete g rs version"
  let ?unused = "filter (\<lambda>rs. \<not> is_used g rs) rollingSets"
  define removals where "removals = (if ?unused \<noteq> [] \<and> length ?unused + length (filter ?done (filter (is_used g) rollingSets)) = length rollingSets
    then concat (map (\<lambda>rs. fst (deleteUnusedRollingSet api rs)) ?unused) else [])"
  have r: "list_all (removal_ok P) removals"
  proof (cases "length ?unused + length (filter ?done (filter (is_used g) rollingSets)) = length rollingSets")
    case True
    from ready_all [OF this] have "list_all (removal_ok P) (fst (deleteUnusedRollingSet api rs))" if "rs \<in> set ?unused" for rs
      using that by (intro deleteUnused_log assms [of rs]) auto
    then show ?thesis by (auto simp: removals_def list_all_iff)
  qed (auto simp: removals_def)
  have u: "removal_ok P (UpdateShardGroupStatus g')" for g' by (simp add: removal_ok_def)
  show ?thesis
    unfolding syncRollingSetGroupStatus_def Let_def removals_def [symmetric] using r u by (simp add: sg_then_def)
qed

lemma sync_sets_log:
  assumes "list_all P (fst (snd (syncRollingSetSpec e api g rollingSets version)))"
    "list_all P (fst (syncRollingSetGroupStatus api raw g (fst (syncRollingSetSpec e api g rollingSets version)) version))"
  shows "list_all P (fst (sync_sets e api raw g rollingSets version))"
  using assms
  by (cases "syncRollingSetSpec e api g rollingSets version";
      cases "syncRollingSetGroupStatus api raw g (fst (syncRollingSetSpec e api g rollingSets version)) version") (auto simp: sync_sets_def)

lemma sync_sets_removals:
  "list_all (removal_ok (\<lambda>rs. \<not> is_used g rs \<and>
     list_all (\<lambda>r. \<not> isRollingsetNotComplete g r version) (filter (is_used g) (fst (syncRollingSetSpec e api g rollingSets version)))))
   (fst (sync_sets e api raw g rollingSets version))"
  by (intro sync_sets_log spec_log status_log) (auto simp: is_used_def)

lemma delete_all_log: "list_all (removal_ok (\<lambda>_. True)) (fst (delete_all api rollingSets))"
  by (induction rollingSets) (auto intro!: sg_then_log deleteUnused_log)

lemma delay_log: "list_all P (fst m) \<Longrightarrow> P SgEnqueueAfter \<Longrightarrow> list_all P (fst (delayProcessError m))"
  by (simp add: delayProcessError_def split: option.splits)

lemma sync_group_log:
  assumes "sg_DeletionTimestamp g \<noteq> None \<longrightarrow> rollingSets \<noteq> []"
  shows "list_all (removal_ok (\<lambda>_. True)) (fst (sync_group e api g rollingSets))"
proof -
  have "list_all (removal_ok (\<lambda>_. True)) (fst (sync_sets e api raw g' rollingSets version))" for raw g' version
    by (intro sync_sets_log spec_log status_log) simp
  then show ?thesis
    using assms delete_all_log by (auto simp: sync_group_def syncRollingSetGC_def Let_def split: sum.splits)
qed

text \<open>The group as a pass works on it, with the templates unpacked and their pod version set.\<close>

definition working_group :: "group_env \<Rightarrow> ShardGroup \<Rightarrow> sg_error + ShardGroup" where
  "working_group e g =
     map_sum id (\<lambda>g'. g'\<lparr>sg_Spec := (sg_Spec g')\<lparr>ShardTemplates := map (\<lambda>(key, t). (key, SetDefaultPodVersion e t)) (templates g')\<rparr>\<rparr>) (DecompressShardTemplates e g)"

text \<open>
  C12. A pass over a group removes a rolling set only when the group is being deleted, which takes all of them, or when no template of the group has its name and every rolling
  set with a template, as this pass has planned it, is complete at the version of the group; and it deletes the group only when that is being deleted and no rolling set is left.
\<close>

theorem sync_group_removes_safely:
  "list_all (\<lambda>q. case q of
      RemoveRollingSet rs \<Rightarrow> (case sg_DeletionTimestamp g of
        Some _ \<Rightarrow> True
      | None \<Rightarrow> \<exists>g' version. working_group e g = Inr g' \<and> calculateShardGroupSign e g' = Inr version \<and> \<not> is_used g' rs \<and>
          list_all (\<lambda>r. \<not> isRollingsetNotComplete g' r version) (filter (is_used g') (fst (syncRollingSetSpec e api g' rollingSets version))))
    | DeleteShardGroup _ \<Rightarrow> sg_DeletionTimestamp g \<noteq> None \<and> rollingSets = []
    | _ \<Rightarrow> True) (fst (sync_group e api g rollingSets))" (is "list_all ?ok _")
proof (cases "sg_DeletionTimestamp g")
  case None
  show ?thesis
  proof (cases "fst (sync_group e api g rollingSets) = []")
    case False
    then obtain g' version where w: "working_group e g = Inr g'" "calculateShardGroupSign e g' = Inr version"
      and s: "sync_group e api g rollingSets = sync_sets e api g g' rollingSets version"
      using None by (auto simp: sync_group_def working_group_def Let_def split: sum.splits)
    have "?ok q" if "removal_ok (\<lambda>rs. \<not> is_used g' rs \<and>
        list_all (\<lambda>r. \<not> isRollingsetNotComplete g' r version) (filter (is_used g') (fst (syncRollingSetSpec e api g' rollingSets version)))) q" for q
      using that w None by (auto simp: removal_ok_def split: sg_request.splits)
    then show ?thesis using sync_sets_removals [of g' version e api rollingSets g] unfolding s list_all_iff by blast
  qed simp
next
  case (Some t)
  show ?thesis
  proof (cases "rollingSets = []")
    case True
    then show ?thesis using Some by (auto simp: list_all_iff split: sg_request.split)
  next
    case False
    then have "list_all (removal_ok (\<lambda>_. True)) (fst (sync_group e api g rollingSets))" by (intro sync_group_log) simp
    then show ?thesis using Some by (auto simp: list_all_iff removal_ok_def split: sg_request.splits)
  qed
qed

text \<open>
  The group is deleted last: a pass asks for its deletion only when it is marked for deletion and no rolling set of it is left.
\<close>

theorem Sync_deletes_group_last:
  "list_all (\<lambda>q. case q of DeleteShardGroup _ \<Rightarrow> sg_DeletionTimestamp g \<noteq> None \<and> list_rolling_sets e g = Inr [] | _ \<Rightarrow> True)
     (fst (Sync e api (GroupFound g)))" (is "list_all ?P _")
proof -
  have q: "removal_ok (\<lambda>_. True) x \<Longrightarrow> ?P x" for x by (cases x) (auto simp: removal_ok_def)
  have s: "list_all ?P (fst (sync_group e api g rollingSets))" if "getRollingSetForShardGroup e g = Inr rollingSets" for rollingSets
  proof (cases "sg_DeletionTimestamp g \<noteq> None \<and> rollingSets = []")
    case True
    then have "list_rolling_sets e g = Inr []"
      using that by (auto simp: getRollingSetForShardGroup_def split: sum.splits elim: with_status.elims)
    then show ?thesis using True by (auto simp: list_all_iff split: sg_request.splits)
  next
    case False
    then show ?thesis using sync_group_log [of g rollingSets e api] q by (auto simp: list_all_iff)
  qed
  define Q where "Q = ?P"
  have "Q SgEnqueueAfter" "Q (UpdateShardGroup x)" for x by (simp_all add: Q_def)
  then have "list_all Q (fst (Sync e api (GroupFound g)))"
    using s unfolding Q_def [symmetric]
    by (auto simp: Sync_def Let_def split: ShardDeployType.splits sum.splits intro!: delay_log)
  then show ?thesis unfolding Q_def .
qed

subsection \<open>The status of the group\<close>

lemma shard_name_inj: "shard_name g k = shard_name g k' \<longleftrightarrow> k = k'"
  by (simp add: GenerateShardName_def)

lemma all_ready:
  fixes P :: "RollingSet \<Rightarrow> bool"
  assumes "wf_map (templates g)" "distinct (map rs_Name rollingSets)"
  shows "length (templates g) = length (filter P (filter (is_used g) rollingSets)) \<longleftrightarrow>
    list_all (\<lambda>key. list_ex (\<lambda>rs. rs_Name rs = shard_name g key \<and> P rs) rollingSets) (mkeys (templates g))"
proof -
  let ?ready = "filter P (filter (is_used g) rollingSets)"
  let ?T = "shard_name g ` set (mkeys (templates g))"
  have r: "length ?ready = card (rs_Name ` set ?ready)"
  proof -
    have "distinct (map rs_Name ?ready)" using assms(2) by (simp add: distinct_map_filter)
    then show ?thesis by (metis distinct_card length_map set_map)
  qed
  have t: "length (templates g) = card ?T"
  proof -
    have "inj_on (shard_name g) (set (mkeys (templates g)))" by (simp add: inj_on_def shard_name_inj)
    then show ?thesis using assms(1) by (metis card_image distinct_card length_map)
  qed
  have sub: "rs_Name ` set ?ready \<subseteq> ?T" by (auto simp: is_used_def)
  have "length (templates g) = length ?ready \<longleftrightarrow> rs_Name ` set ?ready = ?T"
    unfolding r t using card_subset_eq [OF _ sub] by (metis List.finite_set finite_imageI)
  also have "\<dots> \<longleftrightarrow> ?T \<subseteq> rs_Name ` set ?ready" using sub by (metis order_refl subset_antisym)
  also have "\<dots> \<longleftrightarrow> list_all (\<lambda>key. list_ex (\<lambda>rs. rs_Name rs = shard_name g key \<and> P rs) rollingSets) (mkeys (templates g))"
  proof -
    have "shard_name g key \<in> rs_Name ` set ?ready \<longleftrightarrow> list_ex (\<lambda>rs. rs_Name rs = shard_name g key \<and> P rs) rollingSets"
      if "key \<in> set (mkeys (templates g))" for key
    proof -
      have "is_used g rs" if "rs_Name rs = shard_name g key" for rs using that \<open>key \<in> _\<close> by (simp add: is_used_def)
      then show ?thesis by (auto simp: list_ex_iff image_iff)
    qed
    then show ?thesis unfolding list_all_iff image_subset_iff by blast
  qed
  finally show ?thesis .
qed

text \<open>
  The status says what is there: after it is synchronised, written or found unchanged, the group is complete exactly when every template has a rolling set that is
  complete at the version, when the rolling sets have different names. A written status has the version and leaves the specification as it was.
\<close>

theorem group_status_exact:
  fixes g raw :: ShardGroup and rollingSets :: "RollingSet list" and version :: string
  assumes "wf_map (templates g)" "distinct (map rs_Name rollingSets)"
  defines "finished \<equiv> list_all (\<lambda>key. list_ex (\<lambda>rs. rs_Name rs = shard_name g key \<and> \<not> isRollingsetNotComplete g rs version) rollingSets) (mkeys (templates g))"
  shows "if list_ex (\<lambda>q. case q of UpdateShardGroupStatus _ \<Rightarrow> True | _ \<Rightarrow> False) (fst (syncRollingSetGroupStatus api raw g rollingSets version))
    then list_all (\<lambda>q. case q of UpdateShardGroupStatus g' \<Rightarrow> sgs_Complete (sg_Status g') = finished \<and> sgs_ShardGroupVersion (sg_Status g') = version \<and>
        sg_Spec g' = sg_Spec raw | _ \<Rightarrow> True) (fst (syncRollingSetGroupStatus api raw g rollingSets version))
    else sgs_Complete (sg_Status g) = finished \<and> sgs_ShardGroupVersion (sg_Status g) = version"
proof -
  let ?done = "\<lambda>rs. \<not> isRollingsetNotComplete g rs version"
  let ?unused = "filter (\<lambda>rs. \<not> is_used g rs) rollingSets"
  define removals where "removals = (if ?unused \<noteq> [] \<and> length ?unused + length (filter ?done (filter (is_used g) rollingSets)) = length rollingSets
    then concat (map (\<lambda>rs. fst (deleteUnusedRollingSet api rs)) ?unused) else [])"
  have f: "(length (templates g) = length (filter ?done (filter (is_used g) rollingSets))) = finished"
    unfolding finished_def by (rule all_ready [OF assms(1,2)])
  have n: "list_all (\<lambda>q. case q of UpdateShardGroupStatus _ \<Rightarrow> False | _ \<Rightarrow> True) removals"
  proof -
    have "list_all (\<lambda>q. case q of UpdateShardGroupStatus _ \<Rightarrow> False | _ \<Rightarrow> True) (fst (deleteUnusedRollingSet api rs))" for rs
      unfolding deleteUnusedRollingSet_def Let_def by (intro sg_then_log) auto
    then show ?thesis by (auto simp: removals_def list_all_iff)
  qed
  then have n': "\<not> list_ex (\<lambda>q. case q of UpdateShardGroupStatus _ \<Rightarrow> True | _ \<Rightarrow> False) removals"
    "list_all (\<lambda>q. case q of UpdateShardGroupStatus g' \<Rightarrow> Q g' | _ \<Rightarrow> True) removals" for Q
    by (auto simp: list_all_iff list_ex_iff split: sg_request.splits)
  show ?thesis
    unfolding syncRollingSetGroupStatus_def Let_def removals_def [symmetric] f using n' by (simp add: sg_then_def)
qed

text \<open>
  C28. The removal does not wait for rolling sets that are still to be created: when the templates are all new, then the same pass that asks for the new rolling sets asks for
  the removal of every old one, although no new one exists yet.
\<close>

theorem replaced_before_ready:
  assumes "templates g \<noteq> []" "sg_Selector (sg_Spec g) \<noteq> None" "list_all (\<lambda>rs. \<not> is_used g rs) rollingSets" "rollingSets \<noteq> []" "\<And>q. api q = None"
  shows "list_all (\<lambda>rs. list_ex (\<lambda>q. case q of RemoveRollingSet rs' \<Rightarrow> rs_Name rs' = rs_Name rs | _ \<Rightarrow> False)
      (fst (sync_sets e api raw g rollingSets version))) rollingSets"
proof -
  obtain created reqs r where c: "createRollingsets e api g rollingSets version (templates g) = (created, reqs, r)"
    by (cases "createRollingsets e api g rollingSets version (templates g)")
  obtain kt ts where kt: "templates g = kt # ts" using assms(1) by (cases "templates g") auto
  have "shard_name g (fst kt) \<notin> rs_Name ` set rollingSets"
    using assms(3) kt by (force simp: list_all_iff is_used_def)
  then have "created" using c by (auto simp: kt Let_def split: prod.splits option.splits)
  moreover have "r = None"
  proof -
    have "snd (snd (createRollingsets e api g rollingSets version xs)) = None" for xs
      using assms(2,5) by (induction xs) (auto simp: createRollingSet_def sg_send_def Let_def split: prod.splits option.splits)
    from this [of "templates g"] show ?thesis by (simp add: c)
  qed
  ultimately have s: "syncRollingSetSpec e api g rollingSets version = (rollingSets, reqs, None)" by (simp add: syncRollingSetSpec_def c)
  have u: "filter (is_used g) rollingSets = []" "filter (\<lambda>rs. \<not> is_used g rs) rollingSets = rollingSets"
    using assms(3) by (auto simp: list_all_iff filter_empty_conv)
  have "\<exists>rs'. RemoveRollingSet rs' \<in> set (fst (deleteUnusedRollingSet api rs)) \<and> rs_Name rs' = rs_Name rs" for rs
    using assms(5) by (auto simp: deleteUnusedRollingSet_def sg_then_def sg_send_def Let_def)
  then have d: "\<exists>rs'. RemoveRollingSet rs' \<in> set (concat (map (\<lambda>rs. fst (deleteUnusedRollingSet api rs)) rollingSets)) \<and> rs_Name rs' = rs_Name rs"
    if "rs \<in> set rollingSets" for rs using that by fastforce
  have "set (concat (map (\<lambda>rs. fst (deleteUnusedRollingSet api rs)) rollingSets)) \<subseteq> set (fst (syncRollingSetGroupStatus api raw g rollingSets version))"
    unfolding syncRollingSetGroupStatus_def Let_def u using assms(4) by (auto simp: sg_then_def)
  then have "set (concat (map (\<lambda>rs. fst (deleteUnusedRollingSet api rs)) rollingSets)) \<subseteq> set (fst (sync_sets e api raw g rollingSets version))"
    by (auto simp: sync_sets_def s split: prod.splits)
  then have "\<exists>q \<in> set (fst (sync_sets e api raw g rollingSets version)). case q of RemoveRollingSet rs' \<Rightarrow> rs_Name rs' = rs_Name rs | _ \<Rightarrow> False"
    if "rs \<in> set rollingSets" for rs using d [OF that] by (auto intro!: bexI)
  then show ?thesis unfolding list_all_iff list_ex_iff by blast
qed

subsection \<open>Examples\<close>

text \<open>A group with one template, and a rolling set of another name.\<close>

definition sample_shard_template :: ShardTemplate where
  "sample_shard_template = \<lparr>sht_Labels = None, sht_Annotations = None, sht_Replicas = Some 2, sht_DependencyLevel = None, sht_Strategy = None,
     sht_CustomInfo = [], sht_CompressedCustomInfo = [], sht_Signature = [], sht_UserDefVersion = [], sht_Preload = False,
     sht_Template = \<lparr>tmpl_Labels = None, tmpl_Annotations = None, tmpl_RestartPolicy = [], tmpl_SchedulerName = [], tmpl_Containers = []\<rparr>,
     sht_HealthCheckerConfig = None, sht_Online = None, sht_UpdatingGracefully = None, sht_Cm2TopoInfo = []\<rparr>"

definition sample_shardgroup :: ShardGroup where
  "sample_shardgroup = \<lparr>sg_Name = ''g'', sg_Namespace = ''ns'', sg_Labels = None, sg_Annotations = None, sg_Generation = 3, sg_DeletionTimestamp = None,
     sg_Finalizers = [], sg_Spec = \<lparr>sg_Selector = Some None, sg_Paused = False, sg_LatestPercent = Some 100, sg_MaxUnavailable = None, sg_MaxSurge = None,
       sg_ScaleStrategy = None, sg_ScaleConfig = None, sg_RollingStrategy = [], sg_WorkerSchedulePlan = WorkerSchedulePlan.truncate empty_plan,
       sg_UpdatingGracefully = None, sg_RestartAfterResourceChange = None, ShardTemplates = [(''s0'', sample_shard_template)],
       CompressedShardTemplates = [], ShardDeployStrategy = RollingSetType, sg_UpdatePlanTimestamp = 0\<rparr>,
     sg_Status = \<lparr>sgs_ObservedGeneration = 0, sgs_ShardGroupVersion = [], sgs_Phase = ShardGroupPhaseEmpty, ShardNames = None,
       OnceCompletedShardNames = [], sgs_Complete = False\<rparr>\<rparr>"

lemmas sample_group_defs = sample_shardgroup_def sample_shard_template_def

theorem calculateShardGroupSign_stable_witness:
  "\<forall>e. calculateShardGroupSign (e\<lparr>sign_group := \<lambda>_. Some ''ab''\<rparr>)
     (sample_shardgroup\<lparr>sg_Generation := 9, sg_Status := (sg_Status sample_shardgroup)\<lparr>sgs_ShardGroupVersion := ''3-ab''\<rparr>\<rparr>) = Inr ''3-ab''"
proof
  fix e :: group_env
  have "FormatInt 3 = ''3''" by (simp add: FormatInt_def digits_of.simps char_of_def) code_simp
  then have "calculateShardGroupSign (e\<lparr>sign_group := \<lambda>_. Some ''ab''\<rparr>) sample_shardgroup = Inr ''3-ab''"
    by (simp add: calculateShardGroupSign_def sample_shardgroup_def)
  from calculateShardGroupSign_stable [OF this, of "sample_shardgroup\<lparr>sg_Generation := 9,
      sg_Status := (sg_Status sample_shardgroup)\<lparr>sgs_ShardGroupVersion := ''3-ab''\<rparr>\<rparr>"]
  show "calculateShardGroupSign (e\<lparr>sign_group := \<lambda>_. Some ''ab''\<rparr>)
     (sample_shardgroup\<lparr>sg_Generation := 9, sg_Status := (sg_Status sample_shardgroup)\<lparr>sgs_ShardGroupVersion := ''3-ab''\<rparr>\<rparr>) = Inr ''3-ab''"
    by (simp add: sample_shardgroup_def)
qed

text \<open>The rolling set of the template, at another version of the group, is updated.\<close>

definition planned_set :: RollingSet where
  "planned_set = sample_set\<lparr>rs_Name := ''g.s0''\<rparr>"

lemma planned_set_updated:
  assumes "json_VersionPlan e = ShardGroupVersion" "algo (roll e) = RollTypes.sample_env"
  shows "\<exists>rs. UpdateRollingSet rs \<in> set (fst (snd (syncRollingSetSpec e (\<lambda>_. None) sample_shardgroup [planned_set, sample_set] ''v'')))"
proof -
  let ?sets = "[planned_set, sample_set]"
  have names: "shard_name sample_shardgroup ''s0'' = ''g.s0''" "rs_Name planned_set = ''g.s0''" "templates sample_shardgroup = [(''s0'', sample_shard_template)]"
    by (simp_all add: sample_shardgroup_def GenerateShardName_def planned_set_def)
  have used: "is_used sample_shardgroup planned_set" using names by (simp add: is_used_def)
  have create: "createRollingsets e (\<lambda>_. None) sample_shardgroup ?sets ''v'' (templates sample_shardgroup) = (False, [], None)" using names by simp
  have strategies: "target_strategies sample_shardgroup ?sets = []"
    using names by (simp add: target_strategies_def sample_shard_template_def planned_set_def sample_set_def GetScaleStrategy_def)
  have ru: "ds_RollingUpdate (GetStrategy (sg_Spec sample_shardgroup)) = Some \<lparr>ru_MaxUnavailable = None, ru_MaxSurge = None\<rparr>" "sg_MaxSurge (sg_Spec sample_shardgroup) = None"
    by (simp_all add: GetStrategy_def sample_shardgroup_def)
  obtain fence where "ResolveFenceposts (algo (roll e)) None None 100 = Inr fence" by (simp add: ResolveFenceposts_def Let_def assms(2) RollTypes.sample_env_def)
  then obtain params where params: "initGroupScheduleParams e sample_shardgroup ?sets ''v'' = Inr params" "gp_TargetShardStrategys params = []"
    using strategies ru by (cases fence) (auto simp: initGroupScheduleParams_def Let_def)
  obtain plans percent where plans: "Group_Schedule (algo (roll e)) (Some params) = Inr (plans, percent)"
    using Group_Schedule_returns [OF params(2)] by blast
  have "''g.s0'' \<in> set (mkeys plans)"
    using group_plans(1) [OF plans] params_shards [OF params(1)] used names(2) by auto
  then obtain p where p: "map_of plans ''g.s0'' = Some p" by (metis map_of_eq_None_iff not_None_eq set_map)
  let ?rs = "apply_template e sample_shardgroup sample_shard_template (ShardScheduleParams.Plan p)
    ((genVersionPlan ''v'' sample_shardgroup sample_shard_template)\<lparr>RowComplete := Some (LatestRowComplete p)\<rparr>) planned_set"
  have need: "sg_needUpdate e planned_set ?rs sample_shard_template"
    by (simp add: sg_needUpdate_def apply_template_def assms(1) genVersionPlan_def Let_def planned_set_def sample_set_def empty_plan_def
        ShardSpec_GetReplicas_def sample_shard_template_def)
  have "sfold (plan_step e sample_shardgroup ''v'' plans planned_set) (templates sample_shardgroup) (planned_set, False) = Inr (?rs, True)"
    using p need names by (simp add: plan_step_def sbind_def Let_def)
  then have "UpdateRollingSet ?rs \<in> set (fst (snd (write_plans e (\<lambda>_. None) sample_shardgroup ''v'' plans ?sets)))"
    by (simp add: sg_send_def split: prod.split)
  moreover have "\<not> isSimplifyShardGroup e sample_shardgroup ?sets" by (simp add: isSimplifyShardGroup_def)
  ultimately show ?thesis using create params(1) plans by (auto simp: syncRollingSetSpec_def)
qed

theorem syncRollingSetSpec_carries_out_schedule_witness:
  "\<forall>e. let e' = e\<lparr>json_VersionPlan := ShardGroupVersion, roll := (roll e)\<lparr>algo := RollTypes.sample_env\<rparr>\<rparr> in
     \<exists>rs. UpdateRollingSet rs \<in> set (fst (snd (syncRollingSetSpec e' (\<lambda>_. None) sample_shardgroup [planned_set, sample_set] ''v''))) \<and>
       scheduled_write e' sample_shardgroup [planned_set, sample_set] ''v'' rs"
proof (intro allI)
  fix e :: group_env
  define e' where "e' = e\<lparr>json_VersionPlan := ShardGroupVersion, roll := (roll e)\<lparr>algo := RollTypes.sample_env\<rparr>\<rparr>"
  obtain rs where "UpdateRollingSet rs \<in> set (fst (snd (syncRollingSetSpec e' (\<lambda>_. None) sample_shardgroup [planned_set, sample_set] ''v'')))"
    using planned_set_updated [of e'] by (auto simp: e'_def)
  moreover from this have "scheduled_write e' sample_shardgroup [planned_set, sample_set] ''v'' rs"
    using syncRollingSetSpec_carries_out_schedule [where e = e' and g = sample_shardgroup and rollingSets = "[planned_set, sample_set]" and api = "\<lambda>_. None" and version = "''v''"]
    by (auto simp: isSimplifyShardGroup_def list_all_iff)
  ultimately show "let e' = e\<lparr>json_VersionPlan := ShardGroupVersion, roll := (roll e)\<lparr>algo := RollTypes.sample_env\<rparr>\<rparr> in
     \<exists>rs. UpdateRollingSet rs \<in> set (fst (snd (syncRollingSetSpec e' (\<lambda>_. None) sample_shardgroup [planned_set, sample_set] ''v''))) \<and>
       scheduled_write e' sample_shardgroup [planned_set, sample_set] ''v'' rs"
    unfolding Let_def e'_def [symmetric] by blast
qed

theorem syncRollingSetSpec_never_misses_a_plan_witness:
  "\<forall>e api. snd (snd (syncRollingSetSpec e api sample_shardgroup [sample_set] ''v'')) \<noteq> Some SgNil"
  by (intro allI syncRollingSetSpec_never_misses_a_plan) (simp_all add: sample_shardgroup_def GetStrategy_def)

theorem group_status_exact_witness:
  "\<forall>api. fst (syncRollingSetGroupStatus api sample_shardgroup (sample_shardgroup\<lparr>sg_Spec := (sg_Spec sample_shardgroup)\<lparr>ShardTemplates := []\<rparr>,
       sg_Status := (sg_Status sample_shardgroup)\<lparr>sgs_Phase := ShardGroupRunning, ShardNames := Some [], sgs_ShardGroupVersion := ''v'', sgs_Complete := True\<rparr>\<rparr>) [] ''v'') = [] \<and>
     sgs_Complete (sg_Status (sample_shardgroup\<lparr>sg_Spec := (sg_Spec sample_shardgroup)\<lparr>ShardTemplates := []\<rparr>,
       sg_Status := (sg_Status sample_shardgroup)\<lparr>sgs_Phase := ShardGroupRunning, ShardNames := Some [], sgs_ShardGroupVersion := ''v'', sgs_Complete := True\<rparr>\<rparr>))"
proof
  fix api
  let ?g = "sample_shardgroup\<lparr>sg_Spec := (sg_Spec sample_shardgroup)\<lparr>ShardTemplates := []\<rparr>,
       sg_Status := (sg_Status sample_shardgroup)\<lparr>sgs_Phase := ShardGroupRunning, ShardNames := Some [], sgs_ShardGroupVersion := ''v'', sgs_Complete := True\<rparr>\<rparr>"
  have "fst (syncRollingSetGroupStatus api sample_shardgroup ?g [] ''v'') = []"
    by (simp add: syncRollingSetGroupStatus_def go_sort_def)
  then show "fst (syncRollingSetGroupStatus api sample_shardgroup ?g [] ''v'') = [] \<and> sgs_Complete (sg_Status ?g)"
    using group_status_exact [of ?g "[]" api sample_shardgroup "''v''"] by simp
qed

theorem replaced_before_ready_witness:
  "\<forall>e. list_ex (\<lambda>q. case q of RemoveRollingSet rs' \<Rightarrow> rs_Name rs' = ''rs'' | _ \<Rightarrow> False)
     (fst (sync_sets e (\<lambda>_. None) sample_shardgroup sample_shardgroup [sample_set] ''v''))"
proof
  fix e
  have "\<not> is_used sample_shardgroup sample_set" by (simp add: is_used_def sample_shardgroup_def sample_set_def GenerateShardName_def)
  with replaced_before_ready [of sample_shardgroup "[sample_set]" "\<lambda>_. None" e sample_shardgroup "''v''"]
  show "list_ex (\<lambda>q. case q of RemoveRollingSet rs' \<Rightarrow> rs_Name rs' = ''rs'' | _ \<Rightarrow> False)
     (fst (sync_sets e (\<lambda>_. None) sample_shardgroup sample_shardgroup [sample_set] ''v''))"
    by (simp add: sample_shardgroup_def sample_set_def)
qed

end
