(* ===== verification/AdjusterSafety.thy ===== *)
theory AdjusterSafety
  imports WorkerAdjuster
begin

text \<open>
  What the adjuster guarantees: it never panics and leaves exactly one current worker; a complete worker is not replaced; a worker
  is released or backed up only for a reason and within the recovery quota; synchronising two workers makes them the same; and the
  requests of a whole schedule are safe.
\<close>

subsection \<open>What the decisions depend on\<close>

text \<open>A worker without the fields that roles, bookkeeping and messages change; the predicates on its state do not see them.\<close>

definition canon :: "WorkerNode \<Rightarrow> WorkerNode" where
  "canon w = w\<lparr>Labels := None, Annotations := None,
     Status := (Status w)\<lparr>BecomeCurrentTime := None, LastDeleteBackupTime := 0, BadReasonMessage := []\<rparr>\<rparr>"

lemma canon_fields [simp]:
  "Spec (canon w) = Spec w" "Name (canon w) = Name w" "Namespace (canon w) = Namespace w" "DeletionTimestamp (canon w) = DeletionTimestamp w"
  "CreationTimestamp (canon w) = CreationTimestamp w" "OwnerReferences (canon w) = OwnerReferences w"
  "st_AllocStatus (Status (canon w)) = st_AllocStatus (Status w)" "Phase (Status (canon w)) = Phase (Status w)"
  "Version (Status (canon w)) = Version (Status w)" "ResVersion (Status (canon w)) = ResVersion (Status w)"
  "WorkerMode (Status (canon w)) = WorkerMode (Status w)" "ResourceMatch (Status (canon w)) = ResourceMatch (Status w)"
  "ProcessMatch (Status (canon w)) = ProcessMatch (Status w)" "ProcessReady (Status (canon w)) = ProcessReady (Status w)"
  "WorkerReady (Status (canon w)) = WorkerReady (Status w)" "Reclaim (Status (canon w)) = Reclaim (Status w)"
  "InternalReclaim (Status (canon w)) = InternalReclaim (Status w)" "ToRelease (Status (canon w)) = ToRelease (Status w)"
  "st_HealthStatus (Status (canon w)) = st_HealthStatus (Status w)" "st_HealthCondition (Status (canon w)) = st_HealthCondition (Status w)"
  "st_ServiceStatus (Status (canon w)) = st_ServiceStatus (Status w)" "ServiceConditions (Status (canon w)) = ServiceConditions (Status w)"
  "ServiceOffline (Status (canon w)) = ServiceOffline (Status w)" "ServiceReady (Status (canon w)) = ServiceReady (Status w)"
  "PodReady (Status (canon w)) = PodReady (Status w)" "EntityName (Status (canon w)) = EntityName (Status w)"
  "EntityUid (Status (canon w)) = EntityUid (Status w)" "EntityAlloced (Status (canon w)) = EntityAlloced (Status w)"
  "NotScheduleSeconds (Status (canon w)) = NotScheduleSeconds (Status w)"
  "LastResourceNotMatchtime (Status (canon w)) = LastResourceNotMatchtime (Status w)"
  "LastProcessNotMatchtime (Status (canon w)) = LastProcessNotMatchtime (Status w)"
  "LastProcessNotReadytime (Status (canon w)) = LastProcessNotReadytime (Status w)"
  "LastWorkerNotReadytime (Status (canon w)) = LastWorkerNotReadytime (Status w)"
  "st_UserDefVersion (Status (canon w)) = st_UserDefVersion (Status w)" "IP (Status (canon w)) = IP (Status w)"
  "BadReason (Status (canon w)) = BadReason (Status w)" "Warmup (Status (canon w)) = Warmup (Status w)" "InWarmup (Status (canon w)) = InWarmup (Status w)"
  by (simp_all add: canon_def)

lemma canon_preds [simp]:
  "IsWorkerToRelease (canon w) = IsWorkerToRelease w" "IsWorkerToDelete (canon w) = IsWorkerToDelete w"
  "IsWorkerLost (canon w) = IsWorkerLost w" "IsWorkerFalied (canon w) = IsWorkerFalied w" "IsWorkerDead (canon w) = IsWorkerDead w"
  "IsWorkerIrrecoverable (canon w) = IsWorkerIrrecoverable w" "IsWorkerReleased (canon w) = IsWorkerReleased w"
  "IsWorkerAssigned (canon w) = IsWorkerAssigned w" "IsWorkerUnAssigned (canon w) = IsWorkerUnAssigned w"
  "IsWorkerServiceOffline (canon w) = IsWorkerServiceOffline w" "IsWorkerInnerVerMatch (canon w) = IsWorkerInnerVerMatch w"
  "IsStandbyWorker (canon w) = IsStandbyWorker w" "IsInactiveWorker (canon w) = IsInactiveWorker w" "IsWorkerRunning (canon w) = IsWorkerRunning w"
  "IsWorkerReady (canon w) = IsWorkerReady w" "IsWorkerProcessReady (canon w) = IsWorkerProcessReady w"
  "IsWorkerHealth (canon w) = IsWorkerHealth w" "IsWorkerTypeReady (canon w) = IsWorkerTypeReady w"
  "IsWorkerHealthMatch (canon w) = IsWorkerHealthMatch w" "IsWorkerNotStarted (canon w) = IsWorkerNotStarted w"
  by (simp_all only: IsWorkerToRelease_def IsWorkerToDelete_def IsWorkerLost_def IsWorkerFalied_def IsWorkerDead_def IsWorkerReleased_def
      IsWorkerIrrecoverable_def IsWorkerAssigned_def IsWorkerUnAssigned_def IsWorkerServiceOffline_def IsWorkerInnerVerMatch_def
      IsStandbyWorker_def IsInactiveWorker_def IsWorkerRunning_def IsWorkerReady_def IsWorkerProcessReady_def IsWorkerHealth_def
      IsWorkerTypeReady_def IsWorkerHealthMatch_def IsDaemonWorker_def IsWorkerNotStarted_def canon_fields)

lemma canon_versions [simp]:
  "IsWorkerVersionMisMatch (canon w) = IsWorkerVersionMisMatch w" "IsVersionMatch (canon w) = IsVersionMatch w"
  "IsResVersionMatch (canon w) = IsResVersionMatch w" "IsWorkerHealthInfoReady (canon w) = IsWorkerHealthInfoReady w"
  "NeedReclaimByService e (canon w) = NeedReclaimByService e w" "IsWorkerReclaiming (canon w) = IsWorkerReclaiming w"
  "IsWorkerServiceMatch (canon w) = IsWorkerServiceMatch w"
  by (simp_all only: IsWorkerVersionMisMatch_def IsVersionMatch_def IsResVersionMatch_def IsWorkerHealthInfoReady_def
      NeedReclaimByService_def IsWorkerReclaiming_def IsWorkerServiceMatch_def IsWorkerLatestVersionAvailable_def IsWorkerOnline_def
      canon_fields canon_preds)

lemma canon_state [simp]:
  "IsWorkerComplete e (canon w) = IsWorkerComplete e w" "IsWorkerBroken e (canon w) v = IsWorkerBroken e w v"
  "GetWorkerBadState e (canon w) v = GetWorkerBadState e w v"
  by (simp_all only: IsWorkerComplete_def IsWorkerMatch_def IsWorkerUpdateMatch_def IsStandByWorkerComplete_def IsWorkerBroken_def
      IsWorkerLongtimeNotMatch_def IsWorkerLongtimeNotSchedule_def IsWorkerProcessLongtimeNotMatch_def GetWorkerBadState_def
      IsWorkerProcessLongtimeNotReady_def IsWorkerLongtimeNotReady_def canon_fields canon_preds canon_versions)

text \<open>The operations that leave the canonical worker as it is.\<close>

lemma canon_ops [simp]:
  "canon (SetWorkerBackup w) = canon w" "canon (RemoveEvictFailedMsg w) = canon w" "canon (SetEvictFailedMsg m w) = canon w"
  "canon (SetWorkerProhibit e b w) = canon w" "canon (w\<lparr>Labels := l\<rparr>) = canon w" "canon (w\<lparr>Annotations := l\<rparr>) = canon w"
  "canon (set_status (\<lambda>s. s\<lparr>LastDeleteBackupTime := t\<rparr>) w) = canon w"
  by (simp_all add: canon_def SetWorkerBackup_def RemoveEvictFailedMsg_def removeAnnotation_def SetEvictFailedMsg_def setAnnotation_def
      SetWorkerProhibit_def)

lemma syncBackupState_canon [simp]: "canon (syncBackupState e w b) = canon w"
  by (simp add: syncBackupState_def split: option.split)

text \<open>Two workers with the same canonical worker look the same to the decisions.\<close>

lemma same_canon:
  assumes "canon w' = canon w"
  shows "IsWorkerComplete e w' = IsWorkerComplete e w" "GetWorkerBadState e w' v = GetWorkerBadState e w v"
    "IsWorkerToRelease w' = IsWorkerToRelease w" "IsWorkerToDelete w' = IsWorkerToDelete w" "IsWorkerDead w' = IsWorkerDead w"
    "IsWorkerIrrecoverable w' = IsWorkerIrrecoverable w" "Spec w' = Spec w" "Name w' = Name w" "Namespace w' = Namespace w"
    "IsWorkerUnAssigned w' = IsWorkerUnAssigned w" "IsWorkerAssigned w' = IsWorkerAssigned w"
  using assms canon_state canon_preds canon_fields by metis+

subsection \<open>Roles\<close>

text \<open>What the label helpers of Kubernetes do: they write the label, in a new map when there is none.\<close>

definition label_ops :: "worker_env \<Rightarrow> bool" where
  "label_ops e \<longleftrightarrow> (\<forall>m k v. k \<noteq> [] \<longrightarrow> AddLabel e m k v = sput k v m \<and> CloneAndAddLabel e m k v = sput k v m)"

lemma label_opsD:
  assumes "label_ops e" "k \<noteq> []"
  shows "AddLabel e m k v = sput k v m" "CloneAndAddLabel e m k v = sput k v m"
  using assms by (simp_all add: label_ops_def)

lemma sample_label_ops: "label_ops sample_env"
  by (simp add: label_ops_def sample_env_def)

abbreviation role :: "WorkerNode \<Rightarrow> string" where
  "role w \<equiv> sget (Labels w) WorkerRoleKey"

definition keeps_role :: "WorkerNode \<Rightarrow> WorkerNode \<Rightarrow> bool" where
  "keeps_role w w' \<longleftrightarrow> role w' = role w \<and> BecomeCurrentTime (Status w') = BecomeCurrentTime (Status w)"

lemma keeps_role_refl [simp]: "keeps_role w w"
  by (simp add: keeps_role_def)

lemma keeps_role_trans: "keeps_role u v \<Longrightarrow> keeps_role v w \<Longrightarrow> keeps_role u w"
  by (simp add: keeps_role_def)

lemma keeps_role_ops:
  "keeps_role w (SetWorkerToRelease w)" "keeps_role w (SetBadReason r w)" "keeps_role w (RemoveEvictFailedMsg w)"
  "keeps_role w (SetEvictFailedMsg m w)" "keeps_role w (w\<lparr>Labels := sdel LabelKeyHippoPreference (Labels w)\<rparr>)"
  "keeps_role w (set_status (\<lambda>s. s\<lparr>LastDeleteBackupTime := t\<rparr>) w)"
  by (simp_all add: keeps_role_def worker_setters RemoveEvictFailedMsg_def removeAnnotation_def SetEvictFailedMsg_def setAnnotation_def)

lemma syncBackupState_role: "keeps_role w (syncBackupState e w b)"
  by (simp add: syncBackupState_def keeps_role_ops split: option.split)

lemma keeps_role_prohibit:
  assumes "label_ops e"
  shows "keeps_role w (SetWorkerProhibit e b w)" "keeps_role w (ReleaseWorker e b w)"
  by (simp_all add: keeps_role_def SetWorkerProhibit_def ReleaseWorker_def label_opsD [OF assms])

lemma shouldReleaseBackupNow_role: "keeps_role w (fst (shouldReleaseBackupNow e w))"
  by (simp add: shouldReleaseBackupNow_def Let_def keeps_role_def)

definition cur_ok :: "WorkerNode \<Rightarrow> bool" where
  "cur_ok w \<longleftrightarrow> IsCurrentWorker w \<and> BecomeCurrentTime (Status w) \<noteq> None"

lemma keeps_role_ok:
  assumes "keeps_role w w'"
  shows "cur_ok w' = cur_ok w" "IsBackupWorker w' = IsBackupWorker w"
  using assms by (simp_all add: keeps_role_def cur_ok_def IsCurrentWorker_def IsBackupWorker_def)

lemma role_labelled: "cur_ok w \<Longrightarrow> Labels w \<noteq> None" "IsBackupWorker w \<Longrightarrow> Labels w \<noteq> None"
  by (cases "Labels w"; simp add: cur_ok_def IsCurrentWorker_def IsBackupWorker_def)+

lemma SetWorkerCurrent_ok: "cur_ok (SetWorkerCurrent e w)"
  by (simp add: cur_ok_def SetWorkerCurrent_def SetBadReason_def IsCurrentWorker_def)

text \<open>One of the two workers is current, the other, when there is one, is its backup.\<close>

definition settled2 :: "WorkerNode \<Rightarrow> WorkerNode option \<Rightarrow> bool" where
  "settled2 w p \<longleftrightarrow>
     (case p of None \<Rightarrow> cur_ok w | Some x \<Rightarrow> (cur_ok w \<and> IsBackupWorker x) \<or> (IsBackupWorker w \<and> cur_ok x))"

definition settled :: "'c adjuster \<Rightarrow> bool" where
  "settled a \<longleftrightarrow> settled2 (ad_worker a) (ad_pair a)"

lemma settled2_swap: "settled2 c (Some b) \<longleftrightarrow> settled2 b (Some c)"
  by (auto simp: settled2_def)

lemma settled2_keeps:
  "keeps_role c c' \<Longrightarrow> settled2 c' p = settled2 c p" "keeps_role b b' \<Longrightarrow> settled2 c (Some b') = settled2 c (Some b)"
  by (auto simp: settled2_def keeps_role_ok split: option.split)

lemma sync_old_role:
  assumes "label_ops e" "Labels old \<noteq> None"
  shows "\<exists>old'. sync_old e new old = Inr old' \<and> keeps_role old old' \<and> IsWorkerToRelease old' = IsWorkerToRelease old"
proof -
  define o1 where "o1 = set_spec (\<lambda>s. s\<lparr>Spec_ResVersion := Spec_ResVersion (Spec new), Spec_Version := Spec_Version (Spec new),
    Spec_VersionPlan := Plan new, Spec_WorkerMode := Spec_WorkerMode (Spec new), DependencyReady := DependencyReady (Spec new)\<rparr>) old"
  define o2 where "o2 = SetGangInfo (GetGangInfo new) (SetQuotaID e (GetQuotaID new) o1)"
  define o3 where "o3 = (if IsGangMainPart (Template (Plan new)) then SetGangPlan (GetGangPlan new) o2
    else o2\<lparr>Annotations := sdel AnnoGangPlan (Annotations o2)\<rparr>)"
  have l: "Labels o3 = (if GetQuotaID new = [] then Labels old else sput LabelKeyQuotaGroupID (GetQuotaID new) (Labels old))" "Status o3 = Status old"
    "DeletionTimestamp o3 = DeletionTimestamp old" "ToDelete (Spec o3) = ToDelete (Spec old)" "Releasing (Spec o3) = Releasing (Spec old)"
    by (simp_all add: o3_def o2_def o1_def SetGangPlan_def SetGangInfo_def setAnnotation_def SetQuotaID_def setLabel_def label_opsD [OF assms(1)])
  have "Labels o3 \<noteq> None" unfolding l(1) using assms(2) by (simp del: not_None_eq)
  then obtain m where m: "Labels o3 = Some m" by blast
  have "sync_old e new old = Inr (o3\<lparr>Labels := Some (smerge (shared_labels (Labels new)) m)\<rparr>)"
    unfolding sync_old_def Let_def o1_def [symmetric] o2_def [symmetric] o3_def [symmetric] m by simp
  moreover have "Mapping.lookup (shared_labels (Labels new)) WorkerRoleKey = None"
    by (simp add: shared_labels_def lookup_filter split: option.split)
  moreover have "sget (Some m) WorkerRoleKey = role old" unfolding m [symmetric] l(1) by simp
  ultimately show ?thesis by (simp add: keeps_role_def IsWorkerToRelease_def l(2-))
qed

lemma syncWorkers_role:
  assumes "label_ops e" "Labels c \<noteq> None" "Labels b \<noteq> None"
  shows "\<exists>c' b'. syncWorkers e c b = Inr (c', b') \<and> keeps_role c c' \<and> keeps_role b b' \<and>
    IsWorkerToRelease c' = IsWorkerToRelease c \<and> IsWorkerToRelease b' = IsWorkerToRelease b"
  using sync_old_role [OF assms(1,3), of c] sync_old_role [OF assms(1,2), of b] by (auto simp: syncWorkers_def)

lemma adjust_backup_role:
  assumes "label_ops e" "adjust_backup e v r c b = (c', b', q)" "cur_ok c" "IsBackupWorker b"
  shows "settled2 c' (Some b')"
proof -
  define b1 where "b1 = SetBadReason (GetWorkerBadState e b v) b"
  define cb where "cb = (if couldSwapWorkers e c b1 then SwapAndReleaseBackup e c b1 else (c, b1))"
  define b2 where "b2 = fst (shouldReleaseBackupNow e (snd cb))"
  define b3 where "b3 = (if snd (snd (shouldReleaseBackupNow e (snd cb))) then ReleaseWorker e True b2 else b2)"
  define c3 where "c3 = (if r = BadReasonNone then (fst cb)\<lparr>Labels := sdel LabelKeyHippoPreference (Labels (fst cb))\<rparr> else fst cb)"
  have "IsBackupWorker b1" using assms(4) keeps_role_ok(2) [OF keeps_role_ops(2)] by (simp add: b1_def)
  then have s: "settled2 (fst cb) (Some (snd cb))"
    using assms(3) by (simp add: cb_def SwapAndReleaseBackup_def settled2_def SetWorkerCurrent_ok)
  have "(c', b') \<in> {(c3, b3), (fst cb, set_status (\<lambda>s. s\<lparr>LastDeleteBackupTime := 0\<rparr>) (snd cb))}"
    using assms(2) unfolding adjust_backup_def Let_def b1_def [symmetric] cb_def [symmetric] split_beta b2_def [symmetric]
      b3_def [symmetric] c3_def [symmetric] by (auto split: if_splits)
  moreover have "keeps_role (snd cb) b3"
    using keeps_role_trans [OF shouldReleaseBackupNow_role [of "snd cb" e] keeps_role_prohibit(2) [OF assms(1)]]
      shouldReleaseBackupNow_role by (simp add: b3_def b2_def)
  moreover have "keeps_role (fst cb) c3" by (simp add: c3_def keeps_role_ops)
  moreover have "keeps_role (snd cb) (set_status (\<lambda>s. s\<lparr>LastDeleteBackupTime := 0\<rparr>) (snd cb))" by (rule keeps_role_ops)
  ultimately show ?thesis using s by (auto simp: settled2_keeps)
qed

text \<open>A new backup: the pair's name, no status, the same plan.\<close>

lemma createBackup_spec:
  assumes "label_ops e" "cur_ok c"
  shows "\<exists>b. createBackup e c None pod = Inr b \<and> IsBackupWorker b \<and> Annotations b = Annotations c \<and> Status b = empty_status \<and>
    Name b = getPairWorkerName (Name c) \<and> isWorkersSame c b"
proof -
  let ?n = "getPairWorkerName (Name c)"
  define l where "l = sput DefaultWorkernodeUniqueLabelKey (ResourceNameHash e ?n) (Labels c)"
  define w where "w = \<lparr>Name = ?n, Namespace = Namespace c, UID = [], ResourceVersion = [],
    Labels = sdel LabelKeyHippoPreference (sput WorkerRoleKey BackupWorkerKey l), Annotations = Annotations c,
    CreationTimestamp = None, DeletionTimestamp = None, OwnerReferences = OwnerReferences c,
    Spec = (Spec c)\<lparr>Selector := Some (AddWorkerSelectorHashKey e ?n (case Selector (Spec c) of None \<Rightarrow> None | Some s \<Rightarrow> s)), Spec_Reclaim := False\<rparr>,
    Status = empty_status\<rparr>"
  define w1 where "w1 = (case pod of None \<Rightarrow> SetWorkerBackup w
    | Some p \<Rightarrow> set_spec (\<lambda>s. s\<lparr>BackupOfPod := \<lparr>pod_ref_Name = pod_Name p, pod_ref_Uid = pod_UID p\<rparr>\<rparr>) (SetWorkerBackup w))"
  define b where "b = FixNewCreateLazyV3PodVersion e w1"
  obtain m where m: "Labels c = Some m" using role_labelled(1) [OF assms(2)] by blast
  obtain lm where lm: "l = Some lm" by (simp add: l_def sput_def)
  have "AddWorkerUniqueLabelHashKey e ?n (Labels c) = Some lm"
    by (simp add: AddWorkerUniqueLabelHashKey_def AddUniqueLabelHashKey_def m label_opsD [OF assms(1)] l_def [unfolded m] lm [symmetric])
  then have c: "createBackup e c None pod = Inr b"
    unfolding createBackup_def b_def w1_def w_def lm Let_def by simp
  have w1: "Labels w1 = sput WorkerRoleKey BackupWorkerKey (Labels w)" "Annotations w1 = Annotations c" "Status w1 = empty_status" "Name w1 = ?n"
    "Plan w1 = Plan c" "Spec_Version (Spec w1) = Spec_Version (Spec c)" "Spec_ResVersion (Spec w1) = Spec_ResVersion (Spec c)"
    "Spec_WorkerMode (Spec w1) = Spec_WorkerMode (Spec c)" "DependencyReady (Spec w1) = DependencyReady (Spec c)"
    by (simp_all add: w1_def SetWorkerBackup_def w_def split: option.split)
  have b: "Annotations b = Annotations w1" "Status b = Status w1" "Name b = Name w1" "Spec b = Spec w1"
    by (simp_all add: b_def FixNewCreateLazyV3PodVersion_def SetPodVersion_def setLabel_def)
  have lab: "sget (Labels b) k = sget (Labels w1) k" if "k \<noteq> LabelKeyPodVersion" for k
    using that by (simp add: b_def FixNewCreateLazyV3PodVersion_def SetPodVersion_def setLabel_def label_opsD [OF assms(1)])
  have lab': "sget (Labels b) k = sget (Labels c) k"
    if "k \<notin> {LabelKeyPodVersion, WorkerRoleKey, LabelKeyHippoPreference, DefaultWorkernodeUniqueLabelKey}" for k
    using that by (simp add: lab w1(1) w_def l_def)
  have "role b = BackupWorkerKey" using lab [of WorkerRoleKey] by (simp add: w1(1))
  moreover have "GetQuotaID b = GetQuotaID c" "GetGangPlan b = GetGangPlan c" "GetGangInfo b = GetGangInfo c"
    by (simp_all add: GetQuotaID_def GetGangPlan_def GetGangInfo_def GetLabelAnnoValue_def lab' b w1)
  then have "isWorkersSame c b"
    by (simp add: isWorkersSame_def isWorkerRowCompleteSame_def IsWorkerDependencyReady_def b w1 split: option.split)
  ultimately show ?thesis using c by (auto simp: IsBackupWorker_def b w1)
qed

lemma adjust_recover_role:
  assumes "label_ops e" "settled2 c p" "p = None \<Longrightarrow> Annotations c \<noteq> None"
  shows "\<exists>c' p' qs' q. adjust_recover e v pod c p qs = Inr (c', p', qs', q) \<and> settled2 c' p' \<and> (p' = None \<longrightarrow> p = None)"
proof (cases "shouldRecover e c p v")
  case False
  then show ?thesis using assms(2) by (simp add: adjust_recover_def)
next
  case True
  then have p: "p = None" "cur_ok c" "Annotations c \<noteq> None" using assms(2,3) by (auto simp: shouldRecover_def settled2_def)
  obtain b where b: "createBackup e c None pod = Inr b" "IsBackupWorker b" "Annotations b = Annotations c"
    using createBackup_spec [OF assms(1) p(2)] by blast
  have r: "settled2 (ReleaseWorker e True c) None"
    using keeps_role_ok(1) [OF keeps_role_prohibit(2) [OF assms(1), of c True]] p(2) by (simp add: settled2_def)
  obtain an where an: "Annotations b = Some an" using p(3) b(3) by auto
  have sw: "settled2 (SetWorkerBackup c) (Some ((SetWorkerCurrent e b)\<lparr>Annotations := x\<rparr>))" "settled2 c (Some b)" for x
    using SetWorkerCurrent_ok [of e b] p(2) b(2) by (simp_all add: settled2_def cur_ok_def IsCurrentWorker_def)
  have "Annotations (SetWorkerCurrent e b) = Some an" using an by (simp add: SetWorkerCurrent_def SetBadReason_def)
  then show ?thesis
    using True p b r sw by (simp add: adjust_recover_def split_beta SwapAndReleaseBackup_def Let_def settled2_def)
qed

lemma adjust_marks_role:
  assumes "adjust_marks e own tr c p qs = (c', p', qs')"
  shows "cur_ok c' = cur_ok c" "p' = None \<longleftrightarrow> p = None" "p = None \<Longrightarrow> Annotations c' \<noteq> None"
    "p' = Some b' \<Longrightarrow> \<exists>b. p = Some b \<and> IsBackupWorker b' = IsBackupWorker b"
proof -
  define c1 where "c1 = syncBackupState e c p"
  have k: "keeps_role c c1" unfolding c1_def by (rule syncBackupState_role)
  have r: "c' = (if tr then SetWorkerToRelease c1 else c1)" "p' = (if tr then map_option SetWorkerToRelease p else p)"
    using assms by (auto simp: adjust_marks_def c1_def Let_def split: if_splits)
  have "keeps_role c c'" using keeps_role_trans [OF k keeps_role_ops(1)] k by (simp add: r)
  then show "cur_ok c' = cur_ok c" by (rule keeps_role_ok)
  show "\<exists>b. p = Some b \<and> IsBackupWorker b' = IsBackupWorker b" if "p' = Some b'"
    using that keeps_role_ok(2) [OF keeps_role_ops(1)] by (auto simp: r split: if_splits)
  show "p' = None \<longleftrightarrow> p = None" by (simp add: r)
  show "Annotations c' \<noteq> None" if "p = None"
    using that by (simp add: r c1_def syncBackupState_def RemoveEvictFailedMsg_def removeAnnotation_def SetWorkerToRelease_def sdel_def
        split: option.split)
qed

lemma adjust_states_role:
  assumes "label_ops e" "adjust_states e v c p = (c', p', q)" "cur_ok c" "\<And>b. p = Some b \<Longrightarrow> IsBackupWorker b"
  shows "settled2 c' p'" "p' = None \<longleftrightarrow> p = None" "p = None \<Longrightarrow> Annotations c' = Annotations c"
proof -
  define r where "r = GetWorkerBadState e c v"
  define x where "x = (case p of None \<Rightarrow> (SetBadReason r c, None, []) | Some b \<Rightarrow>
    (case adjust_backup e v r (SetBadReason r c) b of (c, b, q) \<Rightarrow> (c, Some b, q)))"
  have c1: "cur_ok (SetBadReason r c)" using keeps_role_ok(1) [OF keeps_role_ops(2)] assms(3) by simp
  have s: "settled2 (fst x) (fst (snd x))"
  proof (cases p)
    case None
    then show ?thesis using c1 by (simp add: x_def settled2_def)
  next
    case (Some b)
    obtain c2 b2 q2 where a: "adjust_backup e v r (SetBadReason r c) b = (c2, b2, q2)" by (metis prod_cases3)
    show ?thesis using adjust_backup_role [OF assms(1) a c1 assms(4) [OF Some]] by (simp add: x_def Some a)
  qed
  have e: "c' = (if r \<noteq> BadReasonNone then SetWorkerProhibit e True (fst x) else fst x)" "p' = fst (snd x)"
    using assms(2) unfolding adjust_states_def Let_def r_def [symmetric] x_def [symmetric] by (auto simp: split_beta)
  show "settled2 c' p'" using s settled2_keeps(1) [OF keeps_role_prohibit(1) [OF assms(1)]] by (simp add: e)
  show "p' = None \<longleftrightarrow> p = None" by (simp add: e x_def split_beta split: option.split)
  show "Annotations c' = Annotations c" if "p = None"
    using that by (simp add: e x_def SetWorkerProhibit_def SetBadReason_def)
qed

lemma adjust_body_role:
  fixes qs :: "'c recoverQuotas"
  assumes "label_ops e" "cur_ok c" "\<And>b. p = Some b \<Longrightarrow> IsBackupWorker b"
  shows "\<exists>c' p' qs' q sy. adjust_body e rs pod own tr c p qs = Inr ((c', p', qs', q), sy) \<and> settled2 c' p' \<and> (p' = None \<longrightarrow> p = None)"
proof -
  define qs0 where "qs0 = (if IsWorkerComplete e c then giveBackRecoverQuota (own_worker own c p) qs else qs)"
  show ?thesis
  proof (cases "\<exists>b. p = Some b \<and> \<not> isWorkersSame c b")
    case True
    then obtain b where b: "p = Some b" "\<not> isWorkersSame c b" by blast
    then obtain c' b' where sy: "syncWorkers e c b = Inr (c', b')" "keeps_role c c'" "keeps_role b b'"
      using syncWorkers_role [OF assms(1) role_labelled(1) [OF assms(2)] role_labelled(2) [OF assms(3) [OF b(1)]]] by blast
    then have "settled2 c' (Some b')" using assms(2,3) b(1) keeps_role_ok [OF sy(2)] keeps_role_ok [OF sy(3)] by (simp add: settled2_def)
    then show ?thesis using b sy(1) by (auto simp: adjust_body_def Let_def)
  next
    case False
    then have n: "(case p of None \<Rightarrow> None | Some b \<Rightarrow> if isWorkersSame c b then None else Some b) = None" by (simp split: option.split)
    obtain c1 p1 qs1 where m: "adjust_marks e own tr c p qs0 = (c1, p1, qs1)" by (metis prod_cases3)
    define v where "v = target_version rs (own_worker own c1 p1)"
    obtain c2 p2 q1 where st: "adjust_states e v c1 p1 = (c2, p2, q1)" by (metis prod_cases3)
    have k: "cur_ok c1" "\<And>b. p1 = Some b \<Longrightarrow> IsBackupWorker b"
      using adjust_marks_role(1,4) [OF m] assms(2,3) by auto
    note s2 = adjust_states_role [OF assms(1) st k]
    have an: "Annotations c2 \<noteq> None" if "p2 = None"
      using that s2(2,3) adjust_marks_role(2,3) [OF m] by simp
    obtain c' p' qs' q where r: "adjust_recover e v pod c2 p2 qs1 = Inr (c', p', qs', q)" "settled2 c' p'" "p' = None \<longrightarrow> p2 = None"
      using adjust_recover_role [OF assms(1) s2(1) an] by blast
    moreover have "p = None" if "p' = None"
      using that r(3) s2(2) adjust_marks_role(2) [OF m] by simp
    ultimately show ?thesis
      by (auto simp: adjust_body_def Let_def qs0_def [symmetric] n m v_def [symmetric] st)
  qed
qed

text \<open>The roles of two workers.\<close>

definition as_current :: "worker_env \<Rightarrow> WorkerNode \<Rightarrow> WorkerNode" where
  "as_current e w = (if \<not> IsCurrentWorker w \<or> BecomeCurrentTime (Status w) = None then SetWorkerCurrent e w else w)"

definition as_backup :: "WorkerNode \<Rightarrow> WorkerNode" where
  "as_backup w = (if \<not> IsBackupWorker w then SetWorkerBackup w else w)"

lemma as_role_ok: "cur_ok (as_current e w)" "IsBackupWorker (as_backup w)"
  using SetWorkerCurrent_ok by (auto simp: as_current_def as_backup_def cur_ok_def)

lemma one_worker:
  "\<exists>ws. GetCurrentWorkerNodeV2 e False [Some w, None] =
     Inr (ws, 0, None, \<not> IsBackupWorker w \<and> IsWorkerToDelete w, Some (as_current e w), None)"
  by (simp add: GetCurrentWorkerNodeV2_def role_step_def FixWorkerRole_def as_current_def upt_conv_Cons Let_def)

text \<open>Which of two workers is current (the index), whether to release them, and the two with their times fixed.\<close>

definition pick_current :: "worker_env \<Rightarrow> WorkerNode \<Rightarrow> WorkerNode \<Rightarrow> nat \<times> bool \<times> WorkerNode \<times> WorkerNode" where
  "pick_current e w p =
     (let f = FixWorkerBecomeCurrentTime e in
      if IsBackupWorker w then (1, \<not> IsBackupWorker p \<and> IsWorkerToDelete p, w, p)
      else if IsBackupWorker p then (0, IsWorkerToDelete w, w, p)
      else (if UnixTime (BecomeCurrentTime (Status (f w))) > UnixTime (BecomeCurrentTime (Status (f p))) then 0 else 1,
        IsWorkerToDelete w \<or> IsWorkerToDelete p, f w, f p))"

lemma two_workers:
  "GetCurrentWorkerNodeV2 e False [Some w, Some p] =
    (let (c, tr, w', p') = pick_current e w p;
       cw = as_current e (if c = 0 then w' else p'); bw = as_backup (if c = 0 then p' else w')
     in Inr (if c = 0 then [Some cw, Some bw] else [Some bw, Some cw], c, Some (1 - c), tr, Some cw, Some bw))"
  by (simp add: GetCurrentWorkerNodeV2_def role_step_def FixWorkerRole_def as_current_def as_backup_def upt_conv_Cons Let_def
      fix_time_at_def became_current_def pick_current_def)

lemma pair_roles:
  "\<exists>ws c b tr cw bo. GetCurrentWorkerNodeV2 e False [Some w, p] = Inr (ws, c, b, tr, Some cw, bo) \<and> cur_ok cw \<and>
     (\<forall>x. bo = Some x \<longrightarrow> IsBackupWorker x) \<and> (c = 0 \<or> bo \<noteq> None)"
proof (cases p)
  case None
  then show ?thesis using one_worker [of e w] as_role_ok by auto
next
  case (Some x)
  obtain c tr w' p' where "pick_current e w x = (c, tr, w', p')" by (metis prod_cases4)
  then show ?thesis unfolding Some two_workers using as_role_ok by (auto simp: Let_def)
qed

lemma adjust_total:
  assumes "label_ops e"
  shows "\<exists>a' sy. adjust e rs a = Inr (a', sy) \<and> settled a'"
proof -
  obtain ws c b tr cw bo where g: "GetCurrentWorkerNodeV2 e False [Some (ad_worker a), ad_pair a] = Inr (ws, c, b, tr, Some cw, bo)"
    "cur_ok cw" "\<forall>x. bo = Some x \<longrightarrow> IsBackupWorker x" "c = 0 \<or> bo \<noteq> None"
    using pair_roles [of e "ad_worker a" "ad_pair a"] by blast
  obtain c' p' qs' q sy where bd: "adjust_body e rs (ad_pod a) (c = 0) tr cw bo (ad_quotas a) = Inr ((c', p', qs', q), sy)"
    "settled2 c' p'" "p' = None \<longrightarrow> bo = None"
    using adjust_body_role [OF assms g(2), of bo rs "ad_pod a" "c = 0" tr "ad_quotas a"] g(3) by blast
  have "settled2 c' p'" if "c = 0" using bd(2) .
  moreover have "settled2 x (Some c')" if "p' = Some x" for x using bd(2) that settled2_swap by blast
  ultimately show ?thesis using g(1,4) bd by (auto simp: adjust_def settled_def split: option.split)
qed

text \<open>
  C19. The two workers of a replica always have their roles: whatever the labels, times and states of the two workers are, and whatever the
  adjuster does to them, it does not panic and leaves exactly one current worker, with the time at which it became current; the
  other one, when there is one, is labelled backup.
\<close>

theorem adjust_settles:
  assumes "label_ops e"
  shows "\<exists>a' sy. adjust e rs a = Inr (a', sy) \<and> settled a'"
  by (rule adjust_total [OF assms])

text \<open>An example: the healthy worker as the current one, without a pair.\<close>

definition sample_adjuster :: "unit adjuster" where
  "sample_adjuster = \<lparr>ad_worker = SetWorkerCurrent sample_env sample_worker, ad_pair = None, ad_pod = Some sample_pod,
     ad_quotas = \<lparr>quotas = [], parallelQuotas = [], workerCache = ()\<rparr>, ad_queue = []\<rparr>"

theorem adjust_settles_witness:
  "\<exists>a' sy. adjust sample_env (\<lambda>_ _. None) sample_adjuster = Inr (a', sy) \<and> settled a'"
  by (rule adjust_settles [OF sample_label_ops])

subsection \<open>Two workers with their roles\<close>

text \<open>The worker that was current before, and the one that was its backup, in the state \<open>a'\<close> after the adjustment of \<open>a\<close>.\<close>

definition at_current :: "'c adjuster \<Rightarrow> 'c adjuster \<Rightarrow> WorkerNode" where
  "at_current a a' = (if cur_ok (ad_worker a) then ad_worker a' else case ad_pair a' of None \<Rightarrow> ad_worker a' | Some p \<Rightarrow> p)"

definition at_backup :: "'c adjuster \<Rightarrow> 'c adjuster \<Rightarrow> WorkerNode option" where
  "at_backup a a' = (if cur_ok (ad_worker a) then ad_pair a' else Some (ad_worker a'))"

lemma cur_not_backup: "cur_ok w \<Longrightarrow> \<not> IsBackupWorker w"
  using backup_not_current by (auto simp: cur_ok_def)

lemma as_role_same: "cur_ok w \<Longrightarrow> as_current e w = w" "IsBackupWorker w \<Longrightarrow> as_backup w = w"
  by (auto simp: as_current_def as_backup_def cur_ok_def)

lemma settled_roles:
  assumes "settled a"
  shows "cur_ok (at_current a a)" "at_backup a a = Some b \<Longrightarrow> IsBackupWorker b"
    "\<exists>ws i. GetCurrentWorkerNodeV2 e False [Some (ad_worker a), ad_pair a] =
      Inr (ws, if cur_ok (ad_worker a) then 0 else 1, i, IsWorkerToDelete (at_current a a), Some (at_current a a), at_backup a a)"
proof -
  consider "cur_ok (ad_worker a)" "ad_pair a = None" | p where "cur_ok (ad_worker a)" "ad_pair a = Some p" "IsBackupWorker p"
    | p where "IsBackupWorker (ad_worker a)" "\<not> cur_ok (ad_worker a)" "ad_pair a = Some p" "cur_ok p"
    using assms cur_not_backup by (auto simp: settled_def settled2_def split: option.splits)
  note c = this
  show "cur_ok (at_current a a)" by (cases rule: c) (simp_all add: at_current_def)
  show "IsBackupWorker b" if "at_backup a a = Some b" using that by (cases rule: c) (auto simp: at_backup_def)
  show "\<exists>ws i. GetCurrentWorkerNodeV2 e False [Some (ad_worker a), ad_pair a] =
      Inr (ws, if cur_ok (ad_worker a) then 0 else 1, i, IsWorkerToDelete (at_current a a), Some (at_current a a), at_backup a a)"
  proof (cases rule: c)
    case 1
    then show ?thesis using one_worker [of e "ad_worker a"] cur_not_backup by (auto simp: at_current_def at_backup_def as_role_same)
  next
    case 2
    then show ?thesis using cur_not_backup [OF 2(1)] by (simp add: two_workers pick_current_def Let_def at_current_def at_backup_def as_role_same)
  next
    case 3
    then show ?thesis using cur_not_backup [OF 3(4)] by (simp add: two_workers pick_current_def Let_def at_current_def at_backup_def as_role_same)
  qed
qed

text \<open>The body on a pair that is kept in step, part by part.\<close>

lemma adjust_body_same:
  assumes "adjust_body e rs pod own tr c p qs = Inr ((c', p', qs', q'), sy)" "\<forall>b. p = Some b \<longrightarrow> isWorkersSame c b"
  obtains qs0 c1 p1 qs1 v c2 p2 q1 q2 where
    "qs0 = (if IsWorkerComplete e c then giveBackRecoverQuota (own_worker own c p) qs else qs)"
    "adjust_marks e own tr c p qs0 = (c1, p1, qs1)" "v = target_version rs (own_worker own c1 p1)"
    "adjust_states e v c1 p1 = (c2, p2, q1)" "adjust_recover e v pod c2 p2 qs1 = Inr (c', p', qs', q2)" "q' = q1 @ q2" "\<not> sy"
proof -
  define qs0 where "qs0 = (if IsWorkerComplete e c then giveBackRecoverQuota (own_worker own c p) qs else qs)"
  have n: "(case p of None \<Rightarrow> None | Some b \<Rightarrow> if isWorkersSame c b then None else Some b) = None"
    using assms(2) by (simp split: option.split)
  obtain c1 p1 qs1 where m: "adjust_marks e own tr c p qs0 = (c1, p1, qs1)" by (metis prod_cases3)
  obtain c2 p2 q1 where st: "adjust_states e (target_version rs (own_worker own c1 p1)) c1 p1 = (c2, p2, q1)" by (metis prod_cases3)
  have "map_sum id (\<lambda>(c, p, qs, q2). ((c, p, qs, q1 @ q2), False))
      (adjust_recover e (target_version rs (own_worker own c1 p1)) pod c2 p2 qs1) = Inr ((c', p', qs', q'), sy)"
    using assms(1) by (simp add: adjust_body_def Let_def qs0_def [symmetric] n m st)
  then obtain q2 where "adjust_recover e (target_version rs (own_worker own c1 p1)) pod c2 p2 qs1 = Inr (c', p', qs', q2)" "q' = q1 @ q2" "\<not> sy"
    by (cases "adjust_recover e (target_version rs (own_worker own c1 p1)) pod c2 p2 qs1") auto
  then show ?thesis using that [OF qs0_def m refl st] by blast
qed

lemma adjust_body_sync:
  assumes "adjust_body e rs pod own tr c (Some b) qs = Inr ((c', p', qs', q'), sy)" "\<not> isWorkersSame c b"
  obtains b' where "p' = Some b'" "syncWorkers e c b = Inr (c', b')" "q' = []" "sy"
  using assms by (cases "syncWorkers e c b") (auto simp: adjust_body_def Let_def)

lemma adjust_recover_pair: "adjust_recover e v pod c (Some b) qs = Inr (c, Some b, qs, [])"
  by (simp add: adjust_recover_def shouldRecover_def)

lemma adjust_body_keeps_pair:
  assumes "adjust_body e rs pod own tr c (Some b) qs = Inr ((c', p', qs', q'), sy)"
  shows "p' \<noteq> None"
proof (cases "isWorkersSame c b")
  case True
  then have same: "\<forall>x. Some b = Some x \<longrightarrow> isWorkersSame c x" by simp
  obtain qs0 c1 p1 qs1 v c2 p2 q1 q2 where d: "adjust_marks e own tr c (Some b) qs0 = (c1, p1, qs1)" "adjust_states e v c1 p1 = (c2, p2, q1)"
    "adjust_recover e v pod c2 p2 qs1 = Inr (c', p', qs', q2)"
    by (rule adjust_body_same [OF assms same]) (rule that; assumption)
  have "p1 \<noteq> None" using d(1) by (auto simp: adjust_marks_def Let_def split: if_splits)
  then have "p2 \<noteq> None" using d(2) by (auto simp: adjust_states_def Let_def split_beta)
  then show ?thesis using d(3) by (auto simp: adjust_recover_pair)
next
  case False
  then show ?thesis using adjust_body_sync [OF assms False] by (metis option.distinct(1))
qed

text \<open>What the adjuster does to a settled pair is what its body does to the current worker and its backup.\<close>

lemma adjust_settled:
  assumes "settled a" "adjust e rs a = Inr (a', sy)"
  shows "\<exists>q. adjust_body e rs (ad_pod a) (cur_ok (ad_worker a)) (IsWorkerToDelete (at_current a a)) (at_current a a) (at_backup a a) (ad_quotas a) =
    Inr ((at_current a a', at_backup a a', ad_quotas a', q), sy) \<and> ad_queue a' = ad_queue a @ q"
proof -
  define r where "r = adjust_body e rs (ad_pod a) (cur_ok (ad_worker a)) (IsWorkerToDelete (at_current a a)) (at_current a a)
    (at_backup a a) (ad_quotas a)"
  obtain ws i where g: "GetCurrentWorkerNodeV2 e False [Some (ad_worker a), ad_pair a] =
      Inr (ws, if cur_ok (ad_worker a) then 0 else 1, i, IsWorkerToDelete (at_current a a), Some (at_current a a), at_backup a a)"
    using settled_roles(3) [OF assms(1)] by blast
  have own: "((if b then 0 else (1 :: nat)) = 0) = b" for b by simp
  have eq: "adjust e rs a = map_sum id (\<lambda>((current, backup, qs, queue), sync).
      (a\<lparr>ad_worker := (if cur_ok (ad_worker a) then current else case backup of None \<Rightarrow> ad_worker a | Some b \<Rightarrow> b),
         ad_pair := (if cur_ok (ad_worker a) then backup else Some current), ad_quotas := qs, ad_queue := ad_queue a @ queue\<rparr>, sync)) r"
    unfolding adjust_def g r_def by (simp add: own)
  then obtain c' p' qs q where b: "r = Inr ((c', p', qs, q), sy)"
    "a' = a\<lparr>ad_worker := (if cur_ok (ad_worker a) then c' else case p' of None \<Rightarrow> ad_worker a | Some b \<Rightarrow> b),
         ad_pair := (if cur_ok (ad_worker a) then p' else Some c'), ad_quotas := qs, ad_queue := ad_queue a @ q\<rparr>"
    using assms(2) by (cases r) auto
  have "p' \<noteq> None" if "\<not> cur_ok (ad_worker a)"
    using adjust_body_keeps_pair [of e rs "ad_pod a" _ _ _ "ad_worker a"] b(1) that unfolding r_def at_backup_def by auto
  then show ?thesis using b unfolding r_def by (auto simp: at_current_def at_backup_def)
qed

subsection \<open>Recovery\<close>

text \<open>The record of the bad reason cannot make a worker bad.\<close>

lemma SetBadReason_fields [simp]:
  "Spec (SetBadReason r w) = Spec w" "DeletionTimestamp (SetBadReason r w) = DeletionTimestamp w" "Name (SetBadReason r w) = Name w"
  "Namespace (SetBadReason r w) = Namespace w" "OwnerReferences (SetBadReason r w) = OwnerReferences w" "Labels (SetBadReason r w) = Labels w"
  "Annotations (SetBadReason r w) = Annotations w" "CreationTimestamp (SetBadReason r w) = CreationTimestamp w"
  "IsWorkerToRelease (SetBadReason r w) = IsWorkerToRelease w" "IsWorkerDead (SetBadReason r w) = IsWorkerDead w"
  "IsWorkerAssigned (SetBadReason r w) = IsWorkerAssigned w" "IsWorkerUnAssigned (SetBadReason r w) = IsWorkerUnAssigned w"
  "IsWorkerIrrecoverable (SetBadReason r w) = IsWorkerIrrecoverable w"
  by (simp_all add: SetBadReason_def worker_preds)

lemma SetBadReason_status:
  "Status (SetBadReason r w) = (Status w)\<lparr>BadReason := r, BadReasonMessage := badReasonMessage r\<rparr>"
  by (simp add: SetBadReason_def)

lemma SetBadReason_status_fields [simp]:
  "Phase (Status (SetBadReason r w)) = Phase (Status w)" "Version (Status (SetBadReason r w)) = Version (Status w)"
  "ProcessMatch (Status (SetBadReason r w)) = ProcessMatch (Status w)" "ProcessReady (Status (SetBadReason r w)) = ProcessReady (Status w)"
  "st_HealthStatus (Status (SetBadReason r w)) = st_HealthStatus (Status w)"
  "st_HealthCondition (Status (SetBadReason r w)) = st_HealthCondition (Status w)"
  "st_ServiceStatus (Status (SetBadReason r w)) = st_ServiceStatus (Status w)"
  "ServiceConditions (Status (SetBadReason r w)) = ServiceConditions (Status w)" "WorkerMode (Status (SetBadReason r w)) = WorkerMode (Status w)"
  "WorkerReady (Status (SetBadReason r w)) = WorkerReady (Status w)" "PodReady (Status (SetBadReason r w)) = PodReady (Status w)"
  "ResourceMatch (Status (SetBadReason r w)) = ResourceMatch (Status w)" "ServiceOffline (Status (SetBadReason r w)) = ServiceOffline (Status w)"
  by (simp_all add: SetBadReason_status)

lemma broken_cleared:
  assumes "IsWorkerBroken e w v = BadReasonNone"
  shows "IsWorkerBroken e (SetBadReason BadReasonNone w) v = BadReasonNone"
proof -
  have "NeedReclaimByService e (SetBadReason BadReasonNone w) \<Longrightarrow> NeedReclaimByService e w"
    by (auto simp: NeedReclaimByService_def SetBadReason_status)
  moreover have "IsWorkerLost (SetBadReason BadReasonNone w) = IsWorkerLost w"
    "IsWorkerLongtimeNotMatch e (SetBadReason BadReasonNone w) v = IsWorkerLongtimeNotMatch e w v"
    "IsWorkerProcessLongtimeNotMatch e (SetBadReason BadReasonNone w) = IsWorkerProcessLongtimeNotMatch e w"
    "IsWorkerLongtimeNotReady e (SetBadReason BadReasonNone w) = IsWorkerLongtimeNotReady e w"
    "IsWorkerProcessLongtimeNotReady e (SetBadReason BadReasonNone w) = IsWorkerProcessLongtimeNotReady e w"
    "IsWorkerLongtimeNotSchedule e (SetBadReason BadReasonNone w) = IsWorkerLongtimeNotSchedule e w"
    by (simp_all add: IsWorkerLost_def IsWorkerLongtimeNotMatch_def IsWorkerProcessLongtimeNotMatch_def IsWorkerLongtimeNotReady_def
        IsWorkerProcessLongtimeNotReady_def IsWorkerLongtimeNotSchedule_def IsWorkerVersionMisMatch_def IsWorkerInnerVerMatch_def
        SetBadReason_status)
  ultimately show ?thesis using assms by (auto simp: IsWorkerBroken_def Let_def split: if_splits)
qed

lemma bad_recorded:
  assumes "GetWorkerBadState e w v = BadReasonNone"
  shows "GetWorkerBadState e (SetBadReason BadReasonNone w) v = BadReasonNone"
proof -
  have k: "IsInactiveWorker (SetBadReason BadReasonNone w) = IsInactiveWorker w" "IsWorkerReclaiming (SetBadReason BadReasonNone w) = IsWorkerReclaiming w"
    "IsWorkerReleased (SetBadReason BadReasonNone w) = IsWorkerReleased w"
    by (simp_all add: IsInactiveWorker_def IsWorkerReclaiming_def IsWorkerReleased_def IsWorkerVersionMisMatch_def IsWorkerInnerVerMatch_def
        SetBadReason_status)
  show ?thesis
    using assms broken_cleared [of e w v] by (auto simp: GetWorkerBadState_def Let_def k split: if_splits)
qed

text \<open>A worker with its bad reason recorded and its node marked, as the recovery sees it.\<close>

definition recorded :: "worker_env \<Rightarrow> string \<Rightarrow> WorkerNode \<Rightarrow> WorkerNode" where
  "recorded e v w =
     (let r = GetWorkerBadState e w v; w = SetBadReason r w in if r \<noteq> BadReasonNone then SetWorkerProhibit e True w else w)"

lemma recorded_canon: "canon (recorded e v w) = canon (SetBadReason (GetWorkerBadState e w v) w)"
  by (simp add: recorded_def Let_def)

lemma recorded_keeps:
  "Spec (recorded e v w) = Spec w" "IsWorkerToRelease (recorded e v w) = IsWorkerToRelease w" "IsWorkerDead (recorded e v w) = IsWorkerDead w"
  "IsWorkerAssigned (recorded e v w) = IsWorkerAssigned w" "Name (recorded e v w) = Name w" "Namespace (recorded e v w) = Namespace w"
  using same_canon [OF recorded_canon] by simp_all

lemma recorded_labels:
  assumes "label_ops e" "k \<noteq> LabelKeyHippoPreference"
  shows "sget (Labels (recorded e v w)) k = sget (Labels w) k"
  using assms(2) by (simp add: recorded_def Let_def SetWorkerProhibit_def label_opsD [OF assms(1)])

lemma recorded_quota:
  assumes "label_ops e"
  shows "hasRecoverQuota e (recorded e v w) qs = hasRecoverQuota e w qs"
  by (simp add: hasRecoverQuota_def recover_quota_of_def GetGangID_def GetReplicaID_def recorded_keeps recorded_labels [OF assms] Let_def)

lemma recorded_recover: "shouldRecover e (recorded e v w) p v \<Longrightarrow> shouldRecover e w p v"
proof -
  assume a: "shouldRecover e (recorded e v w) p v"
  have "GetWorkerBadState e (recorded e v w) v = GetWorkerBadState e (SetBadReason (GetWorkerBadState e w v) w) v"
    by (rule same_canon(2) [OF recorded_canon])
  then have "GetWorkerBadState e (recorded e v w) v \<noteq> BadReasonNone \<Longrightarrow> GetWorkerBadState e w v \<noteq> BadReasonNone"
    using bad_recorded by metis
  then show ?thesis using a by (auto simp: shouldRecover_def recorded_keeps split: RecoverStrategyType.splits)
qed

lemma adjust_states_alone: "adjust_states e v c None = (recorded e v c, None, [])"
  by (simp add: adjust_states_def recorded_def Let_def)

text \<open>A lone worker gets a backup, or is released, only when it should be recovered and the quota grants it.\<close>

lemma adjust_recover_cause:
  assumes "adjust_recover e v pod c None qs = Inr (c', p', qs', q)" "p' \<noteq> None \<or> IsWorkerToRelease c' \<and> \<not> IsWorkerToRelease c"
  shows "shouldRecover e c None v \<and> snd (hasRecoverQuota e c qs)"
  using assms by (auto simp: adjust_recover_def split_beta split: if_splits)

lemma evict_msg_keeps:
  "canon (RemoveEvictFailedMsg c) = canon c" "Labels (RemoveEvictFailedMsg c) = Labels c" "OwnerReferences (RemoveEvictFailedMsg c) = OwnerReferences c"
  by (simp_all add: RemoveEvictFailedMsg_def removeAnnotation_def)

lemma shouldRecover_canon:
  assumes "canon w' = canon w"
  shows "shouldRecover e w' p v = shouldRecover e w p v"
  by (simp only: shouldRecover_def same_canon [OF assms])

lemma hasRecoverQuota_canon:
  assumes "canon w' = canon w" "Labels w' = Labels w"
  shows "hasRecoverQuota e w' qs = hasRecoverQuota e w qs"
  by (simp only: hasRecoverQuota_def recover_quota_of_def GetGangID_def GetReplicaID_def same_canon [OF assms(1)] assms(2))

lemma target_version_canon:
  assumes "canon w' = canon w" "OwnerReferences w' = OwnerReferences w"
  shows "target_version rs w' = target_version rs w"
  by (simp only: target_version_def same_canon [OF assms(1)] assms(2))

lemma own_worker_alone [simp]: "own_worker own c None = c"
  by (simp add: own_worker_def)

lemma alone_cause:
  assumes "label_ops e" "adjust_body e rs pod own False c None qs = Inr ((c', p', qs', q'), sy)"
    "p' \<noteq> None \<or> IsWorkerToRelease c' \<and> \<not> IsWorkerToRelease c"
  shows "shouldRecover e c None (target_version rs c) \<and>
    snd (hasRecoverQuota e c (if IsWorkerComplete e c then giveBackRecoverQuota c qs else qs))"
proof -
  define c1 where "c1 = RemoveEvictFailedMsg c"
  note k = evict_msg_keeps [of c, folded c1_def]
  have same: "\<forall>b. None = Some b \<longrightarrow> isWorkersSame c b" by simp
  obtain qs0 c1' p1 qs1 v c2 p2 q1 q2 where d: "qs0 = (if IsWorkerComplete e c then giveBackRecoverQuota (own_worker own c None) qs else qs)"
    "adjust_marks e own False c None qs0 = (c1', p1, qs1)" "v = target_version rs (own_worker own c1' p1)"
    "adjust_states e v c1' p1 = (c2, p2, q1)" "adjust_recover e v pod c2 p2 qs1 = Inr (c', p', qs', q2)"
    by (rule adjust_body_same [OF assms(2) same]) (rule that; assumption)
  have m: "c1' = c1" "p1 = None" "qs1 = qs0" using d(2) by (auto simp: adjust_marks_def syncBackupState_def Let_def c1_def)
  then have c2: "c2 = recorded e v c1" "p2 = None" "v = target_version rs c"
    using d(3,4) target_version_canon [OF k(1,3)] by (auto simp: adjust_states_alone)
  have "p' \<noteq> None \<or> IsWorkerToRelease c' \<and> \<not> IsWorkerToRelease c2"
    using assms(3) same_canon(3) [OF k(1)] by (simp add: c2(1) recorded_keeps)
  then have "shouldRecover e c2 None v \<and> snd (hasRecoverQuota e c2 qs1)"
    using adjust_recover_cause d(5) unfolding c2(2) by blast
  then have "shouldRecover e c None v \<and> snd (hasRecoverQuota e c qs1)"
    using recorded_recover [of e v c1 None]
    by (simp add: c2(1) shouldRecover_canon [OF k(1)] recorded_quota [OF assms(1)] hasRecoverQuota_canon [OF k(1,2)])
  then show ?thesis unfolding m(3) d(1) c2(3) own_worker_alone .
qed

text \<open>
  C16. Recovery has a cause and a quota: a lone current worker that is not being deleted gets a backup, or is released, only when it should
  be recovered (it is not already to be released, its strategy allows it, and it is bad or dead) and the recovery quota
  granted it.
\<close>

theorem adjust_recovers_for_cause:
  assumes "label_ops e" "settled a" "adjust e rs a = Inr (a', sy)" "at_backup a a = None" "\<not> IsWorkerToDelete (at_current a a)"
    "at_backup a a' \<noteq> None \<or> IsWorkerToRelease (at_current a a') \<and> \<not> IsWorkerToRelease (at_current a a)"
  shows "shouldRecover e (at_current a a) None (target_version rs (at_current a a)) \<and>
    snd (hasRecoverQuota e (at_current a a)
      (if IsWorkerComplete e (at_current a a) then giveBackRecoverQuota (at_current a a) (ad_quotas a) else ad_quotas a))"
proof -
  obtain q where "adjust_body e rs (ad_pod a) (cur_ok (ad_worker a)) False (at_current a a) None (ad_quotas a) =
    Inr ((at_current a a', at_backup a a', ad_quotas a', q), sy)"
    using adjust_settled [OF assms(2,3)] assms(4,5) by auto
  from alone_cause [OF assms(1) this assms(6)] show ?thesis .
qed

text \<open>An example: the pod of the current worker has failed; the worker is released.\<close>

definition dead_adjuster :: "unit adjuster" where
  "dead_adjuster = sample_adjuster\<lparr>ad_worker := set_status (\<lambda>s. s\<lparr>Phase := Failed\<rparr>) (ad_worker sample_adjuster)\<rparr>"

lemma dead_worker:
  "cur_ok (ad_worker dead_adjuster)" "\<not> IsWorkerToRelease (ad_worker dead_adjuster)" "\<not> IsWorkerToDelete (ad_worker dead_adjuster)"
  "ad_pair dead_adjuster = None"
  by code_simp+

lemma dead_released:
  "case adjust sample_env (\<lambda>_ _. None) dead_adjuster of Inl _ \<Rightarrow> False | Inr (a', sy) \<Rightarrow> IsWorkerToRelease (ad_worker a')"
  by code_simp

theorem adjust_recovers_for_cause_witness:
  "(case adjust sample_env (\<lambda>_ _. None) dead_adjuster of Inl _ \<Rightarrow> False | Inr (a', sy) \<Rightarrow> IsWorkerToRelease (ad_worker a')) \<and>
   shouldRecover sample_env (ad_worker dead_adjuster) None [] \<and>
   snd (hasRecoverQuota sample_env (ad_worker dead_adjuster) (ad_quotas dead_adjuster))"
proof -
  have at: "at_current dead_adjuster x = ad_worker x" "at_backup dead_adjuster x = ad_pair x" for x
    using dead_worker(1) by (simp_all add: at_current_def at_backup_def)
  have st: "settled dead_adjuster" using dead_worker by (simp add: settled_def settled2_def)
  obtain a' sy where a': "adjust sample_env (\<lambda>_ _. None) dead_adjuster = Inr (a', sy)" "IsWorkerToRelease (ad_worker a')"
    using dead_released by (auto split: sum.splits)
  have "target_version (\<lambda>_ _. None) (ad_worker dead_adjuster) = []" "\<not> IsWorkerComplete sample_env (ad_worker dead_adjuster)"
    by code_simp+
  then show ?thesis
    using adjust_recovers_for_cause [OF sample_label_ops st a'(1)] dead_worker a'(2) dead_released by (simp add: at)
qed

subsection \<open>Swapping and releasing\<close>

lemma complete_recorded:
  assumes "IsWorkerComplete e c"
  shows "IsWorkerComplete e (SetBadReason (GetWorkerBadState e c v) c)"
proof -
  define c1 where "c1 = SetBadReason (GetWorkerBadState e c v) c"
  have n: "\<not> NeedReclaimByService e c" using assms by (auto simp: IsWorkerComplete_def split: if_splits)
  then have "GetWorkerBadState e c v \<noteq> BadReasonServiceReclaim" by (simp add: GetWorkerBadState_def IsWorkerBroken_def Let_def)
  then have "\<not> NeedReclaimByService e c1" using n by (simp add: NeedReclaimByService_def c1_def SetBadReason_status)
  moreover have "IsResVersionMatch c1 = IsResVersionMatch c" "ResourceMatch (Status c1) = ResourceMatch (Status c)"
    "IsWorkerReclaiming c1 = IsWorkerReclaiming c" "IsStandByWorkerComplete c1 = IsStandByWorkerComplete c" "IsWorkerMatch c1 = IsWorkerMatch c"
    by (simp_all add: c1_def IsResVersionMatch_def IsWorkerReclaiming_def IsWorkerVersionMisMatch_def IsWorkerInnerVerMatch_def SetBadReason_status)
      (simp_all only: IsStandByWorkerComplete_def IsStandbyWorker_def IsWorkerRunning_def IsWorkerReady_def IsWorkerProcessReady_def
        IsDaemonWorker_def IsWorkerMatch_def IsWorkerUpdateMatch_def IsVersionMatch_def IsWorkerHealthInfoReady_def IsWorkerHealthMatch_def
        IsWorkerTypeReady_def IsWorkerHealth_def IsWorkerServiceMatch_def IsWorkerOnline_def IsWorkerLatestVersionAvailable_def
        SetBadReason_fields SetBadReason_status_fields)
  ultimately show ?thesis using assms n unfolding c1_def [symmetric] by (simp only: IsWorkerComplete_def if_False)
qed

lemma release_marks [simp]:
  "IsWorkerToRelease (SetWorkerBackup w) = IsWorkerToRelease w" "IsWorkerToRelease (SetWorkerCurrent e w) = IsWorkerToRelease w"
  "IsWorkerToRelease (SetWorkerProhibit e b w) = IsWorkerToRelease w" "IsWorkerToRelease (w\<lparr>Labels := l\<rparr>) = IsWorkerToRelease w"
  "IsWorkerToRelease (set_status (\<lambda>s. s\<lparr>LastDeleteBackupTime := t\<rparr>) w) = IsWorkerToRelease w"
  "IsWorkerToRelease (fst (shouldReleaseBackupNow e w)) = IsWorkerToRelease w"
  "IsWorkerToRelease (syncBackupState e w p) = IsWorkerToRelease w"
  by (simp_all add: SetWorkerBackup_def SetWorkerCurrent_def SetWorkerProhibit_def IsWorkerToRelease_def SetBadReason_status
      shouldReleaseBackupNow_def Let_def syncBackupState_def RemoveEvictFailedMsg_def removeAnnotation_def SetEvictFailedMsg_def
      setAnnotation_def split: option.split)

lemma adjust_backup_cause:
  assumes "adjust_backup e v r c b = (c', b', q)"
  shows "IsWorkerToRelease c' = IsWorkerToRelease c"
    "cur_ok c \<Longrightarrow> \<not> cur_ok c' \<Longrightarrow> couldSwapWorkers e c (SetBadReason (GetWorkerBadState e b v) b)"
    "IsWorkerToRelease b' \<Longrightarrow> \<not> IsWorkerToRelease b \<Longrightarrow> GetWorkerBadState e b v \<noteq> BadReasonNone \<or> IsWorkerComplete e c"
proof -
  define b1 where "b1 = SetBadReason (GetWorkerBadState e b v) b"
  define cb where "cb = (if couldSwapWorkers e c b1 then SwapAndReleaseBackup e c b1 else (c, b1))"
  define go where "go = (GetWorkerBadState e b v \<noteq> BadReasonNone \<or> IsWorkerComplete e (fst cb))"
  define c3 where "c3 = (if r = BadReasonNone then (fst cb)\<lparr>Labels := sdel LabelKeyHippoPreference (Labels (fst cb))\<rparr> else fst cb)"
  define b3 where "b3 = (if snd (snd (shouldReleaseBackupNow e (snd cb))) then ReleaseWorker e True (fst (shouldReleaseBackupNow e (snd cb)))
    else fst (shouldReleaseBackupNow e (snd cb)))"
  have eq: "c' = (if go then c3 else fst cb)" "b' = (if go then b3 else set_status (\<lambda>s. s\<lparr>LastDeleteBackupTime := 0\<rparr>) (snd cb))"
    using assms unfolding adjust_backup_def Let_def b1_def [symmetric] cb_def [symmetric] split_beta go_def [symmetric]
      c3_def [symmetric] b3_def [symmetric] by (auto split: if_splits)
  have cb: "IsWorkerToRelease (fst cb) = IsWorkerToRelease c" "IsWorkerToRelease (snd cb) = IsWorkerToRelease b"
    "canon (fst cb) = canon c" "couldSwapWorkers e c b1 \<or> fst cb = c"
    by (simp_all add: cb_def SwapAndReleaseBackup_def b1_def)
  show "IsWorkerToRelease c' = IsWorkerToRelease c" using cb(1) by (simp add: eq c3_def)
  show "couldSwapWorkers e c (SetBadReason (GetWorkerBadState e b v) b)" if "cur_ok c" "\<not> cur_ok c'"
    using that cb(4) keeps_role_ok(1) [OF keeps_role_ops(5)] by (auto simp: eq c3_def b1_def split: if_splits)
  show "GetWorkerBadState e b v \<noteq> BadReasonNone \<or> IsWorkerComplete e c" if "IsWorkerToRelease b'" "\<not> IsWorkerToRelease b"
    using that cb(2) same_canon(1) [OF cb(3)] by (auto simp: eq go_def split: if_splits)
qed

lemma canon_SetBadReason:
  assumes "canon w' = canon w"
  shows "canon (SetBadReason r w') = canon (SetBadReason r w)"
proof -
  have "canon (SetBadReason r w) = set_status (\<lambda>s. s\<lparr>BadReason := r\<rparr>) (canon w)" for w by (simp add: canon_def SetBadReason_def)
  then show ?thesis using assms by simp
qed

lemma couldSwap_cause:
  assumes "couldSwapWorkers e (SetBadReason r c) (SetBadReason r' b)"
  shows "\<not> IsWorkerComplete e (SetBadReason r c) \<and>
    (IsWorkerComplete e (SetBadReason r' b) \<or> IsWorkerIrrecoverable c \<and> IsWorkerHealthInfoReady b \<and> IsWorkerServiceOffline b)"
proof -
  have "IsWorkerHealthInfoReady (SetBadReason r' b) = IsWorkerHealthInfoReady b" "IsWorkerServiceOffline (SetBadReason r' b) = IsWorkerServiceOffline b"
    by (simp_all only: IsWorkerHealthInfoReady_def IsWorkerHealthMatch_def IsWorkerHealth_def IsWorkerRunning_def IsDaemonWorker_def
        IsWorkerProcessReady_def IsWorkerReady_def IsWorkerTypeReady_def IsWorkerServiceOffline_def SetBadReason_fields SetBadReason_status_fields)
  then show ?thesis using assms by (auto simp: couldSwapWorkers_def)
qed

text \<open>The facts of a kept pair; completeness is that of the worker with its bad reason brought up to date.\<close>

definition complete_now :: "worker_env \<Rightarrow> string \<Rightarrow> WorkerNode \<Rightarrow> bool" where
  "complete_now e v w \<longleftrightarrow> IsWorkerComplete e (SetBadReason (GetWorkerBadState e w v) w)"

lemma paired_cause:
  assumes "label_ops e" "adjust_body e rs pod own False c (Some b) qs = Inr ((c', p', qs', q'), sy)" "cur_ok c" "IsBackupWorker b"
  defines "v \<equiv> target_version rs (own_worker own c (Some b))"
  shows "\<exists>b'. p' = Some b' \<and> IsWorkerToRelease c' = IsWorkerToRelease c \<and>
    (\<not> cur_ok c' \<longrightarrow> \<not> complete_now e v c \<and>
      (complete_now e v b \<or> IsWorkerIrrecoverable c \<and> IsWorkerHealthInfoReady b \<and> IsWorkerServiceOffline b)) \<and>
    (IsWorkerToRelease b' \<and> \<not> IsWorkerToRelease b \<longrightarrow> GetWorkerBadState e b v \<noteq> BadReasonNone \<or> complete_now e v c)"
proof (cases "isWorkersSame c b")
  case False
  obtain b' where s: "p' = Some b'" "syncWorkers e c b = Inr (c', b')" by (rule adjust_body_sync [OF assms(2) False])
  then have "keeps_role c c'" "IsWorkerToRelease c' = IsWorkerToRelease c" "IsWorkerToRelease b' = IsWorkerToRelease b"
    using syncWorkers_role [OF assms(1) role_labelled(1) [OF assms(3)] role_labelled(2) [OF assms(4)]] by auto
  then show ?thesis using s(1) assms(3) keeps_role_ok(1) by auto
next
  case True
  then have same: "\<forall>x. Some b = Some x \<longrightarrow> isWorkersSame c x" by simp
  obtain qs0 c1 p1 qs1 v' c2 p2 q1 q2 where d: "adjust_marks e own False c (Some b) qs0 = (c1, p1, qs1)"
    "adjust_states e v' c1 p1 = (c2, p2, q1)" "adjust_recover e v' pod c2 p2 qs1 = Inr (c', p', qs', q2)"
    "v' = target_version rs (own_worker own c1 p1)"
    by (rule adjust_body_same [OF assms(2) same]) (rule that; assumption)
  have m: "c1 = syncBackupState e c (Some b)" "p1 = Some b" using d(1) by (auto simp: adjust_marks_def Let_def)
  have "target_version rs c1 = target_version rs c"
    by (rule target_version_canon) (simp_all add: m syncBackupState_def evict_msg_keeps SetEvictFailedMsg_def setAnnotation_def)
  then have v: "v' = v" unfolding d(4) m(2) v_def by (simp add: own_worker_def)
  have cn: "canon c1 = canon c" "cur_ok c1" "IsWorkerToRelease c1 = IsWorkerToRelease c"
    using keeps_role_ok(1) [OF syncBackupState_role] assms(3) by (simp_all add: m)
  define r where "r = GetWorkerBadState e c v"
  have r: "GetWorkerBadState e c1 v = r" unfolding r_def by (rule same_canon(2) [OF cn(1)])
  obtain c3 b3 q3 where ab: "adjust_backup e v r (SetBadReason r c1) b = (c3, b3, q3)" by (metis prod_cases3)
  have st: "c' = (if r \<noteq> BadReasonNone then SetWorkerProhibit e True c3 else c3)" "p' = Some b3"
    using d(2,3) by (auto simp: v m(2) adjust_states_def r ab adjust_recover_pair Let_def)
  have k: "canon (SetBadReason r c1) = canon (SetBadReason r c)" by (rule canon_SetBadReason [OF cn(1)])
  have rl: "IsWorkerToRelease c' = IsWorkerToRelease c" using adjust_backup_cause(1) [OF ab] cn(3) by (simp add: st)
  have ok: "cur_ok c' = cur_ok c3" using keeps_role_ok(1) [OF keeps_role_prohibit(1) [OF assms(1)]] by (simp add: st)
  have sw: "\<not> complete_now e v c \<and> (complete_now e v b \<or> IsWorkerIrrecoverable c \<and> IsWorkerHealthInfoReady b \<and> IsWorkerServiceOffline b)"
    if "\<not> cur_ok c'"
  proof -
    have "cur_ok (SetBadReason r c1)" using keeps_role_ok(1) [OF keeps_role_ops(2)] cn(2) by simp
    from couldSwap_cause [OF adjust_backup_cause(2) [OF ab this]] that ok
    have "\<not> IsWorkerComplete e (SetBadReason r c1) \<and> (IsWorkerComplete e (SetBadReason (GetWorkerBadState e b v) b) \<or>
      IsWorkerIrrecoverable c1 \<and> IsWorkerHealthInfoReady b \<and> IsWorkerServiceOffline b)" by simp
    then show ?thesis by (simp only: complete_now_def r_def [symmetric] same_canon(1) [OF k] same_canon(6) [OF cn(1)] simp_thms)
  qed
  have "GetWorkerBadState e b v \<noteq> BadReasonNone \<or> complete_now e v c" if "IsWorkerToRelease b3" "\<not> IsWorkerToRelease b"
    using adjust_backup_cause(3) [OF ab that] by (simp only: complete_now_def r_def [symmetric] same_canon(1) [OF k])
  then show ?thesis using st(2) rl sw by blast
qed

text \<open>
  C15. A replica keeps its good worker. For a settled pair (one current worker, and a backup labelled as such) whose current worker is not to be deleted, the adjuster never releases the
  current worker; it makes the backup current only when the current worker is not complete, and either the backup is complete, or the current worker is beyond recovery and the backup is
  ready by its health information while its service is offline; and it releases the backup only when that one is bad or the current worker is complete. The backup is never lost.
  Completeness is that of the worker with its bad reason brought up to date.
\<close>

theorem adjust_pair_for_cause:
  assumes "label_ops e" "settled a" "adjust e rs a = Inr (a', sy)" "at_backup a a = Some b" "\<not> IsWorkerToDelete (at_current a a)"
  defines "v \<equiv> target_version rs (ad_worker a)"
  shows "\<exists>b'. at_backup a a' = Some b' \<and> IsWorkerToRelease (at_current a a') = IsWorkerToRelease (at_current a a) \<and>
    (\<not> cur_ok (at_current a a') \<longrightarrow> \<not> complete_now e v (at_current a a) \<and>
      (complete_now e v b \<or> IsWorkerIrrecoverable (at_current a a) \<and> IsWorkerHealthInfoReady b \<and> IsWorkerServiceOffline b)) \<and>
    (IsWorkerToRelease b' \<and> \<not> IsWorkerToRelease b \<longrightarrow> GetWorkerBadState e b v \<noteq> BadReasonNone \<or> complete_now e v (at_current a a))"
proof -
  obtain q where "adjust_body e rs (ad_pod a) (cur_ok (ad_worker a)) False (at_current a a) (Some b) (ad_quotas a) =
    Inr ((at_current a a', at_backup a a', ad_quotas a', q), sy)"
    using adjust_settled [OF assms(2,3)] assms(4,5) by auto
  moreover have "own_worker (cur_ok (ad_worker a)) (at_current a a) (Some b) = ad_worker a"
    using assms(4) by (auto simp: own_worker_def at_current_def at_backup_def split: if_splits)
  ultimately show ?thesis
    using paired_cause [OF assms(1) _ settled_roles(1) [OF assms(2)] settled_roles(2) [OF assms(2,4)]] unfolding v_def by metis
qed

text \<open>An example: the same worker with a healthy backup, which becomes the current one.\<close>

definition paired_adjuster :: "unit adjuster" where
  "paired_adjuster = dead_adjuster\<lparr>ad_pair := Some (SetWorkerBackup sample_worker)\<rparr>"

lemma paired_worker:
  "ad_worker paired_adjuster = ad_worker dead_adjuster" "ad_pair paired_adjuster = Some (SetWorkerBackup sample_worker)"
  "IsBackupWorker (SetWorkerBackup w)"
  by (simp_all add: paired_adjuster_def SetWorkerBackup_def IsBackupWorker_def)

lemma paired_swapped:
  "case adjust sample_env (\<lambda>_ _. None) paired_adjuster of Inl _ \<Rightarrow> False | Inr (a', sy) \<Rightarrow> \<not> cur_ok (ad_worker a')"
  by code_simp

theorem adjust_pair_for_cause_witness:
  "(case adjust sample_env (\<lambda>_ _. None) paired_adjuster of Inl _ \<Rightarrow> False | Inr (a', sy) \<Rightarrow> \<not> cur_ok (ad_worker a')) \<and>
   \<not> complete_now sample_env [] (ad_worker paired_adjuster)"
proof -
  have at: "at_current paired_adjuster x = ad_worker x" "at_backup paired_adjuster x = ad_pair x" for x
    using dead_worker(1) by (simp_all add: at_current_def at_backup_def paired_worker)
  have st: "settled paired_adjuster" using dead_worker by (simp add: settled_def settled2_def paired_worker)
  obtain a' sy where a': "adjust sample_env (\<lambda>_ _. None) paired_adjuster = Inr (a', sy)" "\<not> cur_ok (ad_worker a')"
    using paired_swapped by (auto split: sum.splits)
  have "target_version (\<lambda>_ _. None) (ad_worker paired_adjuster) = []" by code_simp
  then show ?thesis
    using adjust_pair_for_cause [OF sample_label_ops st a'(1)] dead_worker(3) a'(2) paired_swapped by (auto simp: at paired_worker)
qed

subsection \<open>Synchronising\<close>

text \<open>What \<open>new\<close> can hand over to \<open>old\<close>: an empty quota, gang information or gang plan is not written, so it must be empty on both sides.\<close>

definition can_sync :: "WorkerNode \<Rightarrow> WorkerNode \<Rightarrow> bool" where
  "can_sync new old \<longleftrightarrow> (GetQuotaID new = [] \<longrightarrow> GetQuotaID old = []) \<and> (GetGangInfo new = [] \<longrightarrow> GetGangInfo old = []) \<and>
     (if IsGangMainPart (Template (Plan new)) then GetGangPlan new = [] \<longrightarrow> GetGangPlan old = []
      else sget (Annotations new) AnnoGangPlan = [] \<and> sget (Labels old) AnnoGangPlan = [])"

lemma sync_old_same:
  assumes "label_ops e" "Labels old \<noteq> None" "can_sync new old" "sync_old e new old = Inr old'"
  shows "isWorkersSame new old' \<and> isWorkersSame old' new"
proof -
  define o1 where "o1 = set_spec (\<lambda>s. s\<lparr>Spec_ResVersion := Spec_ResVersion (Spec new), Spec_Version := Spec_Version (Spec new),
    Spec_VersionPlan := Plan new, Spec_WorkerMode := Spec_WorkerMode (Spec new), DependencyReady := DependencyReady (Spec new)\<rparr>) old"
  define o2 where "o2 = SetGangInfo (GetGangInfo new) (SetQuotaID e (GetQuotaID new) o1)"
  define o3 where "o3 = (if IsGangMainPart (Template (Plan new)) then SetGangPlan (GetGangPlan new) o2
    else o2\<lparr>Annotations := sdel AnnoGangPlan (Annotations o2)\<rparr>)"
  have l: "Labels o3 = (if GetQuotaID new = [] then Labels old else sput LabelKeyQuotaGroupID (GetQuotaID new) (Labels old))" "Spec o3 = Spec o1"
    by (simp_all add: o3_def o2_def o1_def SetGangPlan_def SetGangInfo_def setAnnotation_def SetQuotaID_def setLabel_def label_opsD [OF assms(1)])
  have an: "sget (Annotations o3) k =
    (if k = AnnoGangPlan then (if IsGangMainPart (Template (Plan new)) then (if GetGangPlan new = [] then sget (Annotations old) k else GetGangPlan new) else [])
     else if k = BizDetailKeyGangInfo \<and> GetGangInfo new \<noteq> [] then GetGangInfo new else sget (Annotations old) k)" for k
    by (simp add: o3_def o2_def o1_def SetGangPlan_def SetGangInfo_def setAnnotation_def SetQuotaID_def setLabel_def)
  have "Labels o3 \<noteq> None" unfolding l(1) using assms(2) by (simp del: not_None_eq)
  then obtain m where m: "Labels o3 = Some m" by blast
  have o': "old' = o3\<lparr>Labels := Some (smerge (shared_labels (Labels new)) m)\<rparr>"
    using assms(4) unfolding sync_old_def Let_def o1_def [symmetric] o2_def [symmetric] o3_def [symmetric] m by simp
  have lab: "sget (Labels old') k = (if shas (Labels new) k then sget (Labels new) k else sget (Labels o3) k)"
    if "k \<noteq> WorkerRoleKey" "k \<noteq> DefaultWorkernodeUniqueLabelKey" for k
    using that by (cases "Labels new") (simp_all add: o' m shared_labels_def scontents_def lookup_filter split: option.split)
  have abs: "\<not> shas (Labels new) k \<Longrightarrow> sget (Labels new) k = []" for k by (rule sget_missing)
  have o3: "Annotations old' = Annotations o3" "Spec old' = Spec o1" by (simp_all add: o' l(2))
  have q: "GetQuotaID old' = GetQuotaID new"
    using assms(3) abs by (auto simp: GetQuotaID_def lab l(1) can_sync_def)
  have i: "GetGangInfo old' = GetGangInfo new"
    using assms(3) abs [of BizDetailKeyGangInfo] by (auto simp: GetGangInfo_def GetLabelAnnoValue_def lab l(1) o3(1) an can_sync_def split: if_splits)
  have p: "GetGangPlan old' = GetGangPlan new"
    using assms(3) abs [of AnnoGangPlan] by (auto simp: GetGangPlan_def GetLabelAnnoValue_def lab l(1) o3(1) an can_sync_def split: if_splits)
  show ?thesis
    using q i p by (simp add: o3(2) isWorkersSame_def isWorkerRowCompleteSame_def IsWorkerDependencyReady_def o1_def split: option.split)
qed

text \<open>
  Synchronisation converges: when the newer plan's quota, gang information and gang plan can be handed over, the two workers are the
  same after it, so that the next pass goes on to adjust them.
\<close>

theorem syncWorkers_converges:
  assumes "label_ops e" "Labels c \<noteq> None" "Labels b \<noteq> None" "syncWorkers e c b = Inr (c', b')"
    "if OwnerGeneration (Spec b) \<le> OwnerGeneration (Spec c) then can_sync c b else can_sync b c"
  shows "isWorkersSame c' b'"
proof (cases "OwnerGeneration (Spec b) \<le> OwnerGeneration (Spec c)")
  case True
  then have "c' = c" "sync_old e c b = Inr b'" using assms(4) by (cases "sync_old e c b"; simp add: syncWorkers_def)+
  then show ?thesis using sync_old_same [OF assms(1,3)] assms(5) True by auto
next
  case False
  then have "b' = b" "sync_old e b c = Inr c'" using assms(4) by (cases "sync_old e b c"; simp add: syncWorkers_def)+
  then show ?thesis using sync_old_same [OF assms(1,2)] assms(5) False by auto
qed

text \<open>An example: a pair of which the current one has the newer plan.\<close>

definition newer_worker :: WorkerNode where
  "newer_worker = SetWorkerCurrent sample_env (set_spec (\<lambda>s. s\<lparr>OwnerGeneration := 1\<rparr>) sample_worker)"

definition older_worker :: "string \<Rightarrow> WorkerNode" where
  "older_worker q = SetWorkerBackup (sample_worker\<lparr>Labels := sput LabelKeyQuotaGroupID q None\<rparr>)"

lemmas pair_samples = newer_worker_def older_worker_def SetWorkerCurrent_def SetWorkerBackup_def SetBadReason_def sample_worker_def healthy_worker_def
  sample_defs

lemma newer_labels: "shared_labels (Labels newer_worker) = Mapping.empty"
  by (rule mapping_eqI) (simp add: shared_labels_def lookup_filter pair_samples scontents_def sput_def lookup_update' split: option.split)

lemma smerge_empty: "smerge Mapping.empty m = m"
  by (rule mapping_eqI) simp

lemma sync_sample:
  "sync_old e newer_worker (older_worker q) = Inr (older_worker q)"
proof -
  have n: "GetQuotaID newer_worker = []" "GetGangInfo newer_worker = []" "\<not> IsGangMainPart (Template (Plan newer_worker))"
    by (simp_all add: GetQuotaID_def GetGangInfo_def GetLabelAnnoValue_def IsGangMainPart_def pair_samples)
  obtain m where m: "Labels (older_worker q) = Some m" by (simp add: older_worker_def SetWorkerBackup_def sput_def)
  define o1 where "o1 = set_spec (\<lambda>s. s\<lparr>Spec_ResVersion := Spec_ResVersion (Spec newer_worker), Spec_Version := Spec_Version (Spec newer_worker),
    Spec_VersionPlan := Plan newer_worker, Spec_WorkerMode := Spec_WorkerMode (Spec newer_worker),
    DependencyReady := DependencyReady (Spec newer_worker)\<rparr>) (older_worker q)"
  have o1: "o1 = older_worker q" by (simp add: o1_def pair_samples)
  have "Annotations (older_worker q) = None" by (simp add: pair_samples)
  then have "older_worker q\<lparr>Annotations := sdel AnnoGangPlan (Annotations (older_worker q))\<rparr> = older_worker q" by (simp add: sdel_def)
  then show ?thesis
    unfolding sync_old_def Let_def o1_def [symmetric] o1
    by (simp add: n SetQuotaID_def setLabel_def SetGangInfo_def setAnnotation_def m newer_labels smerge_empty)
qed

theorem syncWorkers_converges_witness:
  "\<exists>c' b'. syncWorkers sample_env newer_worker ((older_worker [])\<lparr>Spec := (Spec (older_worker []))\<lparr>Spec_Version := ''v''\<rparr>\<rparr>) = Inr (c', b') \<and>
     isWorkersSame c' b'"
proof -
  let ?b = "(older_worker [])\<lparr>Spec := (Spec (older_worker []))\<lparr>Spec_Version := ''v''\<rparr>\<rparr>"
  have l: "Labels newer_worker \<noteq> None" "Labels ?b \<noteq> None" by (simp_all add: pair_samples)
  obtain c' b' where s: "syncWorkers sample_env newer_worker ?b = Inr (c', b')" using syncWorkers_role [OF sample_label_ops l] by blast
  have "can_sync newer_worker ?b" "OwnerGeneration (Spec ?b) \<le> OwnerGeneration (Spec newer_worker)"
    by (simp_all add: can_sync_def GetQuotaID_def GetGangInfo_def GetGangPlan_def GetLabelAnnoValue_def IsGangMainPart_def pair_samples)
  then show ?thesis using s syncWorkers_converges [OF sample_label_ops l s] by simp
qed

text \<open>A pair of which only the older worker has a quota id.\<close>

definition stuck_adjuster :: "unit adjuster" where
  "stuck_adjuster = \<lparr>ad_worker = newer_worker, ad_pair = Some (older_worker ''q''), ad_pod = None,
     ad_quotas = \<lparr>quotas = [], parallelQuotas = [], workerCache = ()\<rparr>, ad_queue = []\<rparr>"

text \<open>
  Synchronisation need not converge: a quota id that only the older worker has is compared but never taken away, so each pass finds
  the two workers different, changes nothing and ends before the state machine runs.
\<close>

theorem adjust_sync_stuck: "adjust e rs stuck_adjuster = Inr (stuck_adjuster, True)"
proof -
  let ?c = newer_worker and ?b = "older_worker ''q''"
  have r: "cur_ok ?c" "IsBackupWorker ?b" "\<not> IsBackupWorker ?c" "\<not> IsWorkerToDelete ?c"
    by (simp_all add: cur_ok_def IsCurrentWorker_def IsBackupWorker_def IsWorkerToDelete_def pair_samples)
  have d: "\<not> isWorkersSame ?c ?b" by (simp add: isWorkersSame_def GetQuotaID_def pair_samples)
  have s: "syncWorkers e ?c ?b = Inr (?c, ?b)"
    by (simp add: syncWorkers_def sync_sample) (simp add: pair_samples)
  have g: "giveBackRecoverQuota ?c qs = qs" for qs :: "unit recoverQuotas" by (simp add: giveBackRecoverQuota_def GetGangID_def pair_samples)
  have "GetCurrentWorkerNodeV2 e False [Some ?c, Some ?b] = Inr ([Some ?c, Some ?b], 0, Some 1, False, Some ?c, Some ?b)"
    using r by (simp add: two_workers pick_current_def Let_def as_role_same)
  then show ?thesis
    using d by (simp add: adjust_def stuck_adjuster_def adjust_body_def own_worker_def g s Let_def)
qed

subsection \<open>Scheduling\<close>

text \<open>The two stages of a schedule after the allocator is built: the adjustment always gives a result, and the state machine starts
  with the allocator's invariant.\<close>

lemma schedule_cases:
  assumes "label_ops e" "createAllocator e cl targets (ad_worker a) (ad_pod a) = Inr (al, w)"
  obtains a1 where "settled a1" "schedule e cl targets rs a = Some (Inr (a1\<lparr>ad_pod := None\<rparr>, al, True))"
  | a1 m ok where "settled a1" "process e (pod_allocator e cl) \<lparr>mw = ad_worker a1, mal = al, mpod = ad_pod a1, mlog = []\<rparr> = Some (m, ok)"
      "schedule e cl targets rs a = Some (Inr (a1\<lparr>ad_worker := set_status (\<lambda>s. s\<lparr>Score := snd (ScoreOfWorker e (mw m))\<rparr>)
         (fst (ScoreOfWorker e (mw m))), ad_pod := mpod m\<rparr>, mal m, False))"
proof -
  obtain a1 sy where a1: "adjust e rs (a\<lparr>ad_worker := set_status (\<lambda>s. s\<lparr>NotScheduleSeconds := getNotScheduleTime e (ad_pod a)\<rparr>) w\<rparr>) =
    Inr (a1, sy)" "settled a1"
    using adjust_total [OF assms(1)] by blast
  show ?thesis
  proof (cases sy)
    case True
    then show ?thesis using that(1) [OF a1(2)] assms(2) a1(1) by (simp add: schedule_def)
  next
    case False
    have "allocator_inv al" using createAllocator_inv [OF assms(2)] by simp
    then obtain m ok where p: "process e (pod_allocator e cl) \<lparr>mw = ad_worker a1, mal = al, mpod = ad_pod a1, mlog = []\<rparr> = Some (m, ok)"
      using pa.process_returns [where m = "\<lparr>mw = ad_worker a1, mal = al, mpod = ad_pod a1, mlog = []\<rparr>" and cl = cl] by fastforce
    then show ?thesis using that(2) [OF a1(2) p] assms(2) a1(1) False by (simp add: schedule_def)
  qed
qed

lemma createAllocator_total:
  assumes "Template (Plan w) \<noteq> None" "\<forall>v. targets v pod \<noteq> None"
  shows "\<exists>al w'. createAllocator e cl targets w pod = Inr (al, w')"
proof -
  obtain t where t: "Template (Plan w) = Some t" using assms(1) by blast
  have "\<exists>x. (case targets v pod of None \<Rightarrow> Inl NoTargets | Some (target, version) \<Rightarrow> Inr (f target version, v)) = Inr x" for v and f :: "_ \<Rightarrow> _ \<Rightarrow> podAllocator"
    using assms(2) [rule_format, of v] by auto
  then show ?thesis unfolding createAllocator_def t Let_def option.case by (metis surj_pair)
qed

text \<open>
  C18. Scheduling a replica's worker always ends with a result: the plan has a template and the target pod can be generated, so no panic, no
  error and no endless loop remain, whatever the two workers, the pod and the answers of the API server are.
\<close>

theorem schedule_returns:
  assumes "label_ops e" "Template (Plan (ad_worker a)) \<noteq> None" "\<forall>w. targets w (ad_pod a) \<noteq> None"
  shows "\<exists>a' al sy. schedule e cl targets rs a = Some (Inr (a', al, sy))"
proof -
  obtain al w where c: "createAllocator e cl targets (ad_worker a) (ad_pod a) = Inr (al, w)"
    using createAllocator_total [of "ad_worker a" targets "ad_pod a" e cl] assms(2,3) by blast
  show ?thesis by (rule schedule_cases [OF assms(1) c]) blast+
qed

lemma sample_template: "Template (Plan (ad_worker sample_adjuster)) \<noteq> None"
  by (simp add: sample_adjuster_def SetWorkerCurrent_def SetBadReason_def sample_worker_def)

theorem schedule_returns_witness:
  "\<exists>a' al sy. schedule sample_env sample_cluster sample_targets (\<lambda>_ _. None) sample_adjuster = Some (Inr (a', al, sy))"
  by (rule schedule_returns [OF sample_label_ops sample_template]) (simp add: sample_targets_def)

text \<open>
  C17. The requests of one schedule of a worker, from the creation of its allocator on: the pod of a graceful worker is deleted only when none of its services is available, when it is
  unassigned, or when it is offline and unpublished; and while the worker's version or mode is not the one it should have, its pod is updated only when the worker is unassigned, or
  offline and unpublished. A pass that synchronises the two workers makes no request. Updates of a worker whose version and mode match, of its resources for instance, and patches of
  the metadata are not restricted.
\<close>

theorem schedule_requests_safe:
  assumes "label_ops e" "schedule e cl targets rs a = Some (Inr (a', al, sy))"
  shows "(sy \<longrightarrow> api_log al = []) \<and>
    (\<forall>p v. ApiDelete p v \<in> set (api_log al) \<longrightarrow> IsWorkerGracefully v \<longrightarrow>
      IsWorkerUnAvaliable v \<or> IsWorkerUnAssigned v \<or> (ServiceOffline (Status v) \<and> IsWorkerUnpublished v)) \<and>
    (\<forall>p v. ApiUpdate p v \<in> set (api_log al) \<longrightarrow> IsWorkerGracefully v \<longrightarrow> IsWorkerVersionMisMatch v \<or> IsWorkerModeMisMatch v \<longrightarrow>
      IsWorkerUnAssigned v \<or> (ServiceOffline (Status v) \<and> IsWorkerUnpublished v))"
proof -
  obtain al0 w where c: "createAllocator e cl targets (ad_worker a) (ad_pod a) = Inr (al0, w)"
    using assms(2) by (auto simp: schedule_def split: sum.splits)
  have "(sy \<longrightarrow> api_log al = []) \<and> (\<forall>c \<in> set (api_log al). api_ok c)"
  proof (rule schedule_cases [OF assms(1) c, of rs])
    fix a1 assume "schedule e cl targets rs a = Some (Inr (a1\<lparr>ad_pod := None\<rparr>, al0, True))"
    then show ?thesis using assms(2) createAllocator_inv [OF c] by simp
  next
    fix a1 m ok assume p: "process e (pod_allocator e cl) \<lparr>mw = ad_worker a1, mal = al0, mpod = ad_pod a1, mlog = []\<rparr> = Some (m, ok)"
      and s: "schedule e cl targets rs a = Some (Inr (a1\<lparr>ad_worker := set_status (\<lambda>s. s\<lparr>Score := snd (ScoreOfWorker e (mw m))\<rparr>)
         (fst (ScoreOfWorker e (mw m))), ad_pod := mpod m\<rparr>, mal m, False))"
    have "\<forall>c \<in> set (api_log (mal m)). api_ok c" by (rule pass_requests_ok [OF _ p]) (simp add: createAllocator_inv [OF c])
    then show ?thesis using s assms(2) by simp
  qed
  note this [THEN conjunct1] this [THEN conjunct2, rule_format]
  note sy = this(1) and ok = this(2)
  show ?thesis
    by (intro conjI allI impI; (drule ok; simp add: api_ok_def sync_ok_def; blast)?) (use sy in blast)
qed

theorem schedule_requests_safe_witness:
  "\<exists>a' al sy. schedule sample_env sample_cluster sample_targets (\<lambda>_ _. None) sample_adjuster = Some (Inr (a', al, sy)) \<and>
     (\<forall>p v. ApiDelete p v \<in> set (api_log al) \<longrightarrow> IsWorkerGracefully v \<longrightarrow>
        IsWorkerUnAvaliable v \<or> IsWorkerUnAssigned v \<or> (ServiceOffline (Status v) \<and> IsWorkerUnpublished v))"
proof -
  obtain al w where c: "createAllocator sample_env sample_cluster sample_targets (ad_worker sample_adjuster) (ad_pod sample_adjuster) = Inr (al, w)"
    using createAllocator_total [OF sample_template] by (fastforce simp: sample_targets_def)
  obtain a' al' sy where s: "schedule sample_env sample_cluster sample_targets (\<lambda>_ _. None) sample_adjuster = Some (Inr (a', al', sy))"
    by (rule schedule_cases [OF sample_label_ops c, of "\<lambda>_ _. None"]) blast+
  from schedule_requests_safe [OF sample_label_ops s] s show ?thesis by blast
qed

end
