(* ===== verification/RollingScheduler.thy ===== *)
theory RollingScheduler
  imports RollingArgs
begin

text \<open>
  The second half of \<^verbatim>\<open>controller/rollingset/scheduler.go\<close>: one pass of the rolling set scheduler. It lets the node set updater plan the active
  replicas, fills the standbys from what is left over, hands out the spot instances, and sends the requests: releases, removals, updates,
  creations and the status.
\<close>

subsection \<open>Supplements\<close>

type_synonym pass = "rollingsetArgs \<times> Replica heap"

abbreviation rname :: "Replica heap \<Rightarrow> addr \<Rightarrow> string" where
  "rname h a \<equiv> Name (rp_worker (cells h a))"

abbreviation on_replica :: "(WorkerNode \<Rightarrow> WorkerNode) \<Rightarrow> addr \<Rightarrow> Replica heap \<Rightarrow> Replica heap" where
  "on_replica f a h \<equiv> modify a (upd_worker f) h"

text \<open>\<^verbatim>\<open>SubReplicas\<close>, by names; the objects are addresses or copies.\<close>

definition SubReplicas :: "('a \<Rightarrow> string) \<Rightarrow> 'a list \<Rightarrow> string list \<Rightarrow> 'a list" where
  "SubReplicas name src sub = filter (\<lambda>a. name a \<notin> set sub) src"

definition MergeReplica :: "addr list list \<Rightarrow> addr list" where
  "MergeReplica = concat"

definition supplement_name :: "Replica \<Rightarrow> string" where
  "supplement_name r =
     (if Name (rp_worker r) = '''' then (case rp_Gang r of Some (p # _) \<Rightarrow> Name (rp_worker p) | _ \<Rightarrow> '''') else Name (rp_worker r))"

definition add_supplement :: "Replica heap \<Rightarrow> addr \<Rightarrow> rollingsetArgs \<Rightarrow> rollingsetArgs" where
  "add_supplement h a args =
     (let name = supplement_name (cells h a) in
      if name \<noteq> '''' \<and> name \<notin> set (supplements args)
      then args\<lparr>supplementReplicaSet := supplementReplicaSet args @ [a], supplements := supplements args @ [name]\<rparr> else args)"

definition addSupplement :: "Replica heap \<Rightarrow> addr list \<Rightarrow> rollingsetArgs \<Rightarrow> rollingsetArgs" where
  "addSupplement h addrs args = fold (add_supplement h) addrs args"

definition copy_metas :: "rolling_env \<Rightarrow> sched_ctx \<Rightarrow> RollingSet \<Rightarrow> addr \<Rightarrow> Replica heap \<Rightarrow> rs_error + Replica heap" where
  "copy_metas e c rs a h =
     (if isGangRolling rs then Inr h
      else sbind (copyGeneralMetas (we e) (generalLabels c) (generalAnnotations c) (rp_worker (cells h a)))
             (\<lambda>w. Inr (on_replica (\<lambda>_. w) a h)))"

definition addNodeSetMapToSupplement :: "rolling_env \<Rightarrow> sched_ctx \<Rightarrow> RollingSet \<Rightarrow> NodeMap \<Rightarrow> bool \<Rightarrow> pass \<Rightarrow> rs_error + pass" where
  "addNodeSetMapToSupplement e c rs nodeSetMap isCreate p =
     (let (args, h) = p; replicas = concat (map snd nodeSetMap) in
      sbind (sfold (copy_metas e c rs) replicas h) (\<lambda>h.
        let args = (if isCreate then args\<lparr>replicaSet := replicaSet args @ replicas\<rparr> else args)
        in Inr (addSupplement h replicas args, h)))"

subsection \<open>Standbys\<close>

abbreviation mode_count :: "(WorkerModeType, int) gomap \<Rightarrow> WorkerModeType \<Rightarrow> int" where
  "mode_count \<equiv> mget 0"

definition calStandbyCountsByRatio :: "int \<Rightarrow> (WorkerModeType, int) gomap \<Rightarrow> (WorkerModeType, int) gomap" where
  "calStandbyCountsByRatio standbys ratioMap =
     (let share = (\<lambda>mode. \<lceil>f64 (f64 (of_int (standbys * mode_count ratioMap mode)) / 100)\<rceil>);
          hot = share WorkerModeTypeHot;
          warm = min (standbys - hot) (share WorkerModeTypeWarm);
          cold = standbys - hot - warm;
          (inactive, cold) = (if mode_count ratioMap WorkerModeTypeInactive = 100 then (standbys, 0) else (0, cold))
      in [(WorkerModeTypeHot, hot), (WorkerModeTypeWarm, warm), (WorkerModeTypeCold, cold), (WorkerModeTypeInactive, inactive)])"

definition SyncCold2Warm4Update :: "worker_env \<Rightarrow> WorkerNode \<Rightarrow> WorkerNode \<times> bool" where
  "SyncCold2Warm4Update e w =
     (if \<not> IsRrResourceUpdating w then (w, False)
      else if shas (Annotations w) ColdResourceUpdateTargetVersion \<and>
              sget (Annotations w) ColdResourceUpdateTargetVersion = ResVersion (Status w) \<and> IsWorkerComplete e w
      then (w\<lparr>Annotations := sdel ColdResourceUpdateTargetVersion (sdel ColdResourceUpdateState (Annotations w))\<rparr>, False)
      else if Spec_WorkerMode (Spec w) = WorkerModeTypeCold then (set_spec (\<lambda>s. s\<lparr>Spec_WorkerMode := WorkerModeTypeWarm\<rparr>) w, True)
      else (w, False))"

text \<open>The redundant replicas that can serve in a mode, at most \<open>count\<close> of them, and the rest.\<close>

definition pick_step :: "RollingSet \<Rightarrow> Replica heap \<Rightarrow> int32 \<Rightarrow> WorkerModeType \<Rightarrow> addr \<Rightarrow> addr list \<times> addr list \<Rightarrow> addr list \<times> addr list" where
  "pick_step rs h cnt mode a = (\<lambda>(picked, rest).
     if IsReplicaReleasing (cells h a) then (picked, rest @ [a])
     else if i32 (int (length picked)) < cnt \<and> isStandbyCanActive rs (cells h a) mode then (picked @ [a], rest)
     else (picked, rest @ [a]))"

definition pick_redundants :: "RollingSet \<Rightarrow> Replica heap \<Rightarrow> int32 \<Rightarrow> WorkerModeType \<Rightarrow> addr list \<Rightarrow> addr list \<times> addr list" where
  "pick_redundants rs h cnt mode redundants = fold (pick_step rs h cnt mode) redundants ([], [])"

abbreviation ReplicaMaxBatchSize :: nat where "ReplicaMaxBatchSize \<equiv> 4000"

primrec create_replicas :: "rolling_env \<Rightarrow> sched_ctx \<Rightarrow> RollingSet \<Rightarrow> nat \<Rightarrow> Replica heap \<Rightarrow> rs_error + addr list \<times> Replica heap" where
  "create_replicas e c rs 0 h = Inr ([], h)"
| "create_replicas e c rs (Suc n) h =
     sbind (createReplicaTemplate e c (fresh h) rs) (\<lambda>r.
       sbind (create_replicas e c rs n (h\<lparr>cells := (cells h)(fresh h := r), fresh := Suc (fresh h)\<rparr>)) (\<lambda>(new, h').
         Inr (fresh h # new, h')))"

text \<open>A replica is given its mode and plan; the answer is whether it has to be written. A silent standby that would not change is left alone; the
  labels are compared twice and the annotations are not.\<close>

definition set_mode :: "rolling_env \<Rightarrow> sched_ctx \<Rightarrow> RollingSet \<Rightarrow> WorkerModeType \<Rightarrow> WorkerNode \<Rightarrow> rs_error + WorkerNode" where
  "set_mode e c rs mode w =
     (let w = (if mode = WorkerModeTypeActive then fst (SetStandby2Active (we e) w) else w) in
      if isGangRolling rs then Inr w
      else sbind (copyGeneralMetas (we e) (generalLabels c) (generalAnnotations c) w) (\<lambda>w.
        let (w, silent) = SyncSilence (we e) mode w;
            w = (if silent then w else set_spec (\<lambda>s. s\<lparr>Spec_WorkerMode := mode\<rparr>) w)
        in Inr (if Spec_WorkerMode (Spec w) = WorkerModeTypeCold \<and> IsFedWorker (Status w)
                then set_spec (\<lambda>s. s\<lparr>Spec_WorkerMode := WorkerModeTypeWarm\<rparr>) w else w)))"

definition supplement_node ::
  "rolling_env \<Rightarrow> sched_ctx \<Rightarrow> RollingSet \<Rightarrow> VersionPlanWithGangPlan \<Rightarrow> string \<Rightarrow> WorkerModeType \<Rightarrow> bool \<Rightarrow> Replica \<Rightarrow> rs_error + Replica \<times> bool" where
  "supplement_node e c rs plan version mode depends r =
     (let silent = (InSilence (we e) (rp_worker r) \<and> IsStandbyWorkerMode mode) in
      sbind (set_mode e c rs mode (rp_worker r)) (\<lambda>w.
        let (w, warmed) = (if IsStandbyWorkerMode mode then SyncCold2Warm4Update (we e) w else (w, False)) in
        if warmed then Inr (upd_worker (\<lambda>_. w) r, False)
        else
          sbind (worker_err (SetReplicaVersionPlanWithGangPlan (renv e) (Some plan) version (upd_worker (\<lambda>_. w) r))) (\<lambda>r'.
            let r' = upd_worker (set_spec (\<lambda>s. s\<lparr>DependencyReady := Some (\<not> depends)\<rparr>)) r'
            in Inr (r', \<not> (silent \<and> json_WorkerNodeSpec e (Spec (rp_worker r)) = json_WorkerNodeSpec e (Spec (rp_worker r')) \<and>
                  json_Labels e (Labels (rp_worker r)) = json_Labels e (Labels (rp_worker r')))))))"

definition supplement_nodes ::
  "rolling_env \<Rightarrow> sched_ctx \<Rightarrow> RollingSet \<Rightarrow> VersionPlanWithGangPlan \<Rightarrow> string \<Rightarrow> WorkerModeType \<Rightarrow> bool \<Rightarrow> addr list \<Rightarrow> Replica heap \<Rightarrow>
   rs_error + addr list \<times> Replica heap" where
  "supplement_nodes e c rs plan version mode depends addrs h =
     sfold (\<lambda>a (need, h). sbind (supplement_node e c rs plan version mode depends (cells h a)) (\<lambda>(r, write).
       Inr (if write then need @ [a] else need, modify a (\<lambda>_. r) h))) addrs ([], h)"

text \<open>\<^verbatim>\<open>supplementNodesWithPlan\<close>: the replicas that now serve in the mode, the redundant ones left, and the state.\<close>

definition supplementNodesWithPlan ::
  "rolling_env \<Rightarrow> sched_ctx \<Rightarrow> RollingSet \<Rightarrow> string \<Rightarrow> VersionPlanWithGangPlan \<Rightarrow> int32 \<Rightarrow> WorkerModeType \<Rightarrow> bool \<Rightarrow> addr list \<Rightarrow> pass \<Rightarrow>
   rs_error + addr list \<times> addr list \<times> pass" where
  "supplementNodesWithPlan e c rs version plan cnt mode depends redundants p =
     (let (args, h) = p;
          (picked, rest) = pick_redundants rs h cnt mode redundants;
          lackCount = i32 (cnt - i32 (int (length picked)));
          lackCount = (if lackCount > 0 then min (nat lackCount) ReplicaMaxBatchSize else 0)
      in sbind (create_replicas e c rs lackCount h) (\<lambda>(new, h).
           let args = args\<lparr>replicaSet := replicaSet args @ new\<rparr>; nodes = picked @ new
           in sbind (supplement_nodes e c rs plan version mode depends nodes h) (\<lambda>(need, h).
                Inr (nodes, rest, addSupplement h need args, h))))"

text \<open>The standbys that are kept: of the latest version, at most the target of their mode and \<open>standbys\<close> in all.\<close>

definition keep_step ::
  "Replica heap \<Rightarrow> string \<Rightarrow> int \<Rightarrow> (WorkerModeType, int) gomap \<Rightarrow> addr \<Rightarrow>
   addr list \<times> addr list \<times> (WorkerModeType, int) gomap \<Rightarrow> addr list \<times> addr list \<times> (WorkerModeType, int) gomap" where
  "keep_step h latest standbys target a = (\<lambda>(kept, rest, counts).
     let r = cells h a; mode = Spec_WorkerMode (Spec (rp_worker r)) in
     if \<not> IsStandbyReplica r \<or> Spec_Version (Spec (rp_worker r)) \<noteq> latest then (kept, rest @ [a], counts)
     else if int (length kept) < standbys \<and> mode_count counts mode < mode_count target mode
     then (kept @ [a], rest, mput mode (mode_count counts mode + 1) counts)
     else (kept, rest @ [a], counts))"

definition keep_standbys ::
  "Replica heap \<Rightarrow> string \<Rightarrow> int \<Rightarrow> (WorkerModeType, int) gomap \<Rightarrow> addr list \<Rightarrow> addr list \<times> addr list \<times> (WorkerModeType, int) gomap" where
  "keep_standbys h latest standbys target redundants = fold (keep_step h latest standbys target) redundants ([], [], [])"

definition set_pool :: "string \<Rightarrow> addr \<Rightarrow> Replica heap \<Rightarrow> rs_error + Replica heap" where
  "set_pool pool a h =
     (if Annotations (rp_worker (cells h a)) = None then map_panic
      else Inr (on_replica (\<lambda>w. w\<lparr>Annotations := sput AnnotationScalerResourcePool pool (Annotations w)\<rparr>) a h))"

text \<open>One mode of the loop of \<^verbatim>\<open>supplementStandby\<close>; the metrics read the containers of the rolling set's template.\<close>

definition supplement_mode ::
  "rolling_env \<Rightarrow> sched_ctx \<Rightarrow> RollingSet \<Rightarrow> string \<Rightarrow> (WorkerModeType, int) gomap \<Rightarrow> (WorkerModeType, int) gomap \<Rightarrow> WorkerModeType \<Rightarrow>
   addr list \<times> addr list \<times> pass \<Rightarrow> rs_error + addr list \<times> addr list \<times> pass" where
  "supplement_mode e c rs pool target counts mode s =
     (let (standby, redundants, args, h) = s;
          lackSize = i32 (mode_count target mode - mode_count counts mode)
      in if lackSize \<le> 0 then Inr s
         else
           sbind (supplementNodesWithPlan e c rs (ra_LatestVersion args) (latestVersionPlan args) lackSize mode False redundants (args, h))
             (\<lambda>(nodes, redundants, args, h).
               sbind (if mode = WorkerModeTypeCold \<and> pool \<noteq> '''' then sfold (set_pool pool) nodes h else Inr h) (\<lambda>h.
                 if Template (rs_VersionPlan (rs_Spec rs)) = None then nil_panic
                 else Inr (standby @ nodes, redundants, args, h))))"

definition standby_modes :: "WorkerModeType list" where
  "standby_modes = [WorkerModeTypeHot, WorkerModeTypeWarm, WorkerModeTypeCold, WorkerModeTypeInactive]"

text \<open>The standbys to reach: less those that the rolling needs as extra active replicas. This may be negative.\<close>

definition standby_target :: "RollingSet \<Rightarrow> ScaleParameters \<Rightarrow> addr list \<Rightarrow> int" where
  "standby_target rs scaled active =
     (if int (length active) > sc_ActiveReplicas scaled \<and> \<not> RollingSet_IsQuickOnline rs
      then sc_StandByReplicas scaled - (int (length active) - sc_ActiveReplicas scaled) else sc_StandByReplicas scaled)"

definition supplementStandby :: "rolling_env \<Rightarrow> sched_ctx \<Rightarrow> RollingSet \<Rightarrow> addr list \<Rightarrow> pass \<Rightarrow> rs_error + addr list \<times> pass" where
  "supplementStandby e c rs redundants p =
     (let (args, h) = p;
          less = (if RollingSet_IsQuickOnline rs then InactiveStandbyRedundantSort_Less (we e) else RedundantSort_Less (we e));
          redundants = go_sort (\<lambda>a b. less (cells h a) (cells h b)) redundants
      in case scaledParameters args of
           None \<Rightarrow> Inr (redundants, args, h)
         | Some scaled \<Rightarrow>
             if sc_StandByReplicas scaled = 0 then Inr (redundants, args, h)
             else
               let standbys = standby_target rs scaled (activeReplicas args) in
               if standbys < 0 then Inl MakesliceCap
               else
                 let target = calStandbyCountsByRatio standbys (StandByRatioMap scaled);
                     (kept, rest, counts) = keep_standbys h (ra_LatestVersion args) standbys target redundants
                 in sbind (sfold (supplement_mode e c rs (ScalerResourcePoolName scaled) target counts) standby_modes (kept, rest, args, h))
                      (\<lambda>(standby, redundants, args, h). Inr (redundants, args\<lparr>standByReplicas := standby\<rparr>, h)))"

subsection \<open>Standby hours\<close>

text \<open>The hours, of the next day, at which a replica is not needed: for every hour, the replicas beyond the predicted number.\<close>

definition hours_step :: "(int, int) gomap \<Rightarrow> nat \<Rightarrow> int \<Rightarrow> int list list \<Rightarrow> rs_error + int list list" where
  "hours_step predict n i hours =
     (let future = (if i \<ge> 24 then i - 24 else i); desired = mget 0 predict future in
      if desired = 0 \<or> desired \<ge> int n then Inr hours
      else if desired < 0 then Inl (WorkerError SliceOutOfRange)
      else Inr (map (\<lambda>(j, hs). if j \<ge> nat desired then hs @ [future] else hs) (zip [0..<n] hours)))"

definition set_hours :: "rolling_env \<Rightarrow> addr \<times> int list \<Rightarrow> pass \<Rightarrow> pass" where
  "set_hours e ah p =
     (let (a, spec) = ah; (args, h) = p; status = StandbyHours (Status (rp_worker (cells h a)));
          specHours = go_sort (<) spec;
          statusHours = (if status = '''' then [] else go_sort (<) (unmarshal_hours e status))
      in if statusHours = specHours then p
         else let h = on_replica (set_spec (\<lambda>s. s\<lparr>Spec_StandbyHours := json_hours e specHours\<rparr>)) a h in (addSupplement h [a] args, h))"

definition calcStandbyHours :: "rolling_env \<Rightarrow> pass \<Rightarrow> rs_error + pass" where
  "calcStandbyHours e p =
     (let (args, h) = p in
      if fixedCount args = 0 then Inr p
      else
        let order = (\<lambda>addrs. go_sort (\<lambda>a b. ByDeletionCost_Less (cells h a) (cells h b)) addrs);
            replicas = MergeReplica [order (fixedReplicas args), order (cyclicalReplicas args)];
            n = length replicas
        in sbind (sfold (hours_step (predictInfo args) n) (map int [nat (Hour e) + 1..<nat (Hour e) + 25]) (replicate n [])) (\<lambda>hours.
             Inr (fold (set_hours e) (zip replicas hours) p)))"

subsection \<open>Spot instances\<close>

definition GetSpotTargetFromAnnotation :: "RollingSet \<Rightarrow> int" where
  "GetSpotTargetFromAnnotation rs =
     (let spot = sget (rs_Annotations rs) AnnotationC2SpotTarget in
      if spot \<noteq> '''' then (case ParseInt spot of None \<Rightarrow> 0 | Some n \<Rightarrow> n) else 0)"

definition initSpotArgs :: "rolling_env \<Rightarrow> RollingSet \<Rightarrow> int \<Rightarrow> rollingsetArgs \<Rightarrow> rollingsetArgs" where
  "initSpotArgs e rs target args =
     (case sp_Replicas (rs_SchedulePlan (rs_Spec rs)) of
        None \<Rightarrow> args
      | Some replicas \<Rightarrow>
          let scaled = (case rs_ScaleSchedulePlan (rs_Spec rs) of
                Some p \<Rightarrow> (case ssp_Replicas p of Some n \<Rightarrow> if n > replicas then n else replicas | None \<Rightarrow> replicas)
              | None \<Rightarrow> replicas);
              spot = (if OpenRollingSpotPod e \<and> target \<ge> scaled then target - scaled else 0)
          in args\<lparr>spotTarget := spot + GetSpotTargetFromAnnotation rs\<rparr>)"

definition GetCurrentPodUid :: "WorkerNode \<Rightarrow> string" where
  "GetCurrentPodUid w = pod_ref_Uid (BackupOfPod (Spec w))"

type_synonym candidates = "(string, addr) gomap"

definition classifySpotReplicas :: "Replica heap \<Rightarrow> addr list \<Rightarrow> candidates \<times> addr list" where
  "classifySpotReplicas h addrs =
     (fold (\<lambda>a m. let w = rp_worker (cells h a) in
              if \<not> IsSpot (Spec w) \<and> IsWorkerEntityAlloced w then mput (EntityUid (Status w)) a m else m) addrs [],
      filter (\<lambda>a. let w = rp_worker (cells h a) in \<not> IsSpot (Spec w) \<and> (ResourceVersion w = '''' \<or> IsQuotaNotEnough w)) addrs)"

definition set_spot :: "bool \<Rightarrow> PodRef \<Rightarrow> addr \<Rightarrow> Replica heap \<Rightarrow> Replica heap" where
  "set_spot spot ref = on_replica (set_spec (\<lambda>s. s\<lparr>IsSpot := spot, BackupOfPod := ref\<rparr>))"

abbreviation no_pod :: PodRef where "no_pod \<equiv> \<lparr>pod_ref_Name = [], pod_ref_Uid = []\<rparr>"

record spot_state =
  ss_pass :: pass
  ss_candidates :: candidates
  ss_spots :: "addr list"
  ss_able :: "addr list"

definition filter_spot :: "addr \<Rightarrow> spot_state \<Rightarrow> spot_state" where
  "filter_spot a s =
     (let (args, h) = ss_pass s; r = cells h a; uid = GetCurrentPodUid (rp_worker r);
          s = (if uid \<noteq> '''' \<and> mhas (ss_candidates s) uid then
                 (let s = s\<lparr>ss_candidates := mdel uid (ss_candidates s)\<rparr> in
                  if IsSpot (Spec (rp_worker r))
                  then s\<lparr>ss_spots := ss_spots s @ [a], ss_pass := (args\<lparr>curSpotNames := curSpotNames args @ [Name (rp_worker r)]\<rparr>, h)\<rparr>
                  else s\<lparr>ss_able := ss_able s @ [a]\<rparr>)
               else if IsSpot (Spec (rp_worker r)) then
                 (let h = set_spot False no_pod a h
                  in s\<lparr>ss_pass := (addSupplement h [a] args, h), ss_candidates := mput (EntityUid (Status (rp_worker r))) a (ss_candidates s)\<rparr>)
               else s);
          uid = GetCurrentPodUid (rp_Backup r)
      in if uid \<noteq> '''' \<and> mhas (ss_candidates s) uid then s\<lparr>ss_candidates := mdel uid (ss_candidates s)\<rparr> else s)"

definition filterSpotReplicasAndCandidates :: "addr list \<Rightarrow> candidates \<Rightarrow> pass \<Rightarrow> spot_state" where
  "filterSpotReplicasAndCandidates addrs candidates p =
     fold filter_spot addrs \<lparr>ss_pass = p, ss_candidates = candidates, ss_spots = [], ss_able = []\<rparr>"

definition getRedundantCandidates :: "Replica heap \<Rightarrow> candidates \<Rightarrow> addr list \<Rightarrow> addr list" where
  "getRedundantCandidates h candidates redundants =
     filter (\<lambda>a. let uid = GetCurrentPodUid (rp_worker (cells h a)) in
               IsReplicaAssigned (cells h a) \<and> (uid = '''' \<or> \<not> mhas candidates uid)) redundants"

definition supply_spot :: "addr \<Rightarrow> pass \<Rightarrow> pass" where
  "supply_spot a p =
     (let (args, h) = p; h = on_replica (set_spec (\<lambda>s. s\<lparr>IsSpot := True\<rparr>)) a h; args = addSupplement h [a] args
      in (args\<lparr>curSpotNames := curSpotNames args @ [rname h a]\<rparr>, h))"

definition supplySpotFromCandidates :: "int \<Rightarrow> addr list \<Rightarrow> pass \<Rightarrow> pass \<times> int" where
  "supplySpotFromCandidates lackSize able p =
     (let chosen = take (nat lackSize) able in (fold supply_spot chosen p, int (length chosen)))"

definition supply_creating :: "addr \<times> addr \<Rightarrow> pass \<Rightarrow> pass" where
  "supply_creating pair p =
     (let (new, cur) = pair; (args, h) = p; st = Status (rp_worker (cells h cur));
          h = set_spot True \<lparr>pod_ref_Name = EntityName st, pod_ref_Uid = EntityUid st\<rparr> new h; args = addSupplement h [new] args
      in (args\<lparr>curSpotNames := curSpotNames args @ [rname h cur]\<rparr>, h))"

definition supplySpotFromCreatingReplicas :: "int \<Rightarrow> addr list \<Rightarrow> addr list \<Rightarrow> pass \<Rightarrow> pass" where
  "supplySpotFromCreatingReplicas lackSize creating current p = fold supply_creating (take (nat lackSize) (zip creating current)) p"

definition release_spot :: "addr \<times> addr \<Rightarrow> pass \<Rightarrow> pass" where
  "release_spot pair p =
     (let (spot, candidate) = pair; (args, h) = p; sp = Spec (rp_worker (cells h spot)) in
      if pod_ref_Uid (BackupOfPod sp) = EntityUid (Status (rp_worker (cells h candidate))) then p
      else
        let h = set_spot False no_pod spot (set_spot (IsSpot sp) (BackupOfPod sp) candidate h)
        in (addSupplement h [spot, candidate] args, h))"

definition releaseSpotReplicas :: "addr list \<Rightarrow> addr list \<Rightarrow> int \<Rightarrow> pass \<Rightarrow> pass" where
  "releaseSpotReplicas candidateRedundants spots redundant p = fold release_spot (take (nat redundant) (zip spots candidateRedundants)) p"

definition syncSpotReplicas :: "addr list \<Rightarrow> pass \<Rightarrow> pass" where
  "syncSpotReplicas redundants p =
     (let (args, h) = p;
          allReplicas = MergeReplica [activeReplicas args, standByReplicas args];
          (candidates, creating) = classifySpotReplicas h allReplicas;
          s = filterSpotReplicasAndCandidates allReplicas candidates p;
          redundantCandidates = getRedundantCandidates (snd (ss_pass s)) (ss_candidates s) redundants;
          lackSize = spotTarget args - int (length (ss_spots s))
      in if lackSize > 0 then
           (let (p, supplied) = supplySpotFromCandidates lackSize (ss_able s) (ss_pass s)
            in supplySpotFromCreatingReplicas (lackSize - supplied) creating (map snd (ss_candidates s)) p)
         else if lackSize < 0 then releaseSpotReplicas redundantCandidates (ss_spots s) (- lackSize) (ss_pass s)
         else ss_pass s)"

subsection \<open>Adjusting the replicas\<close>

definition is_panic :: "roll_error \<Rightarrow> bool" where
  "is_panic err \<longleftrightarrow> err \<in> {roll_error.NilDereference, SliceBounds, TypeAssertion}"

text \<open>\<^verbatim>\<open>adjust\<close>: the redundant replicas and the state. An error of the node set updater ends the adjustment with nothing redundant; the updater returns errors (as
  against panics) only from its checks and from the calculation of the targets, before it changes a node, so the heap is the one from before. The created
  replicas are already in the replica set when the active ones are read from it, and are appended once more.\<close>

definition adjust_scheduled :: "rolling_env \<Rightarrow> sched_ctx \<Rightarrow> RollingSet \<Rightarrow> NodeMap \<Rightarrow> NodeMap \<Rightarrow> NodeSet \<Rightarrow> pass \<Rightarrow> rs_error + addr list \<times> pass" where
  "adjust_scheduled e c rs created updated deleted p =
     sbind (addNodeSetMapToSupplement e c rs created True p) (\<lambda>p.
     sbind (addNodeSetMapToSupplement e c rs updated False p) (\<lambda>(args, h).
       let redundants = deleted @ inactiveStandbyNodes args;
           active = SubReplicas (rname h) (replicaSet args) (map (rname h) redundants) @ concat (map snd created);
           args = initSpotArgs e rs (int (length (replicaSet args)) - int (length redundants)) (args\<lparr>activeReplicas := active\<rparr>)
       in sbind (supplementStandby e c rs redundants (args, h)) (\<lambda>(redundants, p).
          sbind (calcStandbyHours e p) (\<lambda>p. Inr (redundants, syncSpotReplicas redundants p)))))"

definition rolling_adjust :: "rolling_env \<Rightarrow> sched_ctx \<Rightarrow> RollingSet \<Rightarrow> pass \<Rightarrow> rs_error + addr list \<times> pass" where
  "rolling_adjust e c rs p =
     (let (args, h) = p in
      case NodeSet_Schedule (algo e) (Schedule (algo e)) (replica_methods (renv e)) h (Some (rollingUpdateArgs args)) of
        Inl err \<Rightarrow> if is_panic err then Inl (RollError err) else Inr ([], p)
      | Inr ((created, updated, deleted), h) \<Rightarrow> adjust_scheduled e c rs created updated deleted (args, h))"

subsection \<open>Requests\<close>

text \<open>What the resource manager and the work queue are asked to do, in order. \<open>api\<close> is the answer of the API server, \<open>None\<close> for success.\<close>

datatype rs_request =
    BatchReleaseReplica "Replica list"
  | BatchRemoveReplica "Replica list"
  | BatchUpdateReplica "Replica list"
  | BatchCreateReplica "Replica list"
  | UpdateRollingSetStatus RollingSetStatus
  | EnqueueAfter int

type_synonym 'a sent = "rs_request list \<times> (rs_error + 'a)"

definition lbind :: "'a sent \<Rightarrow> ('a \<Rightarrow> 'b sent) \<Rightarrow> 'b sent" where
  "lbind m f = (case m of (reqs, r) \<Rightarrow> (case r of Inl err \<Rightarrow> (reqs, Inl err) | Inr x \<Rightarrow> (case f x of (reqs', r') \<Rightarrow> (reqs @ reqs', r'))))"

definition send :: "(rs_request \<Rightarrow> string option) \<Rightarrow> rs_request \<Rightarrow> unit sent" where
  "send api req = ([req], case api req of None \<Rightarrow> Inr () | Some msg \<Rightarrow> Inl (ApiError msg))"

definition enqueue :: "int \<Rightarrow> unit sent" where
  "enqueue timeout = (if timeout \<noteq> 0 then [EnqueueAfter timeout] else [], Inr ())"

text \<open>The resource manager marks what it releases, with the parts of a gang.\<close>

definition mark_release :: "Replica \<Rightarrow> Replica" where
  "mark_release r =
     Replica (set_spec (\<lambda>s. s\<lparr>ToDelete := True\<rparr>) (rp_worker r)) (rp_Backup r)
       (map_option (map (upd_worker (set_spec (\<lambda>s. s\<lparr>ToDelete := True\<rparr>)))) (rp_Gang r))"

definition releaseReplicas :: "(rs_request \<Rightarrow> string option) \<Rightarrow> addr list \<Rightarrow> Replica heap \<Rightarrow> (addr list \<times> Replica heap) sent" where
  "releaseReplicas api redundants h =
     (if redundants = [] then ([], Inr (redundants, h))
      else
        let redundants = take ReplicaMaxBatchSize redundants; h = fold (\<lambda>a. modify a mark_release) redundants h
        in lbind (send api (BatchReleaseReplica (map (cells h) redundants))) (\<lambda>_. ([], Inr (redundants, h))))"

definition removeReleasedReplicaNodes :: "(rs_request \<Rightarrow> string option) \<Rightarrow> pass \<Rightarrow> rollingsetArgs sent" where
  "removeReleasedReplicaNodes api p =
     (let (args, h) = p;
          gone = filter (\<lambda>a. IsReplicaReleased (cells h a)) (replicaSet args);
          names = map (rname h) gone;
          args = args\<lparr>replicaSet := filter (\<lambda>a. \<not> IsReplicaReleased (cells h a)) (replicaSet args),
                      supplementReplicaSet := SubReplicas (rname h) (supplementReplicaSet args) names,
                      broadcastReplicaSet := SubReplicas (\<lambda>r. Name (rp_worker r)) (broadcastReplicaSet args) names\<rparr>
      in if gone = [] then ([], Inr args)
         else lbind (send api (BatchRemoveReplica (map (cells h) (take ReplicaMaxBatchSize gone)))) (\<lambda>_. ([], Inr args)))"

text \<open>The last touches on a replica that is written; one without a resource version is new.\<close>

definition touch :: "rolling_env \<Rightarrow> sched_ctx \<Rightarrow> WorkerNode \<Rightarrow> WorkerNode" where
  "touch e c w =
     (let w = (if ResourceVersion w = ''''
               then w\<lparr>Labels := MapCopy (writeLabels e) (Some (scontents (Labels w))), Annotations := Some (scontents (Annotations w))\<rparr> else w)
      in w\<lparr>Annotations := sput ''scheduleID'' (ctx_scheduleID c) (Annotations w)\<rparr>)"

definition syncReplicas :: "rolling_env \<Rightarrow> sched_ctx \<Rightarrow> (rs_request \<Rightarrow> string option) \<Rightarrow> RollingSet \<Rightarrow> pass \<Rightarrow> Replica heap sent" where
  "syncReplicas e c api rs p =
     (let (args, h) = p in
      lbind (if broadcastReplicaSet args = [] then ([], Inr ()) else send api (BatchUpdateReplica (broadcastReplicaSet args))) (\<lambda>_.
        let new = filter (\<lambda>a. ResourceVersion (rp_worker (cells h a)) = '''') (supplementReplicaSet args);
            old = filter (\<lambda>a. ResourceVersion (rp_worker (cells h a)) \<noteq> '''') (supplementReplicaSet args);
            h = fold (on_replica (touch e c)) (supplementReplicaSet args) h
        in lbind (if new = [] then ([], Inr ()) else send api (BatchCreateReplica (map (cells h) new))) (\<lambda>_.
             let h = fold (on_replica (\<lambda>w. w\<lparr>OwnerReferences := getOwner rs (groupRollingSet c)\<rparr>)) old h
             in lbind (if old = [] then ([], Inr ()) else send api (BatchUpdateReplica (map (cells h) old))) (\<lambda>_. ([], Inr h)))))"

definition syncReplicaResource ::
  "(rs_request \<Rightarrow> string option) \<Rightarrow> RollingSet \<Rightarrow> addr list \<Rightarrow> pass \<Rightarrow> unit sent" where
  "syncReplicaResource api rs redundants p =
     (let (args, h) = p; name = (\<lambda>r. Name (rp_worker r)) in
      if rs_Version (rs_Spec rs) = rs_ResVersion (rs_Spec rs) then ([], Inr ())
      else
        let changed = SubReplicas name (resChangedReplicaSet args) (map (rname h) (supplementReplicaSet args));
            changed = SubReplicas name changed (map (rname h) redundants);
            changed = SubReplicas name changed (map name (broadcastReplicaSet args))
        in if changed = [] then ([], Inr ()) else send api (BatchUpdateReplica changed))"

subsection \<open>The status\<close>

definition comeToSomeState :: "rollingsetArgs \<Rightarrow> Replica heap \<Rightarrow> (Replica \<Rightarrow> bool) \<Rightarrow> bool" where
  "comeToSomeState args h f \<longleftrightarrow>
     length (versionPlanMap args) = 1 \<and>
     (let active = filter (\<lambda>r. \<not> IsStandbyReplica r) (map (cells h) (replicaSet args)) in
      int (length active) = ra_Desired args \<and>
      (\<forall>r \<in> set active. f r \<and> Version (Status (rp_worker r)) = ra_LatestVersion args))"

definition getCompleteStatus :: "rollingsetArgs \<Rightarrow> Replica heap \<Rightarrow> bool" where
  "getCompleteStatus args h = comeToSomeState args h (\<lambda>r. Complete (Status (rp_worker r)))"

definition getServiceReadyStatus :: "rollingsetArgs \<Rightarrow> Replica heap \<Rightarrow> bool" where
  "getServiceReadyStatus args h = comeToSomeState args h (\<lambda>r. ServiceReady (Status (rp_worker r)))"

text \<open>The loop leaves after the eleventh replica.\<close>

definition getUncompleteReplicaStatus :: "Replica list \<Rightarrow> string \<Rightarrow> (string, ProcessStep) gomap" where
  "getUncompleteReplicaStatus rs latestVersion =
     fold (\<lambda>r m. let w = rp_worker r in
             if Spec_Version (Spec w) = latestVersion \<and> \<not> Complete (Status w)
             then mput (IP (Status w) @ ''_'' @ Name w) (st_ProcessStep (Status w)) m else m) (take 11 rs) []"

text \<open>\<^verbatim>\<open>syncRollingsetStatus\<close>; \<open>old\<close> is the status when the pass began, and \<open>given\<close> the replicas that were listed.\<close>

definition syncRollingsetStatus ::
  "rolling_env \<Rightarrow> (rs_request \<Rightarrow> string option) \<Rightarrow> RollingSetStatus \<Rightarrow> Replica list \<Rightarrow> RollingSet \<Rightarrow> Replica list \<Rightarrow> bool \<Rightarrow> bool \<Rightarrow> SpotStatus \<Rightarrow>
   (string, ProcessStep) gomap \<Rightarrow> unit sent" where
  "syncRollingsetStatus e api old given rs replicas finished serviceReady spot uncomplete =
     (let (new, timeout) = CalculateStatus (we e) (selector_text e) rs replicas;
          (releasingReplicas, releasingWorkers) = GetReleasingReplicaCount given;
          new = new\<lparr>rst_ReleasingReplicas := releasingReplicas, rst_ReleasingWorkers := releasingWorkers, rst_Complete := finished,
                    rst_InstanceID := (if finished then rs_InstanceID (rs_Spec rs) else rst_InstanceID old), rst_ServiceReady := serviceReady,
                    UncompleteReplicaInfo := uncomplete, SpotInstanceStatus := spot\<rparr>;
          old = old\<lparr>rst_LastUpdateStatusTime := rst_LastUpdateStatusTime new\<rparr>
      in lbind (enqueue timeout) (\<lambda>_.
           if json_RollingSetStatus e old \<noteq> json_RollingSetStatus e new then send api (UpdateRollingSetStatus new) else ([], Inr ())))"

subsection \<open>One pass\<close>

definition rolling_sync ::
  "rolling_env \<Rightarrow> sched_ctx \<Rightarrow> (rs_request \<Rightarrow> string option) \<Rightarrow> RollingSetStatus \<Rightarrow> Replica list \<Rightarrow> RollingSet \<Rightarrow> addr list \<Rightarrow> pass \<Rightarrow> unit sent" where
  "rolling_sync e c api old given rs redundants p =
     (let (args, h) = p in
      lbind (releaseReplicas api redundants h) (\<lambda>(redundants, h).
      lbind (removeReleasedReplicaNodes api (args, h)) (\<lambda>args.
        let names = map (rname h) redundants;
            args = args\<lparr>supplementReplicaSet := SubReplicas (rname h) (supplementReplicaSet args) names,
                        broadcastReplicaSet := SubReplicas (\<lambda>r. Name (rp_worker r)) (broadcastReplicaSet args) names\<rparr>
        in lbind (syncReplicas e c api rs (args, h)) (\<lambda>h.
           lbind (syncReplicaResource api rs redundants (args, h)) (\<lambda>_.
             let replicas = map (cells h) (replicaSet args)
             in syncRollingsetStatus e api old given rs replicas (getCompleteStatus args h) (getServiceReadyStatus args h)
                  \<lparr>spot_Target = spotTarget args, spot_Instances = curSpotNames args\<rparr>
                  (getUncompleteReplicaStatus replicas (ra_LatestVersion args)))))))"

text \<open>The time after which the set is looked at again is recorded when the arguments are complete.\<close>

definition rolling_schedule ::
  "rolling_env \<Rightarrow> (rs_request \<Rightarrow> string option) \<Rightarrow> string \<Rightarrow> string option \<Rightarrow> RollingSet \<Rightarrow> Replica list \<Rightarrow> unit sent" where
  "rolling_schedule e api scheduleID groupRs rs given =
     lbind ([], generateMetas e rs) (\<lambda>(lbls, annos).
       let c = \<lparr>groupRollingSet = groupRs, generalLabels = lbls, generalAnnotations = annos, ctx_scheduleID = scheduleID\<rparr>
       in lbind ([], initArgs e c rs given) (\<lambda>(rs', args, h, timeout).
          lbind (enqueue timeout) (\<lambda>_.
          lbind ([], rolling_adjust e c rs' (args, h)) (\<lambda>(redundants, p).
            rolling_sync e c api (rs_Status rs) given rs' redundants p))))"

end
