(* ===== verification/RollingSafety.thy ===== *)
theory RollingSafety
  imports RollingScheduler
begin

text \<open>
  What one pass of the rolling set scheduler guarantees: the broadcast of fields converges when no annotation has to be taken away; the standbys
  reach their target and no replica is lost on the way; a pass never writes a replica that it releases, and removes none.
\<close>

subsection \<open>Broadcast fields\<close>

lemma sget_unset: "\<not> shas m k \<Longrightarrow> sget m k = ''''"
  by (simp add: sget_def shas_def split: option.splits)

lemma copy_tags:
  assumes "dst \<noteq> None"
  shows "\<exists>r. sfold (\<lambda>tag dst. if \<not> shas src tag then Inr dst else if dst = None then map_panic else Inr (sput tag (sget src tag) dst)) tags dst =
      Inr r \<and> (\<forall>k. sget r k = (if k \<in> set tags \<and> shas src k then sget src k else sget dst k))"
  using assms
proof (induction tags arbitrary: dst)
  case (Cons tag tags)
  show ?case
  proof (cases "shas src tag")
    case True
    have "sput tag (sget src tag) dst \<noteq> None" by (simp add: sput_def)
    from Cons.IH [OF this] show ?thesis using True Cons.prems by auto
  next
    case False
    then show ?thesis using Cons.IH [OF Cons.prems] by auto
  qed
qed simp

lemma copyGeneralAnnotations_ok:
  assumes "dst \<noteq> None"
  obtains r where "copyGeneralAnnotations src dst = Inr r"
    "\<And>k. sget r k = (if k \<in> set generalAnnotationTags \<and> shas src k then sget src k else sget dst k)"
  using copy_tags [OF assms, of src generalAnnotationTags] by (auto simp: copyGeneralAnnotations_def)

lemma sync_keys: "sget (fold (sync_key src) keys dst) k = (if k \<in> set keys then sget src k else sget dst k)"
proof (induction keys arbitrary: dst)
  case (Cons key keys)
  then show ?case by (auto simp: sync_key_def sget_unset)
qed simp

lemma broadcast_copy_form:
  assumes "\<not> isGangRolling rs" "rp_Gang r = None" "Annotations (rp_worker r) \<noteq> None" "Template (rs_VersionPlan (rs_Spec rs)) = Some t"
  obtains w annos t' where "broadcast_copy e c rs keys version i r = Inr (upd_worker (\<lambda>_. w) r)" "Name w = Name (rp_worker r)"
    "Spec_Version (Spec w) = version" "Spec_VersionPlan (Spec w) = (rs_VersionPlan (rs_Spec rs))\<lparr>Template := Some t'\<rparr>"
    "\<And>k. k \<in> set keys \<Longrightarrow> sget (tmpl_Labels t') k = sget (tmpl_Labels t) k \<and> sget (tmpl_Annotations t') k = sget (tmpl_Annotations t) k"
    "\<And>k. sget (Annotations w) k = (if k \<in> set generalAnnotationTags \<and> shas (generalAnnotations c) k then sget (generalAnnotations c) k
       else sget (Annotations (rp_worker r)) k)"
proof -
  obtain annos where a: "copyGeneralAnnotations (generalAnnotations c) (Annotations (rp_worker r)) = Inr annos"
    "\<And>k. sget annos k = (if k \<in> set generalAnnotationTags \<and> shas (generalAnnotations c) k then sget (generalAnnotations c) k
       else sget (Annotations (rp_worker r)) k)"
    using copyGeneralAnnotations_ok [OF assms(3), of "generalAnnotations c"] by blast
  define t' where "t' = t\<lparr>tmpl_Labels := fold (sync_key (tmpl_Labels t)) keys (Some (scontents (tmpl_Labels t))),
    tmpl_Annotations := fold (sync_key (tmpl_Annotations t)) keys (Some (scontents (tmpl_Annotations t)))\<rparr>"
  define w where "w = (set_spec (\<lambda>s. s\<lparr>Spec_Version := version, Spec_VersionPlan := (rs_VersionPlan (rs_Spec rs))\<lparr>Template := Some t'\<rparr>\<rparr>)
    (rp_worker r))\<lparr>Annotations := annos\<rparr>"
  have "broadcast_copy e c rs keys version i r = Inr (upd_worker (\<lambda>_. w) r)"
    using assms(1,2) assms(4) a(1)
    by (simp add: broadcast_copy_def SetReplicaVersionPlanWithGangPlan_def GetVersionPlanWithGangPlanFromRS_def syncNonVersionedMetas_def
        upd_worker_def w_def t'_def Let_def)
  then show thesis
    by (rule that [where w = w and t' = t']) (simp_all add: w_def a(2) t'_def sync_keys)
qed

lemma truncate_template: "BroadcastPlan.truncate (p\<lparr>Template := x\<rparr>) = BroadcastPlan.truncate (p :: VersionPlan)"
  by (simp add: BroadcastPlan.defs)

text \<open>
  After its broadcast copy is written, a replica of a set without gangs has the set's version and matches, so that the next pass does not write it
  again, when every general annotation that the replica has is one that the set has too.
\<close>

theorem broadcast_converges:
  assumes "\<not> isGangRolling rs" "rp_Gang r = None" "Annotations (rp_worker r) \<noteq> None" "Template (rs_VersionPlan (rs_Spec rs)) \<noteq> None"
    and "\<forall>tag \<in> set generalAnnotationTags. sget (Annotations (rp_worker r)) tag \<noteq> '''' \<longrightarrow> shas (generalAnnotations c) tag"
  shows "\<exists>r'. broadcast_copy e c rs keys version i r = Inr r' \<and> Name (rp_worker r') = Name (rp_worker r) \<and>
    Spec_Version (Spec (rp_worker r')) = version \<and> isBroadcastMatched e c rs keys r'"
proof -
  obtain t where t: "Template (rs_VersionPlan (rs_Spec rs)) = Some t" using assms(4) by auto
  obtain w annos t' where f: "broadcast_copy e c rs keys version i r = Inr (upd_worker (\<lambda>_. w) r)" "Name w = Name (rp_worker r)"
    "Spec_Version (Spec w) = version" "Spec_VersionPlan (Spec w) = (rs_VersionPlan (rs_Spec rs))\<lparr>Template := Some t'\<rparr>"
    "\<And>k. k \<in> set keys \<Longrightarrow> sget (tmpl_Labels t') k = sget (tmpl_Labels t) k \<and> sget (tmpl_Annotations t') k = sget (tmpl_Annotations t) k"
    "\<And>k. sget (Annotations w) k = (if k \<in> set generalAnnotationTags \<and> shas (generalAnnotations c) k then sget (generalAnnotations c) k
       else sget (Annotations (rp_worker r)) k)"
    by (rule broadcast_copy_form [OF assms(1-3) t]) blast
  have "compareGeneralAnnotations (Annotations w) (generalAnnotations c)"
    using assms(5) by (auto simp: compareGeneralAnnotations_def f(6) sget_unset)
  then have "isBroadcastMatched e c rs keys (upd_worker (\<lambda>_. w) r)"
    using assms(1) f(5) by (simp add: isBroadcastMatched_def f(4) t truncate_template IsNonVersionedKeysMatch_def)
  then show ?thesis using f(1-3) by auto
qed

abbreviation sample_pod_template :: HippoPodTemplate where
  "sample_pod_template \<equiv> \<lparr>tmpl_Labels = None, tmpl_Annotations = None, tmpl_RestartPolicy = [], tmpl_SchedulerName = [], tmpl_Containers = []\<rparr>"

theorem broadcast_converges_witness:
  "\<forall>e. \<exists>r'. broadcast_copy e \<lparr>groupRollingSet = None, generalLabels = None, generalAnnotations = None, ctx_scheduleID = []\<rparr>
      (sample_set\<lparr>rs_Spec := (rs_Spec sample_set)\<lparr>rs_VersionPlan := empty_plan\<lparr>Template := Some sample_pod_template\<rparr>\<rparr>\<rparr>) [''key''] ''v2'' 0
      (upd_worker (\<lambda>w. w\<lparr>Annotations := Some Mapping.empty\<rparr>) (sample_replica WorkerAssigned WorkerModeTypeActive)) = Inr r' \<and>
    Spec_Version (Spec (rp_worker r')) = ''v2''"
proof
  fix e
  show "\<exists>r'. broadcast_copy e \<lparr>groupRollingSet = None, generalLabels = None, generalAnnotations = None, ctx_scheduleID = []\<rparr>
      (sample_set\<lparr>rs_Spec := (rs_Spec sample_set)\<lparr>rs_VersionPlan := empty_plan\<lparr>Template := Some sample_pod_template\<rparr>\<rparr>\<rparr>) [''key''] ''v2'' 0
      (upd_worker (\<lambda>w. w\<lparr>Annotations := Some Mapping.empty\<rparr>) (sample_replica WorkerAssigned WorkerModeTypeActive)) = Inr r' \<and>
    Spec_Version (Spec (rp_worker r')) = ''v2''"
    using broadcast_converges [of "sample_set\<lparr>rs_Spec := (rs_Spec sample_set)\<lparr>rs_VersionPlan := empty_plan\<lparr>Template := Some sample_pod_template\<rparr>\<rparr>\<rparr>"
        "upd_worker (\<lambda>w. w\<lparr>Annotations := Some Mapping.empty\<rparr>) (sample_replica WorkerAssigned WorkerModeTypeActive)"
        "\<lparr>groupRollingSet = None, generalLabels = None, generalAnnotations = None, ctx_scheduleID = []\<rparr>" e "[''key'']" "''v2''" 0]
    by (simp add: isGangRolling_def sample_set_def sample_replica_def sget_def) metis
qed

text \<open>The other case: an annotation that only the replica has is never taken away, and the replica is written in every pass.\<close>

lemma broadcast_stuck:
  assumes "\<not> isGangRolling rs" "rp_Gang r = None" "Annotations (rp_worker r) \<noteq> None" "Template (rs_VersionPlan (rs_Spec rs)) \<noteq> None"
    and "tag \<in> set generalAnnotationTags" "sget (Annotations (rp_worker r)) tag \<noteq> ''''" "\<not> shas (generalAnnotations c) tag"
  shows "\<exists>r'. broadcast_copy e c rs keys version i r = Inr r' \<and> \<not> isBroadcastMatched e c rs keys r' \<and>
    sget (Annotations (rp_worker r')) tag = sget (Annotations (rp_worker r)) tag"
proof -
  obtain t where t: "Template (rs_VersionPlan (rs_Spec rs)) = Some t" using assms(4) by auto
  obtain w where f: "broadcast_copy e c rs keys version i r = Inr (upd_worker (\<lambda>_. w) r)"
    "\<And>k. sget (Annotations w) k = (if k \<in> set generalAnnotationTags \<and> shas (generalAnnotations c) k then sget (generalAnnotations c) k
       else sget (Annotations (rp_worker r)) k)"
    by (rule broadcast_copy_form [OF assms(1-3) t]) blast
  have "\<not> compareGeneralAnnotations (Annotations w) (generalAnnotations c)"
    using assms(5-7) by (auto simp: compareGeneralAnnotations_def f(2) sget_unset intro!: bexI [of _ tag])
  then show ?thesis using f(1,2) assms(1,7) by (auto simp: isBroadcastMatched_def Let_def)
qed

subsection \<open>Requests of a pass\<close>

text \<open>A property of every request of a log, with the rules that carry it through the steps of a pass.\<close>

named_theorems log_intros

definition log_ok :: "(rs_request \<Rightarrow> bool) \<Rightarrow> 'a sent \<Rightarrow> bool" where
  "log_ok P m \<longleftrightarrow> (\<forall>q \<in> set (fst m). P q)"

lemma log_okD: "log_ok P m \<Longrightarrow> q \<in> set (fst m) \<Longrightarrow> P q"
  by (simp add: log_ok_def)

lemma log_nil [log_intros]: "log_ok P ([], r)"
  by (simp add: log_ok_def)

lemma log_lbind [log_intros]: "log_ok P m \<Longrightarrow> (\<And>x. snd m = Inr x \<Longrightarrow> log_ok P (f x)) \<Longrightarrow> log_ok P (lbind m f)"
  by (cases m) (auto simp: log_ok_def lbind_def split: sum.splits prod.splits)

lemma log_send [log_intros]: "P q \<Longrightarrow> log_ok P (send api q)"
  by (simp add: log_ok_def send_def)

lemma log_if [log_intros]: "(b \<Longrightarrow> log_ok P m) \<Longrightarrow> (\<not> b \<Longrightarrow> log_ok P n) \<Longrightarrow> log_ok P (if b then m else n)"
  by simp

lemma log_enqueue [log_intros]: "(\<And>t. P (EnqueueAfter t)) \<Longrightarrow> log_ok P (enqueue timeout)"
  by (simp add: log_ok_def enqueue_def)

abbreviation names :: "Replica list \<Rightarrow> string set" where
  "names rs \<equiv> (\<lambda>r. Name (rp_worker r)) ` set rs"

text \<open>The requests that fit a pass which releases the replicas of the names in \<open>N\<close>.\<close>

definition request_ok :: "string set \<Rightarrow> rs_request \<Rightarrow> bool" where
  "request_ok N q =
     (case q of
        BatchReleaseReplica rs \<Rightarrow> names rs \<subseteq> N \<and> length rs \<le> ReplicaMaxBatchSize
      | BatchRemoveReplica rs \<Rightarrow> length rs \<le> ReplicaMaxBatchSize
      | BatchUpdateReplica rs \<Rightarrow> names rs \<inter> N = {}
      | BatchCreateReplica rs \<Rightarrow> names rs \<inter> N = {}
      | _ \<Rightarrow> True)"

lemma request_ok_simps [simp]:
  "request_ok N (BatchReleaseReplica rs) \<longleftrightarrow> names rs \<subseteq> N \<and> length rs \<le> ReplicaMaxBatchSize"
  "request_ok N (BatchRemoveReplica rs) \<longleftrightarrow> length rs \<le> ReplicaMaxBatchSize"
  "request_ok N (BatchUpdateReplica rs) \<longleftrightarrow> names rs \<inter> N = {}" "request_ok N (BatchCreateReplica rs) \<longleftrightarrow> names rs \<inter> N = {}"
  "request_ok N (UpdateRollingSetStatus st)" "request_ok N (EnqueueAfter t)"
  by (simp_all add: request_ok_def)

lemma fold_names:
  assumes "\<And>r. Name (rp_worker (f r)) = Name (rp_worker r)"
  shows "rname (fold (\<lambda>a. modify a f) addrs h) b = rname h b"
  by (induction addrs arbitrary: h) (auto simp: assms)

lemma mark_release_name [simp]: "Name (rp_worker (mark_release r)) = Name (rp_worker r)"
  by (simp add: mark_release_def)

lemma touch_name [simp]: "Name (touch e c w) = Name w"
  by (simp add: touch_def Let_def)

lemma SubReplicas_disjoint: "x \<in> set (SubReplicas name src sub) \<Longrightarrow> name x \<notin> set sub"
  by (simp add: SubReplicas_def)

lemma releaseReplicas_log: "log_ok (request_ok (rname h ` set (take ReplicaMaxBatchSize redundants))) (releaseReplicas api redundants h)"
  unfolding releaseReplicas_def Let_def
  by (intro log_intros) (auto simp: fold_names)

lemma releaseReplicas_result:
  assumes "snd (releaseReplicas api redundants h) = Inr (redundants', h')"
  shows "redundants' = take ReplicaMaxBatchSize redundants" "\<And>a. rname h' a = rname h a"
  using assms by (auto simp: releaseReplicas_def lbind_def send_def Let_def fold_names split: if_splits sum.splits option.splits)

lemma removeReleased_log: "log_ok (request_ok N) (removeReleasedReplicaNodes api p)"
  by (cases p) (auto simp: removeReleasedReplicaNodes_def Let_def intro!: log_intros)

lemma syncReplicas_log:
  assumes "rname h ` set (supplementReplicaSet args) \<inter> N = {}" "names (broadcastReplicaSet args) \<inter> N = {}"
  shows "log_ok (request_ok N) (syncReplicas e c api rs (args, h))"
  unfolding syncReplicas_def Let_def prod.case
  using assms by (intro log_intros) (auto simp: fold_names)

lemma syncReplicas_names: "snd (syncReplicas e c api rs (args, h)) = Inr h' \<Longrightarrow> rname h' a = rname h a"
  by (auto simp: syncReplicas_def lbind_def Let_def fold_names split: sum.splits prod.splits)

lemma syncReplicaResource_log:
  assumes "N \<subseteq> rname h ` set redundants"
  shows "log_ok (request_ok N) (syncReplicaResource api rs redundants (args, h))"
  unfolding syncReplicaResource_def Let_def prod.case
  using assms by (intro log_intros) (auto simp: SubReplicas_def)

lemma syncRollingsetStatus_log: "log_ok (request_ok N) (syncRollingsetStatus e api old given rs replicas finished ready spot uncomplete)"
  by (auto simp: syncRollingsetStatus_def Let_def split: prod.splits intro!: log_intros)

lemma rolling_sync_log:
  "log_ok (request_ok (rname h ` set (take ReplicaMaxBatchSize redundants))) (rolling_sync e c api old given rs redundants (args, h))"
proof -
  let ?N = "rname h ` set (take ReplicaMaxBatchSize redundants)"
  have s: "log_ok (request_ok ?N)
      (let names = map (rname h') redundants';
           args = args'\<lparr>supplementReplicaSet := SubReplicas (rname h') (supplementReplicaSet args') names,
                        broadcastReplicaSet := SubReplicas (\<lambda>r. Name (rp_worker r)) (broadcastReplicaSet args') names\<rparr>
       in lbind (syncReplicas e c api rs (args, h')) (\<lambda>h.
          lbind (syncReplicaResource api rs redundants' (args, h)) (\<lambda>_.
            let replicas = map (cells h) (replicaSet args)
            in syncRollingsetStatus e api old given rs replicas (getCompleteStatus args h) (getServiceReadyStatus args h)
                 \<lparr>spot_Target = spotTarget args, spot_Instances = curSpotNames args\<rparr>
                 (getUncompleteReplicaStatus replicas (ra_LatestVersion args)))))"
    if "redundants' = take ReplicaMaxBatchSize redundants" "\<And>a. rname h' a = rname h a" for redundants' h' args'
    unfolding Let_def
  proof (intro log_lbind syncRollingsetStatus_log syncReplicas_log syncReplicaResource_log)
    fix h'' assume "snd (syncReplicas e c api rs
      (args'\<lparr>supplementReplicaSet := SubReplicas (rname h') (supplementReplicaSet args') (map (rname h') redundants'),
        broadcastReplicaSet := SubReplicas (\<lambda>r. Name (rp_worker r)) (broadcastReplicaSet args') (map (rname h') redundants')\<rparr>, h')) = Inr h''"
    then have "rname h'' a = rname h' a" for a by (rule syncReplicas_names)
    then show "?N \<subseteq> rname h'' ` set redundants'" using that by simp
  qed (use that in \<open>auto simp: SubReplicas_def\<close>)
  show ?thesis
    unfolding rolling_sync_def Let_def [of "(args, h)"] prod.case
  proof (rule log_lbind [OF releaseReplicas_log])
    fix x assume x: "snd (releaseReplicas api redundants h) = Inr x"
    obtain redundants' h' where rh: "x = (redundants', h')" by (cases x)
    note r = releaseReplicas_result [OF x [unfolded rh]]
    show "log_ok (request_ok ?N) (case x of (redundants, h) \<Rightarrow> lbind (removeReleasedReplicaNodes api (args, h)) (\<lambda>args.
        let names = map (rname h) redundants;
            args = args\<lparr>supplementReplicaSet := SubReplicas (rname h) (supplementReplicaSet args) names,
                        broadcastReplicaSet := SubReplicas (\<lambda>r. Name (rp_worker r)) (broadcastReplicaSet args) names\<rparr>
        in lbind (syncReplicas e c api rs (args, h)) (\<lambda>h.
           lbind (syncReplicaResource api rs redundants (args, h)) (\<lambda>_.
             let replicas = map (cells h) (replicaSet args)
             in syncRollingsetStatus e api old given rs replicas (getCompleteStatus args h) (getServiceReadyStatus args h)
                  \<lparr>spot_Target = spotTarget args, spot_Instances = curSpotNames args\<rparr>
                  (getUncompleteReplicaStatus replicas (ra_LatestVersion args))))))"
      unfolding rh prod.case by (intro log_lbind removeReleased_log s r)
  qed
qed

lemma log_lbind_some:
  assumes "\<And>N. log_ok (P N) m" "\<And>x. snd m = Inr x \<Longrightarrow> \<exists>N. log_ok (P N) (f x)"
  shows "\<exists>N. log_ok (P N) (lbind m f)"
proof (cases "snd m")
  case (Inl err)
  then show ?thesis using assms(1) by (cases m) (auto simp: lbind_def log_ok_def)
next
  case (Inr x)
  then show ?thesis using assms(2) [OF Inr] log_lbind [OF assms(1)] by (metis sum.inject(2))
qed

text \<open>
  C7. No request of a pass writes or creates a replica that the pass releases, and at most 4000 replicas are released at once: there is a set of
  names that all releases are in and all other writes are outside of.
\<close>

theorem rolling_schedule_requests:
  "\<exists>N. list_all (request_ok N) (fst (rolling_schedule e api scheduleID groupRs rs given))"
proof -
  have sync: "\<exists>N. log_ok (request_ok N) (rolling_sync e c api old given rs' redundants p)" for c old rs' redundants p
    by (cases p) (blast intro: rolling_sync_log)
  have "\<exists>N. log_ok (request_ok N) (rolling_schedule e api scheduleID groupRs rs given)"
    unfolding rolling_schedule_def
    by (rule log_lbind_some, rule log_nil, simp add: Let_def split: prod.split, intro allI impI, rule log_lbind_some, rule log_nil,
        simp split: prod.split, intro allI impI, rule log_lbind_some, rule log_enqueue, simp, rule log_lbind_some, rule log_nil,
        simp add: sync split: prod.split)
  then show ?thesis by (simp add: log_ok_def list_all_iff)
qed

subsection \<open>What the updates of a pass keep\<close>

text \<open>A property of nodes that the methods of the node set updater keep is kept by a whole schedule, if new nodes have it.\<close>

definition all_cells :: "('n \<Rightarrow> bool) \<Rightarrow> 'n heap \<Rightarrow> bool" where
  "all_cells good h \<longleftrightarrow> (\<forall>a. good (cells h a))"

lemma all_cellsD: "all_cells good h \<Longrightarrow> good (cells h a)"
  by (simp add: all_cells_def)

lemma all_cells_modify: "all_cells good h \<Longrightarrow> good (f (cells h a)) \<Longrightarrow> all_cells good (modify a f h)"
  by (simp add: all_cells_def)

lemma all_cells_fold: "all_cells good h \<Longrightarrow> (\<And>x h. all_cells good h \<Longrightarrow> all_cells good (f x h)) \<Longrightarrow> all_cells good (fold f xs h)"
  by (induction xs arbitrary: h) auto

locale kept_nodes =
  fixes ms :: "('n, 'p) NodeMethods" and good :: "'n \<Rightarrow> bool"
  assumes set_version: "good n \<Longrightarrow> good (SetVersion ms v p n)"
    and dependency: "good n \<Longrightarrow> good (SetDependencyReady ms b n)"
    and stopped: "good n \<Longrightarrow> good (Stop ms n)"
begin

lemma dependency_kept: "all_cells good h \<Longrightarrow> all_cells good (setGroupNodeDependencyReady ms ready x h)"
  by (simp add: setGroupNodeDependencyReady_def all_cells_modify dependency all_cellsD)

lemma create_kept:
  assumes "\<And>i n. create i = Some n \<Longrightarrow> good n"
  shows "all_cells good h \<Longrightarrow> create_loop ms create version plan ready num m h = Inr (m', h') \<Longrightarrow> all_cells good h'"
proof (induction num arbitrary: m h)
  case (Suc num)
  obtain n where n: "create (fresh h) = Some n" using Suc.prems(2) by (auto split: option.splits)
  let ?h = "h\<lparr>cells := (cells h)(fresh h := SetVersion ms version plan n), fresh := Suc (fresh h)\<rparr>"
  have "all_cells good ?h" using Suc.prems(1) set_version [OF assms [OF n]] by (simp add: all_cells_def)
  from dependency_kept [OF this, of ready "fresh h"] show ?case
    using Suc.IH [of "setGroupNodeDependencyReady ms ready (fresh h) ?h"] Suc.prems(2) n by (simp add: Let_def)
qed simp

lemma creates_kept:
  assumes "\<And>i n. create i = Some n \<Longrightarrow> good n"
  shows "all_cells good h \<Longrightarrow> syncCreateNodes ms create plans dep num m h = Inr (m', h') \<Longrightarrow> all_cells good h'"
proof (induction num arbitrary: m h)
  case (Cons vn num)
  obtain v n where vn: "vn = (v, n)" by (cases vn)
  obtain m1 h1 where c: "create_loop ms create v (mget None plans v) (\<not> dep) (nat n) m h = Inr (m1, h1)"
    using Cons.prems(2) by (auto simp: vn split: sum.splits)
  have "all_cells good h1" by (rule create_kept [OF _ Cons.prems(1) c]) (rule assms)
  then show ?case using Cons.IH Cons.prems(2) c by (simp add: vn)
qed simp

lemma updates_kept: "all_cells good h \<Longrightarrow> all_cells good (syncUpdateNodes ms plans dep update h)"
  unfolding syncUpdateNodes_def
  by (erule all_cells_fold)
    (auto intro!: all_cells_fold dependency_kept all_cells_modify set_version simp: all_cellsD split: prod.splits)

lemma deletes_kept: "all_cells good h \<Longrightarrow> all_cells good (syncDeleteNodes ms ns h)"
  unfolding syncDeleteNodes_def by (erule all_cells_fold) (simp add: all_cells_modify stopped all_cellsD)

lemma fix_nodes_kept: "all_cells good h \<Longrightarrow> all_cells good (snd (fix_nodes ms version ns gap update h))"
  by (induction ns arbitrary: gap update h) (simp_all add: dependency_kept Let_def)

lemma fix_kept: "all_cells good h \<Longrightarrow> fixDependency ms vm es update h = Inr (update', h') \<Longrightarrow> all_cells good h'"
proof (induction es arbitrary: update h)
  case (Cons vn es)
  obtain v n where vn: "vn = (v, n)" by (cases vn)
  let ?ns = "mget [] vm v" let ?gap = "n - int (length (filter (\<lambda>a. GetDependencyReady ms (cells h a)) ?ns))"
  define s where "s = (if ?gap > 0 then fix_nodes ms v ?ns ?gap update h else (update, h))"
  have "all_cells good (snd s)" using Cons.prems(1) fix_nodes_kept by (simp add: s_def)
  moreover have "fixDependency ms vm es (fst s) (snd s) = Inr (update', h')"
    using Cons.prems(2) by (simp add: vn Let_def s_def split: if_splits prod.splits)
  ultimately show ?case by (rule Cons.IH)
qed simp

lemma schedule_kept:
  assumes h: "all_cells good h" and new: "\<And>create i n. ru_CreateNode args = Some create \<Longrightarrow> create i = Some n \<Longrightarrow> good n"
    and s: "NodeSet_Schedule env scheduler ms h (Some args) = Inr (r, h')"
  shows "all_cells good h'"
proof -
  obtain a where a: "checkRollingUpdateArgs (Some args) = Inr a" using s by (auto simp: NodeSet_Schedule_def split: sum.splits)
  then obtain create where c: "ru_CreateNode args = Some create" "the (ru_CreateNode a) = create"
    by (auto simp: checkRollingUpdateArgs_def split: if_splits option.splits)
  have cr: "all_cells good h1" if "syncCreateNodes ms create plans dep num m h = Inr (m1, h1)" for plans dep num m m1 h1
    by (rule creates_kept [OF _ h that]) (rule new [OF c(1)])
  note up = deletes_kept [OF updates_kept]
  show ?thesis
    using s a
    by (auto simp: NodeSet_Schedule_def Let_def c(2) collectReleaseNode_def
        split: sum.splits prod.splits option.splits if_splits dest!: cr intro: up fix_kept [OF up])
qed

end

subsection \<open>A pass removes nothing\<close>

text \<open>What the steps of a pass do to a worker leaves its allocation status as it is.\<close>

abbreviation worker_alloc :: "WorkerNode \<Rightarrow> AllocStatus" where
  "worker_alloc w \<equiv> st_AllocStatus (Status w)"

abbreviation present :: "Replica \<Rightarrow> bool" where
  "present r \<equiv> \<not> IsReplicaReleased r"

named_theorems alloc_kept

lemma SetStandby2Active_alloc [alloc_kept]: "Status (fst (SetStandby2Active e w)) = Status w"
  by (simp add: SetStandby2Active_def InStandby2Active_def UnsetStandby2Active_def Let_def split: option.split prod.split)

lemma SyncSilence_alloc [alloc_kept]: "Status (fst (SyncSilence e mode w)) = Status w"
  by (simp add: SyncSilence_def SetSilence_def Let_def)

lemma activate_alloc [alloc_kept]: "Status (activate e w) = Status w"
  using SyncSilence_alloc [of e WorkerModeTypeActive w] by (cases "SyncSilence e WorkerModeTypeActive w") (simp add: activate_def)

lemma SetPlan_alloc [alloc_kept]: "SetReplicaVersionPlanWithGangPlan e p v r = Inr r' \<Longrightarrow> Status (rp_worker r') = Status (rp_worker r)"
  by (cases "set_gang_parts e (GangVersionPlans (the p)) v (the (rp_Gang r))")
    (auto simp: SetReplicaVersionPlanWithGangPlan_def split: option.splits)

lemma SetVersion_alloc [alloc_kept]: "Replica_SetVersion e v p r = Inr r' \<Longrightarrow> Status (rp_worker r') = Status (rp_worker r)"
  by (auto simp: Replica_SetVersion_def Let_def alloc_kept split: if_splits dest!: SetPlan_alloc)

lemma present_alloc: "Status (rp_worker r') = Status (rp_worker r) \<Longrightarrow> present r' = present r"
  by (simp add: IsReplicaReleased_def)

interpretation kn: kept_nodes "replica_methods e" present for e
  by standard (auto simp: replica_methods_def Replica_SetDependencyReady_def IsReplicaReleased_def split: sum.splits dest!: SetVersion_alloc)

lemma NewWorker_alloc [alloc_kept]: "NewWorker e i rsName part gangID rs owners lbls anno = Inr w \<Longrightarrow> Status w = empty_status"
  by (auto simp: NewWorker_def Let_def FixNewCreateLazyV3PodVersion_def SetPodVersion_def setLabel_def setAnnotation_def SetGangPartName_def empty_worker_def
      split: option.splits if_splits)

lemma createReplicaTemplate_present: "createReplicaTemplate e c i rs = Inr r \<Longrightarrow> present r"
  by (auto simp: createReplicaTemplate_def Let_def sbind_Inr createWorker_def IsReplicaReleased_def empty_status_def empty_worker_def
      split: if_splits dest!: NewWorker_alloc)

lemma copyGeneralMetas_alloc [alloc_kept]: "copyGeneralMetas e lbls annos w = Inr w' \<Longrightarrow> Status w' = Status w"
  by (auto simp: copyGeneralMetas_def Let_def sbind_Inr lazyUpdatePodV3_def SetPodVersion_def setLabel_def)

lemma on_replica_present: "all_cells present h \<Longrightarrow> (\<And>w. Status (f w) = Status w) \<Longrightarrow> all_cells present (on_replica f a h)"
  by (rule all_cells_modify) (auto simp: IsReplicaReleased_def dest: all_cellsD)

lemma ready_alloc: "worker_alloc (fst (IsWorkerServiceReady e w)) = worker_alloc w"
  by (simp add: IsWorkerServiceReady_def sync_service_ready_def Let_def)

lemma ScoreOfWorker_alloc: "worker_alloc (fst (ScoreOfWorker e w)) = worker_alloc w"
proof -
  have "worker_alloc (fst (base_fractions e w)) = worker_alloc w"
    using ready_alloc [of e w] by (cases "IsWorkerServiceReady e w") (simp add: base_fractions_def WorkerServiceReadyScore_def Let_def)
  then show ?thesis by (cases "base_fractions e w") (simp add: ScoreOfWorker_def BaseScoreOfWorker_def)
qed

lemma set_score_present [simp]: "IsReplicaReleased (set_score e r) = IsReplicaReleased r"
  using ScoreOfWorker_alloc [of e "rp_worker r"]
  by (cases "ScoreOfWorker e (rp_worker r)") (simp add: IsReplicaReleased_def set_score_def)

lemma heap_of_present: "(\<And>r. r \<in> set rs \<Longrightarrow> present r) \<Longrightarrow> all_cells present (heap_of rs)"
  by (auto simp: all_cells_def heap_of_def IsReplicaReleased_def empty_worker_def empty_status_def)

lemma newRollingUpdateArgs_creates:
  assumes "newRollingUpdateArgs e c rs gmap h addrs = Inr (args, inactive)" "ru_CreateNode args = Some create" "create i = Some r"
  shows "present r"
  using assms by (auto simp: newRollingUpdateArgs_def Let_def sbind_Inr split: option.splits sum.splits dest!: createReplicaTemplate_present)

lemma collect_present: "r \<in> set (fst (collectResourceChangeReplicas rs given)) \<Longrightarrow> present r"
  by (auto simp: collectResourceChangeReplicas_def Let_def IsReplicaReleased_def)

lemma initScheduleParams_heap:
  assumes "initScheduleParams e c rs given = Inr (rs', args, h, timeout)"
  shows "h = heap_of (go_sort ByScore_Less (map (set_score (we e)) (fst (collectResourceChangeReplicas (smooth_strategy rs) given))))"
  using assms by (auto simp: initScheduleParams_def Let_def sbind_Inr split: prod.splits)

lemma initScheduleParams_update:
  assumes "initScheduleParams e c rs given = Inr (rs', args, h, timeout)"
  obtains gmap addrs where "newRollingUpdateArgs e c rs' gmap h addrs = Inr (rollingUpdateArgs args, inactiveStandbyNodes args)"
proof -
  have "newRollingUpdateArgs e c rs' (group_versions (smooth_strategy rs) (go_sort ByScore_Less (map (set_score (we e))
      (fst (collectResourceChangeReplicas (smooth_strategy rs) given))))) h (replicaSet args) = Inr (rollingUpdateArgs args, inactiveStandbyNodes args)"
    using assms by (auto simp: initScheduleParams_def Let_def sbind_Inr split: prod.splits)
  then show thesis by (rule that)
qed

lemma updateBroadcastField_create:
  "updateBroadcastField e c rs keys h args = Inr (rs', args') \<Longrightarrow> ru_CreateNode (rollingUpdateArgs args') = ru_CreateNode (rollingUpdateArgs args)"
  by (auto simp: updateBroadcastField_def Let_def sbind_Inr)

lemma initArgs_parts:
  assumes "initArgs e c rs given = Inr (rs', args, h, timeout)"
  obtains rs1 args1 where "initScheduleParams e c rs given = Inr (rs1, args1, h, timeout)"
    "ru_CreateNode (rollingUpdateArgs args) = ru_CreateNode (rollingUpdateArgs args1)"
  using assms by (auto simp: initArgs_def Let_def sbind_Inr initVersionArgs_def split: prod.splits dest!: updateBroadcastField_create)

lemma initArgs_present:
  assumes "initArgs e c rs given = Inr (rs', args, h, timeout)"
  shows "all_cells present h" "ru_CreateNode (rollingUpdateArgs args) = Some create \<Longrightarrow> create i = Some r \<Longrightarrow> present r"
proof -
  obtain rs1 args1 where a: "initScheduleParams e c rs given = Inr (rs1, args1, h, timeout)"
    "ru_CreateNode (rollingUpdateArgs args) = ru_CreateNode (rollingUpdateArgs args1)"
    using initArgs_parts [OF assms] by blast
  show "all_cells present h" unfolding initScheduleParams_heap [OF a(1)] by (rule heap_of_present) (auto simp: gs.sort_laws dest: collect_present)
  show "present r" if "ru_CreateNode (rollingUpdateArgs args) = Some create" "create i = Some r"
    using initScheduleParams_update [OF a(1)] a(2) that newRollingUpdateArgs_creates by metis
qed

lemma copy_metas_present: "all_cells present h \<Longrightarrow> copy_metas e c rs a h = Inr h' \<Longrightarrow> all_cells present h'"
  by (auto simp: copy_metas_def sbind_Inr IsReplicaReleased_def split: if_splits intro!: all_cells_modify dest: all_cellsD dest!: copyGeneralMetas_alloc)

lemma sfold_present:
  assumes "all_cells present h" "sfold f xs h = Inr h'" "\<And>x h h'. all_cells present h \<Longrightarrow> f x h = Inr h' \<Longrightarrow> all_cells present h'"
  shows "all_cells present h'"
  by (rule sfold_inv [where I = "all_cells present", OF _ assms(1,2)]) (rule assms(3))

lemma addNodeSetMap_present:
  assumes "all_cells present (snd p)" "addNodeSetMapToSupplement e c rs m created p = Inr p'"
  shows "all_cells present (snd p')"
proof -
  have "sfold (copy_metas e c rs) (concat (map snd m)) (snd p) = Inr (snd p')"
    using assms(2) by (cases p) (auto simp: addNodeSetMapToSupplement_def Let_def sbind_Inr)
  then show ?thesis by (rule sfold_present [OF assms(1)]) (rule copy_metas_present)
qed

lemma create_replicas_present:
  "all_cells present h \<Longrightarrow> create_replicas e c rs n h = Inr (new, h') \<Longrightarrow> all_cells present h'"
proof (induction n arbitrary: h new)
  case (Suc n)
  obtain r new' where r: "createReplicaTemplate e c (fresh h) rs = Inr r"
    "create_replicas e c rs n (h\<lparr>cells := (cells h)(fresh h := r), fresh := Suc (fresh h)\<rparr>) = Inr (new', h')"
    using Suc.prems(2) by (auto simp: sbind_Inr)
  have "all_cells present (h\<lparr>cells := (cells h)(fresh h := r), fresh := Suc (fresh h)\<rparr>)"
    using Suc.prems(1) createReplicaTemplate_present [OF r(1)] by (simp add: all_cells_def)
  then show ?case using r(2) by (rule Suc.IH)
qed simp

lemma set_mode_alloc [alloc_kept]: "set_mode e c rs mode w = Inr w' \<Longrightarrow> Status w' = Status w"
proof -
  let ?w = "if mode = WorkerModeTypeActive then fst (SetStandby2Active (we e) w) else w"
  assume a: "set_mode e c rs mode w = Inr w'"
  have w: "Status ?w = Status w" by (simp add: alloc_kept)
  show ?thesis
  proof (cases "isGangRolling rs")
    case True
    then show ?thesis using a w by (auto simp: set_mode_def Let_def)
  next
    case False
    then obtain w1 where w1: "copyGeneralMetas (we e) (generalLabels c) (generalAnnotations c) ?w = Inr w1"
      using a by (auto simp: set_mode_def Let_def sbind_Inr)
    have "Status w' = Status (fst (SyncSilence (we e) mode w1))"
      using a False w1 by (auto simp: set_mode_def Let_def sbind_Inr split: prod.splits)
    then show ?thesis using w copyGeneralMetas_alloc [OF w1] by (simp add: SyncSilence_alloc)
  qed
qed

lemma SyncCold2Warm_alloc [alloc_kept]: "Status (fst (SyncCold2Warm4Update e w)) = Status w"
  by (simp add: SyncCold2Warm4Update_def)

lemma supplement_node_present:
  assumes "present r" "supplement_node e c rs plan version mode depends r = Inr (r', write)"
  shows "present r'"
proof -
  obtain w where w: "set_mode e c rs mode (rp_worker r) = Inr w" using assms(2) by (auto simp: supplement_node_def Let_def sbind_Inr)
  let ?s = "if IsStandbyWorkerMode mode then SyncCold2Warm4Update (we e) w else (w, False)"
  have st: "Status (fst ?s) = Status (rp_worker r)" using set_mode_alloc [OF w] by (simp add: SyncCold2Warm_alloc)
  obtain w' warmed where s: "?s = (w', warmed)" by (cases ?s)
  have w': "Status w' = Status (rp_worker r)" using st unfolding s by simp
  show ?thesis
  proof (cases warmed)
    case True
    then have "r' = upd_worker (\<lambda>_. w') r" using assms(2) w s by (simp add: supplement_node_def Let_def sbind_def)
    then show ?thesis using assms(1) w' by (simp add: IsReplicaReleased_def)
  next
    case False
    then obtain r1 where r1: "SetReplicaVersionPlanWithGangPlan (renv e) (Some plan) version (upd_worker (\<lambda>_. w') r) = Inr r1"
      "r' = upd_worker (set_spec (\<lambda>s. s\<lparr>DependencyReady := Some (\<not> depends)\<rparr>)) r1"
      using assms(2) w s by (auto simp: supplement_node_def Let_def sbind_Inr worker_err_def split: sum.splits)
    show ?thesis using SetPlan_alloc [OF r1(1)] assms(1) w' by (simp add: r1(2) IsReplicaReleased_def)
  qed
qed

lemma supplement_nodes_present:
  assumes "all_cells present h" "supplement_nodes e c rs plan version mode depends addrs h = Inr (need, h')"
  shows "all_cells present h'"
proof -
  let ?f = "\<lambda>a (need, h). sbind (supplement_node e c rs plan version mode depends (cells h a)) (\<lambda>(r, write).
       Inr (if write then need @ [a] else need, modify a (\<lambda>_. r) h))"
  have "all_cells present (snd s')" if "all_cells present (snd s)" "?f a s = Inr s'" for a s s'
    using that by (auto simp: sbind_Inr split: prod.splits intro!: all_cells_modify dest: supplement_node_present [OF all_cellsD])
  then show ?thesis
    using sfold_inv [where I = "\<lambda>s. all_cells present (snd s)" and f = ?f and s = "([], h)" and s' = "(need, h')" and xs = addrs] assms
    by (simp add: supplement_nodes_def)
qed

lemma supplementNodesWithPlan_present:
  assumes "all_cells present h" "supplementNodesWithPlan e c rs version plan cnt mode depends redundants (args, h) = Inr (nodes, rest, args', h')"
  shows "all_cells present h'"
  using assms by (auto simp: supplementNodesWithPlan_def Let_def sbind_Inr split: prod.splits
      dest!: create_replicas_present [OF assms(1)] dest: supplement_nodes_present)

lemma set_pool_present: "all_cells present h \<Longrightarrow> set_pool pool a h = Inr h' \<Longrightarrow> all_cells present h'"
  by (auto simp: set_pool_def split: if_splits intro!: on_replica_present)

lemma pools_present: "all_cells present h \<Longrightarrow> sfold (set_pool pool) nodes h = Inr h' \<Longrightarrow> all_cells present h'"
  by (erule sfold_present, assumption) (rule set_pool_present)

lemma supplement_mode_present:
  assumes "all_cells present (snd (snd (snd s)))" "supplement_mode e c rs pool target counts mode s = Inr s'"
  shows "all_cells present (snd (snd (snd s')))"
proof -
  obtain standby redundants args h where s: "s = (standby, redundants, args, h)" by (cases s)
  note n = supplementNodesWithPlan_present [where h = h]
  show ?thesis
    using assms by (auto simp: s supplement_mode_def Let_def sbind_Inr split: if_splits prod.splits dest: n pools_present [OF n])
qed

lemma supplementStandby_present:
  assumes "all_cells present h" "supplementStandby e c rs redundants (args, h) = Inr (rest, args', h')"
  shows "all_cells present h'"
proof -
  have "all_cells present (snd (snd (snd s')))"
    if "sfold (supplement_mode e c rs pool target counts) modes s = Inr s'" "snd (snd (snd s)) = h" for pool target counts modes s s'
    by (rule sfold_inv [where I = "\<lambda>s. all_cells present (snd (snd (snd s)))", OF supplement_mode_present _ that(1)])
      (use that(2) assms(1) in auto)
  from this [where modes = standby_modes] show ?thesis
    using assms by (fastforce simp: supplementStandby_def Let_def sbind_Inr split: option.splits if_splits prod.splits)
qed

lemma fold_pass_present:
  assumes "\<And>x p. all_cells present (snd p) \<Longrightarrow> all_cells present (snd (f x p))"
  shows "all_cells present (snd p) \<Longrightarrow> all_cells present (snd (fold f xs p))"
  by (induction xs arbitrary: p) (auto simp: assms)

lemma set_hours_present: "all_cells present (snd p) \<Longrightarrow> all_cells present (snd (set_hours e x p))"
  by (cases p) (auto simp: set_hours_def Let_def split: prod.splits intro!: on_replica_present)

lemma calcStandbyHours_present: "all_cells present (snd p) \<Longrightarrow> calcStandbyHours e p = Inr p' \<Longrightarrow> all_cells present (snd p')"
  by (cases p) (auto simp: calcStandbyHours_def Let_def sbind_Inr split: if_splits intro!: fold_pass_present set_hours_present)

lemma set_spot_present: "all_cells present h \<Longrightarrow> all_cells present (set_spot spot ref a h)"
  unfolding set_spot_def by (rule on_replica_present) auto

lemma filter_spot_present: "all_cells present (snd (ss_pass s)) \<Longrightarrow> all_cells present (snd (ss_pass (filter_spot a s)))"
  by (cases "ss_pass s") (auto simp: filter_spot_def Let_def set_spot_present)

lemma filterSpot_present: "all_cells present (snd p) \<Longrightarrow> all_cells present (snd (ss_pass (filterSpotReplicasAndCandidates addrs candidates p)))"
proof -
  have "all_cells present (snd (ss_pass s)) \<Longrightarrow> all_cells present (snd (ss_pass (fold filter_spot addrs s)))" for s
    by (induction addrs arbitrary: s) (auto simp: filter_spot_present)
  then show "all_cells present (snd p) \<Longrightarrow> ?thesis" by (simp add: filterSpotReplicasAndCandidates_def)
qed

lemma supply_spot_present: "all_cells present (snd p) \<Longrightarrow> all_cells present (snd (supply_spot a p))"
  by (cases p) (auto simp: supply_spot_def Let_def intro!: on_replica_present)

lemma supply_creating_present: "all_cells present (snd p) \<Longrightarrow> all_cells present (snd (supply_creating x p))"
  by (cases p; cases x) (auto simp: supply_creating_def Let_def set_spot_present)

lemma release_spot_present: "all_cells present (snd p) \<Longrightarrow> all_cells present (snd (release_spot x p))"
  by (cases p; cases x) (auto simp: release_spot_def Let_def set_spot_present)

lemma syncSpotReplicas_present: "all_cells present (snd p) \<Longrightarrow> all_cells present (snd (syncSpotReplicas redundants p))"
  by (cases p) (auto simp: syncSpotReplicas_def Let_def supplySpotFromCandidates_def supplySpotFromCreatingReplicas_def releaseSpotReplicas_def
      split: prod.splits intro!: fold_pass_present supply_spot_present supply_creating_present release_spot_present filterSpot_present)

lemma rolling_adjust_present:
  assumes "all_cells present h" "\<And>create i r. ru_CreateNode (rollingUpdateArgs args) = Some create \<Longrightarrow> create i = Some r \<Longrightarrow> present r"
    and a: "rolling_adjust e c rs (args, h) = Inr (redundants, args', h')"
  shows "all_cells present h'"
proof (cases "NodeSet_Schedule (algo e) (Schedule (algo e)) (replica_methods (renv e)) h (Some (rollingUpdateArgs args))")
  case (Inl err)
  then show ?thesis using a assms(1) by (auto simp: rolling_adjust_def split: if_splits)
next
  case (Inr s)
  obtain created updated deleted h1 where s: "s = ((created, updated, deleted), h1)" by (cases s) auto
  have h1: "all_cells present h1" by (rule kn.schedule_kept [OF assms(1) assms(2) Inr [unfolded s]])
  obtain p1 args2 h2 args3 redundants3 rest args4 h4 p5 where st:
    "addNodeSetMapToSupplement e c rs created True (args, h1) = Inr p1"
    "addNodeSetMapToSupplement e c rs updated False p1 = Inr (args2, h2)"
    "supplementStandby e c rs redundants3 (args3, h2) = Inr (rest, args4, h4)"
    "calcStandbyHours e (args4, h4) = Inr p5" "(args', h') = syncSpotReplicas rest p5"
    using a unfolding rolling_adjust_def adjust_scheduled_def prod.case Let_def Inr s sum.case sbind_Inr by (auto simp: sbind_Inr)
  have "all_cells present h2" using addNodeSetMap_present [OF _ st(2)] addNodeSetMap_present [OF _ st(1)] h1 by simp
  then have "all_cells present (snd p5)" using calcStandbyHours_present [OF _ st(4)] supplementStandby_present [OF _ st(3)] by simp
  from syncSpotReplicas_present [OF this, of rest] show ?thesis unfolding st(5) [symmetric] by simp
qed

lemma mark_release_present: "all_cells present h \<Longrightarrow> all_cells present (fold (\<lambda>a. modify a mark_release) addrs h)"
  by (erule all_cells_fold) (auto intro!: all_cells_modify simp: mark_release_def IsReplicaReleased_def dest: all_cellsD)

lemma releaseReplicas_present: "all_cells present h \<Longrightarrow> snd (releaseReplicas api redundants h) = Inr (redundants', h') \<Longrightarrow> all_cells present h'"
  by (auto simp: releaseReplicas_def lbind_def send_def Let_def mark_release_present split: if_splits option.splits)

definition removes :: "rs_request \<Rightarrow> bool" where
  "removes q = (case q of BatchRemoveReplica rs \<Rightarrow> True | _ \<Rightarrow> False)"

lemma removes_simps [simp]:
  "\<not> removes (BatchReleaseReplica rs)" "removes (BatchRemoveReplica rs)" "\<not> removes (BatchUpdateReplica rs)" "\<not> removes (BatchCreateReplica rs)"
  "\<not> removes (UpdateRollingSetStatus st)" "\<not> removes (EnqueueAfter t)"
  by (simp_all add: removes_def)

abbreviation no_removal :: "rs_request \<Rightarrow> bool" where
  "no_removal q \<equiv> \<not> removes q"

lemma releaseReplicas_no_removal: "log_ok no_removal (releaseReplicas api redundants h)"
  unfolding releaseReplicas_def Let_def by (intro log_intros) auto

lemma removeReleased_no_removal: "all_cells present h \<Longrightarrow> log_ok no_removal (removeReleasedReplicaNodes api (args, h))"
  by (auto simp: removeReleasedReplicaNodes_def Let_def log_ok_def all_cells_def filter_empty_conv)

lemma syncReplicas_no_removal: "log_ok no_removal (syncReplicas e c api rs p)"
  unfolding syncReplicas_def Let_def by (cases p) (auto intro!: log_intros)

lemma syncReplicaResource_no_removal: "log_ok no_removal (syncReplicaResource api rs redundants p)"
  unfolding syncReplicaResource_def Let_def by (cases p) (auto intro!: log_intros)

lemma syncRollingsetStatus_no_removal: "log_ok no_removal (syncRollingsetStatus e api old given rs replicas finished ready spot uncomplete)"
  by (auto simp: syncRollingsetStatus_def Let_def split: prod.splits intro!: log_intros)

lemma rolling_sync_no_removal:
  assumes "all_cells present h"
  shows "log_ok no_removal (rolling_sync e c api old given rs redundants (args, h))"
  unfolding rolling_sync_def Let_def prod.case
  by (rule log_lbind [OF releaseReplicas_no_removal], drule releaseReplicas_present [OF assms, OF trans, OF _ arg_cong [of _ _ Inr, OF prod.collapse [symmetric]]],
      auto simp: case_prod_beta intro!: log_lbind removeReleased_no_removal syncReplicas_no_removal syncReplicaResource_no_removal
        syncRollingsetStatus_no_removal)

text \<open>
  C25. A pass asks for no replica to be removed: the replicas whose pods are gone are dropped from the replica set before they are looked at, and no step
  of the pass changes an allocation status, so that the removal at the end of the pass finds nothing.
\<close>

theorem rolling_schedule_never_removes:
  "list_all (\<lambda>q. \<not> removes q) (fst (rolling_schedule e api scheduleID groupRs rs given))"
proof -
  have adjusted: "log_ok no_removal (lbind ([], rolling_adjust e c rs' (args, h)) (\<lambda>(redundants, p).
      rolling_sync e c api (rs_Status rs) given rs' redundants p))"
    if "initArgs e c rs given = Inr (rs', args, h, timeout)" for c rs' args h timeout
    using rolling_adjust_present [OF initArgs_present [OF that]]
    by (auto intro!: log_lbind log_nil rolling_sync_no_removal split: prod.splits)
  have "log_ok no_removal (rolling_schedule e api scheduleID groupRs rs given)"
    unfolding rolling_schedule_def Let_def
    by (auto intro!: log_lbind log_nil log_enqueue adjusted split: prod.splits)
  then show ?thesis by (simp add: log_ok_def list_all_iff)
qed

subsection \<open>Standbys\<close>

lemma add_supplement_fields [simp]:
  "scaledParameters (add_supplement h a args) = scaledParameters args" "inactiveStandbyNodes (add_supplement h a args) = inactiveStandbyNodes args"
  "replicaSet (add_supplement h a args) = replicaSet args" "standByReplicas (add_supplement h a args) = standByReplicas args"
  by (simp_all add: add_supplement_def Let_def)

lemma addSupplement_fields [simp]:
  "scaledParameters (addSupplement h addrs args) = scaledParameters args" "inactiveStandbyNodes (addSupplement h addrs args) = inactiveStandbyNodes args"
  "replicaSet (addSupplement h addrs args) = replicaSet args" "standByReplicas (addSupplement h addrs args) = standByReplicas args"
  unfolding addSupplement_def by (induction addrs arbitrary: args) simp_all

lemma addNodeSetMap_fields:
  assumes "addNodeSetMapToSupplement e c rs m isCreate (args, h) = Inr (args', h')"
  shows "scaledParameters args' = scaledParameters args" "inactiveStandbyNodes args' = inactiveStandbyNodes args"
    "replicaSet args' = replicaSet args @ (if isCreate then concat (map snd m) else [])"
  using assms by (auto simp: addNodeSetMapToSupplement_def Let_def sbind_Inr)

lemma initSpotArgs_fields [simp]:
  "scaledParameters (initSpotArgs e rs n args) = scaledParameters args" "activeReplicas (initSpotArgs e rs n args) = activeReplicas args"
  by (simp_all add: initSpotArgs_def Let_def split: option.splits)

lemma supplementStandby_panics:
  assumes "scaledParameters args = Some scaled" "sc_StandByReplicas scaled \<noteq> 0" "standby_target rs scaled (activeReplicas args) < 0"
  shows "supplementStandby e c rs redundants (args, h) = Inl MakesliceCap"
  using assms by (simp add: supplementStandby_def Let_def)

lemma SubReplicas_Nil [simp]: "SubReplicas name src [] = src"
  by (simp add: SubReplicas_def)

text \<open>
  C27. The replicas that a pass creates count twice against the standbys: when twice their number and the replicas that are there exceed the active
  replicas and the standbys together, and the set is not of the quick-online kind, then the target of standbys is negative, and the pass panics.
\<close>

theorem adjust_overcounts:
  assumes "scaledParameters args = Some scaled" "sc_StandByReplicas scaled > 0" "\<not> RollingSet_IsQuickOnline rs" "inactiveStandbyNodes args = []"
    and "int (length (replicaSet args) + 2 * length (concat (map snd created))) > sc_ActiveReplicas scaled + sc_StandByReplicas scaled"
  shows "\<exists>err. adjust_scheduled e c rs created updated [] (args, h) = Inl err"
proof (rule ccontr)
  assume "\<not> ?thesis"
  then obtain r where r: "adjust_scheduled e c rs created updated [] (args, h) = Inr r" by (metis obj_sumE)
  then obtain args1 h1 args2 h2 where s: "addNodeSetMapToSupplement e c rs created True (args, h) = Inr (args1, h1)"
    "addNodeSetMapToSupplement e c rs updated False (args1, h1) = Inr (args2, h2)"
    by (auto simp: adjust_scheduled_def sbind_Inr)
  let ?args = "initSpotArgs e rs (int (length (replicaSet args2))) (args2\<lparr>activeReplicas := replicaSet args2 @ concat (map snd created)\<rparr>)"
  have f: "inactiveStandbyNodes args2 = []" "scaledParameters ?args = Some scaled"
    using addNodeSetMap_fields [OF s(1)] addNodeSetMap_fields [OF s(2)] assms(1,4) by simp_all
  have "standby_target rs scaled (activeReplicas ?args) < 0"
    using addNodeSetMap_fields(3) [OF s(1)] addNodeSetMap_fields(3) [OF s(2)] assms(2,3,5) by (simp add: standby_target_def)
  from supplementStandby_panics [OF f(2) _ this] assms(2)
  have "supplementStandby e c rs [] (?args, h2) = Inl MakesliceCap" by simp
  then show False using r s f(1) by (simp add: adjust_scheduled_def sbind_def)
qed

theorem adjust_overcounts_witness:
  "\<forall>e c args h. \<exists>err. adjust_scheduled e c sample_set [(''v'', [0, 1, 2])] [] []
     (args\<lparr>replicaSet := [], inactiveStandbyNodes := [], scaledParameters := Some \<lparr>sc_ActiveReplicas = 3, sc_StandByReplicas = 1,
        StandByRatioMap = [(WorkerModeTypeHot, 100)], ScalerResourcePoolName = []\<rparr>\<rparr>, h) = Inl err"
  by (intro allI adjust_overcounts [where scaled = "\<lparr>sc_ActiveReplicas = 3, sc_StandByReplicas = 1,
      StandByRatioMap = [(WorkerModeTypeHot, 100)], ScalerResourcePoolName = []\<rparr>"]) (simp_all add: RollingSet_IsQuickOnline_def GetLabelAnnoValue_def sget_def sample_set_def)

lemma standby_split:
  assumes "0 \<le> standbys" "standbys < 2147483648" "0 \<le> mode_count ratios WorkerModeTypeHot" "mode_count ratios WorkerModeTypeHot \<le> 100"
    "0 \<le> mode_count ratios WorkerModeTypeWarm" "mode_count ratios WorkerModeTypeWarm \<le> 100"
  defines "n \<equiv> mode_count (calStandbyCountsByRatio standbys ratios)"
  shows "n WorkerModeTypeHot = (standbys * mode_count ratios WorkerModeTypeHot + 99) div 100 \<and>
    n WorkerModeTypeWarm = min (standbys - n WorkerModeTypeHot) ((standbys * mode_count ratios WorkerModeTypeWarm + 99) div 100) \<and>
    0 \<le> n WorkerModeTypeHot \<and> 0 \<le> n WorkerModeTypeWarm \<and> 0 \<le> n WorkerModeTypeCold \<and>
    (if mode_count ratios WorkerModeTypeInactive = 100 then n WorkerModeTypeInactive = standbys \<and> n WorkerModeTypeCold = 0
     else n WorkerModeTypeInactive = 0 \<and> n WorkerModeTypeHot + n WorkerModeTypeWarm + n WorkerModeTypeCold = standbys)"
proof -
  have share: "\<lceil>f64 (f64 (of_int (standbys * r)) / 100)\<rceil> = (standbys * r + 99) div 100" "0 \<le> (standbys * r + 99) div 100" "(standbys * r + 99) div 100 \<le> standbys"
    if "0 \<le> r" "r \<le> 100" for r
  proof -
    note p = latest_product [OF that assms(1,2)]
    have "standbys * r \<le> 214748364700" using p(2) assms(2) by linarith
    from quotient_100 [OF p(1) this] p show "\<lceil>f64 (f64 (of_int (standbys * r)) / 100)\<rceil> = (standbys * r + 99) div 100" by simp
    show "0 \<le> (standbys * r + 99) div 100" "(standbys * r + 99) div 100 \<le> standbys" using p(1,2) by linarith+
  qed
  define hot where "hot = (standbys * mode_count ratios WorkerModeTypeHot + 99) div 100"
  define warm where "warm = (standbys * mode_count ratios WorkerModeTypeWarm + 99) div 100"
  have "n m = mode_count (let w = min (standbys - hot) warm; all = (mode_count ratios WorkerModeTypeInactive = 100) in
      [(WorkerModeTypeHot, hot), (WorkerModeTypeWarm, w), (WorkerModeTypeCold, if all then 0 else standbys - hot - w),
       (WorkerModeTypeInactive, if all then standbys else 0)]) m" for m
    unfolding n_def calStandbyCountsByRatio_def Let_def share(1) [OF assms(3,4)] share(1) [OF assms(5,6)] hot_def [symmetric] warm_def [symmetric]
    by (simp add: Let_def)
  moreover have "0 \<le> hot" "hot \<le> standbys" "0 \<le> warm"
    using share(2,3) [OF assms(3,4)] share(2) [OF assms(5,6)] by (simp_all add: hot_def warm_def)
  ultimately show ?thesis unfolding hot_def [symmetric] warm_def [symmetric] by (simp add: Let_def)
qed

text \<open>
  The standbys are split over the modes without a loss: the hot and the warm ones take the exact ceiling of their percentage, as far as there are
  standbys left, and the cold ones the rest. With an inactive share of 100 percent all standbys are inactive, and the hot and warm ones come on top.
\<close>

theorem calStandbyCountsByRatio_split:
  assumes "0 \<le> standbys" "standbys < 2147483648" "0 \<le> mode_count ratios WorkerModeTypeHot" "mode_count ratios WorkerModeTypeHot \<le> 100"
    "0 \<le> mode_count ratios WorkerModeTypeWarm" "mode_count ratios WorkerModeTypeWarm \<le> 100"
  defines "n \<equiv> mode_count (calStandbyCountsByRatio standbys ratios)"
  shows "n WorkerModeTypeHot = (standbys * mode_count ratios WorkerModeTypeHot + 99) div 100 \<and>
    n WorkerModeTypeWarm = min (standbys - n WorkerModeTypeHot) ((standbys * mode_count ratios WorkerModeTypeWarm + 99) div 100) \<and>
    0 \<le> n WorkerModeTypeHot \<and> 0 \<le> n WorkerModeTypeWarm \<and> 0 \<le> n WorkerModeTypeCold \<and>
    (if mode_count ratios WorkerModeTypeInactive = 100 then n WorkerModeTypeInactive = standbys \<and> n WorkerModeTypeCold = 0
     else n WorkerModeTypeInactive = 0 \<and> n WorkerModeTypeHot + n WorkerModeTypeWarm + n WorkerModeTypeCold = standbys)"
  unfolding n_def by (rule standby_split [OF assms(1-6)])

theorem calStandbyCountsByRatio_split_witness:
  "mode_count (calStandbyCountsByRatio 7 [(WorkerModeTypeHot, 30), (WorkerModeTypeWarm, 30), (WorkerModeTypeCold, 40)]) WorkerModeTypeHot = 3 \<and>
   mode_count (calStandbyCountsByRatio 7 [(WorkerModeTypeHot, 30), (WorkerModeTypeWarm, 30), (WorkerModeTypeCold, 40)]) WorkerModeTypeWarm = 3"
  using calStandbyCountsByRatio_split [of 7 "[(WorkerModeTypeHot, 30), (WorkerModeTypeWarm, 30), (WorkerModeTypeCold, 40)]"] by simp

lemma standby_counts:
  assumes "0 \<le> standbys" "standbys < 2147483648" "0 \<le> mode_count ratios WorkerModeTypeHot" "mode_count ratios WorkerModeTypeHot \<le> 100"
    "0 \<le> mode_count ratios WorkerModeTypeWarm" "mode_count ratios WorkerModeTypeWarm \<le> 100" "mode_count ratios WorkerModeTypeInactive \<noteq> 100"
  defines "n \<equiv> mode_count (calStandbyCountsByRatio standbys ratios)"
  shows "0 \<le> n WorkerModeTypeHot" "0 \<le> n WorkerModeTypeWarm" "0 \<le> n WorkerModeTypeCold" "n WorkerModeTypeInactive = 0"
    "n WorkerModeTypeHot + n WorkerModeTypeWarm + n WorkerModeTypeCold = standbys"
  unfolding n_def using standby_split [OF assms(1-6)] unfolding if_not_P [OF assms(7)] by blast+

lemma standby_others: "m \<notin> set standby_modes \<Longrightarrow> mode_count (calStandbyCountsByRatio standbys ratios) m = 0"
  by (simp add: calStandbyCountsByRatio_def standby_modes_def Let_def)

lemma standby_modes_range:
  assumes "0 \<le> n WorkerModeTypeHot" "0 \<le> n WorkerModeTypeWarm" "0 \<le> n WorkerModeTypeCold" "n WorkerModeTypeInactive = 0"
    "n WorkerModeTypeHot + n WorkerModeTypeWarm + n WorkerModeTypeCold = standbys" "0 \<le> standbys"
    and "\<And>m. m \<notin> set standby_modes \<Longrightarrow> n m = 0"
  shows "0 \<le> n m \<and> n m \<le> (standbys :: int)"
proof (cases "m \<in> set standby_modes")
  case True
  then have "m = WorkerModeTypeHot \<or> m = WorkerModeTypeWarm \<or> m = WorkerModeTypeCold \<or> m = WorkerModeTypeInactive" by (simp add: standby_modes_def)
  then show ?thesis using assms(1-6) by (elim disjE) simp_all
next
  case False
  then show ?thesis using assms(6,7) by simp
qed

text \<open>What is picked for a mode, created, and left over.\<close>

lemma pick_invariant:
  assumes "0 \<le> cnt" "cnt < 2147483648" "int (length (fst s)) \<le> cnt"
  shows "int (length (fst (fold (pick_step rs h cnt mode) addrs s))) \<le> cnt \<and>
    mset (fst (fold (pick_step rs h cnt mode) addrs s)) + mset (snd (fold (pick_step rs h cnt mode) addrs s)) = mset (fst s) + mset (snd s) + mset addrs"
  using assms
proof (induction addrs arbitrary: s)
  case (Cons a addrs)
  obtain picked rest where s: "s = (picked, rest)" by (cases s)
  have "i32 (int (length picked)) = int (length picked)" using Cons.prems by (simp add: s i32_id)
  then have "int (length (fst (pick_step rs h cnt mode a s))) \<le> cnt \<and>
    mset (fst (pick_step rs h cnt mode a s)) + mset (snd (pick_step rs h cnt mode a s)) = mset picked + mset rest + {#a#}"
    using Cons.prems by (auto simp: s pick_step_def)
  then show ?case using Cons.IH [of "pick_step rs h cnt mode a s"] Cons.prems by (simp add: s)
qed simp

lemma pick_redundants_parts:
  assumes "pick_redundants rs h cnt mode redundants = (picked, rest)" "0 \<le> cnt" "cnt < 2147483648"
  shows "int (length picked) \<le> cnt" "mset picked + mset rest = mset redundants"
  using pick_invariant [of cnt "([], [])" rs h mode redundants] assms by (simp_all add: pick_redundants_def)

lemma create_replicas_new: "create_replicas e c rs n h = Inr (new, h') \<Longrightarrow> new = [fresh h..<fresh h'] \<and> fresh h' = fresh h + n"
proof (induction n arbitrary: h new)
  case (Suc n)
  then obtain r new' where "create_replicas e c rs n (h\<lparr>cells := (cells h)(fresh h := r), fresh := Suc (fresh h)\<rparr>) = Inr (new', h')" "new = fresh h # new'"
    by (auto simp: sbind_Inr)
  then show ?case using Suc.IH by (fastforce simp: upt_conv_Cons)
qed auto

lemma supplement_nodes_fresh:
  assumes "supplement_nodes e c rs plan version mode depends addrs h = Inr (need, h')"
  shows "fresh h' = fresh h"
proof -
  let ?f = "\<lambda>a (need, h). sbind (supplement_node e c rs plan version mode depends (cells h a)) (\<lambda>(r, write).
       Inr (if write then need @ [a] else need, modify a (\<lambda>_. r) h))"
  have "fresh (snd s') = fresh h" if "fresh (snd s) = fresh h" "?f a s = Inr s'" for a s s'
    using that by (auto simp: sbind_Inr split: prod.splits)
  then show ?thesis
    using sfold_inv [where I = "\<lambda>s. fresh (snd s) = fresh h" and f = ?f and s = "([], h)" and s' = "(need, h')" and xs = addrs] assms
    by (simp add: supplement_nodes_def)
qed

lemma pools_fresh:
  assumes "sfold (set_pool pool) nodes h = Inr h'"
  shows "fresh h' = fresh h"
  by (rule sfold_inv [where I = "\<lambda>x. fresh x = fresh h", OF _ _ assms]) (auto simp: set_pool_def split: if_splits)

lemma supplementNodesWithPlan_parts:
  assumes "supplementNodesWithPlan e c rs version plan cnt mode depends redundants (args, h) = Inr (nodes, rest, args', h')" "0 \<le> cnt" "cnt \<le> 4000"
  shows "int (length nodes) = cnt" "mset nodes + mset rest = mset redundants + mset [fresh h..<fresh h']" "fresh h \<le> fresh h'"
    "standByReplicas args' = standByReplicas args"
proof -
  obtain picked rest' where p: "pick_redundants rs h cnt mode redundants = (picked, rest')" by (cases "pick_redundants rs h cnt mode redundants")
  note q = pick_redundants_parts [OF p assms(2)]
  have "int (length picked) \<le> cnt" using q assms(3) by simp
  then have lack: "i32 (cnt - i32 (int (length picked))) = cnt - int (length picked)" using assms(2,3) by (simp add: i32_id)
  let ?n = "nat (cnt - int (length picked))"
  have "(if i32 (cnt - i32 (int (length picked))) > 0 then min (nat (i32 (cnt - i32 (int (length picked))))) ReplicaMaxBatchSize else 0) = ?n"
    using assms(3) unfolding lack by auto
  then obtain new h1 need where s: "create_replicas e c rs ?n h = Inr (new, h1)" "nodes = picked @ new" "rest = rest'"
    "supplement_nodes e c rs plan version mode depends nodes h1 = Inr (need, h')" "standByReplicas args' = standByReplicas args"
    using assms(1) by (auto simp: supplementNodesWithPlan_def p Let_def sbind_Inr)
  note c = create_replicas_new [OF s(1)] and f = supplement_nodes_fresh [OF s(4)]
  show "int (length nodes) = cnt" using c \<open>int (length picked) \<le> cnt\<close> by (simp add: s(2))
  have "mset picked + mset rest' = mset redundants" using q(2) assms(3) by simp
  then show "mset nodes + mset rest = mset redundants + mset [fresh h..<fresh h']" using c f by (auto simp: s(2,3) simp flip: \<open>mset picked + mset rest' = mset redundants\<close>)
  show "fresh h \<le> fresh h'" "standByReplicas args' = standByReplicas args" using c f s(5) by simp_all
qed

abbreviation lack_of :: "(WorkerModeType, int) gomap \<Rightarrow> (WorkerModeType, int) gomap \<Rightarrow> WorkerModeType \<Rightarrow> int" where
  "lack_of target counts m \<equiv> mode_count target m - mode_count counts m"

lemma supplement_mode_parts:
  assumes "supplement_mode e c rs pool target counts m (standby, redundants, args, h) = Inr (standby', redundants', args', h')"
    "0 \<le> lack_of target counts m" "lack_of target counts m \<le> 4000"
  shows "int (length standby') = int (length standby) + lack_of target counts m"
    "mset standby' + mset redundants' = mset standby + mset redundants + mset [fresh h..<fresh h']" "fresh h \<le> fresh h'"
proof -
  let ?lack = "lack_of target counts m"
  have i: "i32 ?lack = ?lack" using assms(2,3) by (simp add: i32_id)
  have "int (length standby') = int (length standby) + ?lack \<and>
    mset standby' + mset redundants' = mset standby + mset redundants + mset [fresh h..<fresh h'] \<and> fresh h \<le> fresh h'"
  proof (cases "?lack \<le> 0")
    case True
    then show ?thesis using assms(1,2) i by (simp add: supplement_mode_def Let_def)
  next
    case False
    then obtain nodes args1 h1 where s: "supplementNodesWithPlan e c rs (ra_LatestVersion args) (latestVersionPlan args) ?lack m False redundants (args, h) =
        Inr (nodes, redundants', args1, h1)" "standby' = standby @ nodes"
      "(if m = WorkerModeTypeCold \<and> pool \<noteq> '''' then sfold (set_pool pool) nodes h1 else Inr h1) = Inr h'"
      using assms(1) by (auto simp: supplement_mode_def Let_def i sbind_Inr split: if_splits)
    have "fresh h' = fresh h1" using s(3) pools_fresh by (auto split: if_splits)
    then show ?thesis using supplementNodesWithPlan_parts [OF s(1) assms(2,3)] by (simp add: s(2) add.assoc)
  qed
  then show "int (length standby') = int (length standby) + ?lack"
    "mset standby' + mset redundants' = mset standby + mset redundants + mset [fresh h..<fresh h']" "fresh h \<le> fresh h'" by simp_all
qed

lemma upt_glue: "i \<le> j \<Longrightarrow> j \<le> k \<Longrightarrow> mset [i..<j] + mset [j..<k] = mset [i..<k]"
  by (metis le_Suc_ex mset_append upt_add_eq_append)

lemma supplement_modes_parts:
  assumes "sfold (supplement_mode e c rs pool target counts) ms (standby, redundants, args, h) = Inr (standby', redundants', args', h')"
    "list_all (\<lambda>m. 0 \<le> lack_of target counts m \<and> lack_of target counts m \<le> 4000) ms"
  shows "int (length standby') = int (length standby) + (\<Sum>m\<leftarrow>ms. lack_of target counts m) \<and>
    mset standby' + mset redundants' = mset standby + mset redundants + mset [fresh h..<fresh h'] \<and> fresh h \<le> fresh h'"
  using assms
proof (induction ms arbitrary: standby redundants args h)
  case (Cons m ms)
  obtain standby1 redundants1 args1 h1 where s: "supplement_mode e c rs pool target counts m (standby, redundants, args, h) =
      Inr (standby1, redundants1, args1, h1)"
    "sfold (supplement_mode e c rs pool target counts) ms (standby1, redundants1, args1, h1) = Inr (standby', redundants', args', h')"
    using Cons.prems(1) by (auto simp: sbind_Inr)
  note p = supplement_mode_parts [OF s(1)] and r = Cons.IH [OF s(2)]
  show ?case using p r Cons.prems(2) upt_glue [of "fresh h" "fresh h1" "fresh h'"] by auto
qed simp

text \<open>What is kept: as many replicas of every mode as counted, never more than the target.\<close>

definition kept_ok :: "(WorkerModeType, int) gomap \<Rightarrow> addr list \<times> addr list \<times> (WorkerModeType, int) gomap \<Rightarrow> bool" where
  "kept_ok target s \<longleftrightarrow> (case s of (kept, rest, counts) \<Rightarrow>
     int (length kept) = (\<Sum>m\<leftarrow>standby_modes. mode_count counts m) \<and> (\<forall>m. 0 \<le> mode_count counts m \<and> mode_count counts m \<le> mode_count target m))"

lemma keep_step_ok:
  assumes "kept_ok target s" "\<And>m. m \<notin> set standby_modes \<Longrightarrow> mode_count target m = 0"
  shows "kept_ok target (keep_step h latest standbys target a s)"
proof -
  obtain kept rest counts where s: "s = (kept, rest, counts)" by (cases s)
  let ?m = "Spec_WorkerMode (Spec (rp_worker (cells h a)))"
  have k: "int (length kept) = (\<Sum>m\<leftarrow>standby_modes. mode_count counts m)" "\<And>m. 0 \<le> mode_count counts m" "\<And>m. mode_count counts m \<le> mode_count target m"
    using assms(1) by (simp_all add: kept_ok_def s)
  show ?thesis
  proof (cases "mode_count counts ?m < mode_count target ?m")
    case True
    then have "?m \<in> set standby_modes" using assms(2) [of ?m] k(2) [of ?m] by fastforce
    then have "kept_ok target (kept @ [a], rest, mput ?m (mode_count counts ?m + 1) counts)"
      using True k by (auto simp: kept_ok_def standby_modes_def)
    moreover have "keep_step h latest standbys target a s \<in> {(kept @ [a], rest, mput ?m (mode_count counts ?m + 1) counts), (kept, rest @ [a], counts)}"
      by (simp add: keep_step_def s Let_def)
    ultimately show ?thesis using assms(1) by (auto simp: s kept_ok_def)
  next
    case False
    then show ?thesis using assms(1) by (simp add: kept_ok_def keep_step_def s Let_def)
  qed
qed

lemma keep_standbys_ok:
  assumes "\<And>m. m \<notin> set standby_modes \<Longrightarrow> mode_count target m = 0" "\<And>m. 0 \<le> mode_count target m"
  shows "kept_ok target (keep_standbys h latest standbys target redundants)"
proof -
  have "kept_ok target s \<Longrightarrow> kept_ok target (fold (keep_step h latest standbys target) redundants s)" for s
  proof (induction redundants arbitrary: s)
    case (Cons a redundants)
    from Cons.IH [OF keep_step_ok [OF Cons.prems assms(1)]] show ?case by simp
  qed simp
  then show ?thesis using assms(2) by (simp add: keep_standbys_def kept_ok_def standby_modes_def)
qed

lemma keep_standbys_mset:
  assumes "keep_standbys h latest standbys target redundants = (kept, rest, counts)"
  shows "mset kept + mset rest = mset redundants"
proof -
  have "mset (fst (fold (keep_step h latest standbys target) redundants s)) + mset (fst (snd (fold (keep_step h latest standbys target) redundants s))) =
      mset (fst s) + mset (fst (snd s)) + mset redundants" for s
  proof (induction redundants arbitrary: s)
    case (Cons a redundants)
    have "mset (fst (keep_step h latest standbys target a s)) + mset (fst (snd (keep_step h latest standbys target a s))) =
        mset (fst s) + mset (fst (snd s)) + {#a#}" by (cases s) (simp add: keep_step_def Let_def)
    then show ?case by (simp add: Cons.IH)
  qed simp
  from this [of "([], [], [])"] show ?thesis using assms by (simp add: keep_standbys_def)
qed

text \<open>
  C26. Filling up the standbys loses no replica and makes the number exact: when standbys are asked for, the standbys to reach are at most 4000, the inactive share is not 100 percent and the hot and
  warm shares are between 0 and 100 percent, then, if \<^verbatim>\<open>supplementStandby\<close> returns, the standbys and the redundant replicas that are left are, together, the redundant replicas
  from before and those created since, and there are as many standbys as the target says.
\<close>

theorem supplementStandby_fills:
  assumes "scaledParameters args = Some scaled" "sc_StandByReplicas scaled \<noteq> 0" "mode_count (StandByRatioMap scaled) WorkerModeTypeInactive \<noteq> 100"
    and "0 \<le> mode_count (StandByRatioMap scaled) WorkerModeTypeHot" "mode_count (StandByRatioMap scaled) WorkerModeTypeHot \<le> 100"
    and "0 \<le> mode_count (StandByRatioMap scaled) WorkerModeTypeWarm" "mode_count (StandByRatioMap scaled) WorkerModeTypeWarm \<le> 100"
    and "standby_target rs scaled (activeReplicas args) \<le> 4000"
    and "supplementStandby e c rs redundants (args, h) = Inr (rest, args', h')"
  shows "mset (standByReplicas args') + mset rest = mset redundants + mset [fresh h..<fresh h'] \<and>
    int (length (standByReplicas args')) = standby_target rs scaled (activeReplicas args)"
proof -
  let ?n = "standby_target rs scaled (activeReplicas args)"
  let ?target = "calStandbyCountsByRatio ?n (StandByRatioMap scaled)"
  define less where "less = (if RollingSet_IsQuickOnline rs then InactiveStandbyRedundantSort_Less (we e) else RedundantSort_Less (we e))"
  define rd where "rd = go_sort (\<lambda>a b. less (cells h a) (cells h b)) redundants"
  have n: "0 \<le> ?n" using assms(9) supplementStandby_panics [OF assms(1,2)] by (metis linorder_not_less sum.distinct(1))
  obtain kept rest0 counts where k: "keep_standbys h (ra_LatestVersion args) ?n ?target rd = (kept, rest0, counts)"
    by (cases "keep_standbys h (ra_LatestVersion args) ?n ?target rd") auto
  obtain args1 where s: "sfold (supplement_mode e c rs (ScalerResourcePoolName scaled) ?target counts) standby_modes (kept, rest0, args, h) =
      Inr (standByReplicas args', rest, args1, h')"
    using assms(1,2,9) n k by (auto simp: supplementStandby_def Let_def sbind_Inr rd_def less_def)
  have small: "?n < 2147483648" using assms(8) by simp
  note c = standby_counts [OF n small assms(4-7,3)]
  have t: "0 \<le> mode_count ?target m" "mode_count ?target m \<le> ?n" for m using standby_modes_range [OF c n standby_others] by simp_all
  have sum: "(\<Sum>m\<leftarrow>standby_modes. mode_count ?target m) = ?n" using c by (simp add: standby_modes_def)
  have "kept_ok ?target (kept, rest0, counts)" unfolding k [symmetric] by (rule keep_standbys_ok [OF standby_others t(1)])
  then have kk: "int (length kept) = (\<Sum>m\<leftarrow>standby_modes. mode_count counts m)" "\<And>m. 0 \<le> mode_count counts m" "\<And>m. mode_count counts m \<le> mode_count ?target m"
    by (simp_all add: kept_ok_def)
  have "lack_of ?target counts m \<le> 4000 \<and> 0 \<le> lack_of ?target counts m" for m using kk(2,3) [of m] t(2) [of m] assms(8) by linarith
  then have "list_all (\<lambda>m. 0 \<le> lack_of ?target counts m \<and> lack_of ?target counts m \<le> 4000) standby_modes" by (simp add: list_all_iff)
  from supplement_modes_parts [OF s this] show ?thesis
    using kk(1) sum keep_standbys_mset [OF k] by (simp add: sum_list_subtractf rd_def gs.sort_laws)
qed

abbreviation hot_scale :: ScaleParameters where
  "hot_scale \<equiv> \<lparr>sc_ActiveReplicas = 2, sc_StandByReplicas = 1, StandByRatioMap = [(WorkerModeTypeHot, 100)], ScalerResourcePoolName = []\<rparr>"

theorem supplementStandby_fills_witness:
  "\<forall>e c args. \<exists>rest args' h'. supplementStandby e c sample_set [0] (args\<lparr>scaledParameters := Some hot_scale, activeReplicas := [], ra_LatestVersion := []\<rparr>,
     heap_of [sample_replica WorkerAssigned WorkerModeTypeHot]) = Inr (rest, args', h') \<and> length (standByReplicas args') = 1 \<and> rest = []"
proof (intro allI)
  fix e c and args :: rollingsetArgs
  let ?args = "args\<lparr>scaledParameters := Some hot_scale, activeReplicas := [], ra_LatestVersion := []\<rparr>"
  let ?h = "heap_of [sample_replica WorkerAssigned WorkerModeTypeHot]"
  have n: "standby_target sample_set hot_scale [] = 1" by (simp add: standby_target_def)
  let ?t = "[(WorkerModeTypeHot, 1), (WorkerModeTypeWarm, 0), (WorkerModeTypeCold, 0), (WorkerModeTypeInactive, 0)]"
  have t: "calStandbyCountsByRatio 1 [(WorkerModeTypeHot, 100)] = ?t" by (simp add: calStandbyCountsByRatio_def)
  have k: "keep_standbys ?h [] 1 ?t [0] = ([0], [], [(WorkerModeTypeHot, 1)])"
    by (simp add: keep_standbys_def keep_step_def heap_of_def sample_replica_def empty_worker_def IsStandbyReplica_def IsStandbyWorker_def
        IsStandbyWorkerMode_def)
  have s: "supplementStandby e c sample_set [0] (?args, ?h) = Inr ([], ?args\<lparr>standByReplicas := [0]\<rparr>, ?h)"
    by (simp add: supplementStandby_def n t k standby_modes_def supplement_mode_def go_sort_def sbind_def Let_def)
  from supplementStandby_fills [OF _ _ _ _ _ _ _ _ s, of hot_scale]
  have "mset [0] + mset [] = mset [0] + mset [fresh ?h..<fresh ?h] \<and> int (length (standByReplicas (?args\<lparr>standByReplicas := [0]\<rparr>))) = 1"
    by (simp add: n)
  then show "\<exists>rest args' h'. supplementStandby e c sample_set [0] (?args, ?h) = Inr (rest, args', h') \<and> length (standByReplicas args') = 1 \<and> rest = []"
    using s by simp
qed

end
