(* ===== verification/HealthCheck.thy ===== *)
theory HealthCheck
  imports WorkerStatus RollingSet
begin

text \<open>
  \<^verbatim>\<open>controller/healthcheck\<close>: how the health of a worker is found out. The checkers of a rolling set ask every worker over HTTP, or look at its phase only, and
  keep a condition that says since when and how often a worker did not answer. The HTTP client, the lister that gives the latest worker, the parser of an answer's
  body and the text of a port are parameters; the payload of the advanced checker's request, the metrics and the goroutines of the tasks are left out.
\<close>

subsection \<open>The environment\<close>

text \<open>An answer; a body that cannot be read is \<open>None\<close>.\<close>

record Response =
  resp_StatusCode :: int
  resp_Status :: string
  resp_Body :: "string option"

record health_env =
  hw :: worker_env
  HealthCheckWhenUpdatePod :: bool
  probe :: "WorkerNode \<Rightarrow> string \<Rightarrow> Response option \<times> string option"
  latest_worker :: "WorkerNode \<Rightarrow> WorkerNode option"
  parse_metas :: "string \<Rightarrow> strmap option"
  IntOrString_String :: "IntOrString \<Rightarrow> string"

abbreviation condition_of :: "WorkerNode \<Rightarrow> HealthCondition" where
  "condition_of w \<equiv> st_HealthCondition (Status w)"

abbreviation "DefaultHealth \<equiv> ''DefaultHealth''"
abbreviation "Lv7Health \<equiv> ''Lv7Health''"
abbreviation "AdvancedLv7Health \<equiv> ''AdvanceLv7Health''"

definition empty_condition :: HealthCondition where
  "empty_condition = \<lparr>hc_Status = HealthStatusEmpty, hc_LastTransitionTime = None, hc_Version = [], hc_WorkerStatus = WorkerTypeEmpty, hc_Type = [],
     hc_Reason = [], hc_Message = [], hc_LastLostTime = 0, hc_LostCount = 0, hc_Metas = None, hc_Checked = False, hc_CompressedMetas = []\<rparr>"

subsection \<open>The default checker\<close>

definition buildDefaultHealthCondition :: "int \<Rightarrow> HealthCondition \<Rightarrow> HealthStatus \<Rightarrow> string \<Rightarrow> string \<Rightarrow> HealthCondition" where
  "buildDefaultHealthCondition now c curStatus msg reason =
     empty_condition\<lparr>hc_Type := DefaultHealth, hc_Status := curStatus, hc_LastLostTime := 0, hc_LostCount := 0, hc_Reason := reason, hc_Message := msg,
       hc_LastTransitionTime := (if hc_Status c \<noteq> curStatus then Some now else hc_LastTransitionTime c),
       hc_WorkerStatus := (if curStatus \<noteq> HealthAlive then WorkerTypeUnknow else WorkerTypeReady)\<rparr>"

text \<open>Whether the worker is to be asked, and the condition if it is not.\<close>

definition needHealthCheck :: "health_env \<Rightarrow> WorkerNode \<Rightarrow> bool \<times> HealthCondition" where
  "needHealthCheck e w =
     (let c = condition_of w; build = buildDefaultHealthCondition (Now (hw e)) c in
      if IsStandbyWorker w \<and> \<not> IsHotStandbyWorker w \<and> \<not> IsCurrentHotStandbyWorker w then (False, build HealthUnKnown '''' '''')
      else if IsWorkerLost w then (False, c)
      else case Phase (Status w) of
             Running \<Rightarrow> if \<not> ProcessReady (Status w) then (False, build HealthUnKnown '''' '''') else (True, c)
           | Terminated \<Rightarrow>
               if IsDaemonWorker w then (False, build HealthDead '''' ''worker phase is terminated'')
               else (False, build HealthAlive '''' ''worker phase is terminated'')
           | Failed \<Rightarrow> (False, build HealthDead '''' ''worker phase is failed'')
           | _ \<Rightarrow> (False, build HealthUnKnown '''' ''''))"

text \<open>The reason names the phase.\<close>

definition default_check :: "health_env \<Rightarrow> (WorkerPhase \<Rightarrow> string) \<Rightarrow> WorkerNode \<Rightarrow> HealthCondition" where
  "default_check e phase_text w =
     (let c = condition_of w; curStatus = GetHealthStatusByPhase w in
      if curStatus = hc_Status c then c
      else buildDefaultHealthCondition (Now (hw e)) c curStatus '''' (''worker node phase is '' @ phase_text (Phase (Status w))))"

definition updateConditionVersion :: "HealthCondition \<Rightarrow> WorkerNode \<Rightarrow> HealthCondition" where
  "updateConditionVersion c w =
     (let c = (if Version (Status w) \<noteq> hc_Version (condition_of w) then c\<lparr>hc_Status := HealthUnKnown\<rparr> else c)
      in c\<lparr>hc_Version := Version (Status w)\<rparr>)"

definition latest_of :: "health_env \<Rightarrow> WorkerNode \<Rightarrow> WorkerNode" where
  "latest_of e w = (case latest_worker e w of Some latest \<Rightarrow> latest | None \<Rightarrow> w)"

text \<open>\<^verbatim>\<open>Sync\<close> of a task: the worker whose status is written, if it changes.\<close>

definition Task_Sync :: "health_env \<Rightarrow> WorkerNode \<Rightarrow> HealthCondition \<Rightarrow> WorkerNode option" where
  "Task_Sync e w c =
     (let w = latest_of e w;
          w' = set_status (\<lambda>s. s\<lparr>st_HealthStatus := hc_Status c, st_HealthCondition := c\<rparr>) w
      in if Status w' \<noteq> Status w then Some w' else None)"

text \<open>The end of every check: the condition, and the worker that is written.\<close>

definition finish_check :: "health_env \<Rightarrow> WorkerNode \<Rightarrow> HealthCondition \<Rightarrow> HealthCondition \<times> WorkerNode option" where
  "finish_check e w c =
     (let c = updateConditionVersion c w in (c, if condition_of w \<noteq> c then Task_Sync e w c else None))"

definition default_doCheck :: "health_env \<Rightarrow> (WorkerPhase \<Rightarrow> string) \<Rightarrow> WorkerNode \<Rightarrow> HealthCondition \<times> WorkerNode option" where
  "default_doCheck e phase_text w =
     (let (needed, c) = needHealthCheck e w
      in finish_check e w (if needed then (default_check e phase_text w)\<lparr>hc_Checked := True\<rparr> else c))"

subsection \<open>The checker that asks\<close>

definition buildLv7HealthCondition ::
  "HealthCondition \<Rightarrow> HealthStatus \<Rightarrow> string \<Rightarrow> string \<Rightarrow> int32 \<Rightarrow> int \<Rightarrow> int \<Rightarrow> HealthCondition" where
  "buildLv7HealthCondition c curStatus msg reason lostCount lastLostTime lastTransitionTime =
     empty_condition\<lparr>hc_Type := Lv7Health, hc_Status := curStatus, hc_LastLostTime := lastLostTime, hc_LostCount := lostCount, hc_Reason := reason,
       hc_Message := msg, hc_LastTransitionTime := (if hc_Status c \<noteq> curStatus then Some lastTransitionTime else None)\<rparr>"

definition buildSimpleLv7HealthCondition :: "HealthCondition \<Rightarrow> string \<Rightarrow> string \<Rightarrow> int32 \<Rightarrow> HealthCondition" where
  "buildSimpleLv7HealthCondition c msg reason lostCount = c\<lparr>hc_Type := Lv7Health, hc_LostCount := lostCount, hc_Reason := reason, hc_Message := msg\<rparr>"

definition is_success :: "Response option \<Rightarrow> bool" where
  "is_success response = (case response of None \<Rightarrow> False | Some r \<Rightarrow> resp_StatusCode r = 200)"

text \<open>\<^verbatim>\<open>transfer\<close>: what an answer makes of the condition, and whether it is news. A configuration without its part for this checker is dereferenced as soon as the worker did
  not answer.\<close>

definition transfer_health ::
  "int \<Rightarrow> Response option \<Rightarrow> string option \<Rightarrow> HealthCondition \<Rightarrow> HealthCheckerConfig \<Rightarrow> worker_error + bool \<times> HealthCondition" where
  "transfer_health now response err c config =
     (let ok = is_success response;
          msg = (case response of None \<Rightarrow> ''response is nil'' | Some r \<Rightarrow> resp_Status r);
          reason = (case err of None \<Rightarrow> '''' | Some text \<Rightarrow> text);
          lastLostTime = (if ok then 0 else hc_LastLostTime c);
          lostCount = (if ok then 0 else i32 (hc_LostCount c + 1))
      in if hc_Status c \<in> {HealthAlive, HealthUnKnown, HealthStatusEmpty} then
           (if ok then
              (if hc_Status c = HealthAlive then Inr (True, buildSimpleLv7HealthCondition c msg reason lostCount)
               else Inr (True, buildLv7HealthCondition c HealthAlive msg reason lostCount lastLostTime now))
            else
              case Lv7Config config of
                None \<Rightarrow> Inl worker_error.NilDereference
              | Some l \<Rightarrow>
                  if lostCount < LostCountThreshold l then Inr (False, buildSimpleLv7HealthCondition c msg reason lostCount)
                  else Inr (True, buildLv7HealthCondition c HealthLost msg reason lostCount now now))
         else if hc_Status c = HealthLost then
           (if ok then Inr (True, buildLv7HealthCondition c HealthAlive msg reason lostCount lastLostTime now)
            else
              case Lv7Config config of
                None \<Rightarrow> Inl worker_error.NilDereference
              | Some l \<Rightarrow>
                  if now - lastLostTime < LostTimeout l then Inr (False, c)
                  else Inr (True, buildLv7HealthCondition c HealthDead msg reason lostCount lastLostTime now))
         else if hc_Status c = HealthDead \<and> ok then Inr (True, buildLv7HealthCondition c HealthAlive msg reason lostCount lastLostTime now)
         else Inr (False, c))"

definition isValidConfig :: "HealthCheckerConfig \<Rightarrow> bool" where
  "isValidConfig config = (case Lv7Config config of None \<Rightarrow> False | Some l \<Rightarrow> lv7_Path l \<noteq> '''')"

definition getQueryURL :: "health_env \<Rightarrow> WorkerNode \<Rightarrow> HealthCheckerConfig \<Rightarrow> worker_error + string" where
  "getQueryURL e w config =
     (case Lv7Config config of
        None \<Rightarrow> Inl worker_error.NilDereference
      | Some l \<Rightarrow>
          (case lv7_Path l of
             [] \<Rightarrow> Inl SliceOutOfRange
           | ch # rest \<Rightarrow>
               Inr (''http://'' @ IP (Status w) @ '':'' @ IntOrString_String e (lv7_Port l) @ (if ch \<noteq> CHR ''/'' then CHR ''/'' # ch # rest else ch # rest))))"

definition lv7_query :: "health_env \<Rightarrow> WorkerNode \<Rightarrow> HealthCheckerConfig \<Rightarrow> worker_error + HealthCondition" where
  "lv7_query e w config =
     (if \<not> isValidConfig config then
        (case transfer_health (Now (hw e)) None (Some ''lv7 config invaild'') (condition_of w) config of
           Inl err \<Rightarrow> Inl err
         | Inr (_, c) \<Rightarrow> Inr (c\<lparr>hc_WorkerStatus := WorkerTypeReady\<rparr>))
      else
        case getQueryURL e w config of
          Inl err \<Rightarrow> Inl err
        | Inr url \<Rightarrow>
            (case probe e w url of (response, err) \<Rightarrow>
               (case transfer_health (Now (hw e)) response err (condition_of (latest_of e w)) config of
                  Inl err \<Rightarrow> Inl err
                | Inr (_, c) \<Rightarrow> Inr (c\<lparr>hc_WorkerStatus := WorkerTypeReady, hc_Checked := True\<rparr>))))"

definition lv7_doCheck :: "health_env \<Rightarrow> HealthCheckerConfig \<Rightarrow> WorkerNode \<Rightarrow> worker_error + HealthCondition \<times> WorkerNode option" where
  "lv7_doCheck e config w =
     (case needHealthCheck e w of (needed, c) \<Rightarrow>
        if needed then map_sum id (finish_check e w) (lv7_query e w config) else Inr (finish_check e w c))"

subsection \<open>The checker that compares signatures\<close>

definition IfWorkerServiceMetasRecovered :: "WorkerNode \<Rightarrow> bool" where
  "IfWorkerServiceMetasRecovered w = (if IsWorkerNotPublishToCM2 w then True else True)"

definition needHealthCheckAdvlv7 :: "health_env \<Rightarrow> WorkerNode \<Rightarrow> bool \<times> HealthCondition" where
  "needHealthCheckAdvlv7 e w =
     (case needHealthCheck e w of (needed, c) \<Rightarrow>
        if \<not> needed then (needed, c)
        else if \<not> HealthCheckWhenUpdatePod e \<and> IsWorkerGracefully w \<and> st_ServiceStatus (Status w) \<noteq> ServiceUnAvailable \<and>
          (IsWorkerVersionMisMatch w \<and> Version (Status w) \<noteq> '''') \<and> hc_Version (condition_of w) \<noteq> Spec_Version (Spec w)
        then (False, condition_of w)
        else if \<not> HealthCheckWhenUpdatePod e \<and> IsWorkerVersionMisMatch w \<and> Version (Status w) \<noteq> '''' then (False, condition_of w)
        else if \<not> IfWorkerServiceMetasRecovered w then (False, condition_of w)
        else (needed, c))"

definition checkWorkerReady :: "string \<Rightarrow> string \<Rightarrow> WorkerType" where
  "checkWorkerReady sig sig2 = (if sig = sig2 then WorkerTypeReady else WorkerTypeNotReady)"

text \<open>A body that cannot be read or parsed gives no condition.\<close>

definition advanced_query :: "health_env \<Rightarrow> WorkerNode \<Rightarrow> HealthCheckerConfig \<Rightarrow> worker_error + HealthCondition option" where
  "advanced_query e w config =
     (case getQueryURL e w config of
        Inl err \<Rightarrow> Inl err
      | Inr url \<Rightarrow>
          (case probe e w url of (response, err) \<Rightarrow>
             let w = latest_of e w in
             (case transfer_health (Now (hw e)) response err (condition_of w) config of
                Inl err \<Rightarrow> Inl err
              | Inr (news, c) \<Rightarrow>
                  let c = c\<lparr>hc_Type := AdvancedLv7Health\<rparr> in
                  if news \<and> err = None \<and> is_success response then
                    (case resp_Body (the response) of
                       None \<Rightarrow> Inr None
                     | Some body \<Rightarrow>
                         (case parse_metas e body of
                            None \<Rightarrow> Inr None
                          | Some metas \<Rightarrow>
                              Inr (Some (c\<lparr>hc_Metas := metas,
                                hc_WorkerStatus := checkWorkerReady (Signature (Plan w)) (sget metas ''signature''), hc_Checked := True\<rparr>))))
                  else Inr (Some c))))"

definition advanced_doCheck ::
  "health_env \<Rightarrow> HealthCheckerConfig \<Rightarrow> WorkerNode \<Rightarrow> worker_error + (HealthCondition \<times> WorkerNode option) option" where
  "advanced_doCheck e config w =
     (case needHealthCheckAdvlv7 e w of (needed, c) \<Rightarrow>
        if needed then map_sum id (map_option (finish_check e w)) (advanced_query e w config) else Inr (Some (finish_check e w c)))"

subsection \<open>The configuration of a task\<close>

datatype checker = Default_checker | Lv7_checker | Advanced_checker

definition DefaultLostCountThreshold :: int32 where "DefaultLostCountThreshold = 5"

definition DefaultLostTimeout :: int where "DefaultLostTimeout = 300"

definition fix_lv7 :: "Lv7HealthCheckerConfig \<Rightarrow> Lv7HealthCheckerConfig" where
  "fix_lv7 l =
     l\<lparr>LostCountThreshold := (if LostCountThreshold l \<le> 0 then DefaultLostCountThreshold else LostCountThreshold l),
       LostTimeout := (if LostTimeout l \<le> 0 then DefaultLostTimeout else LostTimeout l)\<rparr>"

definition doUpdateHealthCheckerConfig :: "HealthCheckerConfig option \<Rightarrow> worker_error + HealthCheckerConfig option \<times> checker" where
  "doUpdateHealthCheckerConfig config =
     (case config of
        None \<Rightarrow> Inr (None, Default_checker)
      | Some cfg \<Rightarrow>
          if hcc_Type cfg \<noteq> '''' \<and> hcc_Type cfg \<noteq> DefaultHealth then
            (case Lv7Config cfg of
               None \<Rightarrow> Inl worker_error.NilDereference
             | Some l \<Rightarrow>
                 Inr (Some (cfg\<lparr>Lv7Config := Some (fix_lv7 l)\<rparr>),
                   if hcc_Type cfg = Lv7Health then Lv7_checker else if hcc_Type cfg = AdvancedLv7Health then Advanced_checker else Default_checker))
          else Inr (Some cfg, Default_checker))"

end
