(* ===== verification/HealthCheckSafety.thy ===== *)
theory HealthCheckSafety
  imports HealthCheck WorkerStatusSafety
begin

text \<open>
  What rounds of health checks make of a worker: the condition that is kept from check to check says the same as the list of all the answers, the version of a condition, and
  the configurations a checker cannot work with.
\<close>

subsection \<open>Rounds\<close>

text \<open>One answer: the time, the response and the error of the client.\<close>

type_synonym answer = "int \<times> Response option \<times> string option"

definition answered :: "answer \<Rightarrow> bool" where
  "answered a = is_success (fst (snd a))"

text \<open>A check that gets this answer, with an up-to-date cache, and the worker it leaves.\<close>

definition hearing :: "health_env \<Rightarrow> answer \<Rightarrow> health_env" where
  "hearing e a = e\<lparr>hw := (hw e)\<lparr>Now := fst a\<rparr>, probe := (\<lambda>_ _. snd a), latest_worker := Some\<rparr>"

definition check_round :: "health_env \<Rightarrow> HealthCheckerConfig \<Rightarrow> WorkerNode \<Rightarrow> answer \<Rightarrow> WorkerNode" where
  "check_round e config w a =
     (case lv7_doCheck (hearing e a) config w of Inr (_, Some w') \<Rightarrow> w' | _ \<Rightarrow> w)"

text \<open>The reference: the answers that failed since the last success, and what they say.\<close>

definition silence :: "answer list \<Rightarrow> answer list" where
  "silence as = rev (takeWhile (\<lambda>a. \<not> answered a) (rev as))"

definition verdict :: "Lv7HealthCheckerConfig \<Rightarrow> HealthStatus \<Rightarrow> answer list \<Rightarrow> HealthStatus" where
  "verdict l begun as =
     (let s = silence as; n = nat (LostCountThreshold l) in
      if length s < n then (if s = as then begun else HealthAlive)
      else if list_ex (\<lambda>a. LostTimeout l \<le> fst a - fst (s ! (n - 1))) (drop n s) then HealthDead
      else HealthLost)"

lemma silence_Nil [simp]: "silence [] = []"
  by (simp add: silence_def)

lemma silence_snoc [simp]: "silence (as @ [a]) = (if answered a then [] else silence as @ [a])"
  by (simp add: silence_def)

lemma length_silence: "length (silence as) \<le> length as"
  by (metis silence_def length_rev length_takeWhile_le)

lemma silence_all: "silence as = as \<longleftrightarrow> (\<forall>a \<in> set as. \<not> answered a)"
proof -
  have "silence as = as \<longleftrightarrow> takeWhile (\<lambda>a. \<not> answered a) (rev as) = rev as"
    unfolding silence_def by (metis rev_rev_ident)
  then show ?thesis by (simp add: takeWhile_eq_all_conv)
qed

subsection \<open>One round\<close>

text \<open>Whether a worker is asked does not depend on what the checks found.\<close>

definition with_condition :: "WorkerNode \<Rightarrow> HealthCondition \<Rightarrow> WorkerNode" where
  "with_condition w c = set_status (\<lambda>s. s\<lparr>st_HealthStatus := hc_Status c, st_HealthCondition := c\<rparr>) w"

lemma condition_of_with [simp]: "condition_of (with_condition w c) = c"
  by (simp add: with_condition_def)

lemma Version_with [simp]: "Version (Status (with_condition w c)) = Version (Status w)"
  by (simp add: with_condition_def)

lemma needed_with: "fst (needHealthCheck e (with_condition w c)) = fst (needHealthCheck e w)"
  by (simp add: needHealthCheck_def with_condition_def Let_def IsStandbyWorker_def IsHotStandbyWorker_def
      IsCurrentHotStandbyWorker_def IsWorkerLost_def IsDaemonWorker_def split: WorkerPhase.split)

lemma needed_hearing: "fst (needHealthCheck (hearing e a) w) = fst (needHealthCheck e w)"
  by (simp add: needHealthCheck_def hearing_def Let_def split: WorkerPhase.split)

text \<open>What a round leaves of what the next one starts from.\<close>

definition kept :: "HealthCondition \<Rightarrow> HealthStatus \<times> int32 \<times> int" where
  "kept c = (hc_Status c, hc_LostCount c, hc_LastLostTime c)"

definition asked :: "health_env \<Rightarrow> WorkerNode \<Rightarrow> bool" where
  "asked e w \<longleftrightarrow> fst (needHealthCheck e w) \<and> hc_Version (condition_of w) = Version (Status w)"

lemma transfer_total:
  assumes "Lv7Config config = Some l"
  obtains news c' where "transfer_health now r err c config = Inr (news, c')"
proof (cases "transfer_health now r err c config")
  case (Inl x)
  then show ?thesis using assms by (auto simp: transfer_health_def Let_def split: if_splits)
next
  case (Inr p)
  then show ?thesis using that by (cases p) auto
qed

lemma getQueryURL_valid: "isValidConfig config \<Longrightarrow> \<exists>url. getQueryURL e w config = Inr url"
  by (auto simp: isValidConfig_def getQueryURL_def split: option.splits list.splits)

lemma check_round_step:
  assumes needed: "asked e w" and ok: "isValidConfig config"
    and tr: "transfer_health (fst a) (fst (snd a)) (snd (snd a)) (condition_of w) config = Inr (news, c)"
  shows "asked e (check_round e config w a) \<and> kept (condition_of (check_round e config w a)) = kept c"
proof -
  let ?e = "hearing e a"
  define c1 where "c1 = c\<lparr>hc_WorkerStatus := WorkerTypeReady, hc_Checked := True, hc_Version := Version (Status w)\<rparr>"
  obtain url where url: "getQueryURL ?e w config = Inr url" using getQueryURL_valid [OF ok] by blast
  have need: "\<exists>d. needHealthCheck ?e w = (True, d)"
    using needed needed_hearing [of e a w] by (cases "needHealthCheck ?e w") (auto simp: asked_def)
  have q: "lv7_query ?e w config = Inr (c\<lparr>hc_WorkerStatus := WorkerTypeReady, hc_Checked := True\<rparr>)"
    using ok url tr by (cases a) (simp add: lv7_query_def hearing_def latest_of_def)
  have "finish_check ?e w (c\<lparr>hc_WorkerStatus := WorkerTypeReady, hc_Checked := True\<rparr>) =
    (c1, if condition_of w \<noteq> c1 then Task_Sync ?e w c1 else None)"
    using needed by (simp add: finish_check_def updateConditionVersion_def c1_def asked_def Let_def)
  moreover have "Task_Sync ?e w c1 = Some (with_condition w c1)" if "condition_of w \<noteq> c1"
  proof -
    have "Status (with_condition w c1) \<noteq> Status w" using that condition_of_with by metis
    then show ?thesis by (simp add: Task_Sync_def latest_of_def hearing_def with_condition_def Let_def)
  qed
  ultimately have r: "check_round e config w a = (if condition_of w \<noteq> c1 then with_condition w c1 else w)"
    using need q by (auto simp: check_round_def lv7_doCheck_def)
  then have "condition_of (check_round e config w a) = c1" "asked e (check_round e config w a)"
    using needed by (auto simp: asked_def needed_with c1_def)
  then show ?thesis by (simp add: kept_def c1_def)
qed

subsection \<open>All rounds\<close>

text \<open>The condition after a list of answers: the count, or the time at which the worker was lost.\<close>

definition tracks :: "Lv7HealthCheckerConfig \<Rightarrow> HealthStatus \<Rightarrow> answer list \<Rightarrow> HealthCondition \<Rightarrow> bool" where
  "tracks l begun as c \<longleftrightarrow>
     (let s = silence as; n = nat (LostCountThreshold l) in
      hc_Status c = verdict l begun as \<and>
      (if length s < n then hc_LostCount c = int (length s)
       else hc_LastLostTime c = fst (s ! (n - 1))))"

lemma verdict_waiting: "length (silence as) < nat (LostCountThreshold l) \<Longrightarrow> begun \<in> {HealthAlive, HealthUnKnown, HealthStatusEmpty} \<Longrightarrow>
  verdict l begun as \<in> {HealthAlive, HealthUnKnown, HealthStatusEmpty}"
  by (auto simp: verdict_def Let_def)

lemma tracks_success:
  assumes "tracks l begun as c" "answered a" "0 < LostCountThreshold l" "begun \<in> {HealthAlive, HealthUnKnown, HealthStatusEmpty}"
    and tr: "transfer_health (fst a) (fst (snd a)) (snd (snd a)) c config = Inr (news, c')"
  shows "tracks l begun (as @ [a]) c'"
proof -
  have "hc_Status c \<in> {HealthAlive, HealthUnKnown, HealthStatusEmpty, HealthLost, HealthDead}"
    using assms(1,4) by (auto simp: tracks_def verdict_def Let_def split: if_splits)
  then have "hc_Status c' = HealthAlive \<and> hc_LostCount c' = 0"
    using tr assms(2) by (auto simp: transfer_health_def answered_def Let_def buildLv7HealthCondition_def buildSimpleLv7HealthCondition_def
        split: if_splits)
  then show ?thesis using assms(2,3) by (simp add: tracks_def verdict_def)
qed

lemma tracks_failure:
  assumes t: "tracks l begun as c" and f: "\<not> answered a" and p: "0 < LostCountThreshold l"
    and b: "begun \<in> {HealthAlive, HealthUnKnown, HealthStatusEmpty}" and l: "Lv7Config config = Some l" and n: "length as < 2147483647"
    and tr: "transfer_health (fst a) (fst (snd a)) (snd (snd a)) c config = Inr (news, c')"
  shows "tracks l begun (as @ [a]) c'"
proof -
  define s where "s = silence as"
  define n where "n = nat (LostCountThreshold l)"
  have sil: "silence (as @ [a]) = s @ [a]" using f by (simp add: s_def)
  have n0: "0 < n" "LostCountThreshold l = int n" using p by (auto simp: n_def)
  have ns: "\<not> is_success (fst (snd a))" using f by (simp add: answered_def)
  have same: "(s @ [a] = as @ [a]) = (s = as)" by simp
  have len: "length s < 2147483647" using length_silence [of as] assms(6) by (simp add: s_def)
  show ?thesis
  proof (cases "length s < n")
    case True
    have st: "hc_Status c \<in> {HealthAlive, HealthUnKnown, HealthStatusEmpty}" "hc_Status c = (if s = as then begun else HealthAlive)"
      using t verdict_waiting [OF _ b] True by (auto simp: tracks_def s_def n_def verdict_def Let_def)
    have lc: "i32 (hc_LostCount c + 1) = int (length s) + 1"
      using t True len by (simp add: tracks_def s_def [symmetric] n_def [symmetric] Let_def i32_id)
    show ?thesis
    proof (cases "length s + 1 < n")
      case True
      then have "c' = buildSimpleLv7HealthCondition c (case fst (snd a) of None \<Rightarrow> ''response is nil'' | Some r \<Rightarrow> resp_Status r)
          (case snd (snd a) of None \<Rightarrow> '''' | Some text \<Rightarrow> text) (int (length s) + 1)"
        using tr st(1) ns l lc n0(2) by (simp add: transfer_health_def Let_def)
      then have "hc_Status c' = hc_Status c" "hc_LostCount c' = int (length s) + 1"
        by (simp_all add: buildSimpleLv7HealthCondition_def)
      then show ?thesis using True st(2) unfolding tracks_def verdict_def sil n_def [symmetric] Let_def by simp
    next
      case False
      then have e: "length s + 1 = n" using \<open>length s < n\<close> by simp
      then have "hc_Status c' = HealthLost" "hc_LastLostTime c' = fst a"
        using tr st(1) ns l lc n0(2) by (auto simp: transfer_health_def Let_def buildLv7HealthCondition_def)
      then show ?thesis using e unfolding tracks_def verdict_def sil n_def [symmetric] Let_def by (auto simp: nth_append)
    qed
  next
    case False
    then have "n - 1 < length s" using n0 by linarith
    then have at: "(s @ [a]) ! (n - 1) = s ! (n - 1)" by (simp add: nth_append)
    have old: "hc_Status c = (if list_ex (\<lambda>x. LostTimeout l \<le> fst x - fst (s ! (n - 1))) (drop n s) then HealthDead else HealthLost)"
      "hc_LastLostTime c = fst (s ! (n - 1))"
      using t False by (auto simp: tracks_def verdict_def s_def [symmetric] n_def [symmetric] Let_def)
    have new: "hc_Status c' = (if hc_Status c = HealthDead \<or> LostTimeout l \<le> fst a - hc_LastLostTime c then HealthDead else HealthLost)"
      "hc_LastLostTime c' = hc_LastLostTime c"
      using tr ns l old(1) by (auto simp: transfer_health_def Let_def buildLv7HealthCondition_def split: if_splits)
    show ?thesis using False new old unfolding tracks_def verdict_def sil n_def [symmetric] Let_def at by auto
  qed
qed

lemma tracks_kept: "kept c = kept c' \<Longrightarrow> tracks l begun as c = tracks l begun as c'"
  by (simp add: tracks_def kept_def Let_def)

lemma rounds_track:
  assumes start: "asked e w" "hc_Status (condition_of w) \<in> {HealthAlive, HealthUnKnown, HealthStatusEmpty}" "hc_LostCount (condition_of w) = 0"
    and config: "isValidConfig config" "Lv7Config config = Some l" "0 < LostCountThreshold l"
    and few: "length as < 2147483648"
  shows "asked e (foldl (check_round e config) w as) \<and>
    tracks l (hc_Status (condition_of w)) as (condition_of (foldl (check_round e config) w as))"
  using few
proof (induction as rule: rev_induct)
  case Nil
  then show ?case using start config(3) by (simp add: tracks_def verdict_def)
next
  case (snoc a as)
  define v where "v = foldl (check_round e config) w as"
  have v: "asked e v" "tracks l (hc_Status (condition_of w)) as (condition_of v)" using snoc by (auto simp: v_def)
  obtain news c where tr: "transfer_health (fst a) (fst (snd a)) (snd (snd a)) (condition_of v) config = Inr (news, c)"
    using transfer_total [OF config(2)] by metis
  have "tracks l (hc_Status (condition_of w)) (as @ [a]) c"
    using tracks_success [OF v(2) _ config(3) start(2) tr] tracks_failure [OF v(2) _ config(3) start(2) config(2) _ tr] snoc.prems
    by (cases "answered a") simp_all
  moreover have "asked e (check_round e config v a)" "kept (condition_of (check_round e config v a)) = kept c"
    using check_round_step [OF v(1) config(1) tr] by auto
  ultimately show ?case using tracks_kept [of "condition_of (check_round e config v a)" c] by (simp add: v_def)
qed

text \<open>The configuration a task works with has a positive threshold and a positive time.\<close>

lemma configured:
  assumes "doUpdateHealthCheckerConfig (Some cfg) = Inr (Some config, Lv7_checker)"
  obtains l where "Lv7Config config = Some l" "0 < LostCountThreshold l" "0 < LostTimeout l"
  using assms that by (auto simp: doUpdateHealthCheckerConfig_def fix_lv7_def DefaultLostCountThreshold_def DefaultLostTimeout_def
      split: if_splits option.splits)

text \<open>
  C32. The verdict of the layer 7 checker on a worker, which it keeps up from check to check with a count and a time, is the one of the whole list of answers: the worker is as it was
  or alive while fewer than the threshold of the last checks failed in a row; from then on it is lost, and it is dead once a later check of the same row failed at least the
  configured time after the check that made it lost; any success makes it alive again.
\<close>

theorem lv7_rounds_verdict:
  assumes "doUpdateHealthCheckerConfig (Some cfg) = Inr (Some config, Lv7_checker)" "isValidConfig config"
    and "fst (needHealthCheck e w)" "hc_Version (condition_of w) = Version (Status w)"
    and "hc_Status (condition_of w) \<in> {HealthAlive, HealthUnKnown, HealthStatusEmpty}" "hc_LostCount (condition_of w) = 0"
    and "length as < 2147483648"
  shows "hc_Status (condition_of (foldl (check_round e config) w as)) = verdict (the (Lv7Config config)) (hc_Status (condition_of w)) as"
proof -
  obtain l where l: "Lv7Config config = Some l" "0 < LostCountThreshold l" using configured [OF assms(1)] by blast
  have "asked e w" using assms(3,4) by (simp add: asked_def)
  from rounds_track [OF this assms(5,6,2) l assms(7)] show ?thesis by (simp add: tracks_def l(1) Let_def)
qed

definition pinging :: HealthCheckerConfig where
  "pinging = \<lparr>hcc_Type = Lv7Health, Lv7Config = Some \<lparr>LostCountThreshold = 2, LostTimeout = 0, lv7_Path = ''ping'', lv7_Port = FromInt 80\<rparr>\<rparr>"

definition answering :: "int \<Rightarrow> bool \<Rightarrow> answer" where
  "answering t ok = (t, if ok then Some \<lparr>resp_StatusCode = 200, resp_Status = ''200 OK'', resp_Body = None\<rparr> else None, None)"

text \<open>Lost at the second failure, at 20; still lost at 319, dead at 320, alive again after a success.\<close>

theorem lv7_rounds_verdict_witness:
  "\<forall>e. let w = healthy_worker\<lparr>Status := (Status healthy_worker)\<lparr>st_HealthCondition := empty_condition\<lparr>hc_Version := Version (Status healthy_worker)\<rparr>\<rparr>\<rparr>;
          config = pinging\<lparr>Lv7Config := Some \<lparr>LostCountThreshold = 2, LostTimeout = 300, lv7_Path = ''ping'', lv7_Port = FromInt 80\<rparr>\<rparr>;
          status = (\<lambda>as. hc_Status (condition_of (foldl (check_round e config) w as)))
        in status [answering 10 False] = HealthStatusEmpty \<and>
           status [answering 10 False, answering 20 False, answering 319 False] = HealthLost \<and>
           status [answering 10 False, answering 20 False, answering 319 False, answering 320 False] = HealthDead \<and>
           status [answering 10 False, answering 20 False, answering 25 True, answering 30 False] = HealthAlive"
proof -
  define w where "w = healthy_worker\<lparr>Status := (Status healthy_worker)\<lparr>st_HealthCondition := empty_condition\<lparr>hc_Version := Version (Status healthy_worker)\<rparr>\<rparr>\<rparr>"
  define config where "config = pinging\<lparr>Lv7Config := Some \<lparr>LostCountThreshold = 2, LostTimeout = 300, lv7_Path = ''ping'', lv7_Port = FromInt 80\<rparr>\<rparr>"
  have c: "doUpdateHealthCheckerConfig (Some pinging) = Inr (Some config, Lv7_checker)" "isValidConfig config"
    by (simp_all add: pinging_def config_def doUpdateHealthCheckerConfig_def fix_lv7_def isValidConfig_def DefaultLostTimeout_def)
  have n: "fst (needHealthCheck e w)" for e
    by (simp add: needHealthCheck_def w_def healthy_worker_def empty_worker_def empty_status_def Let_def worker_preds)
  have k: "hc_Version (condition_of w) = Version (Status w)" "hc_Status (condition_of w) \<in> {HealthAlive, HealthUnKnown, HealthStatusEmpty}"
    "hc_LostCount (condition_of w) = 0"
    by (simp_all add: w_def empty_condition_def)
  have v: "hc_Status (condition_of (foldl (check_round e config) w as)) = verdict (the (Lv7Config config)) (hc_Status (condition_of w)) as"
    if "length as < 2147483648" for e as
    by (rule lv7_rounds_verdict [OF c n k that])
  show ?thesis
    unfolding Let_def w_def [symmetric] config_def [symmetric]
    by (intro allI conjI; subst v; simp add: verdict_def silence_def answered_def answering_def is_success_def config_def w_def empty_condition_def)
qed

subsection \<open>Readiness and versions\<close>

lemma transfer_success_news:
  assumes "is_success r" "transfer_health now r err c config = Inr (news, c')" "hc_Status c \<in> {HealthAlive, HealthUnKnown, HealthStatusEmpty, HealthLost, HealthDead}"
  shows "news"
  using assms by (auto simp: transfer_health_def Let_def split: if_splits)

lemma transfer_worker_status:
  "transfer_health now r err c config = Inr (news, c') \<Longrightarrow> hc_WorkerStatus c' = hc_WorkerStatus c \<or> hc_WorkerStatus c' = WorkerTypeEmpty"
  by (auto simp: transfer_health_def Let_def buildLv7HealthCondition_def buildSimpleLv7HealthCondition_def empty_condition_def
      split: if_splits option.splits)

lemma finish_check_worker_status: "finish_check e w c = (c', x) \<Longrightarrow> hc_WorkerStatus c' = hc_WorkerStatus c"
  by (auto simp: finish_check_def updateConditionVersion_def Let_def)

text \<open>
  C33. The advanced checker calls a worker that it asked, and whose health status before was one of the known ones, ready only for a cause: the worker answered with success and its answer
  carries the signature of the plan it is to run; or the request failed and the worker was ready before. (A worker that is not asked, for instance a terminated one that is not a
  daemon, may be called ready without a question.)
\<close>

theorem advanced_ready_for_cause:
  assumes "advanced_doCheck e config w = Inr (Some (c, written))" "fst (needHealthCheckAdvlv7 e w)" "hc_WorkerStatus c = WorkerTypeReady"
    and "hc_Status (condition_of (latest_of e w)) \<in> {HealthAlive, HealthUnKnown, HealthStatusEmpty, HealthLost, HealthDead}"
  shows "\<exists>url response err. getQueryURL e w config = Inr url \<and> probe e w url = (response, err) \<and>
    (if err = None \<and> is_success response
     then \<exists>body metas. resp_Body (the response) = Some body \<and> parse_metas e body = Some metas \<and>
       sget metas ''signature'' = Signature (Plan (latest_of e w))
     else hc_WorkerStatus (condition_of (latest_of e w)) = WorkerTypeReady)"
proof -
  obtain url response err where q: "getQueryURL e w config = Inr url" "probe e w url = (response, err)"
    using assms(1,2) by (cases "getQueryURL e w config"; cases "probe e w (projr (getQueryURL e w config))")
      (auto simp: advanced_doCheck_def advanced_query_def split: prod.splits)
  obtain c1 where c1: "advanced_query e w config = Inr (Some c1)" "finish_check e w c1 = (c, written)"
    using assms(1,2) by (cases "advanced_query e w config") (auto simp: advanced_doCheck_def split: prod.splits)
  have ready: "hc_WorkerStatus c1 = WorkerTypeReady" using finish_check_worker_status [OF c1(2)] assms(3) by simp
  define c0 where "c0 = condition_of (latest_of e w)"
  obtain news c2 where tr: "transfer_health (Now (hw e)) response err c0 config = Inr (news, c2)"
    using c1(1) q by (cases "transfer_health (Now (hw e)) response err c0 config") (auto simp: advanced_query_def c0_def Let_def)
  show ?thesis
  proof (cases "err = None \<and> is_success response")
    case True
    then have "news" using transfer_success_news [OF _ tr] assms(4) by (simp add: c0_def)
    then have "\<exists>body metas. resp_Body (the response) = Some body \<and> parse_metas e body = Some metas \<and>
       sget metas ''signature'' = Signature (Plan (latest_of e w))"
      using c1(1) q tr ready True by (auto simp: advanced_query_def c0_def [symmetric] Let_def checkWorkerReady_def split: option.splits if_splits)
    then show ?thesis using q True by auto
  next
    case False
    then have "c1 = c2\<lparr>hc_Type := AdvancedLv7Health\<rparr>"
      using c1(1) q tr by (auto simp: advanced_query_def c0_def [symmetric] Let_def)
    then have "hc_WorkerStatus c0 = WorkerTypeReady" using transfer_worker_status [OF tr] ready by simp
    then show ?thesis using q False by (auto simp: c0_def)
  qed
qed

definition signing :: health_env where
  "signing = \<lparr>hw = sample_env, HealthCheckWhenUpdatePod = True,
     probe = (\<lambda>_ _. (Some \<lparr>resp_StatusCode = 200, resp_Status = ''200 OK'', resp_Body = Some ''s''\<rparr>, None)), latest_worker = Some,
     parse_metas = (\<lambda>body. Some (sput ''signature'' body None)), IntOrString_String = (\<lambda>p. ''80'')\<rparr>"

text \<open>A worker that answers with the signature of its plan becomes ready.\<close>

theorem advanced_ready_for_cause_witness:
  "let w = set_spec (\<lambda>x. x\<lparr>Spec_VersionPlan := (Spec_VersionPlan x)\<lparr>Signature := ''s''\<rparr>\<rparr>) healthy_worker in
   \<exists>url response err. getQueryURL signing w pinging = Inr url \<and> probe signing w url = (response, err) \<and>
    (if err = None \<and> is_success response
     then \<exists>body metas. resp_Body (the response) = Some body \<and> parse_metas signing body = Some metas \<and>
       sget metas ''signature'' = Signature (Plan (latest_of signing w))
     else hc_WorkerStatus (condition_of (latest_of signing w)) = WorkerTypeReady)"
proof -
  define w where "w = set_spec (\<lambda>x. x\<lparr>Spec_VersionPlan := (Spec_VersionPlan x)\<lparr>Signature := ''s''\<rparr>\<rparr>) healthy_worker"
  have n: "\<exists>c. needHealthCheckAdvlv7 signing w = (True, c)"
    by (simp add: needHealthCheckAdvlv7_def needHealthCheck_def signing_def IfWorkerServiceMetasRecovered_def w_def healthy_worker_def empty_worker_def
        empty_status_def Let_def worker_preds)
  have st: "hc_Status (condition_of (latest_of signing w)) = hc_Status (condition_of healthy_worker)"
    by (simp add: latest_of_def signing_def w_def)
  have a: "\<exists>c x. advanced_doCheck signing pinging w = Inr (Some (c, x)) \<and> hc_WorkerStatus c = WorkerTypeReady"
    using n by (auto simp: advanced_doCheck_def advanced_query_def getQueryURL_def pinging_def signing_def latest_of_def is_success_def
        transfer_health_def w_def healthy_worker_def empty_worker_def empty_status_def Let_def buildLv7HealthCondition_def
        buildSimpleLv7HealthCondition_def checkWorkerReady_def finish_check_def updateConditionVersion_def)
  then obtain c x where "advanced_doCheck signing pinging w = Inr (Some (c, x))" "hc_WorkerStatus c = WorkerTypeReady" by blast
  moreover have "fst (needHealthCheckAdvlv7 signing w)" using n by auto
  moreover have "hc_Status (condition_of (latest_of signing w)) \<in> {HealthAlive, HealthUnKnown, HealthStatusEmpty, HealthLost, HealthDead}"
    unfolding st by (simp add: healthy_worker_def empty_worker_def empty_status_def)
  ultimately show ?thesis unfolding w_def [symmetric] Let_def by (intro advanced_ready_for_cause)
qed

text \<open>A plan with a new version is never judged by the health of the old one: every checker stores the version the worker runs, and calls its health unknown the first time.\<close>

lemma finish_check_version:
  "hc_Version (fst (finish_check e w c)) = Version (Status w) \<and>
   (hc_Version (condition_of w) = Version (Status w) \<or> hc_Status (fst (finish_check e w c)) = HealthUnKnown)"
  by (simp add: finish_check_def updateConditionVersion_def Let_def)

subsection \<open>Configurations\<close>

text \<open>A configuration without a path is guarded in one checker and dereferenced in the other.\<close>

lemma empty_path_checks:
  assumes "Lv7Config config = Some l" "lv7_Path l = ''''"
  shows "\<exists>r. lv7_doCheck e config w = Inr r" and "fst (needHealthCheckAdvlv7 e w) \<Longrightarrow> advanced_doCheck e config w = Inl SliceOutOfRange"
proof -
  obtain news c where "transfer_health (Now (hw e)) None (Some ''lv7 config invaild'') (condition_of w) config = Inr (news, c)"
    using transfer_total [OF assms(1)] by metis
  then show "\<exists>r. lv7_doCheck e config w = Inr r"
    using assms by (auto simp: lv7_doCheck_def lv7_query_def isValidConfig_def split: prod.splits)
  show "advanced_doCheck e config w = Inl SliceOutOfRange" if "fst (needHealthCheckAdvlv7 e w)"
    using assms that by (auto simp: advanced_doCheck_def advanced_query_def getQueryURL_def split: prod.splits)
qed

text \<open>
  A rolling set whose layer 7 configuration has no path is accepted by the task. The plain checker then counts every check as failed and never fails itself, while the advanced
  checker fails on every worker it would ask.
\<close>

theorem empty_path_panics:
  assumes "Lv7Config cfg = Some l" "lv7_Path l = ''''" "hcc_Type cfg = AdvancedLv7Health" "fst (needHealthCheckAdvlv7 e w)"
  shows "\<exists>config. doUpdateHealthCheckerConfig (Some cfg) = Inr (Some config, Advanced_checker) \<and>
    advanced_doCheck e config w = Inl SliceOutOfRange \<and> (\<exists>r. lv7_doCheck e config w = Inr r)"
  using assms empty_path_checks [of "cfg\<lparr>Lv7Config := Some (fix_lv7 l)\<rparr>" "fix_lv7 l" e w]
  by (simp add: doUpdateHealthCheckerConfig_def fix_lv7_def)

theorem empty_path_panics_witness:
  "let cfg = pinging\<lparr>hcc_Type := AdvancedLv7Health, Lv7Config := Some \<lparr>LostCountThreshold = 2, LostTimeout = 1, lv7_Path = '''', lv7_Port = FromInt 80\<rparr>\<rparr>
   in \<exists>config. doUpdateHealthCheckerConfig (Some cfg) = Inr (Some config, Advanced_checker) \<and>
    advanced_doCheck signing config healthy_worker = Inl SliceOutOfRange \<and> (\<exists>r. lv7_doCheck signing config healthy_worker = Inr r)"
  unfolding Let_def
  by (rule empty_path_panics [where l = "\<lparr>LostCountThreshold = 2, LostTimeout = 1, lv7_Path = [], lv7_Port = FromInt 80\<rparr>"]) (simp_all add: needHealthCheckAdvlv7_def needHealthCheck_def signing_def IfWorkerServiceMetasRecovered_def
      healthy_worker_def empty_worker_def empty_status_def Let_def worker_preds)

end
