(* ===== verification/ServicePublishing.thy ===== *)
theory ServicePublishing
  imports WorkerStatus WorkerRoles Pods
begin

text \<open>
  \<^verbatim>\<open>controller/service-publisher\<close>: a pass of the task that keeps the nodes of a service in a registry (a name service or a load balancer) equal to the workers that
  should serve, and writes into every worker what the registry says about it. The registry is a parameter, the answers to its operations; the repository's \<^verbatim>\<open>newPublisher\<close> is the place
  where kinds of registries are plugged in and knows none. The listers of a pass are parameters too: the service and its workers. Requests are a log. The metas that are sent with a
  node, the executors, which run the updates of the workers concurrently, and metrics are left out.
\<close>

subsection \<open>Nodes and services\<close>

record IPNode =
  node_IP :: string
  node_Score :: int
  Health :: bool
  Checked :: bool
  node_Warmup :: bool
  node_InWarmup :: bool
  StartWarmup :: bool
  Lost :: bool
  Failed_node :: bool
  NewAdded :: bool
  ServiceDetail :: string

definition zero_node :: IPNode where
  "zero_node = \<lparr>node_IP = '''', node_Score = 0, Health = False, Checked = False, node_Warmup = False, node_InWarmup = False, StartWarmup = False,
     Lost = False, Failed_node = False, NewAdded = False, ServiceDetail = ''''\<rparr>"

text \<open>A service with what a pass reads of its metadata and status; \<open>None\<close> is nil.\<close>

record published_service =
  ps :: ServicePublisher
  ps_Deleting :: bool
  ps_Finalizers :: "string list option"
  ps_IPList :: "IPNode list option"
  ps_IPs :: "string list"

text \<open>An error of a registry, with a code if it carries one.\<close>

datatype registry_error = Coded_error int string | Plain_error string

fun error_text :: "registry_error \<Rightarrow> string" where
  "error_text (Coded_error _ text) = text"
| "error_text (Plain_error text) = text"

record registry =
  getNodes :: "registry_error + IPNode list"
  addNodes :: "IPNode list \<Rightarrow> registry_error option"
  updateNodes :: "IPNode list \<Rightarrow> registry_error option"
  delNodes :: "IPNode list \<Rightarrow> registry_error option"

datatype write_answer = Written | NotFound | Conflict | Refused

record service_api =
  save_answer :: "nat \<Rightarrow> write_answer"
  refetch :: "nat \<Rightarrow> bool"
  worker_answer :: "WorkerNode \<Rightarrow> write_answer"
  finalize_answer :: write_answer
  delete_answer :: write_answer
  status_JSON :: "WorkerNodeStatus \<Rightarrow> string"

datatype publish_request = Add_nodes "IPNode list" | Update_nodes "IPNode list" | Del_nodes "IPNode list" | Save_status "string list"
  | Write_worker WorkerNode | Write_finalizers "string list option" | Delete_service | Remove_task

abbreviation "serviceFinalizer \<equiv> ''carbon.taobao.com/service-finalizer''"

subsection \<open>Which nodes to publish\<close>

definition NeedUpdateGracefully :: "ServicePublisher \<Rightarrow> bool" where
  "NeedUpdateGracefully service = isGracefullyServiceType (sp_Type service)"

definition IsHealthCheckDone :: "WorkerNode \<Rightarrow> bool" where
  "IsHealthCheckDone w = hc_Checked (st_HealthCondition (Status w))"

definition IsV3 :: "WorkerNode \<Rightarrow> bool" where
  "IsV3 w \<longleftrightarrow> GetPodVersion (Labels w) = PodVersion3"

definition node_of :: "WorkerNode \<Rightarrow> IPNode" where
  "node_of w = zero_node\<lparr>node_IP := IP (Status w), Checked := IsHealthCheckDone w, node_Warmup := Warmup (Status w), Lost := IsWorkerLost w,
     Failed_node := IsWorkerFalied w\<rparr>"

definition is_local :: "ServicePublisher \<Rightarrow> WorkerNode \<Rightarrow> bool" where
  "is_local service w \<longleftrightarrow> IP (Status w) \<noteq> '''' \<and> \<not> (sp_Type service = ServiceSkyline \<and> IsV3 w)"

definition to_publish :: "ServicePublisher \<Rightarrow> WorkerNode \<Rightarrow> bool" where
  "to_publish service w \<longleftrightarrow>
     \<not> (NeedUpdateGracefully service \<and> IsWorkerServiceOffline w) \<and> \<not> (NeedUpdateGracefully service \<and> \<not> IsWorkerOnline w) \<and> \<not> IsStandbyWorker w"

definition getLocalNodes :: "WorkerNode list \<Rightarrow> ServicePublisher \<Rightarrow> IPNode list \<times> IPNode list" where
  "getLocalNodes ws service =
     (let here = filter (is_local service) ws in (map node_of (filter (to_publish service) here), map node_of here))"

definition getPublishedNodes :: "published_service \<Rightarrow> IPNode list" where
  "getPublishedNodes s =
     (case ps_IPList s of None \<Rightarrow> [] | Some ns \<Rightarrow> ns) @ map (\<lambda>ip. zero_node\<lparr>node_IP := ip\<rparr>) (ps_IPs s)"

subsection \<open>Sets of nodes\<close>

definition sliceToMap :: "IPNode list \<Rightarrow> string set" where
  "sliceToMap ns = set (map node_IP ns)"

definition setToSlice :: "string set \<Rightarrow> IPNode list \<Rightarrow> IPNode list" where
  "setToSlice s ns = filter (\<lambda>n. node_IP n \<in> s) ns"

primrec keep_first :: "string set \<Rightarrow> IPNode list \<Rightarrow> IPNode list" where
  "keep_first seen [] = []"
| "keep_first seen (n # ns) = (if node_IP n \<in> seen then keep_first seen ns else n # keep_first (insert (node_IP n) seen) ns)"

definition setToSliceBoth :: "string set \<Rightarrow> IPNode list list \<Rightarrow> IPNode list" where
  "setToSliceBoth s nodes = keep_first {} (filter (\<lambda>n. node_IP n \<in> s) (concat nodes))"

definition intersect_nodes :: "IPNode list \<Rightarrow> IPNode list \<Rightarrow> IPNode list" where
  "intersect_nodes src1 src2 = setToSlice (sliceToMap src1 \<inter> sliceToMap src2) src1"

definition union_nodes :: "IPNode list \<Rightarrow> IPNode list \<Rightarrow> IPNode list" where
  "union_nodes src1 src2 = setToSliceBoth (sliceToMap src1 \<union> sliceToMap src2) [src1, src2]"

definition diff_nodes :: "IPNode list \<Rightarrow> IPNode list \<Rightarrow> IPNode list \<Rightarrow> IPNode list \<Rightarrow> IPNode list \<times> IPNode list \<times> IPNode list" where
  "diff_nodes publishedNodes toPublish localNodes remoteNodes =
     (let publishedSets = sliceToMap publishedNodes;
          topublishSets = sliceToMap toPublish;
          localSets = sliceToMap localNodes;
          remoteSets = localSets \<inter> sliceToMap remoteNodes;
          garbageSets = publishedSets - localSets;
          needAdds = topublishSets - remoteSets;
          needDeletes = (remoteSets - topublishSets) \<inter> publishedSets \<union> garbageSets;
          needUpdates = topublishSets \<inter> remoteSets
      in (setToSlice needAdds localNodes, setToSlice needDeletes remoteNodes, setToSlice needUpdates localNodes))"

definition filterLostFaildNodes :: "IPNode list \<Rightarrow> IPNode list" where
  "filterLostFaildNodes ns = filter (\<lambda>n. \<not> (Lost n \<or> Failed_node n)) ns"

subsection \<open>The registry\<close>

text \<open>Each step of \<^verbatim>\<open>sync\<close>: its requests, and whether the next one follows.\<close>

definition add_step :: "registry \<Rightarrow> bool \<Rightarrow> IPNode list \<Rightarrow> IPNode list \<Rightarrow> publish_request list \<times> IPNode list \<times> bool" where
  "add_step r softDelete adds remoteNodes =
     (if adds \<noteq> [] \<and> \<not> softDelete then
        (case addNodes r adds of
           None \<Rightarrow> ([Add_nodes adds], remoteNodes @ map (\<lambda>n. n\<lparr>NewAdded := True\<rparr>) adds, True)
         | Some _ \<Rightarrow> ([Add_nodes adds], remoteNodes, False))
      else ([], remoteNodes, True))"

definition update_step :: "registry \<Rightarrow> IPNode list \<Rightarrow> publish_request list \<times> bool" where
  "update_step r updates = (if updates \<noteq> [] then ([Update_nodes updates], updateNodes r updates = None) else ([], True))"

definition delete_step :: "registry \<Rightarrow> IPNode list \<Rightarrow> publish_request list" where
  "delete_step r deletes = (if deletes \<noteq> [] then [Del_nodes deletes] else [])"

text \<open>An error of a step ends the pass at the registry and is not returned.\<close>

definition publisher_sync ::
  "registry \<Rightarrow> IPNode list \<Rightarrow> IPNode list \<Rightarrow> IPNode list \<Rightarrow> bool \<Rightarrow> publish_request list \<times> (registry_error + IPNode list)" where
  "publisher_sync r publishedNodes toPublishNodes localNodes softDelete =
     (case getNodes r of
        Inl err \<Rightarrow> ([], Inl err)
      | Inr remoteNodes \<Rightarrow>
          (case diff_nodes publishedNodes toPublishNodes localNodes remoteNodes of (adds, deletes, updates) \<Rightarrow>
             if adds = [] \<and> deletes = [] \<and> updates = [] then ([], Inr (intersect_nodes remoteNodes localNodes))
             else
               case add_step r softDelete (filterLostFaildNodes adds) remoteNodes of (added, newRemoteNodes, go_on) \<Rightarrow>
                 (case update_step r (filterLostFaildNodes updates) of (updated, go_on') \<Rightarrow>
                    (added @ (if go_on then updated @ (if go_on' then delete_step r deletes else []) else []),
                     Inr (union_nodes (intersect_nodes newRemoteNodes localNodes) (intersect_nodes newRemoteNodes publishedNodes))))))"

subsection \<open>The workers\<close>

text \<open>A map from IPs to nodes: the last one of an IP counts.\<close>

definition remote_of :: "IPNode list \<Rightarrow> string \<Rightarrow> IPNode option" where
  "remote_of remotes ip = find (\<lambda>n. node_IP n = ip) (rev remotes)"

definition report_reason :: "IPNode option \<Rightarrow> string option \<Rightarrow> string" where
  "report_reason remote serviceErr =
     (if serviceErr \<noteq> None then ReasonQueryError
      else case remote of
        None \<Rightarrow> ReasonNotExist
      | Some n \<Rightarrow> if Health n then '''' else if node_InWarmup n then ReasonWarmUP else ReasonServiceCheckFalse)"

definition report_status :: "bool \<Rightarrow> bool \<Rightarrow> ConditionStatus" where
  "report_status serviceReleasing health =
     (if serviceReleasing \<and> health then ConditionFalse else if \<not> serviceReleasing \<and> \<not> health then ConditionFalse else ConditionTrue)"

definition set_metas :: "ServicePublisher \<Rightarrow> IPNode \<Rightarrow> string option \<Rightarrow> WorkerNode \<Rightarrow> WorkerNode" where
  "set_metas service n serviceErr w =
     (if sp_Type service = ServiceCM2 \<and> serviceErr = None then
        set_status (\<lambda>s. s\<lparr>ServiceInfoMetas := (if NewAdded n then ServiceInfoMetas s else ''{}''), ServiceInfoMetasRecoverd := True\<rparr>) w
      else w)"

definition start_warmup :: "worker_env \<Rightarrow> WorkerNode \<Rightarrow> WorkerNode" where
  "start_warmup e w =
     (if Warmup (Status w) \<and> IsWorkerInWarmup w \<and> LastWarmupStartTime (Status w) = 0
      then set_status (\<lambda>s. s\<lparr>LastWarmupStartTime := Now e, InWarmup := True\<rparr>) w else w)"

definition syncWorkerServiceStatus ::
  "worker_env \<Rightarrow> ServicePublisher \<Rightarrow> IPNode list \<Rightarrow> bool \<Rightarrow> bool \<Rightarrow> string option \<Rightarrow> WorkerNode \<Rightarrow> WorkerNode" where
  "syncWorkerServiceStatus e service remotes serviceReleasing softDelete serviceErr w =
     (let remote = remote_of remotes (IP (Status w));
          n = (case remote of None \<Rightarrow> zero_node | Some n \<Rightarrow> n)
      in start_warmup e
          (if (serviceReleasing \<or> softDelete \<or> IsWorkerToRelease w) \<and> remote = None then
             DeleteWorkerServiceHealthCondition (sp_Name service) (serviceErr \<noteq> None) w
           else if \<not> softDelete then
             set_metas service n serviceErr
               (SetWorkerServiceHealthCondition e service (ServiceDetail n) (report_status serviceReleasing (Health n)) (node_Score n)
                  (report_reason remote serviceErr) (case serviceErr of None \<Rightarrow> '''' | Some text \<Rightarrow> text) (node_InWarmup n) (StartWarmup n) w)
           else w))"

text \<open>The requests, and whether they failed. The executor is asked to wait (\<^verbatim>\<open>try\<close> is false), so \<^verbatim>\<open>batcher.Go\<close> refuses no command
  and the early return for that never happens; that every command gets its turn within the time limit is assumed.\<close>

definition updateWorker ::
  "worker_env \<Rightarrow> service_api \<Rightarrow> ServicePublisher \<Rightarrow> IPNode list \<Rightarrow> bool \<Rightarrow> bool \<Rightarrow> string option \<Rightarrow> WorkerNode \<Rightarrow> publish_request list \<times> bool" where
  "updateWorker e api service remotes serviceReleasing softDelete serviceErr oldWorker =
     (let w = syncWorkerServiceStatus e service remotes serviceReleasing softDelete serviceErr oldWorker in
      if status_JSON api (Status w) \<noteq> status_JSON api (Status oldWorker) then ([Write_worker w], worker_answer api w \<noteq> Written) else ([], False))"

definition updateWorkers ::
  "worker_env \<Rightarrow> service_api \<Rightarrow> ServicePublisher \<Rightarrow> WorkerNode list \<Rightarrow> IPNode list \<Rightarrow> bool \<Rightarrow> bool \<Rightarrow> string option \<Rightarrow> publish_request list \<times> bool" where
  "updateWorkers e api service ws remotes serviceReleasing softDelete serviceErr =
     (let rs = map (updateWorker e api service remotes serviceReleasing softDelete serviceErr) ws in (concat (map fst rs), list_ex snd rs))"

subsection \<open>The pass\<close>

definition initFinalizeService :: "published_service \<Rightarrow> publish_request list" where
  "initFinalizeService s = (if ps_Finalizers s \<noteq> None then [] else [Write_finalizers (Some [serviceFinalizer])])"

text \<open>\<^verbatim>\<open>saveRemoteNodes\<close> tries ten times; the write happens only when the addresses have changed.\<close>

fun save_loop :: "service_api \<Rightarrow> string list \<Rightarrow> nat \<Rightarrow> nat \<Rightarrow> publish_request list" where
  "save_loop api ips k 0 = []"
| "save_loop api ips k (Suc n) =
     Save_status ips #
       (case save_answer api k of
          Written \<Rightarrow> []
        | NotFound \<Rightarrow> []
        | Conflict \<Rightarrow> if refetch api k then save_loop api ips (Suc k) n else []
        | Refused \<Rightarrow> save_loop api ips (Suc k) n)"

definition saveRemoteNodes :: "service_api \<Rightarrow> published_service \<Rightarrow> IPNode list \<Rightarrow> publish_request list" where
  "saveRemoteNodes api s remotes =
     (let ips = map node_IP remotes in if ips \<noteq> ps_IPs s then save_loop api ips 0 10 else [])"

definition isWorkersHostIP :: "WorkerNode list \<Rightarrow> bool" where
  "isWorkersHostIP ws = list_ex (\<lambda>w. IP (Status w) \<noteq> '''' \<and> HostIP (Status w) \<noteq> '''' \<and> IP (Status w) = HostIP (Status w)) ws"

definition getPublisher :: "registry option \<Rightarrow> published_service \<Rightarrow> WorkerNode list \<Rightarrow> registry option" where
  "getPublisher r s ws = (if isWorkersHostIP ws \<and> sp_Type (ps s) = ServiceSkyline then None else r)"

definition isNameServerUnavailable :: "registry_error \<Rightarrow> bool" where
  "isNameServerUnavailable err = (case err of Coded_error code _ \<Rightarrow> code = 503 | Plain_error _ \<Rightarrow> False)"

definition conditionRemoved :: "string \<Rightarrow> WorkerNode list \<Rightarrow> bool" where
  "conditionRemoved name ws =
     list_all (\<lambda>w. list_all (\<lambda>c. \<not> (sc_Name c = name \<or> sc_ServiceName c = name)) (ServiceConditions (Status w))) ws"

definition deleteService :: "service_api \<Rightarrow> publish_request list \<times> bool" where
  "deleteService api =
     (if finalize_answer api \<noteq> Written \<and> finalize_answer api \<noteq> NotFound then ([Write_finalizers None], True)
      else if delete_answer api \<noteq> Written \<and> delete_answer api \<noteq> NotFound then ([Write_finalizers None, Delete_service], True)
      else ([Write_finalizers None, Delete_service, Remove_task], False))"

definition softDelete_service :: "service_api \<Rightarrow> published_service \<Rightarrow> WorkerNode list \<Rightarrow> IPNode list \<Rightarrow> publish_request list \<times> bool" where
  "softDelete_service api s ws remotes =
     (let cleared = list_all (\<lambda>w. list_all (\<lambda>c. \<not> (sc_ServiceName c = sp_Name (ps s) \<and> sc_Type c = sp_Type (ps s))) (ServiceConditions (Status w))) ws
      in if cleared \<and> remotes = [] then deleteService api else ([], False))"

text \<open>What the registry makes of the pass: its requests, the nodes and the error.\<close>

definition registry_part ::
  "service_api \<Rightarrow> registry option \<Rightarrow> published_service \<Rightarrow> IPNode list \<Rightarrow> IPNode list \<Rightarrow> IPNode list \<Rightarrow>
     publish_request list \<times> IPNode list \<times> registry_error option" where
  "registry_part api r s publishedNodes toPublishNodes localNodes =
     (case r of
        None \<Rightarrow> ([], [], None)
      | Some r \<Rightarrow>
          (case publisher_sync r publishedNodes toPublishNodes localNodes (sp_SoftDelete (ps s)) of
             (log, Inl err) \<Rightarrow> (log, [], Some err)
           | (log, Inr remotes) \<Rightarrow> (log @ saveRemoteNodes api s remotes, remotes, None)))"

text \<open>The end of the pass: a service that is deleted goes once nothing is recorded, registered or noted in a worker.\<close>

definition finish_pass ::
  "service_api \<Rightarrow> published_service \<Rightarrow> WorkerNode list \<Rightarrow> IPNode list \<Rightarrow> IPNode list \<Rightarrow> publish_request list \<times> bool" where
  "finish_pass api s ws publishedNodes remotes =
     (if ps_Deleting s \<and> publishedNodes = [] \<and> remotes = [] \<and> conditionRemoved (sp_Name (ps s)) ws then deleteService api
      else if sp_SoftDelete (ps s) then softDelete_service api s ws remotes
      else ([], False))"

definition publish_sync ::
  "worker_env \<Rightarrow> service_api \<Rightarrow> registry option \<Rightarrow> published_service \<Rightarrow> WorkerNode list \<Rightarrow> publish_request list \<times> bool" where
  "publish_sync e api r s ws =
     (let finalizers = (if ps_Deleting s then [] else initFinalizeService s);
          (toPublishNodes, localNodes) = (if ps_Deleting s then ([], []) else getLocalNodes ws (ps s));
          publishedNodes = getPublishedNodes s
      in case registry_part api (getPublisher r s ws) s publishedNodes toPublishNodes localNodes of (log, remotes, err) \<Rightarrow>
           if (case err of None \<Rightarrow> False | Some x \<Rightarrow> isNameServerUnavailable x) then (finalizers @ log, True)
           else
             case updateWorkers e api (ps s) ws remotes (ps_Deleting s) (sp_SoftDelete (ps s)) (map_option error_text err) of (writes, bad) \<Rightarrow>
               if bad then (finalizers @ log @ writes, True)
               else case finish_pass api s ws publishedNodes remotes of (ending, broken) \<Rightarrow> (finalizers @ log @ writes @ ending, broken))"

end
