(* ===== verification/ServicePublishingSafety.thy ===== *)
theory ServicePublishingSafety
  imports ServicePublishing WorkerStatusSafety
begin

text \<open>
  What a pass of a service does to the registry and to the workers: it touches only the nodes of its own, leaves the right ones registered and knows which they are; a worker
  that is registered is not taken for unpublished, unless it is warming up while the registry fails.
\<close>

subsection \<open>Sets of nodes\<close>

lemma sliceToMap_setToSlice [simp]: "sliceToMap (setToSlice s ns) = s \<inter> sliceToMap ns"
  by (auto simp: sliceToMap_def setToSlice_def)

lemma sliceToMap_Nil [simp]: "sliceToMap [] = {}"
  by (simp add: sliceToMap_def)

lemma sliceToMap_append [simp]: "sliceToMap (xs @ ys) = sliceToMap xs \<union> sliceToMap ys"
  by (simp add: sliceToMap_def)

lemma sliceToMap_added [simp]: "sliceToMap (map (NewAdded_update f) ns) = sliceToMap ns"
  by (simp add: sliceToMap_def image_image)

lemma sliceToMap_intersect [simp]: "sliceToMap (intersect_nodes xs ys) = sliceToMap xs \<inter> sliceToMap ys"
  by (auto simp: intersect_nodes_def)

lemma keep_first_ips: "sliceToMap (keep_first seen ns) = sliceToMap ns - seen"
  by (induction ns arbitrary: seen) (auto simp: sliceToMap_def)

lemma sliceToMap_union [simp]: "sliceToMap (union_nodes xs ys) = sliceToMap xs \<union> sliceToMap ys"
  by (auto simp: union_nodes_def setToSliceBoth_def keep_first_ips) (auto simp: sliceToMap_def)

lemma filterLost_sub: "sliceToMap (filterLostFaildNodes ns) \<subseteq> sliceToMap ns"
  by (auto simp: filterLostFaildNodes_def sliceToMap_def)

lemma local_nodes: "getLocalNodes ws sp = (toPublish, here) \<Longrightarrow> sliceToMap toPublish \<subseteq> sliceToMap here"
  by (auto simp: getLocalNodes_def Let_def sliceToMap_def)

subsection \<open>What a pass asks of the registry\<close>

text \<open>The nodes of the service: those that have to be there, all, and those on record.\<close>

definition wanted_nodes :: "published_service \<Rightarrow> WorkerNode list \<Rightarrow> IPNode list" where
  "wanted_nodes s ws = (if ps_Deleting s then [] else fst (getLocalNodes ws (ps s)))"

definition own_nodes :: "published_service \<Rightarrow> WorkerNode list \<Rightarrow> IPNode list" where
  "own_nodes s ws = (if ps_Deleting s then [] else snd (getLocalNodes ws (ps s)))"

definition registered :: "registry \<Rightarrow> string set" where
  "registered r = (case getNodes r of Inl _ \<Rightarrow> {} | Inr ns \<Rightarrow> sliceToMap ns)"

lemma wanted_own: "sliceToMap (wanted_nodes s ws) \<subseteq> sliceToMap (own_nodes s ws)"
  by (auto simp: wanted_nodes_def own_nodes_def dest: local_nodes [OF surjective_pairing, THEN subsetD])

definition request_ok :: "published_service \<Rightarrow> registry \<Rightarrow> WorkerNode list \<Rightarrow> publish_request \<Rightarrow> bool" where
  "request_ok s r ws q =
     (case q of
        Add_nodes ns \<Rightarrow> \<not> sp_SoftDelete (ps s) \<and>
          list_all (\<lambda>n. node_IP n \<in> sliceToMap (wanted_nodes s ws) - registered r \<and> \<not> Lost n \<and> \<not> Failed_node n) ns
      | Update_nodes ns \<Rightarrow> list_all (\<lambda>n. node_IP n \<in> sliceToMap (wanted_nodes s ws) \<inter> registered r \<and> \<not> Lost n \<and> \<not> Failed_node n) ns
      | Del_nodes ns \<Rightarrow> list_all (\<lambda>n. node_IP n \<in> sliceToMap (getPublishedNodes s) \<inter> registered r - sliceToMap (wanted_nodes s ws)) ns
      | _ \<Rightarrow> True)"

lemma sync_requests_ok:
  "list_all (request_ok s r ws)
     (fst (publisher_sync r (getPublishedNodes s) (wanted_nodes s ws) (own_nodes s ws) (sp_SoftDelete (ps s))))"
  using wanted_own [of s ws]
  by (auto simp: publisher_sync_def diff_nodes_def Let_def add_step_def update_step_def delete_step_def request_ok_def list_all_iff
      setToSlice_def filterLostFaildNodes_def registered_def sliceToMap_def split: sum.split option.split)

text \<open>The other requests do not go to the registry.\<close>

definition to_registry :: "publish_request \<Rightarrow> bool" where
  "to_registry q = (case q of Add_nodes _ \<Rightarrow> True | Update_nodes _ \<Rightarrow> True | Del_nodes _ \<Rightarrow> True | _ \<Rightarrow> False)"

abbreviation elsewhere :: "publish_request list \<Rightarrow> bool" where
  "elsewhere qs \<equiv> list_all (\<lambda>q. \<not> to_registry q) qs"

lemma elsewhere_ok: "elsewhere qs \<Longrightarrow> list_all (request_ok s r ws) qs"
  by (auto simp: list_all_iff to_registry_def request_ok_def split: publish_request.splits)

lemma save_loop_elsewhere: "elsewhere (save_loop api ips k n)"
  by (induction api ips k n rule: save_loop.induct) (auto simp: to_registry_def split: write_answer.split)

lemma saveRemoteNodes_elsewhere: "elsewhere (saveRemoteNodes api s remotes)"
  by (simp add: saveRemoteNodes_def save_loop_elsewhere Let_def)

lemma updateWorkers_elsewhere: "elsewhere (fst (updateWorkers e api sp vs remotes rel soft err))"
  by (auto simp: updateWorkers_def updateWorker_def to_registry_def list_all_iff Let_def)

lemma finish_pass_elsewhere: "elsewhere (fst (finish_pass api s vs ns remotes))"
  by (simp add: finish_pass_def softDelete_service_def deleteService_def to_registry_def Let_def)

lemma initFinalizeService_elsewhere: "elsewhere (initFinalizeService s)"
  by (simp add: initFinalizeService_def to_registry_def)

text \<open>The parts of the log of a pass.\<close>

lemma publish_sync_log:
  obtains writes ending where
    "fst (publish_sync e api r s ws) =
       (if ps_Deleting s then [] else initFinalizeService s) @
       fst (registry_part api (getPublisher r s ws) s (getPublishedNodes s) (wanted_nodes s ws) (own_nodes s ws)) @ writes @ ending"
    "elsewhere (writes @ ending)"
proof -
  obtain log remotes err where p: "registry_part api (getPublisher r s ws) s (getPublishedNodes s) (wanted_nodes s ws) (own_nodes s ws) = (log, remotes, err)"
    by (cases "registry_part api (getPublisher r s ws) s (getPublishedNodes s) (wanted_nodes s ws) (own_nodes s ws)")
  define u where "u = updateWorkers e api (ps s) ws remotes (ps_Deleting s) (sp_SoftDelete (ps s)) (map_option error_text err)"
  define f where "f = finish_pass api s ws (getPublishedNodes s) remotes"
  have nodes: "(if ps_Deleting s then ([], []) else getLocalNodes ws (ps s)) = (wanted_nodes s ws, own_nodes s ws)"
    by (simp add: wanted_nodes_def own_nodes_def)
  have run: "publish_sync e api r s ws =
    (if (case err of None \<Rightarrow> False | Some x \<Rightarrow> isNameServerUnavailable x) then ((if ps_Deleting s then [] else initFinalizeService s) @ log, True)
     else if snd u then ((if ps_Deleting s then [] else initFinalizeService s) @ log @ fst u, True)
     else ((if ps_Deleting s then [] else initFinalizeService s) @ log @ fst u @ fst f, snd f))"
    unfolding publish_sync_def Let_def nodes split p u_def f_def by (simp add: split_beta)
  have ok: "elsewhere (fst u)" "elsewhere (fst f)"
    by (simp_all add: u_def f_def updateWorkers_elsewhere finish_pass_elsewhere)
  show ?thesis
  proof (rule that)
    show "fst (publish_sync e api r s ws) = (if ps_Deleting s then [] else initFinalizeService s) @
       fst (registry_part api (getPublisher r s ws) s (getPublishedNodes s) (wanted_nodes s ws) (own_nodes s ws)) @
       (if (case err of None \<Rightarrow> False | Some x \<Rightarrow> isNameServerUnavailable x) then [] else fst u) @
       (if (case err of None \<Rightarrow> False | Some x \<Rightarrow> isNameServerUnavailable x) \<or> snd u then [] else fst f)"
      by (auto simp: run p)
  qed (auto simp: ok)
qed

text \<open>
  C9. What a pass asks of the registry: it adds only nodes that are to serve, are not registered and are neither lost nor failed, and none when the service is withdrawn softly;
  it removes only nodes that it has on record as its own and that are not to serve. Nodes of others are never touched.
\<close>

theorem publish_sync_requests: "list_all (request_ok s r ws) (fst (publish_sync e api (Some r) s ws))"
proof -
  let ?part = "registry_part api (getPublisher (Some r) s ws) s (getPublishedNodes s) (wanted_nodes s ws) (own_nodes s ws)"
  obtain writes ending where log:
    "fst (publish_sync e api (Some r) s ws) = (if ps_Deleting s then [] else initFinalizeService s) @ fst ?part @ writes @ ending"
    "elsewhere (writes @ ending)"
    using publish_sync_log [of e api "Some r" s ws] by metis
  have "list_all (request_ok s r ws) (fst ?part)"
    using sync_requests_ok [of s r ws] elsewhere_ok [OF saveRemoteNodes_elsewhere, of s r ws]
    by (auto simp: registry_part_def getPublisher_def split: prod.split sum.split)
  then show ?thesis using elsewhere_ok [OF log(2)] elsewhere_ok [OF initFinalizeService_elsewhere, of s r ws s] by (simp add: log(1))
qed

subsection \<open>Samples\<close>

definition web_service :: published_service where
  "web_service = \<lparr>ps = \<lparr>sp_Name = ''p'', sp_Type = ServiceCM2, sp_ServiceName = ''web'', sp_SoftDelete = False\<rparr>, ps_Deleting = False,
     ps_Finalizers = Some [serviceFinalizer], ps_IPList = None, ps_IPs = [''2'']\<rparr>"

definition at_ip :: "string \<Rightarrow> IPNode" where
  "at_ip ip = zero_node\<lparr>node_IP := ip, Health := True\<rparr>"

definition holding :: "string list \<Rightarrow> registry" where
  "holding ips = \<lparr>getNodes = Inr (map at_ip ips), addNodes = (\<lambda>_. None), updateNodes = (\<lambda>_. None), delNodes = (\<lambda>_. None)\<rparr>"

definition willing :: service_api where
  "willing = \<lparr>save_answer = (\<lambda>_. Written), refetch = (\<lambda>_. True), worker_answer = (\<lambda>_. Written), finalize_answer = Written, delete_answer = Written,
     status_JSON = (\<lambda>s. if ServiceConditions s = [] then ''{}'' else ''conditions'')\<rparr>"

definition web_worker :: WorkerNode where
  "web_worker = healthy_worker\<lparr>Status := (Status healthy_worker)\<lparr>IP := ''1'', ServiceConditions := []\<rparr>\<rparr>"

lemmas web_samples = web_service_def at_ip_def holding_def willing_def web_worker_def healthy_worker_def empty_worker_def empty_status_def empty_plan_def zero_node_def

lemma web_nodes: "own_nodes web_service [web_worker] = [node_of web_worker]" "wanted_nodes web_service [web_worker] = [node_of web_worker]"
  "sliceToMap [node_of web_worker] = {''1''}" "sliceToMap (filterLostFaildNodes [node_of web_worker]) = {''1''}"
  "sliceToMap (getPublishedNodes web_service) = {''2''}" "registered (holding ips) = set ips"
  by (simp_all add: own_nodes_def wanted_nodes_def getLocalNodes_def is_local_def to_publish_def node_of_def sliceToMap_def filterLostFaildNodes_def
      getPublishedNodes_def registered_def web_samples worker_preds IsV3_def NeedUpdateGracefully_def image_image Let_def)

subsection \<open>What the registry has after a pass\<close>

text \<open>A request that the registry refuses changes nothing.\<close>

definition take_request :: "registry \<Rightarrow> publish_request \<Rightarrow> string set \<Rightarrow> string set" where
  "take_request r q there =
     (case q of
        Add_nodes ns \<Rightarrow> if addNodes r ns = None then there \<union> sliceToMap ns else there
      | Del_nodes ns \<Rightarrow> if delNodes r ns = None then there - sliceToMap ns else there
      | _ \<Rightarrow> there)"

definition registered_after :: "registry \<Rightarrow> publish_request list \<Rightarrow> string set" where
  "registered_after r qs = fold (take_request r) qs (registered r)"

lemma take_elsewhere: "elsewhere qs \<Longrightarrow> fold (take_request r) qs there = there"
  by (induction qs arbitrary: there) (auto simp: take_request_def to_registry_def split: publish_request.splits)

lemma registered_after_pass:
  "registered_after r (fst (publish_sync e api (Some r) s ws)) =
   registered_after r (case getPublisher (Some r) s ws of None \<Rightarrow> []
     | Some r \<Rightarrow> fst (publisher_sync r (getPublishedNodes s) (wanted_nodes s ws) (own_nodes s ws) (sp_SoftDelete (ps s))))"
proof -
  let ?part = "registry_part api (getPublisher (Some r) s ws) s (getPublishedNodes s) (wanted_nodes s ws) (own_nodes s ws)"
  obtain writes ending where log:
    "fst (publish_sync e api (Some r) s ws) = (if ps_Deleting s then [] else initFinalizeService s) @ fst ?part @ writes @ ending"
    "elsewhere (writes @ ending)"
    using publish_sync_log [of e api "Some r" s ws] by metis
  have "elsewhere writes" "elsewhere ending" using log(2) by simp_all
  then show ?thesis
    unfolding registered_after_def log(1)
    using take_elsewhere [OF initFinalizeService_elsewhere] take_elsewhere [OF saveRemoteNodes_elsewhere] take_elsewhere
    by (auto simp: registry_part_def split: option.split prod.split sum.split)
qed

text \<open>The effect of a pass at the registry whose operations succeed.\<close>

definition adds_of :: "IPNode list \<Rightarrow> IPNode list \<Rightarrow> string set \<Rightarrow> string set" where
  "adds_of toPublish here there =
     sliceToMap (filterLostFaildNodes (setToSlice (sliceToMap toPublish - sliceToMap here \<inter> there) here))"

definition deletes_of :: "IPNode list \<Rightarrow> IPNode list \<Rightarrow> IPNode list \<Rightarrow> string set \<Rightarrow> string set" where
  "deletes_of published toPublish here there =
     ((sliceToMap here \<inter> there - sliceToMap toPublish) \<inter> sliceToMap published \<union> (sliceToMap published - sliceToMap here)) \<inter> there"

lemma sync_effect:
  assumes "getNodes r = Inr remotes" "\<And>ns. addNodes r ns = None" "\<And>ns. updateNodes r ns = None" "\<And>ns. delNodes r ns = None"
  shows "registered_after r (fst (publisher_sync r published toPublish here False)) =
    registered r \<union> adds_of toPublish here (registered r) - deletes_of published toPublish here (registered r)"
proof -
  define adds deletes updates where
    "adds = fst (diff_nodes published toPublish here remotes)" and "deletes = fst (snd (diff_nodes published toPublish here remotes))" and
    "updates = snd (snd (diff_nodes published toPublish here remotes))"
  have d: "diff_nodes published toPublish here remotes = (adds, deletes, updates)" by (simp add: adds_def deletes_def updates_def)
  have reg: "registered r = sliceToMap remotes" by (simp add: registered_def assms(1))
  have sets: "sliceToMap (filterLostFaildNodes adds) = adds_of toPublish here (registered r)"
    "sliceToMap deletes = deletes_of published toPublish here (registered r)"
    by (simp_all add: adds_def deletes_def diff_nodes_def Let_def adds_of_def deletes_of_def reg)
  have "registered_after r (fst (publisher_sync r published toPublish here False)) =
    sliceToMap remotes \<union> sliceToMap (filterLostFaildNodes adds) - sliceToMap deletes"
  proof (cases "adds = [] \<and> deletes = [] \<and> updates = []")
    case True
    then show ?thesis using assms(1) d by (simp add: publisher_sync_def registered_after_def reg filterLostFaildNodes_def)
  next
    case False
    then have "fst (publisher_sync r published toPublish here False) =
      (if filterLostFaildNodes adds \<noteq> [] then [Add_nodes (filterLostFaildNodes adds)] else []) @
      fst (update_step r (filterLostFaildNodes updates)) @ delete_step r deletes"
      using assms d by (auto simp: publisher_sync_def add_step_def update_step_def split_beta)
    then show ?thesis using assms(2,4) by (simp add: registered_after_def take_request_def update_step_def delete_step_def reg)
  qed
  then show ?thesis by (simp add: sets reg)
qed

text \<open>
  C10. A pass brings the registry to what it should be. For a service that is neither being deleted nor withdrawn softly and not of the kind Skyline, with a registry whose operations all
  succeed, and if the registered nodes of the service's workers are on record: afterwards, of the nodes of the service's workers exactly those are registered that are to serve and that
  were registered before or are neither lost nor failed; of all other nodes exactly those that were registered and are not on record.
\<close>

theorem publish_sync_converges:
  assumes "getNodes r = Inr remotes" "addNodes r = (\<lambda>_. None)" "updateNodes r = (\<lambda>_. None)" "delNodes r = (\<lambda>_. None)"
    and "\<not> ps_Deleting s" "\<not> sp_SoftDelete (ps s)" "sp_Type (ps s) \<noteq> ServiceSkyline"
    and "registered r \<inter> sliceToMap (own_nodes s ws) \<subseteq> sliceToMap (getPublishedNodes s)"
    and "there = registered_after r (fst (publish_sync e api (Some r) s ws))"
  shows "there \<inter> sliceToMap (own_nodes s ws) =
      sliceToMap (wanted_nodes s ws) \<inter> (registered r \<union> sliceToMap (filterLostFaildNodes (own_nodes s ws))) \<and>
    there - sliceToMap (own_nodes s ws) = registered r - sliceToMap (own_nodes s ws) - sliceToMap (getPublishedNodes s)"
proof -
  define own where "own = own_nodes s ws"
  define wanted where "wanted = wanted_nodes s ws"
  have there: "there = registered r \<union> adds_of wanted own (registered r) - deletes_of (getPublishedNodes s) wanted own (registered r)"
    using sync_effect [OF assms(1)] assms(2-7) by (simp add: assms(9) registered_after_pass getPublisher_def own_def wanted_def)
  have sub: "sliceToMap wanted \<subseteq> sliceToMap own" unfolding wanted_def own_def by (rule wanted_own)
  have adds: "adds_of wanted own (registered r) = (sliceToMap wanted - registered r) \<inter> sliceToMap (filterLostFaildNodes own)"
    using sub by (auto simp: adds_of_def filterLostFaildNodes_def setToSlice_def sliceToMap_def)
  have "there \<inter> sliceToMap own = sliceToMap wanted \<inter> (registered r \<union> sliceToMap (filterLostFaildNodes own))"
    using assms(8) sub filterLost_sub [of own] unfolding there adds deletes_of_def own_def [symmetric] by auto
  moreover have "there - sliceToMap own = registered r - sliceToMap own - sliceToMap (getPublishedNodes s)"
    using sub filterLost_sub [of own] unfolding there adds deletes_of_def by auto
  ultimately show ?thesis by (simp add: own_def wanted_def)
qed

text \<open>The worker is added, the recorded node that is gone is removed, the foreign one stays.\<close>

theorem publish_sync_converges_witness:
  "\<forall>e. registered_after (holding [''2'', ''3'']) (fst (publish_sync e willing (Some (holding [''2'', ''3''])) web_service [web_worker])) = {''1'', ''3''}"
proof
  fix e
  let ?r = "holding [''2'', ''3'']"
  define there where "there = registered_after ?r (fst (publish_sync e willing (Some ?r) web_service [web_worker]))"
  have "there \<inter> {''1''} = {''1''} \<inter> (set [''2'', ''3''] \<union> {''1''}) \<and> there - {''1''} = set [''2'', ''3''] - {''1''} - {''2''}"
    unfolding web_nodes(5) [symmetric] web_nodes(6) [symmetric]
    using publish_sync_converges [OF _ _ _ _ _ _ _ _ there_def] unfolding web_nodes
    by (simp add: holding_def web_service_def)
  then show "there = {''1'', ''3''}" by auto
qed

subsection \<open>What a pass knows of the registry\<close>

text \<open>The nodes a pass returns contain all of its own that are registered, whatever the registry answered.\<close>

lemma sync_knows:
  assumes "publisher_sync r published toPublish here soft = (log, Inr ns)"
  shows "(registered r \<union> registered_after r log) \<inter> (sliceToMap here \<union> sliceToMap published) \<subseteq> sliceToMap ns"
proof -
  obtain remotes where g: "getNodes r = Inr remotes" using assms by (cases "getNodes r") (auto simp: publisher_sync_def)
  obtain adds deletes updates where d: "diff_nodes published toPublish here remotes = (adds, deletes, updates)"
    by (cases "diff_nodes published toPublish here remotes")
  have reg: "registered r = sliceToMap remotes" by (simp add: registered_def g)
  show ?thesis
  proof (cases "adds = [] \<and> deletes = [] \<and> updates = []")
    case True
    then have "log = []" "ns = intersect_nodes remotes here" using assms g d by (auto simp: publisher_sync_def)
    moreover have "sliceToMap deletes = {}" using True by simp
    then have "(sliceToMap published - sliceToMap here) \<inter> sliceToMap remotes = {}" using d by (auto simp: diff_nodes_def Let_def)
    ultimately show ?thesis by (auto simp: registered_after_def reg)
  next
    case False
    then obtain added new go_on where a: "add_step r soft (filterLostFaildNodes adds) remotes = (added, new, go_on)"
      and ns: "ns = union_nodes (intersect_nodes new here) (intersect_nodes new published)"
      and log: "log = added @ (if go_on then fst (update_step r (filterLostFaildNodes updates)) @
        (if snd (update_step r (filterLostFaildNodes updates)) then delete_step r deletes else []) else [])"
      using assms g d by (cases "add_step r soft (filterLostFaildNodes adds) remotes") (auto simp: publisher_sync_def split_beta)
    have "fold (take_request r) added (sliceToMap remotes) = sliceToMap new \<and> sliceToMap remotes \<subseteq> sliceToMap new"
      using a by (auto simp: add_step_def take_request_def split: if_splits option.splits)
    then have "registered_after r log \<subseteq> sliceToMap new" "registered r \<subseteq> sliceToMap new"
      by (auto simp: registered_after_def log reg update_step_def delete_step_def take_request_def split: if_splits)
    then show ?thesis by (auto simp: ns)
  qed
qed

lemma sync_returns: "getNodes r = Inr remotes \<Longrightarrow> \<exists>log ns. publisher_sync r published toPublish here soft = (log, Inr ns)"
  by (simp add: publisher_sync_def split: prod.split)

text \<open>The nodes with which a pass updates the workers and ends.\<close>

lemma publish_sync_run:
  assumes "getPublisher (Some r) s ws = Some r" "getNodes r = Inr remotes"
  obtains log ns where "publisher_sync r (getPublishedNodes s) (wanted_nodes s ws) (own_nodes s ws) (sp_SoftDelete (ps s)) = (log, Inr ns)"
    and "\<And>q. q \<in> set (fst (publish_sync e api (Some r) s ws)) \<Longrightarrow>
      q \<in> set (initFinalizeService s) \<or> q \<in> set log \<or> q \<in> set (saveRemoteNodes api s ns) \<or>
      q \<in> set (fst (updateWorkers e api (ps s) ws ns (ps_Deleting s) (sp_SoftDelete (ps s)) None)) \<or>
      q \<in> set (fst (finish_pass api s ws (getPublishedNodes s) ns))"
proof -
  obtain log ns where p: "publisher_sync r (getPublishedNodes s) (wanted_nodes s ws) (own_nodes s ws) (sp_SoftDelete (ps s)) = (log, Inr ns)"
    using sync_returns [OF assms(2)] by blast
  have nodes: "(if ps_Deleting s then ([], []) else getLocalNodes ws (ps s)) = (wanted_nodes s ws, own_nodes s ws)"
    by (simp add: wanted_nodes_def own_nodes_def)
  have part: "registry_part api (Some r) s (getPublishedNodes s) (wanted_nodes s ws) (own_nodes s ws) = (log @ saveRemoteNodes api s ns, ns, None)"
    by (simp add: registry_part_def p)
  show ?thesis
  proof (rule that [OF p])
    fix q
    assume "q \<in> set (fst (publish_sync e api (Some r) s ws))"
    then show "q \<in> set (initFinalizeService s) \<or> q \<in> set log \<or> q \<in> set (saveRemoteNodes api s ns) \<or>
      q \<in> set (fst (updateWorkers e api (ps s) ws ns (ps_Deleting s) (sp_SoftDelete (ps s)) None)) \<or>
      q \<in> set (fst (finish_pass api s ws (getPublishedNodes s) ns))"
      unfolding publish_sync_def Let_def nodes split assms(1) part by (auto simp: split_beta split: if_splits)
  qed
qed

text \<open>When a pass asks for the deletion of the service, it knows of no node in the registry.\<close>

lemma deleted_knows_nothing:
  assumes "getNodes r = Inr remotes" "sp_Type (ps s) \<noteq> ServiceSkyline" "Delete_service \<in> set (fst (publish_sync e api (Some r) s ws))"
  shows "(registered r \<union> registered_after r (fst (publish_sync e api (Some r) s ws))) \<inter>
    (sliceToMap (own_nodes s ws) \<union> sliceToMap (getPublishedNodes s)) = {}"
proof -
  have pub: "getPublisher (Some r) s ws = Some r" using assms(2) by (simp add: getPublisher_def)
  obtain log ns where p: "publisher_sync r (getPublishedNodes s) (wanted_nodes s ws) (own_nodes s ws) (sp_SoftDelete (ps s)) = (log, Inr ns)"
    and mem: "Delete_service \<in> set (initFinalizeService s) \<or> Delete_service \<in> set log \<or> Delete_service \<in> set (saveRemoteNodes api s ns) \<or>
      Delete_service \<in> set (fst (updateWorkers e api (ps s) ws ns (ps_Deleting s) (sp_SoftDelete (ps s)) None)) \<or>
      Delete_service \<in> set (fst (finish_pass api s ws (getPublishedNodes s) ns))"
    using publish_sync_run [OF pub assms(1)] assms(3) by metis
  have "Delete_service \<notin> set log"
    using p by (auto simp: publisher_sync_def add_step_def update_step_def delete_step_def split: sum.splits prod.splits if_splits option.splits)
  moreover have "Delete_service \<notin> set (save_loop api ips k n)" for ips k n
    by (induction api ips k n rule: save_loop.induct) (auto split: write_answer.split)
  ultimately have "Delete_service \<in> set (fst (finish_pass api s ws (getPublishedNodes s) ns))"
    using mem by (auto simp: initFinalizeService_def saveRemoteNodes_def updateWorkers_def updateWorker_def Let_def split: if_splits)
  then have "ns = []" by (auto simp: finish_pass_def softDelete_service_def Let_def split: if_splits)
  moreover have "registered_after r (fst (publish_sync e api (Some r) s ws)) = registered_after r log"
    by (simp add: registered_after_pass pub p)
  ultimately show ?thesis using sync_knows [OF p] by auto
qed

subsection \<open>The life of a service\<close>

text \<open>What of the service is left after a pass: the record, if one of the writes of \<^verbatim>\<open>saveRemoteNodes\<close> succeeds, holds the addresses of the nodes the pass returned.\<close>

fun save_written :: "service_api \<Rightarrow> nat \<Rightarrow> nat \<Rightarrow> bool" where
  "save_written api k 0 = False"
| "save_written api k (Suc n) =
     (case save_answer api k of
        Written \<Rightarrow> True
      | NotFound \<Rightarrow> False
      | Conflict \<Rightarrow> refetch api k \<and> save_written api (Suc k) n
      | Refused \<Rightarrow> save_written api (Suc k) n)"

definition nodes_returned :: "registry \<Rightarrow> published_service \<Rightarrow> WorkerNode list \<Rightarrow> IPNode list option" where
  "nodes_returned r s ws =
     (case snd (publisher_sync r (getPublishedNodes s) (wanted_nodes s ws) (own_nodes s ws) (sp_SoftDelete (ps s))) of Inl _ \<Rightarrow> None | Inr ns \<Rightarrow> Some ns)"

definition service_after :: "service_api \<Rightarrow> registry \<Rightarrow> published_service \<Rightarrow> WorkerNode list \<Rightarrow> published_service" where
  "service_after api r s ws =
     (case nodes_returned r s ws of
        None \<Rightarrow> s
      | Some ns \<Rightarrow> if map node_IP ns \<noteq> ps_IPs s \<and> save_written api 0 10 then s\<lparr>ps_IPs := map node_IP ns, ps_IPList := None\<rparr> else s)"

definition record_current :: "service_api \<Rightarrow> registry \<Rightarrow> published_service \<Rightarrow> WorkerNode list \<Rightarrow> bool" where
  "record_current api r s ws \<longleftrightarrow> ps_Deleting s \<or> save_written api 0 10 \<or> map_option (map node_IP) (nodes_returned r s ws) = Some (ps_IPs s)"

text \<open>
  The runs of a service that is not of the kind Skyline: the addresses that were its own in some pass, the service, and what the registry has. A pass in which the registry answers
  must get its record written, unless the service is being deleted; a pass in which it fails may do anything. Between the passes the service may be edited, in particular be marked for
  deletion, but for its kind and its record, and others may remove nodes or add nodes that were never the service's own.
\<close>

inductive service_run :: "string set \<Rightarrow> published_service \<Rightarrow> string set \<Rightarrow> bool" where
  start: "sp_Type (ps s) \<noteq> ServiceSkyline \<Longrightarrow> service_run {} s there"
| pass: "service_run ours s (registered r) \<Longrightarrow> getNodes r = Inr remotes \<Longrightarrow> record_current api r s ws \<Longrightarrow>
    service_run (ours \<union> sliceToMap (own_nodes s ws)) (service_after api r s ws) (registered_after r (fst (publish_sync e api (Some r) s ws)))"
| broken_pass: "service_run ours s there \<Longrightarrow> getNodes r = Inl err \<Longrightarrow>
    service_run ours (service_after api r s ws) (fold (take_request r) (fst (publish_sync e api (Some r) s ws)) there)"
| edit: "service_run ours s there \<Longrightarrow> sp_Type (ps s') = sp_Type (ps s) \<Longrightarrow> ps_IPList s' = ps_IPList s \<Longrightarrow> ps_IPs s' = ps_IPs s \<Longrightarrow> service_run ours s' there"
| others: "service_run ours s there \<Longrightarrow> there' \<inter> ours \<subseteq> there \<Longrightarrow> service_run ours s there'"

lemma sync_after_sub:
  assumes "publisher_sync r published toPublish here soft = (log, res)"
  shows "registered_after r log \<subseteq> registered r \<union> sliceToMap here"
proof -
  have add: "sliceToMap (filterLostFaildNodes (setToSlice x here)) \<subseteq> sliceToMap here" for x
    using filterLost_sub [of "setToSlice x here"] by auto
  show ?thesis
    using assms add unfolding registered_after_def
    by (fastforce simp: publisher_sync_def diff_nodes_def add_step_def update_step_def delete_step_def take_request_def Let_def
        split: sum.splits prod.splits if_splits option.splits)
qed

lemma recorded_ips: "sliceToMap (getPublishedNodes s) = (case ps_IPList s of None \<Rightarrow> {} | Some ns \<Rightarrow> sliceToMap ns) \<union> set (ps_IPs s)"
  by (auto simp: getPublishedNodes_def sliceToMap_def image_image split: option.split)

lemma returned_recorded:
  assumes "nodes_returned r s ws = Some ns" "record_current api r s ws" "\<not> ps_Deleting s"
  shows "sliceToMap ns \<subseteq> sliceToMap (getPublishedNodes (service_after api r s ws))"
proof (cases "map node_IP ns = ps_IPs s")
  case True
  then have "sliceToMap ns = set (ps_IPs s)" by (metis sliceToMap_def)
  then show ?thesis using True assms(1) by (simp add: service_after_def recorded_ips)
next
  case False
  then show ?thesis using assms by (auto simp: record_current_def service_after_def recorded_ips) (simp add: sliceToMap_def)
qed

lemma deleting_recorded:
  assumes "nodes_returned r s ws = Some ns"
  shows "sliceToMap ns \<inter> sliceToMap (getPublishedNodes s) \<subseteq> sliceToMap (getPublishedNodes (service_after api r s ws))"
  using assms by (auto simp: service_after_def getPublishedNodes_def sliceToMap_def)

text \<open>Whatever was the service's own and is registered is on record.\<close>

lemma service_run_recorded:
  "service_run ours s there \<Longrightarrow> sp_Type (ps s) \<noteq> ServiceSkyline \<and> there \<inter> ours \<subseteq> sliceToMap (getPublishedNodes s)"
proof (induction rule: service_run.induct)
  case (pass ours s r remotes api ws e)
  have pub: "getPublisher (Some r) s ws = Some r" using pass.IH by (simp add: getPublisher_def)
  obtain log ns where p: "publisher_sync r (getPublishedNodes s) (wanted_nodes s ws) (own_nodes s ws) (sp_SoftDelete (ps s)) = (log, Inr ns)"
    using sync_returns [OF pass.hyps(2)] by blast
  have after: "registered_after r (fst (publish_sync e api (Some r) s ws)) = registered_after r log"
    by (simp add: registered_after_pass pub p)
  have ret: "nodes_returned r s ws = Some ns" by (simp add: nodes_returned_def p)
  have "registered_after r log \<inter> (ours \<union> sliceToMap (own_nodes s ws)) \<subseteq> sliceToMap ns \<inter> (sliceToMap (own_nodes s ws) \<union> sliceToMap (getPublishedNodes s))"
    using sync_knows [OF p] sync_after_sub [OF p] pass.IH by blast
  moreover have "sliceToMap ns \<inter> (sliceToMap (own_nodes s ws) \<union> sliceToMap (getPublishedNodes s)) \<subseteq> sliceToMap (getPublishedNodes (service_after api r s ws))"
  proof (cases "ps_Deleting s")
    case True
    then show ?thesis using deleting_recorded [OF ret, of api] by (auto simp: own_nodes_def)
  next
    case False
    then show ?thesis using returned_recorded [OF ret pass.hyps(3)] by blast
  qed
  moreover have "ps (service_after api r s ws) = ps s" by (simp add: service_after_def split: option.split)
  ultimately show ?case using pass.IH unfolding after by auto
next
  case (broken_pass ours s there r err api ws e)
  have pub: "getPublisher (Some r) s ws = Some r" using broken_pass.IH by (simp add: getPublisher_def)
  have "service_after api r s ws = s" using broken_pass.hyps(2) by (simp add: service_after_def nodes_returned_def publisher_sync_def)
  moreover have "elsewhere (fst (publish_sync e api (Some r) s ws))"
  proof (rule publish_sync_log [of e api "Some r" s ws])
    fix writes ending
    assume log: "fst (publish_sync e api (Some r) s ws) = (if ps_Deleting s then [] else initFinalizeService s) @
       fst (registry_part api (getPublisher (Some r) s ws) s (getPublishedNodes s) (wanted_nodes s ws) (own_nodes s ws)) @ writes @ ending"
      and "elsewhere (writes @ ending)"
    then show ?thesis unfolding log pub using initFinalizeService_elsewhere [of s] broken_pass.hyps(2)
      by (simp add: registry_part_def publisher_sync_def)
  qed
  ultimately show ?case using broken_pass.IH take_elsewhere by auto
next
  case (edit ours s there s')
  then show ?case by (simp add: getPublishedNodes_def)
qed (auto)

text \<open>
  C30. A service object goes only after its nodes. In every run of a service that is not of the kind Skyline, in which the passes with an answering registry got their records written while the
  service was not being deleted, and nobody else registered addresses of its own or edited its kind or record: a pass with an answering registry asks for the deletion of the service only if nothing that was ever its own, in this pass or an earlier one whose
  registry answered, is in the registry, before the pass or after it.
\<close>

theorem service_deleted_withdrawn:
  assumes "service_run ours s (registered r)" "getNodes r = Inr remotes" "Delete_service \<in> set (fst (publish_sync e api (Some r) s ws))"
  shows "(registered r \<union> registered_after r (fst (publish_sync e api (Some r) s ws))) \<inter> (ours \<union> sliceToMap (own_nodes s ws)) = {}"
proof -
  note inv = service_run_recorded [OF assms(1)]
  obtain log ns where p: "publisher_sync r (getPublishedNodes s) (wanted_nodes s ws) (own_nodes s ws) (sp_SoftDelete (ps s)) = (log, Inr ns)"
    using sync_returns [OF assms(2)] by blast
  have "registered_after r (fst (publish_sync e api (Some r) s ws)) \<subseteq> registered r \<union> sliceToMap (own_nodes s ws)"
    using sync_after_sub [OF p] inv by (simp add: registered_after_pass getPublisher_def p)
  then show ?thesis using deleted_knows_nothing [OF assms(2) _ assms(3)] inv by blast
qed

text \<open>
  The example: the worker at address 1 is registered beside a foreign node 3, and a pass records it; the service is then deleted, which takes one pass to remove the node, one to clear the record, and a last one
  that asks for the deletion.
\<close>

definition leaving_service :: "string list \<Rightarrow> published_service" where
  "leaving_service ips = web_service\<lparr>ps_Deleting := True, ps_IPList := None, ps_IPs := ips\<rparr>"

lemma at_ip_IP [simp]: "node_IP (at_ip ip) = ip"
  by (simp add: at_ip_def)

lemma leaving_nodes: "own_nodes (leaving_service ips) ws = []" "wanted_nodes (leaving_service ips) ws = []"
  "getPublishedNodes (leaving_service ips) = map (\<lambda>ip. zero_node\<lparr>node_IP := ip\<rparr>) ips"
  "getPublisher r (leaving_service ips) ws = r"
  by (simp_all add: own_nodes_def wanted_nodes_def leaving_service_def getPublishedNodes_def getPublisher_def web_service_def)

lemma leaving_remove: "publisher_sync (holding [''1'', ''3'']) (getPublishedNodes (leaving_service [''1''])) [] [] soft = ([Del_nodes [at_ip ''1'']], Inr [at_ip ''1''])"
proof -
  have sets: "sliceToMap [at_ip ''1'', at_ip ''3''] = {''1'', ''3''}" "sliceToMap [zero_node\<lparr>node_IP := ''1''\<rparr>] = {''1''}" "sliceToMap [at_ip ''1''] = {''1''}" by (simp_all add: sliceToMap_def)
  show ?thesis
    by (simp add: leaving_nodes publisher_sync_def holding_def diff_nodes_def sets setToSlice_def filterLostFaildNodes_def add_step_def update_step_def
        delete_step_def intersect_nodes_def union_nodes_def setToSliceBoth_def Let_def)
qed

lemma leaving_clear: "publisher_sync (holding [''3'']) (getPublishedNodes (leaving_service ips)) [] [] soft = ([], Inr [])" if "ips = [''1''] \<or> ips = []"
  using that by (auto simp: leaving_nodes publisher_sync_def holding_def diff_nodes_def sliceToMap_def setToSlice_def intersect_nodes_def Let_def)

lemma leaving_soft: "sp_SoftDelete (ps (leaving_service ips)) = False"
  by (simp add: leaving_service_def web_service_def)

lemma leaving_registry:
  "registered_after (holding [''1'', ''3'']) (fst (publish_sync e willing (Some (holding [''1'', ''3''])) (leaving_service [''1'']) [])) = {''3''}"
  "registered_after (holding [''3'']) (fst (publish_sync e willing (Some (holding [''3''])) (leaving_service [''1'']) [])) = {''3''}"
  unfolding registered_after_pass leaving_nodes(1,2,4)
  by (auto simp: leaving_remove leaving_clear registered_after_def take_request_def registered_def sliceToMap_def holding_def [THEN arg_cong, of getNodes]
      holding_def [THEN arg_cong, of delNodes])

lemma leaving_record:
  "service_after willing (holding [''1'', ''3'']) (leaving_service [''1'']) [] = leaving_service [''1'']"
  "service_after willing (holding [''3'']) (leaving_service [''1'']) [] = leaving_service []"
  by (simp_all add: service_after_def nodes_returned_def leaving_nodes(1,2) leaving_remove leaving_clear)
    (simp_all add: leaving_service_def willing_def numeral_eq_Suc)

lemma published_worker: "publisher_sync (holding [''1'', ''3'']) (getPublishedNodes web_service) [node_of web_worker] [node_of web_worker] False =
    ([Update_nodes [node_of web_worker]], Inr [at_ip ''1''])"
proof -
  have node: "node_IP (node_of web_worker) = ''1''" "\<not> Lost (node_of web_worker)" "\<not> Failed_node (node_of web_worker)"
    by (simp_all add: node_of_def web_samples worker_preds)
  have sets: "sliceToMap (map at_ip [''1'', ''3'']) = {''1'', ''3''}" "sliceToMap [at_ip ''1''] = {''1''}" by (simp_all add: sliceToMap_def)
  show ?thesis
    using web_nodes(3,5) sets
    by (simp add: publisher_sync_def holding_def diff_nodes_def setToSlice_def node filterLostFaildNodes_def add_step_def update_step_def
        delete_step_def intersect_nodes_def union_nodes_def setToSliceBoth_def Let_def)
qed

lemma leaving_run: "service_run {''1''} (leaving_service []) {''3''}"
proof -
  let ?r = "holding [''1'', ''3'']" and ?r' = "holding [''3'']"
  have g: "getNodes (holding ips) = Inr (map at_ip ips)" for ips by (simp add: holding_def)
  have reg: "registered ?r = {''1'', ''3''}" "registered ?r' = {''3''}" by (simp_all add: web_nodes(6))
  have cur: "record_current willing r s ws" for r s ws by (simp add: record_current_def willing_def numeral_eq_Suc)
  have "service_run {} web_service (registered ?r)" by (rule service_run.start) (simp add: web_service_def)
  note p = service_run.pass [OF this g cur, of "[web_worker]" undefined]
  have sv: "getPublisher (Some ?r) web_service [web_worker] = Some ?r" "\<not> sp_SoftDelete (ps web_service)" "ps_IPs web_service = [''2'']"
    by (simp_all add: getPublisher_def web_service_def)
  have "service_after willing ?r web_service [web_worker] = web_service\<lparr>ps_IPs := [''1''], ps_IPList := None\<rparr>"
    using published_worker sv by (simp add: service_after_def nodes_returned_def web_nodes(1,2)) (simp add: willing_def numeral_eq_Suc)
  moreover have "registered_after ?r (fst (publish_sync undefined willing (Some ?r) web_service [web_worker])) = {''1'', ''3''}"
    unfolding registered_after_pass web_nodes(1,2) sv(1) using published_worker sv(2) reg by (simp add: registered_after_def take_request_def)
  ultimately have "service_run {''1''} (web_service\<lparr>ps_IPs := [''1''], ps_IPList := None\<rparr>) (registered ?r)"
    using p reg by (simp add: web_nodes(1,3))
  then have "service_run {''1''} (leaving_service [''1'']) (registered ?r)"
    by (rule service_run.edit) (simp_all add: leaving_service_def)
  from service_run.pass [OF this g cur, of "[]" undefined] have "service_run {''1''} (leaving_service [''1'']) (registered ?r')"
    unfolding leaving_record leaving_registry leaving_nodes reg by simp
  from service_run.pass [OF this g cur, of "[]" undefined] show ?thesis
    unfolding leaving_record leaving_registry leaving_nodes by simp
qed

theorem service_deleted_withdrawn_witness:
  "\<forall>e. let s = leaving_service []; r = holding [''3'']; log = fst (publish_sync e willing (Some r) s [])
    in Delete_service \<in> set log \<and> (registered r \<union> registered_after r log) \<inter> {''1''} = {}"
proof (intro allI)
  fix e
  define s where "s = leaving_service []"
  have run: "service_run {''1''} s (registered (holding [''3'']))" using leaving_run by (simp add: s_def web_nodes(6))
  have part: "registry_part willing (Some (holding [''3''])) s (getPublishedNodes s) [] [] = ([], [], None)"
    using leaving_clear by (simp add: registry_part_def s_def saveRemoteNodes_def) (simp add: leaving_service_def)
  have d: "ps_Deleting s" "getPublishedNodes s = []" "getPublisher (Some (holding [''3''])) s [] = Some (holding [''3''])"
    by (simp_all add: s_def leaving_nodes) (simp add: leaving_service_def)
  have "Delete_service \<in> set (fst (publish_sync e willing (Some (holding [''3''])) s []))"
    using part d by (simp add: publish_sync_def updateWorkers_def finish_pass_def conditionRemoved_def deleteService_def willing_def Let_def)
  then show "let s = leaving_service []; r = holding [''3'']; log = fst (publish_sync e willing (Some r) s [])
    in Delete_service \<in> set log \<and> (registered r \<union> registered_after r log) \<inter> {''1''} = {}"
    using service_deleted_withdrawn [OF run, of "map at_ip [''3'']" e willing "[]"]
    unfolding Let_def s_def [symmetric] by (auto simp: holding_def)
qed

lemma after_report [simp]:
  "ServiceConditions (Status (start_warmup e w)) = ServiceConditions (Status w)"
  "ServiceConditions (Status (set_metas sp n err w)) = ServiceConditions (Status w)"
  by (simp_all add: start_warmup_def set_metas_def)

lemmas pass_evaluation = publish_sync_def registry_part_def getPublisher_def publisher_sync_def diff_nodes_def add_step_def update_step_def delete_step_def
  intersect_nodes_def union_nodes_def setToSliceBoth_def setToSlice_def sliceToMap_def filterLostFaildNodes_def getLocalNodes_def getPublishedNodes_def
  is_local_def to_publish_def node_of_def saveRemoteNodes_def updateWorkers_def updateWorker_def finish_pass_def softDelete_service_def deleteService_def
  NeedUpdateGracefully_def isGracefullyServiceType_def IsV3_def isWorkersHostIP_def IsHealthCheckDone_def

subsection \<open>What a pass tells the workers\<close>

lemma remote_of_registered: "ip \<in> sliceToMap ns \<Longrightarrow> \<exists>n. remote_of ns ip = Some n"
  by (cases "remote_of ns ip") (auto simp: remote_of_def find_None_iff sliceToMap_def)

lemma unpublished_after_report: "IsWorkerUnpublished (start_warmup e w) = IsWorkerUnpublished w" "IsWorkerUnpublished (set_metas sp n err w) = IsWorkerUnpublished w"
  by (simp_all add: IsWorkerUnpublished_def)

lemma report_IP:
  "IP (Status (start_warmup e w)) = IP (Status w)" "IP (Status (set_metas sp n err w)) = IP (Status w)"
  "IP (Status (DeleteWorkerServiceHealthCondition name b w)) = IP (Status w)"
  by (simp_all add: start_warmup_def set_metas_def DeleteWorkerServiceHealthCondition_def SyncWorkerServiceHealthStatus_def)

lemma set_condition_IP: "IP (Status (SetWorkerServiceHealthCondition e sp d status score reason message iw sw w)) = IP (Status w)"
  unfolding SetWorkerServiceHealthCondition_def SyncWorkerServiceHealthStatus_def Let_def
  by (simp split: option.split del: One_nat_def)

lemma report_keeps_IP: "IP (Status (syncWorkerServiceStatus e sp ns rel soft err w)) = IP (Status w)"
  unfolding syncWorkerServiceStatus_def Let_def by (simp add: report_IP set_condition_IP)

text \<open>A report of a registered node never says that it is not published.\<close>

lemma report_published:
  assumes "remote_of ns (IP (Status w)) = Some n" "sp_Type sp \<noteq> ServiceSkyline"
    and "\<forall>c \<in> set (ServiceConditions (Status w)). sc_Type c \<noteq> ServiceSkyline"
  shows "\<not> IsWorkerUnpublished (syncWorkerServiceStatus e sp ns rel False None w)"
proof -
  define status where "status = report_status rel (Health n)"
  define reason where "reason = report_reason (Some n) None"
  define v where "v = SetWorkerServiceHealthCondition e sp (ServiceDetail n) status (node_Score n) reason '''' (node_InWarmup n) (StartWarmup n) w"
  have v: "IsWorkerUnpublished (syncWorkerServiceStatus e sp ns rel False None w) = IsWorkerUnpublished v"
    using assms(1) by (simp add: syncWorkerServiceStatus_def v_def status_def reason_def unpublished_after_report)
  have reasons: "reason \<noteq> ReasonNotExist" "reason \<noteq> InitServiceFalseState" by (simp_all add: reason_def report_reason_def)
  obtain c where c: "WorkerStatusSafety.condition_of (sp_Name sp) v = Some c" "sc_Reason c = reason" "0 \<le> sc_DeleteCount c" "sc_Type c \<noteq> ServiceSkyline"
    "sc_Message c = '''' \<or> Contains (sc_Message c) NodeHasPublished"
    unfolding v_def reported_condition using assms(2,3)
    by (cases "WorkerStatusSafety.condition_of (sp_Name sp) w")
      (auto simp: update_condition_def Let_def simp del: Contains.simps dest!: find_set)
  then have "\<not> unpublished_condition c" using reasons by (auto simp: unpublished_condition_def)
  then show ?thesis using not_unpublished [OF c(1,4)] v by simp
qed

text \<open>
  C8. A worker stays published as long as it is registered. For a service that is not withdrawn softly and not of the kind Skyline, and workers without conditions of that kind: when the
  registry answers, no worker that a pass writes is taken for unpublished while its address is registered and is one of the service's own nodes, which a service being deleted has none
  of, or on record.
\<close>

theorem registered_stays_published:
  assumes "getNodes r = Inr remotes" "sp_Type (ps s) \<noteq> ServiceSkyline" "\<not> sp_SoftDelete (ps s)"
    and "Write_worker v \<in> set (fst (publish_sync e api (Some r) s ws))"
    and "IP (Status v) \<in> registered r \<inter> (sliceToMap (own_nodes s ws) \<union> sliceToMap (getPublishedNodes s))"
    and "\<forall>w \<in> set ws. \<forall>c \<in> set (ServiceConditions (Status w)). sc_Type c \<noteq> ServiceSkyline"
  shows "\<not> IsWorkerUnpublished v"
proof -
  have pub: "getPublisher (Some r) s ws = Some r" using assms(2) by (simp add: getPublisher_def)
  obtain log ns where p: "publisher_sync r (getPublishedNodes s) (wanted_nodes s ws) (own_nodes s ws) (sp_SoftDelete (ps s)) = (log, Inr ns)"
    and mem: "Write_worker v \<in> set (initFinalizeService s) \<or> Write_worker v \<in> set log \<or> Write_worker v \<in> set (saveRemoteNodes api s ns) \<or>
      Write_worker v \<in> set (fst (updateWorkers e api (ps s) ws ns (ps_Deleting s) (sp_SoftDelete (ps s)) None)) \<or>
      Write_worker v \<in> set (fst (finish_pass api s ws (getPublishedNodes s) ns))"
    using publish_sync_run [OF pub assms(1)] assms(4) by metis
  have "Write_worker v \<notin> set log"
    using p by (auto simp: publisher_sync_def add_step_def update_step_def delete_step_def split: sum.splits prod.splits if_splits option.splits)
  moreover have "Write_worker v \<notin> set (save_loop api ips k n)" for ips k n
    by (induction api ips k n rule: save_loop.induct) (auto split: write_answer.split)
  ultimately have "Write_worker v \<in> set (fst (updateWorkers e api (ps s) ws ns (ps_Deleting s) (sp_SoftDelete (ps s)) None))"
    using mem by (auto simp: initFinalizeService_def saveRemoteNodes_def finish_pass_def softDelete_service_def deleteService_def Let_def split: if_splits)
  then obtain w where w: "w \<in> set ws" "v = syncWorkerServiceStatus e (ps s) ns (ps_Deleting s) False None w"
    using assms(3) by (auto simp: updateWorkers_def updateWorker_def Let_def split: if_splits)
  have "IP (Status w) \<in> sliceToMap ns" using sync_knows [OF p] assms(5) by (auto simp: w(2) report_keeps_IP)
  then obtain n where "remote_of ns (IP (Status w)) = Some n" using remote_of_registered by blast
  then show ?thesis using report_published [OF _ assms(2)] assms(6) w by blast
qed

text \<open>A registered, healthy worker without a condition is written, and is published.\<close>

theorem registered_stays_published_witness:
  "\<forall>e. let v = syncWorkerServiceStatus e (ps web_service) [at_ip ''1''] False False None web_worker in
     Write_worker v \<in> set (fst (publish_sync e willing (Some (holding [''1''])) web_service [web_worker])) \<and> \<not> IsWorkerUnpublished v"
proof (intro allI)
  fix e
  define v where "v = syncWorkerServiceStatus e (ps web_service) [at_ip ''1''] False False None web_worker"
  have c: "ServiceConditions (Status v) \<noteq> []"
    by (simp add: v_def syncWorkerServiceStatus_def remote_of_def at_ip_def SetWorkerServiceHealthCondition_def SyncWorkerServiceHealthStatus_def
        web_worker_def Let_def)
  have ip: "IP (Status v) = ''1''" by (simp add: v_def report_keeps_IP) (simp add: web_worker_def)
  have nodes: "getLocalNodes [web_worker] (ps web_service) = ([node_of web_worker], [node_of web_worker])"
    using web_nodes(1,2) by (auto simp: own_nodes_def wanted_nodes_def web_service_def intro: prod_eqI)
  have node: "node_IP (node_of web_worker) = ''1''" "\<not> Lost (node_of web_worker)" "\<not> Failed_node (node_of web_worker)"
    by (simp_all add: node_of_def web_samples worker_preds)
  have single: "sliceToMap [at_ip ip] = {ip}" "node_IP (at_ip ip) = ip" for ip
    by (simp_all add: at_ip_def sliceToMap_def)
  have "snd (publisher_sync (holding [''1'']) (getPublishedNodes web_service) [node_of web_worker] [node_of web_worker] False) = Inr [at_ip ''1'']"
    using web_nodes(3,5)
    by (simp add: publisher_sync_def holding_def diff_nodes_def single setToSlice_def node filterLostFaildNodes_def add_step_def update_step_def
        intersect_nodes_def union_nodes_def setToSliceBoth_def Let_def)
  then obtain log where "publisher_sync (holding [''1'']) (getPublishedNodes web_service) [node_of web_worker] [node_of web_worker] False = (log, Inr [at_ip ''1''])"
    by (metis prod.collapse)
  then have part: "registry_part willing (Some (holding [''1''])) web_service (getPublishedNodes web_service) [node_of web_worker] [node_of web_worker] =
    (log @ saveRemoteNodes willing web_service [at_ip ''1''], [at_ip ''1''], None)"
    by (simp add: registry_part_def web_service_def)
  have upd: "updateWorkers e willing (ps web_service) [web_worker] [at_ip ''1''] False False None = ([Write_worker v], False)"
    using c by (simp add: updateWorkers_def updateWorker_def willing_def v_def [symmetric] web_worker_def [THEN arg_cong, of "\<lambda>w. ServiceConditions (Status w)"])
  have sv: "getPublisher r web_service ws = r" "\<not> ps_Deleting web_service" "\<not> sp_SoftDelete (ps web_service)" for r ws
    by (simp_all add: getPublisher_def web_service_def)
  have w: "Write_worker v \<in> set (fst (publish_sync e willing (Some (holding [''1''])) web_service [web_worker]))"
    by (simp add: publish_sync_def nodes sv part upd finish_pass_def Let_def)
  have "\<not> IsWorkerUnpublished v"
    using registered_stays_published [OF _ _ _ w] unfolding web_nodes ip
    by (simp add: holding_def web_service_def) (simp add: web_worker_def)
  then show "let v = syncWorkerServiceStatus e (ps web_service) [at_ip ''1''] False False None web_worker in
     Write_worker v \<in> set (fst (publish_sync e willing (Some (holding [''1''])) web_service [web_worker])) \<and> \<not> IsWorkerUnpublished v"
    using w unfolding Let_def v_def [symmetric] by blast
qed

subsection \<open>What is remembered while the registry fails\<close>

text \<open>A condition with the note that the node was published, and a delete count that has not fallen below \<open>- k\<close>.\<close>

definition noted :: "nat \<Rightarrow> ServiceCondition \<Rightarrow> bool" where
  "noted k c \<longleftrightarrow> sc_Type c \<noteq> ServiceSkyline \<and> Contains (sc_Message c) NodeHasPublished \<and> sc_Reason c \<noteq> ReasonNotExist \<and>
     sc_Reason c \<noteq> InitServiceFalseState \<and> - int k \<le> sc_DeleteCount c"

definition has_noted :: "nat \<Rightarrow> WorkerNode \<Rightarrow> bool" where
  "has_noted k w \<longleftrightarrow> list_ex (noted k) (ServiceConditions (Status w))"

lemma has_noted_published:
  assumes "has_noted k w" "k \<le> 3600"
  shows "\<not> IsWorkerUnpublished w \<and> \<not> IsWorkerOfflined w"
proof -
  obtain c where c: "c \<in> set (ServiceConditions (Status w))" "noted k c" using assms(1) by (auto simp: has_noted_def list_ex_iff)
  have g: "graceful c" "\<not> unpublished_condition c"
    using c(2) assms(2) by (auto simp: noted_def unpublished_condition_def isGracefullyServiceType_def)
  have "\<not> IsWorkerUnpublished w"
  proof
    assume "IsWorkerUnpublished w"
    then have "\<forall>x \<in> set (ServiceConditions (Status w)). graceful x \<longrightarrow> graceful x \<and> sc_Status x \<noteq> ConditionTrue \<and> unpublished_condition x"
      unfolding IsWorkerUnpublished_def Let_def by (subst length_filter_sub [symmetric]) auto
    then show False using c(1) g by blast
  qed
  moreover have "count_conditions graceful w \<noteq> 0" using c(1) g(1) by (auto simp: filter_empty_conv)
  ultimately show ?thesis by (simp add: IsWorkerOfflined_def)
qed

lemma update_first_member: "update_first p f xs = Some ys \<Longrightarrow> x \<in> set xs \<Longrightarrow> x \<in> set ys \<or> f x \<in> set ys"
  by (induction xs arbitrary: ys) (auto split: if_splits)

lemma noted_updated:
  assumes "noted k c"
  shows "noted (Suc k) (update_condition e sp v d ConditionFalse score ReasonQueryError text iw sw (if sp_Type sp = ServiceGeneral then 1 else 0) c)"
  using assms update_condition_published [of c ConditionFalse] unfolding noted_def
  by (simp del: Contains.simps) (simp add: update_condition_def Let_def)

lemma noted_deleted:
  assumes "noted k c"
  shows "list_ex (noted (Suc k)) (delete_condition name True c)"
  using assms by (auto simp: noted_def delete_condition_def Let_def simp del: Contains.simps)

lemma noted_Suc: "noted k c \<Longrightarrow> noted (Suc k) c"
  by (simp add: noted_def)

text \<open>A report of a pass in which the registry failed.\<close>

lemma failing_report_noted:
  assumes "has_noted k w"
  shows "has_noted (Suc k) (syncWorkerServiceStatus e sp [] rel soft (Some text) w)"
proof -
  obtain c where c: "c \<in> set (ServiceConditions (Status w))" "noted k c" using assms by (auto simp: has_noted_def list_ex_iff)
  show ?thesis
  proof (cases "rel \<or> soft \<or> IsWorkerToRelease w")
    case True
    then have "ServiceConditions (Status (syncWorkerServiceStatus e sp [] rel soft (Some text) w)) =
      concat (map (delete_condition (sp_Name sp) True) (ServiceConditions (Status w)))"
      by (simp add: syncWorkerServiceStatus_def remote_of_def DeleteWorkerServiceHealthCondition_def SyncWorkerServiceHealthStatus_def)
    then show ?thesis using c noted_deleted [of k c "sp_Name sp"] by (fastforce simp: has_noted_def list_ex_iff)
  next
    case False
    define f where "f = update_condition e sp (Version (Status w)) '''' ConditionFalse 0 ReasonQueryError text False False (if sp_Type sp = ServiceGeneral then 1 else 0)"
    define p where "p = (\<lambda>c :: ServiceCondition. sc_ServiceName c = sp_Name sp \<or> sc_Name c = sp_Name sp)"
    define v where "v = SetWorkerServiceHealthCondition e sp '''' ConditionFalse 0 ReasonQueryError text False False w"
    have "ServiceConditions (Status (syncWorkerServiceStatus e sp [] rel soft (Some text) w)) = ServiceConditions (Status v)"
      using False by (simp add: syncWorkerServiceStatus_def remote_of_def report_status_def report_reason_def zero_node_def v_def)
    moreover have "has_noted (Suc k) v"
    proof (cases "update_first p f (ServiceConditions (Status w))")
      case None
      then have "set (ServiceConditions (Status w)) \<subseteq> set (ServiceConditions (Status v))"
        by (auto simp: v_def SetWorkerServiceHealthCondition_def SyncWorkerServiceHealthStatus_def Let_def p_def f_def)
      then show ?thesis using c noted_Suc by (auto simp: has_noted_def list_ex_iff)
    next
      case (Some cs)
      then have "ServiceConditions (Status v) = cs"
        by (simp add: v_def SetWorkerServiceHealthCondition_def SyncWorkerServiceHealthStatus_def Let_def p_def f_def)
      moreover have "noted (Suc k) (f c)" unfolding f_def by (rule noted_updated [OF c(2)])
      ultimately show ?thesis using update_first_member [OF Some c(1)] noted_Suc [OF c(2)] by (auto simp: has_noted_def list_ex_iff)
    qed
    ultimately show ?thesis by (simp add: has_noted_def)
  qed
qed

lemma registered_report_noted:
  assumes "remote_of ns (IP (Status w)) = Some n" "Health n \<or> \<not> node_InWarmup n" "sp_Type sp \<noteq> ServiceSkyline"
    and "\<forall>c \<in> set (ServiceConditions (Status w)). sc_Type c \<noteq> ServiceSkyline"
  shows "has_noted 0 (syncWorkerServiceStatus e sp ns False False None w)"
proof -
  define status where "status = report_status False (Health n)"
  define reason where "reason = report_reason (Some n) None"
  define v where "v = SetWorkerServiceHealthCondition e sp (ServiceDetail n) status (node_Score n) reason '''' (node_InWarmup n) (StartWarmup n) w"
  have ok: "status = ConditionTrue \<or> reason = ReasonServiceCheckFalse" and reasons: "reason \<noteq> ReasonNotExist" "reason \<noteq> InitServiceFalseState"
    using assms(2) by (auto simp: status_def report_status_def reason_def report_reason_def)
  define k where "k = (if sp_Type sp = ServiceGeneral then 1 else 0 :: int)"
  have m: "(if status = ConditionTrue \<or> reason = ReasonServiceCheckFalse then NodeHasPublished else '''') = NodeHasPublished" using ok by simp
  have k: "- int 0 \<le> k" by (simp add: k_def)
  have "\<exists>c. WorkerStatusSafety.condition_of (sp_Name sp) v = Some c \<and> noted 0 c"
  proof (cases "WorkerStatusSafety.condition_of (sp_Name sp) w")
    case None
    then show ?thesis using assms(3) reasons k unfolding v_def reported_condition m k_def [symmetric] by (simp add: noted_def Let_def del: Contains.simps)
  next
    case (Some c)
    then have "sc_Type c \<noteq> ServiceSkyline" using assms(4) by (auto dest: find_set)
    then show ?thesis using Some reasons k unfolding v_def reported_condition m k_def [symmetric]
      by (simp add: noted_def update_condition_def Let_def del: Contains.simps)
  qed
  then obtain c where "WorkerStatusSafety.condition_of (sp_Name sp) v = Some c" and n: "noted 0 c" by blast
  then have "c \<in> set (ServiceConditions (Status v))" by (auto dest: find_set)
  then have "has_noted 0 v" using n by (auto simp: has_noted_def list_ex_iff)
  moreover have "ServiceConditions (Status (syncWorkerServiceStatus e sp ns False False None w)) = ServiceConditions (Status v)"
    using assms(1) by (simp add: syncWorkerServiceStatus_def v_def status_def reason_def)
  ultimately show ?thesis by (simp add: has_noted_def)
qed

text \<open>
  An outage of the registry: a number of passes in which the query fails with an error other than the one for an unavailable server, which leaves the workers alone. The service may be
  released or withdrawn softly meanwhile, and the worker may change, be marked for release for instance, except for its service conditions.
\<close>

inductive outage :: "ServicePublisher \<Rightarrow> nat \<Rightarrow> WorkerNode \<Rightarrow> WorkerNode \<Rightarrow> bool" for sp where
  begins: "outage sp 0 w w"
| report: "outage sp k w v \<Longrightarrow> outage sp (Suc k) w (syncWorkerServiceStatus e sp [] rel soft (Some text) v)"
| change: "outage sp k w v \<Longrightarrow> ServiceConditions (Status v') = ServiceConditions (Status v) \<Longrightarrow> outage sp k w v'"

lemma outage_noted: "outage sp k w v \<Longrightarrow> has_noted 0 w \<Longrightarrow> has_noted k v"
proof (induction rule: outage.induct)
  case (report k w v e rel soft err)
  then show ?case by (blast intro: failing_report_noted)
qed (simp_all add: has_noted_def)

text \<open>
  C31. An outage of the registry does not make a published worker look withdrawn. Once a pass of a service that is not being released, not withdrawn softly and not of the kind Skyline has found the worker's
  node in the registry, healthy or at least not warming up, then through up to 3600 passes with failing queries, as long as nobody else changes its service conditions, the worker is
  taken neither for unpublished nor for offlined; no condition of the worker may be of the kind Skyline at the beginning.
\<close>

theorem registration_remembered:
  assumes "remote_of ns (IP (Status w)) = Some n" "Health n \<or> \<not> node_InWarmup n" "sp_Type sp \<noteq> ServiceSkyline"
    and "\<forall>c \<in> set (ServiceConditions (Status w)). sc_Type c \<noteq> ServiceSkyline"
    and "outage sp k (syncWorkerServiceStatus e sp ns False False None w) v" "k \<le> 3600"
  shows "\<not> IsWorkerUnpublished v \<and> \<not> IsWorkerOfflined v"
  using has_noted_published [OF outage_noted [OF assms(5) registered_report_noted [OF assms(1-4)]] assms(6)] .

text \<open>The worker's node is found, the worker is marked for release, and the next query fails.\<close>

theorem registration_remembered_witness:
  "\<forall>e e'. let w = syncWorkerServiceStatus e (ps web_service) [at_ip ''1''] False False None web_worker;
        v = syncWorkerServiceStatus e' (ps web_service) [] False False (Some ''timeout'') (SetWorkerToRelease w)
    in \<not> IsWorkerUnpublished v \<and> \<not> IsWorkerOfflined v"
proof (intro allI)
  fix e e'
  define w where "w = syncWorkerServiceStatus e (ps web_service) [at_ip ''1''] False False None web_worker"
  have "outage (ps web_service) 0 w (SetWorkerToRelease w)" by (rule outage.change [OF outage.begins]) (simp add: worker_setters)
  then have o: "outage (ps web_service) (Suc 0) w (syncWorkerServiceStatus e' (ps web_service) [] False False (Some ''timeout'') (SetWorkerToRelease w))"
    by (rule outage.report)
  have "remote_of [at_ip ''1''] (IP (Status web_worker)) = Some (at_ip ''1'')" by (simp add: remote_of_def web_worker_def)
  then have "\<not> IsWorkerUnpublished (syncWorkerServiceStatus e' (ps web_service) [] False False (Some ''timeout'') (SetWorkerToRelease w)) \<and>
    \<not> IsWorkerOfflined (syncWorkerServiceStatus e' (ps web_service) [] False False (Some ''timeout'') (SetWorkerToRelease w))"
    by (rule registration_remembered [OF _ _ _ _ o [unfolded w_def], folded w_def]) (simp_all add: at_ip_def web_service_def web_worker_def)
  then show "let w = syncWorkerServiceStatus e (ps web_service) [at_ip ''1''] False False None web_worker;
        v = syncWorkerServiceStatus e' (ps web_service) [] False False (Some ''timeout'') (SetWorkerToRelease w)
    in \<not> IsWorkerUnpublished v \<and> \<not> IsWorkerOfflined v"
    unfolding Let_def w_def [symmetric] .
qed

subsection \<open>Where registered nodes are forgotten\<close>

text \<open>A condition of a worker, as a first report makes it.\<close>

definition fresh_condition :: "worker_env \<Rightarrow> ServicePublisher \<Rightarrow> IPNode \<Rightarrow> WorkerNode \<Rightarrow> ServiceCondition" where
  "fresh_condition e sp n w = \<lparr>sc_Type = sp_Type sp, sc_ServiceName = sp_ServiceName sp, sc_Status = ConditionFalse, sc_Score = node_Score n,
     sc_LastTransitionTime = Some (Now e), sc_Reason = ReasonWarmUP, sc_Message = '''', sc_InWarmup = True,
     sc_DeleteCount = (if sp_Type sp = ServiceGeneral then 1 else 0), sc_Name = sp_Name sp, sc_StartWarmup = StartWarmup n, sc_Version = Version (Status w),
     sc_ServiceDetail = ''''\<rparr>"

text \<open>
  A service that is withdrawn softly is deleted with its nodes left in the registry: the conditions of the workers are looked up by the name of the object, which they carry only if
  it is also the name of the service, so an error of the registry, after which no node is known, is taken for an empty registry,
  and the registry is asked to remove nothing.
\<close>

theorem soft_delete_forgets:
  assumes "getNodes r = Inl (Plain_error text)" "sp_SoftDelete (ps s)" "\<not> ps_Deleting s" "sp_Type (ps s) \<noteq> ServiceSkyline"
    and "list_all (\<lambda>w. list_all (\<lambda>c. sc_ServiceName c \<noteq> sp_Name (ps s)) (ServiceConditions (Status w))) ws"
    and "worker_answer api = (\<lambda>_. Written)" "finalize_answer api = Written"
  shows "Delete_service \<in> set (fst (publish_sync e api (Some r) s ws)) \<and>
    list_all (\<lambda>q. \<not> to_registry q) (fst (publish_sync e api (Some r) s ws))"
proof -
  have part: "registry_part api (getPublisher (Some r) s ws) s ps' wanted own = ([], [], Some (Plain_error text))" for ps' wanted own
    using assms(1,4) by (simp add: registry_part_def getPublisher_def publisher_sync_def)
  have "\<not> snd (updateWorkers e api (ps s) ws [] False True (Some text))"
    using assms(6) by (auto simp: updateWorkers_def updateWorker_def list_ex_iff Let_def)
  moreover have "Delete_service \<in> set (fst (finish_pass api s ws (getPublishedNodes s) []))"
    using assms(2,3,5,7) by (auto simp: finish_pass_def softDelete_service_def deleteService_def list_all_iff Let_def)
  ultimately have "Delete_service \<in> set (fst (publish_sync e api (Some r) s ws))"
    using assms(2,3) by (simp add: publish_sync_def part Let_def isNameServerUnavailable_def split_beta)
  moreover have "elsewhere (fst (publish_sync e api (Some r) s ws))"
  proof (rule publish_sync_log [of e api "Some r" s ws])
    fix writes ending
    assume log: "fst (publish_sync e api (Some r) s ws) = (if ps_Deleting s then [] else initFinalizeService s) @
       fst (registry_part api (getPublisher (Some r) s ws) s (getPublishedNodes s) (wanted_nodes s ws) (own_nodes s ws)) @ writes @ ending"
      and "elsewhere (writes @ ending)"
    then show ?thesis unfolding log part using initFinalizeService_elsewhere [of s] by simp
  qed
  ultimately show ?thesis by blast
qed

theorem soft_delete_forgets_witness:
  "\<forall>e. let s = web_service\<lparr>ps := (ps web_service)\<lparr>sp_SoftDelete := True\<rparr>\<rparr>; r = (holding [])\<lparr>getNodes := Inl (Plain_error ''timeout'')\<rparr>;
        w = web_worker\<lparr>Status := (Status web_worker)\<lparr>ServiceConditions := [(fresh_condition e (ps s) (at_ip ''1'') web_worker)\<lparr>sc_Message := NodeHasPublished\<rparr>]\<rparr>\<rparr>;
        log = fst (publish_sync e willing (Some r) s [w])
    in Delete_service \<in> set log \<and> list_all (\<lambda>q. \<not> to_registry q) log"
  unfolding Let_def by (intro allI soft_delete_forgets) (simp_all add: web_service_def willing_def fresh_condition_def)

end
