(* ===== verification/Eviction.thy ===== *)
theory Eviction
  imports WorkerRoles Pods WorkerStatusSafety
begin

text \<open>
  \<^verbatim>\<open>controller/workernode-eviction/syncer.go\<close>: an eviction names workers by their slots; the controller releases those that still run in the slot that was named. The listers, the
  answers of the API server and the parser of a pod's schedule status are parameters; so is what the batch executor makes of a command: it can refuse it, and it can give up
  waiting for it.
\<close>

subsection \<open>Data\<close>

record ReclaimWorkerNode =
  WorkerNodeID :: string
  rw_SlaveAddress :: "string option"
  rw_Id :: "int32 option"

record HippoPrefrence =
  pref_Scope :: "string option"
  pref_Type :: "string option"
  pref_TTL :: "int32 option"

record WorkerNodeEvictionSpec =
  ev_AppName :: string
  WorkerNodes :: "ReclaimWorkerNode option list"
  Pref :: "HippoPrefrence option"

datatype 'a lookup_answer = Found 'a | Missing | Lookup_error string

record eviction_env =
  ev_Now :: int
  ev_defaultPodVersion :: string
  get_worker :: "string \<Rightarrow> WorkerNode lookup_answer"
  list_workers :: "string \<Rightarrow> string + WorkerNode list"
  get_pod :: "string \<Rightarrow> Pod lookup_answer"
  unmarshal_slot :: "string \<Rightarrow> HippoSlotID option"
  update_worker :: "WorkerNode \<Rightarrow> string option"
  delete_eviction :: "string option"
  update_eviction :: "string option"
  refused :: "nat \<Rightarrow> bool"
  timed_out :: "nat \<Rightarrow> bool"

datatype eviction_request = Update_worker WorkerNode | Delete_eviction | Update_eviction "ReclaimWorkerNode option list"

subsection \<open>One worker\<close>

definition genEvictLabel :: "HippoPrefrence option \<Rightarrow> string" where
  "genEvictLabel pref =
     (case pref of
        None \<Rightarrow> ''''
      | Some p \<Rightarrow>
          (case (pref_Scope p, pref_Type p) of
             (Some scope, Some type) \<Rightarrow> scope @ ''-'' @ type @ ''-'' @ FormatInt (case pref_TTL p of None \<Rightarrow> 600 | Some ttl \<Rightarrow> ttl)
           | _ \<Rightarrow> ''''))"

text \<open>The address, the slot and whether an error goes with them.\<close>

definition getSlotIDFromPod :: "eviction_env \<Rightarrow> Pod \<Rightarrow> string \<times> int32 \<times> string option" where
  "getSlotIDFromPod e p =
     (if IsAsiPod (ev_defaultPodVersion e) p then
        let slaveAddress = pod_HostIP p @ '':7007'' in
        (case ParseInt (sget (pod_Annotations p) ''app.hippo.io/slotID'') of
           None \<Rightarrow> (slaveAddress, 0, Some ''parse slot id error'')
         | Some n \<Rightarrow> (slaveAddress, i32 n, None))
      else
        case find (\<lambda>c. pc_Type c = ''app.hippo.io/ScheduleStatusExtend'') (pod_Conditions p) of
          None \<Rightarrow> ('''', 0, None)
        | Some c \<Rightarrow>
            (case unmarshal_slot e (pc_Message c) of
               None \<Rightarrow> ('''', 0, Some ''unmarshal error'')
             | Some slot \<Rightarrow> (SlaveAddress slot, i32 (SlotID slot), None)))"

definition getWorkernodeID :: "eviction_env \<Rightarrow> string \<Rightarrow> string \<Rightarrow> int32 \<Rightarrow> string + string" where
  "getWorkernodeID e appName address slot =
     (case list_workers e appName of
        Inl err \<Rightarrow> Inl err
      | Inr ws \<Rightarrow>
          Inr (case find (\<lambda>w. i32 (SlotID (st_SlotID (Status w))) = slot \<and> SlaveAddress (st_SlotID (Status w)) = address) ws of
                 None \<Rightarrow> '''' | Some w \<Rightarrow> Name w))"

text \<open>The requests, whether the worker is done with, the entry, and the error.\<close>

type_synonym reclaim_result = "eviction_request list \<times> bool \<times> ReclaimWorkerNode option \<times> string option"

definition slot_matches :: "eviction_env \<Rightarrow> Pod \<Rightarrow> string \<Rightarrow> int32 \<Rightarrow> bool" where
  "slot_matches e p address slot =
     (case getSlotIDFromPod e p of (currentAddress, currentSlot, err) \<Rightarrow>
        err = None \<and> currentAddress = address \<and> currentSlot = slot)"

definition slot_unknown :: "eviction_env \<Rightarrow> Pod \<Rightarrow> string \<Rightarrow> int32 \<Rightarrow> bool" where
  "slot_unknown e p address slot =
     (case getSlotIDFromPod e p of (currentAddress, currentSlot, err) \<Rightarrow>
        err \<noteq> None \<and> \<not> (currentAddress \<noteq> '''' \<and> currentAddress \<noteq> address) \<and> slot = 0 \<and>
        (case pod_CreationTimestamp p of None \<Rightarrow> True | Some t \<Rightarrow> \<not> ev_Now e - t < 300))"

definition release_evicted :: "eviction_env \<Rightarrow> WorkerNode \<Rightarrow> ReclaimWorkerNode \<Rightarrow> string \<Rightarrow> worker_error + reclaim_result" where
  "release_evicted e w rw prefLabel =
     (if prefLabel \<noteq> '''' \<and> Labels w = None then Inl NilMapWrite
      else
        let w' = set_spec (\<lambda>s. s\<lparr>Releasing := True\<rparr>) w;
            w' = (if prefLabel \<noteq> '''' then w'\<lparr>Labels := sput LabelKeyHippoPreference prefLabel (Labels w')\<rparr> else w')
        in Inr (case update_worker e w' of
                  Some err \<Rightarrow> ([Update_worker w'], False, Some rw, Some err)
                | None \<Rightarrow> ([Update_worker w'], True, Some rw, None)))"

definition check_pod :: "eviction_env \<Rightarrow> WorkerNode \<Rightarrow> ReclaimWorkerNode \<Rightarrow> string \<Rightarrow> int32 \<Rightarrow> string \<Rightarrow> worker_error + reclaim_result" where
  "check_pod e w rw address slot prefLabel =
     (case GetPodName w of
        Inl SliceOutOfRange \<Rightarrow> Inl SliceOutOfRange
      | name \<Rightarrow>
          (case get_pod e (case name of Inl _ \<Rightarrow> '''' | Inr n \<Rightarrow> n) of
             Missing \<Rightarrow> Inr ([], True, Some rw, None)
           | Lookup_error err \<Rightarrow> Inr ([], False, Some rw, Some err)
           | Found p \<Rightarrow>
               (case getSlotIDFromPod e p of (_, _, err) \<Rightarrow>
                  if slot_matches e p address slot \<or> slot_unknown e p address slot then release_evicted e w rw prefLabel
                  else if err = None then Inr ([], True, Some rw, None)
                  else Inr ([], False, Some rw, err))))"

definition workerNodeReclaimed :: "eviction_env \<Rightarrow> string \<Rightarrow> ReclaimWorkerNode option \<Rightarrow> string \<Rightarrow> worker_error + reclaim_result" where
  "workerNodeReclaimed e appName entry prefLabel =
     (case entry of
        None \<Rightarrow> Inr ([], True, None, None)
      | Some rw \<Rightarrow>
          (case (rw_SlaveAddress rw, rw_Id rw) of
             (Some address, Some slot) \<Rightarrow>
               if address = '''' \<or> slot = - 1 then Inr ([], True, Some rw, None)
               else
                 (case (if WorkerNodeID rw = '''' \<and> slot \<noteq> 0 then getWorkernodeID e appName address slot else Inr (WorkerNodeID rw)) of
                    Inl err \<Rightarrow> Inr ([], False, Some rw, Some err)
                  | Inr name \<Rightarrow>
                      if WorkerNodeID rw = '''' \<and> slot \<noteq> 0 \<and> name = '''' then Inr ([], True, Some rw, None)
                      else
                        let rw = rw\<lparr>WorkerNodeID := name\<rparr> in
                        (case get_worker e name of
                           Missing \<Rightarrow> Inr ([], True, Some rw, None)
                         | Lookup_error err \<Rightarrow> Inr ([], False, Some rw, Some err)
                         | Found w \<Rightarrow> if Spec_Reclaim (Spec w) then Inr ([], True, Some rw, None) else check_pod e w rw address slot prefLabel))
           | _ \<Rightarrow> Inr ([], True, Some rw, None)))"

subsection \<open>The batch\<close>

text \<open>What is left of the entry at position \<open>i\<close>: a refused command leaves it; one that ended with an error, or not in time, does not.\<close>

definition remaining :: "eviction_env \<Rightarrow> nat \<Rightarrow> ReclaimWorkerNode option \<Rightarrow> reclaim_result \<Rightarrow> ReclaimWorkerNode option list" where
  "remaining e i entry result =
     (case result of (_, reclaimed, entry', err) \<Rightarrow>
        if refused e i then [entry]
        else if timed_out e i then []
        else if err \<noteq> None then []
        else if reclaimed then []
        else [entry'])"

fun sync_entries :: "eviction_env \<Rightarrow> string \<Rightarrow> string \<Rightarrow> nat \<Rightarrow> ReclaimWorkerNode option list \<Rightarrow>
    worker_error + eviction_request list \<times> ReclaimWorkerNode option list" where
  "sync_entries e appName prefLabel i [] = Inr ([], [])"
| "sync_entries e appName prefLabel i (entry # entries) =
     (case workerNodeReclaimed e appName entry prefLabel of
        Inl err \<Rightarrow> Inl err
      | Inr result \<Rightarrow>
          (case sync_entries e appName prefLabel (Suc i) entries of
             Inl err \<Rightarrow> Inl err
           | Inr (qs, rest) \<Rightarrow> Inr ((if refused e i then [] else fst result) @ qs, remaining e i entry result @ rest)))"

definition doSyncWorkerNodesPref :: "eviction_env \<Rightarrow> WorkerNodeEvictionSpec \<Rightarrow> worker_error + eviction_request list \<times> ReclaimWorkerNode option list" where
  "doSyncWorkerNodesPref e spec = sync_entries e (ev_AppName spec) (genEvictLabel (Pref spec)) 0 (WorkerNodes spec)"

text \<open>The requests and the error of a pass.\<close>

definition eviction_sync :: "eviction_env \<Rightarrow> WorkerNodeEvictionSpec \<Rightarrow> worker_error + eviction_request list \<times> string option" where
  "eviction_sync e spec =
     (if WorkerNodes spec = [] then Inr ([Delete_eviction], delete_eviction e)
      else case doSyncWorkerNodesPref e spec of
        Inl err \<Rightarrow> Inl err
      | Inr (qs, remainWorkers) \<Rightarrow>
          if remainWorkers = [] then Inr (qs @ [Delete_eviction], delete_eviction e)
          else Inr (qs @ [Update_eviction remainWorkers], update_eviction e))"

text \<open>One worker in slot 7 of a host; its update is refused by the API server.\<close>

definition slotted_pod :: Pod where
  "slotted_pod = \<lparr>pod_Name = ''w-pod'', pod_UID = ''u'', pod_Labels = sput LabelKeyPodVersion PodVersion3 None,
     pod_Annotations = sput ''app.hippo.io/slotID'' ''7'' None, pod_Finalizers = [], pod_CreationTimestamp = Some 0, pod_DeletionTimestamp = None,
     pod_NodeName = ''n'', pod_SchedulerName = [], pod_RestartPolicy = [], pod_Containers = [], pod_SpecRest = [], pod_Phase = PodRunning, pod_Reason = [],
     pod_HostIP = ''h'', pod_PodIP = ''1'', pod_Conditions = [], pod_ContainerStatuses = []\<rparr>"

definition slotted_worker :: WorkerNode where
  "slotted_worker = healthy_worker\<lparr>Name := ''w'', Status := (Status healthy_worker)\<lparr>EntityName := ''w-pod''\<rparr>\<rparr>"

definition evicting :: "string option \<Rightarrow> eviction_env" where
  "evicting answer = \<lparr>ev_Now = 1000, ev_defaultPodVersion = PodVersion3, get_worker = (\<lambda>name. if name = ''w'' then Found slotted_worker else Missing),
     list_workers = (\<lambda>_. Inr [slotted_worker]), get_pod = (\<lambda>name. if name = ''w-pod'' then Found slotted_pod else Missing), unmarshal_slot = (\<lambda>_. None),
     update_worker = (\<lambda>_. answer), delete_eviction = None, update_eviction = None, refused = (\<lambda>_. False), timed_out = (\<lambda>_. False)\<rparr>"

definition one_eviction :: WorkerNodeEvictionSpec where
  "one_eviction = \<lparr>ev_AppName = ''app'', WorkerNodes = [Some \<lparr>WorkerNodeID = ''w'', rw_SlaveAddress = Some ''h:7007'', rw_Id = Some 7\<rparr>], Pref = None\<rparr>"

lemma evicting_run:
  "eviction_sync (evicting answer) one_eviction = Inr ([Update_worker (set_spec (\<lambda>s. s\<lparr>Releasing := True\<rparr>) slotted_worker), Delete_eviction], None)"
proof -
  have slot: "getSlotIDFromPod (evicting answer) slotted_pod = (''h:7007'', 7, None)"
    by (simp add: getSlotIDFromPod_def evicting_def slotted_pod_def IsAsiPod_def atoi_def digit_val_def i32_def Let_def)
  have "get_pod (evicting answer) ''w-pod'' = Found slotted_pod" by (simp add: evicting_def)
  moreover have "GetPodName slotted_worker = Inr ''w-pod''" by (simp add: GetPodName_def slotted_worker_def)
  moreover have "slot_matches (evicting answer) slotted_pod ''h:7007'' 7" by (simp add: slot_matches_def slot)
  ultimately have "check_pod (evicting answer) slotted_worker rw ''h:7007'' 7 label = release_evicted (evicting answer) slotted_worker rw label" for rw label
    by (simp add: check_pod_def slot)
  moreover have "\<not> Spec_Reclaim (Spec slotted_worker)" by (simp add: slotted_worker_def healthy_worker_def empty_worker_def)
  ultimately show ?thesis
    by (simp add: eviction_sync_def doSyncWorkerNodesPref_def one_eviction_def workerNodeReclaimed_def genEvictLabel_def)
      (simp add: evicting_def release_evicted_def remaining_def Let_def split: option.split)
qed

subsection \<open>What is released\<close>

text \<open>The worker an entry means: the one with its name, or, for an entry without a name but with a slot number, the first one of the application whose status holds that slot.\<close>

definition names_worker :: "eviction_env \<Rightarrow> string \<Rightarrow> ReclaimWorkerNode \<Rightarrow> string \<Rightarrow> int32 \<Rightarrow> WorkerNode \<Rightarrow> bool" where
  "names_worker e app rw address slot w \<longleftrightarrow>
     (if WorkerNodeID rw = '''' \<and> slot \<noteq> 0 then
        \<exists>ws x. list_workers e app = Inr ws \<and> Name x \<noteq> '''' \<and> get_worker e (Name x) = Found w \<and>
          find (\<lambda>y. i32 (SlotID (st_SlotID (Status y))) = slot \<and> SlaveAddress (st_SlotID (Status y)) = address) ws = Some x
      else get_worker e (WorkerNodeID rw) = Found w)"

text \<open>The pod of a worker: the one whose name the worker's status, or else the worker's own name, gives.\<close>

definition pod_of :: "eviction_env \<Rightarrow> WorkerNode \<Rightarrow> Pod lookup_answer" where
  "pod_of e w = get_pod e (case GetPodName w of Inl _ \<Rightarrow> '''' | Inr n \<Rightarrow> n)"

text \<open>The worker with the release mark and, where there is one, the preference.\<close>

definition released_copy :: "string \<Rightarrow> WorkerNode \<Rightarrow> WorkerNode" where
  "released_copy prefLabel w =
     (let w' = set_spec (\<lambda>s. s\<lparr>Releasing := True\<rparr>) w in
      if prefLabel = '''' then w' else w'\<lparr>Labels := sput LabelKeyHippoPreference prefLabel (Labels w)\<rparr>)"

text \<open>
  A worker is released for an entry only if the entry means it, it is not reclaimed already, and its own pod is in the slot of the entry, or the entry has slot 0 and the slot of the
  pod, which is not younger than five minutes, cannot be read.
\<close>

definition evicted_by :: "eviction_env \<Rightarrow> string \<Rightarrow> string \<Rightarrow> ReclaimWorkerNode option list \<Rightarrow> WorkerNode \<Rightarrow> bool" where
  "evicted_by e app prefLabel entries v \<longleftrightarrow>
     (\<exists>rw address slot w p. Some rw \<in> set entries \<and> rw_SlaveAddress rw = Some address \<and> rw_Id rw = Some slot \<and> address \<noteq> '''' \<and> slot \<noteq> - 1 \<and>
        names_worker e app rw address slot w \<and> \<not> Spec_Reclaim (Spec w) \<and>
        pod_of e w = Found p \<and> (slot_matches e p address slot \<or> slot_unknown e p address slot) \<and>
        v = released_copy prefLabel w)"

lemma release_evicted_request:
  assumes "release_evicted e w rw label = Inr (qs, done, entry, err)" "q \<in> set qs"
  shows "q = Update_worker (released_copy label w)"
  using assms by (auto simp: release_evicted_def released_copy_def Let_def split: if_splits option.splits)

lemma check_pod_request:
  assumes "check_pod e w rw address slot label = Inr (qs, done, entry, err)" "q \<in> set qs"
  shows "\<exists>p. pod_of e w = Found p \<and> (slot_matches e p address slot \<or> slot_unknown e p address slot) \<and> q = Update_worker (released_copy label w)"
proof -
  have "\<exists>p. pod_of e w = Found p \<and> (slot_matches e p address slot \<or> slot_unknown e p address slot) \<and> release_evicted e w rw label = Inr (qs, done, entry, err)"
    using assms by (auto simp: check_pod_def pod_of_def split: sum.splits worker_error.splits lookup_answer.splits prod.splits if_splits)
  then show ?thesis using release_evicted_request [OF _ assms(2)] by blast
qed

lemma reclaimed_request:
  assumes "workerNodeReclaimed e app entry label = Inr (qs, done, entry', err)" "q \<in> set qs"
  shows "\<exists>v. q = Update_worker v \<and> evicted_by e app label [entry] v"
proof -
  obtain rw address slot where a: "entry = Some rw" "rw_SlaveAddress rw = Some address" "rw_Id rw = Some slot" "address \<noteq> ''''" "slot \<noteq> - 1"
    using assms by (auto simp: workerNodeReclaimed_def split: option.splits if_splits)
  have "\<exists>rw' w. names_worker e app rw address slot w \<and> \<not> Spec_Reclaim (Spec w) \<and>
      check_pod e w rw' address slot label = Inr (qs, done, entry', err)"
    using assms a
    by (cases "WorkerNodeID rw = '''' \<and> slot \<noteq> 0")
      (auto simp: workerNodeReclaimed_def names_worker_def getWorkernodeID_def Let_def split: option.splits sum.splits lookup_answer.splits if_splits)
  then obtain rw' w where "names_worker e app rw address slot w" "\<not> Spec_Reclaim (Spec w)"
    and c: "check_pod e w rw' address slot label = Inr (qs, done, entry', err)"
    by blast
  then show ?thesis using a check_pod_request [OF c assms(2)] unfolding evicted_by_def by auto
qed

lemma evicted_by_mono: "evicted_by e app label xs v \<Longrightarrow> set xs \<subseteq> set ys \<Longrightarrow> evicted_by e app label ys v"
  unfolding evicted_by_def by blast

lemma sync_entries_requests:
  "sync_entries e app label i entries = Inr (qs, rest) \<Longrightarrow> q \<in> set qs \<Longrightarrow> \<exists>v. q = Update_worker v \<and> evicted_by e app label entries v"
proof (induction e app label i entries arbitrary: qs rest rule: sync_entries.induct)
  case (2 e app label i entry entries)
  obtain result qs' rest' where r: "workerNodeReclaimed e app entry label = Inr result" "sync_entries e app label (Suc i) entries = Inr (qs', rest')"
    and qs: "qs = (if refused e i then [] else fst result) @ qs'"
    using "2.prems"(1) by (auto split: sum.splits)
  show ?case
  proof (cases "q \<in> set qs'")
    case True
    then show ?thesis using "2.IH" [OF r(1) r(2)] evicted_by_mono [of e app label entries _ "entry # entries"] by auto
  next
    case False
    then have "q \<in> set (fst result)" using "2.prems"(2) qs by (auto split: if_splits)
    then obtain v where "q = Update_worker v" "evicted_by e app label [entry] v" using reclaimed_request r(1) by (cases result) fastforce
    then show ?thesis using evicted_by_mono [of e app label "[entry]" v "entry # entries"] by auto
  qed
qed simp

text \<open>
  C34. An eviction releases only what it names. Every worker that a pass updates is the worker an entry with a non-empty address and a slot other than -1 means (by name or, for an
  entry without a name and with a slot other than 0, by the slot in the worker's status), with the release mark and the preference and nothing else changed; the worker is not reclaimed
  already; and its own pod is in the slot of the entry, or the entry has slot 0, the slot of the pod cannot be read, its address does not contradict the entry's, and the pod is
  not younger than five minutes.
\<close>

theorem eviction_releases_named:
  assumes "eviction_sync e spec = Inr (qs, err)" "Update_worker v \<in> set qs"
  shows "evicted_by e (ev_AppName spec) (genEvictLabel (Pref spec)) (WorkerNodes spec) v"
proof (cases "WorkerNodes spec = []")
  case False
  then obtain qs' rest where s: "sync_entries e (ev_AppName spec) (genEvictLabel (Pref spec)) 0 (WorkerNodes spec) = Inr (qs', rest)"
    and "Update_worker v \<in> set qs'"
    using assms by (auto simp: eviction_sync_def doSyncWorkerNodesPref_def split: sum.splits if_splits)
  then show ?thesis using sync_entries_requests [OF s] by blast
qed (use assms in \<open>auto simp: eviction_sync_def\<close>)

theorem eviction_releases_named_witness:
  "evicted_by (evicting None) (ev_AppName one_eviction) (genEvictLabel (Pref one_eviction)) (WorkerNodes one_eviction)
     (set_spec (\<lambda>s. s\<lparr>Releasing := True\<rparr>) slotted_worker)"
  by (rule eviction_releases_named [OF evicting_run]) simp

subsection \<open>What is forgotten\<close>

lemma reclaimed_or_error:
  "workerNodeReclaimed e app entry label = Inr (qs, done, entry', err) \<Longrightarrow> done \<or> err \<noteq> None"
  by (auto simp: workerNodeReclaimed_def check_pod_def release_evicted_def Let_def
      split: option.splits sum.splits lookup_answer.splits worker_error.splits prod.splits if_splits)

lemma sync_entries_nothing_left:
  "sync_entries e app label i entries = Inr (qs, rest) \<Longrightarrow> (\<And>k. \<not> refused e k) \<Longrightarrow> rest = []"
  by (induction e app label i entries arbitrary: qs rest rule: sync_entries.induct)
    (auto simp: remaining_def dest: reclaimed_or_error split: sum.splits prod.splits)

text \<open>
  An eviction is never tried again: as long as the executor refuses no command, which it does only when asked not to wait, every pass ends by deleting the eviction, whatever went
  wrong with the single workers: an entry stays only if its worker is neither done with nor failed, and that never happens.
\<close>

theorem eviction_never_retried:
  assumes "eviction_sync e spec = Inr (qs, err)" "refused e = (\<lambda>_. False)"
  shows "Delete_eviction \<in> set qs \<and> err = delete_eviction e"
proof (cases "WorkerNodes spec = []")
  case False
  then obtain qs' rest where s: "sync_entries e (ev_AppName spec) (genEvictLabel (Pref spec)) 0 (WorkerNodes spec) = Inr (qs', rest)"
    using assms(1) by (auto simp: eviction_sync_def doSyncWorkerNodesPref_def split: sum.splits)
  then have "rest = []" using sync_entries_nothing_left [OF s] assms(2) by simp
  then show ?thesis using assms(1) False s by (auto simp: eviction_sync_def doSyncWorkerNodesPref_def)
qed (use assms(1) in \<open>auto simp: eviction_sync_def\<close>)

theorem eviction_never_retried_witness:
  "\<exists>qs err. eviction_sync (evicting (Some ''conflict'')) one_eviction = Inr (qs, err) \<and> Delete_eviction \<in> set qs \<and> err = delete_eviction (evicting (Some ''conflict''))"
  using evicting_run [of "Some ''conflict''"] eviction_never_retried [OF evicting_run, of "Some ''conflict''"] by (simp add: evicting_def)

end
