(* ===== verification/Spec2Isabelle.thy ===== *)
theory Spec2Isabelle
  imports ShardGroupSafety AdjusterSafety RollingSafety HealthCheckSafety ServicePublishingSafety Eviction
begin

text \<open>
  \<^bold>\<open>kube-sharding: the shard group controller, the rolling algorithms, the rolling set scheduler, the worker controller, the health checks and the service publishers.\<close>

  \<^bold>\<open>The program.\<close> kube-sharding is a set of Kubernetes controllers in Go. A \<^emph>\<open>shard group\<close> has several \<^emph>\<open>rolling sets\<close> (its shards), a rolling set
  has \<^emph>\<open>replicas\<close>, a replica is one or two \<^emph>\<open>worker nodes\<close> (a current one and perhaps a backup), and a worker node owns a pod. The development
  follows this from the top to the bottom:

  \<^item> the shard group controller creates, plans and removes the rolling sets of a group and reports its status;
  \<^item> the group scheduler turns the state of all shards into a target ratio and, for every version, a percentage that each shard has to hold;
  \<^item> the shard scheduler turns its part of that into a number of replicas per version, which never takes more replicas out of service than
    maxUnavailable allows;
  \<^item> the node set updater turns these numbers into nodes to create, to update in place and to delete;
  \<^item> the rolling set scheduler makes the arguments of the updater from a rolling set and its replicas, fills the standbys, and sends the requests;
  \<^item> the worker adjuster keeps the two workers of a replica the same, makes a backup for a bad one within a recovery quota, and swaps the two;
  \<^item> the worker state machine moves a worker from unassigned over assigned, lost and offlining to released, and drives the pod allocator, which
    creates, updates and deletes the pod;
  \<^item> the health checkers ask the workers of a rolling set and write what they found into their status, which the worker controller reads;
  \<^item> the service publishers keep the addresses of the workers that are to serve in a registry, and write into every worker whether it is published; the worker
    controller stops a pod only when it is not.

  \<^bold>\<open>What the code shares with other code\<close> is an argument of the model: the clock, flags, JSON texts, the API server's answers, the functions of
  Kubernetes and of other packages are fields of the records \<open>roll_env\<close>, \<open>worker_env\<close>, \<open>replica_env\<close>, \<open>rolling_env\<close>, \<open>group_env\<close>, \<open>health_env\<close>, \<open>registry\<close>,
  \<open>service_api\<close>, \<open>eviction_env\<close> and \<open>cluster\<close>. A statement with
  no hypothesis about a field holds for every such function.

  \<^bold>\<open>Conventions.\<close> An \<^verbatim>\<open>int32\<close> is an integer and every operation that may leave the range is wrapped by \<open>i32\<close>; an \<^verbatim>\<open>int64\<close> score by \<open>i64\<close>. A \<^verbatim>\<open>float64\<close> is a
  rational that is rounded after every operation (\<open>f64\<close>). A map is an association list in the order in which it is enumerated, and the
  statements hold for every order; a map of strings that is only looked up is a \<open>mapping\<close>, with \<open>None\<close> for nil. Errors and panics are values
  (\<open>roll_error\<close>, \<open>worker_error\<close>, \<open>rs_error\<close>, \<open>sg_error\<close>). Pointers that are shared are addresses into a \<open>heap\<close> of objects.

  \<^bold>\<open>Theories and sources\<close> (under \<^verbatim>\<open>src/\<close>).

  \<^item> \<open>GoPrelude\<close>, \<open>GoStrings\<close>, \<open>Float64\<close>: the language and its library (wrap-around, maps, \<^verbatim>\<open>sort.Sort\<close>, \<^verbatim>\<open>strconv\<close>, \<^verbatim>\<open>strings\<close>, binary64) and the lemmas
    that the components share.
  \<^item> \<open>RollTypes\<close>: \<^verbatim>\<open>pkg/rollalgorithm/type.go\<close>, \<^verbatim>\<open>util.go\<close>, \<^verbatim>\<open>helper.go\<close>. The float computation of the latest replicas is exact division.
  \<^item> \<open>HoldMatrix\<close>: \<^verbatim>\<open>hold_matrix.go\<close>, \<^verbatim>\<open>dependency.go\<close>. The percentages held by a group, and the orders of versions.
  \<^item> \<open>ShardScheduler\<close>, \<open>ShardSafety\<close>: \<^verbatim>\<open>shard_scheduler.go\<close>. The targets of \<^verbatim>\<open>Schedule\<close> keep the ready replicas that have to be kept, stay within the replicas
    and reach the target when nothing is held.
  \<^item> \<open>NodeSet\<close>, \<open>NodeSetSafety\<close>, \<open>NodeSetRun\<close>: \<^verbatim>\<open>nodeset_scheduler.go\<close>. The updater loses no node, gives every version its target, keeps the best nodes,
    and never cuts a slice out of range; as a whole it delivers what the shard scheduler asks for.
  \<^item> \<open>GroupScheduler\<close>: \<^verbatim>\<open>group_scheduler.go\<close>. A plan for every shard and no other; it returns or gives the error that the code has.
  \<^item> \<open>WorkerNode\<close>, \<open>WorkerState\<close>, \<open>WorkerStatus\<close>, \<open>WorkerStatusSafety\<close>, \<open>WorkerScore\<close>, \<open>WorkerRoles\<close>: \<^verbatim>\<open>pkg/apis/carbon/v1\<close> (\<^verbatim>\<open>workernode.go\<close>, \<^verbatim>\<open>helpers.go\<close>,
    \<^verbatim>\<open>service_publisher.go\<close>, \<^verbatim>\<open>labels_helper.go\<close>, \<^verbatim>\<open>types.go\<close>). When a worker is complete, bad, published or ready, its score, and which of two workers is
    current.
  \<^item> \<open>RecoverQuota\<close>: \<^verbatim>\<open>controller/worker/recover_quota.go\<close>. The rate limit over every time window and the bound on parallel recoveries.
  \<^item> \<open>Pods\<close>, \<open>PodAllocator\<close>: \<^verbatim>\<open>controller/worker/allocator.go\<close>, \<^verbatim>\<open>executor.go\<close>, \<^verbatim>\<open>allocator_ack.go\<close> and the helpers on pods.
  \<^item> \<open>WorkerMachine\<close>, \<open>WorkerMachineSafety\<close>, \<open>WorkerPasses\<close>: \<^verbatim>\<open>worker_processor.go\<close>, \<^verbatim>\<open>util.go\<close>. A pass ends, makes only steps of an abstract life cycle, takes
    no worker down that is to stay, and deletes or changes a pod only when it is out of service.
  \<^item> \<open>WorkerAdjuster\<close>, \<open>AdjusterSafety\<close>: \<^verbatim>\<open>worker_adjuster.go\<close>, \<^verbatim>\<open>scheduler.go\<close>. The adjuster never panics, leaves one current worker, and acts only for a
    reason; the requests of a whole schedule are safe.
  \<^item> \<open>Replicas\<close>: \<^verbatim>\<open>pkg/apis/carbon/v1/replica.go\<close>, \<^verbatim>\<open>gang.go\<close>, \<^verbatim>\<open>controller/rollingset/sort.go\<close>. Replicas as the nodes of the updater.
  \<^item> \<open>RollingSet\<close>, \<open>RollingStatus\<close>: \<^verbatim>\<open>pkg/apis/carbon/v1/rollingset.go\<close> and the status in \<^verbatim>\<open>controller/rollingset/util.go\<close>. The version map counts the active
    replicas, the counters agree, the capacity is split without loss.
  \<^item> \<open>RollingArgs\<close>, \<open>RollingScheduler\<close>, \<open>RollingSafety\<close>: \<^verbatim>\<open>controller/rollingset/scheduler.go\<close>, \<^verbatim>\<open>NewWorker\<close> of \<^verbatim>\<open>controller/util/obj.go\<close>. A pass writes no replica that
    it releases and removes none; the standbys reach their target and no replica is lost; a broadcast converges; created replicas
    are counted twice, which can make the pass panic.
  \<^item> \<open>ShardGroup\<close>, \<open>ShardGroupSafety\<close>: \<^verbatim>\<open>controller/shardgroup\<close>, \<^verbatim>\<open>pkg/apis/carbon/v1/shardgroup.go\<close>. A pass of the shard group controller carries out the schedule of the
    group scheduler and never misses a plan, removes, unless the group is deleted, only rolling sets without a template and only while those with one are complete, and computes an
    exact status; the version of a group changes only with what is signed. The removal does not wait for shards that are still to be created.

  \<^item> \<open>HealthCheck\<close>, \<open>HealthCheckSafety\<close>: \<^verbatim>\<open>controller/healthcheck\<close> (\<^verbatim>\<open>defaulthealthchecker.go\<close>, \<^verbatim>\<open>lv7healthchecker.go\<close>, \<^verbatim>\<open>advancedlv7healthchecker.go\<close>, \<^verbatim>\<open>healthchecktask.go\<close>). What the
    layer 7 checker keeps up from check to check equals the verdict on the whole list of answers; the advanced checker calls a worker ready only for a
    cause; a configuration without a path makes the advanced checker panic.
  \<^item> \<open>ServicePublishing\<close>, \<open>ServicePublishingSafety\<close>: \<^verbatim>\<open>controller/service-publisher\<close> (\<^verbatim>\<open>publisher.go\<close>, \<^verbatim>\<open>controller.go\<close>). A pass touches only its own nodes in the registry, brings
    them to what they should be, deletes a service only after its nodes, and does not take a registered worker for unpublished; through an outage of the
    registry it remembers what was registered. One way in which an error of the registry makes it forget nodes is shown.
  \<^item> \<open>Eviction\<close>: \<^verbatim>\<open>controller/workernode-eviction/syncer.go\<close>, \<^verbatim>\<open>pkg/apis/carbon/v1/workernodeeviction.go\<close>. An eviction releases only the workers it names, in the slots it names; an
    eviction that failed is never tried again.

  \<^bold>\<open>Interfaces\<close> are locales, each interpreted on the model of the code behind it: \<open>sorter\<close> (sorting permutes; \<open>gs\<close>, on \<open>go_sort\<close>), \<open>rounding\<close> (\<open>fl\<close>, on \<open>f64\<close>),
  \<open>shard_scheduling\<close> (what the node set updater needs of a shard scheduler; \<open>ip\<close>, on \<open>Schedule\<close>), \<open>group_nodes\<close> (the methods of a node; \<open>rn\<close>, on replicas),
  \<open>bounded_pool\<close> (\<open>pq\<close>, on the parallel quota), \<open>worker_allocator\<close> (what the state machine needs of its allocator; \<open>pa\<close>, on the pod allocator, for every
  cluster) and \<open>kept_nodes\<close> (a property of nodes that their methods keep; \<open>kn\<close>, on replicas that are not released).

  \<^bold>\<open>Bounds and termination.\<close> The recursions are structural or have a measure; the loops over maps and slices are folds. The one loop that may start
  again, the update of an assigned worker that is taken offline for a restart, counts its rounds; \<open>restart_rounds\<close> is two, and a pass is shown to
  return within it. Statements on counts assume, as hypotheses with
  witnesses, that they are in the range of \<^verbatim>\<open>int32\<close>; the batch of a pass is the source's \<^verbatim>\<open>ReplicaMaxBatchSize\<close> of 4000.

  \<^bold>\<open>Not modelled.\<close> Logs, metrics and events; deep copies (values are immutable; a copy is a new address where it matters); the quantities of container
  resources and the merging of pod specifications (parameters); the text of JSON patches. The event handlers of the rolling set controller, the
  signatures that make versions, grouped rolling sets, the event handlers of the shard group controller, the tasks and goroutines that run the health checks and the
  payload of their requests, the registries behind the service publishers, the metas sent to them and the manager of the publish tasks, the carbon job controller, the proxy and the transfer of types, the
  in-memory API server, the controller framework with its informers and queues, and generated code. The pool costs of the rolling set
  scheduler are computed and never used.
\<close>

end
